(* ===== verification/Prelude.thy ===== *)
theory Prelude
  imports Main "HOL-Library.List_Lexorder" "HOL-Library.Sublist"
begin

text \<open>
  What every component shares: the result type of a Python function that may raise, the early
  exit \<open>raise_if\<close> and the sequencing \<open>rbind\<close> of such functions, the left fold of a raising
  step (a loop that stops at the first exception) with the two interfaces its invariants are
  proved through, and the little list vocabulary (append-only extension, splitting and joining on
  a separator) that the data models use.
\<close>

named_theorems result_simps \<open>when a raising function returns\<close>

section \<open>Functions that may raise\<close>

fun rbind :: "'e + 'a \<Rightarrow> ('a \<Rightarrow> 'e + 'b) \<Rightarrow> 'e + 'b" where
  "rbind (Inl e) f = Inl e"
| "rbind (Inr x) f = f x"

definition raise_if :: "bool \<Rightarrow> 'e \<Rightarrow> 'e + 'a \<Rightarrow> 'e + 'a" where
  "raise_if c e k = (if c then Inl e else k)"

text \<open>The same early exit where the exception is only "this value is refused".\<close>

definition refuse_if :: "bool \<Rightarrow> 'a option \<Rightarrow> 'a option" where
  "refuse_if c k = (if c then None else k)"

lemma refuse_if_Some [simp, result_simps]: "refuse_if c k = Some x \<longleftrightarrow> \<not> c \<and> k = Some x"
  by (simp add: refuse_if_def)

lemma refuse_if_True [simp]: "c \<Longrightarrow> refuse_if c k = None"
  by (simp add: refuse_if_def)

lemma refuse_if_False [simp]: "\<not> c \<Longrightarrow> refuse_if c k = k"
  by (simp add: refuse_if_def)

declare Option.bind_eq_Some_conv [simp, result_simps]

fun from_option :: "'e \<Rightarrow> 'a option \<Rightarrow> 'e + 'a" where
  "from_option e None = Inl e"
| "from_option e (Some x) = Inr x"

lemma rbind_Inr [simp, result_simps]: "rbind m f = Inr y \<longleftrightarrow> (\<exists>x. m = Inr x \<and> f x = Inr y)"
  by (cases m) auto

lemma raise_if_Inr [simp, result_simps]: "raise_if c e k = Inr x \<longleftrightarrow> \<not> c \<and> k = Inr x"
  by (simp add: raise_if_def)

lemma raise_if_True [simp]: "c \<Longrightarrow> raise_if c e k = Inl e"
  by (simp add: raise_if_def)

lemma raise_if_False [simp]: "\<not> c \<Longrightarrow> raise_if c e k = k"
  by (simp add: raise_if_def)

lemma from_option_Inr [simp, result_simps]: "from_option e m = Inr x \<longleftrightarrow> m = Some x"
  by (cases m) auto

lemma rbind_cong [fundef_cong]:
  "m = m' \<Longrightarrow> (\<And>x. m' = Inr x \<Longrightarrow> f x = g x) \<Longrightarrow> rbind m f = rbind m' g"
  by (cases m') auto

text \<open>A loop that calls a raising step on every element and stops at the first exception.\<close>

fun rfold :: "('s \<Rightarrow> 'x \<Rightarrow> 'e + 's) \<Rightarrow> 's \<Rightarrow> 'x list \<Rightarrow> 'e + 's" where
  "rfold step s [] = Inr s"
| "rfold step s (x # xs) = rbind (step s x) (\<lambda>s'. rfold step s' xs)"

lemma rfold_append:
  "rfold step s (xs @ ys) = rbind (rfold step s xs) (\<lambda>s'. rfold step s' ys)"
proof (induction xs arbitrary: s)
  case Nil
  show ?case by simp
next
  case (Cons x xs)
  then show ?case by (cases "step s x") simp_all
qed

lemma rbind_return [simp]: "rbind m Inr = m"
  by (cases m) simp_all

lemma rfold_snoc: "rfold step s (xs @ [x]) = rbind (rfold step s xs) (\<lambda>s'. step s' x)"
  by (simp add: rfold_append)

text \<open>
  The two interfaces of a replay loop. A client shows that one accepted step keeps an invariant
  (\<open>step_invariant\<close>), or that it moves along a preorder (\<open>step_progress\<close>), and obtains the
  same for every accepted run.
\<close>

locale step_invariant =
  fixes step :: "'s \<Rightarrow> 'x \<Rightarrow> 'e + 's"
    and inv :: "'s \<Rightarrow> bool"
  assumes step_keeps: "inv s \<Longrightarrow> step s x = Inr s' \<Longrightarrow> inv s'"
begin

lemma run_keeps: "inv s \<Longrightarrow> rfold step s xs = Inr s' \<Longrightarrow> inv s'"
  by (induction xs arbitrary: s) (auto dest: step_keeps)

lemma run_keeps_prefix:
  assumes "inv s" and "rfold step s (xs @ ys) = Inr s'"
  obtains t where "rfold step s xs = Inr t" and "inv t" and "rfold step t ys = Inr s'"
  using assms run_keeps by (auto simp: rfold_append)

end

locale step_progress = step_invariant +
  fixes le :: "'s \<Rightarrow> 's \<Rightarrow> bool"
  assumes le_refl: "le s s"
    and le_trans: "le s t \<Longrightarrow> le t u \<Longrightarrow> le s u"
    and step_le: "inv s \<Longrightarrow> step s x = Inr s' \<Longrightarrow> le s s'"
begin

lemma run_le: "inv s \<Longrightarrow> rfold step s xs = Inr s' \<Longrightarrow> le s s'"
proof (induction xs arbitrary: s)
  case Nil
  then show ?case by (simp add: le_refl)
next
  case (Cons x xs)
  then obtain t where t: "step s x = Inr t" "rfold step t xs = Inr s'" by auto
  with Cons.prems have "le s t" and "inv t" by (auto intro: step_le step_keeps)
  with Cons.IH t show ?case by (blast intro: le_trans)
qed

lemma run_le_suffix:
  assumes "inv s" and "rfold step s xs = Inr t" and "rfold step s (xs @ ys) = Inr u"
  shows "le t u"
proof -
  from assms have "inv t" by (blast intro: run_keeps)
  with assms show ?thesis by (auto simp: rfold_append intro: run_le)
qed

end

section \<open>Lists\<close>

text \<open>\<open>list(after[:len(before)]) == list(before)\<close>: the append-only comparison of the ledgers.\<close>

definition extends :: "'a list \<Rightarrow> 'a list \<Rightarrow> bool" where
  "extends before after \<longleftrightarrow> \<not> (length after < length before \<or> take (length before) after \<noteq> before)"

lemma extends_prefix: "extends xs ys \<longleftrightarrow> prefix xs ys"
  by (auto simp: extends_def prefix_def not_less)
    (metis append_take_drop_id)

lemma extends_refl [simp]: "extends xs xs"
  by (simp add: extends_def)

lemma extends_trans: "extends xs ys \<Longrightarrow> extends ys zs \<Longrightarrow> extends xs zs"
  by (auto simp: extends_prefix intro: prefix_order.trans)

lemma extends_append [simp]: "extends xs (xs @ ys)"
  by (simp add: extends_prefix)

lemma extends_length: "extends xs ys \<Longrightarrow> length xs \<le> length ys"
  by (simp add: extends_def)

lemma extends_nth: "extends xs ys \<Longrightarrow> i < length xs \<Longrightarrow> ys ! i = xs ! i"
  by (metis extends_def nth_take)

text \<open>\<open>str.split(sep)\<close> and \<open>sep.join(parts)\<close> for a one-character separator.\<close>

fun split_on :: "'a \<Rightarrow> 'a list \<Rightarrow> 'a list list" where
  "split_on c [] = [[]]"
| "split_on c (x # xs) =
     (if x = c then [] # split_on c xs
      else (case split_on c xs of [] \<Rightarrow> [[x]] | p # ps \<Rightarrow> (x # p) # ps))"

fun join_on :: "'a \<Rightarrow> 'a list list \<Rightarrow> 'a list" where
  "join_on c [] = []"
| "join_on c [p] = p"
| "join_on c (p # q # ps) = p @ c # join_on c (q # ps)"

lemma split_on_nonempty [simp]: "split_on c xs \<noteq> []"
  by (induction xs) (auto split: list.split)

lemma join_split [simp]: "join_on c (split_on c xs) = xs"
proof (induction xs)
  case Nil
  show ?case by simp
next
  case (Cons x xs)
  obtain p ps where "split_on c xs = p # ps" by (cases "split_on c xs") auto
  with Cons show ?case by (cases ps) auto
qed

lemma split_on_no_sep: "p \<in> set (split_on c xs) \<Longrightarrow> c \<notin> set p"
  by (induction xs arbitrary: p) (auto split: if_splits list.splits)

lemma split_on_subset: "p \<in> set (split_on c xs) \<Longrightarrow> set p \<subseteq> set xs"
  by (induction xs arbitrary: p) (fastforce split: if_splits list.splits)+

lemma split_covers: "d \<in> set v \<Longrightarrow> d \<noteq> c \<Longrightarrow> \<exists>p \<in> set (split_on c v). d \<in> set p"
  by (induction c v rule: split_on.induct) (auto split: list.splits if_splits)

lemma split_on_plain: "c \<notin> set p \<Longrightarrow> split_on c p = [p]"
  by (induction p) auto

lemma split_on_append_sep: "c \<notin> set p \<Longrightarrow> split_on c (p @ c # xs) = p # split_on c xs"
  by (induction p) auto

lemma split_join: "ps \<noteq> [] \<Longrightarrow> \<forall>p \<in> set ps. c \<notin> set p \<Longrightarrow> split_on c (join_on c ps) = ps"
  by (induction c ps rule: join_on.induct) (auto simp: split_on_plain split_on_append_sep)

lemma set_join_on: "set (join_on c ps) \<subseteq> insert c (\<Union> (set ` set ps))"
  by (induction c ps rule: join_on.induct) auto

lemma join_on_inj:
  assumes "ps \<noteq> []" "qs \<noteq> []" "\<forall>p \<in> set ps. c \<notin> set p" "\<forall>p \<in> set qs. c \<notin> set p"
    and "join_on c ps = join_on c qs"
  shows "ps = qs"
  using assms by (metis split_join)

text \<open>A Python index that may be out of range.\<close>

definition nth_opt :: "'a list \<Rightarrow> nat \<Rightarrow> 'a option" where
  "nth_opt xs i = (if i < length xs then Some (xs ! i) else None)"

lemma nth_opt_Some [simp]: "nth_opt xs i = Some x \<longleftrightarrow> i < length xs \<and> xs ! i = x"
  by (auto simp: nth_opt_def)

definition last_opt :: "'a list \<Rightarrow> 'a option" where
  "last_opt xs = (if xs = [] then None else Some (last xs))"

lemma last_opt_simps [simp]:
  "last_opt [] = None" "last_opt (xs @ [x]) = Some x"
  "last_opt xs = None \<longleftrightarrow> xs = []" "last_opt xs = Some x \<longleftrightarrow> xs \<noteq> [] \<and> last xs = x"
  by (auto simp: last_opt_def)

end
