(* ===== verification/PyText.thy ===== *)
theory PyText
  imports Prelude
begin

text \<open>
  Python strings and the scalar grammar of \<open>milestone_runner/models.py\<close>. A \<open>str\<close> is the list of
  its code points (\<open>pystr\<close>), so that lengths, surrogates and bidirectional controls mean what
  they mean in Python; \<open>lit\<close> reads an ASCII literal. \<open>pyenv\<close> holds the library functions whose
  bodies are not in the repository: \<open>hashlib.sha256(...).hexdigest()\<close> on bytes,
  \<open>unicodedata.normalize("NFC", ...)\<close>, and the Unicode tables behind \<open>isdigit\<close>, \<open>isalnum\<close> and
  \<open>islower\<close> for characters beyond ASCII. The regular expressions of the source are translated to
  executable matchers, and \<open>normalize_repository_path\<close> to a function that refuses with \<open>None\<close>
  where the source raises \<open>ValueError\<close>.
\<close>

type_synonym pystr = "nat list"
type_synonym bytes = "nat list"

definition lit :: "string \<Rightarrow> pystr" where
  "lit s = map of_char s"

lemma lit_inj [simp]: "lit s = lit t \<longleftrightarrow> s = t"
proof -
  have "inj (of_char :: char \<Rightarrow> nat)" by (rule inj_of_char)
  then show ?thesis by (simp add: lit_def inj_map_eq_map)
qed

lemma length_lit [simp]: "length (lit s) = length s"
  by (simp add: lit_def)

lemma lit_Nil_iff [simp]: "lit s = [] \<longleftrightarrow> s = []"
  by (simp add: lit_def)

lemma lit_append: "lit (s @ t) = lit s @ lit t"
  by (simp add: lit_def)

record pyenv =
  sha256 :: "bytes \<Rightarrow> pystr"
  nfc :: "pystr \<Rightarrow> pystr"
  uni_digit :: "nat \<Rightarrow> bool"
  uni_alnum :: "nat \<Rightarrow> bool"
  uni_lower :: "nat \<Rightarrow> bool"
  uni_upper :: "nat \<Rightarrow> bool"

section \<open>Character classes\<close>

definition is_digit :: "nat \<Rightarrow> bool" where
  "is_digit c \<longleftrightarrow> 48 \<le> c \<and> c \<le> 57"

definition is_upper :: "nat \<Rightarrow> bool" where
  "is_upper c \<longleftrightarrow> 65 \<le> c \<and> c \<le> 90"

definition is_lower :: "nat \<Rightarrow> bool" where
  "is_lower c \<longleftrightarrow> 97 \<le> c \<and> c \<le> 122"

definition is_alnum :: "nat \<Rightarrow> bool" where
  "is_alnum c \<longleftrightarrow> is_digit c \<or> is_upper c \<or> is_lower c"

definition is_hex :: "nat \<Rightarrow> bool" where
  "is_hex c \<longleftrightarrow> is_digit c \<or> 97 \<le> c \<and> c \<le> 102"

text \<open>\<open>str.isdigit\<close>, \<open>str.isalnum\<close> and \<open>str.islower\<close>, which read the Unicode tables.\<close>

definition str_isdigit :: "pyenv \<Rightarrow> pystr \<Rightarrow> bool" where
  "str_isdigit E v \<longleftrightarrow> v \<noteq> [] \<and> list_all (\<lambda>c. if c < 128 then is_digit c else uni_digit E c) v"

definition str_isalnum :: "pyenv \<Rightarrow> pystr \<Rightarrow> bool" where
  "str_isalnum E v \<longleftrightarrow> v \<noteq> [] \<and> list_all (\<lambda>c. if c < 128 then is_alnum c else uni_alnum E c) v"

definition str_islower :: "pyenv \<Rightarrow> pystr \<Rightarrow> bool" where
  "str_islower E v \<longleftrightarrow>
     list_ex (\<lambda>c. if c < 128 then is_lower c else uni_lower E c) v
     \<and> \<not> list_ex (\<lambda>c. if c < 128 then is_upper c else uni_upper E c) v"

definition str_isascii :: "pystr \<Rightarrow> bool" where
  "str_isascii v \<longleftrightarrow> list_all (\<lambda>c. c < 128) v"

text \<open>\<open>str.partition(sep)\<close>: the part before the first separator, whether it occurs, the part after.\<close>

definition partition_at :: "nat \<Rightarrow> pystr \<Rightarrow> pystr \<times> bool \<times> pystr" where
  "partition_at c v =
     (takeWhile (\<lambda>d. d \<noteq> c) v, c \<in> set v, drop 1 (dropWhile (\<lambda>d. d \<noteq> c) v))"

text \<open>The characters \<open>._-\<close> that names may carry after their first character.\<close>

definition is_name_char :: "nat \<Rightarrow> bool" where
  "is_name_char c \<longleftrightarrow> is_alnum c \<or> c = 46 \<or> c = 95 \<or> c = 45"

text \<open>\<open>str.isspace\<close> of one character: the code points Python's tables list.\<close>

definition is_space :: "nat \<Rightarrow> bool" where
  "is_space c \<longleftrightarrow> 9 \<le> c \<and> c \<le> 13 \<or> 28 \<le> c \<and> c \<le> 32 \<or> c = 0x85 \<or> c = 0xA0 \<or> c = 0x1680
     \<or> 0x2000 \<le> c \<and> c \<le> 0x200A \<or> c = 0x2028 \<or> c = 0x2029 \<or> c = 0x202F \<or> c = 0x205F
     \<or> c = 0x3000"

lemmas char_class_defs =
  is_digit_def is_upper_def is_lower_def is_alnum_def is_hex_def is_name_char_def is_space_def

definition strip :: "pystr \<Rightarrow> pystr" where
  "strip v = rev (dropWhile is_space (rev (dropWhile is_space v)))"

lemma dropWhile_fixed: "dropWhile P xs = xs \<longleftrightarrow> xs = [] \<or> \<not> P (hd xs)"
proof (cases xs)
  case (Cons x ys)
  have "length (dropWhile P ys) < length (x # ys)"
    by (simp add: length_dropWhile_le less_Suc_eq_le)
  then have "dropWhile P ys \<noteq> x # ys" by (metis less_irrefl)
  with Cons show ?thesis by simp
qed simp

lemma strip_fixed:
  "strip v = v \<longleftrightarrow> v = [] \<or> \<not> is_space (hd v) \<and> \<not> is_space (last v)"
proof (cases "v = []")
  case True
  then show ?thesis by (simp add: strip_def)
next
  case False
  show ?thesis
  proof (cases "is_space (hd v)")
    case True
    with False obtain x xs where v: "v = x # xs" "is_space x" by (cases v) auto
    have "length (strip v) \<le> length (dropWhile is_space xs)"
      using v by (simp add: strip_def length_dropWhile_le[THEN order_trans])
    also have "\<dots> \<le> length xs" by (rule length_dropWhile_le)
    finally have "strip v \<noteq> v" using v by auto
    with True False show ?thesis by simp
  next
    case nsp: False
    with False have "dropWhile is_space v = v" by (simp add: dropWhile_fixed)
    then have "strip v = rev (dropWhile is_space (rev v))" by (simp add: strip_def)
    also have "\<dots> = v \<longleftrightarrow> dropWhile is_space (rev v) = rev v" by (metis rev_rev_ident)
    also have "\<dots> \<longleftrightarrow> \<not> is_space (last v)"
      using False by (simp add: dropWhile_fixed hd_rev)
    finally show ?thesis using False nsp by simp
  qed
qed

section \<open>Bounded, control-free text\<close>

definition MAX_IDENTIFIER_CHARS :: nat where "MAX_IDENTIFIER_CHARS = 128"
definition MAX_TITLE_CHARS :: nat where "MAX_TITLE_CHARS = 200"
definition MAX_TEXT_CHARS :: nat where "MAX_TEXT_CHARS = 8000"
definition MAX_PATH_CHARS :: nat where "MAX_PATH_CHARS = 512"
definition MAX_ROOT_PATH_CHARS :: nat where "MAX_ROOT_PATH_CHARS = 4096"
definition MAX_ARGUMENT_CHARS :: nat where "MAX_ARGUMENT_CHARS = 4096"

lemmas max_chars_defs =
  MAX_IDENTIFIER_CHARS_def MAX_TITLE_CHARS_def MAX_TEXT_CHARS_def MAX_PATH_CHARS_def
  MAX_ROOT_PATH_CHARS_def MAX_ARGUMENT_CHARS_def

definition is_surrogate :: "nat \<Rightarrow> bool" where
  "is_surrogate c \<longleftrightarrow> 0xD800 \<le> c \<and> c \<le> 0xDFFF"

definition bidirectional_controls :: "nat list" where
  "bidirectional_controls =
     [0x061C, 0x200E, 0x200F, 0x202A, 0x202B, 0x202C, 0x202D, 0x202E,
      0x2066, 0x2067, 0x2068, 0x2069]"

text \<open>True where \<open>_reject_forbidden_codepoints\<close> returns, False where it raises.\<close>

definition no_forbidden_codepoints :: "bool \<Rightarrow> pystr \<Rightarrow> bool" where
  "no_forbidden_codepoints allow_newline v =
     list_all (\<lambda>c.
       if is_surrogate c then False
       else if c \<in> set bidirectional_controls then False
       else if c = 10 \<and> allow_newline then True
       else \<not> (c < 0x20 \<or> c = 0x7F \<or> 0x80 \<le> c \<and> c \<le> 0x9F)) v"

definition scalar_field :: "pyenv \<Rightarrow> nat \<Rightarrow> pystr \<Rightarrow> bool" where
  "scalar_field E maximum v \<longleftrightarrow>
     v \<noteq> [] \<and> length v \<le> maximum \<and> no_forbidden_codepoints False v \<and> nfc E v = v \<and> strip v = v"

definition text_field :: "pyenv \<Rightarrow> nat \<Rightarrow> pystr \<Rightarrow> bool" where
  "text_field E maximum v \<longleftrightarrow>
     strip v \<noteq> [] \<and> length v \<le> maximum \<and> no_forbidden_codepoints True v \<and> nfc E v = v"

definition identifier_field :: "pyenv \<Rightarrow> (pystr \<Rightarrow> bool) \<Rightarrow> pystr \<Rightarrow> bool" where
  "identifier_field E pattern v \<longleftrightarrow> scalar_field E MAX_IDENTIFIER_CHARS v \<and> pattern v"

definition sha256_hex :: "pystr \<Rightarrow> bool" where
  "sha256_hex v \<longleftrightarrow> length v = 64 \<and> list_all is_hex v"

definition git_object_id :: "pystr \<Rightarrow> bool" where
  "git_object_id v \<longleftrightarrow> (length v = 40 \<or> length v = 64) \<and> list_all is_hex v"

definition utc_shape :: pystr where
  "utc_shape = lit ''0000-00-00T00:00:00Z''"

definition utc_timestamp :: "pystr \<Rightarrow> bool" where
  "utc_timestamp v \<longleftrightarrow> list_all2 (\<lambda>p c. if is_digit p then is_digit c else c = p) utc_shape v"

definition absolute_path :: "pyenv \<Rightarrow> pystr \<Rightarrow> bool" where
  "absolute_path E v \<longleftrightarrow> scalar_field E MAX_ROOT_PATH_CHARS v \<and> take 1 v = lit ''/''"

text \<open>
  \<open>_sorted_unique\<close>: sorting by UTF-8 bytes is sorting by code points, which is the list order of
  \<open>List_Lexorder\<close>; a duplicate-free list is unchanged by sorting exactly when it is sorted.
\<close>

definition unique :: "'a list \<Rightarrow> bool" where
  "unique values \<longleftrightarrow> card (set values) = length values"

lemma unique_distinct [simp]: "unique values \<longleftrightarrow> distinct values"
  using distinct_card card_distinct by (auto simp: unique_def)

definition sorted_unique :: "pystr list \<Rightarrow> bool" where
  "sorted_unique values \<longleftrightarrow> unique values \<and> values = sort values"

lemma sorted_unique_iff: "sorted_unique values \<longleftrightarrow> distinct values \<and> sorted values"
  by (metis sorted_unique_def unique_distinct sorted_sort sorted_sort_id)

section \<open>Identifier grammars\<close>

definition finding_id :: "pystr \<Rightarrow> bool" where
  "finding_id v \<longleftrightarrow> (case v of [] \<Rightarrow> False | c # cs \<Rightarrow> is_alnum c \<and> list_all is_name_char cs)"

text \<open>\<open>[A-Za-z0-9][A-Za-z0-9._-]{0,127}\<close>.\<close>

definition run_id_grammar :: "pystr \<Rightarrow> bool" where
  "run_id_grammar v \<longleftrightarrow> finding_id v \<and> length v \<le> 128"

definition is_upnum :: "nat \<Rightarrow> bool" where
  "is_upnum c \<longleftrightarrow> is_upper c \<or> is_digit c"

definition milestone_suffix :: "pystr \<Rightarrow> bool" where
  "milestone_suffix p \<longleftrightarrow> (case p of [m, a, b] \<Rightarrow> m = 77 \<and> is_digit a \<and> is_digit b | _ \<Rightarrow> False)"

text \<open>\<open>[A-Z][A-Z0-9]{0,15}(?:-[A-Z0-9]{1,16}){0,4}\<close>, read segment by segment.\<close>

definition stage_segments :: "pystr list \<Rightarrow> bool" where
  "stage_segments ps \<longleftrightarrow>
     (case ps of
        [] \<Rightarrow> False
      | p # qs \<Rightarrow>
          p \<noteq> [] \<and> is_upper (hd p) \<and> list_all is_upnum p \<and> length p \<le> 16 \<and> length qs \<le> 4
          \<and> list_all (\<lambda>q. q \<noteq> [] \<and> list_all is_upnum q \<and> length q \<le> 16) qs)"

definition stage_id_grammar :: "pystr \<Rightarrow> bool" where
  "stage_id_grammar v \<longleftrightarrow>
     (let ps = split_on 45 v
      in 1 \<le> length v \<and> length v \<le> 64 \<and> \<not> milestone_suffix (last ps) \<and> stage_segments ps)"

definition milestone_id_grammar :: "pystr \<Rightarrow> bool" where
  "milestone_id_grammar v \<longleftrightarrow>
     (let ps = split_on 45 v
      in 1 \<le> length v \<and> length v \<le> 68 \<and> 2 \<le> length ps
         \<and> milestone_suffix (last ps) \<and> \<not> milestone_suffix (last (butlast ps))
         \<and> stage_segments (butlast ps))"

section \<open>Repository-relative paths\<close>

definition drive_letter :: "pystr \<Rightarrow> bool" where
  "drive_letter v \<longleftrightarrow> (case v of c # d # rest \<Rightarrow> (is_upper c \<or> is_lower c) \<and> d = 58 \<and> 10 \<notin> set rest | _ \<Rightarrow> False)"

definition path_segments :: "pystr \<Rightarrow> pystr list" where
  "path_segments v = filter (\<lambda>p. p \<noteq> [] \<and> p \<noteq> lit ''.'') (split_on 47 v)"

definition normalize_relative_posix_path :: "pyenv \<Rightarrow> pystr \<Rightarrow> pystr option" where
  "normalize_relative_posix_path E value =
     refuse_if (value = [])
     (refuse_if (length value > MAX_PATH_CHARS)
     (refuse_if (\<not> no_forbidden_codepoints False value)
     (let normalized = nfc E value in
      refuse_if (92 \<in> set normalized)
      (refuse_if (take 1 normalized = lit ''/'')
      (refuse_if (drive_letter normalized)
      (let segments = path_segments normalized in
       refuse_if (lit ''..'' \<in> set segments)
       (refuse_if (segments = [])
       (refuse_if (\<exists>p \<in> set segments. strip p \<noteq> p)
       (Some (join_on 47 segments))))))))))"

definition normalize_repository_path :: "pyenv \<Rightarrow> pystr \<Rightarrow> pystr option" where
  "normalize_repository_path E value = normalize_relative_posix_path E value"

text \<open>A list validator: normalise every element, fail if one fails.\<close>

fun map_opt :: "('a \<Rightarrow> 'b option) \<Rightarrow> 'a list \<Rightarrow> 'b list option" where
  "map_opt f [] = Some []"
| "map_opt f (x # xs) =
     (case f x of None \<Rightarrow> None
      | Some y \<Rightarrow> (case map_opt f xs of None \<Rightarrow> None | Some ys \<Rightarrow> Some (y # ys)))"

lemma map_opt_Some: "map_opt f xs = Some ys \<longleftrightarrow> map f xs = map Some ys"
  proof (induction xs arbitrary: ys)
  case (Cons x xs)
  then show ?case by (cases ys; cases "map_opt f xs") (auto split: option.splits)
qed auto

lemma map_opt_set: "map_opt f xs = Some ys \<Longrightarrow> y \<in> set ys \<Longrightarrow> \<exists>x \<in> set xs. f x = Some y"
  by (induction xs arbitrary: ys) (auto split: option.splits)

lemma map_opt_all: "map_opt f xs = Some ys \<Longrightarrow> (\<And>x y. f x = Some y \<Longrightarrow> P y) \<Longrightarrow> \<forall>y \<in> set ys. P y"
  using map_opt_set by metis

lemma map_opt_id: "\<forall>x \<in> set xs. f x = Some x \<Longrightarrow> map_opt f xs = Some xs"
  by (induction xs) auto

text \<open>What a normalised path can no longer contain.\<close>

definition safe_relative_path :: "pystr \<Rightarrow> bool" where
  "safe_relative_path p \<longleftrightarrow>
     p \<noteq> [] \<and> hd p \<noteq> 47 \<and> 92 \<notin> set p
     \<and> (\<forall>q \<in> set (split_on 47 p). q \<noteq> [] \<and> q \<noteq> lit ''.'' \<and> q \<noteq> lit ''..'' \<and> strip q = q)"

lemma hd_join_on: "ps \<noteq> [] \<Longrightarrow> hd ps \<noteq> [] \<Longrightarrow> join_on c ps \<noteq> [] \<and> hd (join_on c ps) = hd (hd ps)"
  by (cases ps; cases "tl ps") auto

lemma normalized_path_safe:
  assumes "normalize_relative_posix_path E value = Some p"
  shows "safe_relative_path p"
proof -
  let ?n = "nfc E value" and ?s = "path_segments (nfc E value)"
  note a = assms [unfolded normalize_relative_posix_path_def Let_def refuse_if_Some option.inject]
  have p: "p = join_on 47 ?s" using a by (elim conjE) (rule sym)
  have ne: "?s \<noteq> []" using a by (elim conjE)
  have nb: "92 \<notin> set ?n" using a by (elim conjE)
  have dd: "lit ''..'' \<notin> set ?s" using a by (elim conjE)
  have "\<not> (\<exists>q \<in> set ?s. strip q \<noteq> q)" using a by (elim conjE)
  then have st: "\<forall>q \<in> set ?s. strip q = q" by blast
  have sub: "set ?s \<subseteq> set (split_on 47 ?n)" by (auto simp: path_segments_def)
  have nosep: "\<forall>q \<in> set ?s. 47 \<notin> set q" using sub by (auto dest: split_on_no_sep)
  have split: "split_on 47 p = ?s" using p ne nosep by (simp add: split_join)
  have seg: "\<forall>q \<in> set ?s. q \<noteq> [] \<and> q \<noteq> lit ''.''" by (auto simp: path_segments_def)
  have hd_ne: "hd ?s \<noteq> []" using ne seg by simp
  have "hd p = hd (hd ?s)" and pne: "p \<noteq> []" using hd_join_on[OF ne hd_ne, of 47] p by auto
  moreover have "hd (hd ?s) \<noteq> 47" using ne nosep hd_ne by (metis hd_in_set)
  moreover have "92 \<notin> set p"
  proof -
    have "set p \<subseteq> insert 47 (\<Union> (set ` set ?s))" using p set_join_on by metis
    moreover have "\<Union> (set ` set ?s) \<subseteq> set ?n" using sub split_on_subset by fastforce
    ultimately have "set p \<subseteq> insert 47 (set ?n)" by (meson insert_mono order_trans)
    then show ?thesis using nb by auto
  qed
  ultimately show ?thesis using split seg dd st by (auto simp: safe_relative_path_def)
qed

lemma path_segments_join:
  assumes "ps \<noteq> []" "\<forall>q \<in> set ps. 47 \<notin> set q \<and> q \<noteq> [] \<and> q \<noteq> lit ''.''"
  shows "path_segments (join_on 47 ps) = ps"
  using assms by (simp add: path_segments_def split_join filter_id_conv)

text \<open>
  A normalised path normalises to itself, provided it is within the length bound, NFC and free of
  a drive prefix: the length bound is tested on the input, before NFC may lengthen it.
\<close>

lemma normalize_fixed:
  assumes "safe_relative_path p" and "nfc E p = p" and "length p \<le> MAX_PATH_CHARS"
    and "no_forbidden_codepoints False p" and "\<not> drive_letter p"
  shows "normalize_relative_posix_path E p = Some p"
proof -
  from assms(1) have ne: "p \<noteq> []" and hd: "hd p \<noteq> 47" and nb: "92 \<notin> set p"
    and sg: "\<forall>q \<in> set (split_on 47 p). q \<noteq> [] \<and> q \<noteq> lit ''.'' \<and> q \<noteq> lit ''..'' \<and> strip q = q"
    by (auto simp: safe_relative_path_def)
  have segs: "path_segments p = split_on 47 p"
    using sg by (simp add: path_segments_def filter_id_conv)
  moreover have "take 1 p \<noteq> lit ''/''"
    using ne hd by (cases p) (auto simp: lit_def)
  ultimately show ?thesis
    using assms ne nb sg unfolding normalize_relative_posix_path_def Let_def
    by (simp add: refuse_if_def) blast
qed

end
