(* ===== verification/Json.thy ===== *)
theory Json
  imports PyText
begin

text \<open>
  JSON documents and the two serializations of the milestone runner: the integrity serialization
  of \<open>policy.py\<close> / \<open>events.py\<close> (\<open>json.dumps(sort_keys=True, separators=(",", ":"),
  ensure_ascii=False)\<close> encoded as UTF-8, no key dropped) and the canonical digest of
  \<open>models.py\<close>, which reduces enum members, normalises strings to NFC, drops the wall-clock
  fields at every depth and refuses every other Python type. \<open>pyval\<close> is the Python value a caller
  passes in, \<open>json\<close> the closed tree that is serialized.
\<close>

datatype json =
    JNull
  | JBool bool
  | JInt int
  | JStr pystr
  | JList "json list"
  | JObj "(pystr \<times> json) list"

section \<open>\<open>json.dumps\<close>\<close>

fun nat_digits :: "nat \<Rightarrow> pystr" where
  "nat_digits n = (if n < 10 then [48 + n] else nat_digits (n div 10) @ [48 + n mod 10])"

declare nat_digits.simps [simp del]

definition int_text :: "int \<Rightarrow> pystr" where
  "int_text i = (if i < 0 then 45 # nat_digits (nat (- i)) else nat_digits (nat i))"

definition hex_digit :: "nat \<Rightarrow> nat" where
  "hex_digit d = (if d < 10 then 48 + d else 87 + d)"

definition escape_char :: "nat \<Rightarrow> pystr" where
  "escape_char c =
     (if c = 34 then [92, 34]
      else if c = 92 then [92, 92]
      else if c = 8 then lit [CHR 92, CHR ''b'']
      else if c = 12 then lit [CHR 92, CHR ''f'']
      else if c = 10 then lit [CHR 92, CHR ''n'']
      else if c = 13 then lit [CHR 92, CHR ''r'']
      else if c = 9 then lit [CHR 92, CHR ''t'']
      else if c < 32 then [92, 117, 48, 48, hex_digit (c div 16), hex_digit (c mod 16)]
      else [c])"

definition string_text :: "pystr \<Rightarrow> pystr" where
  "string_text v = 34 # concat (map escape_char v) @ [34]"

text \<open>\<open>sort_keys\<close> is not called before the children are written; both are structural here.\<close>

fun dumps :: "json \<Rightarrow> pystr" where
  "dumps JNull = lit ''null''"
| "dumps (JBool b) = (if b then lit ''true'' else lit ''false'')"
| "dumps (JInt i) = int_text i"
| "dumps (JStr v) = string_text v"
| "dumps (JList xs) = 91 # join_on 44 (map dumps xs) @ [93]"
| "dumps (JObj kvs) =
     123 # join_on 44 (map (\<lambda>(k, t). string_text k @ 58 # t)
              (sort_key fst (map (\<lambda>(k, v). (k, dumps v)) kvs))) @ [125]"

fun utf8_char :: "nat \<Rightarrow> bytes" where
  "utf8_char c =
     (if c < 0x80 then [c]
      else if c < 0x800 then [0xC0 + c div 64, 0x80 + c mod 64]
      else if c < 0x10000 then [0xE0 + c div 4096, 0x80 + c div 64 mod 64, 0x80 + c mod 64]
      else [0xF0 + c div 262144, 0x80 + c div 4096 mod 64, 0x80 + c div 64 mod 64, 0x80 + c mod 64])"

definition utf8 :: "pystr \<Rightarrow> bytes" where
  "utf8 v = concat (map utf8_char v)"

section \<open>The integrity serialization\<close>

text \<open>
  \<open>_require_integrity_value\<close> on a JSON tree: the type tests hold by construction, so only the
  surrogate test is left.
\<close>

fun require_integrity_value :: "json \<Rightarrow> bool" where
  "require_integrity_value (JStr v) = (\<not> list_ex is_surrogate v)"
| "require_integrity_value (JList xs) = (\<forall>x \<in> set xs. require_integrity_value x)"
| "require_integrity_value (JObj kvs) = (\<forall>(k, v) \<in> set kvs. require_integrity_value v)"
| "require_integrity_value _ = True"

definition authority_json_bytes :: "json \<Rightarrow> bytes" where
  "authority_json_bytes document = utf8 (dumps document)"

text \<open>
  \<open>integrity_bytes\<close> first calls \<open>_require_integrity_value\<close>, which raises for a lone surrogate (and for a
  key or a value that is not JSON, which the type excludes). Every document it is given is the dump of a
  validated model, and the models' \<open>str\<close> fields hold no surrogate, so the call passes and the bytes are written.
\<close>

definition integrity_bytes :: "json \<Rightarrow> bytes" where
  "integrity_bytes document = authority_json_bytes document"

definition integrity_digest :: "pyenv \<Rightarrow> json \<Rightarrow> pystr" where
  "integrity_digest E document = sha256 E (integrity_bytes document)"

text \<open>Reading a key of a parsed document: \<open>document.get(name)\<close>.\<close>

definition obj_get :: "json \<Rightarrow> pystr \<Rightarrow> json option" where
  "obj_get document name = (case document of JObj kvs \<Rightarrow> map_of kvs name | _ \<Rightarrow> None)"

text \<open>
  The duplicate-key hook of \<open>strict_json_loads\<close>: it runs on every object of the document, so a
  document is refused when any object at any depth repeats a key.
\<close>

fun no_duplicate_keys :: "json \<Rightarrow> bool" where
  "no_duplicate_keys (JList xs) = (\<forall>x \<in> set xs. no_duplicate_keys x)"
| "no_duplicate_keys (JObj kvs) =
     (distinct (map fst kvs) \<and> (\<forall>(k, v) \<in> set kvs. no_duplicate_keys v))"
| "no_duplicate_keys _ = True"

section \<open>The canonical digest\<close>

datatype pyval =
    PNone
  | PBool bool
  | PInt int
  | PStr pystr
  | PEnum pyval
  | PList "pyval list"
  | PDict "(pyval \<times> pyval) list"
  | POther

text \<open>
  How \<open>yaml.safe_load\<close> can fail: with a \<open>yaml.YAMLError\<close>, which its callers catch, or with another exception
  of the loader's constructors, which they do not: the \<open>ValueError\<close> of a scalar that looks like a date or a
  number and is none, a \<open>RecursionError\<close>. \<open>yaml_read refused escaped\<close> is the call under a handler for the
  first.
\<close>

datatype yaml_error = YAMLError | LoaderException

definition yaml_read :: "'e \<Rightarrow> 'e \<Rightarrow> yaml_error + 'a \<Rightarrow> 'e + 'a" where
  "yaml_read refused escaped loaded =
     (case loaded of
        Inl YAMLError \<Rightarrow> Inl refused
      | Inl LoaderException \<Rightarrow> Inl escaped
      | Inr document \<Rightarrow> Inr document)"

lemma yaml_read_simps [simp]:
  "yaml_read refused escaped (Inl YAMLError) = Inl refused"
  "yaml_read refused escaped (Inl LoaderException) = Inl escaped"
  "yaml_read refused escaped (Inr document) = Inr document"
  by (simp_all add: yaml_read_def)

lemma yaml_read_Inr [simp, result_simps]: "yaml_read refused escaped loaded = Inr document \<longleftrightarrow> loaded = Inr document"
  by (auto simp: yaml_read_def split: sum.splits yaml_error.splits)

definition digest_excluded_fields :: "pystr list" where
  "digest_excluded_fields =
     map lit [''created_at'', ''updated_at'', ''started_at'', ''completed_at'', ''recorded_at'',
              ''granted_at'', ''consumed_at'', ''duration_ms'']"

text \<open>\<open>key.value if isinstance(key, Enum) else key\<close>.\<close>

fun dict_key :: "pyval \<Rightarrow> pyval" where
  "dict_key (PEnum v) = v"
| "dict_key k = k"

function (sequential) canonicalize :: "pyenv \<Rightarrow> pyval \<Rightarrow> json option"
  and canonicalize_list :: "pyenv \<Rightarrow> pyval list \<Rightarrow> json list option"
  and canonicalize_items :: "pyenv \<Rightarrow> (pystr \<times> json) list \<Rightarrow> (pyval \<times> pyval) list \<Rightarrow> (pystr \<times> json) list option" where
  "canonicalize E (PEnum member) =
     (case member of
        PStr _ \<Rightarrow> canonicalize E member
      | PInt _ \<Rightarrow> canonicalize E member
      | _ \<Rightarrow> None)"
| "canonicalize E PNone = Some JNull"
| "canonicalize E (PBool b) = Some (JBool b)"
| "canonicalize E (PInt i) = Some (JInt i)"
| "canonicalize E (PStr v) = (if list_ex is_surrogate v then None else Some (JStr (nfc E v)))"
| "canonicalize E (PList xs) = map_option JList (canonicalize_list E xs)"
| "canonicalize E (PDict kvs) = map_option JObj (canonicalize_items E [] kvs)"
| "canonicalize E POther = None"
| "canonicalize_list E [] = Some []"
| "canonicalize_list E (x # xs) =
     (case canonicalize E x of None \<Rightarrow> None
      | Some y \<Rightarrow> map_option (\<lambda>ys. y # ys) (canonicalize_list E xs))"
| "canonicalize_items E normalized [] = Some normalized"
| "canonicalize_items E normalized ((k, v) # kvs) =
     (case dict_key k of
        PStr key \<Rightarrow>
          if key \<in> set digest_excluded_fields then canonicalize_items E normalized kvs
          else if nfc E key \<in> fst ` set normalized then None
          else (case canonicalize E v of None \<Rightarrow> None
                | Some y \<Rightarrow> canonicalize_items E (normalized @ [(nfc E key, y)]) kvs)
      | _ \<Rightarrow> None)"
  by pat_completeness auto
termination
  by (relation "measure (\<lambda>x. case x of
        Inl (E, v) \<Rightarrow> size v
      | Inr (Inl (E, xs)) \<Rightarrow> size_list size xs
      | Inr (Inr (E, n, kvs)) \<Rightarrow> size_list (size_prod size size) kvs)") auto

text \<open>\<open>text.encode("utf-8", errors="strict")\<close>: a surrogate is refused.\<close>

definition encode_strict :: "pystr \<Rightarrow> bytes option" where
  "encode_strict v = refuse_if (list_ex is_surrogate v) (Some (utf8 v))"

definition canonical_json_bytes :: "pyenv \<Rightarrow> pyval \<Rightarrow> bytes option" where
  "canonical_json_bytes E payload =
     (case canonicalize E payload of None \<Rightarrow> None | Some canonical \<Rightarrow> encode_strict (dumps canonical))"

definition canonical_digest :: "pyenv \<Rightarrow> pyval \<Rightarrow> pystr option" where
  "canonical_digest E payload = map_option (sha256 E) (canonical_json_bytes E payload)"

text \<open>The serialized text does not depend on the order in which a mapping was built.\<close>

lemma sort_key_fst_perm:
  assumes "distinct (map fst xs)" and "set xs = set ys" and "distinct (map fst ys)"
  shows "sort_key fst xs = sort_key (fst :: 'a :: linorder \<times> 'b \<Rightarrow> 'a) ys"
proof (rule map_sorted_distinct_set_unique [where f = fst])
  have perm: "distinct (map fst (sort_key fst zs))" if "distinct (map fst zs)"
    for zs :: "('a \<times> 'b) list"
    using that by (simp add: distinct_map)
  show "distinct (map fst (sort_key fst xs))" "distinct (map fst (sort_key fst ys))"
    using perm assms by auto
  show "inj_on fst (set (sort_key fst xs) \<union> set (sort_key fst ys))"
    using assms by (simp add: distinct_map)
qed (use assms in simp_all)

lemma dumps_obj_order:
  assumes "distinct (map fst kvs)" and "distinct (map fst kvs')" and "set kvs = set kvs'"
  shows "dumps (JObj kvs) = dumps (JObj kvs')"
proof -
  let ?f = "\<lambda>(k, v). (k, dumps v)"
  have fst: "map fst (map ?f xs) = map fst xs" for xs :: "(pystr \<times> json) list"
    by (induction xs) auto
  have "sort_key fst (map ?f kvs) = sort_key fst (map ?f kvs')"
    by (rule sort_key_fst_perm) (simp_all only: fst assms set_map)
  then show ?thesis by simp
qed

lemma canonicalize_items_keys:
  "canonicalize_items E normalized kvs = Some out \<Longrightarrow> distinct (map fst normalized) \<Longrightarrow>
     distinct (map fst out)"
proof (induction kvs arbitrary: normalized)
  case (Cons kv kvs)
  obtain k v where kv: "kv = (k, v)" by (cases kv)
  with Cons show ?case by (auto split: pyval.splits if_splits option.splits)
qed simp

text \<open>Dropping the wall-clock entries of a mapping before canonicalizing it changes nothing.\<close>

definition excluded_entry :: "pyval \<times> pyval \<Rightarrow> bool" where
  "excluded_entry kv \<longleftrightarrow> (case dict_key (fst kv) of PStr key \<Rightarrow> key \<in> set digest_excluded_fields | _ \<Rightarrow> False)"

lemma canonicalize_items_filter:
  "canonicalize_items E normalized kvs =
     canonicalize_items E normalized (filter (\<lambda>kv. \<not> excluded_entry kv) kvs)"
proof (induction kvs arbitrary: normalized)
  case (Cons kv kvs)
  obtain k v where kv: "kv = (k, v)" by (cases kv)
  show ?case
  proof (cases "dict_key k")
    case (PStr key)
    show ?thesis
    proof (cases "key \<in> set digest_excluded_fields")
      case True
      with kv PStr Cons.IH show ?thesis by (simp add: excluded_entry_def)
    next
      case False
      with kv PStr have "\<not> excluded_entry kv" by (simp add: excluded_entry_def)
      with kv PStr False show ?thesis by (simp add: Cons.IH[symmetric] split: option.split)
    qed
  qed (use kv in \<open>simp_all add: excluded_entry_def\<close>)
qed simp

end
