(* ===== verification/Run_Vocabulary.thy ===== *)
theory Run_Vocabulary
  imports Json
begin

text \<open>
  The closed vocabulary of \<open>milestone_runner/models.py\<close>: the eighteen run states and the closed
  transition set, the stop reasons, provider failure classes and roles, finding severities,
  approval operations and recovery commands. Each \<open>StrEnum\<close> is a datatype with its wire value
  (\<open>..._value\<close>), which is injective, and its member list.
\<close>

section \<open>The run state machine\<close>

text \<open>\<open>RunStatus\<close>.\<close>

datatype run_status =
    IDLE
  | PREFLIGHT
  | IMPLEMENTING
  | FOCUSED_VERIFYING
  | MILESTONE_FAILED
  | MILESTONE_COMPLETE
  | FINAL_VERIFYING
  | REVIEWING
  | NEEDS_CORRECTION
  | CORRECTING
  | CLOSURE_VERIFYING
  | PROVIDER_WAIT
  | PROVIDER_RETRY_PENDING
  | READY_FOR_COMMIT_APPROVAL
  | READY_FOR_PUSH_APPROVAL
  | HUMAN_INTERVENTION_REQUIRED
  | DONE
  | ABORTED

fun run_status_value :: "run_status \<Rightarrow> pystr" where
  "run_status_value IDLE = lit ''IDLE''"
| "run_status_value PREFLIGHT = lit ''PREFLIGHT''"
| "run_status_value IMPLEMENTING = lit ''IMPLEMENTING''"
| "run_status_value FOCUSED_VERIFYING = lit ''FOCUSED_VERIFYING''"
| "run_status_value MILESTONE_FAILED = lit ''MILESTONE_FAILED''"
| "run_status_value MILESTONE_COMPLETE = lit ''MILESTONE_COMPLETE''"
| "run_status_value FINAL_VERIFYING = lit ''FINAL_VERIFYING''"
| "run_status_value REVIEWING = lit ''REVIEWING''"
| "run_status_value NEEDS_CORRECTION = lit ''NEEDS_CORRECTION''"
| "run_status_value CORRECTING = lit ''CORRECTING''"
| "run_status_value CLOSURE_VERIFYING = lit ''CLOSURE_VERIFYING''"
| "run_status_value PROVIDER_WAIT = lit ''PROVIDER_WAIT''"
| "run_status_value PROVIDER_RETRY_PENDING = lit ''PROVIDER_RETRY_PENDING''"
| "run_status_value READY_FOR_COMMIT_APPROVAL = lit ''READY_FOR_COMMIT_APPROVAL''"
| "run_status_value READY_FOR_PUSH_APPROVAL = lit ''READY_FOR_PUSH_APPROVAL''"
| "run_status_value HUMAN_INTERVENTION_REQUIRED = lit ''HUMAN_INTERVENTION_REQUIRED''"
| "run_status_value DONE = lit ''DONE''"
| "run_status_value ABORTED = lit ''ABORTED''"

definition all_run_status :: "run_status list" where
  "all_run_status =
     [IDLE, PREFLIGHT, IMPLEMENTING, FOCUSED_VERIFYING,
      MILESTONE_FAILED, MILESTONE_COMPLETE, FINAL_VERIFYING, REVIEWING,
      NEEDS_CORRECTION, CORRECTING, CLOSURE_VERIFYING, PROVIDER_WAIT,
      PROVIDER_RETRY_PENDING, READY_FOR_COMMIT_APPROVAL, READY_FOR_PUSH_APPROVAL, HUMAN_INTERVENTION_REQUIRED,
      DONE, ABORTED]"

lemma all_run_status_complete: "x \<in> set all_run_status"
  by (cases x) (simp_all add: all_run_status_def)

lemma run_status_value_inj: "run_status_value x = run_status_value y \<longleftrightarrow> x = y"
  by (cases x; cases y) simp_all

definition TERMINAL_RUN_STATES :: "run_status list" where
  "TERMINAL_RUN_STATES = [DONE, ABORTED]"

definition LIVE_RUN_STATES :: "run_status list" where
  "LIVE_RUN_STATES =
     [PREFLIGHT, IMPLEMENTING, FOCUSED_VERIFYING, MILESTONE_FAILED, MILESTONE_COMPLETE,
      FINAL_VERIFYING, REVIEWING, NEEDS_CORRECTION, CORRECTING, CLOSURE_VERIFYING,
      PROVIDER_WAIT, PROVIDER_RETRY_PENDING, READY_FOR_COMMIT_APPROVAL,
      READY_FOR_PUSH_APPROVAL]"

definition ALLOWED_RUN_TRANSITIONS :: "(run_status \<times> run_status) list" where
  "ALLOWED_RUN_TRANSITIONS =
     [(IDLE, PREFLIGHT),
      (PREFLIGHT, IMPLEMENTING),
      (IMPLEMENTING, FOCUSED_VERIFYING),
      (FOCUSED_VERIFYING, MILESTONE_COMPLETE),
      (FOCUSED_VERIFYING, MILESTONE_FAILED),
      (MILESTONE_COMPLETE, IMPLEMENTING),
      (MILESTONE_COMPLETE, FINAL_VERIFYING),
      (FINAL_VERIFYING, REVIEWING),
      (REVIEWING, NEEDS_CORRECTION),
      (REVIEWING, READY_FOR_COMMIT_APPROVAL),
      (NEEDS_CORRECTION, CORRECTING),
      (CORRECTING, CLOSURE_VERIFYING),
      (CLOSURE_VERIFYING, READY_FOR_COMMIT_APPROVAL),
      (READY_FOR_COMMIT_APPROVAL, READY_FOR_PUSH_APPROVAL),
      (READY_FOR_PUSH_APPROVAL, DONE),
      (IMPLEMENTING, PROVIDER_WAIT),
      (PROVIDER_WAIT, IMPLEMENTING),
      (REVIEWING, PROVIDER_WAIT),
      (PROVIDER_WAIT, REVIEWING),
      (CORRECTING, PROVIDER_WAIT),
      (PROVIDER_WAIT, CORRECTING),
      (CLOSURE_VERIFYING, PROVIDER_WAIT),
      (PROVIDER_WAIT, CLOSURE_VERIFYING),
      (PROVIDER_WAIT, PROVIDER_RETRY_PENDING),
      (PROVIDER_RETRY_PENDING, PROVIDER_WAIT),
      (HUMAN_INTERVENTION_REQUIRED, FOCUSED_VERIFYING),
      (HUMAN_INTERVENTION_REQUIRED, IMPLEMENTING),
      (HUMAN_INTERVENTION_REQUIRED, REVIEWING),
      (HUMAN_INTERVENTION_REQUIRED, CLOSURE_VERIFYING),
      (MILESTONE_FAILED, IMPLEMENTING),
      (IMPLEMENTING, MILESTONE_FAILED)]
     @ map (\<lambda>state. (state, HUMAN_INTERVENTION_REQUIRED)) LIVE_RUN_STATES
     @ map (\<lambda>state. (state, ABORTED)) LIVE_RUN_STATES
     @ [(HUMAN_INTERVENTION_REQUIRED, ABORTED)]"

text \<open>\<open>(from, to) in ALLOWED_RUN_TRANSITIONS\<close>.\<close>

definition allowed :: "run_status \<Rightarrow> run_status \<Rightarrow> bool" where
  "allowed from_state to_state \<longleftrightarrow> (from_state, to_state) \<in> set ALLOWED_RUN_TRANSITIONS"

lemmas transition_defs =
  allowed_def ALLOWED_RUN_TRANSITIONS_def LIVE_RUN_STATES_def TERMINAL_RUN_STATES_def

lemma terminal_no_exit: "s \<in> set TERMINAL_RUN_STATES \<Longrightarrow> \<not> allowed s t"
  by (auto simp: transition_defs)

lemma allowed_irrefl: "\<not> allowed s s"
  by (cases s) (simp_all add: transition_defs)

lemma idle_not_reentered: "\<not> allowed s IDLE"
  by (cases s) (simp_all add: transition_defs)

lemma live_can_stop: "s \<in> set LIVE_RUN_STATES \<Longrightarrow> allowed s HUMAN_INTERVENTION_REQUIRED \<and> allowed s ABORTED"
  by (auto simp: transition_defs)

lemma live_states: "s \<in> set LIVE_RUN_STATES \<longleftrightarrow> s \<notin> {IDLE, HUMAN_INTERVENTION_REQUIRED, DONE, ABORTED}"
  by (cases s) (simp_all add: LIVE_RUN_STATES_def)

text \<open>The states a run can pass through: zero or more allowed transitions.\<close>

inductive run_path :: "run_status \<Rightarrow> run_status \<Rightarrow> bool" where
  path_refl: "run_path s s"
| path_step: "run_path s t \<Longrightarrow> allowed t u \<Longrightarrow> run_path s u"

lemma run_path_trans: "run_path t u \<Longrightarrow> run_path s t \<Longrightarrow> run_path s u"
  by (induction rule: run_path.induct) (auto intro: run_path.intros)

lemma run_path_terminal: "run_path s t \<Longrightarrow> s \<in> set TERMINAL_RUN_STATES \<Longrightarrow> t = s"
  by (induction rule: run_path.induct) (auto dest: terminal_no_exit)

section \<open>Failures, stops and roles\<close>

text \<open>\<open>ProviderFailureClass\<close>.\<close>

datatype provider_failure_class =
    SPAWN_FAILED
  | TIMEOUT
  | COMMAND_FAILED
  | MALFORMED_OUTPUT
  | AUTH_FAILED
  | TRANSPORT_FAILED
  | PROVIDER_REPORTED

fun failure_class_value :: "provider_failure_class \<Rightarrow> pystr" where
  "failure_class_value SPAWN_FAILED = lit ''SPAWN_FAILED''"
| "failure_class_value TIMEOUT = lit ''TIMEOUT''"
| "failure_class_value COMMAND_FAILED = lit ''COMMAND_FAILED''"
| "failure_class_value MALFORMED_OUTPUT = lit ''MALFORMED_OUTPUT''"
| "failure_class_value AUTH_FAILED = lit ''AUTH_FAILED''"
| "failure_class_value TRANSPORT_FAILED = lit ''TRANSPORT_FAILED''"
| "failure_class_value PROVIDER_REPORTED = lit ''PROVIDER_REPORTED''"

definition all_failure_class :: "provider_failure_class list" where
  "all_failure_class =
     [SPAWN_FAILED, TIMEOUT, COMMAND_FAILED, MALFORMED_OUTPUT,
      AUTH_FAILED, TRANSPORT_FAILED, PROVIDER_REPORTED]"

lemma all_failure_class_complete: "x \<in> set all_failure_class"
  by (cases x) (simp_all add: all_failure_class_def)

lemma failure_class_value_inj: "failure_class_value x = failure_class_value y \<longleftrightarrow> x = y"
  by (cases x; cases y) simp_all

definition RETRYABLE_PROVIDER_FAILURE_CLASSES :: "provider_failure_class list" where
  "RETRYABLE_PROVIDER_FAILURE_CLASSES = [SPAWN_FAILED]"

text \<open>\<open>StopReason\<close>.\<close>

datatype stop_reason =
    STAGE_START_NOT_AUTHORIZED
  | STAGE_START_AUTHORIZATION_CONFLICT
  | POLICY_DIGEST_MISMATCH
  | STAGE_START_INPUT_CONFLICT
  | STAGE_START_ALREADY_BOUND
  | STAGE_START_NOT_CONFIRMED
  | POLICY_BINDING_MISMATCH
  | LIVE_PROVIDER_NOT_ENABLED
  | EVENT_CHAIN_BROKEN
  | EVENT_CONFLICT
  | OPERATION_RECORD_INVALID
  | OPERATION_RECORD_CONFLICT
  | LIFECYCLE_SCHEMA_UNKNOWN
  | APPLICATION_MUTATION_INCOMPLETE
  | LOCK_OWNERSHIP_LOST
  | PUBLICATION_UNCERTAIN
  | STAGE_ID_NOT_AUTHORIZED
  | REPOSITORY_IDENTITY_MISMATCH
  | BRANCH_MISMATCH
  | HEAD_DRIFT
  | DIRTY_TREE
  | PLAN_COVERAGE_MISMATCH
  | PLAN_PATH_NOT_ALLOWLISTED
  | GOVERNANCE_CONTRADICTION
  | INVALID_CONFIGURATION
  | LOCK_CONTENTION
  | STATE_SCHEMA_UNKNOWN
  | OUT_OF_MILESTONE_SCOPE

fun stop_reason_value :: "stop_reason \<Rightarrow> pystr" where
  "stop_reason_value STAGE_START_NOT_AUTHORIZED = lit ''STAGE_START_NOT_AUTHORIZED''"
| "stop_reason_value STAGE_START_AUTHORIZATION_CONFLICT = lit ''STAGE_START_AUTHORIZATION_CONFLICT''"
| "stop_reason_value POLICY_DIGEST_MISMATCH = lit ''POLICY_DIGEST_MISMATCH''"
| "stop_reason_value STAGE_START_INPUT_CONFLICT = lit ''STAGE_START_INPUT_CONFLICT''"
| "stop_reason_value STAGE_START_ALREADY_BOUND = lit ''STAGE_START_ALREADY_BOUND''"
| "stop_reason_value STAGE_START_NOT_CONFIRMED = lit ''STAGE_START_NOT_CONFIRMED''"
| "stop_reason_value POLICY_BINDING_MISMATCH = lit ''POLICY_BINDING_MISMATCH''"
| "stop_reason_value LIVE_PROVIDER_NOT_ENABLED = lit ''LIVE_PROVIDER_NOT_ENABLED''"
| "stop_reason_value EVENT_CHAIN_BROKEN = lit ''EVENT_CHAIN_BROKEN''"
| "stop_reason_value EVENT_CONFLICT = lit ''EVENT_CONFLICT''"
| "stop_reason_value OPERATION_RECORD_INVALID = lit ''OPERATION_RECORD_INVALID''"
| "stop_reason_value OPERATION_RECORD_CONFLICT = lit ''OPERATION_RECORD_CONFLICT''"
| "stop_reason_value LIFECYCLE_SCHEMA_UNKNOWN = lit ''LIFECYCLE_SCHEMA_UNKNOWN''"
| "stop_reason_value APPLICATION_MUTATION_INCOMPLETE = lit ''APPLICATION_MUTATION_INCOMPLETE''"
| "stop_reason_value LOCK_OWNERSHIP_LOST = lit ''LOCK_OWNERSHIP_LOST''"
| "stop_reason_value PUBLICATION_UNCERTAIN = lit ''PUBLICATION_UNCERTAIN''"
| "stop_reason_value STAGE_ID_NOT_AUTHORIZED = lit ''STAGE_ID_NOT_AUTHORIZED''"
| "stop_reason_value REPOSITORY_IDENTITY_MISMATCH = lit ''REPOSITORY_IDENTITY_MISMATCH''"
| "stop_reason_value BRANCH_MISMATCH = lit ''BRANCH_MISMATCH''"
| "stop_reason_value HEAD_DRIFT = lit ''HEAD_DRIFT''"
| "stop_reason_value DIRTY_TREE = lit ''DIRTY_TREE''"
| "stop_reason_value PLAN_COVERAGE_MISMATCH = lit ''PLAN_COVERAGE_MISMATCH''"
| "stop_reason_value PLAN_PATH_NOT_ALLOWLISTED = lit ''PLAN_PATH_NOT_ALLOWLISTED''"
| "stop_reason_value GOVERNANCE_CONTRADICTION = lit ''GOVERNANCE_CONTRADICTION''"
| "stop_reason_value INVALID_CONFIGURATION = lit ''INVALID_CONFIGURATION''"
| "stop_reason_value LOCK_CONTENTION = lit ''LOCK_CONTENTION''"
| "stop_reason_value STATE_SCHEMA_UNKNOWN = lit ''STATE_SCHEMA_UNKNOWN''"
| "stop_reason_value OUT_OF_MILESTONE_SCOPE = lit ''OUT_OF_MILESTONE_SCOPE''"

definition all_stop_reason :: "stop_reason list" where
  "all_stop_reason =
     [STAGE_START_NOT_AUTHORIZED, STAGE_START_AUTHORIZATION_CONFLICT, POLICY_DIGEST_MISMATCH, STAGE_START_INPUT_CONFLICT,
      STAGE_START_ALREADY_BOUND, STAGE_START_NOT_CONFIRMED, POLICY_BINDING_MISMATCH, LIVE_PROVIDER_NOT_ENABLED,
      EVENT_CHAIN_BROKEN, EVENT_CONFLICT, OPERATION_RECORD_INVALID, OPERATION_RECORD_CONFLICT,
      LIFECYCLE_SCHEMA_UNKNOWN, APPLICATION_MUTATION_INCOMPLETE, LOCK_OWNERSHIP_LOST, PUBLICATION_UNCERTAIN,
      STAGE_ID_NOT_AUTHORIZED, REPOSITORY_IDENTITY_MISMATCH, BRANCH_MISMATCH, HEAD_DRIFT,
      DIRTY_TREE, PLAN_COVERAGE_MISMATCH, PLAN_PATH_NOT_ALLOWLISTED, GOVERNANCE_CONTRADICTION,
      INVALID_CONFIGURATION, LOCK_CONTENTION, STATE_SCHEMA_UNKNOWN, OUT_OF_MILESTONE_SCOPE]"

lemma all_stop_reason_complete: "x \<in> set all_stop_reason"
  by (cases x) (simp_all add: all_stop_reason_def)

lemma stop_reason_value_inj: "stop_reason_value x = stop_reason_value y \<longleftrightarrow> x = y"
  by (cases x; cases y) simp_all

text \<open>\<open>ProviderRole\<close>.\<close>

datatype provider_role =
    IMPLEMENTATION
  | CORRECTION
  | REVIEW
  | CLOSURE

fun provider_role_value :: "provider_role \<Rightarrow> pystr" where
  "provider_role_value IMPLEMENTATION = lit ''IMPLEMENTATION''"
| "provider_role_value CORRECTION = lit ''CORRECTION''"
| "provider_role_value REVIEW = lit ''REVIEW''"
| "provider_role_value CLOSURE = lit ''CLOSURE''"

definition all_provider_role :: "provider_role list" where
  "all_provider_role =
     [IMPLEMENTATION, CORRECTION, REVIEW, CLOSURE]"

lemma all_provider_role_complete: "x \<in> set all_provider_role"
  by (cases x) (simp_all add: all_provider_role_def)

lemma provider_role_value_inj: "provider_role_value x = provider_role_value y \<longleftrightarrow> x = y"
  by (cases x; cases y) simp_all

section \<open>Findings, verdicts and commands\<close>

text \<open>\<open>FindingSeverity\<close>.\<close>

datatype finding_severity =
    CRITICAL
  | HIGH
  | MEDIUM
  | LOW

fun severity_value :: "finding_severity \<Rightarrow> pystr" where
  "severity_value CRITICAL = lit ''CRITICAL''"
| "severity_value HIGH = lit ''HIGH''"
| "severity_value MEDIUM = lit ''MEDIUM''"
| "severity_value LOW = lit ''LOW''"

definition all_severity :: "finding_severity list" where
  "all_severity =
     [CRITICAL, HIGH, MEDIUM, LOW]"

lemma all_severity_complete: "x \<in> set all_severity"
  by (cases x) (simp_all add: all_severity_def)

lemma severity_value_inj: "severity_value x = severity_value y \<longleftrightarrow> x = y"
  by (cases x; cases y) simp_all

definition BLOCKING_SEVERITIES :: "finding_severity list" where
  "BLOCKING_SEVERITIES = [CRITICAL, HIGH]"

definition DEFERRED_SEVERITIES :: "finding_severity list" where
  "DEFERRED_SEVERITIES = [MEDIUM, LOW]"

lemma severities_split: "s \<in> set DEFERRED_SEVERITIES \<longleftrightarrow> s \<notin> set BLOCKING_SEVERITIES"
  by (cases s) (simp_all add: DEFERRED_SEVERITIES_def BLOCKING_SEVERITIES_def)

text \<open>\<open>FindingStatus\<close>.\<close>

datatype finding_status =
    FS_OPEN
  | FS_CLOSED
  | FS_DEFERRED

fun finding_status_value :: "finding_status \<Rightarrow> pystr" where
  "finding_status_value FS_OPEN = lit ''OPEN''"
| "finding_status_value FS_CLOSED = lit ''CLOSED''"
| "finding_status_value FS_DEFERRED = lit ''DEFERRED''"

definition all_finding_status :: "finding_status list" where
  "all_finding_status =
     [FS_OPEN, FS_CLOSED, FS_DEFERRED]"

lemma all_finding_status_complete: "x \<in> set all_finding_status"
  by (cases x) (simp_all add: all_finding_status_def)

lemma finding_status_value_inj: "finding_status_value x = finding_status_value y \<longleftrightarrow> x = y"
  by (cases x; cases y) simp_all

text \<open>\<open>ReviewVerdict\<close>.\<close>

datatype review_verdict =
    APPROVED
  | BLOCKED

fun review_verdict_value :: "review_verdict \<Rightarrow> pystr" where
  "review_verdict_value APPROVED = lit ''APPROVED''"
| "review_verdict_value BLOCKED = lit ''BLOCKED''"

definition all_review_verdict :: "review_verdict list" where
  "all_review_verdict =
     [APPROVED, BLOCKED]"

lemma all_review_verdict_complete: "x \<in> set all_review_verdict"
  by (cases x) (simp_all add: all_review_verdict_def)

lemma review_verdict_value_inj: "review_verdict_value x = review_verdict_value y \<longleftrightarrow> x = y"
  by (cases x; cases y) simp_all

text \<open>\<open>ApprovalOperation\<close>.\<close>

datatype approval_operation =
    COMMIT
  | PUSH

fun approval_operation_value :: "approval_operation \<Rightarrow> pystr" where
  "approval_operation_value COMMIT = lit ''COMMIT''"
| "approval_operation_value PUSH = lit ''PUSH''"

definition all_approval_operation :: "approval_operation list" where
  "all_approval_operation =
     [COMMIT, PUSH]"

lemma all_approval_operation_complete: "x \<in> set all_approval_operation"
  by (cases x) (simp_all add: all_approval_operation_def)

lemma approval_operation_value_inj: "approval_operation_value x = approval_operation_value y \<longleftrightarrow> x = y"
  by (cases x; cases y) simp_all

text \<open>\<open>RecoveryCommand\<close>.\<close>

datatype recovery_command =
    RECONCILE_MILESTONE
  | REOPEN_MILESTONE
  | RECOVER_FAILED_REVIEW
  | REVALIDATE_CORRECTION

fun recovery_command_value :: "recovery_command \<Rightarrow> pystr" where
  "recovery_command_value RECONCILE_MILESTONE = lit ''RECONCILE_MILESTONE''"
| "recovery_command_value REOPEN_MILESTONE = lit ''REOPEN_MILESTONE''"
| "recovery_command_value RECOVER_FAILED_REVIEW = lit ''RECOVER_FAILED_REVIEW''"
| "recovery_command_value REVALIDATE_CORRECTION = lit ''REVALIDATE_CORRECTION''"

definition all_recovery_command :: "recovery_command list" where
  "all_recovery_command =
     [RECONCILE_MILESTONE, REOPEN_MILESTONE, RECOVER_FAILED_REVIEW, REVALIDATE_CORRECTION]"

lemma all_recovery_command_complete: "x \<in> set all_recovery_command"
  by (cases x) (simp_all add: all_recovery_command_def)

lemma recovery_command_value_inj: "recovery_command_value x = recovery_command_value y \<longleftrightarrow> x = y"
  by (cases x; cases y) simp_all

definition RUN_COUNTER_FIELDS :: "pystr list" where
  "RUN_COUNTER_FIELDS =
     map lit [''review_attempts'', ''successful_review_rounds'', ''provider_failure_count'',
              ''correction_round'', ''closure_round'']"

definition STATE_SCHEMA_VERSION :: int where "STATE_SCHEMA_VERSION = 2"
definition EVENT_BACKED_STATE_SCHEMA_VERSION :: int where "EVENT_BACKED_STATE_SCHEMA_VERSION = 3"
definition MAX_STATE_VERSION :: int where "MAX_STATE_VERSION = 99999999"

end
