(* ===== verification/Run_Record.thy ===== *)
theory Run_Record
  imports Run_Vocabulary "HOL-Library.AList"
begin

text \<open>
  The durable run record of \<open>milestone_runner/models.py\<close> and the records it is made of. Each
  pydantic model is a record; \<open>validate_...\<close> is the model's constructor: it runs the field
  validators (which may replace a field by its normal form) and the model validators, and is
  \<open>None\<close> where the source raises. A dict is the association list of its items in key order with
  distinct keys: Python compares dicts without regard to insertion order and the serializer sorts
  keys, so this is all a reader can observe of it.
\<close>

section \<open>Provider runs and verification results\<close>

record provider_run_record =
  pr_sequence :: int
  pr_role :: provider_role
  pr_provider :: pystr
  pr_milestone_id :: "pystr option"
  pr_started_at :: pystr
  pr_completed_at :: "pystr option"
  pr_duration_ms :: int
  pr_exit_code :: "int option"
  pr_timed_out :: bool
  pr_failure_class :: "provider_failure_class option"
  pr_prompt_path :: pystr
  pr_stdout_path :: pystr
  pr_stderr_path :: pystr

definition validate_provider_run :: "pyenv \<Rightarrow> provider_run_record \<Rightarrow> provider_run_record option" where
  "validate_provider_run E r =
     refuse_if (pr_sequence r < 1)
     (refuse_if (pr_duration_ms r < 0)
     (refuse_if (\<not> scalar_field E MAX_IDENTIFIER_CHARS (pr_provider r))
     (refuse_if (\<not> pred_option (identifier_field E milestone_id_grammar) (pr_milestone_id r))
     (refuse_if (\<not> utc_timestamp (pr_started_at r))
     (refuse_if (\<not> pred_option utc_timestamp (pr_completed_at r))
     (Option.bind (normalize_relative_posix_path E (pr_prompt_path r)) (\<lambda>prompt.
      Option.bind (normalize_relative_posix_path E (pr_stdout_path r)) (\<lambda>out.
      Option.bind (normalize_relative_posix_path E (pr_stderr_path r)) (\<lambda>err.
      refuse_if (pr_timed_out r \<and> pr_failure_class r \<noteq> Some TIMEOUT)
      (Some (r\<lparr>pr_prompt_path := prompt, pr_stdout_path := out, pr_stderr_path := err\<rparr>)))))))))))"

record verification_result =
  vr_command :: "pystr list"
  vr_exit_code :: "int option"
  vr_timed_out :: bool
  vr_passed :: bool
  vr_duration_ms :: int
  vr_stdout_path :: pystr
  vr_stderr_path :: pystr

definition validate_verification_result :: "pyenv \<Rightarrow> verification_result \<Rightarrow> verification_result option" where
  "validate_verification_result E v =
     refuse_if (vr_command v = [])
     (refuse_if (vr_duration_ms v < 0)
     (refuse_if (\<not> list_all (scalar_field E MAX_ARGUMENT_CHARS) (vr_command v))
     (Option.bind (normalize_relative_posix_path E (vr_stdout_path v)) (\<lambda>out.
      Option.bind (normalize_relative_posix_path E (vr_stderr_path v)) (\<lambda>err.
      let expected = (vr_exit_code v = Some 0 \<and> \<not> vr_timed_out v) in
      refuse_if (vr_passed v \<noteq> expected)
      (Some (v\<lparr>vr_stdout_path := out, vr_stderr_path := err\<rparr>)))))))"

section \<open>Findings\<close>

record finding =
  fd_finding_id :: pystr
  fd_severity :: finding_severity
  fd_title :: pystr
  fd_summary :: pystr
  fd_status :: finding_status

definition validate_finding :: "pyenv \<Rightarrow> finding \<Rightarrow> finding option" where
  "validate_finding E f =
     refuse_if (\<not> identifier_field E finding_id (fd_finding_id f))
     (refuse_if (\<not> scalar_field E MAX_TITLE_CHARS (fd_title f))
     (refuse_if (\<not> text_field E MAX_TEXT_CHARS (fd_summary f))
     (Some f)))"

section \<open>Approvals\<close>

record approval_record =
  ap_operation :: approval_operation
  ap_granted_at :: pystr
  ap_repository_identity :: pystr
  ap_branch :: pystr
  ap_baseline_sha :: pystr
  ap_head_sha :: pystr
  ap_changed_paths :: "pystr list"
  ap_changed_path_digests :: "(pystr \<times> pystr) list"
  ap_verification_digest :: pystr
  ap_review_verdict :: review_verdict
  ap_finding_ids :: "pystr list"
  ap_human_confirmation_supplied :: bool
  ap_execution_started_at :: "pystr option"
  ap_consumed :: bool
  ap_consumed_at :: "pystr option"
  ap_resulting_head_sha :: "pystr option"

text \<open>The loop of \<open>_validate_digests\<close>; its accumulator is the \<open>normalized\<close> dict.\<close>

fun approval_digests :: "pyenv \<Rightarrow> (pystr \<times> pystr) list \<Rightarrow> (pystr \<times> pystr) list \<Rightarrow> (pystr \<times> pystr) list option" where
  "approval_digests E normalized [] = Some normalized"
| "approval_digests E normalized ((path, digest) # rest) =
     Option.bind (normalize_repository_path E path) (\<lambda>key.
     refuse_if (\<not> sha256_hex digest)
     (refuse_if (key \<in> fst ` set normalized)
     (approval_digests E (normalized @ [(key, digest)]) rest)))"

definition validate_approval :: "pyenv \<Rightarrow> approval_record \<Rightarrow> approval_record option" where
  "validate_approval E a =
     refuse_if (\<not> utc_timestamp (ap_granted_at a))
     (refuse_if (\<not> pred_option utc_timestamp (ap_consumed_at a))
     (refuse_if (\<not> pred_option utc_timestamp (ap_execution_started_at a))
     (refuse_if (\<not> pred_option git_object_id (ap_resulting_head_sha a))
     (refuse_if (\<not> scalar_field E MAX_IDENTIFIER_CHARS (ap_repository_identity a))
     (refuse_if (\<not> scalar_field E MAX_IDENTIFIER_CHARS (ap_branch a))
     (refuse_if (\<not> git_object_id (ap_baseline_sha a) \<or> \<not> git_object_id (ap_head_sha a))
     (refuse_if (\<not> sha256_hex (ap_verification_digest a))
     (Option.bind (map_opt (normalize_repository_path E) (ap_changed_paths a)) (\<lambda>paths.
      refuse_if (\<not> sorted_unique paths)
      (refuse_if (\<not> list_all (identifier_field E finding_id) (ap_finding_ids a))
      (refuse_if (\<not> sorted_unique (ap_finding_ids a))
      (Option.bind (approval_digests E [] (ap_changed_path_digests a)) (\<lambda>digests.
       refuse_if (sort (map fst digests) \<noteq> paths)
       (refuse_if (ap_consumed a \<noteq> (ap_consumed_at a \<noteq> None))
       (refuse_if (ap_consumed a \<and> ap_execution_started_at a = None)
       (refuse_if (ap_resulting_head_sha a \<noteq> None \<and> \<not> ap_consumed a)
       (Some (a\<lparr>ap_changed_paths := paths, ap_changed_path_digests := sort_key fst digests\<rparr>))))))))))))))))))"

section \<open>The recovery ledgers\<close>

record recovery_ledger_entry =
  rl_command :: recovery_command
  rl_reason :: pystr
  rl_recorded_at :: pystr
  rl_pre_state :: run_status
  rl_post_state :: run_status
  rl_branch :: pystr
  rl_head_sha :: pystr
  rl_milestone_id :: "pystr option"
  rl_budgets_touched :: "(pystr \<times> int) list"
  rl_classification :: "provider_failure_class option"
  rl_human_owner_ruling :: "pystr option"

definition validate_ledger_entry :: "pyenv \<Rightarrow> recovery_ledger_entry \<Rightarrow> recovery_ledger_entry option" where
  "validate_ledger_entry E l =
     refuse_if (\<not> text_field E MAX_TEXT_CHARS (rl_reason l))
     (refuse_if (\<not> pred_option (text_field E MAX_TEXT_CHARS) (rl_human_owner_ruling l))
     (refuse_if (\<not> utc_timestamp (rl_recorded_at l))
     (refuse_if (\<not> scalar_field E MAX_IDENTIFIER_CHARS (rl_branch l))
     (refuse_if (\<not> git_object_id (rl_head_sha l))
     (refuse_if (\<not> pred_option (identifier_field E milestone_id_grammar) (rl_milestone_id l))
     (refuse_if (\<exists>(name, _) \<in> set (rl_budgets_touched l). name \<notin> set RUN_COUNTER_FIELDS)
     (refuse_if (\<not> allowed (rl_pre_state l) (rl_post_state l))
     (Some l))))))))"

section \<open>Milestone checkpoints\<close>

definition UNREADABLE_DIGEST :: pystr where
  "UNREADABLE_DIGEST = lit ''unreadable''"

record milestone_checkpoint =
  cp_milestone_id :: pystr
  cp_recorded_at :: pystr
  cp_path_digests :: "(pystr \<times> pystr) list"

fun checkpoint_digests :: "pyenv \<Rightarrow> (pystr \<times> pystr) list \<Rightarrow> (pystr \<times> pystr) list \<Rightarrow> (pystr \<times> pystr) list option" where
  "checkpoint_digests E validated [] = Some validated"
| "checkpoint_digests E validated ((path, digest) # rest) =
     Option.bind (normalize_repository_path E path) (\<lambda>normalized.
     refuse_if (digest \<noteq> UNREADABLE_DIGEST \<and> \<not> sha256_hex digest)
     (checkpoint_digests E (AList.update normalized digest validated) rest))"

definition validate_checkpoint :: "pyenv \<Rightarrow> milestone_checkpoint \<Rightarrow> milestone_checkpoint option" where
  "validate_checkpoint E c =
     refuse_if (\<not> identifier_field E milestone_id_grammar (cp_milestone_id c))
     (refuse_if (\<not> utc_timestamp (cp_recorded_at c))
     (Option.bind (checkpoint_digests E [] (cp_path_digests c)) (\<lambda>digests.
      Some (c\<lparr>cp_path_digests := sort_key fst digests\<rparr>))))"

definition differs_from :: "milestone_checkpoint \<Rightarrow> pystr \<Rightarrow> pystr \<Rightarrow> bool" where
  "differs_from c path digest =
     (case map_of (cp_path_digests c) path of
        None \<Rightarrow> True
      | Some recorded \<Rightarrow>
          if recorded = UNREADABLE_DIGEST \<or> digest = UNREADABLE_DIGEST then True
          else recorded \<noteq> digest)"

section \<open>The run record\<close>

record run_record =
  rr_schema_version :: int
  rr_run_id :: pystr
  rr_repository_root :: pystr
  rr_repository_identity :: pystr
  rr_expected_branch :: pystr
  rr_baseline_sha :: pystr
  rr_contract_sha256 :: pystr
  rr_workflow_state :: run_status
  rr_stop_reason :: "stop_reason option"
  rr_created_at :: pystr
  rr_updated_at :: pystr
  rr_policy_digest :: "pystr option"
  rr_stage_start_id :: "pystr option"
  rr_current_milestone :: "pystr option"
  rr_completed_milestones :: "pystr list"
  rr_milestone_checkpoints :: "milestone_checkpoint list"
  rr_changed_paths :: "pystr list"
  rr_provider_runs :: "provider_run_record list"
  rr_verification_results :: "verification_result list"
  rr_blocking_findings :: "finding list"
  rr_deferred_findings :: "finding list"
  rr_approvals :: "approval_record list"
  rr_review_attempts :: int
  rr_successful_review_rounds :: int
  rr_provider_failure_count :: int
  rr_correction_round :: int
  rr_closure_round :: int
  rr_reconciliations :: "recovery_ledger_entry list"
  rr_reopenings :: "recovery_ledger_entry list"
  rr_review_recoveries :: "recovery_ledger_entry list"
  rr_revalidations :: "recovery_ledger_entry list"

definition is_policy_governed :: "run_record \<Rightarrow> bool" where
  "is_policy_governed r \<longleftrightarrow> rr_policy_digest r \<noteq> None"

text \<open>The model validator \<open>_validate_record\<close>: True where it returns the record.\<close>

definition record_consistent :: "run_record \<Rightarrow> bool" where
  "record_consistent r \<longleftrightarrow>
     \<not> ((rr_policy_digest r = None) \<noteq> (rr_stage_start_id r = None))
     \<and> \<not> (rr_workflow_state r = HUMAN_INTERVENTION_REQUIRED \<and> rr_stop_reason r = None)
     \<and> \<not> (rr_workflow_state r = DONE \<and> rr_stop_reason r \<noteq> None)
     \<and> (let sequences = map pr_sequence (rr_provider_runs r)
        in sequences = sort sequences \<and> unique sequences)
     \<and> (\<forall>f \<in> set (rr_blocking_findings r). fd_severity f \<in> set BLOCKING_SEVERITIES)
     \<and> (\<forall>f \<in> set (rr_deferred_findings r). fd_severity f \<in> set DEFERRED_SEVERITIES)
     \<and> unique (map fd_finding_id (rr_blocking_findings r) @ map fd_finding_id (rr_deferred_findings r))
     \<and> (\<forall>e \<in> set (rr_reconciliations r). rl_command e = RECONCILE_MILESTONE)
     \<and> (\<forall>e \<in> set (rr_reopenings r). rl_command e = REOPEN_MILESTONE)
     \<and> (\<forall>e \<in> set (rr_review_recoveries r). rl_command e = RECOVER_FAILED_REVIEW)
     \<and> (\<forall>e \<in> set (rr_revalidations r). rl_command e = REVALIDATE_CORRECTION)"

definition scalar_fields_ok :: "pyenv \<Rightarrow> run_record \<Rightarrow> bool" where
  "scalar_fields_ok E r \<longleftrightarrow>
     rr_schema_version r = STATE_SCHEMA_VERSION
     \<and> pred_option sha256_hex (rr_policy_digest r) \<and> pred_option sha256_hex (rr_stage_start_id r)
     \<and> scalar_field E MAX_IDENTIFIER_CHARS (rr_run_id r)
     \<and> scalar_field E MAX_IDENTIFIER_CHARS (rr_repository_identity r)
     \<and> scalar_field E MAX_IDENTIFIER_CHARS (rr_expected_branch r)
     \<and> absolute_path E (rr_repository_root r)
     \<and> git_object_id (rr_baseline_sha r) \<and> sha256_hex (rr_contract_sha256 r)
     \<and> utc_timestamp (rr_created_at r) \<and> utc_timestamp (rr_updated_at r)
     \<and> pred_option (identifier_field E milestone_id_grammar) (rr_current_milestone r)
     \<and> list_all (identifier_field E milestone_id_grammar) (rr_completed_milestones r)
     \<and> unique (rr_completed_milestones r)
     \<and> 0 \<le> rr_review_attempts r \<and> 0 \<le> rr_successful_review_rounds r
     \<and> 0 \<le> rr_provider_failure_count r \<and> 0 \<le> rr_correction_round r \<and> 0 \<le> rr_closure_round r"

definition validate_run_record :: "pyenv \<Rightarrow> run_record \<Rightarrow> run_record option" where
  "validate_run_record E r =
     refuse_if (\<not> scalar_fields_ok E r)
     (Option.bind (map_opt (validate_checkpoint E) (rr_milestone_checkpoints r)) (\<lambda>checkpoints.
      refuse_if (\<not> unique (map cp_milestone_id checkpoints))
      (Option.bind (map_opt (normalize_repository_path E) (rr_changed_paths r)) (\<lambda>paths.
       refuse_if (\<not> sorted_unique paths)
       (Option.bind (map_opt (validate_provider_run E) (rr_provider_runs r)) (\<lambda>runs.
        Option.bind (map_opt (validate_verification_result E) (rr_verification_results r)) (\<lambda>results.
        Option.bind (map_opt (validate_finding E) (rr_blocking_findings r)) (\<lambda>blocking.
        Option.bind (map_opt (validate_finding E) (rr_deferred_findings r)) (\<lambda>deferred.
        Option.bind (map_opt (validate_approval E) (rr_approvals r)) (\<lambda>approvals.
        Option.bind (map_opt (validate_ledger_entry E) (rr_reconciliations r)) (\<lambda>reconciliations.
        Option.bind (map_opt (validate_ledger_entry E) (rr_reopenings r)) (\<lambda>reopenings.
        Option.bind (map_opt (validate_ledger_entry E) (rr_review_recoveries r)) (\<lambda>recoveries.
        Option.bind (map_opt (validate_ledger_entry E) (rr_revalidations r)) (\<lambda>revalidations.
        let record =
          r\<lparr>rr_milestone_checkpoints := checkpoints, rr_changed_paths := paths,
             rr_provider_runs := runs, rr_verification_results := results,
             rr_blocking_findings := blocking, rr_deferred_findings := deferred,
             rr_approvals := approvals, rr_reconciliations := reconciliations,
             rr_reopenings := reopenings, rr_review_recoveries := recoveries,
             rr_revalidations := revalidations\<rparr>
        in refuse_if (\<not> record_consistent record) (Some record)))))))))))))))"

end
