(* ===== verification/Machine_Results.thy ===== *)
theory Machine_Results
  imports Run_Record
begin

text \<open>
  The machine-result grammar and its fail-closed parsers (\<open>milestone_runner/results.py\<close>): finding the
  one block between a role's sentinels, loading it with a safe YAML loader (a parameter,
  \<open>safe_load\<close>, which may also fail with an exception that is no \<open>yaml.YAMLError\<close>), validating the closed
  models, and the semantic rules of the four parsers. A rejection is a value that carries the role and the
  transcripts it was given; its message is not modelled.
\<close>

section \<open>Rejections\<close>

record result_transcripts =
  rt_prompt_path :: pystr
  rt_stdout_path :: pystr
  rt_stderr_path :: pystr

definition transcripts_of :: "provider_run_record \<Rightarrow> result_transcripts" where
  "transcripts_of r =
     \<lparr>rt_prompt_path = pr_prompt_path r, rt_stdout_path = pr_stdout_path r, rt_stderr_path = pr_stderr_path r\<rparr>"

datatype result_error =
    MalformedResult provider_role "result_transcripts option"
  | ResultValueError
  | ResultLoaderException

section \<open>The grammar\<close>

definition MAX_RESULT_BLOCK_CHARS :: nat where "MAX_RESULT_BLOCK_CHARS = 200000"
definition MAX_RESULT_LIST_ITEMS :: nat where "MAX_RESULT_LIST_ITEMS = 200"

fun RESULT_SENTINELS :: "provider_role \<Rightarrow> pystr \<times> pystr" where
  "RESULT_SENTINELS IMPLEMENTATION = (lit ''AUTO016_MILESTONE_RESULT'', lit ''END_AUTO016_MILESTONE_RESULT'')"
| "RESULT_SENTINELS CORRECTION = (lit ''AUTO016_CORRECTION_RESULT'', lit ''END_AUTO016_CORRECTION_RESULT'')"
| "RESULT_SENTINELS REVIEW = (lit ''AUTO016_REVIEW_RESULT'', lit ''END_AUTO016_REVIEW_RESULT'')"
| "RESULT_SENTINELS CLOSURE = (lit ''AUTO016_CLOSURE_RESULT'', lit ''END_AUTO016_CLOSURE_RESULT'')"

definition ALL_SENTINELS :: "pystr list" where
  "ALL_SENTINELS = concat (map (\<lambda>r. [fst (RESULT_SENTINELS r), snd (RESULT_SENTINELS r)]) all_provider_role)"

record grammar =
  gr_role :: provider_role
  gr_start :: pystr
  gr_end :: pystr

definition for_role :: "provider_role \<Rightarrow> grammar" where
  "for_role role =
     \<lparr>gr_role = role, gr_start = fst (RESULT_SENTINELS role), gr_end = snd (RESULT_SENTINELS role)\<rparr>"

definition foreign_sentinels :: "grammar \<Rightarrow> pystr list" where
  "foreign_sentinels g = filter (\<lambda>s. s \<noteq> gr_start g \<and> s \<noteq> gr_end g) ALL_SENTINELS"

text \<open>\<open>str.splitlines()\<close>: \<open>current\<close> is the line read so far.\<close>

definition is_linebreak :: "nat \<Rightarrow> bool" where
  "is_linebreak c \<longleftrightarrow> 10 \<le> c \<and> c \<le> 13 \<or> 28 \<le> c \<and> c \<le> 30 \<or> c = 0x85 \<or> c = 0x2028 \<or> c = 0x2029"

fun split_lines :: "pystr \<Rightarrow> pystr \<Rightarrow> pystr list" where
  "split_lines current [] = (if current = [] then [] else [current])"
| "split_lines current (c # cs) =
     (if c = 13 \<and> cs \<noteq> [] \<and> hd cs = 10 then current # split_lines [] (tl cs)
      else if is_linebreak c then current # split_lines [] cs
      else split_lines (current @ [c]) cs)"

definition splitlines :: "pystr \<Rightarrow> pystr list" where
  "splitlines text = split_lines [] text"

text \<open>\<open>`{3,}[A-Za-z0-9_+-]*\<close> on the stripped line.\<close>

definition is_fence :: "pystr \<Rightarrow> bool" where
  "is_fence line =
     (let s = strip line; ticks = takeWhile (\<lambda>c. c = 96) s; rest = dropWhile (\<lambda>c. c = 96) s in
      3 \<le> length ticks \<and> list_all (\<lambda>c. is_alnum c \<or> c = 95 \<or> c = 43 \<or> c = 45) rest)"

definition sentinel_lines :: "pystr list \<Rightarrow> pystr \<Rightarrow> nat list" where
  "sentinel_lines lines sentinel = filter (\<lambda>i. strip (lines ! i) = sentinel) [0..<length lines]"

definition nonblank_between :: "pystr list \<Rightarrow> nat \<Rightarrow> nat \<Rightarrow> nat list" where
  "nonblank_between lines a b = filter (\<lambda>i. strip (lines ! i) \<noteq> []) [a..<b]"

definition fences_wrap :: "nat list \<Rightarrow> nat list \<Rightarrow> nat list \<Rightarrow> bool" where
  "fences_wrap fences before after =
     (case fences of
        [opening, closing] \<Rightarrow> before \<noteq> [] \<and> last before = opening \<and> after \<noteq> [] \<and> hd after = closing
      | _ \<Rightarrow> False)"

definition extract_result_block ::
  "pystr \<Rightarrow> grammar \<Rightarrow> result_transcripts option \<Rightarrow> result_error + pystr" where
  "extract_result_block text g transcripts =
     (let reject = MalformedResult (gr_role g) transcripts;
          lines = splitlines text;
          starts = sentinel_lines lines (gr_start g);
          ends = sentinel_lines lines (gr_end g) in
      raise_if (list_ex (\<lambda>foreign. sentinel_lines lines foreign \<noteq> []) (foreign_sentinels g)) reject
      (raise_if (starts = []) reject
      (raise_if (ends = []) reject
      (raise_if (length starts > 1 \<or> length ends > 1) reject
      (let s = hd starts; e = hd ends in
       raise_if (e < s) reject
       (let before = nonblank_between lines 0 s;
            after = nonblank_between lines (e + 1) (length lines);
            fences = filter (\<lambda>i. is_fence (lines ! i)) [0..<length lines] in
        raise_if (length after > 1) reject
        (raise_if (after \<noteq> [] \<and> \<not> is_fence (lines ! hd after)) reject
        (raise_if (fences \<noteq> [] \<and> \<not> fences_wrap fences before after) reject
        (let body = join_on 10 (take (e - (s + 1)) (drop (s + 1) lines)) in
         raise_if (length body > MAX_RESULT_BLOCK_CHARS) reject (Inr body))))))))))"

section \<open>Loading and validating a block\<close>

fun str_key :: "pyval \<Rightarrow> bool" where
  "str_key (PStr _) = True"
| "str_key _ = False"

definition load_block ::
  "(pystr \<Rightarrow> yaml_error + pyval) \<Rightarrow> pystr \<Rightarrow> grammar \<Rightarrow> result_transcripts option \<Rightarrow>
     result_error + (pyval \<times> pyval) list" where
  "load_block safe_load text g transcripts =
     (let reject = MalformedResult (gr_role g) transcripts in
      rbind (extract_result_block text g transcripts) (\<lambda>body.
      rbind (yaml_read reject ResultLoaderException (safe_load body)) (\<lambda>document.
      case document of
        PDict mapping \<Rightarrow> raise_if (\<not> list_all (\<lambda>(k, _). str_key k) mapping) reject (Inr mapping)
      | _ \<Rightarrow> Inl reject)))"

text \<open>
  Closed, strict models (\<open>extra="forbid"\<close>, \<open>strict=True\<close>): \<open>closed_fields\<close> refuses a key that is no
  field, \<open>required\<close> and \<open>optional\<close> read a field, \<open>read_...\<close> are the field types.
\<close>

definition closed_fields :: "string list \<Rightarrow> (pyval \<times> pyval) list \<Rightarrow> bool" where
  "closed_fields names kvs = list_all (\<lambda>(k, _). k \<in> set (map (\<lambda>n. PStr (lit n)) names)) kvs"

definition get_field :: "(pyval \<times> pyval) list \<Rightarrow> string \<Rightarrow> pyval option" where
  "get_field kvs name = map_of kvs (PStr (lit name))"

definition required :: "(pyval \<Rightarrow> 'a option) \<Rightarrow> (pyval \<times> pyval) list \<Rightarrow> string \<Rightarrow> 'a option" where
  "required reader kvs name = Option.bind (get_field kvs name) reader"

fun read_str :: "pyval \<Rightarrow> pystr option" where
  "read_str (PStr v) = Some v"
| "read_str _ = None"

text \<open>\<open>_as_enum\<close> followed by the strict enum field.\<close>

definition read_enum :: "('a \<Rightarrow> pystr) \<Rightarrow> 'a list \<Rightarrow> pyval \<Rightarrow> 'a option" where
  "read_enum value members v = Option.bind (read_str v) (\<lambda>s. find (\<lambda>m. value m = s) members)"

text \<open>\<open>_as_list\<close>, the list field with its default, and \<open>_bounded_list\<close>.\<close>

definition list_field :: "(pyval \<Rightarrow> 'a option) \<Rightarrow> (pyval \<times> pyval) list \<Rightarrow> string \<Rightarrow> 'a list option" where
  "list_field reader kvs name =
     (case get_field kvs name of
        None \<Rightarrow> Some []
      | Some PNone \<Rightarrow> Some []
      | Some (PList xs) \<Rightarrow>
          Option.bind (map_opt reader xs) (\<lambda>ys. refuse_if (length ys > MAX_RESULT_LIST_ITEMS) (Some ys))
      | Some _ \<Rightarrow> None)"

definition bounded_text :: "pystr \<Rightarrow> pystr option" where
  "bounded_text v = refuse_if (strip v = []) (refuse_if (length v > MAX_TEXT_CHARS) (Some v))"

definition read_text :: "pyval \<Rightarrow> pystr option" where
  "read_text v = Option.bind (read_str v) bounded_text"

section \<open>The result models\<close>

datatype milestone_report_status =
    MS_COMPLETE
  | MS_BLOCKED
  | MS_FAILED

fun milestone_report_status_value :: "milestone_report_status \<Rightarrow> pystr" where
  "milestone_report_status_value MS_COMPLETE = lit ''COMPLETE''"
| "milestone_report_status_value MS_BLOCKED = lit ''BLOCKED''"
| "milestone_report_status_value MS_FAILED = lit ''FAILED''"

definition all_milestone_report_status :: "milestone_report_status list" where
  "all_milestone_report_status = [MS_COMPLETE, MS_BLOCKED, MS_FAILED]"

datatype reported_status =
    RV_PASS
  | RV_FAIL

fun reported_status_value :: "reported_status \<Rightarrow> pystr" where
  "reported_status_value RV_PASS = lit ''PASS''"
| "reported_status_value RV_FAIL = lit ''FAIL''"

record reported_verification =
  rf_command :: pystr
  rf_result :: reported_status

fun read_verification :: "pyval \<Rightarrow> reported_verification option" where
  "read_verification (PDict kvs) =
     refuse_if (\<not> closed_fields [''command'', ''result''] kvs)
     (Option.bind (required read_text kvs ''command'') (\<lambda>command.
      Option.bind (required (read_enum reported_status_value [RV_PASS, RV_FAIL]) kvs ''result'') (\<lambda>result.
      Some \<lparr>rf_command = command, rf_result = result\<rparr>)))"
| "read_verification _ = None"

record addressed_finding =
  af_id :: pystr
  af_resolution :: pystr

fun read_addressed :: "pyval \<Rightarrow> addressed_finding option" where
  "read_addressed (PDict kvs) =
     refuse_if (\<not> closed_fields [''id'', ''resolution''] kvs)
     (Option.bind (required read_text kvs ''id'') (\<lambda>i.
      Option.bind (required read_text kvs ''resolution'') (\<lambda>resolution.
      Some \<lparr>af_id = i, af_resolution = resolution\<rparr>)))"
| "read_addressed _ = None"

record reported_finding =
  rp_id :: pystr
  rp_severity :: finding_severity
  rp_title :: pystr
  rp_summary :: pystr

fun read_finding :: "pyval \<Rightarrow> reported_finding option" where
  "read_finding (PDict kvs) =
     refuse_if (\<not> closed_fields [''id'', ''severity'', ''title'', ''summary''] kvs)
     (Option.bind (required read_str kvs ''id'') (\<lambda>i.
      Option.bind (required (read_enum severity_value all_severity) kvs ''severity'') (\<lambda>severity.
      Option.bind (required read_str kvs ''title'') (\<lambda>title.
      Option.bind (required read_str kvs ''summary'') (\<lambda>summary.
      Some \<lparr>rp_id = i, rp_severity = severity, rp_title = title, rp_summary = summary\<rparr>)))))"
| "read_finding _ = None"

definition as_finding :: "pyenv \<Rightarrow> finding_status \<Rightarrow> reported_finding \<Rightarrow> finding option" where
  "as_finding E status r =
     validate_finding E
       \<lparr>fd_finding_id = rp_id r, fd_severity = rp_severity r, fd_title = rp_title r,
        fd_summary = rp_summary r, fd_status = status\<rparr>"

record closure_ruling =
  cl_id :: pystr
  cl_status :: finding_status
  cl_reason :: pystr

fun read_ruling :: "pyval \<Rightarrow> closure_ruling option" where
  "read_ruling (PDict kvs) =
     refuse_if (\<not> closed_fields [''id'', ''status'', ''reason''] kvs)
     (Option.bind (required read_str kvs ''id'') (\<lambda>i.
      Option.bind (required (read_enum finding_status_value all_finding_status) kvs ''status'') (\<lambda>status.
      Option.bind (required read_text kvs ''reason'') (\<lambda>reason.
      Some \<lparr>cl_id = i, cl_status = status, cl_reason = reason\<rparr>))))"
| "read_ruling _ = None"

record milestone_result =
  mr_milestone :: pystr
  mr_status :: milestone_report_status
  mr_changed_paths :: "pystr list"
  mr_verification :: "reported_verification list"
  mr_blockers :: "pystr list"

definition read_path :: "pyenv \<Rightarrow> pyval \<Rightarrow> pystr option" where
  "read_path E v = Option.bind (read_str v) (normalize_repository_path E)"

definition milestone_result_model :: "pyenv \<Rightarrow> (pyval \<times> pyval) list \<Rightarrow> milestone_result option" where
  "milestone_result_model E kvs =
     refuse_if (\<not> closed_fields [''milestone'', ''status'', ''changed_paths'', ''verification'', ''blockers''] kvs)
     (Option.bind (required read_str kvs ''milestone'') (\<lambda>milestone.
      Option.bind (required (read_enum milestone_report_status_value all_milestone_report_status) kvs ''status'') (\<lambda>status.
      Option.bind (list_field (read_path E) kvs ''changed_paths'') (\<lambda>paths.
      Option.bind (list_field read_verification kvs ''verification'') (\<lambda>verification.
      Option.bind (list_field read_text kvs ''blockers'') (\<lambda>blockers.
      Some \<lparr>mr_milestone = milestone, mr_status = status, mr_changed_paths = paths,
            mr_verification = verification, mr_blockers = blockers\<rparr>))))))"

record correction_result =
  cr_status :: milestone_report_status
  cr_findings_addressed :: "addressed_finding list"
  cr_changed_paths :: "pystr list"
  cr_verification :: "reported_verification list"

definition correction_result_model :: "pyenv \<Rightarrow> (pyval \<times> pyval) list \<Rightarrow> correction_result option" where
  "correction_result_model E kvs =
     refuse_if (\<not> closed_fields [''status'', ''findings_addressed'', ''changed_paths'', ''verification''] kvs)
     (Option.bind (required (read_enum milestone_report_status_value all_milestone_report_status) kvs ''status'') (\<lambda>status.
      Option.bind (list_field read_addressed kvs ''findings_addressed'') (\<lambda>addressed.
      Option.bind (list_field (read_path E) kvs ''changed_paths'') (\<lambda>paths.
      Option.bind (list_field read_verification kvs ''verification'') (\<lambda>verification.
      Some \<lparr>cr_status = status, cr_findings_addressed = addressed, cr_changed_paths = paths,
            cr_verification = verification\<rparr>)))))"

record review_result =
  rw_verdict :: review_verdict
  rw_blockers :: "finding list"
  rw_deferred :: "finding list"

record raw_review_block =
  rr_raw_verdict :: review_verdict
  rr_raw_blockers :: "reported_finding list"
  rr_raw_deferred :: "reported_finding list"

definition raw_review_model :: "(pyval \<times> pyval) list \<Rightarrow> raw_review_block option" where
  "raw_review_model kvs =
     refuse_if (\<not> closed_fields [''verdict'', ''blockers'', ''deferred''] kvs)
     (Option.bind (required (read_enum review_verdict_value all_review_verdict) kvs ''verdict'') (\<lambda>verdict.
      Option.bind (list_field read_finding kvs ''blockers'') (\<lambda>blockers.
      Option.bind (list_field read_finding kvs ''deferred'') (\<lambda>deferred.
      Some \<lparr>rr_raw_verdict = verdict, rr_raw_blockers = blockers, rr_raw_deferred = deferred\<rparr>))))"

record closure_result =
  co_findings :: "closure_ruling list"

definition closed_ids :: "closure_result \<Rightarrow> pystr list" where
  "closed_ids c = map cl_id (filter (\<lambda>r. cl_status r = FS_CLOSED) (co_findings c))"

definition open_ids :: "closure_result \<Rightarrow> pystr list" where
  "open_ids c = map cl_id (filter (\<lambda>r. cl_status r = FS_OPEN) (co_findings c))"

definition raw_closure_model :: "(pyval \<times> pyval) list \<Rightarrow> closure_ruling list option" where
  "raw_closure_model kvs =
     refuse_if (\<not> closed_fields [''findings''] kvs) (list_field read_ruling kvs ''findings'')"

section \<open>The four parsers\<close>

definition parse_milestone_result ::
  "pyenv \<Rightarrow> (pystr \<Rightarrow> yaml_error + pyval) \<Rightarrow> pystr \<Rightarrow> pystr option \<Rightarrow> result_transcripts option \<Rightarrow>
     result_error + milestone_result" where
  "parse_milestone_result E safe_load text expected_milestone_id transcripts =
     (let g = for_role IMPLEMENTATION; reject = MalformedResult (gr_role g) transcripts in
      rbind (load_block safe_load text g transcripts) (\<lambda>mapping.
      rbind (from_option reject (milestone_result_model E mapping)) (\<lambda>result.
      raise_if (expected_milestone_id \<noteq> None \<and> expected_milestone_id \<noteq> Some (mr_milestone result)) reject
      (raise_if (mr_status result = MS_BLOCKED \<and> mr_blockers result = []) reject
      (raise_if (mr_status result = MS_COMPLETE \<and> mr_blockers result \<noteq> []) reject
      (Inr result))))))"

definition parse_correction_result ::
  "pyenv \<Rightarrow> (pystr \<Rightarrow> yaml_error + pyval) \<Rightarrow> pystr \<Rightarrow> result_transcripts option \<Rightarrow> result_error + correction_result" where
  "parse_correction_result E safe_load text transcripts =
     (let g = for_role CORRECTION; reject = MalformedResult (gr_role g) transcripts in
      rbind (load_block safe_load text g transcripts) (\<lambda>mapping.
      rbind (from_option reject (correction_result_model E mapping)) (\<lambda>result.
      raise_if (\<not> unique (map af_id (cr_findings_addressed result))) reject (Inr result))))"

definition parse_review_result ::
  "pyenv \<Rightarrow> (pystr \<Rightarrow> yaml_error + pyval) \<Rightarrow> pystr \<Rightarrow> int \<Rightarrow> result_transcripts option \<Rightarrow> result_error + review_result" where
  "parse_review_result E safe_load text max_blockers transcripts =
     raise_if (max_blockers < 1) ResultValueError
     (let g = for_role REVIEW; reject = MalformedResult (gr_role g) transcripts in
      rbind (load_block safe_load text g transcripts) (\<lambda>mapping.
      rbind (from_option reject (raw_review_model mapping)) (\<lambda>raw.
      raise_if (list_ex (\<lambda>b. rp_severity b \<notin> set BLOCKING_SEVERITIES) (rr_raw_blockers raw)) reject
      (raise_if (list_ex (\<lambda>d. rp_severity d \<notin> set DEFERRED_SEVERITIES) (rr_raw_deferred raw)) reject
      (raise_if (int (length (rr_raw_blockers raw)) > max_blockers) reject
      (raise_if (rr_raw_verdict raw = BLOCKED \<and> rr_raw_blockers raw = []) reject
      (raise_if (rr_raw_verdict raw = APPROVED \<and> rr_raw_blockers raw \<noteq> []) reject
      (raise_if (\<not> unique (map rp_id (rr_raw_blockers raw @ rr_raw_deferred raw))) reject
      (rbind (from_option reject (map_opt (as_finding E FS_OPEN) (rr_raw_blockers raw))) (\<lambda>blockers.
       rbind (from_option reject (map_opt (as_finding E FS_DEFERRED) (rr_raw_deferred raw))) (\<lambda>deferred.
       Inr \<lparr>rw_verdict = rr_raw_verdict raw, rw_blockers = blockers, rw_deferred = deferred\<rparr>)))))))))))"

text \<open>The loop over the rulings: \<open>seen\<close> is the set of ids ruled on so far.\<close>

fun rulings_ok :: "pystr list \<Rightarrow> pystr list \<Rightarrow> closure_ruling list \<Rightarrow> bool" where
  "rulings_ok known seen [] = True"
| "rulings_ok known seen (r # rs) =
     (if cl_id r \<notin> set known then False
      else if cl_id r \<in> set seen then False
      else if cl_status r = FS_DEFERRED then False
      else rulings_ok known (cl_id r # seen) rs)"

definition parse_closure_result ::
  "(pystr \<Rightarrow> yaml_error + pyval) \<Rightarrow> pystr \<Rightarrow> pystr list \<Rightarrow> result_transcripts option \<Rightarrow> result_error + closure_result" where
  "parse_closure_result safe_load text open_finding_ids transcripts =
     (let g = for_role CLOSURE; reject = MalformedResult (gr_role g) transcripts in
      rbind (load_block safe_load text g transcripts) (\<lambda>mapping.
      rbind (from_option reject (raw_closure_model mapping)) (\<lambda>raw.
      raise_if (\<not> rulings_ok open_finding_ids [] raw) reject (Inr \<lparr>co_findings = raw\<rparr>))))"

end
