(* ===== verification/Run_Record_Facts.thy ===== *)
theory Run_Record_Facts
  imports Run_Record
begin

text \<open>
  What every constructed record satisfies (\<open>wf_...\<close>), proved once per model from its
  constructor, and which fields a constructor leaves as they were given. The replay and the
  application proofs use only these facts, never the constructors' definitions.
\<close>

section \<open>Well-formed parts\<close>

definition wf_provider_run :: "provider_run_record \<Rightarrow> bool" where
  "wf_provider_run p \<longleftrightarrow>
     1 \<le> pr_sequence p \<and> 0 \<le> pr_duration_ms p
     \<and> (pr_timed_out p \<longrightarrow> pr_failure_class p = Some TIMEOUT)
     \<and> safe_relative_path (pr_prompt_path p) \<and> safe_relative_path (pr_stdout_path p)
     \<and> safe_relative_path (pr_stderr_path p)"

definition wf_verification :: "verification_result \<Rightarrow> bool" where
  "wf_verification v \<longleftrightarrow>
     vr_command v \<noteq> [] \<and> (vr_passed v \<longleftrightarrow> vr_exit_code v = Some 0 \<and> \<not> vr_timed_out v)
     \<and> safe_relative_path (vr_stdout_path v) \<and> safe_relative_path (vr_stderr_path v)"

definition wf_approval :: "approval_record \<Rightarrow> bool" where
  "wf_approval a \<longleftrightarrow>
     (ap_consumed a \<longleftrightarrow> ap_consumed_at a \<noteq> None)
     \<and> (ap_consumed a \<longrightarrow> ap_execution_started_at a \<noteq> None)
     \<and> (ap_resulting_head_sha a \<noteq> None \<longrightarrow> ap_consumed a)
     \<and> distinct (ap_changed_paths a) \<and> sorted (ap_changed_paths a)
     \<and> (\<forall>p \<in> set (ap_changed_paths a). safe_relative_path p)
     \<and> distinct (map fst (ap_changed_path_digests a))
     \<and> set (map fst (ap_changed_path_digests a)) = set (ap_changed_paths a)
     \<and> (\<forall>(p, d) \<in> set (ap_changed_path_digests a). sha256_hex d)"

definition wf_ledger_entry :: "recovery_ledger_entry \<Rightarrow> bool" where
  "wf_ledger_entry l \<longleftrightarrow>
     allowed (rl_pre_state l) (rl_post_state l)
     \<and> fst ` set (rl_budgets_touched l) \<subseteq> set RUN_COUNTER_FIELDS"

definition wf_checkpoint :: "milestone_checkpoint \<Rightarrow> bool" where
  "wf_checkpoint c \<longleftrightarrow>
     distinct (map fst (cp_path_digests c))
     \<and> (\<forall>(p, d) \<in> set (cp_path_digests c).
          safe_relative_path p \<and> (d = UNREADABLE_DIGEST \<or> sha256_hex d))"

lemma validate_provider_run_wf: "validate_provider_run E r = Some p \<Longrightarrow> wf_provider_run p"
  unfolding validate_provider_run_def refuse_if_Some bind_eq_Some_conv option.inject
  by (elim exE conjE) (hypsubst, (drule normalized_path_safe)+, simp add: wf_provider_run_def)

lemma validate_provider_run_frame:
  "validate_provider_run E r = Some p \<Longrightarrow>
     pr_sequence p = pr_sequence r \<and> pr_role p = pr_role r \<and> pr_milestone_id p = pr_milestone_id r
     \<and> pr_completed_at p = pr_completed_at r"
  unfolding validate_provider_run_def refuse_if_Some bind_eq_Some_conv option.inject
  by (elim exE conjE) (hypsubst, simp)

lemma validate_verification_result_wf:
  "validate_verification_result E r = Some v \<Longrightarrow> wf_verification v"
  unfolding validate_verification_result_def Let_def refuse_if_Some bind_eq_Some_conv option.inject
  by (elim exE conjE) (hypsubst, (drule normalized_path_safe)+, simp add: wf_verification_def)

lemma normalize_repository_path_safe: "normalize_repository_path E v = Some p \<Longrightarrow> safe_relative_path p"
  by (simp add: normalize_repository_path_def normalized_path_safe)

lemma normalized_paths_safe:
  "map_opt (normalize_repository_path E) vs = Some ps \<Longrightarrow> \<forall>p \<in> set ps. safe_relative_path p"
  by (rule map_opt_all, assumption, erule normalize_repository_path_safe)

lemma approval_digests_wf:
  "approval_digests E acc xs = Some out \<Longrightarrow> distinct (map fst acc) \<Longrightarrow>
   \<forall>(p, d) \<in> set acc. sha256_hex d \<Longrightarrow>
     distinct (map fst out) \<and> (\<forall>(p, d) \<in> set out. sha256_hex d)"
  by (induction E acc xs rule: approval_digests.induct) auto

lemma validate_approval_wf:
  assumes "validate_approval E r = Some a"
  shows "wf_approval a"
proof -
  from assms obtain paths digests where
    paths: "map_opt (normalize_repository_path E) (ap_changed_paths r) = Some paths"
      "sorted_unique paths" and
    digests: "approval_digests E [] (ap_changed_path_digests r) = Some digests"
      "sort (map fst digests) = paths" and
    flags: "ap_consumed r = (ap_consumed_at r \<noteq> None)"
      "\<not> (ap_consumed r \<and> ap_execution_started_at r = None)"
      "\<not> (ap_resulting_head_sha r \<noteq> None \<and> \<not> ap_consumed r)" and
    a: "a = r\<lparr>ap_changed_paths := paths, ap_changed_path_digests := sort_key fst digests\<rparr>"
    by (auto simp: validate_approval_def)
  have "distinct (map fst digests) \<and> (\<forall>(p, d) \<in> set digests. sha256_hex d)"
    using approval_digests_wf [OF digests(1)] by simp
  moreover have "set (map fst digests) = set paths"
    using digests(2) by (metis set_sort)
  moreover have "\<forall>p \<in> set paths. safe_relative_path p"
    using paths(1) by (rule normalized_paths_safe)
  ultimately show ?thesis
    using paths(2) flags a by (auto simp: wf_approval_def sorted_unique_iff distinct_map)
qed

lemma validate_ledger_entry_id: "validate_ledger_entry E r = Some l \<Longrightarrow> l = r"
  by (simp add: validate_ledger_entry_def)

lemma validate_ledger_entry_wf: "validate_ledger_entry E r = Some l \<Longrightarrow> wf_ledger_entry l"
  by (auto simp: validate_ledger_entry_def wf_ledger_entry_def)

lemma validate_finding_id: "validate_finding E r = Some f \<Longrightarrow> f = r"
  by (simp add: validate_finding_def)

lemma checkpoint_digests_wf:
  "checkpoint_digests E acc xs = Some out \<Longrightarrow> distinct (map fst acc) \<Longrightarrow>
   \<forall>(p, d) \<in> set acc. safe_relative_path p \<and> (d = UNREADABLE_DIGEST \<or> sha256_hex d) \<Longrightarrow>
     distinct (map fst out)
     \<and> (\<forall>(p, d) \<in> set out. safe_relative_path p \<and> (d = UNREADABLE_DIGEST \<or> sha256_hex d))"
proof (induction E acc xs rule: checkpoint_digests.induct)
  case (1 E acc)
  then show ?case by simp
next
  case (2 E acc path digest rest)
  then obtain n where n: "normalize_repository_path E path = Some n"
    and d: "digest = UNREADABLE_DIGEST \<or> sha256_hex digest"
    and rest: "checkpoint_digests E (AList.update n digest acc) rest = Some out" by auto
  have "\<forall>(p, d) \<in> set (AList.update n digest acc).
          safe_relative_path p \<and> (d = UNREADABLE_DIGEST \<or> sha256_hex d)"
    using "2.prems"(3) d normalize_repository_path_safe [OF n]
    by (induction acc) auto
  moreover have "distinct (map fst (AList.update n digest acc))"
    using "2.prems"(2) by (rule distinct_update)
  ultimately show ?case using "2.IH" n d rest by blast
qed

lemma validate_checkpoint_wf: "validate_checkpoint E r = Some c \<Longrightarrow> wf_checkpoint c"
  using checkpoint_digests_wf [of E "[]" "cp_path_digests r"]
  by (auto simp: validate_checkpoint_def wf_checkpoint_def distinct_map)

text \<open>
  An unreadable observation never counts as unchanged content; two readable ones are compared.
\<close>

lemma differs_from_readable:
  assumes "map_of (cp_path_digests c) path = Some recorded"
    and "recorded \<noteq> UNREADABLE_DIGEST" and "digest \<noteq> UNREADABLE_DIGEST"
  shows "differs_from c path digest \<longleftrightarrow> recorded \<noteq> digest"
  using assms by (simp add: differs_from_def)

lemma not_differs_from:
  "\<not> differs_from c path digest \<longleftrightarrow>
     map_of (cp_path_digests c) path = Some digest \<and> digest \<noteq> UNREADABLE_DIGEST"
  by (auto simp: differs_from_def split: option.splits)

section \<open>Well-formed run records\<close>

definition wf_run_record :: "run_record \<Rightarrow> bool" where
  "wf_run_record r \<longleftrightarrow>
     rr_schema_version r = STATE_SCHEMA_VERSION
     \<and> record_consistent r
     \<and> distinct (rr_completed_milestones r)
     \<and> distinct (map cp_milestone_id (rr_milestone_checkpoints r))
     \<and> distinct (rr_changed_paths r) \<and> sorted (rr_changed_paths r)
     \<and> (\<forall>p \<in> set (rr_changed_paths r). safe_relative_path p)
     \<and> (\<forall>c \<in> set (rr_milestone_checkpoints r). wf_checkpoint c)
     \<and> (\<forall>p \<in> set (rr_provider_runs r). wf_provider_run p)
     \<and> (\<forall>v \<in> set (rr_verification_results r). wf_verification v)
     \<and> (\<forall>a \<in> set (rr_approvals r). wf_approval a)
     \<and> (\<forall>l \<in> set (rr_reconciliations r @ rr_reopenings r @ rr_review_recoveries r @ rr_revalidations r).
          wf_ledger_entry l)
     \<and> 0 \<le> rr_review_attempts r \<and> 0 \<le> rr_successful_review_rounds r
     \<and> 0 \<le> rr_provider_failure_count r \<and> 0 \<le> rr_correction_round r \<and> 0 \<le> rr_closure_round r"

lemma map_opt_ident: "map_opt f xs = Some ys \<Longrightarrow> (\<And>x y. f x = Some y \<Longrightarrow> y = x) \<Longrightarrow> ys = xs"
  by (induction xs arbitrary: ys) (auto split: option.splits)

text \<open>The constructor's normal forms, and the fields it leaves alone.\<close>

lemma validate_run_record_parts:
  assumes "validate_run_record E r = Some s"
  shows "scalar_fields_ok E r
    \<and> map_opt (validate_checkpoint E) (rr_milestone_checkpoints r) = Some (rr_milestone_checkpoints s)
    \<and> unique (map cp_milestone_id (rr_milestone_checkpoints s))
    \<and> map_opt (normalize_repository_path E) (rr_changed_paths r) = Some (rr_changed_paths s)
    \<and> sorted_unique (rr_changed_paths s)
    \<and> map_opt (validate_provider_run E) (rr_provider_runs r) = Some (rr_provider_runs s)
    \<and> map_opt (validate_verification_result E) (rr_verification_results r) = Some (rr_verification_results s)
    \<and> map_opt (validate_finding E) (rr_blocking_findings r) = Some (rr_blocking_findings s)
    \<and> map_opt (validate_finding E) (rr_deferred_findings r) = Some (rr_deferred_findings s)
    \<and> map_opt (validate_approval E) (rr_approvals r) = Some (rr_approvals s)
    \<and> map_opt (validate_ledger_entry E) (rr_reconciliations r) = Some (rr_reconciliations s)
    \<and> map_opt (validate_ledger_entry E) (rr_reopenings r) = Some (rr_reopenings s)
    \<and> map_opt (validate_ledger_entry E) (rr_review_recoveries r) = Some (rr_review_recoveries s)
    \<and> map_opt (validate_ledger_entry E) (rr_revalidations r) = Some (rr_revalidations s)
    \<and> record_consistent s"
  using assms
  unfolding validate_run_record_def Let_def refuse_if_Some bind_eq_Some_conv not_not option.inject
  by (elim exE conjE) (hypsubst, simp)

lemma validate_run_record_frame:
  assumes "validate_run_record E r = Some s"
  shows "rr_schema_version s = rr_schema_version r \<and> rr_run_id s = rr_run_id r
    \<and> rr_repository_root s = rr_repository_root r
    \<and> rr_repository_identity s = rr_repository_identity r
    \<and> rr_expected_branch s = rr_expected_branch r \<and> rr_baseline_sha s = rr_baseline_sha r
    \<and> rr_contract_sha256 s = rr_contract_sha256 r \<and> rr_workflow_state s = rr_workflow_state r
    \<and> rr_stop_reason s = rr_stop_reason r \<and> rr_created_at s = rr_created_at r
    \<and> rr_updated_at s = rr_updated_at r \<and> rr_policy_digest s = rr_policy_digest r
    \<and> rr_stage_start_id s = rr_stage_start_id r \<and> rr_current_milestone s = rr_current_milestone r
    \<and> rr_completed_milestones s = rr_completed_milestones r
    \<and> rr_review_attempts s = rr_review_attempts r
    \<and> rr_successful_review_rounds s = rr_successful_review_rounds r
    \<and> rr_provider_failure_count s = rr_provider_failure_count r
    \<and> rr_correction_round s = rr_correction_round r \<and> rr_closure_round s = rr_closure_round r"
  using assms
  unfolding validate_run_record_def Let_def refuse_if_Some bind_eq_Some_conv not_not option.inject
  by (elim exE conjE) (hypsubst, simp)

lemma validate_run_record_ledgers:
  assumes "validate_run_record E r = Some s"
  shows "rr_blocking_findings s = rr_blocking_findings r"
    and "rr_deferred_findings s = rr_deferred_findings r"
    and "rr_reconciliations s = rr_reconciliations r" and "rr_reopenings s = rr_reopenings r"
    and "rr_review_recoveries s = rr_review_recoveries r"
    and "rr_revalidations s = rr_revalidations r"
proof -
  note parts = validate_run_record_parts [OF assms]
  show "rr_blocking_findings s = rr_blocking_findings r"
    using parts by (elim conjE) (rule map_opt_ident, assumption, erule validate_finding_id)
  show "rr_deferred_findings s = rr_deferred_findings r"
    using parts by (elim conjE) (rule map_opt_ident, assumption, erule validate_finding_id)
  show "rr_reconciliations s = rr_reconciliations r"
    using parts by (elim conjE) (rule map_opt_ident, assumption, erule validate_ledger_entry_id)
  show "rr_reopenings s = rr_reopenings r"
    using parts by (elim conjE) (rule map_opt_ident, assumption, erule validate_ledger_entry_id)
  show "rr_review_recoveries s = rr_review_recoveries r"
    using parts by (elim conjE) (rule map_opt_ident, assumption, erule validate_ledger_entry_id)
  show "rr_revalidations s = rr_revalidations r"
    using parts by (elim conjE) (rule map_opt_ident, assumption, erule validate_ledger_entry_id)
qed

lemma validate_run_record_ledger_wf:
  assumes "validate_run_record E r = Some s"
  shows "\<forall>l \<in> set (rr_reconciliations s). wf_ledger_entry l"
    and "\<forall>l \<in> set (rr_reopenings s). wf_ledger_entry l"
    and "\<forall>l \<in> set (rr_review_recoveries s). wf_ledger_entry l"
    and "\<forall>l \<in> set (rr_revalidations s). wf_ledger_entry l"
proof -
  note parts = validate_run_record_parts [OF assms]
  show "\<forall>l \<in> set (rr_reconciliations s). wf_ledger_entry l"
    using parts by (elim conjE) (rule map_opt_all, assumption, erule validate_ledger_entry_wf)
  show "\<forall>l \<in> set (rr_reopenings s). wf_ledger_entry l"
    using parts by (elim conjE) (rule map_opt_all, assumption, erule validate_ledger_entry_wf)
  show "\<forall>l \<in> set (rr_review_recoveries s). wf_ledger_entry l"
    using parts by (elim conjE) (rule map_opt_all, assumption, erule validate_ledger_entry_wf)
  show "\<forall>l \<in> set (rr_revalidations s). wf_ledger_entry l"
    using parts by (elim conjE) (rule map_opt_all, assumption, erule validate_ledger_entry_wf)
qed

lemma validate_run_record_wf:
  assumes "validate_run_record E r = Some s"
  shows "wf_run_record s"
proof -
  note parts = validate_run_record_parts [OF assms]
  note frame = validate_run_record_frame [OF assms]
  have sc: "scalar_fields_ok E r" using parts by (elim conjE)
  have scalars: "rr_schema_version s = STATE_SCHEMA_VERSION" "distinct (rr_completed_milestones s)"
    "0 \<le> rr_review_attempts s \<and> 0 \<le> rr_successful_review_rounds s
     \<and> 0 \<le> rr_provider_failure_count s \<and> 0 \<le> rr_correction_round s \<and> 0 \<le> rr_closure_round s"
    using sc frame by (simp_all add: scalar_fields_ok_def)
  have cps: "\<forall>c \<in> set (rr_milestone_checkpoints s). wf_checkpoint c"
    using parts by (elim conjE) (rule map_opt_all, assumption, erule validate_checkpoint_wf)
  have runs: "\<forall>p \<in> set (rr_provider_runs s). wf_provider_run p"
    using parts by (elim conjE) (rule map_opt_all, assumption, erule validate_provider_run_wf)
  have results: "\<forall>v \<in> set (rr_verification_results s). wf_verification v"
    using parts by (elim conjE) (rule map_opt_all, assumption, erule validate_verification_result_wf)
  have approvals: "\<forall>a \<in> set (rr_approvals s). wf_approval a"
    using parts by (elim conjE) (rule map_opt_all, assumption, erule validate_approval_wf)
  have paths: "\<forall>p \<in> set (rr_changed_paths s). safe_relative_path p"
    using parts by (elim conjE) (rule map_opt_all, assumption, erule normalize_repository_path_safe)
  have ledgers: "\<forall>l \<in> set (rr_reconciliations s @ rr_reopenings s @ rr_review_recoveries s @ rr_revalidations s).
      wf_ledger_entry l"
    using validate_run_record_ledger_wf [OF assms] by auto
  have rest: "record_consistent s" "distinct (map cp_milestone_id (rr_milestone_checkpoints s))"
    "distinct (rr_changed_paths s)" "sorted (rr_changed_paths s)"
    using parts by (simp_all only: unique_distinct sorted_unique_iff)
  show ?thesis
    unfolding wf_run_record_def using scalars cps runs results approvals paths ledgers rest
    by (intro conjI) simp_all
qed

text \<open>Reading one clause of \<open>record_consistent\<close>.\<close>

lemma record_consistent_parts:
  assumes "record_consistent r"
  shows "(rr_policy_digest r = None) = (rr_stage_start_id r = None)"
    and "rr_workflow_state r = HUMAN_INTERVENTION_REQUIRED \<Longrightarrow> rr_stop_reason r \<noteq> None"
    and "rr_workflow_state r = DONE \<Longrightarrow> rr_stop_reason r = None"
    and "sorted (map pr_sequence (rr_provider_runs r))"
    and "distinct (map pr_sequence (rr_provider_runs r))"
    and "f \<in> set (rr_blocking_findings r) \<Longrightarrow> fd_severity f \<in> set BLOCKING_SEVERITIES"
    and "f \<in> set (rr_deferred_findings r) \<Longrightarrow> fd_severity f \<in> set DEFERRED_SEVERITIES"
    and "distinct (map fd_finding_id (rr_blocking_findings r @ rr_deferred_findings r))"
proof -
  show "sorted (map pr_sequence (rr_provider_runs r))"
    using assms unfolding record_consistent_def Let_def by (metis sorted_sort)
qed (use assms in \<open>auto simp: record_consistent_def Let_def\<close>)

end
