(* ===== verification/Run_Record_Json.thy ===== *)
theory Run_Record_Json
  imports Run_Record_Facts
begin

text \<open>
  \<open>model_dump(mode="json")\<close> of the run record and its parts, the record-body digest of
  \<open>events.py\<close>, and the event-backed state document (\<open>state.json\<close>, wire version 3) with the bytes
  it is published as.
\<close>

fun jopt :: "('a \<Rightarrow> json) \<Rightarrow> 'a option \<Rightarrow> json" where
  "jopt f None = JNull"
| "jopt f (Some x) = f x"

definition dump_provider_run :: "provider_run_record \<Rightarrow> json" where
  "dump_provider_run r =
     JObj
      [(lit ''sequence'', JInt (pr_sequence r)),
       (lit ''role'', JStr (provider_role_value (pr_role r))),
       (lit ''provider'', JStr (pr_provider r)),
       (lit ''milestone_id'', jopt JStr (pr_milestone_id r)),
       (lit ''started_at'', JStr (pr_started_at r)),
       (lit ''completed_at'', jopt JStr (pr_completed_at r)),
       (lit ''duration_ms'', JInt (pr_duration_ms r)),
       (lit ''exit_code'', jopt JInt (pr_exit_code r)),
       (lit ''timed_out'', JBool (pr_timed_out r)),
       (lit ''failure_class'', jopt (\<lambda>c. JStr (failure_class_value c)) (pr_failure_class r)),
       (lit ''prompt_path'', JStr (pr_prompt_path r)),
       (lit ''stdout_path'', JStr (pr_stdout_path r)),
       (lit ''stderr_path'', JStr (pr_stderr_path r))]"

definition dump_verification_result :: "verification_result \<Rightarrow> json" where
  "dump_verification_result r =
     JObj
      [(lit ''command'', JList (map JStr (vr_command r))),
       (lit ''exit_code'', jopt JInt (vr_exit_code r)),
       (lit ''timed_out'', JBool (vr_timed_out r)),
       (lit ''passed'', JBool (vr_passed r)),
       (lit ''duration_ms'', JInt (vr_duration_ms r)),
       (lit ''stdout_path'', JStr (vr_stdout_path r)),
       (lit ''stderr_path'', JStr (vr_stderr_path r))]"

definition dump_finding :: "finding \<Rightarrow> json" where
  "dump_finding r =
     JObj
      [(lit ''finding_id'', JStr (fd_finding_id r)),
       (lit ''severity'', JStr (severity_value (fd_severity r))),
       (lit ''title'', JStr (fd_title r)),
       (lit ''summary'', JStr (fd_summary r)),
       (lit ''status'', JStr (finding_status_value (fd_status r)))]"

definition dump_approval :: "approval_record \<Rightarrow> json" where
  "dump_approval r =
     JObj
      [(lit ''operation'', JStr (approval_operation_value (ap_operation r))),
       (lit ''granted_at'', JStr (ap_granted_at r)),
       (lit ''repository_identity'', JStr (ap_repository_identity r)),
       (lit ''branch'', JStr (ap_branch r)),
       (lit ''baseline_sha'', JStr (ap_baseline_sha r)),
       (lit ''head_sha'', JStr (ap_head_sha r)),
       (lit ''changed_paths'', JList (map JStr (ap_changed_paths r))),
       (lit ''changed_path_digests'', JObj (map (\<lambda>(k, v). (k, JStr v)) (ap_changed_path_digests r))),
       (lit ''verification_digest'', JStr (ap_verification_digest r)),
       (lit ''review_verdict'', JStr (review_verdict_value (ap_review_verdict r))),
       (lit ''finding_ids'', JList (map JStr (ap_finding_ids r))),
       (lit ''human_confirmation_supplied'', JBool (ap_human_confirmation_supplied r)),
       (lit ''execution_started_at'', jopt JStr (ap_execution_started_at r)),
       (lit ''consumed'', JBool (ap_consumed r)),
       (lit ''consumed_at'', jopt JStr (ap_consumed_at r)),
       (lit ''resulting_head_sha'', jopt JStr (ap_resulting_head_sha r))]"

definition dump_ledger_entry :: "recovery_ledger_entry \<Rightarrow> json" where
  "dump_ledger_entry r =
     JObj
      [(lit ''command'', JStr (recovery_command_value (rl_command r))),
       (lit ''reason'', JStr (rl_reason r)),
       (lit ''recorded_at'', JStr (rl_recorded_at r)),
       (lit ''pre_state'', JStr (run_status_value (rl_pre_state r))),
       (lit ''post_state'', JStr (run_status_value (rl_post_state r))),
       (lit ''branch'', JStr (rl_branch r)),
       (lit ''head_sha'', JStr (rl_head_sha r)),
       (lit ''milestone_id'', jopt JStr (rl_milestone_id r)),
       (lit ''budgets_touched'', JObj (map (\<lambda>(k, v). (k, JInt v)) (rl_budgets_touched r))),
       (lit ''classification'', jopt (\<lambda>c. JStr (failure_class_value c)) (rl_classification r)),
       (lit ''human_owner_ruling'', jopt JStr (rl_human_owner_ruling r))]"

definition dump_checkpoint :: "milestone_checkpoint \<Rightarrow> json" where
  "dump_checkpoint r =
     JObj
      [(lit ''milestone_id'', JStr (cp_milestone_id r)),
       (lit ''recorded_at'', JStr (cp_recorded_at r)),
       (lit ''path_digests'', JObj (map (\<lambda>(k, v). (k, JStr v)) (cp_path_digests r)))]"

definition dump_run_record :: "run_record \<Rightarrow> json" where
  "dump_run_record r =
     JObj
      [(lit ''schema_version'', JInt (rr_schema_version r)),
       (lit ''run_id'', JStr (rr_run_id r)),
       (lit ''repository_root'', JStr (rr_repository_root r)),
       (lit ''repository_identity'', JStr (rr_repository_identity r)),
       (lit ''expected_branch'', JStr (rr_expected_branch r)),
       (lit ''baseline_sha'', JStr (rr_baseline_sha r)),
       (lit ''contract_sha256'', JStr (rr_contract_sha256 r)),
       (lit ''workflow_state'', JStr (run_status_value (rr_workflow_state r))),
       (lit ''stop_reason'', jopt (\<lambda>s. JStr (stop_reason_value s)) (rr_stop_reason r)),
       (lit ''created_at'', JStr (rr_created_at r)),
       (lit ''updated_at'', JStr (rr_updated_at r)),
       (lit ''policy_digest'', jopt JStr (rr_policy_digest r)),
       (lit ''stage_start_id'', jopt JStr (rr_stage_start_id r)),
       (lit ''current_milestone'', jopt JStr (rr_current_milestone r)),
       (lit ''completed_milestones'', JList (map JStr (rr_completed_milestones r))),
       (lit ''milestone_checkpoints'', JList (map dump_checkpoint (rr_milestone_checkpoints r))),
       (lit ''changed_paths'', JList (map JStr (rr_changed_paths r))),
       (lit ''provider_runs'', JList (map dump_provider_run (rr_provider_runs r))),
       (lit ''verification_results'', JList (map dump_verification_result (rr_verification_results r))),
       (lit ''blocking_findings'', JList (map dump_finding (rr_blocking_findings r))),
       (lit ''deferred_findings'', JList (map dump_finding (rr_deferred_findings r))),
       (lit ''approvals'', JList (map dump_approval (rr_approvals r))),
       (lit ''review_attempts'', JInt (rr_review_attempts r)),
       (lit ''successful_review_rounds'', JInt (rr_successful_review_rounds r)),
       (lit ''provider_failure_count'', JInt (rr_provider_failure_count r)),
       (lit ''correction_round'', JInt (rr_correction_round r)),
       (lit ''closure_round'', JInt (rr_closure_round r)),
       (lit ''reconciliations'', JList (map dump_ledger_entry (rr_reconciliations r))),
       (lit ''reopenings'', JList (map dump_ledger_entry (rr_reopenings r))),
       (lit ''review_recoveries'', JList (map dump_ledger_entry (rr_review_recoveries r))),
       (lit ''revalidations'', JList (map dump_ledger_entry (rr_revalidations r)))]"

section \<open>Digests and the projection\<close>

text \<open>\<open>body_digest\<close>: SHA-256 of the integrity bytes of the record's dump.\<close>

definition body_digest :: "pyenv \<Rightarrow> run_record \<Rightarrow> pystr" where
  "body_digest E record = sha256 E (integrity_bytes (dump_run_record record))"

record event_backed_state_tip =
  et_schema_version :: int
  et_state_version :: int
  et_last_event_id :: pystr

definition validate_tip :: "event_backed_state_tip \<Rightarrow> event_backed_state_tip option" where
  "validate_tip t =
     refuse_if (et_schema_version t \<noteq> EVENT_BACKED_STATE_SCHEMA_VERSION)
     (refuse_if (\<not> (1 \<le> et_state_version t \<and> et_state_version t \<le> MAX_STATE_VERSION))
     (refuse_if (\<not> sha256_hex (et_last_event_id t))
     (Some t)))"

definition dump_tip :: "event_backed_state_tip \<Rightarrow> (pystr \<times> json) list" where
  "dump_tip t =
     [(lit ''schema_version'', JInt (et_schema_version t)),
      (lit ''state_version'', JInt (et_state_version t)),
      (lit ''last_event_id'', JStr (et_last_event_id t))]"

text \<open>\<open>dict.update\<close>: existing keys keep their place, new ones are appended.\<close>

fun obj_update :: "json \<Rightarrow> (pystr \<times> json) list \<Rightarrow> json" where
  "obj_update (JObj kvs) updates = JObj (fold (\<lambda>(k, v) acc. AList.update k v acc) updates kvs)"
| "obj_update j updates = j"

definition event_backed_state_document :: "run_record \<Rightarrow> int \<Rightarrow> pystr \<Rightarrow> json option" where
  "event_backed_state_document record state_version last_event_id =
     refuse_if (\<not> is_policy_governed record)
     (Option.bind
        (validate_tip \<lparr>et_schema_version = EVENT_BACKED_STATE_SCHEMA_VERSION,
                      et_state_version = state_version, et_last_event_id = last_event_id\<rparr>)
        (\<lambda>tip. Some (obj_update (dump_run_record record) (dump_tip tip))))"

definition projection_bytes :: "run_record \<Rightarrow> int \<Rightarrow> pystr \<Rightarrow> bytes option" where
  "projection_bytes record state_version last_event_id =
     map_option integrity_bytes (event_backed_state_document record state_version last_event_id)"

lemma event_backed_requires_policy:
  "event_backed_state_document r v e = Some d \<Longrightarrow> rr_policy_digest r \<noteq> None"
  by (simp add: event_backed_state_document_def is_policy_governed_def)

lemma obj_get_update:
  "obj_get (obj_update (JObj kvs) updates) k = (map_of kvs ++ map_of (rev updates)) k"
proof (induction updates arbitrary: kvs)
  case (Cons u us)
  obtain a b where u: "u = (a, b)" by (cases u)
  have "obj_get (obj_update (JObj kvs) (u # us)) k = obj_get (obj_update (JObj (AList.update a b kvs)) us) k"
    by (simp add: u)
  also have "\<dots> = (map_of (AList.update a b kvs) ++ map_of (rev us)) k" by (rule Cons.IH)
  finally show ?case
    by (simp add: u map_of_append update_conv' map_add_def split: option.split)
qed (simp add: obj_get_def)

text \<open>What a version 3 document carries: the two tip fields, and the record's own fields.\<close>

lemma event_backed_state_fields:
  assumes "event_backed_state_document r v e = Some d"
  shows "obj_get d (lit ''schema_version'') = Some (JInt 3)"
    and "obj_get d (lit ''state_version'') = Some (JInt v)"
    and "obj_get d (lit ''last_event_id'') = Some (JStr e)"
    and "k \<notin> {lit ''schema_version'', lit ''state_version'', lit ''last_event_id''} \<Longrightarrow>
           obj_get d k = obj_get (dump_run_record r) k"
proof -
  obtain kvs where kvs: "dump_run_record r = JObj kvs" by (simp add: dump_run_record_def)
  define tip where "tip = [(lit ''schema_version'', JInt 3), (lit ''state_version'', JInt v),
      (lit ''last_event_id'', JStr e)]"
  have "d = obj_update (JObj kvs) tip"
    using assms
    by (simp add: event_backed_state_document_def validate_tip_def dump_tip_def tip_def kvs
        EVENT_BACKED_STATE_SCHEMA_VERSION_def del: obj_update.simps)
  then have get: "obj_get d k = (map_of kvs ++ map_of (rev tip)) k" for k
    by (simp only: obj_get_update)
  show "obj_get d (lit ''schema_version'') = Some (JInt 3)"
    and "obj_get d (lit ''state_version'') = Some (JInt v)"
    and "obj_get d (lit ''last_event_id'') = Some (JStr e)"
    unfolding get by (simp_all add: tip_def map_add_def)
  show "obj_get d k = obj_get (dump_run_record r) k"
    if "k \<notin> {lit ''schema_version'', lit ''state_version'', lit ''last_event_id''}"
    unfolding get kvs using that by (simp add: tip_def map_add_def obj_get_def)
qed

end
