(* ===== verification/Operations.thy ===== *)
theory Operations
  imports Run_Record_Json
begin

text \<open>
  Provider operations (\<open>milestone_runner/operations.py\<close>): the step tuple an operation identity is
  derived from, the artifact addresses below a run directory with the grammar they are read back
  by, and the typed view of an operation that the replay derives. Also the typed refusals of
  \<open>events.py\<close> (\<open>lifecycle_error\<close>), because deriving an address may already raise.
\<close>

section \<open>Typed refusals\<close>

datatype lifecycle_error =
    EventChainBroken
  | EventConflict
  | OperationRecordInvalid
  | OperationRecordConflict
  | LifecycleSchemaUnknown
  | ApplicationMutationIncomplete
  | PyValueError
  | PyIndexError
  | PyAssertionError

text \<open>The class attribute \<open>stop_reason\<close>; the three Python errors are not lifecycle refusals.\<close>

fun refusal_stop_reason :: "lifecycle_error \<Rightarrow> stop_reason option" where
  "refusal_stop_reason EventChainBroken = Some EVENT_CHAIN_BROKEN"
| "refusal_stop_reason EventConflict = Some EVENT_CONFLICT"
| "refusal_stop_reason OperationRecordInvalid = Some OPERATION_RECORD_INVALID"
| "refusal_stop_reason OperationRecordConflict = Some OPERATION_RECORD_CONFLICT"
| "refusal_stop_reason LifecycleSchemaUnknown = Some LIFECYCLE_SCHEMA_UNKNOWN"
| "refusal_stop_reason ApplicationMutationIncomplete = Some APPLICATION_MUTATION_INCOMPLETE"
| "refusal_stop_reason PyValueError = None"
| "refusal_stop_reason PyIndexError = None"
| "refusal_stop_reason PyAssertionError = None"

section \<open>Identity\<close>

definition OPERATION_SCHEMA_VERSION :: int where "OPERATION_SCHEMA_VERSION = 1"
definition MAX_OPERATION_ATTEMPTS :: int where "MAX_OPERATION_ATTEMPTS = 3"
definition OPERATIONS_DIRECTORY :: pystr where "OPERATIONS_DIRECTORY = lit ''operations''"
definition ATTEMPTS_DIRECTORY :: pystr where "ATTEMPTS_DIRECTORY = lit ''attempts''"

datatype artifact_name =
    REQUEST_FILE_NAME
  | DISPATCH_INTENT_FILE_NAME
  | DISPATCH_RECEIPT_FILE_NAME
  | PRE_SPAWN_FAILED_FILE_NAME
  | RAW_RESULT_FILE_NAME
  | VALIDATED_RESULT_FILE_NAME
  | APPLIED_FILE_NAME

fun artifact_file_name :: "artifact_name \<Rightarrow> pystr" where
  "artifact_file_name REQUEST_FILE_NAME = lit ''request.json''"
| "artifact_file_name DISPATCH_INTENT_FILE_NAME = lit ''dispatch-intent.json''"
| "artifact_file_name DISPATCH_RECEIPT_FILE_NAME = lit ''dispatch-receipt.json''"
| "artifact_file_name PRE_SPAWN_FAILED_FILE_NAME = lit ''pre-spawn-failed.json''"
| "artifact_file_name RAW_RESULT_FILE_NAME = lit ''result.raw''"
| "artifact_file_name VALIDATED_RESULT_FILE_NAME = lit ''result.validated.json''"
| "artifact_file_name APPLIED_FILE_NAME = lit ''applied.json''"

lemma artifact_file_name_inj: "artifact_file_name x = artifact_file_name y \<longleftrightarrow> x = y"
  by (cases x; cases y) simp_all

definition run_level_artifacts :: "artifact_name list" where
  "run_level_artifacts = [REQUEST_FILE_NAME, APPLIED_FILE_NAME]"

definition attempt_artifacts :: "artifact_name list" where
  "attempt_artifacts =
     [DISPATCH_INTENT_FILE_NAME, DISPATCH_RECEIPT_FILE_NAME, PRE_SPAWN_FAILED_FILE_NAME,
      RAW_RESULT_FILE_NAME, VALIDATED_RESULT_FILE_NAME]"

datatype operation_step_kind = PROVIDER

fun step_kind_value :: "operation_step_kind \<Rightarrow> pystr" where
  "step_kind_value PROVIDER = lit ''provider''"

record operation_step =
  st_step_kind :: operation_step_kind
  st_cycle_no :: int
  st_role :: provider_role
  st_slot :: pystr

definition DISCOVERY_SLOT :: pystr where "DISCOVERY_SLOT = lit ''discovery''"
definition CORRECTION_SLOT :: pystr where "CORRECTION_SLOT = lit ''correction''"
definition CLOSURE_SLOT :: pystr where "CLOSURE_SLOT = lit ''closure''"

text \<open>\<open>0|[1-9][0-9]*\<close>.\<close>

definition reopening_text :: "pystr \<Rightarrow> bool" where
  "reopening_text v \<longleftrightarrow>
     v = [48] \<or> (case v of [] \<Rightarrow> False | c # cs \<Rightarrow> 49 \<le> c \<and> c \<le> 57 \<and> list_all is_digit cs)"

text \<open>\<open>(?P<milestone>[^:|]+):(?P<reopening>0|[1-9][0-9]*)\<close>: the milestone group of a full match.\<close>

definition implementation_slot :: "pystr \<Rightarrow> pystr option" where
  "implementation_slot slot =
     (case split_on 58 slot of
        [m, r] \<Rightarrow> if m \<noteq> [] \<and> 124 \<notin> set m \<and> reopening_text r then Some m else None
      | _ \<Rightarrow> None)"

fun single_shot :: "provider_role \<Rightarrow> (int \<times> pystr) option" where
  "single_shot REVIEW = Some (0, DISCOVERY_SLOT)"
| "single_shot CORRECTION = Some (1, CORRECTION_SLOT)"
| "single_shot CLOSURE = Some (1, CLOSURE_SLOT)"
| "single_shot IMPLEMENTATION = None"

definition validate_step :: "operation_step \<Rightarrow> operation_step option" where
  "validate_step s =
     refuse_if (st_cycle_no s < 0)
     (refuse_if (124 \<in> set (st_slot s))
     (if st_role s = IMPLEMENTATION then
        (let m = implementation_slot (st_slot s) in
         refuse_if (st_cycle_no s \<noteq> 0 \<or> m = None)
         (refuse_if (\<not> pred_option milestone_id_grammar m)
         (Some s)))
      else refuse_if (Some (st_cycle_no s, st_slot s) \<noteq> single_shot (st_role s)) (Some s)))"

text \<open>\<open>slot.rsplit(":", 1)[0]\<close>: everything before the last colon, or the whole slot.\<close>

definition rsplit_first :: "nat \<Rightarrow> pystr \<Rightarrow> pystr" where
  "rsplit_first c v = (if c \<in> set v then join_on c (butlast (split_on c v)) else v)"

definition step_milestone_id :: "operation_step \<Rightarrow> pystr option" where
  "step_milestone_id s = (if st_role s \<noteq> IMPLEMENTATION then None else Some (rsplit_first 58 (st_slot s)))"

definition reopening_count :: "run_record \<Rightarrow> pystr \<Rightarrow> nat" where
  "reopening_count record milestone_id =
     length (filter (\<lambda>entry. rl_milestone_id entry = Some milestone_id) (rr_reopenings record))"

definition provider_step :: "run_record \<Rightarrow> provider_role \<Rightarrow> pystr option \<Rightarrow> operation_step option" where
  "provider_step record role milestone_id =
     (if role = IMPLEMENTATION then
        (case milestone_id of
           None \<Rightarrow> None
         | Some m \<Rightarrow>
             validate_step \<lparr>st_step_kind = PROVIDER, st_cycle_no = 0, st_role = role,
               st_slot = m @ 58 # int_text (int (reopening_count record m))\<rparr>)
      else
        (case single_shot role of
           None \<Rightarrow> None
         | Some (cycle, slot) \<Rightarrow>
             validate_step \<lparr>st_step_kind = PROVIDER, st_cycle_no = cycle, st_role = role, st_slot = slot\<rparr>))"

definition operation_material :: "pystr \<Rightarrow> operation_step \<Rightarrow> pystr" where
  "operation_material run_id step =
     join_on 124 [run_id, step_kind_value (st_step_kind step), int_text (st_cycle_no step),
                  provider_role_value (st_role step), st_slot step]"

definition operation_id :: "pyenv \<Rightarrow> pystr \<Rightarrow> operation_step \<Rightarrow> lifecycle_error + pystr" where
  "operation_id E run_id step =
     raise_if (\<not> run_id_grammar run_id \<or> 124 \<in> set run_id) PyValueError
     (Inr (sha256 E (utf8 (operation_material run_id step))))"

section \<open>Artifact addresses\<close>

text \<open>\<open>f"{attempt:04d}"\<close> inside the bound.\<close>

definition attempt_directory_name :: "int \<Rightarrow> lifecycle_error + pystr" where
  "attempt_directory_name attempt =
     raise_if (\<not> (1 \<le> attempt \<and> attempt \<le> MAX_OPERATION_ATTEMPTS)) PyValueError
     (Inr (let digits = int_text attempt in replicate (4 - length digits) 48 @ digits))"

definition operation_artifact_path :: "pystr \<Rightarrow> artifact_name \<Rightarrow> int option \<Rightarrow> lifecycle_error + pystr" where
  "operation_artifact_path identifier name attempt =
     raise_if (\<not> sha256_hex identifier) PyValueError
     (case attempt of
        None \<Rightarrow>
          raise_if (name \<notin> set run_level_artifacts) PyValueError
          (Inr (join_on 47 [OPERATIONS_DIRECTORY, identifier, artifact_file_name name]))
      | Some n \<Rightarrow>
          raise_if (name \<notin> set attempt_artifacts) PyValueError
          (rbind (attempt_directory_name n) (\<lambda>directory.
           Inr (join_on 47 [OPERATIONS_DIRECTORY, identifier, ATTEMPTS_DIRECTORY, directory,
                            artifact_file_name name]))))"

definition find_artifact :: "artifact_name list \<Rightarrow> pystr \<Rightarrow> artifact_name option" where
  "find_artifact names file = find (\<lambda>n. artifact_file_name n = file) names"

text \<open>
  \<open>OPERATION_ARTIFACT_PATH_RE.fullmatch\<close>: the groups \<open>operation\<close>, \<open>attempt\<close> and \<open>top\<close> or \<open>name\<close>.
  No group contains a slash, so the match is read off the path's segments.
\<close>

definition attempt_text :: "pystr \<Rightarrow> int option" where
  "attempt_text v =
     (if v = lit ''0001'' then Some 1 else if v = lit ''0002'' then Some 2
      else if v = lit ''0003'' then Some 3 else None)"

definition match_operation_path :: "pystr \<Rightarrow> (pystr \<times> int option \<times> artifact_name) option" where
  "match_operation_path path =
     (case split_on 47 path of
        [d, oid, file] \<Rightarrow>
          refuse_if (d \<noteq> OPERATIONS_DIRECTORY \<or> \<not> sha256_hex oid)
          (map_option (\<lambda>n. (oid, None, n)) (find_artifact run_level_artifacts file))
      | [d, oid, ad, attempt, file] \<Rightarrow>
          refuse_if (d \<noteq> OPERATIONS_DIRECTORY \<or> \<not> sha256_hex oid \<or> ad \<noteq> ATTEMPTS_DIRECTORY)
          (Option.bind (attempt_text attempt) (\<lambda>k.
           map_option (\<lambda>n. (oid, Some k, n)) (find_artifact attempt_artifacts file)))
      | _ \<Rightarrow> None)"

lemma sha256_hex_no_slash: "sha256_hex v \<Longrightarrow> 47 \<notin> set v"
  by (auto simp: sha256_hex_def list_all_iff is_hex_def is_digit_def)

lemma artifact_no_slash: "47 \<notin> set (artifact_file_name n)"
  by (cases n) (simp_all add: lit_def)

lemma find_artifact_mem: "n \<in> set names \<Longrightarrow> find_artifact names (artifact_file_name n) = Some n"
proof (induction names)
  case (Cons m ms)
  then show ?case by (auto simp: find_artifact_def artifact_file_name_inj)
qed simp

lemma directories_no_slash: "47 \<notin> set OPERATIONS_DIRECTORY" "47 \<notin> set ATTEMPTS_DIRECTORY"
  by (simp_all add: OPERATIONS_DIRECTORY_def ATTEMPTS_DIRECTORY_def lit_def)

lemma attempt_directory_name_value:
  assumes "attempt_directory_name n = Inr d"
  shows "n = 1 \<and> d = lit ''0001'' \<or> n = 2 \<and> d = lit ''0002'' \<or> n = 3 \<and> d = lit ''0003''"
proof -
  from assms have n: "n = 1 \<or> n = 2 \<or> n = 3" and d: "d = (let digits = int_text n in replicate (4 - length digits) 48 @ digits)"
    by (auto simp: attempt_directory_name_def MAX_OPERATION_ATTEMPTS_def)
  have digit: "int_text 1 = [49]" "int_text 2 = [50]" "int_text 3 = [51]"
    by (simp_all add: int_text_def nat_digits.simps)
  show ?thesis using n d by (auto simp: digit lit_def numeral_eq_Suc)
qed

section \<open>The derived view\<close>

text \<open>\<open>ValidationVerdict\<close>.\<close>

datatype validation_verdict =
    VALID
  | INVALID
  | EXECUTION_FAILED

fun verdict_value :: "validation_verdict \<Rightarrow> pystr" where
  "verdict_value VALID = lit ''VALID''"
| "verdict_value INVALID = lit ''INVALID''"
| "verdict_value EXECUTION_FAILED = lit ''EXECUTION_FAILED''"

definition all_verdict :: "validation_verdict list" where
  "all_verdict =
     [VALID, INVALID, EXECUTION_FAILED]"

lemma all_verdict_complete: "x \<in> set all_verdict"
  by (cases x) (simp_all add: all_verdict_def)

lemma verdict_value_inj: "verdict_value x = verdict_value y \<longleftrightarrow> x = y"
  by (cases x; cases y) simp_all

text \<open>\<open>OperationPhase\<close>.\<close>

datatype operation_phase =
    PH_REQUEST_CREATED
  | PH_DISPATCH_INTENT
  | PH_DISPATCH_RECEIPT
  | PH_RESULT_RECEIVED
  | PH_RESULT_VALIDATED
  | PH_RESULT_PERSISTED
  | PH_TRANSITION_APPLIED

fun phase_value :: "operation_phase \<Rightarrow> pystr" where
  "phase_value PH_REQUEST_CREATED = lit ''REQUEST_CREATED''"
| "phase_value PH_DISPATCH_INTENT = lit ''DISPATCH_INTENT''"
| "phase_value PH_DISPATCH_RECEIPT = lit ''DISPATCH_RECEIPT''"
| "phase_value PH_RESULT_RECEIVED = lit ''RESULT_RECEIVED''"
| "phase_value PH_RESULT_VALIDATED = lit ''RESULT_VALIDATED''"
| "phase_value PH_RESULT_PERSISTED = lit ''RESULT_PERSISTED''"
| "phase_value PH_TRANSITION_APPLIED = lit ''TRANSITION_APPLIED''"

definition all_phase :: "operation_phase list" where
  "all_phase =
     [PH_REQUEST_CREATED, PH_DISPATCH_INTENT, PH_DISPATCH_RECEIPT, PH_RESULT_RECEIVED,
      PH_RESULT_VALIDATED, PH_RESULT_PERSISTED, PH_TRANSITION_APPLIED]"

lemma all_phase_complete: "x \<in> set all_phase"
  by (cases x) (simp_all add: all_phase_def)

lemma phase_value_inj: "phase_value x = phase_value y \<longleftrightarrow> x = y"
  by (cases x; cases y) simp_all

text \<open>\<open>PersistenceKind\<close>.\<close>

datatype persistence_kind =
    ACCEPTED
  | REJECTED

fun persistence_value :: "persistence_kind \<Rightarrow> pystr" where
  "persistence_value ACCEPTED = lit ''ACCEPTED''"
| "persistence_value REJECTED = lit ''REJECTED''"

definition all_persistence :: "persistence_kind list" where
  "all_persistence =
     [ACCEPTED, REJECTED]"

lemma all_persistence_complete: "x \<in> set all_persistence"
  by (cases x) (simp_all add: all_persistence_def)

lemma persistence_value_inj: "persistence_value x = persistence_value y \<longleftrightarrow> x = y"
  by (cases x; cases y) simp_all

text \<open>The order of the seven facts.\<close>

fun phase_rank :: "operation_phase \<Rightarrow> nat" where
  "phase_rank PH_REQUEST_CREATED = 0"
| "phase_rank PH_DISPATCH_INTENT = 1"
| "phase_rank PH_DISPATCH_RECEIPT = 2"
| "phase_rank PH_RESULT_RECEIVED = 3"
| "phase_rank PH_RESULT_VALIDATED = 4"
| "phase_rank PH_RESULT_PERSISTED = 5"
| "phase_rank PH_TRANSITION_APPLIED = 6"

record operation_pins =
  pn_repository_identity :: pystr
  pn_stage_id :: pystr
  pn_run_id :: pystr
  pn_contract_sha256 :: pystr
  pn_policy_digest :: pystr
  pn_stage_start_id :: pystr

definition valid_operation_pins :: "operation_pins \<Rightarrow> bool" where
  "valid_operation_pins p \<longleftrightarrow>
     sha256_hex (pn_contract_sha256 p) \<and> sha256_hex (pn_policy_digest p)
     \<and> sha256_hex (pn_stage_start_id p) \<and> run_id_grammar (pn_run_id p)"

text \<open>\<open>[a-z0-9]+(?:-[a-z0-9]+)*\<close> and \<open>[A-Za-z_][A-Za-z0-9_.]{0,255}\<close>.\<close>

definition provider_name :: "pystr \<Rightarrow> bool" where
  "provider_name v \<longleftrightarrow> list_all (\<lambda>p. p \<noteq> [] \<and> list_all (\<lambda>c. is_lower c \<or> is_digit c) p) (split_on 45 v)"

definition adapter_type_name :: "pystr \<Rightarrow> bool" where
  "adapter_type_name v \<longleftrightarrow>
     (case v of [] \<Rightarrow> False
      | c # cs \<Rightarrow> (is_upper c \<or> is_lower c \<or> c = 95) \<and> length cs \<le> 255
          \<and> list_all (\<lambda>d. is_alnum d \<or> d = 95 \<or> d = 46) cs)"

record adapter_identity =
  ad_provider :: pystr
  ad_adapter_type :: pystr

definition valid_adapter :: "adapter_identity \<Rightarrow> bool" where
  "valid_adapter a \<longleftrightarrow> provider_name (ad_provider a) \<and> adapter_type_name (ad_adapter_type a)"

record attempt_record =
  at_attempt :: int
  at_intent_sha256 :: pystr
  at_receipt_sha256 :: "pystr option"
  at_pre_spawn_failure_sha256 :: "pystr option"
  at_raw_result_sha256 :: "pystr option"
  at_validated_sha256 :: "pystr option"
  at_verdict :: "validation_verdict option"

record operation_record =
  op_operation_id :: pystr
  op_step :: operation_step
  op_request_sha256 :: pystr
  op_adapter :: adapter_identity
  op_role :: provider_role
  op_milestone_id :: "pystr option"
  op_attempts :: "attempt_record list"
  op_fingerprint_sha256 :: "pystr option"
  op_persisted :: "persistence_kind option"
  op_persisted_verdict_sha256 :: "pystr option"
  op_transition_event_id :: "pystr option"
  op_transition_state_version :: "int option"
  op_highest_phase :: operation_phase

end
