(* ===== verification/Lifecycle_Vocabulary.thy ===== *)
theory Lifecycle_Vocabulary
  imports Operations
begin

text \<open>
  The closed event vocabulary of \<open>milestone_runner/events.py\<close>: event types, evidence kinds and
  references with their path grammars, the replaceable record fields, ledger names, mutation
  actions and commands.
\<close>

definition LIFECYCLE_SCHEMA_VERSION :: int where "LIFECYCLE_SCHEMA_VERSION = 1"
definition MAX_EVENT_SEQUENCE :: int where "MAX_EVENT_SEQUENCE = MAX_STATE_VERSION"
definition MAX_LIFECYCLE_DOCUMENT_BYTES :: nat where "MAX_LIFECYCLE_DOCUMENT_BYTES = 16 * 1048576"
definition MAX_MANIFEST_CONSTITUENTS :: nat where "MAX_MANIFEST_CONSTITUENTS = 16"
definition MAX_EVENT_REFERENCES :: nat where "MAX_EVENT_REFERENCES = 8"

section \<open>Event types and file names\<close>

text \<open>\<open>LifecycleEventType\<close>.\<close>

datatype lifecycle_event_type =
    RUN_INITIALIZED
  | RUN_BASELINED
  | STAGE_START_BOUND
  | POLICY_PUBLISHED
  | APPLICATION_MUTATION_DECLARED
  | RUN_RECORD_UPDATED
  | RECOVERY_LEDGER_APPENDED
  | OPERATION_REQUEST_CREATED
  | OPERATION_DISPATCH_INTENT
  | OPERATION_DISPATCH_RECEIVED
  | OPERATION_PRE_SPAWN_FAILED
  | OPERATION_RESULT_RECEIVED
  | OPERATION_RESULT_VALIDATED
  | OPERATION_RESULT_ACCEPTED
  | OPERATION_RESULT_REJECTED
  | STATE_TRANSITIONED

fun event_type_value :: "lifecycle_event_type \<Rightarrow> pystr" where
  "event_type_value RUN_INITIALIZED = lit ''RUN_INITIALIZED''"
| "event_type_value RUN_BASELINED = lit ''RUN_BASELINED''"
| "event_type_value STAGE_START_BOUND = lit ''STAGE_START_BOUND''"
| "event_type_value POLICY_PUBLISHED = lit ''POLICY_PUBLISHED''"
| "event_type_value APPLICATION_MUTATION_DECLARED = lit ''APPLICATION_MUTATION_DECLARED''"
| "event_type_value RUN_RECORD_UPDATED = lit ''RUN_RECORD_UPDATED''"
| "event_type_value RECOVERY_LEDGER_APPENDED = lit ''RECOVERY_LEDGER_APPENDED''"
| "event_type_value OPERATION_REQUEST_CREATED = lit ''OPERATION_REQUEST_CREATED''"
| "event_type_value OPERATION_DISPATCH_INTENT = lit ''OPERATION_DISPATCH_INTENT''"
| "event_type_value OPERATION_DISPATCH_RECEIVED = lit ''OPERATION_DISPATCH_RECEIVED''"
| "event_type_value OPERATION_PRE_SPAWN_FAILED = lit ''OPERATION_PRE_SPAWN_FAILED''"
| "event_type_value OPERATION_RESULT_RECEIVED = lit ''OPERATION_RESULT_RECEIVED''"
| "event_type_value OPERATION_RESULT_VALIDATED = lit ''OPERATION_RESULT_VALIDATED''"
| "event_type_value OPERATION_RESULT_ACCEPTED = lit ''OPERATION_RESULT_ACCEPTED''"
| "event_type_value OPERATION_RESULT_REJECTED = lit ''OPERATION_RESULT_REJECTED''"
| "event_type_value STATE_TRANSITIONED = lit ''STATE_TRANSITIONED''"

definition all_event_type :: "lifecycle_event_type list" where
  "all_event_type =
     [RUN_INITIALIZED, RUN_BASELINED, STAGE_START_BOUND, POLICY_PUBLISHED,
      APPLICATION_MUTATION_DECLARED, RUN_RECORD_UPDATED, RECOVERY_LEDGER_APPENDED, OPERATION_REQUEST_CREATED,
      OPERATION_DISPATCH_INTENT, OPERATION_DISPATCH_RECEIVED, OPERATION_PRE_SPAWN_FAILED, OPERATION_RESULT_RECEIVED,
      OPERATION_RESULT_VALIDATED, OPERATION_RESULT_ACCEPTED, OPERATION_RESULT_REJECTED, STATE_TRANSITIONED]"

lemma all_event_type_complete: "x \<in> set all_event_type"
  by (cases x) (simp_all add: all_event_type_def)

lemma event_type_value_inj: "event_type_value x = event_type_value y \<longleftrightarrow> x = y"
  by (cases x; cases y) simp_all

definition GENESIS_TYPES :: "lifecycle_event_type list" where
  "GENESIS_TYPES = [RUN_INITIALIZED, RUN_BASELINED]"

definition CONSTITUENT_TYPES :: "lifecycle_event_type list" where
  "CONSTITUENT_TYPES =
     [RUN_RECORD_UPDATED, RECOVERY_LEDGER_APPENDED, OPERATION_RESULT_ACCEPTED,
      OPERATION_RESULT_REJECTED, STATE_TRANSITIONED]"

definition DECLARED_ONLY_TYPES :: "lifecycle_event_type list" where
  "DECLARED_ONLY_TYPES =
     [RECOVERY_LEDGER_APPENDED, OPERATION_RESULT_ACCEPTED, OPERATION_RESULT_REJECTED]"

text \<open>\<open>f"{sequence:08d}"\<close> of a non-negative number.\<close>

definition pad8 :: "int \<Rightarrow> pystr" where
  "pad8 n = (let digits = int_text n in replicate (8 - length digits) 48 @ digits)"

definition event_file_name :: "int \<Rightarrow> lifecycle_event_type \<Rightarrow> lifecycle_error + pystr" where
  "event_file_name sequence event_type =
     raise_if (\<not> (1 \<le> sequence \<and> sequence \<le> MAX_EVENT_SEQUENCE)) EventConflict
     (Inr (pad8 sequence @ lit ''-'' @ event_type_value event_type @ lit ''.json''))"

text \<open>\<open>int(digits)\<close> of ASCII digits.\<close>

definition digits_value :: "pystr \<Rightarrow> nat" where
  "digits_value v = foldl (\<lambda>acc c. 10 * acc + (c - 48)) 0 v"

definition parse_event_file_name :: "pystr \<Rightarrow> (int \<times> lifecycle_event_type) option" where
  "parse_event_file_name name =
     refuse_if (length name < 15 \<or> name ! 8 \<noteq> 45 \<or> \<not> suffix (lit ''.json'') name)
     (let digits = take 8 name in
      refuse_if (\<not> list_all is_digit digits)
      (Option.bind (find (\<lambda>t. event_type_value t = take (length name - 14) (drop 9 name)) all_event_type)
        (\<lambda>event_type.
         let sequence = int (digits_value digits) in
         refuse_if (\<not> (1 \<le> sequence \<and> sequence \<le> MAX_EVENT_SEQUENCE))
         (Some (sequence, event_type)))))"

section \<open>Evidence references\<close>

text \<open>\<open>EvidenceKind\<close>.\<close>

datatype evidence_kind =
    EK_TRANSCRIPT
  | EK_OPERATION_REQUEST
  | EK_DISPATCH_INTENT
  | EK_DISPATCH_RECEIPT
  | EK_PRE_SPAWN_FAILURE
  | EK_RAW_RESULT
  | EK_VALIDATED_RESULT
  | EK_APPLIED_RECEIPT
  | EK_POLICY
  | EK_STAGE_START_AUTHORIZATION
  | EK_STAGE_START_BINDING
  | EK_STAGE_START_WITNESS

fun evidence_kind_value :: "evidence_kind \<Rightarrow> pystr" where
  "evidence_kind_value EK_TRANSCRIPT = lit ''TRANSCRIPT''"
| "evidence_kind_value EK_OPERATION_REQUEST = lit ''OPERATION_REQUEST''"
| "evidence_kind_value EK_DISPATCH_INTENT = lit ''DISPATCH_INTENT''"
| "evidence_kind_value EK_DISPATCH_RECEIPT = lit ''DISPATCH_RECEIPT''"
| "evidence_kind_value EK_PRE_SPAWN_FAILURE = lit ''PRE_SPAWN_FAILURE''"
| "evidence_kind_value EK_RAW_RESULT = lit ''RAW_RESULT''"
| "evidence_kind_value EK_VALIDATED_RESULT = lit ''VALIDATED_RESULT''"
| "evidence_kind_value EK_APPLIED_RECEIPT = lit ''APPLIED_RECEIPT''"
| "evidence_kind_value EK_POLICY = lit ''POLICY''"
| "evidence_kind_value EK_STAGE_START_AUTHORIZATION = lit ''STAGE_START_AUTHORIZATION''"
| "evidence_kind_value EK_STAGE_START_BINDING = lit ''STAGE_START_BINDING''"
| "evidence_kind_value EK_STAGE_START_WITNESS = lit ''STAGE_START_WITNESS''"

definition all_evidence_kind :: "evidence_kind list" where
  "all_evidence_kind =
     [EK_TRANSCRIPT, EK_OPERATION_REQUEST, EK_DISPATCH_INTENT, EK_DISPATCH_RECEIPT,
      EK_PRE_SPAWN_FAILURE, EK_RAW_RESULT, EK_VALIDATED_RESULT, EK_APPLIED_RECEIPT,
      EK_POLICY, EK_STAGE_START_AUTHORIZATION, EK_STAGE_START_BINDING, EK_STAGE_START_WITNESS]"

lemma all_evidence_kind_complete: "x \<in> set all_evidence_kind"
  by (cases x) (simp_all add: all_evidence_kind_def)

lemma evidence_kind_value_inj: "evidence_kind_value x = evidence_kind_value y \<longleftrightarrow> x = y"
  by (cases x; cases y) simp_all

text \<open>\<open>EvidenceRoot\<close>.\<close>

datatype evidence_root =
    ROOT_RUN
  | ROOT_REPOSITORY

fun evidence_root_value :: "evidence_root \<Rightarrow> pystr" where
  "evidence_root_value ROOT_RUN = lit ''RUN''"
| "evidence_root_value ROOT_REPOSITORY = lit ''REPOSITORY''"

definition all_evidence_root :: "evidence_root list" where
  "all_evidence_root =
     [ROOT_RUN, ROOT_REPOSITORY]"

lemma all_evidence_root_complete: "x \<in> set all_evidence_root"
  by (cases x) (simp_all add: all_evidence_root_def)

lemma evidence_root_value_inj: "evidence_root_value x = evidence_root_value y \<longleftrightarrow> x = y"
  by (cases x; cases y) simp_all

fun operation_kind_by_name :: "artifact_name \<Rightarrow> evidence_kind" where
  "operation_kind_by_name REQUEST_FILE_NAME = EK_OPERATION_REQUEST"
| "operation_kind_by_name DISPATCH_INTENT_FILE_NAME = EK_DISPATCH_INTENT"
| "operation_kind_by_name DISPATCH_RECEIPT_FILE_NAME = EK_DISPATCH_RECEIPT"
| "operation_kind_by_name PRE_SPAWN_FAILED_FILE_NAME = EK_PRE_SPAWN_FAILURE"
| "operation_kind_by_name RAW_RESULT_FILE_NAME = EK_RAW_RESULT"
| "operation_kind_by_name VALIDATED_RESULT_FILE_NAME = EK_VALIDATED_RESULT"
| "operation_kind_by_name APPLIED_FILE_NAME = EK_APPLIED_RECEIPT"

definition POLICY_REFERENCE_PATH :: pystr where "POLICY_REFERENCE_PATH = lit ''policy.json''"
definition STAGE_STARTS_REFERENCE_DIRECTORY :: pystr where
  "STAGE_STARTS_REFERENCE_DIRECTORY = lit ''stage-starts''"

definition transcript_suffixes :: "pystr list" where
  "transcript_suffixes = map lit [''prompt.md'', ''stdout.txt'', ''stderr.txt'', ''last-message.md'']"

definition is_transcript_path :: "pyenv \<Rightarrow> pystr \<Rightarrow> bool" where
  "is_transcript_path E path =
     (if \<not> prefix (lit ''transcripts/'') path \<or> count_list path 47 \<noteq> 1 then False
      else
        let name = snd (snd (partition_at 47 path));
            (head, _, rest) = partition_at 45 name in
        if \<not> (4 \<le> length head \<and> length head \<le> 8 \<and> str_isascii head \<and> str_isdigit E head) then False
        else
          let (stamp, _, tail) = partition_at 45 rest in
          if length stamp \<noteq> 16 \<or> stamp ! 8 \<noteq> 84 \<or> stamp ! 15 \<noteq> 90 then False
          else if \<not> str_isdigit E (take 8 stamp @ take 6 (drop 9 stamp)) then False
          else
            let (label, dot, suff) = partition_at 46 tail in
            if \<not> dot \<or> suff \<notin> set transcript_suffixes then False
            else label \<noteq> [] \<and> list_all (\<lambda>p. str_isalnum E p \<and> str_islower E p) (split_on 45 label))"

definition classify_run_evidence_path :: "pyenv \<Rightarrow> pystr \<Rightarrow> evidence_kind option" where
  "classify_run_evidence_path E path =
     (if path = POLICY_REFERENCE_PATH then Some EK_POLICY
      else if is_transcript_path E path then Some EK_TRANSCRIPT
      else map_option (\<lambda>(_, _, name). operation_kind_by_name name) (match_operation_path path))"

record evidence_reference =
  er_kind :: evidence_kind
  er_root :: evidence_root
  er_path :: pystr
  er_sha256 :: pystr
  er_byte_count :: int

fun stage_kind_suffix :: "evidence_kind \<Rightarrow> pystr option" where
  "stage_kind_suffix EK_STAGE_START_AUTHORIZATION = Some (lit ''.json'')"
| "stage_kind_suffix EK_STAGE_START_BINDING = Some (lit ''.binding.json'')"
| "stage_kind_suffix EK_STAGE_START_WITNESS = Some (lit ''.consumed.json'')"
| "stage_kind_suffix _ = None"

text \<open>
  \<open>self.path[len(prefix) : len(self.path) - len(suffix)]\<close>; a path shorter than both is refused by the
  length test of the identifier, whatever the slice is.
\<close>

definition validate_reference :: "pyenv \<Rightarrow> evidence_reference \<Rightarrow> evidence_reference option" where
  "validate_reference E r =
     refuse_if (er_byte_count r < 0 \<or> \<not> sha256_hex (er_sha256 r))
     (case stage_kind_suffix (er_kind r) of
        Some suff \<Rightarrow>
          let pre = STAGE_STARTS_REFERENCE_DIRECTORY @ lit ''/'';
              ident = drop (length pre) (take (length (er_path r) - length suff) (er_path r)) in
          refuse_if
            (er_root r \<noteq> ROOT_REPOSITORY \<or> \<not> prefix pre (er_path r) \<or> \<not> suffix suff (er_path r)
             \<or> length ident \<noteq> 64 \<or> \<not> list_all is_hex ident)
            (Some r)
      | None \<Rightarrow>
          refuse_if
            (er_root r \<noteq> ROOT_RUN \<or> classify_run_evidence_path E (er_path r) \<noteq> Some (er_kind r))
            (Some r))"

definition stage_start_reference_path :: "evidence_kind \<Rightarrow> pystr \<Rightarrow> pystr option" where
  "stage_start_reference_path kind stage_start_id =
     map_option (\<lambda>suff. STAGE_STARTS_REFERENCE_DIRECTORY @ lit ''/'' @ stage_start_id @ suff)
       (stage_kind_suffix kind)"

section \<open>Replaceable fields\<close>

text \<open>\<open>RecordField\<close>.\<close>

datatype record_field =
    F_UPDATED_AT
  | F_STOP_REASON
  | F_CURRENT_MILESTONE
  | F_COMPLETED_MILESTONES
  | F_MILESTONE_CHECKPOINTS
  | F_CHANGED_PATHS
  | F_PROVIDER_RUNS
  | F_VERIFICATION_RESULTS
  | F_BLOCKING_FINDINGS
  | F_DEFERRED_FINDINGS
  | F_APPROVALS
  | F_REVIEW_ATTEMPTS
  | F_SUCCESSFUL_REVIEW_ROUNDS
  | F_PROVIDER_FAILURE_COUNT
  | F_CORRECTION_ROUND
  | F_CLOSURE_ROUND

fun record_field_value :: "record_field \<Rightarrow> pystr" where
  "record_field_value F_UPDATED_AT = lit ''updated_at''"
| "record_field_value F_STOP_REASON = lit ''stop_reason''"
| "record_field_value F_CURRENT_MILESTONE = lit ''current_milestone''"
| "record_field_value F_COMPLETED_MILESTONES = lit ''completed_milestones''"
| "record_field_value F_MILESTONE_CHECKPOINTS = lit ''milestone_checkpoints''"
| "record_field_value F_CHANGED_PATHS = lit ''changed_paths''"
| "record_field_value F_PROVIDER_RUNS = lit ''provider_runs''"
| "record_field_value F_VERIFICATION_RESULTS = lit ''verification_results''"
| "record_field_value F_BLOCKING_FINDINGS = lit ''blocking_findings''"
| "record_field_value F_DEFERRED_FINDINGS = lit ''deferred_findings''"
| "record_field_value F_APPROVALS = lit ''approvals''"
| "record_field_value F_REVIEW_ATTEMPTS = lit ''review_attempts''"
| "record_field_value F_SUCCESSFUL_REVIEW_ROUNDS = lit ''successful_review_rounds''"
| "record_field_value F_PROVIDER_FAILURE_COUNT = lit ''provider_failure_count''"
| "record_field_value F_CORRECTION_ROUND = lit ''correction_round''"
| "record_field_value F_CLOSURE_ROUND = lit ''closure_round''"

definition all_record_field :: "record_field list" where
  "all_record_field =
     [F_UPDATED_AT, F_STOP_REASON, F_CURRENT_MILESTONE, F_COMPLETED_MILESTONES,
      F_MILESTONE_CHECKPOINTS, F_CHANGED_PATHS, F_PROVIDER_RUNS, F_VERIFICATION_RESULTS,
      F_BLOCKING_FINDINGS, F_DEFERRED_FINDINGS, F_APPROVALS, F_REVIEW_ATTEMPTS,
      F_SUCCESSFUL_REVIEW_ROUNDS, F_PROVIDER_FAILURE_COUNT, F_CORRECTION_ROUND, F_CLOSURE_ROUND]"

lemma all_record_field_complete: "x \<in> set all_record_field"
  by (cases x) (simp_all add: all_record_field_def)

lemma record_field_value_inj: "record_field_value x = record_field_value y \<longleftrightarrow> x = y"
  by (cases x; cases y) simp_all

definition NULLABLE_FIELDS :: "record_field list" where
  "NULLABLE_FIELDS = [F_STOP_REASON, F_CURRENT_MILESTONE]"

definition COUNTER_FIELDS :: "record_field list" where
  "COUNTER_FIELDS =
     [F_REVIEW_ATTEMPTS, F_SUCCESSFUL_REVIEW_ROUNDS, F_PROVIDER_FAILURE_COUNT,
      F_CORRECTION_ROUND, F_CLOSURE_ROUND]"

definition RECORD_UPDATE_FIELDS :: "record_field list" where
  "RECORD_UPDATE_FIELDS =
     filter (\<lambda>f. f \<notin> {F_BLOCKING_FINDINGS, F_SUCCESSFUL_REVIEW_ROUNDS, F_CORRECTION_ROUND,
                     F_CLOSURE_ROUND, F_PROVIDER_FAILURE_COUNT}) all_record_field"

definition TRANSITION_UPDATE_FIELDS :: "record_field list" where
  "TRANSITION_UPDATE_FIELDS =
     [F_UPDATED_AT, F_CURRENT_MILESTONE, F_CHANGED_PATHS, F_COMPLETED_MILESTONES,
      F_MILESTONE_CHECKPOINTS]"

definition ACCEPTED_FIELDS :: "record_field list" where
  "ACCEPTED_FIELDS =
     [F_UPDATED_AT, F_SUCCESSFUL_REVIEW_ROUNDS, F_CORRECTION_ROUND, F_CLOSURE_ROUND,
      F_BLOCKING_FINDINGS, F_DEFERRED_FINDINGS]"

definition REJECTED_FIELDS :: "record_field list" where
  "REJECTED_FIELDS = [F_UPDATED_AT, F_PROVIDER_FAILURE_COUNT]"

lemmas field_set_defs =
  NULLABLE_FIELDS_def COUNTER_FIELDS_def RECORD_UPDATE_FIELDS_def TRANSITION_UPDATE_FIELDS_def
  ACCEPTED_FIELDS_def REJECTED_FIELDS_def all_record_field_def

section \<open>Ledgers, rejections and mutations\<close>

text \<open>\<open>RecoveryLedgerName\<close>.\<close>

datatype recovery_ledger_name =
    L_RECONCILIATIONS
  | L_REOPENINGS
  | L_REVIEW_RECOVERIES
  | L_REVALIDATIONS

fun ledger_name_value :: "recovery_ledger_name \<Rightarrow> pystr" where
  "ledger_name_value L_RECONCILIATIONS = lit ''reconciliations''"
| "ledger_name_value L_REOPENINGS = lit ''reopenings''"
| "ledger_name_value L_REVIEW_RECOVERIES = lit ''review_recoveries''"
| "ledger_name_value L_REVALIDATIONS = lit ''revalidations''"

definition all_ledger_name :: "recovery_ledger_name list" where
  "all_ledger_name =
     [L_RECONCILIATIONS, L_REOPENINGS, L_REVIEW_RECOVERIES, L_REVALIDATIONS]"

lemma all_ledger_name_complete: "x \<in> set all_ledger_name"
  by (cases x) (simp_all add: all_ledger_name_def)

lemma ledger_name_value_inj: "ledger_name_value x = ledger_name_value y \<longleftrightarrow> x = y"
  by (cases x; cases y) simp_all

fun ledger_by_command :: "recovery_command \<Rightarrow> recovery_ledger_name" where
  "ledger_by_command RECONCILE_MILESTONE = L_RECONCILIATIONS"
| "ledger_by_command REOPEN_MILESTONE = L_REOPENINGS"
| "ledger_by_command RECOVER_FAILED_REVIEW = L_REVIEW_RECOVERIES"
| "ledger_by_command REVALIDATE_CORRECTION = L_REVALIDATIONS"

text \<open>\<open>RejectionSource\<close>.\<close>

datatype rejection_source =
    VALIDATION
  | PRE_SPAWN_FAILURE
  | DISPATCH_REFUSED

fun rejection_source_value :: "rejection_source \<Rightarrow> pystr" where
  "rejection_source_value VALIDATION = lit ''VALIDATION''"
| "rejection_source_value PRE_SPAWN_FAILURE = lit ''PRE_SPAWN_FAILURE''"
| "rejection_source_value DISPATCH_REFUSED = lit ''DISPATCH_REFUSED''"

definition all_rejection_source :: "rejection_source list" where
  "all_rejection_source =
     [VALIDATION, PRE_SPAWN_FAILURE, DISPATCH_REFUSED]"

lemma all_rejection_source_complete: "x \<in> set all_rejection_source"
  by (cases x) (simp_all add: all_rejection_source_def)

lemma rejection_source_value_inj: "rejection_source_value x = rejection_source_value y \<longleftrightarrow> x = y"
  by (cases x; cases y) simp_all

text \<open>\<open>MutationAction\<close>.\<close>

datatype mutation_action =
    RECOVERY_COMMAND
  | RESULT_ACCEPTANCE
  | RESULT_REJECTION
  | APPLICATION_STEP

fun mutation_action_value :: "mutation_action \<Rightarrow> pystr" where
  "mutation_action_value RECOVERY_COMMAND = lit ''RECOVERY_COMMAND''"
| "mutation_action_value RESULT_ACCEPTANCE = lit ''RESULT_ACCEPTANCE''"
| "mutation_action_value RESULT_REJECTION = lit ''RESULT_REJECTION''"
| "mutation_action_value APPLICATION_STEP = lit ''APPLICATION_STEP''"

definition all_mutation_action :: "mutation_action list" where
  "all_mutation_action =
     [RECOVERY_COMMAND, RESULT_ACCEPTANCE, RESULT_REJECTION, APPLICATION_STEP]"

lemma all_mutation_action_complete: "x \<in> set all_mutation_action"
  by (cases x) (simp_all add: all_mutation_action_def)

lemma mutation_action_value_inj: "mutation_action_value x = mutation_action_value y \<longleftrightarrow> x = y"
  by (cases x; cases y) simp_all

text \<open>\<open>MutationCommand\<close>.\<close>

datatype mutation_command =
    MC_START
  | MC_RESUME
  | MC_ABORT
  | MC_RECONCILE_MILESTONE
  | MC_REOPEN_MILESTONE
  | MC_RECOVER_FAILED_REVIEW
  | MC_REVALIDATE_CORRECTION
  | MC_APPROVE_COMMIT
  | MC_APPROVE_PUSH

fun mutation_command_value :: "mutation_command \<Rightarrow> pystr" where
  "mutation_command_value MC_START = lit ''START''"
| "mutation_command_value MC_RESUME = lit ''RESUME''"
| "mutation_command_value MC_ABORT = lit ''ABORT''"
| "mutation_command_value MC_RECONCILE_MILESTONE = lit ''RECONCILE_MILESTONE''"
| "mutation_command_value MC_REOPEN_MILESTONE = lit ''REOPEN_MILESTONE''"
| "mutation_command_value MC_RECOVER_FAILED_REVIEW = lit ''RECOVER_FAILED_REVIEW''"
| "mutation_command_value MC_REVALIDATE_CORRECTION = lit ''REVALIDATE_CORRECTION''"
| "mutation_command_value MC_APPROVE_COMMIT = lit ''APPROVE_COMMIT''"
| "mutation_command_value MC_APPROVE_PUSH = lit ''APPROVE_PUSH''"

definition all_mutation_command :: "mutation_command list" where
  "all_mutation_command =
     [MC_START, MC_RESUME, MC_ABORT, MC_RECONCILE_MILESTONE,
      MC_REOPEN_MILESTONE, MC_RECOVER_FAILED_REVIEW, MC_REVALIDATE_CORRECTION, MC_APPROVE_COMMIT,
      MC_APPROVE_PUSH]"

lemma all_mutation_command_complete: "x \<in> set all_mutation_command"
  by (cases x) (simp_all add: all_mutation_command_def)

lemma mutation_command_value_inj: "mutation_command_value x = mutation_command_value y \<longleftrightarrow> x = y"
  by (cases x; cases y) simp_all

end
