(* ===== verification/Lifecycle_Events.thy ===== *)
theory Lifecycle_Events
  imports Lifecycle_Vocabulary
begin

text \<open>
  The data of \<open>milestone_runner/events.py\<close>: typed record updates and how they are applied, the
  sixteen event payloads, the complete declaration of a logical mutation with its validator, the
  event envelope with its content address, and the publication witness. The five payloads that
  may be constituents of a declaration change the record body; \<open>Constituent\<close> embeds them into the
  payloads of an event. \<open>dump_...\<close> is \<open>model_dump(mode="json")\<close>.
\<close>

section \<open>Typed record updates\<close>

record record_updates =
  ru_assigned :: "record_field list"
  ru_updated_at :: "pystr option"
  ru_stop_reason :: "stop_reason option"
  ru_current_milestone :: "pystr option"
  ru_completed_milestones :: "pystr list option"
  ru_milestone_checkpoints :: "milestone_checkpoint list option"
  ru_changed_paths :: "pystr list option"
  ru_provider_runs :: "provider_run_record list option"
  ru_verification_results :: "verification_result list option"
  ru_blocking_findings :: "finding list option"
  ru_deferred_findings :: "finding list option"
  ru_approvals :: "approval_record list option"
  ru_review_attempts :: "int option"
  ru_successful_review_rounds :: "int option"
  ru_provider_failure_count :: "int option"
  ru_correction_round :: "int option"
  ru_closure_round :: "int option"

definition updates_value_none :: "record_updates \<Rightarrow> record_field \<Rightarrow> bool" where
  "updates_value_none u f =
     (case f of
        F_UPDATED_AT \<Rightarrow> ru_updated_at u = None
      | F_STOP_REASON \<Rightarrow> ru_stop_reason u = None
      | F_CURRENT_MILESTONE \<Rightarrow> ru_current_milestone u = None
      | F_COMPLETED_MILESTONES \<Rightarrow> ru_completed_milestones u = None
      | F_MILESTONE_CHECKPOINTS \<Rightarrow> ru_milestone_checkpoints u = None
      | F_CHANGED_PATHS \<Rightarrow> ru_changed_paths u = None
      | F_PROVIDER_RUNS \<Rightarrow> ru_provider_runs u = None
      | F_VERIFICATION_RESULTS \<Rightarrow> ru_verification_results u = None
      | F_BLOCKING_FINDINGS \<Rightarrow> ru_blocking_findings u = None
      | F_DEFERRED_FINDINGS \<Rightarrow> ru_deferred_findings u = None
      | F_APPROVALS \<Rightarrow> ru_approvals u = None
      | F_REVIEW_ATTEMPTS \<Rightarrow> ru_review_attempts u = None
      | F_SUCCESSFUL_REVIEW_ROUNDS \<Rightarrow> ru_successful_review_rounds u = None
      | F_PROVIDER_FAILURE_COUNT \<Rightarrow> ru_provider_failure_count u = None
      | F_CORRECTION_ROUND \<Rightarrow> ru_correction_round u = None
      | F_CLOSURE_ROUND \<Rightarrow> ru_closure_round u = None)"

text \<open>The nested models: each value is already the one its own constructor returns.\<close>

definition nested_values_ok :: "pyenv \<Rightarrow> record_updates \<Rightarrow> bool" where
  "nested_values_ok E u \<longleftrightarrow>
     pred_option (list_all (\<lambda>x. validate_checkpoint E x = Some x)) (ru_milestone_checkpoints u)
     \<and> pred_option (list_all (\<lambda>x. validate_provider_run E x = Some x)) (ru_provider_runs u)
     \<and> pred_option (list_all (\<lambda>x. validate_verification_result E x = Some x)) (ru_verification_results u)
     \<and> pred_option (list_all (\<lambda>x. validate_finding E x = Some x)) (ru_blocking_findings u)
     \<and> pred_option (list_all (\<lambda>x. validate_finding E x = Some x)) (ru_deferred_findings u)
     \<and> pred_option (list_all (\<lambda>x. validate_approval E x = Some x)) (ru_approvals u)"

definition validate_updates :: "pyenv \<Rightarrow> record_updates \<Rightarrow> record_updates option" where
  "validate_updates E u =
     refuse_if (\<not> nested_values_ok E u)
     (let names = map record_field_value (ru_assigned u) in
      refuse_if (names \<noteq> sort (remdups names))
      (refuse_if
         (\<exists>f \<in> set all_record_field. f \<notin> set (ru_assigned u) \<and> \<not> updates_value_none u f)
      (refuse_if
         (\<exists>f \<in> set all_record_field.
            f \<in> set (ru_assigned u) \<and> updates_value_none u f \<and> f \<notin> set NULLABLE_FIELDS)
      (Some u))))"

text \<open>
  One assignment of \<open>document[member.value] = values[member.value]\<close>. A missing value of a field that
  is not nullable makes the document invalid.
\<close>

definition assign_field :: "record_updates \<Rightarrow> record_field \<Rightarrow> run_record \<Rightarrow> run_record option" where
  "assign_field u f r =
     (case f of
        F_UPDATED_AT \<Rightarrow> map_option (\<lambda>v. r\<lparr>rr_updated_at := v\<rparr>) (ru_updated_at u)
      | F_STOP_REASON \<Rightarrow> Some (r\<lparr>rr_stop_reason := ru_stop_reason u\<rparr>)
      | F_CURRENT_MILESTONE \<Rightarrow> Some (r\<lparr>rr_current_milestone := ru_current_milestone u\<rparr>)
      | F_COMPLETED_MILESTONES \<Rightarrow> map_option (\<lambda>v. r\<lparr>rr_completed_milestones := v\<rparr>) (ru_completed_milestones u)
      | F_MILESTONE_CHECKPOINTS \<Rightarrow> map_option (\<lambda>v. r\<lparr>rr_milestone_checkpoints := v\<rparr>) (ru_milestone_checkpoints u)
      | F_CHANGED_PATHS \<Rightarrow> map_option (\<lambda>v. r\<lparr>rr_changed_paths := v\<rparr>) (ru_changed_paths u)
      | F_PROVIDER_RUNS \<Rightarrow> map_option (\<lambda>v. r\<lparr>rr_provider_runs := v\<rparr>) (ru_provider_runs u)
      | F_VERIFICATION_RESULTS \<Rightarrow> map_option (\<lambda>v. r\<lparr>rr_verification_results := v\<rparr>) (ru_verification_results u)
      | F_BLOCKING_FINDINGS \<Rightarrow> map_option (\<lambda>v. r\<lparr>rr_blocking_findings := v\<rparr>) (ru_blocking_findings u)
      | F_DEFERRED_FINDINGS \<Rightarrow> map_option (\<lambda>v. r\<lparr>rr_deferred_findings := v\<rparr>) (ru_deferred_findings u)
      | F_APPROVALS \<Rightarrow> map_option (\<lambda>v. r\<lparr>rr_approvals := v\<rparr>) (ru_approvals u)
      | F_REVIEW_ATTEMPTS \<Rightarrow> map_option (\<lambda>v. r\<lparr>rr_review_attempts := v\<rparr>) (ru_review_attempts u)
      | F_SUCCESSFUL_REVIEW_ROUNDS \<Rightarrow> map_option (\<lambda>v. r\<lparr>rr_successful_review_rounds := v\<rparr>) (ru_successful_review_rounds u)
      | F_PROVIDER_FAILURE_COUNT \<Rightarrow> map_option (\<lambda>v. r\<lparr>rr_provider_failure_count := v\<rparr>) (ru_provider_failure_count u)
      | F_CORRECTION_ROUND \<Rightarrow> map_option (\<lambda>v. r\<lparr>rr_correction_round := v\<rparr>) (ru_correction_round u)
      | F_CLOSURE_ROUND \<Rightarrow> map_option (\<lambda>v. r\<lparr>rr_closure_round := v\<rparr>) (ru_closure_round u))"

fun assign_fields :: "record_updates \<Rightarrow> record_field list \<Rightarrow> run_record \<Rightarrow> run_record option" where
  "assign_fields u [] r = Some r"
| "assign_fields u (f # fs) r = Option.bind (assign_field u f r) (assign_fields u fs)"

text \<open>
  \<open>_apply_updates(record, updates, **state)\<close>: the keyword arguments are the transition's new state
  and stop reason, which overwrite the document after the assignments.
\<close>

definition apply_updates ::
  "pyenv \<Rightarrow> run_record \<Rightarrow> record_updates \<Rightarrow> (run_status \<times> stop_reason option) option \<Rightarrow>
     lifecycle_error + run_record" where
  "apply_updates E record updates state =
     from_option EventChainBroken
       (Option.bind (assign_fields updates (ru_assigned updates) record) (\<lambda>document.
        validate_run_record E
          (case state of None \<Rightarrow> document
           | Some (workflow_state, stop_reason) \<Rightarrow>
               document\<lparr>rr_workflow_state := workflow_state, rr_stop_reason := stop_reason\<rparr>)))"

section \<open>Payloads\<close>

record run_baselined =
  rb_record :: run_record
  rb_source_schema_version :: int
  rb_source_sha256 :: pystr
  rb_source_byte_count :: int

record stage_start_bound =
  ss_authorization :: evidence_reference
  ss_binding :: evidence_reference
  ss_witness :: evidence_reference

record record_updated =
  up_before_body_digest :: pystr
  up_after_body_digest :: pystr
  up_updates :: record_updates
  up_evidence :: "evidence_reference list"

record ledger_appended =
  la_before_body_digest :: pystr
  la_after_body_digest :: pystr
  la_ledger :: recovery_ledger_name
  la_entry :: recovery_ledger_entry
  la_previous_length :: int
  la_entry_digest :: pystr

record request_created =
  qc_operation_id :: pystr
  qc_step :: operation_step
  qc_adapter :: adapter_identity
  qc_request :: evidence_reference

record attempt_evidence =
  ae_operation_id :: pystr
  ae_attempt :: int
  ae_reference :: evidence_reference

record execution_outcome =
  eo_exit_code :: "int option"
  eo_timed_out :: bool
  eo_failure_class :: "provider_failure_class option"
  eo_duration_ms :: int
  eo_stdout_truncated :: bool
  eo_stderr_truncated :: bool

record result_received =
  rc_operation_id :: pystr
  rc_attempt :: int
  rc_raw_result :: evidence_reference
  rc_outcome :: execution_outcome
  rc_transcripts :: "evidence_reference list"

record result_validated =
  rvd_operation_id :: pystr
  rvd_attempt :: int
  rvd_verdict :: validation_verdict
  rvd_validated :: evidence_reference

record result_accepted =
  ra_before_body_digest :: pystr
  ra_after_body_digest :: pystr
  ra_operation_id :: pystr
  ra_accepted_result_sha256 :: pystr
  ra_updates :: record_updates

record result_rejected =
  rj_before_body_digest :: pystr
  rj_after_body_digest :: pystr
  rj_operation_id :: pystr
  rj_source :: rejection_source
  rj_verdict_sha256 :: "pystr option"
  rj_diagnostic :: "pystr option"
  rj_updates :: record_updates

record state_transitioned =
  tr_before_body_digest :: pystr
  tr_after_body_digest :: pystr
  tr_from_state :: run_status
  tr_to_state :: run_status
  tr_stop_reason :: "stop_reason option"
  tr_updates :: record_updates
  tr_operation_id :: "pystr option"

datatype constituent_payload =
    RunRecordUpdated record_updated
  | RecoveryLedgerAppended ledger_appended
  | OperationResultAccepted result_accepted
  | OperationResultRejected result_rejected
  | StateTransitioned state_transitioned

section \<open>Mutation declarations\<close>

record recovery_command_evidence =
  re_command :: recovery_command
  re_ledger :: recovery_ledger_name
  re_entry :: recovery_ledger_entry
  re_original_ledger_length :: int
  re_budgets_touched :: "(pystr \<times> int) list"
  re_summary :: pystr
  re_reconstructed_from_verified_evidence :: bool
  re_evidence_digest :: "pystr option"

record result_evidence =
  rv_operation_id :: pystr
  rv_disposition :: persistence_kind
  rv_verdict :: "evidence_reference option"

datatype mutation_evidence =
    RecoveryCommandEvidence recovery_command_evidence
  | ResultEvidence result_evidence
  | ApplicationStepEvidence pystr

record manifest_constituent =
  mc_index :: int
  mc_event_type :: lifecycle_event_type
  mc_sequence :: int
  mc_state_version :: int
  mc_recorded_at :: pystr
  mc_before_body_digest :: pystr
  mc_after_body_digest :: pystr
  mc_payload :: constituent_payload

record intended_transition =
  it_index :: int
  it_from_state :: run_status
  it_to_state :: run_status
  it_stop_reason :: "stop_reason option"
  it_updates :: record_updates

record mutation_declaration =
  md_schema_version :: int
  md_mutation_id :: pystr
  md_pins :: operation_pins
  md_prior_event_id :: pystr
  md_prior_sequence :: int
  md_prior_state_version :: int
  md_prior_body_digest :: pystr
  md_action :: mutation_action
  md_command :: mutation_command
  md_initiated_at :: pystr
  md_evidence :: mutation_evidence
  md_constituents :: "manifest_constituent list"
  md_transitions :: "intended_transition list"
  md_final_body_digest :: pystr

datatype event_payload =
    RunInitialized run_record
  | RunBaselined run_baselined
  | StageStartBound stage_start_bound
  | PolicyPublished evidence_reference
  | ApplicationMutationDeclared mutation_declaration
  | OperationRequestCreated request_created
  | OperationDispatchIntent attempt_evidence
  | OperationDispatchReceived attempt_evidence
  | OperationPreSpawnFailed attempt_evidence
  | OperationResultReceived result_received
  | OperationResultValidated result_validated
  | Constituent constituent_payload

fun constituent_event_type :: "constituent_payload \<Rightarrow> lifecycle_event_type" where
  "constituent_event_type (RunRecordUpdated _) = RUN_RECORD_UPDATED"
| "constituent_event_type (RecoveryLedgerAppended _) = RECOVERY_LEDGER_APPENDED"
| "constituent_event_type (OperationResultAccepted _) = OPERATION_RESULT_ACCEPTED"
| "constituent_event_type (OperationResultRejected _) = OPERATION_RESULT_REJECTED"
| "constituent_event_type (StateTransitioned _) = STATE_TRANSITIONED"

fun before_body_digest :: "constituent_payload \<Rightarrow> pystr" where
  "before_body_digest (RunRecordUpdated p) = up_before_body_digest p"
| "before_body_digest (RecoveryLedgerAppended p) = la_before_body_digest p"
| "before_body_digest (OperationResultAccepted p) = ra_before_body_digest p"
| "before_body_digest (OperationResultRejected p) = rj_before_body_digest p"
| "before_body_digest (StateTransitioned p) = tr_before_body_digest p"

fun after_body_digest :: "constituent_payload \<Rightarrow> pystr" where
  "after_body_digest (RunRecordUpdated p) = up_after_body_digest p"
| "after_body_digest (RecoveryLedgerAppended p) = la_after_body_digest p"
| "after_body_digest (OperationResultAccepted p) = ra_after_body_digest p"
| "after_body_digest (OperationResultRejected p) = rj_after_body_digest p"
| "after_body_digest (StateTransitioned p) = tr_after_body_digest p"

fun payload_event_type :: "event_payload \<Rightarrow> lifecycle_event_type" where
  "payload_event_type (RunInitialized _) = RUN_INITIALIZED"
| "payload_event_type (RunBaselined _) = RUN_BASELINED"
| "payload_event_type (StageStartBound _) = STAGE_START_BOUND"
| "payload_event_type (PolicyPublished _) = POLICY_PUBLISHED"
| "payload_event_type (ApplicationMutationDeclared _) = APPLICATION_MUTATION_DECLARED"
| "payload_event_type (OperationRequestCreated _) = OPERATION_REQUEST_CREATED"
| "payload_event_type (OperationDispatchIntent _) = OPERATION_DISPATCH_INTENT"
| "payload_event_type (OperationDispatchReceived _) = OPERATION_DISPATCH_RECEIVED"
| "payload_event_type (OperationPreSpawnFailed _) = OPERATION_PRE_SPAWN_FAILED"
| "payload_event_type (OperationResultReceived _) = OPERATION_RESULT_RECEIVED"
| "payload_event_type (OperationResultValidated _) = OPERATION_RESULT_VALIDATED"
| "payload_event_type (Constituent c) = constituent_event_type c"

lemma constituent_type_listed: "constituent_event_type c \<in> set CONSTITUENT_TYPES"
  by (cases c) (simp_all add: CONSTITUENT_TYPES_def)

lemma constituent_of_type:
  "payload_event_type p = constituent_event_type c \<Longrightarrow> \<exists>d. p = Constituent d"
  by (cases p; cases c) auto

section \<open>\<open>model_dump\<close>\<close>

definition dump_reference :: "evidence_reference \<Rightarrow> json" where
  "dump_reference r =
     JObj
      [(lit ''kind'', JStr (evidence_kind_value (er_kind r))),
       (lit ''root'', JStr (evidence_root_value (er_root r))),
       (lit ''path'', JStr (er_path r)),
       (lit ''sha256'', JStr (er_sha256 r)),
       (lit ''byte_count'', JInt (er_byte_count r))]"

definition dump_step :: "operation_step \<Rightarrow> json" where
  "dump_step r =
     JObj
      [(lit ''step_kind'', JStr (step_kind_value (st_step_kind r))),
       (lit ''cycle_no'', JInt (st_cycle_no r)),
       (lit ''role'', JStr (provider_role_value (st_role r))),
       (lit ''slot'', JStr (st_slot r))]"

definition dump_adapter :: "adapter_identity \<Rightarrow> json" where
  "dump_adapter r =
     JObj
      [(lit ''provider'', JStr (ad_provider r)),
       (lit ''adapter_type'', JStr (ad_adapter_type r))]"

definition dump_pins :: "operation_pins \<Rightarrow> json" where
  "dump_pins r =
     JObj
      [(lit ''repository_identity'', JStr (pn_repository_identity r)),
       (lit ''stage_id'', JStr (pn_stage_id r)),
       (lit ''run_id'', JStr (pn_run_id r)),
       (lit ''contract_sha256'', JStr (pn_contract_sha256 r)),
       (lit ''policy_digest'', JStr (pn_policy_digest r)),
       (lit ''stage_start_id'', JStr (pn_stage_start_id r))]"

definition dump_updates :: "record_updates \<Rightarrow> json" where
  "dump_updates r =
     JObj
      [(lit ''assigned'', JList (map (\<lambda>f. JStr (record_field_value f)) (ru_assigned r))),
       (lit ''updated_at'', jopt JStr (ru_updated_at r)),
       (lit ''stop_reason'', jopt (\<lambda>s. JStr (stop_reason_value s)) (ru_stop_reason r)),
       (lit ''current_milestone'', jopt JStr (ru_current_milestone r)),
       (lit ''completed_milestones'', jopt (\<lambda>xs. JList (map JStr xs)) (ru_completed_milestones r)),
       (lit ''milestone_checkpoints'', jopt (\<lambda>xs. JList (map dump_checkpoint xs)) (ru_milestone_checkpoints r)),
       (lit ''changed_paths'', jopt (\<lambda>xs. JList (map JStr xs)) (ru_changed_paths r)),
       (lit ''provider_runs'', jopt (\<lambda>xs. JList (map dump_provider_run xs)) (ru_provider_runs r)),
       (lit ''verification_results'', jopt (\<lambda>xs. JList (map dump_verification_result xs)) (ru_verification_results r)),
       (lit ''blocking_findings'', jopt (\<lambda>xs. JList (map dump_finding xs)) (ru_blocking_findings r)),
       (lit ''deferred_findings'', jopt (\<lambda>xs. JList (map dump_finding xs)) (ru_deferred_findings r)),
       (lit ''approvals'', jopt (\<lambda>xs. JList (map dump_approval xs)) (ru_approvals r)),
       (lit ''review_attempts'', jopt JInt (ru_review_attempts r)),
       (lit ''successful_review_rounds'', jopt JInt (ru_successful_review_rounds r)),
       (lit ''provider_failure_count'', jopt JInt (ru_provider_failure_count r)),
       (lit ''correction_round'', jopt JInt (ru_correction_round r)),
       (lit ''closure_round'', jopt JInt (ru_closure_round r))]"

definition dump_outcome :: "execution_outcome \<Rightarrow> json" where
  "dump_outcome r =
     JObj
      [(lit ''exit_code'', jopt JInt (eo_exit_code r)),
       (lit ''timed_out'', JBool (eo_timed_out r)),
       (lit ''failure_class'', jopt (\<lambda>c. JStr (failure_class_value c)) (eo_failure_class r)),
       (lit ''duration_ms'', JInt (eo_duration_ms r)),
       (lit ''stdout_truncated'', JBool (eo_stdout_truncated r)),
       (lit ''stderr_truncated'', JBool (eo_stderr_truncated r))]"

definition dump_record_updated :: "record_updated \<Rightarrow> json" where
  "dump_record_updated r =
     JObj
      [(lit ''event_type'', JStr (lit ''RUN_RECORD_UPDATED'')),
       (lit ''before_body_digest'', JStr (up_before_body_digest r)),
       (lit ''after_body_digest'', JStr (up_after_body_digest r)),
       (lit ''updates'', dump_updates (up_updates r)),
       (lit ''evidence'', JList (map dump_reference (up_evidence r)))]"

definition dump_ledger_appended :: "ledger_appended \<Rightarrow> json" where
  "dump_ledger_appended r =
     JObj
      [(lit ''event_type'', JStr (lit ''RECOVERY_LEDGER_APPENDED'')),
       (lit ''before_body_digest'', JStr (la_before_body_digest r)),
       (lit ''after_body_digest'', JStr (la_after_body_digest r)),
       (lit ''ledger'', JStr (ledger_name_value (la_ledger r))),
       (lit ''entry'', dump_ledger_entry (la_entry r)),
       (lit ''previous_length'', JInt (la_previous_length r)),
       (lit ''entry_digest'', JStr (la_entry_digest r))]"

definition dump_result_accepted :: "result_accepted \<Rightarrow> json" where
  "dump_result_accepted r =
     JObj
      [(lit ''event_type'', JStr (lit ''OPERATION_RESULT_ACCEPTED'')),
       (lit ''before_body_digest'', JStr (ra_before_body_digest r)),
       (lit ''after_body_digest'', JStr (ra_after_body_digest r)),
       (lit ''operation_id'', JStr (ra_operation_id r)),
       (lit ''accepted_result_sha256'', JStr (ra_accepted_result_sha256 r)),
       (lit ''updates'', dump_updates (ra_updates r))]"

definition dump_result_rejected :: "result_rejected \<Rightarrow> json" where
  "dump_result_rejected r =
     JObj
      [(lit ''event_type'', JStr (lit ''OPERATION_RESULT_REJECTED'')),
       (lit ''before_body_digest'', JStr (rj_before_body_digest r)),
       (lit ''after_body_digest'', JStr (rj_after_body_digest r)),
       (lit ''operation_id'', JStr (rj_operation_id r)),
       (lit ''source'', JStr (rejection_source_value (rj_source r))),
       (lit ''verdict_sha256'', jopt JStr (rj_verdict_sha256 r)),
       (lit ''diagnostic'', jopt JStr (rj_diagnostic r)),
       (lit ''updates'', dump_updates (rj_updates r))]"

definition dump_state_transitioned :: "state_transitioned \<Rightarrow> json" where
  "dump_state_transitioned r =
     JObj
      [(lit ''event_type'', JStr (lit ''STATE_TRANSITIONED'')),
       (lit ''before_body_digest'', JStr (tr_before_body_digest r)),
       (lit ''after_body_digest'', JStr (tr_after_body_digest r)),
       (lit ''from_state'', JStr (run_status_value (tr_from_state r))),
       (lit ''to_state'', JStr (run_status_value (tr_to_state r))),
       (lit ''stop_reason'', jopt (\<lambda>s. JStr (stop_reason_value s)) (tr_stop_reason r)),
       (lit ''updates'', dump_updates (tr_updates r)),
       (lit ''operation_id'', jopt JStr (tr_operation_id r))]"

fun dump_constituent_payload :: "constituent_payload \<Rightarrow> json" where
  "dump_constituent_payload (RunRecordUpdated p) = dump_record_updated p"
| "dump_constituent_payload (RecoveryLedgerAppended p) = dump_ledger_appended p"
| "dump_constituent_payload (OperationResultAccepted p) = dump_result_accepted p"
| "dump_constituent_payload (OperationResultRejected p) = dump_result_rejected p"
| "dump_constituent_payload (StateTransitioned p) = dump_state_transitioned p"

definition dump_recovery_evidence :: "recovery_command_evidence \<Rightarrow> json" where
  "dump_recovery_evidence r =
     JObj
      [(lit ''kind'', JStr (lit ''RECOVERY_COMMAND'')),
       (lit ''command'', JStr (recovery_command_value (re_command r))),
       (lit ''ledger'', JStr (ledger_name_value (re_ledger r))),
       (lit ''entry'', dump_ledger_entry (re_entry r)),
       (lit ''original_ledger_length'', JInt (re_original_ledger_length r)),
       (lit ''budgets_touched'', JObj (map (\<lambda>(k, v). (k, JInt v)) (re_budgets_touched r))),
       (lit ''summary'', JStr (re_summary r)),
       (lit ''reconstructed_from_verified_evidence'', JBool (re_reconstructed_from_verified_evidence r)),
       (lit ''evidence_digest'', jopt JStr (re_evidence_digest r))]"

definition dump_result_evidence :: "result_evidence \<Rightarrow> json" where
  "dump_result_evidence r =
     JObj
      [(lit ''kind'', JStr (lit ''RESULT'')),
       (lit ''operation_id'', JStr (rv_operation_id r)),
       (lit ''disposition'', JStr (persistence_value (rv_disposition r))),
       (lit ''verdict'', jopt dump_reference (rv_verdict r))]"

fun dump_evidence :: "mutation_evidence \<Rightarrow> json" where
  "dump_evidence (RecoveryCommandEvidence e) = dump_recovery_evidence e"
| "dump_evidence (ResultEvidence e) = dump_result_evidence e"
| "dump_evidence (ApplicationStepEvidence d) =
     JObj [(lit ''kind'', JStr (lit ''APPLICATION_STEP'')), (lit ''description'', JStr d)]"

definition dump_manifest_constituent :: "manifest_constituent \<Rightarrow> json" where
  "dump_manifest_constituent r =
     JObj
      [(lit ''index'', JInt (mc_index r)),
       (lit ''event_type'', JStr (event_type_value (mc_event_type r))),
       (lit ''sequence'', JInt (mc_sequence r)),
       (lit ''state_version'', JInt (mc_state_version r)),
       (lit ''recorded_at'', JStr (mc_recorded_at r)),
       (lit ''before_body_digest'', JStr (mc_before_body_digest r)),
       (lit ''after_body_digest'', JStr (mc_after_body_digest r)),
       (lit ''payload'', dump_constituent_payload (mc_payload r))]"

definition dump_intended_transition :: "intended_transition \<Rightarrow> json" where
  "dump_intended_transition r =
     JObj
      [(lit ''index'', JInt (it_index r)),
       (lit ''from_state'', JStr (run_status_value (it_from_state r))),
       (lit ''to_state'', JStr (run_status_value (it_to_state r))),
       (lit ''stop_reason'', jopt (\<lambda>s. JStr (stop_reason_value s)) (it_stop_reason r)),
       (lit ''updates'', dump_updates (it_updates r))]"

definition dump_declaration :: "mutation_declaration \<Rightarrow> json" where
  "dump_declaration r =
     JObj
      [(lit ''schema_version'', JInt (md_schema_version r)),
       (lit ''mutation_id'', JStr (md_mutation_id r)),
       (lit ''pins'', dump_pins (md_pins r)),
       (lit ''prior_event_id'', JStr (md_prior_event_id r)),
       (lit ''prior_sequence'', JInt (md_prior_sequence r)),
       (lit ''prior_state_version'', JInt (md_prior_state_version r)),
       (lit ''prior_body_digest'', JStr (md_prior_body_digest r)),
       (lit ''action'', JStr (mutation_action_value (md_action r))),
       (lit ''command'', JStr (mutation_command_value (md_command r))),
       (lit ''initiated_at'', JStr (md_initiated_at r)),
       (lit ''evidence'', dump_evidence (md_evidence r)),
       (lit ''constituents'', JList (map dump_manifest_constituent (md_constituents r))),
       (lit ''transitions'', JList (map dump_intended_transition (md_transitions r))),
       (lit ''final_body_digest'', JStr (md_final_body_digest r))]"

definition dump_run_baselined :: "run_baselined \<Rightarrow> json" where
  "dump_run_baselined r =
     JObj
      [(lit ''event_type'', JStr (lit ''RUN_BASELINED'')),
       (lit ''origin'', JStr (lit ''HISTORICAL_SNAPSHOT_BRIDGE'')),
       (lit ''record'', dump_run_record (rb_record r)),
       (lit ''source_schema_version'', JInt (rb_source_schema_version r)),
       (lit ''source_sha256'', JStr (rb_source_sha256 r)),
       (lit ''source_byte_count'', JInt (rb_source_byte_count r))]"

definition dump_stage_start_bound :: "stage_start_bound \<Rightarrow> json" where
  "dump_stage_start_bound r =
     JObj
      [(lit ''event_type'', JStr (lit ''STAGE_START_BOUND'')),
       (lit ''authorization'', dump_reference (ss_authorization r)),
       (lit ''binding'', dump_reference (ss_binding r)),
       (lit ''witness'', dump_reference (ss_witness r))]"

definition dump_request_created :: "request_created \<Rightarrow> json" where
  "dump_request_created r =
     JObj
      [(lit ''event_type'', JStr (lit ''OPERATION_REQUEST_CREATED'')),
       (lit ''operation_id'', JStr (qc_operation_id r)),
       (lit ''step'', dump_step (qc_step r)),
       (lit ''adapter'', dump_adapter (qc_adapter r)),
       (lit ''request'', dump_reference (qc_request r))]"

definition dump_result_received :: "result_received \<Rightarrow> json" where
  "dump_result_received r =
     JObj
      [(lit ''event_type'', JStr (lit ''OPERATION_RESULT_RECEIVED'')),
       (lit ''operation_id'', JStr (rc_operation_id r)),
       (lit ''attempt'', JInt (rc_attempt r)),
       (lit ''raw_result'', dump_reference (rc_raw_result r)),
       (lit ''outcome'', dump_outcome (rc_outcome r)),
       (lit ''transcripts'', JList (map dump_reference (rc_transcripts r)))]"

definition dump_result_validated :: "result_validated \<Rightarrow> json" where
  "dump_result_validated r =
     JObj
      [(lit ''event_type'', JStr (lit ''OPERATION_RESULT_VALIDATED'')),
       (lit ''operation_id'', JStr (rvd_operation_id r)),
       (lit ''attempt'', JInt (rvd_attempt r)),
       (lit ''verdict'', JStr (verdict_value (rvd_verdict r))),
       (lit ''validated'', dump_reference (rvd_validated r))]"

definition dump_attempt_evidence :: "lifecycle_event_type \<Rightarrow> string \<Rightarrow> attempt_evidence \<Rightarrow> json" where
  "dump_attempt_evidence t field r =
     JObj
      [(lit ''event_type'', JStr (event_type_value t)),
       (lit ''operation_id'', JStr (ae_operation_id r)),
       (lit ''attempt'', JInt (ae_attempt r)),
       (lit field, dump_reference (ae_reference r))]"

fun dump_payload :: "event_payload \<Rightarrow> json" where
  "dump_payload (RunInitialized record) =
     JObj [(lit ''event_type'', JStr (lit ''RUN_INITIALIZED'')),
           (lit ''origin'', JStr (lit ''EVENT_BACKED_START'')),
           (lit ''record'', dump_run_record record)]"
| "dump_payload (RunBaselined p) = dump_run_baselined p"
| "dump_payload (StageStartBound p) = dump_stage_start_bound p"
| "dump_payload (PolicyPublished policy) =
     JObj [(lit ''event_type'', JStr (lit ''POLICY_PUBLISHED'')), (lit ''policy'', dump_reference policy)]"
| "dump_payload (ApplicationMutationDeclared d) =
     JObj [(lit ''event_type'', JStr (lit ''APPLICATION_MUTATION_DECLARED'')),
           (lit ''declaration'', dump_declaration d)]"
| "dump_payload (OperationRequestCreated p) = dump_request_created p"
| "dump_payload (OperationDispatchIntent p) = dump_attempt_evidence OPERATION_DISPATCH_INTENT ''intent'' p"
| "dump_payload (OperationDispatchReceived p) = dump_attempt_evidence OPERATION_DISPATCH_RECEIVED ''receipt'' p"
| "dump_payload (OperationPreSpawnFailed p) = dump_attempt_evidence OPERATION_PRE_SPAWN_FAILED ''verdict'' p"
| "dump_payload (OperationResultReceived p) = dump_result_received p"
| "dump_payload (OperationResultValidated p) = dump_result_validated p"
| "dump_payload (Constituent c) = dump_constituent_payload c"

section \<open>Validators of payloads and declarations\<close>

text \<open>\<open>mutation_identity\<close>: the content address of everything but \<open>mutation_id\<close>.\<close>

fun obj_pop :: "json \<Rightarrow> pystr \<Rightarrow> json" where
  "obj_pop (JObj kvs) k = JObj (filter (\<lambda>(name, _). name \<noteq> k) kvs)"
| "obj_pop j k = j"

definition mutation_identity :: "pyenv \<Rightarrow> mutation_declaration \<Rightarrow> pystr" where
  "mutation_identity E d = integrity_digest E (obj_pop (dump_declaration d) (lit ''mutation_id''))"

definition validate_event_pins :: "operation_pins \<Rightarrow> bool" where
  "validate_event_pins p \<longleftrightarrow> valid_operation_pins p \<and> stage_id_grammar (pn_stage_id p)"

text \<open>
  The field validators of a constituent payload; the last clause is
  \<open>OperationResultRejectedPayload._validate_source\<close>.
\<close>

fun validate_constituent_payload :: "pyenv \<Rightarrow> constituent_payload \<Rightarrow> bool" where
  "validate_constituent_payload E (RunRecordUpdated p) =
     (sha256_hex (up_before_body_digest p) \<and> sha256_hex (up_after_body_digest p)
      \<and> validate_updates E (up_updates p) \<noteq> None \<and> length (up_evidence p) \<le> MAX_EVENT_REFERENCES
      \<and> list_all (\<lambda>r. validate_reference E r \<noteq> None) (up_evidence p))"
| "validate_constituent_payload E (RecoveryLedgerAppended p) =
     (sha256_hex (la_before_body_digest p) \<and> sha256_hex (la_after_body_digest p)
      \<and> 0 \<le> la_previous_length p \<and> validate_ledger_entry E (la_entry p) \<noteq> None)"
| "validate_constituent_payload E (OperationResultAccepted p) =
     (sha256_hex (ra_before_body_digest p) \<and> sha256_hex (ra_after_body_digest p)
      \<and> validate_updates E (ra_updates p) \<noteq> None)"
| "validate_constituent_payload E (OperationResultRejected p) =
     (sha256_hex (rj_before_body_digest p) \<and> sha256_hex (rj_after_body_digest p)
      \<and> validate_updates E (rj_updates p) \<noteq> None
      \<and> (rj_source p = DISPATCH_REFUSED) = (rj_verdict_sha256 p = None)
      \<and> pred_option (\<lambda>d. 1 \<le> length d \<and> length d \<le> 2000) (rj_diagnostic p))"
| "validate_constituent_payload E (StateTransitioned p) =
     (sha256_hex (tr_before_body_digest p) \<and> sha256_hex (tr_after_body_digest p)
      \<and> validate_updates E (tr_updates p) \<noteq> None)"

text \<open>
  The loop of \<open>_validate_manifest\<close>: the position starts at 1, \<open>previous\<close> at the prior body digest;
  the result is the last after digest.
\<close>

fun validate_manifest :: "int \<Rightarrow> int \<Rightarrow> pystr \<Rightarrow> manifest_constituent list \<Rightarrow> pystr option" where
  "validate_manifest prior_sequence position previous [] = Some previous"
| "validate_manifest prior_sequence position previous (c # cs) =
     refuse_if (mc_index c \<noteq> position)
     (refuse_if (mc_sequence c \<noteq> prior_sequence + 1 + position)
     (refuse_if (mc_state_version c \<noteq> mc_sequence c)
     (refuse_if (mc_event_type c \<noteq> constituent_event_type (mc_payload c))
     (refuse_if
        (mc_before_body_digest c \<noteq> before_body_digest (mc_payload c)
         \<or> mc_after_body_digest c \<noteq> after_body_digest (mc_payload c)
         \<or> mc_before_body_digest c \<noteq> previous)
     (refuse_if (\<not> utc_timestamp (mc_recorded_at c))
     (validate_manifest prior_sequence (position + 1) (mc_after_body_digest c) cs))))))"

fun declared_transitions :: "manifest_constituent list \<Rightarrow> (int \<times> state_transitioned) list" where
  "declared_transitions [] = []"
| "declared_transitions (c # cs) =
     (case mc_payload c of
        StateTransitioned p \<Rightarrow> (mc_index c, p) # declared_transitions cs
      | _ \<Rightarrow> declared_transitions cs)"

definition intended_matches :: "intended_transition \<Rightarrow> state_transitioned \<Rightarrow> bool" where
  "intended_matches i p \<longleftrightarrow>
     it_from_state i = tr_from_state p \<and> it_to_state i = tr_to_state p
     \<and> it_stop_reason i = tr_stop_reason p \<and> it_updates i = tr_updates p"

fun validate_mutation_evidence :: "pyenv \<Rightarrow> mutation_evidence \<Rightarrow> bool" where
  "validate_mutation_evidence E (RecoveryCommandEvidence e) =
     (0 \<le> re_original_ledger_length e \<and> validate_ledger_entry E (re_entry e) \<noteq> None)"
| "validate_mutation_evidence E (ResultEvidence e) =
     pred_option (\<lambda>r. validate_reference E r \<noteq> None) (rv_verdict e)"
| "validate_mutation_evidence E (ApplicationStepEvidence _) = True"

definition validate_declaration_model :: "pyenv \<Rightarrow> mutation_declaration \<Rightarrow> bool" where
  "validate_declaration_model E d \<longleftrightarrow>
     md_schema_version d = LIFECYCLE_SCHEMA_VERSION
     \<and> validate_event_pins (md_pins d)
     \<and> 1 \<le> md_prior_sequence d \<and> 1 \<le> md_prior_state_version d
     \<and> validate_mutation_evidence E (md_evidence d)
     \<and> 2 \<le> length (md_constituents d) \<and> length (md_constituents d) \<le> MAX_MANIFEST_CONSTITUENTS
     \<and> list_all
         (\<lambda>c. 1 \<le> mc_index c \<and> 2 \<le> mc_sequence c \<and> mc_sequence c \<le> MAX_EVENT_SEQUENCE
              \<and> 2 \<le> mc_state_version c \<and> mc_state_version c \<le> MAX_EVENT_SEQUENCE
              \<and> validate_constituent_payload E (mc_payload c)) (md_constituents d)
     \<and> list_all (\<lambda>i. 1 \<le> it_index i \<and> validate_updates E (it_updates i) \<noteq> None) (md_transitions d)
     \<and> md_prior_state_version d = md_prior_sequence d
     \<and> mutation_identity E d = md_mutation_id d
     \<and> validate_manifest (md_prior_sequence d) 1 (md_prior_body_digest d) (md_constituents d)
         = Some (md_final_body_digest d)
     \<and> (let declared = declared_transitions (md_constituents d) in
          map it_index (md_transitions d) = map fst declared
          \<and> list_all2 (\<lambda>i (_, p). intended_matches i p) (md_transitions d) declared)"

text \<open>The field validators of every payload.\<close>

definition validate_attempt_evidence :: "pyenv \<Rightarrow> attempt_evidence \<Rightarrow> bool" where
  "validate_attempt_evidence E a \<longleftrightarrow>
     1 \<le> ae_attempt a \<and> ae_attempt a \<le> MAX_OPERATION_ATTEMPTS
     \<and> validate_reference E (ae_reference a) \<noteq> None"

fun validate_payload :: "pyenv \<Rightarrow> event_payload \<Rightarrow> bool" where
  "validate_payload E (RunInitialized record) = (validate_run_record E record = Some record)"
| "validate_payload E (RunBaselined p) =
     (validate_run_record E (rb_record p) = Some (rb_record p) \<and> rb_source_schema_version p = 2
      \<and> sha256_hex (rb_source_sha256 p) \<and> 1 \<le> rb_source_byte_count p)"
| "validate_payload E (StageStartBound p) =
     (validate_reference E (ss_authorization p) \<noteq> None \<and> validate_reference E (ss_binding p) \<noteq> None
      \<and> validate_reference E (ss_witness p) \<noteq> None)"
| "validate_payload E (PolicyPublished policy) = (validate_reference E policy \<noteq> None)"
| "validate_payload E (ApplicationMutationDeclared d) = validate_declaration_model E d"
| "validate_payload E (OperationRequestCreated p) =
     (validate_step (qc_step p) \<noteq> None \<and> valid_adapter (qc_adapter p)
      \<and> validate_reference E (qc_request p) \<noteq> None)"
| "validate_payload E (OperationDispatchIntent a) = validate_attempt_evidence E a"
| "validate_payload E (OperationDispatchReceived a) = validate_attempt_evidence E a"
| "validate_payload E (OperationPreSpawnFailed a) = validate_attempt_evidence E a"
| "validate_payload E (OperationResultReceived p) =
     (1 \<le> rc_attempt p \<and> rc_attempt p \<le> MAX_OPERATION_ATTEMPTS
      \<and> validate_reference E (rc_raw_result p) \<noteq> None \<and> 0 \<le> eo_duration_ms (rc_outcome p)
      \<and> length (rc_transcripts p) \<le> MAX_EVENT_REFERENCES
      \<and> list_all (\<lambda>r. validate_reference E r \<noteq> None) (rc_transcripts p))"
| "validate_payload E (OperationResultValidated p) =
     (1 \<le> rvd_attempt p \<and> rvd_attempt p \<le> MAX_OPERATION_ATTEMPTS
      \<and> validate_reference E (rvd_validated p) \<noteq> None)"
| "validate_payload E (Constituent c) = validate_constituent_payload E c"

section \<open>The event envelope\<close>

record lifecycle_event =
  le_schema_version :: int
  le_pins :: operation_pins
  le_sequence :: int
  le_state_version :: int
  le_event_type :: lifecycle_event_type
  le_recorded_at :: pystr
  le_mutation_id :: "pystr option"
  le_mutation_index :: "int option"
  le_payload :: event_payload
  le_payload_digest :: pystr
  le_prev_event_digest :: "pystr option"
  le_event_id :: pystr

fun json_items :: "json \<Rightarrow> (pystr \<times> json) list" where
  "json_items (JObj kvs) = kvs"
| "json_items _ = []"

definition dump_event :: "lifecycle_event \<Rightarrow> json" where
  "dump_event e =
     JObj
      ((lit ''schema_version'', JInt (le_schema_version e))
       # json_items (dump_pins (le_pins e))
       @ [(lit ''sequence'', JInt (le_sequence e)),
          (lit ''state_version'', JInt (le_state_version e)),
          (lit ''event_type'', JStr (event_type_value (le_event_type e))),
          (lit ''recorded_at'', JStr (le_recorded_at e)),
          (lit ''mutation_id'', jopt JStr (le_mutation_id e)),
          (lit ''mutation_index'', jopt JInt (le_mutation_index e)),
          (lit ''payload'', dump_payload (le_payload e)),
          (lit ''payload_digest'', JStr (le_payload_digest e)),
          (lit ''prev_event_digest'', jopt JStr (le_prev_event_digest e)),
          (lit ''event_id'', JStr (le_event_id e))])"

definition canonical_bytes :: "lifecycle_event \<Rightarrow> bytes" where
  "canonical_bytes e = integrity_bytes (dump_event e)"

definition event_identity :: "pyenv \<Rightarrow> lifecycle_event \<Rightarrow> pystr" where
  "event_identity E e = integrity_digest E (obj_pop (dump_event e) (lit ''event_id''))"

definition valid_sequence :: "int \<Rightarrow> bool" where
  "valid_sequence value \<longleftrightarrow> 1 \<le> value \<and> value \<le> MAX_EVENT_SEQUENCE"

definition validate_event :: "pyenv \<Rightarrow> lifecycle_event \<Rightarrow> lifecycle_event option" where
  "validate_event E e =
     refuse_if (le_schema_version e \<noteq> LIFECYCLE_SCHEMA_VERSION)
     (refuse_if (\<not> valid_sequence (le_sequence e) \<or> \<not> valid_sequence (le_state_version e))
     (refuse_if (\<not> sha256_hex (le_payload_digest e) \<or> \<not> sha256_hex (le_event_id e))
     (refuse_if (\<not> utc_timestamp (le_recorded_at e))
     (refuse_if (\<not> validate_payload E (le_payload e))
     (refuse_if (\<not> validate_event_pins (le_pins e))
     (refuse_if (le_state_version e \<noteq> le_sequence e)
     (refuse_if ((le_prev_event_digest e = None) \<noteq> (le_sequence e = 1))
     (refuse_if (\<not> pred_option sha256_hex (le_prev_event_digest e))
     (refuse_if ((le_mutation_id e = None) \<noteq> (le_mutation_index e = None))
     (refuse_if (\<not> pred_option sha256_hex (le_mutation_id e) \<or> \<not> pred_option (\<lambda>i. 1 \<le> i) (le_mutation_index e))
     (refuse_if (payload_event_type (le_payload e) \<noteq> le_event_type e)
     (Some e))))))))))))"

definition build_event ::
  "pyenv \<Rightarrow> operation_pins \<Rightarrow> int \<Rightarrow> lifecycle_event_type \<Rightarrow> pystr \<Rightarrow> event_payload \<Rightarrow>
     pystr option \<Rightarrow> pystr option \<Rightarrow> int option \<Rightarrow> lifecycle_error + lifecycle_event" where
  "build_event E pins sequence event_type recorded_at payload prev_event_digest mutation_id mutation_index =
     (let document =
        \<lparr>le_schema_version = LIFECYCLE_SCHEMA_VERSION, le_pins = pins, le_sequence = sequence,
         le_state_version = sequence, le_event_type = event_type, le_recorded_at = recorded_at,
         le_mutation_id = mutation_id, le_mutation_index = mutation_index, le_payload = payload,
         le_payload_digest = integrity_digest E (dump_payload payload),
         le_prev_event_digest = prev_event_digest, le_event_id = []\<rparr> in
      rbind (from_option EventConflict
               (validate_event E (document\<lparr>le_event_id := event_identity E document\<rparr>)))
        (\<lambda>event.
         raise_if (length (canonical_bytes event) > MAX_LIFECYCLE_DOCUMENT_BYTES) EventConflict
         (Inr event)))"

lemma event_identity_id [simp]: "event_identity E (e\<lparr>le_event_id := i\<rparr>) = event_identity E e"
  by (simp add: event_identity_def dump_event_def dump_pins_def)

text \<open>
  \<open>parse_event_bytes\<close>. \<open>loads\<close> is \<open>json.loads\<close> after strict UTF-8 decoding (\<open>None\<close> where it raises, the
  repeated keys of an object kept), \<open>decode\<close> is pydantic's reading of a document into the typed
  envelope before its validators run.
\<close>

definition parse_event_bytes ::
  "pyenv \<Rightarrow> (bytes \<Rightarrow> json option) \<Rightarrow> (json \<Rightarrow> lifecycle_event option) \<Rightarrow> pystr \<Rightarrow> bytes \<Rightarrow>
     lifecycle_error + lifecycle_event \<times> pystr" where
  "parse_event_bytes E loads decode name payload =
     (case parse_event_file_name name of
        None \<Rightarrow> Inl EventChainBroken
      | Some claimed \<Rightarrow>
          raise_if (length payload > MAX_LIFECYCLE_DOCUMENT_BYTES) EventChainBroken
          (case loads payload of
             None \<Rightarrow> Inl EventChainBroken
           | Some document \<Rightarrow>
               raise_if (\<not> no_duplicate_keys document) EventChainBroken
               (case document of
                  JObj _ \<Rightarrow>
                    raise_if (obj_get document (lit ''schema_version'') \<noteq> Some (JInt LIFECYCLE_SCHEMA_VERSION))
                      LifecycleSchemaUnknown
                    (rbind (from_option EventChainBroken (Option.bind (decode document) (validate_event E)))
                       (\<lambda>event.
                        raise_if (canonical_bytes event \<noteq> payload) EventChainBroken
                        (raise_if (integrity_digest E (dump_payload (le_payload event)) \<noteq> le_payload_digest event)
                           EventChainBroken
                        (raise_if (event_identity E event \<noteq> le_event_id event) EventChainBroken
                        (raise_if ((le_sequence event, le_event_type event) \<noteq> claimed) EventChainBroken
                        (Inr (event, sha256 E payload)))))))
                | _ \<Rightarrow> Inl EventChainBroken)))"

section \<open>The publication witness\<close>

record publication_witness =
  pw_schema_version :: int
  pw_pins :: operation_pins
  pw_sequence :: int
  pw_event_id :: pystr
  pw_event_sha256 :: pystr
  pw_prev_event_digest :: "pystr option"

definition validate_witness :: "publication_witness \<Rightarrow> publication_witness option" where
  "validate_witness w =
     refuse_if (pw_schema_version w \<noteq> LIFECYCLE_SCHEMA_VERSION)
     (refuse_if (\<not> validate_event_pins (pw_pins w) \<or> \<not> valid_sequence (pw_sequence w))
     (refuse_if (\<not> sha256_hex (pw_event_id w) \<or> \<not> sha256_hex (pw_event_sha256 w))
     (refuse_if ((pw_prev_event_digest w = None) \<noteq> (pw_sequence w = 1))
     (refuse_if (\<not> pred_option sha256_hex (pw_prev_event_digest w))
     (Some w)))))"

definition dump_witness :: "publication_witness \<Rightarrow> json" where
  "dump_witness w =
     JObj
      [(lit ''schema_version'', JInt (pw_schema_version w)),
       (lit ''pins'', dump_pins (pw_pins w)),
       (lit ''sequence'', JInt (pw_sequence w)),
       (lit ''event_id'', JStr (pw_event_id w)),
       (lit ''event_sha256'', JStr (pw_event_sha256 w)),
       (lit ''prev_event_digest'', jopt JStr (pw_prev_event_digest w))]"

definition witness_for :: "lifecycle_event \<Rightarrow> pystr \<Rightarrow> publication_witness option" where
  "witness_for event event_sha256 =
     validate_witness
       \<lparr>pw_schema_version = LIFECYCLE_SCHEMA_VERSION, pw_pins = le_pins event,
        pw_sequence = le_sequence event, pw_event_id = le_event_id event,
        pw_event_sha256 = event_sha256, pw_prev_event_digest = le_prev_event_digest event\<rparr>"

end
