(* ===== verification/Lifecycle_Fold.thy ===== *)
theory Lifecycle_Fold
  imports Lifecycle_Events
begin

text \<open>
  The pure replay of \<open>milestone_runner/events.py\<close> (section "the pure fold"): \<open>fold_step\<close> validates
  one verified event against everything the chain has proved so far and returns the next fold
  state, or the typed refusal the source raises. Messages are not modelled, refusals are ordered
  as the source tests them. The fold reads, writes and runs nothing.
\<close>

section \<open>The fold state\<close>

record open_mutation =
  om_declaration :: mutation_declaration
  om_declaration_sequence :: int
  om_applied :: nat

record fold_state =
  fs_pins :: operation_pins
  fs_record :: run_record
  fs_body_digest :: pystr
  fs_sequence :: int
  fs_event_id :: pystr
  fs_event_sha256 :: pystr
  fs_genesis :: lifecycle_event_type
  fs_prev_event_digest :: "pystr option"
  fs_stage_start_bound :: bool
  fs_policy_published :: bool
  fs_open_mutation :: "open_mutation option"
  fs_operations :: "pystr \<rightharpoonup> operation_record"
  fs_references :: "evidence_reference list"
  fs_prospective_paths :: "pystr list"
  fs_causative_events :: "(pystr \<times> pystr \<times> int \<times> pystr) list"

text \<open>
  \<open>causative_events\<close> is read by key but also iterated, so it is kept as its items in insertion order.
\<close>

abbreviation causative :: "fold_state \<Rightarrow> pystr \<Rightarrow> (pystr \<times> int \<times> pystr) option" where
  "causative s \<equiv> map_of (fs_causative_events s)"

definition bootstrapped :: "fold_state \<Rightarrow> bool" where
  "bootstrapped s \<longleftrightarrow> fs_stage_start_bound s \<and> fs_policy_published s"

record incomplete_mutation =
  im_mutation_id :: pystr
  im_declaration_sequence :: int
  im_declaration :: mutation_declaration
  im_intended_transitions :: "intended_transition list"
  im_prior_event_id :: pystr
  im_applied_prefix_length :: nat

definition incomplete :: "fold_state \<Rightarrow> incomplete_mutation option" where
  "incomplete s =
     map_option (\<lambda>m. let declaration = om_declaration m in
       \<lparr>im_mutation_id = md_mutation_id declaration,
        im_declaration_sequence = om_declaration_sequence m,
        im_declaration = declaration,
        im_intended_transitions = md_transitions declaration,
        im_prior_event_id = md_prior_event_id declaration,
        im_applied_prefix_length = om_applied m\<rparr>) (fs_open_mutation s)"

section \<open>Record updates\<close>

definition require_prefix :: "'a list \<Rightarrow> 'a list \<Rightarrow> lifecycle_error + 'b \<Rightarrow> lifecycle_error + 'b" where
  "require_prefix before after k = raise_if (\<not> extends before after) EventChainBroken k"

lemma require_prefix_Inr [simp, result_simps]:
  "require_prefix before after k = Inr x \<longleftrightarrow> extends before after \<and> k = Inr x"
  by (simp add: require_prefix_def)

definition row_identity ::
  "provider_run_record \<Rightarrow> int \<times> provider_role \<times> pystr \<times> pystr option \<times> pystr \<times> pystr \<times> pystr \<times> pystr" where
  "row_identity row =
     (pr_sequence row, pr_role row, pr_provider row, pr_milestone_id row, pr_started_at row,
      pr_prompt_path row, pr_stdout_path row, pr_stderr_path row)"

text \<open>The row a change of \<open>provider_runs\<close> completes, if any.\<close>

definition completed_row ::
  "provider_run_record list \<Rightarrow> provider_run_record list \<Rightarrow> lifecycle_error + provider_run_record option" where
  "completed_row before after =
     (if length after = length before + 1 \<and> take (length before) after = before then
        (let new = last after in
         raise_if (before \<noteq> [] \<and> pr_sequence new \<le> pr_sequence (last before)) EventChainBroken
         (Inr (if pr_completed_at new \<noteq> None then Some new else None)))
      else if before \<noteq> [] \<and> length after = length before \<and> butlast after = butlast before
           \<and> pr_completed_at (last before) = None \<and> pr_completed_at (last after) \<noteq> None
           \<and> row_identity (last after) = row_identity (last before) then
        Inr (Some (last after))
      else Inl EventChainBroken)"

text \<open>\<open>row.prompt_path[: -len("prompt.md")]\<close> drops nine characters.\<close>

definition check_provider_completion ::
  "provider_run_record \<Rightarrow> evidence_reference list \<Rightarrow> lifecycle_error + unit" where
  "check_provider_completion row evidence =
     (let required = [pr_prompt_path row, pr_stdout_path row, pr_stderr_path row];
          paths = map er_path evidence in
      raise_if (\<not> unique paths) EventChainBroken
      (raise_if (list_ex (\<lambda>r. er_kind r \<noteq> EK_TRANSCRIPT) evidence) EventChainBroken
      (let extra = filter (\<lambda>p. p \<notin> set required) paths;
           stem = take (length (pr_prompt_path row) - 9) (pr_prompt_path row) in
       raise_if
         (\<not> set required \<subseteq> set paths \<or> list_ex (\<lambda>p. p \<noteq> stem @ lit ''last-message.md'') extra)
         EventChainBroken (Inr ()))))"

definition counter_value :: "run_record \<Rightarrow> record_field \<Rightarrow> int" where
  "counter_value r f =
     (case f of
        F_REVIEW_ATTEMPTS \<Rightarrow> rr_review_attempts r
      | F_SUCCESSFUL_REVIEW_ROUNDS \<Rightarrow> rr_successful_review_rounds r
      | F_PROVIDER_FAILURE_COUNT \<Rightarrow> rr_provider_failure_count r
      | F_CORRECTION_ROUND \<Rightarrow> rr_correction_round r
      | F_CLOSURE_ROUND \<Rightarrow> rr_closure_round r
      | _ \<Rightarrow> 0)"

definition assigned_counters :: "record_updates \<Rightarrow> record_field list" where
  "assigned_counters u = filter (\<lambda>f. f \<in> set (ru_assigned u)) COUNTER_FIELDS"

text \<open>\<open>RecordField(name)\<close>: the member of a wire value.\<close>

definition field_of_name :: "pystr \<Rightarrow> record_field option" where
  "field_of_name name = find (\<lambda>f. record_field_value f = name) all_record_field"

definition recovery_evidence :: "mutation_declaration option \<Rightarrow> recovery_command_evidence option" where
  "recovery_evidence declaration =
     (case declaration of
        None \<Rightarrow> None
      | Some d \<Rightarrow> (case md_evidence d of RecoveryCommandEvidence e \<Rightarrow> Some e | _ \<Rightarrow> None))"

definition budgets_of :: "recovery_command_evidence option \<Rightarrow> (pystr \<times> int) list" where
  "budgets_of recovery = (case recovery of None \<Rightarrow> [] | Some e \<Rightarrow> re_budgets_touched e)"

text \<open>One pass of the counter loop of \<open>_apply_record_update\<close>: True where it does not raise.\<close>

definition counter_update_ok :: "(pystr \<times> int) list \<Rightarrow> run_record \<Rightarrow> run_record \<Rightarrow> record_field \<Rightarrow> bool" where
  "counter_update_ok budgets before after member =
     (let old = counter_value before member; new = counter_value after member in
      case map_of budgets (record_field_value member) of
        Some delta \<Rightarrow> new = old + delta
      | None \<Rightarrow> member = F_REVIEW_ATTEMPTS \<and> new = old + 1)"

definition approvals_change_ok :: "approval_record list \<Rightarrow> approval_record list \<Rightarrow> bool" where
  "approvals_change_ok before after \<longleftrightarrow>
     length after = length before + 1 \<and> butlast after = before
     \<or> before \<noteq> [] \<and> length after = length before \<and> butlast after = butlast before
       \<and> ap_operation (last after) = ap_operation (last before)
       \<and> ap_granted_at (last after) = ap_granted_at (last before)"

definition transcript_declarations :: "pyenv \<Rightarrow> provider_run_record \<Rightarrow> bool" where
  "transcript_declarations E row \<longleftrightarrow>
     list_all (is_transcript_path E) [pr_prompt_path row, pr_stdout_path row, pr_stderr_path row]"

text \<open>
  The tail of \<open>_apply_record_update\<close>: the provider rows before and after, the payload's evidence, and
  the transcript paths the new row announces.
\<close>

definition provider_rows_update ::
  "pyenv \<Rightarrow> provider_run_record list \<Rightarrow> provider_run_record list \<Rightarrow> evidence_reference list \<Rightarrow>
     lifecycle_error + pystr list" where
  "provider_rows_update E before after evidence =
     (if after \<noteq> before then
        rbind (completed_row before after) (\<lambda>completed.
        let row = last after in
        raise_if (\<not> transcript_declarations E row) EventChainBroken
        (let prospective =
           (if pr_completed_at row = None then [pr_stdout_path row, pr_stderr_path row] else []) in
         case completed of
           Some r \<Rightarrow> rbind (check_provider_completion r evidence) (\<lambda>_. Inr prospective)
         | None \<Rightarrow> raise_if (evidence \<noteq> []) EventChainBroken (Inr prospective)))
      else raise_if (evidence \<noteq> []) EventChainBroken (Inr []))"

definition apply_record_update ::
  "pyenv \<Rightarrow> fold_state \<Rightarrow> record_updated \<Rightarrow> mutation_declaration option \<Rightarrow>
     lifecycle_error + run_record \<times> pystr list" where
  "apply_record_update E state payload declaration =
     (let record = fs_record state; updates = up_updates payload;
          budgets = budgets_of (recovery_evidence declaration);
          budget_fields = map_opt (\<lambda>(name, _). field_of_name name) budgets in
      raise_if (ru_assigned updates = []) EventChainBroken
      (raise_if (budget_fields = None) PyValueError
      (raise_if
         (list_ex (\<lambda>f. f \<notin> set RECORD_UPDATE_FIELDS \<and> f \<notin> set (the budget_fields)) (ru_assigned updates))
         EventChainBroken
      (raise_if (F_STOP_REASON \<in> set (ru_assigned updates) \<and> rr_workflow_state record \<noteq> PREFLIGHT)
         EventChainBroken
      (rbind (apply_updates E record updates None) (\<lambda>after.
       raise_if (\<not> list_all (counter_update_ok budgets record after) (assigned_counters updates)) EventChainBroken
       (require_prefix (rr_completed_milestones record) (rr_completed_milestones after)
       (require_prefix (rr_milestone_checkpoints record) (rr_milestone_checkpoints after)
       (require_prefix (rr_verification_results record) (rr_verification_results after)
       (require_prefix (rr_deferred_findings record) (rr_deferred_findings after)
       (raise_if
          (rr_approvals after \<noteq> rr_approvals record
           \<and> \<not> approvals_change_ok (rr_approvals record) (rr_approvals after)) EventChainBroken
       (rbind (provider_rows_update E (rr_provider_runs record) (rr_provider_runs after) (up_evidence payload))
         (\<lambda>prospective. Inr (after, prospective))))))))))))))"

section \<open>Transitions and ledgers\<close>

definition apply_transition ::
  "pyenv \<Rightarrow> fold_state \<Rightarrow> state_transitioned \<Rightarrow> lifecycle_error + run_record" where
  "apply_transition E state payload =
     (let record = fs_record state in
      raise_if (tr_from_state payload \<noteq> rr_workflow_state record) EventChainBroken
      (raise_if (\<not> allowed (tr_from_state payload) (tr_to_state payload)) EventChainBroken
      (raise_if
         (list_ex (\<lambda>f. f \<notin> set TRANSITION_UPDATE_FIELDS) (ru_assigned (tr_updates payload)))
         EventChainBroken
      (rbind (apply_updates E record (tr_updates payload) (Some (tr_to_state payload, tr_stop_reason payload)))
        (\<lambda>after.
         require_prefix (rr_completed_milestones record) (rr_completed_milestones after)
         (require_prefix (rr_milestone_checkpoints record) (rr_milestone_checkpoints after)
         (case tr_operation_id payload of
            None \<Rightarrow> Inr after
          | Some identifier \<Rightarrow>
              (case fs_operations state identifier of
                 None \<Rightarrow> Inl OperationRecordInvalid
               | Some view \<Rightarrow>
                   raise_if (op_persisted view = None) OperationRecordInvalid
                   (raise_if (causative state identifier \<noteq> None) OperationRecordConflict
                   (Inr after))))))))))"

fun ledger_of :: "recovery_ledger_name \<Rightarrow> run_record \<Rightarrow> recovery_ledger_entry list" where
  "ledger_of L_RECONCILIATIONS r = rr_reconciliations r"
| "ledger_of L_REOPENINGS r = rr_reopenings r"
| "ledger_of L_REVIEW_RECOVERIES r = rr_review_recoveries r"
| "ledger_of L_REVALIDATIONS r = rr_revalidations r"

fun set_ledger :: "recovery_ledger_name \<Rightarrow> recovery_ledger_entry list \<Rightarrow> run_record \<Rightarrow> run_record" where
  "set_ledger L_RECONCILIATIONS es r = r\<lparr>rr_reconciliations := es\<rparr>"
| "set_ledger L_REOPENINGS es r = r\<lparr>rr_reopenings := es\<rparr>"
| "set_ledger L_REVIEW_RECOVERIES es r = r\<lparr>rr_review_recoveries := es\<rparr>"
| "set_ledger L_REVALIDATIONS es r = r\<lparr>rr_revalidations := es\<rparr>"

definition apply_ledger ::
  "pyenv \<Rightarrow> fold_state \<Rightarrow> ledger_appended \<Rightarrow> mutation_declaration option \<Rightarrow> lifecycle_error + run_record" where
  "apply_ledger E state payload declaration =
     (case recovery_evidence declaration of
        None \<Rightarrow> Inl EventChainBroken
      | Some evidence \<Rightarrow>
          raise_if (la_entry payload \<noteq> re_entry evidence \<or> la_ledger payload \<noteq> re_ledger evidence) EventChainBroken
          (raise_if (ledger_by_command (rl_command (la_entry payload)) \<noteq> la_ledger payload) EventChainBroken
          (raise_if (integrity_digest E (dump_ledger_entry (la_entry payload)) \<noteq> la_entry_digest payload)
             EventChainBroken
          (let current = ledger_of (la_ledger payload) (fs_record state) in
           raise_if
             (la_previous_length payload \<noteq> int (length current)
              \<or> re_original_ledger_length evidence \<noteq> int (length current)) EventChainBroken
           (raise_if (la_entry payload \<in> set current) EventChainBroken
           (from_option EventChainBroken
              (validate_run_record E
                 (set_ledger (la_ledger payload) (current @ [la_entry payload]) (fs_record state)))))))))"

section \<open>Result persistence\<close>

definition result_evidence_of :: "mutation_declaration option \<Rightarrow> result_evidence option" where
  "result_evidence_of declaration =
     (case declaration of
        None \<Rightarrow> None
      | Some d \<Rightarrow> (case md_evidence d of ResultEvidence e \<Rightarrow> Some e | _ \<Rightarrow> None))"

text \<open>The checks on an accepted result before its updates are applied.\<close>

definition check_accepted :: "result_evidence \<Rightarrow> operation_record \<Rightarrow> result_accepted \<Rightarrow> lifecycle_error + unit" where
  "check_accepted evidence view payload =
     (let latest = last_opt (op_attempts view) in
      raise_if (rv_disposition evidence \<noteq> ACCEPTED) EventChainBroken
      (raise_if (case latest of None \<Rightarrow> True | Some a \<Rightarrow> at_verdict a \<noteq> Some VALID) OperationRecordInvalid
      (raise_if (case latest of None \<Rightarrow> True
                 | Some a \<Rightarrow> at_validated_sha256 a \<noteq> Some (ra_accepted_result_sha256 payload))
         OperationRecordInvalid
      (raise_if (list_ex (\<lambda>f. f \<notin> set ACCEPTED_FIELDS) (ru_assigned (ra_updates payload))) EventChainBroken
      (Inr ())))))"

definition check_rejected :: "result_evidence \<Rightarrow> operation_record \<Rightarrow> result_rejected \<Rightarrow> lifecycle_error + unit" where
  "check_rejected evidence view payload =
     (let latest = last_opt (op_attempts view) in
      raise_if (rv_disposition evidence \<noteq> REJECTED) EventChainBroken
      (raise_if
         (case rj_source payload of
            VALIDATION \<Rightarrow>
              (case latest of None \<Rightarrow> True
               | Some a \<Rightarrow> at_validated_sha256 a = None \<or> at_validated_sha256 a \<noteq> rj_verdict_sha256 payload)
          | PRE_SPAWN_FAILURE \<Rightarrow>
              (case latest of None \<Rightarrow> True
               | Some a \<Rightarrow> at_pre_spawn_failure_sha256 a \<noteq> rj_verdict_sha256 payload)
          | DISPATCH_REFUSED \<Rightarrow>
              (case latest of None \<Rightarrow> False
               | Some a \<Rightarrow> at_receipt_sha256 a \<noteq> None \<or> at_pre_spawn_failure_sha256 a \<noteq> None
                   \<or> at_raw_result_sha256 a \<noteq> None))
         OperationRecordInvalid
      (raise_if (list_ex (\<lambda>f. f \<notin> set REJECTED_FIELDS) (ru_assigned (rj_updates payload))) EventChainBroken
      (Inr ()))))"

definition persist_operation :: "operation_record \<Rightarrow> persistence_kind \<Rightarrow> pystr option \<Rightarrow> operation_record" where
  "persist_operation view kind verdict_sha =
     view\<lparr>op_persisted := Some kind, op_persisted_verdict_sha256 := verdict_sha,
          op_highest_phase := PH_RESULT_PERSISTED\<rparr>"

definition counters_move_by_one :: "record_updates \<Rightarrow> run_record \<Rightarrow> run_record \<Rightarrow> bool" where
  "counters_move_by_one updates before after \<longleftrightarrow>
     list_all (\<lambda>m. counter_value after m - counter_value before m = 1) (assigned_counters updates)"

text \<open>What both persistence payloads share: the declared result and the unpersisted operation.\<close>

definition persistence_view ::
  "fold_state \<Rightarrow> pystr \<Rightarrow> mutation_declaration option \<Rightarrow> lifecycle_error + result_evidence \<times> operation_record" where
  "persistence_view state identifier declaration =
     (case result_evidence_of declaration of
        None \<Rightarrow> Inl EventChainBroken
      | Some evidence \<Rightarrow>
          raise_if (rv_operation_id evidence \<noteq> identifier) EventChainBroken
          (case fs_operations state identifier of
             None \<Rightarrow> Inl OperationRecordInvalid
           | Some view \<Rightarrow>
               raise_if (op_persisted view \<noteq> None) OperationRecordConflict (Inr (evidence, view))))"

definition apply_accepted ::
  "pyenv \<Rightarrow> fold_state \<Rightarrow> result_accepted \<Rightarrow> mutation_declaration option \<Rightarrow>
     lifecycle_error + run_record \<times> (pystr \<rightharpoonup> operation_record)" where
  "apply_accepted E state payload declaration =
     rbind (persistence_view state (ra_operation_id payload) declaration) (\<lambda>(evidence, view).
     rbind (check_accepted evidence view payload) (\<lambda>_.
     rbind (apply_updates E (fs_record state) (ra_updates payload) None) (\<lambda>after.
     raise_if (\<not> counters_move_by_one (ra_updates payload) (fs_record state) after) EventChainBroken
     (Inr (after,
           (fs_operations state)(ra_operation_id payload \<mapsto>
              persist_operation view ACCEPTED (Some (ra_accepted_result_sha256 payload))))))))"

definition apply_rejected ::
  "pyenv \<Rightarrow> fold_state \<Rightarrow> result_rejected \<Rightarrow> mutation_declaration option \<Rightarrow>
     lifecycle_error + run_record \<times> (pystr \<rightharpoonup> operation_record)" where
  "apply_rejected E state payload declaration =
     rbind (persistence_view state (rj_operation_id payload) declaration) (\<lambda>(evidence, view).
     rbind (check_rejected evidence view payload) (\<lambda>_.
     rbind (apply_updates E (fs_record state) (rj_updates payload) None) (\<lambda>after.
     raise_if (\<not> counters_move_by_one (rj_updates payload) (fs_record state) after) EventChainBroken
     (raise_if (rr_successful_review_rounds after \<noteq> rr_successful_review_rounds (fs_record state))
        EventChainBroken
     (Inr (after,
           (fs_operations state)(rj_operation_id payload \<mapsto>
              persist_operation view REJECTED (rj_verdict_sha256 payload))))))))"

end
