(* ===== verification/Lifecycle_Replay.thy ===== *)
theory Lifecycle_Replay
  imports Lifecycle_Fold
begin

text \<open>
  The second half of the pure fold of \<open>milestone_runner/events.py\<close>: operation evidence
  (\<open>_apply_operation\<close>), the rules a mutation declaration answers to before it is published
  (\<open>_validate_declaration\<close> and its two helpers), the genesis of a chain, \<open>fold_step\<close>, \<open>fold\<close>, and the
  two comparisons of a fold with files beside the chain (\<open>check_witness\<close>, \<open>projection_status\<close>).
\<close>

section \<open>Operation evidence\<close>

definition require_reference :: "evidence_reference \<Rightarrow> evidence_kind \<Rightarrow> pystr \<Rightarrow> lifecycle_error + unit" where
  "require_reference reference kind path =
     raise_if (er_kind reference \<noteq> kind \<or> er_path reference \<noteq> path) OperationRecordInvalid (Inr ())"

definition new_operation :: "request_created \<Rightarrow> operation_record" where
  "new_operation p =
     \<lparr>op_operation_id = qc_operation_id p, op_step = qc_step p,
      op_request_sha256 = er_sha256 (qc_request p), op_adapter = qc_adapter p,
      op_role = st_role (qc_step p), op_milestone_id = step_milestone_id (qc_step p),
      op_attempts = [], op_fingerprint_sha256 = None, op_persisted = None,
      op_persisted_verdict_sha256 = None, op_transition_event_id = None,
      op_transition_state_version = None, op_highest_phase = PH_REQUEST_CREATED\<rparr>"

definition new_attempt :: "int \<Rightarrow> pystr \<Rightarrow> attempt_record" where
  "new_attempt attempt intent =
     \<lparr>at_attempt = attempt, at_intent_sha256 = intent, at_receipt_sha256 = None,
      at_pre_spawn_failure_sha256 = None, at_raw_result_sha256 = None,
      at_validated_sha256 = None, at_verdict = None\<rparr>"

text \<open>The operation and attempt an attempt payload names; \<open>None\<close> for every other payload.\<close>

fun attempt_of :: "event_payload \<Rightarrow> (pystr \<times> int) option" where
  "attempt_of (OperationDispatchIntent a) = Some (ae_operation_id a, ae_attempt a)"
| "attempt_of (OperationDispatchReceived a) = Some (ae_operation_id a, ae_attempt a)"
| "attempt_of (OperationPreSpawnFailed a) = Some (ae_operation_id a, ae_attempt a)"
| "attempt_of (OperationResultReceived p) = Some (rc_operation_id p, rc_attempt p)"
| "attempt_of (OperationResultValidated p) = Some (rvd_operation_id p, rvd_attempt p)"
| "attempt_of _ = None"

definition expect_artifact ::
  "evidence_reference \<Rightarrow> evidence_kind \<Rightarrow> pystr \<Rightarrow> artifact_name \<Rightarrow> int option \<Rightarrow> lifecycle_error + unit" where
  "expect_artifact reference kind identifier name attempt =
     rbind (operation_artifact_path identifier name attempt) (require_reference reference kind)"

definition intent_step ::
  "pystr \<Rightarrow> attempt_record list \<Rightarrow> attempt_evidence \<Rightarrow>
     lifecycle_error + attempt_record list \<times> operation_phase \<times> evidence_reference list" where
  "intent_step identifier attempts p =
     (let attempt = ae_attempt p in
      raise_if (attempt \<noteq> int (length attempts) + 1) OperationRecordConflict
      (raise_if
         (case last_opt attempts of None \<Rightarrow> False | Some l \<Rightarrow> at_pre_spawn_failure_sha256 l = None)
         OperationRecordConflict
      (rbind (expect_artifact (ae_reference p) EK_DISPATCH_INTENT identifier DISPATCH_INTENT_FILE_NAME (Some attempt))
        (\<lambda>_. Inr (attempts @ [new_attempt attempt (er_sha256 (ae_reference p))], PH_DISPATCH_INTENT,
                  [ae_reference p])))))"

text \<open>The four payloads that complete the last attempt.\<close>

fun complete_attempt ::
  "pystr \<Rightarrow> operation_phase \<Rightarrow> attempt_record \<Rightarrow> event_payload \<Rightarrow>
     lifecycle_error + attempt_record \<times> operation_phase \<times> evidence_reference list" where
  "complete_attempt identifier phase l (OperationDispatchReceived p) =
     raise_if (at_receipt_sha256 l \<noteq> None \<or> at_pre_spawn_failure_sha256 l \<noteq> None) OperationRecordConflict
     (rbind (expect_artifact (ae_reference p) EK_DISPATCH_RECEIPT identifier DISPATCH_RECEIPT_FILE_NAME (Some (ae_attempt p)))
       (\<lambda>_. Inr (l\<lparr>at_receipt_sha256 := Some (er_sha256 (ae_reference p))\<rparr>, PH_DISPATCH_RECEIPT, [ae_reference p])))"
| "complete_attempt identifier phase l (OperationPreSpawnFailed p) =
     raise_if (at_receipt_sha256 l \<noteq> None \<or> at_pre_spawn_failure_sha256 l \<noteq> None) OperationRecordConflict
     (rbind (expect_artifact (ae_reference p) EK_PRE_SPAWN_FAILURE identifier PRE_SPAWN_FAILED_FILE_NAME (Some (ae_attempt p)))
       (\<lambda>_. Inr (l\<lparr>at_pre_spawn_failure_sha256 := Some (er_sha256 (ae_reference p))\<rparr>, phase, [ae_reference p])))"
| "complete_attempt identifier phase l (OperationResultReceived p) =
     raise_if (at_receipt_sha256 l = None \<or> at_raw_result_sha256 l \<noteq> None) OperationRecordInvalid
     (rbind (expect_artifact (rc_raw_result p) EK_RAW_RESULT identifier RAW_RESULT_FILE_NAME (Some (rc_attempt p)))
       (\<lambda>_. raise_if (list_ex (\<lambda>r. er_kind r \<noteq> EK_TRANSCRIPT) (rc_transcripts p)) OperationRecordInvalid
         (Inr (l\<lparr>at_raw_result_sha256 := Some (er_sha256 (rc_raw_result p))\<rparr>, PH_RESULT_RECEIVED,
               rc_raw_result p # rc_transcripts p))))"
| "complete_attempt identifier phase l (OperationResultValidated p) =
     raise_if (at_raw_result_sha256 l = None \<or> at_validated_sha256 l \<noteq> None) OperationRecordInvalid
     (rbind (expect_artifact (rvd_validated p) EK_VALIDATED_RESULT identifier VALIDATED_RESULT_FILE_NAME (Some (rvd_attempt p)))
       (\<lambda>_. Inr (l\<lparr>at_validated_sha256 := Some (er_sha256 (rvd_validated p)), at_verdict := Some (rvd_verdict p)\<rparr>,
                 PH_RESULT_VALIDATED, [rvd_validated p])))"
| "complete_attempt identifier phase l _ = Inl PyAssertionError"

definition attempt_step ::
  "pystr \<Rightarrow> int \<Rightarrow> operation_record \<Rightarrow> event_payload \<Rightarrow>
     lifecycle_error + attempt_record list \<times> operation_phase \<times> evidence_reference list" where
  "attempt_step identifier attempt view payload =
     (let attempts = op_attempts view in
      case payload of
        OperationDispatchIntent p \<Rightarrow> intent_step identifier attempts p
      | _ \<Rightarrow>
          (case last_opt attempts of
             None \<Rightarrow> Inl OperationRecordInvalid
           | Some l \<Rightarrow>
               raise_if (at_attempt l \<noteq> attempt) OperationRecordInvalid
               (rbind (complete_attempt identifier (op_highest_phase view) l payload) (\<lambda>(l', phase, refs).
                Inr (butlast attempts @ [l'], phase, refs)))))"

definition apply_operation ::
  "pyenv \<Rightarrow> fold_state \<Rightarrow> event_payload \<Rightarrow>
     lifecycle_error + (pystr \<rightharpoonup> operation_record) \<times> evidence_reference list" where
  "apply_operation E state payload =
     (case payload of
        OperationRequestCreated p \<Rightarrow>
          rbind (operation_id E (pn_run_id (fs_pins state)) (qc_step p)) (\<lambda>derived.
          raise_if (derived \<noteq> qc_operation_id p) OperationRecordInvalid
          (raise_if (fs_operations state (qc_operation_id p) \<noteq> None) OperationRecordConflict
          (rbind (expect_artifact (qc_request p) EK_OPERATION_REQUEST (qc_operation_id p) REQUEST_FILE_NAME None)
            (\<lambda>_. Inr ((fs_operations state)(qc_operation_id p \<mapsto> new_operation p), [qc_request p])))))
      | _ \<Rightarrow>
          (case attempt_of payload of
             None \<Rightarrow> Inl PyAssertionError
           | Some (identifier, attempt) \<Rightarrow>
               (case fs_operations state identifier of
                  None \<Rightarrow> Inl OperationRecordInvalid
                | Some view \<Rightarrow>
                    raise_if (op_persisted view \<noteq> None) OperationRecordConflict
                    (rbind (attempt_step identifier attempt view payload) (\<lambda>(attempts, phase, refs).
                     Inr ((fs_operations state)(identifier \<mapsto>
                            view\<lparr>op_attempts := attempts, op_highest_phase := phase\<rparr>), refs))))))"

section \<open>Declarations against the tip\<close>

fun constituent_updates :: "constituent_payload \<Rightarrow> record_updates option" where
  "constituent_updates (RunRecordUpdated p) = Some (up_updates p)"
| "constituent_updates (RecoveryLedgerAppended p) = None"
| "constituent_updates (OperationResultAccepted p) = Some (ra_updates p)"
| "constituent_updates (OperationResultRejected p) = Some (rj_updates p)"
| "constituent_updates (StateTransitioned p) = Some (tr_updates p)"

fun persisted_operation :: "constituent_payload \<Rightarrow> pystr option" where
  "persisted_operation (OperationResultAccepted p) = Some (ra_operation_id p)"
| "persisted_operation (OperationResultRejected p) = Some (rj_operation_id p)"
| "persisted_operation _ = None"

definition updated_counter :: "record_updates \<Rightarrow> record_field \<Rightarrow> int option" where
  "updated_counter u f =
     (case f of
        F_REVIEW_ATTEMPTS \<Rightarrow> ru_review_attempts u
      | F_SUCCESSFUL_REVIEW_ROUNDS \<Rightarrow> ru_successful_review_rounds u
      | F_PROVIDER_FAILURE_COUNT \<Rightarrow> ru_provider_failure_count u
      | F_CORRECTION_ROUND \<Rightarrow> ru_correction_round u
      | F_CLOSURE_ROUND \<Rightarrow> ru_closure_round u
      | _ \<Rightarrow> None)"

text \<open>One pass of the constituent loop: the counter values and how often each was assigned.\<close>

definition budget_pass ::
  "(record_field \<Rightarrow> int) \<times> (record_field \<Rightarrow> nat) \<Rightarrow> manifest_constituent \<Rightarrow>
     lifecycle_error + (record_field \<Rightarrow> int) \<times> (record_field \<Rightarrow> nat)" where
  "budget_pass acc c =
     (case constituent_updates (mc_payload c) of
        None \<Rightarrow> Inr acc
      | Some updates \<Rightarrow>
          let members = assigned_counters updates in
          raise_if (list_ex (\<lambda>m. updated_counter updates m = None) members) PyAssertionError
          (Inr (\<lambda>m. if m \<in> set members then the (updated_counter updates m) else fst acc m,
                \<lambda>m. if m \<in> set members then snd acc m + 1 else snd acc m)))"

definition budget_delta :: "(pystr \<times> int) list \<Rightarrow> record_field \<Rightarrow> int" where
  "budget_delta budgets member =
     (case map_of budgets (record_field_value member) of None \<Rightarrow> 0 | Some d \<Rightarrow> d)"

definition validate_budget_effects ::
  "run_record \<Rightarrow> mutation_declaration \<Rightarrow> recovery_command_evidence \<Rightarrow> lifecycle_error + unit" where
  "validate_budget_effects prior declaration evidence =
     (let budgets = re_budgets_touched evidence in
      raise_if (list_ex (\<lambda>(name, _). name \<notin> set (map record_field_value COUNTER_FIELDS)) budgets)
        EventChainBroken
      (rbind (rfold budget_pass (counter_value prior, \<lambda>_. 0) (md_constituents declaration))
        (\<lambda>(values, assigned).
         raise_if
           (list_ex
              (\<lambda>member. let delta = budget_delta budgets member in
                 assigned member > 1 \<or> delta = 0 \<and> assigned member \<noteq> 0
                 \<or> delta \<noteq> 0 \<and> assigned member = 0
                 \<or> values member \<noteq> counter_value prior member + delta) COUNTER_FIELDS)
           EventChainBroken (Inr ()))))"

text \<open>The one artifact a persistence rests on: its reference against the last attempt.\<close>

definition verdict_reference_ok ::
  "pystr \<Rightarrow> evidence_reference option \<Rightarrow> attempt_record option \<Rightarrow> evidence_kind \<Rightarrow> artifact_name \<Rightarrow>
     pystr option \<Rightarrow> pystr option \<Rightarrow> lifecycle_error + unit" where
  "verdict_reference_ok identifier reference latest kind name persisted_sha digest =
     (case (reference, latest) of
        (Some r, Some a) \<Rightarrow>
          raise_if (er_kind r \<noteq> kind) OperationRecordInvalid
          (rbind (operation_artifact_path identifier name (Some (at_attempt a))) (\<lambda>path.
           raise_if
             (er_path r \<noteq> path \<or> Some (er_sha256 r) \<noteq> persisted_sha \<or> Some (er_sha256 r) \<noteq> digest)
             OperationRecordInvalid (Inr ())))
      | _ \<Rightarrow> Inl OperationRecordInvalid)"

definition validate_result_evidence ::
  "fold_state \<Rightarrow> result_evidence \<Rightarrow> constituent_payload \<Rightarrow> lifecycle_error + unit" where
  "validate_result_evidence state evidence persisted =
     (let identifier = rv_operation_id evidence; reference = rv_verdict evidence in
      case fs_operations state identifier of
        None \<Rightarrow> Inl OperationRecordInvalid
      | Some view \<Rightarrow>
          (let latest = last_opt (op_attempts view) in
           case persisted of
             OperationResultAccepted p \<Rightarrow>
               rbind (verdict_reference_ok identifier reference latest EK_VALIDATED_RESULT
                        VALIDATED_RESULT_FILE_NAME (Some (ra_accepted_result_sha256 p))
                        (Option.bind latest at_validated_sha256))
                 (\<lambda>_. raise_if (Option.bind latest at_verdict \<noteq> Some VALID) OperationRecordInvalid (Inr ()))
           | OperationResultRejected p \<Rightarrow>
               (case rj_source p of
                  DISPATCH_REFUSED \<Rightarrow> raise_if (reference \<noteq> None) OperationRecordInvalid (Inr ())
                | VALIDATION \<Rightarrow>
                    verdict_reference_ok identifier reference latest EK_VALIDATED_RESULT
                      VALIDATED_RESULT_FILE_NAME (rj_verdict_sha256 p) (Option.bind latest at_validated_sha256)
                | PRE_SPAWN_FAILURE \<Rightarrow>
                    verdict_reference_ok identifier reference latest EK_PRE_SPAWN_FAILURE
                      PRE_SPAWN_FAILED_FILE_NAME (rj_verdict_sha256 p)
                      (Option.bind latest at_pre_spawn_failure_sha256))
           | _ \<Rightarrow> Inl PyAssertionError))"

definition validate_recovery_declaration ::
  "fold_state \<Rightarrow> mutation_declaration \<Rightarrow> recovery_command_evidence \<Rightarrow> nat \<Rightarrow> constituent_payload list \<Rightarrow>
     lifecycle_error + unit" where
  "validate_recovery_declaration state declaration evidence ledgers persisted =
     raise_if (md_action declaration \<noteq> RECOVERY_COMMAND \<or> ledgers \<noteq> 1 \<or> persisted \<noteq> []) EventChainBroken
     (raise_if
        (rl_command (re_entry evidence) \<noteq> re_command evidence
         \<or> ledger_by_command (re_command evidence) \<noteq> re_ledger evidence) EventChainBroken
     (raise_if (re_budgets_touched evidence \<noteq> rl_budgets_touched (re_entry evidence)) EventChainBroken
     (raise_if
        (case md_transitions declaration of
           [t] \<Rightarrow> (it_from_state t, it_to_state t)
                   \<noteq> (rl_pre_state (re_entry evidence), rl_post_state (re_entry evidence))
         | _ \<Rightarrow> True) EventChainBroken
     (validate_budget_effects (fs_record state) declaration evidence))))"

definition validate_result_declaration ::
  "fold_state \<Rightarrow> mutation_declaration \<Rightarrow> result_evidence \<Rightarrow> nat \<Rightarrow> constituent_payload list \<Rightarrow>
     lifecycle_error + unit" where
  "validate_result_declaration state declaration evidence ledgers persisted =
     (let expected = (if rv_disposition evidence = ACCEPTED then RESULT_ACCEPTANCE else RESULT_REJECTION) in
      case persisted of
        [p] \<Rightarrow>
          raise_if (md_action declaration \<noteq> expected \<or> ledgers \<noteq> 0) EventChainBroken
          (raise_if (persisted_operation p \<noteq> Some (rv_operation_id evidence)) EventChainBroken
          (validate_result_evidence state evidence p))
      | _ \<Rightarrow> Inl EventChainBroken)"

definition validate_declaration ::
  "pyenv \<Rightarrow> fold_state \<Rightarrow> lifecycle_event \<Rightarrow> mutation_declaration \<Rightarrow> lifecycle_error + unit" where
  "validate_declaration E state event declaration =
     raise_if (md_pins declaration \<noteq> fs_pins state) EventChainBroken
     (raise_if
        (md_prior_event_id declaration \<noteq> fs_event_id state
         \<or> md_prior_sequence declaration \<noteq> fs_sequence state
         \<or> md_prior_body_digest declaration \<noteq> fs_body_digest state) EventChainBroken
     (raise_if (md_initiated_at declaration \<noteq> le_recorded_at event) EventChainBroken
     (let types = map mc_event_type (md_constituents declaration) in
      raise_if (list_ex (\<lambda>t. t \<notin> set CONSTITUENT_TYPES) types) EventChainBroken
      (let ledgers = count_list types RECOVERY_LEDGER_APPENDED;
           persisted = filter (\<lambda>p. persisted_operation p \<noteq> None)
                         (map mc_payload (md_constituents declaration)) in
       rbind
         (case md_evidence declaration of
            RecoveryCommandEvidence e \<Rightarrow> validate_recovery_declaration state declaration e ledgers persisted
          | ResultEvidence e \<Rightarrow> validate_result_declaration state declaration e ledgers persisted
          | ApplicationStepEvidence _ \<Rightarrow>
              raise_if (md_action declaration \<noteq> APPLICATION_STEP \<or> ledgers \<noteq> 0 \<or> persisted \<noteq> [])
                EventChainBroken (Inr ()))
         (\<lambda>_. raise_if (length (integrity_bytes (dump_event event)) > MAX_LIFECYCLE_DOCUMENT_BYTES)
                EventChainBroken (Inr ()))))))"

section \<open>The fold\<close>

definition genesis_record :: "event_payload \<Rightarrow> run_record option" where
  "genesis_record payload =
     (case payload of RunInitialized record \<Rightarrow> Some record | RunBaselined p \<Rightarrow> Some (rb_record p) | _ \<Rightarrow> None)"

definition genesis_step ::
  "pyenv \<Rightarrow> lifecycle_event \<Rightarrow> pystr \<Rightarrow> operation_pins option \<Rightarrow> lifecycle_error + fold_state" where
  "genesis_step E event event_sha256 expected =
     raise_if (le_sequence event \<noteq> 1 \<or> le_event_type event \<notin> set GENESIS_TYPES) EventChainBroken
     (raise_if (le_mutation_id event \<noteq> None) EventChainBroken
     (rbind (from_option PyAssertionError (genesis_record (le_payload event))) (\<lambda>record.
      let pins = le_pins event in
      raise_if (expected \<noteq> None \<and> expected \<noteq> Some pins) EventChainBroken
      (raise_if
         (rr_run_id record \<noteq> pn_run_id pins
          \<or> rr_repository_identity record \<noteq> pn_repository_identity pins
          \<or> rr_contract_sha256 record \<noteq> pn_contract_sha256 pins
          \<or> rr_policy_digest record \<noteq> Some (pn_policy_digest pins)
          \<or> rr_stage_start_id record \<noteq> Some (pn_stage_start_id pins)) EventChainBroken
      (raise_if
         ((case le_payload event of RunInitialized _ \<Rightarrow> True | _ \<Rightarrow> False)
          \<and> rr_workflow_state record \<noteq> IDLE) EventChainBroken
      (Inr \<lparr>fs_pins = pins, fs_record = record, fs_body_digest = body_digest E record,
            fs_sequence = 1, fs_event_id = le_event_id event, fs_event_sha256 = event_sha256,
            fs_genesis = le_event_type event, fs_prev_event_digest = None,
            fs_stage_start_bound = False, fs_policy_published = False, fs_open_mutation = None,
            fs_operations = Map.empty, fs_references = [], fs_prospective_paths = [],
            fs_causative_events = []\<rparr>))))))"

text \<open>The open-mutation gate: while a declaration is incomplete, only its next constituent follows.\<close>

definition expected_constituent ::
  "open_mutation \<Rightarrow> lifecycle_event \<Rightarrow> lifecycle_error + unit" where
  "expected_constituent m event =
     (let declaration = om_declaration m in
      case nth_opt (md_constituents declaration) (om_applied m) of
        None \<Rightarrow> Inl PyIndexError
      | Some c \<Rightarrow>
          raise_if
            (le_mutation_id event \<noteq> Some (md_mutation_id declaration)
             \<or> le_mutation_index event \<noteq> Some (mc_index c)
             \<or> le_event_type event \<noteq> mc_event_type c
             \<or> le_recorded_at event \<noteq> mc_recorded_at c
             \<or> le_sequence event \<noteq> mc_sequence c
             \<or> dump_payload (le_payload event) \<noteq> dump_payload (Constituent (mc_payload c)))
            EventChainBroken (Inr ()))"

definition open_declaration :: "fold_state \<Rightarrow> mutation_declaration option" where
  "open_declaration state = map_option om_declaration (fs_open_mutation state)"

definition admit_event :: "fold_state \<Rightarrow> lifecycle_event \<Rightarrow> lifecycle_error + unit" where
  "admit_event state event =
     raise_if (le_pins event \<noteq> fs_pins state) EventChainBroken
     (raise_if (le_sequence event \<noteq> fs_sequence state + 1) EventChainBroken
     (raise_if (le_prev_event_digest event \<noteq> Some (fs_event_sha256 state)) EventChainBroken
     (raise_if (le_event_type event \<in> set GENESIS_TYPES) EventChainBroken
     (rbind
        (case fs_open_mutation state of
           Some m \<Rightarrow> expected_constituent m event
         | None \<Rightarrow> raise_if (le_mutation_id event \<noteq> None) EventChainBroken (Inr ()))
        (\<lambda>_.
         raise_if
           (\<not> bootstrapped state
            \<and> le_event_type event
                \<noteq> (if \<not> fs_stage_start_bound state then STAGE_START_BOUND else POLICY_PUBLISHED))
           EventChainBroken
         (raise_if
            (le_event_type event \<in> set DECLARED_ONLY_TYPES \<and> open_declaration state = None)
            EventChainBroken (Inr ())))))))"

definition stage_start_reference_ok :: "fold_state \<Rightarrow> evidence_reference \<times> evidence_kind \<Rightarrow> bool" where
  "stage_start_reference_ok state = (\<lambda>(reference, kind).
     er_kind reference = kind
     \<and> Some (er_path reference) = stage_start_reference_path kind (pn_stage_start_id (fs_pins state)))"

text \<open>A caused transition marks its operation and is remembered as the operation's cause.\<close>

definition mark_caused :: "lifecycle_event \<Rightarrow> pystr \<Rightarrow> pystr option \<Rightarrow> fold_state \<Rightarrow> lifecycle_error + fold_state" where
  "mark_caused event event_sha256 identifier state =
     (case identifier of
        None \<Rightarrow> Inr state
      | Some i \<Rightarrow>
          (case fs_operations state i of
             None \<Rightarrow> Inl PyIndexError
           | Some view \<Rightarrow>
               Inr (state\<lparr>fs_operations := (fs_operations state)(i \<mapsto>
                            view\<lparr>op_transition_event_id := Some (le_event_id event),
                                 op_transition_state_version := Some (le_state_version event),
                                 op_highest_phase := PH_TRANSITION_APPLIED\<rparr>),
                          fs_causative_events := AList.update i
                            (le_event_id event, le_state_version event, event_sha256)
                            (fs_causative_events state)\<rparr>)))"

text \<open>The dispatch on the payload: the state with everything the payload itself changes.\<close>

definition payload_effect ::
  "pyenv \<Rightarrow> fold_state \<Rightarrow> lifecycle_event \<Rightarrow> pystr \<Rightarrow> lifecycle_error + fold_state" where
  "payload_effect E state event event_sha256 =
     (let declaration = open_declaration state in
      case le_payload event of
        StageStartBound p \<Rightarrow>
          raise_if (fs_stage_start_bound state) EventChainBroken
          (raise_if
             (\<not> list_all (stage_start_reference_ok state)
                  [(ss_authorization p, EK_STAGE_START_AUTHORIZATION),
                   (ss_binding p, EK_STAGE_START_BINDING), (ss_witness p, EK_STAGE_START_WITNESS)])
             EventChainBroken
          (Inr (state\<lparr>fs_references := fs_references state @ [ss_authorization p, ss_binding p, ss_witness p],
                      fs_stage_start_bound := True\<rparr>)))
      | PolicyPublished policy \<Rightarrow>
          raise_if (fs_policy_published state \<or> er_kind policy \<noteq> EK_POLICY) EventChainBroken
          (Inr (state\<lparr>fs_references := fs_references state @ [policy], fs_policy_published := True\<rparr>))
      | ApplicationMutationDeclared d \<Rightarrow>
          raise_if (fs_open_mutation state \<noteq> None) EventChainBroken
          (rbind (validate_declaration E state event d) (\<lambda>_.
           Inr (state\<lparr>fs_open_mutation := Some
                  \<lparr>om_declaration = d, om_declaration_sequence = le_sequence event, om_applied = 0\<rparr>\<rparr>)))
      | Constituent (RunRecordUpdated p) \<Rightarrow>
          rbind (apply_record_update E state p declaration) (\<lambda>(after, prospective).
          Inr (state\<lparr>fs_record := after, fs_references := fs_references state @ up_evidence p,
                     fs_prospective_paths := prospective\<rparr>))
      | Constituent (RecoveryLedgerAppended p) \<Rightarrow>
          rbind (apply_ledger E state p declaration) (\<lambda>after. Inr (state\<lparr>fs_record := after\<rparr>))
      | Constituent (OperationResultAccepted p) \<Rightarrow>
          rbind (apply_accepted E state p declaration) (\<lambda>(after, operations).
          Inr (state\<lparr>fs_record := after, fs_operations := operations\<rparr>))
      | Constituent (OperationResultRejected p) \<Rightarrow>
          rbind (apply_rejected E state p declaration) (\<lambda>(after, operations).
          Inr (state\<lparr>fs_record := after, fs_operations := operations\<rparr>))
      | Constituent (StateTransitioned p) \<Rightarrow>
          rbind (apply_transition E state p) (\<lambda>after.
          mark_caused event event_sha256 (tr_operation_id p) (state\<lparr>fs_record := after\<rparr>))
      | payload \<Rightarrow>
          rbind (apply_operation E state payload) (\<lambda>(operations, refs).
          Inr (state\<lparr>fs_operations := operations, fs_references := fs_references state @ refs\<rparr>)))"

definition next_digest :: "pyenv \<Rightarrow> fold_state \<Rightarrow> event_payload \<Rightarrow> run_record \<Rightarrow> lifecycle_error + pystr" where
  "next_digest E state payload record =
     (case payload of
        Constituent change \<Rightarrow>
          raise_if (before_body_digest change \<noteq> fs_body_digest state) EventChainBroken
          (let digest = body_digest E record in
           raise_if (after_body_digest change \<noteq> digest) EventChainBroken (Inr digest))
      | _ \<Rightarrow> Inr (fs_body_digest state))"

text \<open>\<open>changed\<close> is the mutation this event itself opened, if any.\<close>

definition advance_mutation :: "open_mutation option \<Rightarrow> open_mutation option \<Rightarrow> open_mutation option" where
  "advance_mutation before changed =
     (case before of
        None \<Rightarrow> changed
      | Some m \<Rightarrow>
          (let applied = om_applied m + 1 in
           if applied = length (md_constituents (om_declaration m)) then None
           else Some (m\<lparr>om_applied := applied\<rparr>)))"

definition fold_step ::
  "pyenv \<Rightarrow> operation_pins option \<Rightarrow> fold_state option \<Rightarrow> lifecycle_event \<times> pystr \<Rightarrow> lifecycle_error + fold_state" where
  "fold_step E expected state_opt item =
     (let (event, event_sha256) = item in
      case state_opt of
        None \<Rightarrow> genesis_step E event event_sha256 expected
      | Some state \<Rightarrow>
          rbind (admit_event state event) (\<lambda>_.
          rbind (payload_effect E state event event_sha256) (\<lambda>effect.
          rbind (next_digest E state (le_payload event) (fs_record effect)) (\<lambda>digest.
          Inr (effect\<lparr>fs_body_digest := digest, fs_sequence := le_sequence event,
                      fs_event_id := le_event_id event, fs_event_sha256 := event_sha256,
                      fs_prev_event_digest := le_prev_event_digest event,
                      fs_open_mutation :=
                        advance_mutation (fs_open_mutation state) (fs_open_mutation effect)\<rparr>)))))"

definition fold_loop ::
  "pyenv \<Rightarrow> operation_pins option \<Rightarrow> fold_state option \<Rightarrow> (lifecycle_event \<times> pystr) list \<Rightarrow>
     lifecycle_error + fold_state option" where
  "fold_loop E expected =
     rfold (\<lambda>state item. rbind (fold_step E expected state item) (\<lambda>s. Inr (Some s)))"

definition fold_chain ::
  "pyenv \<Rightarrow> operation_pins option \<Rightarrow> (lifecycle_event \<times> pystr) list \<Rightarrow> lifecycle_error + fold_state" where
  "fold_chain E expected events =
     rbind (fold_loop E expected None events) (\<lambda>state. from_option EventChainBroken state)"

section \<open>The files beside the chain\<close>

definition check_witness :: "fold_state \<Rightarrow> publication_witness option \<Rightarrow> lifecycle_error + unit" where
  "check_witness state witness =
     (case witness of
        None \<Rightarrow> Inl EventChainBroken
      | Some w \<Rightarrow>
          raise_if (pw_pins w \<noteq> fs_pins state) EventChainBroken
          (raise_if (pw_sequence w = fs_sequence state + 1) EventChainBroken
          (raise_if
             (pw_sequence w \<noteq> fs_sequence state \<or> pw_event_id w \<noteq> fs_event_id state
              \<or> pw_event_sha256 w \<noteq> fs_event_sha256 state) EventChainBroken
          (raise_if (pw_prev_event_digest w \<noteq> fs_prev_event_digest state) EventChainBroken
          (Inr ())))))"

datatype projection =
    CURRENT
  | MISSING
  | STALE
  | DAMAGED

text \<open>
  \<open>loads\<close> is \<open>strict_json_loads\<close> (\<open>None\<close> where it raises). The expected bytes raise where the tip is no
  valid state version. Python equality: \<open>document.get("schema_version") == 3\<close>.
\<close>

definition projection_status ::
  "(bytes \<Rightarrow> json option) \<Rightarrow> fold_state \<Rightarrow> bytes option \<Rightarrow> lifecycle_error + projection" where
  "projection_status loads state payload =
     rbind (from_option PyValueError (projection_bytes (fs_record state) (fs_sequence state) (fs_event_id state)))
       (\<lambda>expected.
        case payload of
          None \<Rightarrow> Inr MISSING
        | Some given \<Rightarrow>
            if given = expected then Inr CURRENT
            else (case loads given of
                    Some (JObj kvs) \<Rightarrow>
                      (let version3 = obj_get (JObj kvs) (lit ''schema_version'') = Some (JInt 3) in
                       case obj_get (JObj kvs) (lit ''state_version'') of
                         Some (JInt version) \<Rightarrow>
                           raise_if (version3 \<and> version > fs_sequence state) EventChainBroken
                           (Inr (if version3 \<and> version < fs_sequence state then STALE else DAMAGED))
                       | _ \<Rightarrow> Inr DAMAGED)
                  | _ \<Rightarrow> Inr DAMAGED))"

end
