(* ===== verification/Operation_Artifacts.thy ===== *)
theory Operation_Artifacts
  imports Machine_Results Lifecycle_Replay
begin

text \<open>
  The immutable artifacts of an operation (\<open>milestone_runner/operations.py\<close>, section 8.2): one closed
  model per file name with its validators and its dump, the deterministic applied receipt, and
  \<open>check_operation_artifact\<close> of \<open>events.py\<close>, which compares an artifact's content with the facts the
  chain holds about it.
\<close>

definition MAX_DIAGNOSTICS :: nat where "MAX_DIAGNOSTICS = 8"
definition MAX_DIAGNOSTIC_CHARS :: nat where "MAX_DIAGNOSTIC_CHARS = 2000"

definition diagnostic_ok :: "pystr \<Rightarrow> bool" where
  "diagnostic_ok v \<longleftrightarrow> v \<noteq> [] \<and> length v \<le> MAX_DIAGNOSTIC_CHARS"

definition bounded_diagnostics :: "pystr list \<Rightarrow> pystr list" where
  "bounded_diagnostics lines =
     take MAX_DIAGNOSTICS (map (take MAX_DIAGNOSTIC_CHARS) (filter (\<lambda>l. l \<noteq> []) lines))"

definition operation_version :: "int \<Rightarrow> bool" where
  "operation_version v \<longleftrightarrow> v = OPERATION_SCHEMA_VERSION"

definition attempt_ok_number :: "int \<Rightarrow> bool" where
  "attempt_ok_number v \<longleftrightarrow> (case attempt_directory_name v of Inl _ \<Rightarrow> False | Inr _ \<Rightarrow> True)"

section \<open>The artifact models\<close>

record operation_request =
  oq_schema_version :: int
  oq_pins :: operation_pins
  oq_operation_id :: pystr
  oq_step :: operation_step
  oq_role :: provider_role
  oq_milestone_id :: "pystr option"
  oq_adapter :: adapter_identity
  oq_invoking_state :: run_status
  oq_repository_root :: pystr
  oq_allowed_environment_variables :: "pystr list"
  oq_prompt :: pystr
  oq_prompt_sha256 :: pystr

definition validate_operation_request :: "pyenv \<Rightarrow> operation_request \<Rightarrow> operation_request option" where
  "validate_operation_request E q =
     refuse_if (\<not> operation_version (oq_schema_version q))
     (refuse_if (\<not> valid_operation_pins (oq_pins q))
     (refuse_if (\<not> sha256_hex (oq_operation_id q) \<or> \<not> sha256_hex (oq_prompt_sha256 q))
     (refuse_if (validate_step (oq_step q) = None \<or> \<not> valid_adapter (oq_adapter q))
     (refuse_if (operation_id E (pn_run_id (oq_pins q)) (oq_step q) \<noteq> Inr (oq_operation_id q))
     (refuse_if (oq_role q \<noteq> st_role (oq_step q) \<or> oq_milestone_id q \<noteq> step_milestone_id (oq_step q))
     (refuse_if (sha256 E (utf8 (oq_prompt q)) \<noteq> oq_prompt_sha256 q)
     (Some q)))))))"

record dispatch_intent =
  di_schema_version :: int
  di_pins :: operation_pins
  di_operation_id :: pystr
  di_attempt :: int
  di_request_sha256 :: pystr
  di_provider_request_sha256 :: pystr
  di_argv_sha256 :: pystr
  di_timeout_seconds :: int
  di_transcript_label :: pystr
  di_transcript_sequence :: int
  di_adapter :: adapter_identity
  di_fingerprint_sha256 :: pystr
  di_recorded_at :: pystr

definition validate_dispatch_intent :: "dispatch_intent \<Rightarrow> dispatch_intent option" where
  "validate_dispatch_intent d =
     refuse_if (\<not> operation_version (di_schema_version d))
     (refuse_if (\<not> valid_operation_pins (di_pins d) \<or> \<not> valid_adapter (di_adapter d))
     (refuse_if (\<not> attempt_ok_number (di_attempt d))
     (refuse_if
        (\<not> list_all sha256_hex [di_operation_id d, di_request_sha256 d, di_provider_request_sha256 d,
             di_argv_sha256 d, di_fingerprint_sha256 d])
     (refuse_if (di_timeout_seconds d < 1 \<or> di_transcript_sequence d < 1)
     (refuse_if (\<not> utc_timestamp (di_recorded_at d)) (Some d))))))"

datatype receipt_kind =
    LOCAL_PROCESS
  | SCRIPTED_FAKE_ACKNOWLEDGMENT

fun receipt_kind_value :: "receipt_kind \<Rightarrow> pystr" where
  "receipt_kind_value LOCAL_PROCESS = lit ''LOCAL_PROCESS''"
| "receipt_kind_value SCRIPTED_FAKE_ACKNOWLEDGMENT = lit ''SCRIPTED_FAKE_ACKNOWLEDGMENT''"

record dispatch_receipt =
  dr_schema_version :: int
  dr_pins :: operation_pins
  dr_operation_id :: pystr
  dr_attempt :: int
  dr_intent_sha256 :: pystr
  dr_kind :: receipt_kind
  dr_process_id :: "int option"
  dr_observed_started_at :: pystr

definition validate_dispatch_receipt :: "dispatch_receipt \<Rightarrow> dispatch_receipt option" where
  "validate_dispatch_receipt d =
     refuse_if (\<not> operation_version (dr_schema_version d))
     (refuse_if (\<not> valid_operation_pins (dr_pins d) \<or> \<not> attempt_ok_number (dr_attempt d))
     (refuse_if (\<not> sha256_hex (dr_operation_id d) \<or> \<not> sha256_hex (dr_intent_sha256 d))
     (refuse_if (\<not> utc_timestamp (dr_observed_started_at d))
     (if dr_kind d = LOCAL_PROCESS then
        refuse_if (case dr_process_id d of None \<Rightarrow> True | Some p \<Rightarrow> p < 1) (Some d)
      else refuse_if (dr_process_id d \<noteq> None) (Some d)))))"

record pre_spawn_failure =
  pf_schema_version :: int
  pf_pins :: operation_pins
  pf_operation_id :: pystr
  pf_attempt :: int
  pf_intent_sha256 :: pystr
  pf_detail :: pystr
  pf_recorded_at :: pystr

definition validate_pre_spawn_failure :: "pre_spawn_failure \<Rightarrow> pre_spawn_failure option" where
  "validate_pre_spawn_failure p =
     refuse_if (\<not> operation_version (pf_schema_version p))
     (refuse_if (\<not> valid_operation_pins (pf_pins p) \<or> \<not> attempt_ok_number (pf_attempt p))
     (refuse_if (\<not> sha256_hex (pf_operation_id p) \<or> \<not> sha256_hex (pf_intent_sha256 p))
     (refuse_if (\<not> diagnostic_ok (pf_detail p))
     (refuse_if (\<not> utc_timestamp (pf_recorded_at p)) (Some p)))))"

record validated_result =
  vd_schema_version :: int
  vd_pins :: operation_pins
  vd_operation_id :: pystr
  vd_attempt :: int
  vd_role :: provider_role
  vd_raw_result_sha256 :: pystr
  vd_verdict :: validation_verdict
  vd_milestone_result :: "milestone_result option"
  vd_review_result :: "review_result option"
  vd_correction_result :: "correction_result option"
  vd_closure_result :: "closure_result option"
  vd_diagnostics :: "pystr list"
  vd_recorded_at :: pystr

definition result_present :: "validated_result \<Rightarrow> provider_role \<Rightarrow> bool" where
  "result_present v role =
     (case role of
        IMPLEMENTATION \<Rightarrow> vd_milestone_result v \<noteq> None
      | REVIEW \<Rightarrow> vd_review_result v \<noteq> None
      | CORRECTION \<Rightarrow> vd_correction_result v \<noteq> None
      | CLOSURE \<Rightarrow> vd_closure_result v \<noteq> None)"

definition validate_validated_result :: "validated_result \<Rightarrow> validated_result option" where
  "validate_validated_result v =
     refuse_if (\<not> operation_version (vd_schema_version v))
     (refuse_if (\<not> valid_operation_pins (vd_pins v) \<or> \<not> attempt_ok_number (vd_attempt v))
     (refuse_if (\<not> sha256_hex (vd_operation_id v) \<or> \<not> sha256_hex (vd_raw_result_sha256 v))
     (refuse_if (length (vd_diagnostics v) > MAX_DIAGNOSTICS \<or> \<not> list_all diagnostic_ok (vd_diagnostics v))
     (refuse_if (\<not> utc_timestamp (vd_recorded_at v))
     (refuse_if (list_ex (\<lambda>role. role \<noteq> vd_role v \<and> result_present v role) all_provider_role)
     (refuse_if (vd_verdict v = VALID \<and> \<not> result_present v (vd_role v))
     (refuse_if (vd_verdict v \<noteq> VALID \<and> result_present v (vd_role v)) (Some v))))))))"

record applied_receipt =
  ar_schema_version :: int
  ar_pins :: operation_pins
  ar_operation_id :: pystr
  ar_event_id :: pystr
  ar_state_version :: int
  ar_event_sha256 :: pystr

definition validate_applied_receipt :: "applied_receipt \<Rightarrow> applied_receipt option" where
  "validate_applied_receipt a =
     refuse_if (\<not> operation_version (ar_schema_version a))
     (refuse_if (\<not> valid_operation_pins (ar_pins a) \<or> ar_state_version a < 1)
     (refuse_if (\<not> list_all sha256_hex [ar_operation_id a, ar_event_id a, ar_event_sha256 a]) (Some a)))"

datatype operation_artifact =
    RequestArtifact operation_request
  | IntentArtifact dispatch_intent
  | ReceiptArtifact dispatch_receipt
  | PreSpawnArtifact pre_spawn_failure
  | ValidatedArtifact validated_result
  | AppliedArtifact applied_receipt

text \<open>\<open>ARTIFACT_MODELS\<close>: the closed model of a file name, and its constructor's validators.\<close>

fun artifact_model :: "operation_artifact \<Rightarrow> artifact_name" where
  "artifact_model (RequestArtifact _) = REQUEST_FILE_NAME"
| "artifact_model (IntentArtifact _) = DISPATCH_INTENT_FILE_NAME"
| "artifact_model (ReceiptArtifact _) = DISPATCH_RECEIPT_FILE_NAME"
| "artifact_model (PreSpawnArtifact _) = PRE_SPAWN_FAILED_FILE_NAME"
| "artifact_model (ValidatedArtifact _) = VALIDATED_RESULT_FILE_NAME"
| "artifact_model (AppliedArtifact _) = APPLIED_FILE_NAME"

fun validate_artifact :: "pyenv \<Rightarrow> operation_artifact \<Rightarrow> operation_artifact option" where
  "validate_artifact E (RequestArtifact q) = map_option RequestArtifact (validate_operation_request E q)"
| "validate_artifact E (IntentArtifact d) = map_option IntentArtifact (validate_dispatch_intent d)"
| "validate_artifact E (ReceiptArtifact d) = map_option ReceiptArtifact (validate_dispatch_receipt d)"
| "validate_artifact E (PreSpawnArtifact p) = map_option PreSpawnArtifact (validate_pre_spawn_failure p)"
| "validate_artifact E (ValidatedArtifact v) = map_option ValidatedArtifact (validate_validated_result v)"
| "validate_artifact E (AppliedArtifact a) = map_option AppliedArtifact (validate_applied_receipt a)"

fun artifact_pins :: "operation_artifact \<Rightarrow> operation_pins" where
  "artifact_pins (RequestArtifact q) = oq_pins q"
| "artifact_pins (IntentArtifact d) = di_pins d"
| "artifact_pins (ReceiptArtifact d) = dr_pins d"
| "artifact_pins (PreSpawnArtifact p) = pf_pins p"
| "artifact_pins (ValidatedArtifact v) = vd_pins v"
| "artifact_pins (AppliedArtifact a) = ar_pins a"

fun artifact_operation_id :: "operation_artifact \<Rightarrow> pystr" where
  "artifact_operation_id (RequestArtifact q) = oq_operation_id q"
| "artifact_operation_id (IntentArtifact d) = di_operation_id d"
| "artifact_operation_id (ReceiptArtifact d) = dr_operation_id d"
| "artifact_operation_id (PreSpawnArtifact p) = pf_operation_id p"
| "artifact_operation_id (ValidatedArtifact v) = vd_operation_id v"
| "artifact_operation_id (AppliedArtifact a) = ar_operation_id a"

text \<open>\<open>values.get("attempt")\<close>: a request and an applied receipt have no such field.\<close>

fun artifact_attempt :: "operation_artifact \<Rightarrow> int option" where
  "artifact_attempt (IntentArtifact d) = Some (di_attempt d)"
| "artifact_attempt (ReceiptArtifact d) = Some (dr_attempt d)"
| "artifact_attempt (PreSpawnArtifact p) = Some (pf_attempt p)"
| "artifact_attempt (ValidatedArtifact v) = Some (vd_attempt v)"
| "artifact_attempt _ = None"

section \<open>Dumps\<close>

definition dump_verification_claim :: "reported_verification \<Rightarrow> json" where
  "dump_verification_claim r =
     JObj
      [(lit ''command'', JStr (rf_command r)),
       (lit ''result'', JStr (reported_status_value (rf_result r)))]"

definition dump_addressed :: "addressed_finding \<Rightarrow> json" where
  "dump_addressed r =
     JObj
      [(lit ''id'', JStr (af_id r)),
       (lit ''resolution'', JStr (af_resolution r))]"

definition dump_ruling :: "closure_ruling \<Rightarrow> json" where
  "dump_ruling r =
     JObj
      [(lit ''id'', JStr (cl_id r)),
       (lit ''status'', JStr (finding_status_value (cl_status r))),
       (lit ''reason'', JStr (cl_reason r))]"

definition dump_milestone_result :: "milestone_result \<Rightarrow> json" where
  "dump_milestone_result r =
     JObj
      [(lit ''milestone'', JStr (mr_milestone r)),
       (lit ''status'', JStr (milestone_report_status_value (mr_status r))),
       (lit ''changed_paths'', JList (map JStr (mr_changed_paths r))),
       (lit ''verification'', JList (map dump_verification_claim (mr_verification r))),
       (lit ''blockers'', JList (map JStr (mr_blockers r)))]"

definition dump_review_result :: "review_result \<Rightarrow> json" where
  "dump_review_result r =
     JObj
      [(lit ''verdict'', JStr (review_verdict_value (rw_verdict r))),
       (lit ''blockers'', JList (map dump_finding (rw_blockers r))),
       (lit ''deferred'', JList (map dump_finding (rw_deferred r)))]"

definition dump_correction_result :: "correction_result \<Rightarrow> json" where
  "dump_correction_result r =
     JObj
      [(lit ''status'', JStr (milestone_report_status_value (cr_status r))),
       (lit ''findings_addressed'', JList (map dump_addressed (cr_findings_addressed r))),
       (lit ''changed_paths'', JList (map JStr (cr_changed_paths r))),
       (lit ''verification'', JList (map dump_verification_claim (cr_verification r)))]"

definition dump_closure_result :: "closure_result \<Rightarrow> json" where
  "dump_closure_result r =
     JObj
      [(lit ''findings'', JList (map dump_ruling (co_findings r)))]"

definition dump_operation_request :: "operation_request \<Rightarrow> json" where
  "dump_operation_request q =
     JObj
      [(lit ''schema_version'', JInt (oq_schema_version q)),
       (lit ''pins'', dump_pins (oq_pins q)),
       (lit ''operation_id'', JStr (oq_operation_id q)),
       (lit ''step'', dump_step (oq_step q)),
       (lit ''role'', JStr (provider_role_value (oq_role q))),
       (lit ''milestone_id'', jopt JStr (oq_milestone_id q)),
       (lit ''adapter'', dump_adapter (oq_adapter q)),
       (lit ''invoking_state'', JStr (run_status_value (oq_invoking_state q))),
       (lit ''repository_root'', JStr (oq_repository_root q)),
       (lit ''allowed_environment_variables'', JList (map JStr (oq_allowed_environment_variables q))),
       (lit ''prompt'', JStr (oq_prompt q)),
       (lit ''prompt_sha256'', JStr (oq_prompt_sha256 q))]"

definition dump_dispatch_intent :: "dispatch_intent \<Rightarrow> json" where
  "dump_dispatch_intent d =
     JObj
      [(lit ''schema_version'', JInt (di_schema_version d)),
       (lit ''pins'', dump_pins (di_pins d)),
       (lit ''operation_id'', JStr (di_operation_id d)),
       (lit ''attempt'', JInt (di_attempt d)),
       (lit ''request_sha256'', JStr (di_request_sha256 d)),
       (lit ''provider_request_sha256'', JStr (di_provider_request_sha256 d)),
       (lit ''argv_sha256'', JStr (di_argv_sha256 d)),
       (lit ''timeout_seconds'', JInt (di_timeout_seconds d)),
       (lit ''transcript_label'', JStr (di_transcript_label d)),
       (lit ''transcript_sequence'', JInt (di_transcript_sequence d)),
       (lit ''adapter'', dump_adapter (di_adapter d)),
       (lit ''fingerprint_sha256'', JStr (di_fingerprint_sha256 d)),
       (lit ''recorded_at'', JStr (di_recorded_at d))]"

definition dump_dispatch_receipt :: "dispatch_receipt \<Rightarrow> json" where
  "dump_dispatch_receipt d =
     JObj
      [(lit ''schema_version'', JInt (dr_schema_version d)),
       (lit ''pins'', dump_pins (dr_pins d)),
       (lit ''operation_id'', JStr (dr_operation_id d)),
       (lit ''attempt'', JInt (dr_attempt d)),
       (lit ''intent_sha256'', JStr (dr_intent_sha256 d)),
       (lit ''kind'', JStr (receipt_kind_value (dr_kind d))),
       (lit ''process_id'', jopt JInt (dr_process_id d)),
       (lit ''observed_started_at'', JStr (dr_observed_started_at d))]"

definition dump_pre_spawn_failure :: "pre_spawn_failure \<Rightarrow> json" where
  "dump_pre_spawn_failure p =
     JObj
      [(lit ''schema_version'', JInt (pf_schema_version p)),
       (lit ''pins'', dump_pins (pf_pins p)),
       (lit ''operation_id'', JStr (pf_operation_id p)),
       (lit ''attempt'', JInt (pf_attempt p)),
       (lit ''intent_sha256'', JStr (pf_intent_sha256 p)),
       (lit ''verdict'', JStr (lit ''NO_PROCESS_CREATED'')),
       (lit ''detail'', JStr (pf_detail p)),
       (lit ''recorded_at'', JStr (pf_recorded_at p))]"

definition dump_validated_result :: "validated_result \<Rightarrow> json" where
  "dump_validated_result v =
     JObj
      [(lit ''schema_version'', JInt (vd_schema_version v)),
       (lit ''pins'', dump_pins (vd_pins v)),
       (lit ''operation_id'', JStr (vd_operation_id v)),
       (lit ''attempt'', JInt (vd_attempt v)),
       (lit ''role'', JStr (provider_role_value (vd_role v))),
       (lit ''raw_result_sha256'', JStr (vd_raw_result_sha256 v)),
       (lit ''verdict'', JStr (verdict_value (vd_verdict v))),
       (lit ''milestone_result'', jopt dump_milestone_result (vd_milestone_result v)),
       (lit ''review_result'', jopt dump_review_result (vd_review_result v)),
       (lit ''correction_result'', jopt dump_correction_result (vd_correction_result v)),
       (lit ''closure_result'', jopt dump_closure_result (vd_closure_result v)),
       (lit ''diagnostics'', JList (map JStr (vd_diagnostics v))),
       (lit ''recorded_at'', JStr (vd_recorded_at v))]"

definition dump_applied_receipt :: "applied_receipt \<Rightarrow> json" where
  "dump_applied_receipt a =
     JObj
      [(lit ''schema_version'', JInt (ar_schema_version a)),
       (lit ''pins'', dump_pins (ar_pins a)),
       (lit ''operation_id'', JStr (ar_operation_id a)),
       (lit ''event_id'', JStr (ar_event_id a)),
       (lit ''state_version'', JInt (ar_state_version a)),
       (lit ''event_sha256'', JStr (ar_event_sha256 a))]"

fun dump_artifact :: "operation_artifact \<Rightarrow> json" where
  "dump_artifact (RequestArtifact q) = dump_operation_request q"
| "dump_artifact (IntentArtifact d) = dump_dispatch_intent d"
| "dump_artifact (ReceiptArtifact d) = dump_dispatch_receipt d"
| "dump_artifact (PreSpawnArtifact p) = dump_pre_spawn_failure p"
| "dump_artifact (ValidatedArtifact v) = dump_validated_result v"
| "dump_artifact (AppliedArtifact a) = dump_applied_receipt a"

definition artifact_bytes :: "operation_artifact \<Rightarrow> bytes" where
  "artifact_bytes a = integrity_bytes (dump_artifact a)"

section \<open>Artifacts against the chain\<close>

definition request_consistent :: "evidence_reference \<Rightarrow> operation_record \<Rightarrow> operation_request \<Rightarrow> bool" where
  "request_consistent reference view q \<longleftrightarrow>
     \<not> (er_sha256 reference \<noteq> op_request_sha256 view \<or> oq_step q \<noteq> op_step view
        \<or> oq_adapter q \<noteq> op_adapter view \<or> oq_role q \<noteq> op_role view
        \<or> oq_milestone_id q \<noteq> op_milestone_id view)"

fun attempt_consistent ::
  "evidence_reference \<Rightarrow> operation_record \<Rightarrow> attempt_record \<Rightarrow> operation_artifact \<Rightarrow> bool" where
  "attempt_consistent reference view a (IntentArtifact d) =
     (er_sha256 reference = at_intent_sha256 a \<and> di_request_sha256 d = op_request_sha256 view
      \<and> di_adapter d = op_adapter view)"
| "attempt_consistent reference view a (ReceiptArtifact d) =
     (Some (er_sha256 reference) = at_receipt_sha256 a \<and> dr_intent_sha256 d = at_intent_sha256 a)"
| "attempt_consistent reference view a (PreSpawnArtifact p) =
     (Some (er_sha256 reference) = at_pre_spawn_failure_sha256 a \<and> pf_intent_sha256 p = at_intent_sha256 a)"
| "attempt_consistent reference view a (ValidatedArtifact v) =
     (Some (er_sha256 reference) = at_validated_sha256 a \<and> vd_role v = op_role view
      \<and> Some (vd_raw_result_sha256 v) = at_raw_result_sha256 a \<and> Some (vd_verdict v) = at_verdict a
      \<and> pred_option (\<lambda>m. Some (mr_milestone m) = op_milestone_id view) (vd_milestone_result v))"
| "attempt_consistent reference view a _ = False"

definition check_operation_artifact ::
  "fold_state \<Rightarrow> evidence_reference \<Rightarrow> operation_artifact \<Rightarrow> lifecycle_error + unit" where
  "check_operation_artifact state reference artifact =
     (case fs_operations state (artifact_operation_id artifact) of
        None \<Rightarrow> Inl OperationRecordInvalid
      | Some view \<Rightarrow>
          (case artifact of
             RequestArtifact q \<Rightarrow>
               raise_if (\<not> request_consistent reference view q) OperationRecordInvalid (Inr ())
           | _ \<Rightarrow>
               (case Option.bind (artifact_attempt artifact)
                       (\<lambda>number. find (\<lambda>a. at_attempt a = number) (op_attempts view)) of
                  None \<Rightarrow> Inl OperationRecordInvalid
                | Some a \<Rightarrow>
                    raise_if (\<not> attempt_consistent reference view a artifact) OperationRecordInvalid (Inr ()))))"

end
