(* ===== verification/Record_Evolution.thy ===== *)
theory Record_Evolution
  imports Lifecycle_Replay
begin

text \<open>
  How one accepted event may change the run record: the abstract contract \<open>record_evolves\<close> of the
  replay. Identity fields never change, the workflow state moves along permitted transitions, completed
  milestones, checkpoints, verification results and ledgers are append-only as whole rows, a provider row
  is rewritten at most once (to complete the last open one), an approval only while it is the last, and the
  result is again a well-formed record. Each of the five body changes of the fold is shown to implement it.
\<close>

section \<open>What typed updates leave alone\<close>

definition same_identity :: "run_record \<Rightarrow> run_record \<Rightarrow> bool" where
  "same_identity r s \<longleftrightarrow>
     rr_run_id s = rr_run_id r \<and> rr_repository_root s = rr_repository_root r
     \<and> rr_repository_identity s = rr_repository_identity r \<and> rr_expected_branch s = rr_expected_branch r
     \<and> rr_baseline_sha s = rr_baseline_sha r \<and> rr_contract_sha256 s = rr_contract_sha256 r
     \<and> rr_created_at s = rr_created_at r \<and> rr_policy_digest s = rr_policy_digest r
     \<and> rr_stage_start_id s = rr_stage_start_id r"

lemma assign_field_frame:
  assumes "assign_field u f r = Some s"
  shows "same_identity r s" and "rr_workflow_state s = rr_workflow_state r"
    and "rr_reconciliations s = rr_reconciliations r" and "rr_reopenings s = rr_reopenings r"
    and "rr_review_recoveries s = rr_review_recoveries r" and "rr_revalidations s = rr_revalidations r"
    and "f \<noteq> F_COMPLETED_MILESTONES \<Longrightarrow> rr_completed_milestones s = rr_completed_milestones r"
    and "f \<noteq> F_MILESTONE_CHECKPOINTS \<Longrightarrow> rr_milestone_checkpoints s = rr_milestone_checkpoints r"
    and "f \<noteq> F_PROVIDER_RUNS \<Longrightarrow> rr_provider_runs s = rr_provider_runs r"
    and "f \<noteq> F_VERIFICATION_RESULTS \<Longrightarrow> rr_verification_results s = rr_verification_results r"
    and "f \<noteq> F_BLOCKING_FINDINGS \<Longrightarrow> rr_blocking_findings s = rr_blocking_findings r"
    and "f \<noteq> F_DEFERRED_FINDINGS \<Longrightarrow> rr_deferred_findings s = rr_deferred_findings r"
    and "f \<noteq> F_APPROVALS \<Longrightarrow> rr_approvals s = rr_approvals r"
    and "f \<noteq> F_STOP_REASON \<Longrightarrow> rr_stop_reason s = rr_stop_reason r"
    and "g \<in> set COUNTER_FIELDS \<Longrightarrow> f \<noteq> g \<Longrightarrow> counter_value s g = counter_value r g"
  using assms
  by (cases f; auto simp: assign_field_def same_identity_def counter_value_def COUNTER_FIELDS_def)+

lemma same_identity_refl [simp]: "same_identity r r"
  by (simp add: same_identity_def)

lemma same_identity_trans: "same_identity r s \<Longrightarrow> same_identity s t \<Longrightarrow> same_identity r t"
  by (simp add: same_identity_def)

text \<open>A projection that no assigned field touches survives the whole assignment loop.\<close>

lemma assign_fields_frame:
  assumes "assign_fields u fs r = Some s"
    and "\<And>f a b. f \<in> set fs \<Longrightarrow> assign_field u f a = Some b \<Longrightarrow> p b = p a"
  shows "p s = p r"
  using assms
proof (induction u fs r rule: assign_fields.induct)
  case (2 u f fs r)
  from "2.prems"(1) obtain t where t: "assign_field u f r = Some t" "assign_fields u fs t = Some s"
    by auto
  have "p s = p t"
    by (rule "2.IH" [OF t(1) t(2)]) (use "2.prems"(2) in auto)
  moreover have "p t = p r" by (rule "2.prems"(2) [OF _ t(1)]) simp
  ultimately show ?case by simp
qed simp

lemma assign_fields_identity: "assign_fields u fs r = Some s \<Longrightarrow> same_identity r s"
  by (induction u fs r rule: assign_fields.induct)
    (auto dest: assign_field_frame(1) intro: same_identity_trans)

lemma validate_run_record_identity: "validate_run_record E r = Some s \<Longrightarrow> same_identity r s"
  using validate_run_record_frame [of E r s] by (simp add: same_identity_def)

section \<open>Rows that are their own normal form\<close>

text \<open>
  A validation may normalise the nested rows of a record. The rows of a folded record are already the
  ones their constructors return, so that a later validation gives them back unchanged.
\<close>

definition rows_canonical :: "pyenv \<Rightarrow> run_record \<Rightarrow> bool" where
  "rows_canonical E r \<longleftrightarrow>
     list_all (\<lambda>x. validate_checkpoint E x = Some x) (rr_milestone_checkpoints r)
     \<and> list_all (\<lambda>x. validate_provider_run E x = Some x) (rr_provider_runs r)
     \<and> list_all (\<lambda>x. validate_verification_result E x = Some x) (rr_verification_results r)
     \<and> list_all (\<lambda>x. validate_approval E x = Some x) (rr_approvals r)"

lemma map_opt_fixed: "list_all (\<lambda>x. f x = Some x) xs \<Longrightarrow> map_opt f xs = Some xs"
  by (induction xs) simp_all

lemma map_opt_fixed_iff: "map_opt f xs = Some xs \<longleftrightarrow> list_all (\<lambda>x. f x = Some x) xs"
  by (induction xs) (auto split: option.splits)

lemma validate_run_record_rows:
  assumes "validate_run_record E r = Some s" and "rows_canonical E r"
  shows "rr_milestone_checkpoints s = rr_milestone_checkpoints r" and "rr_provider_runs s = rr_provider_runs r"
    and "rr_verification_results s = rr_verification_results r" and "rr_approvals s = rr_approvals r"
    and "rows_canonical E s"
proof -
  note parts = validate_run_record_parts [OF assms(1)]
  show c: "rr_milestone_checkpoints s = rr_milestone_checkpoints r" "rr_provider_runs s = rr_provider_runs r"
    "rr_verification_results s = rr_verification_results r" "rr_approvals s = rr_approvals r"
    using parts assms(2) by (simp_all add: rows_canonical_def map_opt_fixed)
  show "rows_canonical E s" using assms(2) by (simp add: rows_canonical_def c)
qed

lemma canonical_rows: "validate_run_record E r = Some r \<Longrightarrow> rows_canonical E r"
  using validate_run_record_parts [of E r r] by (simp add: rows_canonical_def map_opt_fixed_iff)

lemma validate_run_record_counters: "validate_run_record E r = Some s \<Longrightarrow> counter_value s = counter_value r"
  using validate_run_record_frame [of E r s] by (simp add: fun_eq_iff counter_value_def split: record_field.split)

text \<open>An assigned field of a valid payload carries rows of that kind, too.\<close>

lemma assign_field_rows:
  "assign_field u f r = Some s \<Longrightarrow> nested_values_ok E u \<Longrightarrow> rows_canonical E r \<Longrightarrow> rows_canonical E s"
  by (cases f) (auto simp: assign_field_def nested_values_ok_def rows_canonical_def)

lemma assign_fields_rows:
  "assign_fields u fs r = Some s \<Longrightarrow> nested_values_ok E u \<Longrightarrow> rows_canonical E r \<Longrightarrow> rows_canonical E s"
  by (induction u fs r rule: assign_fields.induct) (auto dest: assign_field_rows)

lemma valid_updates_nested: "validate_updates E u = Some w \<Longrightarrow> nested_values_ok E u"
  by (auto simp: validate_updates_def)

section \<open>\<open>_apply_updates\<close>\<close>

definition with_state :: "(run_status \<times> stop_reason option) option \<Rightarrow> run_record \<Rightarrow> run_record" where
  "with_state state document =
     (case state of None \<Rightarrow> document
      | Some (workflow_state, stop_reason) \<Rightarrow>
          document\<lparr>rr_workflow_state := workflow_state, rr_stop_reason := stop_reason\<rparr>)"

lemma apply_updates_cases:
  assumes "apply_updates E r u st = Inr s"
  obtains d where "assign_fields u (ru_assigned u) r = Some d"
    and "validate_run_record E (with_state st d) = Some s"
  using assms by (auto simp: apply_updates_def with_state_def)

lemma apply_updates_stable:
  assumes "apply_updates E r u st = Inr s"
    and "\<And>f a b. f \<in> set (ru_assigned u) \<Longrightarrow> assign_field u f a = Some b \<Longrightarrow> p b = p a"
    and "\<And>a b. validate_run_record E a = Some b \<Longrightarrow> p b = p a"
    and "\<And>a. p (with_state st a) = p a"
  shows "p s = p r"
proof -
  obtain d where d: "assign_fields u (ru_assigned u) r = Some d"
    and v: "validate_run_record E (with_state st d) = Some s"
    using assms(1) by (rule apply_updates_cases)
  have "p d = p r" by (rule assign_fields_frame [OF d]) (rule assms(2))
  then show ?thesis using assms(3) [OF v] assms(4) by simp
qed

lemma with_state_frame [simp]:
  "same_identity r (with_state st s) = same_identity r s"
  "rr_completed_milestones (with_state st s) = rr_completed_milestones s"
  "rr_milestone_checkpoints (with_state st s) = rr_milestone_checkpoints s"
  "rr_provider_runs (with_state st s) = rr_provider_runs s"
  "rr_verification_results (with_state st s) = rr_verification_results s"
  "rr_approvals (with_state st s) = rr_approvals s"
  "rr_blocking_findings (with_state st s) = rr_blocking_findings s"
  "rr_reconciliations (with_state st s) = rr_reconciliations s"
  "rr_reopenings (with_state st s) = rr_reopenings s"
  "rr_review_recoveries (with_state st s) = rr_review_recoveries s"
  "rr_revalidations (with_state st s) = rr_revalidations s"
  "rows_canonical E (with_state st s) = rows_canonical E s"
  "counter_value (with_state st s) f = counter_value s f"
  by (auto simp: with_state_def same_identity_def rows_canonical_def counter_value_def
      split: option.split record_field.split)

lemma with_state_None [simp]: "with_state None s = s"
  by (simp add: with_state_def)

definition ledgers :: "run_record \<Rightarrow> recovery_ledger_name \<Rightarrow> recovery_ledger_entry list" where
  "ledgers r n = ledger_of n r"

lemma ledgers_eqI:
  "rr_reconciliations s = rr_reconciliations r \<Longrightarrow> rr_reopenings s = rr_reopenings r \<Longrightarrow>
   rr_review_recoveries s = rr_review_recoveries r \<Longrightarrow> rr_revalidations s = rr_revalidations r \<Longrightarrow>
   ledgers s = ledgers r"
proof (rule ext)
  fix n
  assume "rr_reconciliations s = rr_reconciliations r" "rr_reopenings s = rr_reopenings r"
    "rr_review_recoveries s = rr_review_recoveries r" "rr_revalidations s = rr_revalidations r"
  then show "ledgers s n = ledgers r n" by (cases n) (simp_all add: ledgers_def)
qed

lemma validate_run_record_ledgers_eq: "validate_run_record E r = Some s \<Longrightarrow> ledgers s = ledgers r"
  by (rule ledgers_eqI) (erule validate_run_record_ledgers)+

lemma apply_updates_frame:
  assumes u: "apply_updates E r u st = Inr s"
  shows "same_identity r s" and "wf_run_record s" and "ledgers s = ledgers r"
    and "rr_workflow_state s = (case st of None \<Rightarrow> rr_workflow_state r | Some (w, _) \<Rightarrow> w)"
    and "F_COMPLETED_MILESTONES \<notin> set (ru_assigned u) \<Longrightarrow> rr_completed_milestones s = rr_completed_milestones r"
    and "F_BLOCKING_FINDINGS \<notin> set (ru_assigned u) \<Longrightarrow> rr_blocking_findings s = rr_blocking_findings r"
    and "f \<in> set COUNTER_FIELDS \<Longrightarrow> f \<notin> set (ru_assigned u) \<Longrightarrow> counter_value s f = counter_value r f"
proof -
  obtain d where d: "assign_fields u (ru_assigned u) r = Some d"
    and v: "validate_run_record E (with_state st d) = Some s"
    using u by (rule apply_updates_cases)
  have "same_identity r d" by (rule assign_fields_identity [OF d])
  moreover have "same_identity (with_state st d) s" by (rule validate_run_record_identity [OF v])
  ultimately show "same_identity r s" by (meson same_identity_trans with_state_frame(1))
  show "wf_run_record s" by (rule validate_run_record_wf [OF v])
  have "ledgers d = ledgers r"
    by (rule assign_fields_frame [OF d]) (rule ledgers_eqI; erule assign_field_frame)
  moreover have "ledgers s = ledgers (with_state st d)"
    by (rule validate_run_record_ledgers_eq [OF v])
  moreover have "ledgers (with_state st d) = ledgers d" by (rule ledgers_eqI) simp_all
  ultimately show "ledgers s = ledgers r" by simp
  have "rr_workflow_state d = rr_workflow_state r"
    by (rule assign_fields_frame [OF d]) (erule assign_field_frame)
  moreover have "rr_workflow_state s = rr_workflow_state (with_state st d)"
    using validate_run_record_frame [OF v] by simp
  ultimately show "rr_workflow_state s = (case st of None \<Rightarrow> rr_workflow_state r | Some (w, _) \<Rightarrow> w)"
    by (auto simp: with_state_def split: option.split)
next
  show "rr_completed_milestones s = rr_completed_milestones r" if "F_COMPLETED_MILESTONES \<notin> set (ru_assigned u)"
    by (rule apply_updates_stable [OF u])
      (use that in \<open>auto dest: assign_field_frame(7) simp: validate_run_record_frame\<close>)
  show "rr_blocking_findings s = rr_blocking_findings r" if "F_BLOCKING_FINDINGS \<notin> set (ru_assigned u)"
    by (rule apply_updates_stable [OF u])
      (use that in \<open>auto dest: assign_field_frame(11) validate_run_record_ledgers(1)\<close>)
  show "counter_value s f = counter_value r f" if "f \<in> set COUNTER_FIELDS" "f \<notin> set (ru_assigned u)"
  proof (rule apply_updates_stable [OF u, where p = "\<lambda>r. counter_value r f"])
    fix g a b
    assume "g \<in> set (ru_assigned u)" "assign_field u g a = Some b"
    then show "counter_value b f = counter_value a f"
      using that by (metis assign_field_frame(15))
  qed (auto dest: validate_run_record_counters)
qed

text \<open>The rows of a folded record change by assignment alone: the validation gives them back.\<close>

lemma apply_updates_rows:
  assumes u: "apply_updates E r u st = Inr s" and rows: "rows_canonical E r" and nested: "nested_values_ok E u"
  shows "rows_canonical E s"
    and "F_MILESTONE_CHECKPOINTS \<notin> set (ru_assigned u) \<Longrightarrow> rr_milestone_checkpoints s = rr_milestone_checkpoints r"
    and "F_PROVIDER_RUNS \<notin> set (ru_assigned u) \<Longrightarrow> rr_provider_runs s = rr_provider_runs r"
    and "F_VERIFICATION_RESULTS \<notin> set (ru_assigned u) \<Longrightarrow> rr_verification_results s = rr_verification_results r"
    and "F_APPROVALS \<notin> set (ru_assigned u) \<Longrightarrow> rr_approvals s = rr_approvals r"
proof -
  obtain d where d: "assign_fields u (ru_assigned u) r = Some d"
    and v: "validate_run_record E (with_state st d) = Some s"
    using u by (rule apply_updates_cases)
  have "rows_canonical E (with_state st d)" using assign_fields_rows [OF d nested rows] by simp
  note same = validate_run_record_rows [OF v this]
  show "rows_canonical E s" by (rule same(5))
  show "rr_milestone_checkpoints s = rr_milestone_checkpoints r" if "F_MILESTONE_CHECKPOINTS \<notin> set (ru_assigned u)"
    unfolding same(1) with_state_frame
    by (rule assign_fields_frame [OF d]) (use that in \<open>auto dest: assign_field_frame(8)\<close>)
  show "rr_provider_runs s = rr_provider_runs r" if "F_PROVIDER_RUNS \<notin> set (ru_assigned u)"
    unfolding same(2) with_state_frame
    by (rule assign_fields_frame [OF d]) (use that in \<open>auto dest: assign_field_frame(9)\<close>)
  show "rr_verification_results s = rr_verification_results r" if "F_VERIFICATION_RESULTS \<notin> set (ru_assigned u)"
    unfolding same(3) with_state_frame
    by (rule assign_fields_frame [OF d]) (use that in \<open>auto dest: assign_field_frame(10)\<close>)
  show "rr_approvals s = rr_approvals r" if "F_APPROVALS \<notin> set (ru_assigned u)"
    unfolding same(4) with_state_frame
    by (rule assign_fields_frame [OF d]) (use that in \<open>auto dest: assign_field_frame(13)\<close>)
qed

section \<open>The contract of a body change\<close>

text \<open>
  A list whose rows stay where they are, the last old one related to its new value and every earlier one
  unchanged, and which may have gained rows at its end.
\<close>

definition grows_by :: "('a \<Rightarrow> 'a \<Rightarrow> bool) \<Rightarrow> 'a list \<Rightarrow> 'a list \<Rightarrow> bool" where
  "grows_by kept before after \<longleftrightarrow>
     length before \<le> length after
     \<and> (\<forall>i < length before. kept (before ! i) (after ! i))
     \<and> (\<forall>i. i + 1 < length before \<longrightarrow> after ! i = before ! i)"

text \<open>A provider row keeps its identity, and everything once it is complete.\<close>

definition row_kept :: "provider_run_record \<Rightarrow> provider_run_record \<Rightarrow> bool" where
  "row_kept old new \<longleftrightarrow> row_identity new = row_identity old \<and> (pr_completed_at old \<noteq> None \<longrightarrow> new = old)"

text \<open>The last approval may be settled: it stays the grant of the same operation at the same time.\<close>

definition approval_kept :: "approval_record \<Rightarrow> approval_record \<Rightarrow> bool" where
  "approval_kept old new \<longleftrightarrow> ap_operation new = ap_operation old \<and> ap_granted_at new = ap_granted_at old"

lemma row_kept_refl [simp]: "row_kept p p"
  by (simp add: row_kept_def)

lemma approval_kept_refl [simp]: "approval_kept a a"
  by (simp add: approval_kept_def)

lemma row_kept_trans: "row_kept p q \<Longrightarrow> row_kept q t \<Longrightarrow> row_kept p t"
  by (auto simp: row_kept_def)

lemma approval_kept_trans: "approval_kept a b \<Longrightarrow> approval_kept b c \<Longrightarrow> approval_kept a c"
  by (simp add: approval_kept_def)

lemma grows_by_refl: "(\<And>x. kept x x) \<Longrightarrow> grows_by kept xs xs"
  by (simp add: grows_by_def)

lemma grows_by_trans:
  "(\<And>x y z. kept x y \<Longrightarrow> kept y z \<Longrightarrow> kept x z) \<Longrightarrow> grows_by kept xs ys \<Longrightarrow> grows_by kept ys zs \<Longrightarrow> grows_by kept xs zs"
proof -
  assume t: "\<And>x y z. kept x y \<Longrightarrow> kept y z \<Longrightarrow> kept x z" and a: "grows_by kept xs ys" and b: "grows_by kept ys zs"
  have "kept (xs ! i) (zs ! i)" if "i < length xs" for i
    by (rule t [of _ "ys ! i"]) (use a b that in \<open>simp_all add: grows_by_def\<close>)
  then show ?thesis using a b by (simp add: grows_by_def)
qed

lemma grows_by_append: "(\<And>x. kept x x) \<Longrightarrow> grows_by kept xs (xs @ ys)"
  by (simp add: grows_by_def nth_append)

lemma grows_by_last:
  assumes "\<And>x. kept x x" and "xs \<noteq> []" and "length ys = length xs" and "butlast ys = butlast xs"
    and "kept (last xs) (last ys)"
  shows "grows_by kept xs ys"
proof -
  have early: "ys ! i = xs ! i" if "i + 1 < length xs" for i
    using that assms(3,4) by (metis add_lessD1 length_butlast less_diff_conv nth_butlast)
  have "kept (xs ! i) (ys ! i)" if "i < length xs" for i
  proof (cases "i + 1 < length xs")
    case False
    then have "i = length xs - 1" using that by simp
    then show ?thesis using assms(2,3,5) by (metis last_conv_nth length_0_conv)
  qed (simp add: early assms(1))
  then show ?thesis using assms(3) early by (simp add: grows_by_def)
qed


definition record_evolves :: "run_record \<Rightarrow> run_record \<Rightarrow> bool" where
  "record_evolves r s \<longleftrightarrow>
     same_identity r s \<and> run_path (rr_workflow_state r) (rr_workflow_state s)
     \<and> extends (rr_completed_milestones r) (rr_completed_milestones s)
     \<and> extends (rr_milestone_checkpoints r) (rr_milestone_checkpoints s)
     \<and> extends (rr_verification_results r) (rr_verification_results s)
     \<and> grows_by row_kept (rr_provider_runs r) (rr_provider_runs s)
     \<and> grows_by approval_kept (rr_approvals r) (rr_approvals s)
     \<and> (\<forall>n. extends (ledgers r n) (ledgers s n))"

lemmas rows_grow_refl = grows_by_refl [of row_kept, OF row_kept_refl] grows_by_refl [of approval_kept, OF approval_kept_refl]

lemma record_evolves_refl [simp]: "record_evolves r r"
  by (simp add: record_evolves_def path_refl rows_grow_refl)

lemma record_evolves_trans: "record_evolves r s \<Longrightarrow> record_evolves s t \<Longrightarrow> record_evolves r t"
  unfolding record_evolves_def
  by (meson same_identity_trans run_path_trans extends_trans grows_by_trans row_kept_trans approval_kept_trans)

text \<open>Updates that touch no history field.\<close>

definition HISTORY_FIELDS :: "record_field list" where
  "HISTORY_FIELDS =
     [F_COMPLETED_MILESTONES, F_MILESTONE_CHECKPOINTS, F_PROVIDER_RUNS, F_VERIFICATION_RESULTS, F_APPROVALS]"

lemma plain_updates_evolve:
  assumes u: "apply_updates E r u None = Inr s" and rows: "rows_canonical E r" and nested: "nested_values_ok E u"
    and plain: "\<forall>f \<in> set HISTORY_FIELDS. f \<notin> set (ru_assigned u)"
  shows "record_evolves r s"
  using plain unfolding record_evolves_def HISTORY_FIELDS_def
  by (simp add: apply_updates_frame [OF u] apply_updates_rows [OF u rows nested] path_refl rows_grow_refl)

lemma completed_row_grows:
  assumes "completed_row xs ys = Inr c"
  shows "grows_by row_kept xs ys"
proof (cases "length ys = length xs + 1 \<and> take (length xs) ys = xs")
  case True
  then show ?thesis by (metis append_take_drop_id grows_by_append row_kept_refl)
next
  case False
  with assms have "xs \<noteq> []" "length ys = length xs" "butlast ys = butlast xs"
    "row_identity (last ys) = row_identity (last xs)" "pr_completed_at (last xs) = None"
    by (auto simp: completed_row_def split: if_splits)
  then show ?thesis by (intro grows_by_last) (simp_all add: row_kept_def)
qed

lemma provider_rows_update_grows:
  "provider_rows_update E xs ys evidence = Inr ps \<Longrightarrow> grows_by row_kept xs ys"
  by (auto simp: provider_rows_update_def rows_grow_refl dest: completed_row_grows split: if_splits)

lemma approvals_change_grows: "approvals_change_ok xs ys \<Longrightarrow> grows_by approval_kept xs ys"
  unfolding approvals_change_ok_def
proof (elim disjE conjE)
  assume "length ys = length xs + 1" "butlast ys = xs"
  then have "ys = xs @ [last ys]" by (metis append_butlast_last_id add_is_0 list.size(3) one_neq_zero)
  then show ?thesis by (metis grows_by_append approval_kept_refl)
qed (intro grows_by_last, simp_all add: approval_kept_def)

lemma apply_record_update_evolves:
  assumes "apply_record_update E state p d = Inr (after, prospective)"
    and rows: "rows_canonical E (fs_record state)" and nested: "nested_values_ok E (up_updates p)"
  shows "record_evolves (fs_record state) after \<and> wf_run_record after \<and> rows_canonical E after
    \<and> rr_workflow_state after = rr_workflow_state (fs_record state)
    \<and> extends (rr_deferred_findings (fs_record state)) (rr_deferred_findings after)"
proof -
  let ?r = "fs_record state" and ?u = "up_updates p"
  have facts: "apply_updates E ?r ?u None = Inr after"
    "extends (rr_completed_milestones ?r) (rr_completed_milestones after)"
    "extends (rr_milestone_checkpoints ?r) (rr_milestone_checkpoints after)"
    "extends (rr_verification_results ?r) (rr_verification_results after)"
    "extends (rr_deferred_findings ?r) (rr_deferred_findings after)"
    "\<not> (rr_approvals after \<noteq> rr_approvals ?r \<and> \<not> approvals_change_ok (rr_approvals ?r) (rr_approvals after))"
    "provider_rows_update E (rr_provider_runs ?r) (rr_provider_runs after) (up_evidence p) = Inr prospective"
    using assms(1) unfolding apply_record_update_def Let_def raise_if_Inr rbind_Inr require_prefix_Inr
    by (elim conjE exE; simp only: sum.inject prod.inject)+
  have "grows_by approval_kept (rr_approvals ?r) (rr_approvals after)"
    using facts(6) by (auto simp: rows_grow_refl intro: approvals_change_grows)
  moreover have "grows_by row_kept (rr_provider_runs ?r) (rr_provider_runs after)"
    using facts(7) by (rule provider_rows_update_grows)
  ultimately show ?thesis
    using facts(2-5) apply_updates_frame(1-4) [OF facts(1)] apply_updates_rows(1) [OF facts(1) rows nested]
    by (simp add: record_evolves_def path_refl)
qed

lemma set_ledger_ledgers:
  "ledgers (set_ledger n es r) m = (if m = n then es else ledgers r m)"
  by (cases n; cases m) (simp_all add: ledgers_def)

lemma set_ledger_frame [simp]:
  "same_identity r (set_ledger n es r)" "rr_workflow_state (set_ledger n es r) = rr_workflow_state r"
  "rr_completed_milestones (set_ledger n es r) = rr_completed_milestones r"
  "rr_milestone_checkpoints (set_ledger n es r) = rr_milestone_checkpoints r"
  "rr_provider_runs (set_ledger n es r) = rr_provider_runs r"
  "rr_verification_results (set_ledger n es r) = rr_verification_results r"
  "rr_approvals (set_ledger n es r) = rr_approvals r"
  "rows_canonical E (set_ledger n es r) = rows_canonical E r"
  "counter_value (set_ledger n es r) f = counter_value r f"
  by (cases n; auto simp: same_identity_def rows_canonical_def counter_value_def split: record_field.split)+

lemma apply_ledger_evolves:
  assumes "apply_ledger E state p d = Inr after" and rows: "rows_canonical E (fs_record state)"
  shows "record_evolves (fs_record state) after \<and> wf_run_record after \<and> rows_canonical E after
    \<and> rr_workflow_state after = rr_workflow_state (fs_record state)
    \<and> ledgers after (la_ledger p) = ledgers (fs_record state) (la_ledger p) @ [la_entry p]"
proof -
  let ?r = "fs_record state"
  let ?s = "set_ledger (la_ledger p) (ledger_of (la_ledger p) ?r @ [la_entry p]) ?r"
  from assms(1) have v: "validate_run_record E ?s = Some after"
    by (auto simp: apply_ledger_def Let_def split: option.splits)
  have "rows_canonical E ?s" using rows by simp
  note h = validate_run_record_rows [OF v this]
  have id: "same_identity ?r after"
    by (rule same_identity_trans [OF _ validate_run_record_identity [OF v]]) simp
  have led: "ledgers after = ledgers ?s" by (rule validate_run_record_ledgers_eq [OF v])
  have ws: "rr_workflow_state after = rr_workflow_state ?r"
    and cm: "rr_completed_milestones after = rr_completed_milestones ?r"
    using validate_run_record_frame [OF v] by simp_all
  have "\<forall>n. extends (ledgers ?r n) (ledgers after n)"
    unfolding led set_ledger_ledgers by (simp add: ledgers_def)
  then show ?thesis
    using h id ws cm validate_run_record_wf [OF v]
    by (simp add: record_evolves_def path_refl rows_grow_refl led set_ledger_ledgers) (simp add: ledgers_def)
qed

lemma apply_transition_evolves:
  assumes "apply_transition E state p = Inr after"
    and rows: "rows_canonical E (fs_record state)" and nested: "nested_values_ok E (tr_updates p)"
  shows "record_evolves (fs_record state) after \<and> wf_run_record after \<and> rows_canonical E after
    \<and> allowed (rr_workflow_state (fs_record state)) (rr_workflow_state after)
    \<and> rr_workflow_state (fs_record state) = tr_from_state p \<and> rr_workflow_state after = tr_to_state p"
proof -
  let ?r = "fs_record state" and ?u = "tr_updates p"
  have facts: "apply_updates E ?r ?u (Some (tr_to_state p, tr_stop_reason p)) = Inr after"
    "tr_from_state p = rr_workflow_state ?r" "allowed (tr_from_state p) (tr_to_state p)"
    "list_all (\<lambda>f. f \<in> set TRANSITION_UPDATE_FIELDS) (ru_assigned ?u)"
    "extends (rr_completed_milestones ?r) (rr_completed_milestones after)"
    "extends (rr_milestone_checkpoints ?r) (rr_milestone_checkpoints after)"
    using assms(1) unfolding apply_transition_def Let_def
    by (auto simp: list_ex_iff list_all_iff split: option.splits)
  note frame = apply_updates_frame [OF facts(1)]
  have na: "f \<notin> set (ru_assigned ?u)" if "f \<notin> set TRANSITION_UPDATE_FIELDS" for f
    using facts(4) that by (auto simp: list_all_iff)
  have ws: "rr_workflow_state after = tr_to_state p" using frame(4) by simp
  have "run_path (rr_workflow_state ?r) (rr_workflow_state after)"
    using facts(2,3) ws by (metis path_refl path_step)
  moreover have "rr_provider_runs after = rr_provider_runs ?r"
    "rr_verification_results after = rr_verification_results ?r" "rr_approvals after = rr_approvals ?r"
    by (rule apply_updates_rows(3-5) [OF facts(1) rows nested], rule na, simp add: field_set_defs)+
  ultimately show ?thesis
    using facts ws frame(1,2,3) apply_updates_rows(1) [OF facts(1) rows nested]
    by (simp add: record_evolves_def rows_grow_refl)
qed

lemma fields_disjoint:
  "f \<in> set HISTORY_FIELDS \<Longrightarrow> f \<notin> set ACCEPTED_FIELDS"
  "f \<in> set HISTORY_FIELDS \<Longrightarrow> f \<notin> set REJECTED_FIELDS"
  by (auto simp: HISTORY_FIELDS_def ACCEPTED_FIELDS_def REJECTED_FIELDS_def)

lemma apply_accepted_cases:
  assumes "apply_accepted E state p d = Inr (after, ops)"
  obtains evidence view where "persistence_view state (ra_operation_id p) d = Inr (evidence, view)"
    and "check_accepted evidence view p = Inr ()"
    and "apply_updates E (fs_record state) (ra_updates p) None = Inr after"
    and "counters_move_by_one (ra_updates p) (fs_record state) after"
    and "ops = (fs_operations state)(ra_operation_id p \<mapsto>
           persist_operation view ACCEPTED (Some (ra_accepted_result_sha256 p)))"
  using assms by (auto simp: apply_accepted_def)

lemma apply_rejected_cases:
  assumes "apply_rejected E state p d = Inr (after, ops)"
  obtains evidence view where "persistence_view state (rj_operation_id p) d = Inr (evidence, view)"
    and "check_rejected evidence view p = Inr ()"
    and "apply_updates E (fs_record state) (rj_updates p) None = Inr after"
    and "counters_move_by_one (rj_updates p) (fs_record state) after"
    and "rr_successful_review_rounds after = rr_successful_review_rounds (fs_record state)"
    and "ops = (fs_operations state)(rj_operation_id p \<mapsto>
           persist_operation view REJECTED (rj_verdict_sha256 p))"
  using assms by (auto simp: apply_rejected_def)

lemma apply_accepted_evolves:
  assumes "apply_accepted E state p d = Inr (after, ops)"
    and rows: "rows_canonical E (fs_record state)" and nested: "nested_values_ok E (ra_updates p)"
  shows "record_evolves (fs_record state) after \<and> wf_run_record after \<and> rows_canonical E after
    \<and> rr_workflow_state after = rr_workflow_state (fs_record state)"
proof -
  obtain evidence view where u: "apply_updates E (fs_record state) (ra_updates p) None = Inr after"
    and c: "check_accepted evidence view p = Inr ()"
    using assms(1) by (rule apply_accepted_cases)
  have "\<forall>f \<in> set HISTORY_FIELDS. f \<notin> set (ru_assigned (ra_updates p))"
    using c fields_disjoint(1) by (auto simp: check_accepted_def Let_def list_ex_iff)
  then show ?thesis
    using plain_updates_evolve [OF u rows nested] apply_updates_frame(2,4) [OF u] apply_updates_rows(1) [OF u rows nested]
    by simp
qed

lemma apply_rejected_evolves:
  assumes "apply_rejected E state p d = Inr (after, ops)"
    and rows: "rows_canonical E (fs_record state)" and nested: "nested_values_ok E (rj_updates p)"
  shows "record_evolves (fs_record state) after \<and> wf_run_record after \<and> rows_canonical E after
    \<and> rr_workflow_state after = rr_workflow_state (fs_record state)"
proof -
  obtain evidence view where u: "apply_updates E (fs_record state) (rj_updates p) None = Inr after"
    and c: "check_rejected evidence view p = Inr ()"
    using assms(1) by (rule apply_rejected_cases)
  have "\<forall>f \<in> set HISTORY_FIELDS. f \<notin> set (ru_assigned (rj_updates p))"
    using c fields_disjoint(2) by (auto simp: check_rejected_def Let_def list_ex_iff)
  then show ?thesis
    using plain_updates_evolve [OF u rows nested] apply_updates_frame(2,4) [OF u] apply_updates_rows(1) [OF u rows nested]
    by simp
qed

end
