(* ===== verification/Lifecycle_Invariants.thy ===== *)
theory Lifecycle_Invariants
  imports Record_Evolution
begin

text \<open>
  Invariants of the fold: the record stays well formed, its rows stay normal forms, it evolves only as \<open>record_evolves\<close> allows,
  the remembered body digest is the record's own, every operation's evidence ladder is complete
  and in order, and an open mutation stands exactly where its declaration says.
\<close>

section \<open>One step taken apart\<close>

lemma fold_step_cases:
  assumes "fold_step E expected (Some s) (event, sha) = Inr s'"
  obtains t digest where "admit_event s event = Inr ()"
    and "payload_effect E s event sha = Inr t"
    and "next_digest E s (le_payload event) (fs_record t) = Inr digest"
    and "s' = t\<lparr>fs_body_digest := digest, fs_sequence := le_sequence event,
                fs_event_id := le_event_id event, fs_event_sha256 := sha,
                fs_prev_event_digest := le_prev_event_digest event,
                fs_open_mutation := advance_mutation (fs_open_mutation s) (fs_open_mutation t)\<rparr>"
  using assms by (auto simp: fold_step_def)

lemma genesis_step_cases:
  assumes "genesis_step E event sha expected = Inr s"
  obtains r where "genesis_record (le_payload event) = Some r"
    and "fs_record s = r" and "fs_pins s = le_pins event" and "fs_body_digest s = body_digest E r"
    and "fs_sequence s = 1" and "le_sequence event = 1" and "fs_open_mutation s = None"
    and "fs_operations s = Map.empty" and "fs_causative_events s = []"
    and "rr_run_id r = pn_run_id (le_pins event)"
    and "rr_repository_identity r = pn_repository_identity (le_pins event)"
    and "rr_contract_sha256 r = pn_contract_sha256 (le_pins event)"
    and "rr_policy_digest r = Some (pn_policy_digest (le_pins event))"
    and "rr_stage_start_id r = Some (pn_stage_start_id (le_pins event))"
    and "fs_event_id s = le_event_id event" and "fs_event_sha256 s = sha" and "fs_prev_event_digest s = None"
    and "expected \<noteq> None \<Longrightarrow> expected = Some (fs_pins s)"
    and "fs_genesis s = le_event_type event" and "le_event_type event \<in> set GENESIS_TYPES"
    and "le_event_type event = RUN_INITIALIZED \<Longrightarrow> payload_event_type (le_payload event) = le_event_type event \<Longrightarrow>
           rr_workflow_state r = IDLE"
proof -
  obtain r where r: "genesis_record (le_payload event) = Some r"
    using assms by (auto simp: genesis_step_def)
  show ?thesis
  proof (rule that)
    show "rr_workflow_state r = IDLE" if "le_event_type event = RUN_INITIALIZED"
        "payload_event_type (le_payload event) = le_event_type event"
      using assms that r
      by (cases "le_payload event") (auto simp: genesis_step_def genesis_record_def Let_def
          dest: constituent_of_type)
  qed (use assms r in \<open>auto simp: genesis_step_def Let_def\<close>)
qed

text \<open>What the dispatch leaves alone, whatever the payload.\<close>

lemma mark_caused_frame:
  assumes "mark_caused event sha i s = Inr t"
  shows "fs_record t = fs_record s" and "fs_pins t = fs_pins s" and "fs_open_mutation t = fs_open_mutation s"
    and "fs_genesis t = fs_genesis s" and "fs_body_digest t = fs_body_digest s"
  using assms by (auto simp: mark_caused_def split: option.splits)

lemma payload_effect_frame:
  assumes "payload_effect E s event sha = Inr t"
  shows "((\<nexists>c. le_payload event = Constituent c) \<longrightarrow> fs_record t = fs_record s)
    \<and> fs_pins t = fs_pins s \<and> fs_genesis t = fs_genesis s"
proof (cases "\<exists>p. le_payload event = Constituent (StateTransitioned p)")
  case True
  then obtain p after where "le_payload event = Constituent (StateTransitioned p)"
    and "mark_caused event sha (tr_operation_id p) (s\<lparr>fs_record := after\<rparr>) = Inr t"
    using assms by (auto simp: payload_effect_def Let_def)
  then show ?thesis by (auto dest: mark_caused_frame)
qed (use assms in \<open>auto simp: payload_effect_def Let_def split: event_payload.splits constituent_payload.splits\<close>)

lemma payload_effect_record:
  assumes "payload_effect E s event sha = Inr t" and payload: "validate_payload E (le_payload event)"
    and rows: "rows_canonical E (fs_record s)"
  shows "record_evolves (fs_record s) (fs_record t) \<and> rows_canonical E (fs_record t)
    \<and> (wf_run_record (fs_record s) \<longrightarrow> wf_run_record (fs_record t))"
proof (cases "le_payload event")
  case (Constituent c)
  show ?thesis
  proof (cases c)
    case (RunRecordUpdated p)
    with payload Constituent have "nested_values_ok E (up_updates p)" by (auto dest: valid_updates_nested)
    with assms(1) rows Constituent RunRecordUpdated show ?thesis
      by (auto simp: payload_effect_def Let_def dest: apply_record_update_evolves)
  next
    case (RecoveryLedgerAppended p)
    with assms(1) rows Constituent show ?thesis
      by (auto simp: payload_effect_def Let_def dest: apply_ledger_evolves)
  next
    case (OperationResultAccepted p)
    with payload Constituent have "nested_values_ok E (ra_updates p)" by (auto dest: valid_updates_nested)
    with assms(1) rows Constituent OperationResultAccepted show ?thesis
      by (auto simp: payload_effect_def Let_def dest: apply_accepted_evolves)
  next
    case (OperationResultRejected p)
    with payload Constituent have "nested_values_ok E (rj_updates p)" by (auto dest: valid_updates_nested)
    with assms(1) rows Constituent OperationResultRejected show ?thesis
      by (auto simp: payload_effect_def Let_def dest: apply_rejected_evolves)
  next
    case (StateTransitioned p)
    with payload Constituent have nested: "nested_values_ok E (tr_updates p)" by (auto dest: valid_updates_nested)
    from assms(1) Constituent StateTransitioned obtain after where
      a: "apply_transition E s p = Inr after" and
      m: "mark_caused event sha (tr_operation_id p) (s\<lparr>fs_record := after\<rparr>) = Inr t"
      by (auto simp: payload_effect_def Let_def)
    show ?thesis
      using apply_transition_evolves [OF a rows nested] mark_caused_frame [OF m] by auto
  qed
qed (use assms in \<open>auto simp: payload_effect_def Let_def\<close>)

section \<open>The record\<close>

definition digest_current :: "pyenv \<Rightarrow> fold_state \<Rightarrow> bool" where
  "digest_current E s \<longleftrightarrow> fs_body_digest s = body_digest E (fs_record s)"

definition pins_agree :: "fold_state \<Rightarrow> bool" where
  "pins_agree s \<longleftrightarrow>
     rr_run_id (fs_record s) = pn_run_id (fs_pins s)
     \<and> rr_repository_identity (fs_record s) = pn_repository_identity (fs_pins s)
     \<and> rr_contract_sha256 (fs_record s) = pn_contract_sha256 (fs_pins s)
     \<and> rr_policy_digest (fs_record s) = Some (pn_policy_digest (fs_pins s))
     \<and> rr_stage_start_id (fs_record s) = Some (pn_stage_start_id (fs_pins s))"

definition sound_record :: "pyenv \<Rightarrow> fold_state \<Rightarrow> bool" where
  "sound_record E s \<longleftrightarrow>
     wf_run_record (fs_record s) \<and> rows_canonical E (fs_record s) \<and> digest_current E s \<and> pins_agree s
     \<and> 1 \<le> fs_sequence s"

lemma fold_step_record:
  assumes "fold_step E expected (Some s) (event, sha) = Inr s'"
  shows "sound_record E s \<Longrightarrow> validate_payload E (le_payload event) \<Longrightarrow> record_evolves (fs_record s) (fs_record s')"
    and "fs_pins s' = fs_pins s"
    and "fs_sequence s' = fs_sequence s + 1" and "fs_genesis s' = fs_genesis s"
    and "sound_record E s \<Longrightarrow> validate_payload E (le_payload event) \<Longrightarrow> sound_record E s'"
    and "fs_event_sha256 s' = sha" and "fs_prev_event_digest s' = Some (fs_event_sha256 s)"
proof -
  obtain t digest where adm: "admit_event s event = Inr ()" and eff: "payload_effect E s event sha = Inr t"
    and dig: "next_digest E s (le_payload event) (fs_record t) = Inr digest"
    and s': "s' = t\<lparr>fs_body_digest := digest, fs_sequence := le_sequence event,
                fs_event_id := le_event_id event, fs_event_sha256 := sha,
                fs_prev_event_digest := le_prev_event_digest event,
                fs_open_mutation := advance_mutation (fs_open_mutation s) (fs_open_mutation t)\<rparr>"
    using assms by (rule fold_step_cases)
  note f = payload_effect_frame [OF eff]
  have seq: "le_sequence event = fs_sequence s + 1" and prev: "le_prev_event_digest event = Some (fs_event_sha256 s)"
    using adm by (auto simp: admit_event_def)
  show "fs_pins s' = fs_pins s" "fs_sequence s' = fs_sequence s + 1" "fs_genesis s' = fs_genesis s"
    "fs_event_sha256 s' = sha" "fs_prev_event_digest s' = Some (fs_event_sha256 s)"
    using f seq prev by (simp_all add: s')
  assume sound: "sound_record E s" and payload: "validate_payload E (le_payload event)"
  note r = payload_effect_record [OF eff payload, OF sound [unfolded sound_record_def, THEN conjunct2, THEN conjunct1]]
  have same: "same_identity (fs_record s) (fs_record t)" using r by (simp add: record_evolves_def)
  show "record_evolves (fs_record s) (fs_record s')" using r by (simp add: s')
  have "digest = body_digest E (fs_record t)"
  proof (cases "\<exists>c. le_payload event = Constituent c")
    case True
    then show ?thesis using dig by (auto simp: next_digest_def Let_def)
  next
    case False
    then have "digest = fs_body_digest s" and "fs_record t = fs_record s"
      using dig f by (auto simp: next_digest_def split: event_payload.splits)
    then show ?thesis using sound by (simp add: sound_record_def digest_current_def)
  qed
  then show "sound_record E s'"
    using sound r f same seq
    by (auto simp: s' sound_record_def digest_current_def pins_agree_def same_identity_def)
qed

end
