(* ===== verification/Operation_Ladder.thy ===== *)
theory Operation_Ladder
  imports Lifecycle_Invariants
begin

text \<open>
  The evidence ladder of a provider operation: request, dispatch intent, receipt or pre-spawn
  failure, received result, verdict, persistence, caused transition. \<open>ladder_ok\<close> says that every
  rung rests on the one below it and that \<open>highest_phase\<close> is exactly what the evidence amounts to;
  \<open>ladder_le\<close> that evidence, once recorded, is never rewritten or withdrawn.
\<close>

section \<open>Attempts\<close>

definition attempt_ok :: "attempt_record \<Rightarrow> bool" where
  "attempt_ok a \<longleftrightarrow>
     (at_receipt_sha256 a \<noteq> None \<longrightarrow> at_pre_spawn_failure_sha256 a = None)
     \<and> (at_raw_result_sha256 a \<noteq> None \<longrightarrow> at_receipt_sha256 a \<noteq> None)
     \<and> (at_validated_sha256 a \<noteq> None \<longrightarrow> at_raw_result_sha256 a \<noteq> None)
     \<and> (at_validated_sha256 a = None \<longleftrightarrow> at_verdict a = None)"

definition attempts_ok :: "attempt_record list \<Rightarrow> bool" where
  "attempts_ok as \<longleftrightarrow>
     (\<forall>i < length as. at_attempt (as ! i) = int i + 1)
     \<and> length as \<le> 3
     \<and> (\<forall>a \<in> set as. attempt_ok a)
     \<and> (\<forall>a \<in> set (butlast as). at_pre_spawn_failure_sha256 a \<noteq> None)"

definition kept :: "'a option \<Rightarrow> 'a option \<Rightarrow> bool" where
  "kept x y \<longleftrightarrow> (x \<noteq> None \<longrightarrow> y = x)"

lemma kept_refl [simp]: "kept x x" by (simp add: kept_def)
lemma kept_trans: "kept x y \<Longrightarrow> kept y z \<Longrightarrow> kept x z" by (auto simp: kept_def)
lemma kept_None [simp]: "kept None y" by (simp add: kept_def)

definition attempt_le :: "attempt_record \<Rightarrow> attempt_record \<Rightarrow> bool" where
  "attempt_le a b \<longleftrightarrow>
     at_attempt b = at_attempt a \<and> at_intent_sha256 b = at_intent_sha256 a
     \<and> kept (at_receipt_sha256 a) (at_receipt_sha256 b)
     \<and> kept (at_pre_spawn_failure_sha256 a) (at_pre_spawn_failure_sha256 b)
     \<and> kept (at_raw_result_sha256 a) (at_raw_result_sha256 b)
     \<and> kept (at_validated_sha256 a) (at_validated_sha256 b) \<and> kept (at_verdict a) (at_verdict b)"

lemma attempt_le_refl [simp]: "attempt_le a a" by (simp add: attempt_le_def)

lemma attempt_le_trans: "attempt_le a b \<Longrightarrow> attempt_le b c \<Longrightarrow> attempt_le a c"
  unfolding attempt_le_def by (metis kept_trans)

definition attempts_le :: "attempt_record list \<Rightarrow> attempt_record list \<Rightarrow> bool" where
  "attempts_le as bs \<longleftrightarrow> length as \<le> length bs \<and> (\<forall>i < length as. attempt_le (as ! i) (bs ! i))"

lemma attempts_le_refl [simp]: "attempts_le as as" by (simp add: attempts_le_def)

lemma attempts_le_trans: "attempts_le as bs \<Longrightarrow> attempts_le bs cs \<Longrightarrow> attempts_le as cs"
  unfolding attempts_le_def by (meson attempt_le_trans order_trans less_le_trans)

lemma attempts_le_snoc: "attempts_le as (as @ [a])"
  by (simp add: attempts_le_def nth_append)

lemma attempts_le_last:
  assumes "as \<noteq> []" and "attempt_le (last as) l"
  shows "attempts_le as (butlast as @ [l])"
proof -
  have "attempt_le (as ! i) ((butlast as @ [l]) ! i)" if "i < length as" for i
  proof (cases "i < length as - 1")
    case True
    then show ?thesis by (simp add: nth_append nth_butlast)
  next
    case False
    then have "i = length as - 1" using that by simp
    then show ?thesis using assms by (simp add: nth_append last_conv_nth)
  qed
  then show ?thesis using assms(1) by (simp add: attempts_le_def Suc_leI)
qed

text \<open>The phase an evidence ladder amounts to.\<close>

definition attempts_phase :: "attempt_record list \<Rightarrow> operation_phase" where
  "attempts_phase as =
     (case last_opt as of
        None \<Rightarrow> PH_REQUEST_CREATED
      | Some a \<Rightarrow>
          if at_validated_sha256 a \<noteq> None then PH_RESULT_VALIDATED
          else if at_raw_result_sha256 a \<noteq> None then PH_RESULT_RECEIVED
          else if at_receipt_sha256 a \<noteq> None then PH_DISPATCH_RECEIPT
          else PH_DISPATCH_INTENT)"

definition operation_phase_of :: "operation_record \<Rightarrow> operation_phase" where
  "operation_phase_of v =
     (if op_transition_event_id v \<noteq> None then PH_TRANSITION_APPLIED
      else if op_persisted v \<noteq> None then PH_RESULT_PERSISTED
      else attempts_phase (op_attempts v))"

definition accepted_on_valid :: "operation_record \<Rightarrow> bool" where
  "accepted_on_valid v \<longleftrightarrow>
     (op_persisted v = Some ACCEPTED \<longrightarrow>
        op_attempts v \<noteq> [] \<and> at_verdict (last (op_attempts v)) = Some VALID
        \<and> op_persisted_verdict_sha256 v \<noteq> None
        \<and> at_validated_sha256 (last (op_attempts v)) = op_persisted_verdict_sha256 v)"

definition ladder_ok :: "pystr \<Rightarrow> operation_record \<Rightarrow> bool" where
  "ladder_ok i v \<longleftrightarrow>
     op_operation_id v = i \<and> sha256_hex i
     \<and> op_role v = st_role (op_step v) \<and> op_milestone_id v = step_milestone_id (op_step v)
     \<and> attempts_ok (op_attempts v)
     \<and> accepted_on_valid v
     \<and> (op_transition_event_id v \<noteq> None \<longrightarrow> op_persisted v \<noteq> None)
     \<and> op_highest_phase v = operation_phase_of v"

definition ladder_le :: "operation_record \<Rightarrow> operation_record \<Rightarrow> bool" where
  "ladder_le v w \<longleftrightarrow>
     op_operation_id w = op_operation_id v \<and> op_step w = op_step v
     \<and> op_request_sha256 w = op_request_sha256 v \<and> op_adapter w = op_adapter v
     \<and> attempts_le (op_attempts v) (op_attempts w)
     \<and> (op_persisted v \<noteq> None \<longrightarrow> op_attempts w = op_attempts v)
     \<and> kept (op_persisted v) (op_persisted w)
     \<and> (op_persisted v \<noteq> None \<longrightarrow> op_persisted_verdict_sha256 w = op_persisted_verdict_sha256 v)
     \<and> kept (op_transition_event_id v) (op_transition_event_id w)
     \<and> phase_rank (op_highest_phase v) \<le> phase_rank (op_highest_phase w)"

lemma ladder_le_refl [simp]: "ladder_le v v" by (simp add: ladder_le_def)

lemma ladder_le_trans: "ladder_le u v \<Longrightarrow> ladder_le v w \<Longrightarrow> ladder_le u w"
  unfolding ladder_le_def kept_def by (auto intro: attempts_le_trans)

section \<open>One attempt event\<close>

lemma expect_artifact_Inr:
  "expect_artifact r kind i name attempt = Inr u \<Longrightarrow>
     er_kind r = kind \<and> operation_artifact_path i name attempt = Inr (er_path r) \<and> sha256_hex i"
  by (auto simp: expect_artifact_def require_reference_def operation_artifact_path_def)

lemma expect_artifact_attempt:
  "expect_artifact r kind i name (Some n) = Inr u \<Longrightarrow> 1 \<le> n \<and> n \<le> 3"
  by (auto simp: expect_artifact_def operation_artifact_path_def attempt_directory_name_def
      MAX_OPERATION_ATTEMPTS_def)

lemma intent_step_ok:
  assumes s: "intent_step i as p = Inr (bs, ph, refs)" and ok: "attempts_ok as"
  shows "attempts_ok bs" and "attempts_le as bs" and "ph = attempts_phase bs"
    and "phase_rank (attempts_phase as) \<le> phase_rank ph" and "bs \<noteq> []"
proof -
  let ?a = "new_attempt (ae_attempt p) (er_sha256 (ae_reference p))"
  from s have n: "ae_attempt p = int (length as) + 1"
    and fail: "\<not> (case last_opt as of None \<Rightarrow> False | Some l \<Rightarrow> at_pre_spawn_failure_sha256 l = None)"
    and ref: "\<exists>u. expect_artifact (ae_reference p) EK_DISPATCH_INTENT i DISPATCH_INTENT_FILE_NAME (Some (ae_attempt p)) = Inr u"
    and bs: "bs = as @ [?a]" and ph: "ph = PH_DISPATCH_INTENT"
    by (auto simp: intent_step_def Let_def)
  have last: "as \<noteq> [] \<Longrightarrow> at_pre_spawn_failure_sha256 (last as) \<noteq> None"
    using fail by (simp add: last_opt_def)
  have le3: "length bs \<le> 3" using ref expect_artifact_attempt n bs by fastforce
  have "\<forall>a \<in> set as. at_pre_spawn_failure_sha256 a \<noteq> None"
    using ok last by (cases as rule: rev_cases) (auto simp: attempts_ok_def)
  then show "attempts_ok bs"
    using ok le3 n unfolding bs
    by (auto simp: attempts_ok_def nth_append new_attempt_def attempt_ok_def less_Suc_eq)
  show "attempts_le as bs" unfolding bs by (rule attempts_le_snoc)
  show "ph = attempts_phase bs" by (simp add: ph bs attempts_phase_def new_attempt_def last_opt_def)
  show "bs \<noteq> []" by (simp add: bs)
  show "phase_rank (attempts_phase as) \<le> phase_rank ph"
  proof (cases "as = []")
    case False
    then have "attempt_ok (last as)" using ok by (simp add: attempts_ok_def)
    then show ?thesis
      using last [OF False] False by (auto simp: ph attempts_phase_def last_opt_def attempt_ok_def)
  qed (simp add: ph attempts_phase_def)
qed

lemma attempts_phase_snoc: "attempts_phase (as @ [a]) = attempts_phase [a]"
  by (simp add: attempts_phase_def last_opt_def)

lemma attempts_phase_last: "as \<noteq> [] \<Longrightarrow> attempts_phase as = attempts_phase [last as]"
  by (simp add: attempts_phase_def last_opt_def)

lemma complete_attempt_ok:
  assumes "complete_attempt i ph l payload = Inr (l', ph', refs)" and "attempt_ok l"
    and "ph = attempts_phase [l]"
  shows "attempt_ok l' \<and> attempt_le l l' \<and> ph' = attempts_phase [l']
    \<and> phase_rank ph \<le> phase_rank ph'"
  using assms
  by (cases payload)
    (auto simp: attempt_ok_def attempt_le_def attempts_phase_def last_opt_def split: if_splits)

lemma attempts_ok_replace:
  assumes ok: "attempts_ok as" and ne: "as \<noteq> []" and l: "attempt_ok l" "attempt_le (last as) l"
  shows "attempts_ok (butlast as @ [l])"
proof -
  have "at_attempt ((butlast as @ [l]) ! i) = int i + 1" if "i < length as" for i
  proof -
    have "attempt_le (as ! i) ((butlast as @ [l]) ! i)"
      using attempts_le_last [OF ne l(2)] that by (simp add: attempts_le_def)
    then show ?thesis using ok that by (simp add: attempt_le_def attempts_ok_def)
  qed
  moreover have "\<forall>a \<in> set (butlast as @ [l]). attempt_ok a"
    using ok l(1) by (auto simp: attempts_ok_def dest: in_set_butlastD)
  ultimately show ?thesis using ok ne by (auto simp: attempts_ok_def)
qed

lemma attempt_step_ok:
  assumes s: "attempt_step i n view payload = Inr (bs, ph, refs)"
    and ok: "attempts_ok (op_attempts view)"
    and phase: "op_highest_phase view = attempts_phase (op_attempts view)"
  shows "attempts_ok bs \<and> attempts_le (op_attempts view) bs \<and> ph = attempts_phase bs
    \<and> phase_rank (op_highest_phase view) \<le> phase_rank ph"
proof (cases "\<exists>p. payload = OperationDispatchIntent p")
  case True
  then obtain p where "intent_step i (op_attempts view) p = Inr (bs, ph, refs)"
    using s by (auto simp: attempt_step_def Let_def)
  from intent_step_ok [OF this ok] phase show ?thesis by simp
next
  case False
  let ?as = "op_attempts view"
  from False s obtain l' where ne: "?as \<noteq> []"
    and c: "complete_attempt i (op_highest_phase view) (last ?as) payload = Inr (l', ph, refs)"
    and bs: "bs = butlast ?as @ [l']"
    by (cases payload) (auto simp: attempt_step_def Let_def last_opt_def split: if_splits)
  have l: "attempt_ok (last ?as)" using ok ne by (simp add: attempts_ok_def)
  have "op_highest_phase view = attempts_phase [last ?as]"
    using phase attempts_phase_last [OF ne] by simp
  note q = complete_attempt_ok [OF c l this]
  from q show ?thesis
    using attempts_ok_replace [OF ok ne] attempts_le_last [OF ne] attempts_phase_snoc
    by (auto simp: bs)
qed

section \<open>One event\<close>

definition operations_ok :: "fold_state \<Rightarrow> bool" where
  "operations_ok s \<longleftrightarrow>
     (\<forall>i v. fs_operations s i = Some v \<longrightarrow> ladder_ok i v
        \<and> (causative s i = None \<longleftrightarrow> op_transition_event_id v = None))
     \<and> dom (causative s) \<subseteq> dom (fs_operations s)"

definition operations_le :: "fold_state \<Rightarrow> fold_state \<Rightarrow> bool" where
  "operations_le s t \<longleftrightarrow>
     (\<forall>i v. fs_operations s i = Some v \<longrightarrow> (\<exists>w. fs_operations t i = Some w \<and> ladder_le v w))
     \<and> (\<forall>i c. causative s i = Some c \<longrightarrow> causative t i = Some c)"

lemma operations_le_refl: "operations_le s s"
  by (auto simp: operations_le_def)

lemma operations_le_trans: "operations_le s t \<Longrightarrow> operations_le t u \<Longrightarrow> operations_le s u"
  unfolding operations_le_def by (meson ladder_le_trans)

text \<open>Replacing one view by a later one.\<close>

lemma operations_update:
  assumes ok: "operations_ok s"
    and t: "fs_operations t = (fs_operations s)(i \<mapsto> w)" "causative t = causative s"
    and w: "ladder_ok i w"
    and v: "case fs_operations s i of
              None \<Rightarrow> op_transition_event_id w = None
            | Some v \<Rightarrow> ladder_le v w \<and> op_transition_event_id w = op_transition_event_id v"
  shows "operations_ok t \<and> operations_le s t"
proof (cases "fs_operations s i")
  case None
  then have "causative s i = None"
    using ok unfolding operations_ok_def by blast
  with None show ?thesis using ok t w v by (auto simp: operations_ok_def operations_le_def)
next
  case (Some v)
  then show ?thesis using ok t w v by (auto simp: operations_ok_def operations_le_def)
qed

lemma new_operation_ok:
  "sha256_hex (qc_operation_id p) \<Longrightarrow> ladder_ok (qc_operation_id p) (new_operation p)
     \<and> op_transition_event_id (new_operation p) = None"
  by (simp add: ladder_ok_def new_operation_def attempts_ok_def accepted_on_valid_def
      operation_phase_of_def attempts_phase_def)

lemma apply_operation_ok:
  assumes a: "apply_operation E s payload = Inr (ops, refs)" and ok: "operations_ok s"
    and t: "fs_operations t = ops" "causative t = causative s"
  shows "operations_ok t \<and> operations_le s t"
proof (cases "\<exists>p. payload = OperationRequestCreated p")
  case True
  then obtain p where p: "payload = OperationRequestCreated p" by blast
  with a have none: "fs_operations s (qc_operation_id p) = None"
    and ops: "ops = (fs_operations s)(qc_operation_id p \<mapsto> new_operation p)"
    and hex: "sha256_hex (qc_operation_id p)"
    by (auto simp: apply_operation_def dest: expect_artifact_Inr)
  show ?thesis
    by (rule operations_update [OF ok]) (use t ops none new_operation_ok [OF hex] in auto)
next
  case False
  with a obtain i n view bs ph where v: "fs_operations s i = Some view" "op_persisted view = None"
    and st: "attempt_step i n view payload = Inr (bs, ph, refs)"
    and ops: "ops = (fs_operations s)(i \<mapsto> view\<lparr>op_attempts := bs, op_highest_phase := ph\<rparr>)"
    by (cases payload) (auto simp: apply_operation_def split: option.splits)
  have lad: "ladder_ok i view" using ok v by (simp add: operations_ok_def)
  then have nt: "op_transition_event_id view = None" and ak: "attempts_ok (op_attempts view)"
    and ph: "op_highest_phase view = attempts_phase (op_attempts view)"
    using v(2) by (auto simp: ladder_ok_def operation_phase_of_def)
  note q = attempt_step_ok [OF st ak ph]
  show ?thesis
  proof (rule operations_update [OF ok, where i = i and w = "view\<lparr>op_attempts := bs, op_highest_phase := ph\<rparr>"])
    show "ladder_ok i (view\<lparr>op_attempts := bs, op_highest_phase := ph\<rparr>)"
      using lad q v(2) nt by (simp add: ladder_ok_def operation_phase_of_def accepted_on_valid_def)
    show "case fs_operations s i of None \<Rightarrow> op_transition_event_id (view\<lparr>op_attempts := bs, op_highest_phase := ph\<rparr>) = None
      | Some v \<Rightarrow> ladder_le v (view\<lparr>op_attempts := bs, op_highest_phase := ph\<rparr>)
          \<and> op_transition_event_id (view\<lparr>op_attempts := bs, op_highest_phase := ph\<rparr>) = op_transition_event_id v"
      using q v by (auto simp: ladder_le_def)
  qed (use t ops in simp_all)
qed

lemma persistence_view_Inr:
  assumes "persistence_view s i d = Inr (evidence, view)"
  shows "fs_operations s i = Some view" and "op_persisted view = None" and "result_evidence_of d = Some evidence"
    and "rv_operation_id evidence = i"
  using assms by (auto simp: persistence_view_def split: option.splits)

lemma persist_operation_ok:
  assumes ok: "operations_ok s" and v: "fs_operations s i = Some view" "op_persisted view = None"
    and t: "fs_operations t = (fs_operations s)(i \<mapsto> persist_operation view kind sha)"
      "causative t = causative s"
    and acc: "accepted_on_valid (persist_operation view kind sha)"
  shows "operations_ok t \<and> operations_le s t"
proof -
  have lad: "ladder_ok i view" using ok v by (simp add: operations_ok_def)
  then have nt: "op_transition_event_id view = None" using v(2) by (auto simp: ladder_ok_def)
  have "phase_rank (op_highest_phase view) \<le> 5"
    using lad nt v(2) by (auto simp: ladder_ok_def operation_phase_of_def attempts_phase_def split: option.split)
  then show ?thesis
    by (intro operations_update [OF ok t]) (use lad nt v acc in
      \<open>auto simp: ladder_ok_def ladder_le_def persist_operation_def operation_phase_of_def\<close>)
qed

lemma accepted_effect_ok:
  assumes a: "apply_accepted E s p d = Inr (after, ops)" and ok: "operations_ok s"
    and t: "fs_operations t = ops" "causative t = causative s"
  shows "operations_ok t \<and> operations_le s t"
proof -
  obtain evidence view where v: "persistence_view s (ra_operation_id p) d = Inr (evidence, view)"
    and c: "check_accepted evidence view p = Inr ()"
    and ops: "ops = (fs_operations s)(ra_operation_id p \<mapsto>
                persist_operation view ACCEPTED (Some (ra_accepted_result_sha256 p)))"
    using a by (rule apply_accepted_cases)
  have "accepted_on_valid (persist_operation view ACCEPTED (Some (ra_accepted_result_sha256 p)))"
    using c by (auto simp: check_accepted_def Let_def accepted_on_valid_def persist_operation_def
        last_opt_def split: if_splits)
  then show ?thesis
    using persist_operation_ok [OF ok persistence_view_Inr(1,2) [OF v]] ops t by metis
qed

lemma rejected_effect_ok:
  assumes a: "apply_rejected E s p d = Inr (after, ops)" and ok: "operations_ok s"
    and t: "fs_operations t = ops" "causative t = causative s"
  shows "operations_ok t \<and> operations_le s t"
proof -
  obtain evidence view where v: "persistence_view s (rj_operation_id p) d = Inr (evidence, view)"
    and ops: "ops = (fs_operations s)(rj_operation_id p \<mapsto>
                persist_operation view REJECTED (rj_verdict_sha256 p))"
    using a by (rule apply_rejected_cases)
  have "accepted_on_valid (persist_operation view REJECTED (rj_verdict_sha256 p))"
    by (simp add: accepted_on_valid_def persist_operation_def)
  then show ?thesis
    using persist_operation_ok [OF ok persistence_view_Inr(1,2) [OF v]] ops t by metis
qed

lemma apply_transition_operation:
  assumes "apply_transition E s p = Inr after" and "tr_operation_id p = Some i"
  shows "\<exists>view. fs_operations s i = Some view \<and> op_persisted view \<noteq> None \<and> causative s i = None"
  using assms
  by (cases "causative s i") (auto simp: apply_transition_def Let_def split: option.splits)

lemma transition_effect_ok:
  assumes a: "apply_transition E s p = Inr after"
    and m: "mark_caused event sha (tr_operation_id p) (s\<lparr>fs_record := after\<rparr>) = Inr t" and ok: "operations_ok s"
  shows "operations_ok t \<and> operations_le s t"
proof (cases "tr_operation_id p")
  case None
  with m have "fs_operations t = fs_operations s" "causative t = causative s"
    by (auto simp: mark_caused_def)
  then show ?thesis using ok by (simp add: operations_ok_def operations_le_def)
next
  case (Some i)
  obtain view where v: "fs_operations s i = Some view" "op_persisted view \<noteq> None"
    and free: "causative s i = None"
    using apply_transition_operation [OF a Some] by blast
  have lad: "ladder_ok i view" using ok v by (simp add: operations_ok_def)
  have nt: "op_transition_event_id view = None" using ok v free by (simp add: operations_ok_def)
  let ?w = "view\<lparr>op_transition_event_id := Some (le_event_id event),
      op_transition_state_version := Some (le_state_version event), op_highest_phase := PH_TRANSITION_APPLIED\<rparr>"
  have t: "fs_operations t = (fs_operations s)(i \<mapsto> ?w)"
    "causative t = (causative s)(i \<mapsto> (le_event_id event, le_state_version event, sha))"
    using m Some v by (auto simp: mark_caused_def update_conv')
  have w: "ladder_ok i ?w" using lad v(2) by (simp add: ladder_ok_def accepted_on_valid_def operation_phase_of_def)
  have le: "ladder_le view ?w"
    using lad v(2) nt by (auto simp: ladder_le_def ladder_ok_def operation_phase_of_def kept_def)
  have ne: "causative s j = Some c \<Longrightarrow> j \<noteq> i" for j c using free by auto
  have "operations_ok t" using ok t w v by (auto simp: operations_ok_def)
  moreover have "operations_le s t" unfolding operations_le_def t
    using le v by (auto simp: ne)
  ultimately show ?thesis ..
qed

lemma same_operations:
  "operations_ok s \<Longrightarrow> fs_operations t = fs_operations s \<Longrightarrow> causative t = causative s \<Longrightarrow>
     operations_ok t \<and> operations_le s t"
  by (simp add: operations_ok_def operations_le_def)

lemma payload_effect_operations:
  assumes "payload_effect E s event sha = Inr t" and ok: "operations_ok s"
  shows "operations_ok t \<and> operations_le s t"
proof (cases "le_payload event")
  case (Constituent c)
  show ?thesis
  proof (cases c)
    case (OperationResultAccepted p)
    with assms(1) Constituent show ?thesis
      by (auto simp: payload_effect_def Let_def elim!: accepted_effect_ok [OF _ ok, THEN conjunct1]
          accepted_effect_ok [OF _ ok, THEN conjunct2])
  next
    case (OperationResultRejected p)
    with assms(1) Constituent show ?thesis
      by (auto simp: payload_effect_def Let_def elim!: rejected_effect_ok [OF _ ok, THEN conjunct1]
          rejected_effect_ok [OF _ ok, THEN conjunct2])
  next
    case (StateTransitioned p)
    with assms(1) Constituent obtain after where
      "apply_transition E s p = Inr after"
      "mark_caused event sha (tr_operation_id p) (s\<lparr>fs_record := after\<rparr>) = Inr t"
      by (auto simp: payload_effect_def Let_def)
    then show ?thesis by (rule transition_effect_ok [OF _ _ ok])
  qed (use assms(1) Constituent in \<open>auto simp: payload_effect_def Let_def intro!: same_operations [OF ok, THEN conjunct1]
          same_operations [OF ok, THEN conjunct2]\<close>)
next
  case (OperationRequestCreated p)
  with assms(1) show ?thesis
    by (auto simp: payload_effect_def Let_def elim!: apply_operation_ok [OF _ ok, THEN conjunct1]
        apply_operation_ok [OF _ ok, THEN conjunct2])
next
  case (OperationDispatchIntent p)
  with assms(1) show ?thesis
    by (auto simp: payload_effect_def Let_def elim!: apply_operation_ok [OF _ ok, THEN conjunct1]
        apply_operation_ok [OF _ ok, THEN conjunct2])
next
  case (OperationDispatchReceived p)
  with assms(1) show ?thesis
    by (auto simp: payload_effect_def Let_def elim!: apply_operation_ok [OF _ ok, THEN conjunct1]
        apply_operation_ok [OF _ ok, THEN conjunct2])
next
  case (OperationPreSpawnFailed p)
  with assms(1) show ?thesis
    by (auto simp: payload_effect_def Let_def elim!: apply_operation_ok [OF _ ok, THEN conjunct1]
        apply_operation_ok [OF _ ok, THEN conjunct2])
next
  case (OperationResultReceived p)
  with assms(1) show ?thesis
    by (auto simp: payload_effect_def Let_def elim!: apply_operation_ok [OF _ ok, THEN conjunct1]
        apply_operation_ok [OF _ ok, THEN conjunct2])
next
  case (OperationResultValidated p)
  with assms(1) show ?thesis
    by (auto simp: payload_effect_def Let_def elim!: apply_operation_ok [OF _ ok, THEN conjunct1]
        apply_operation_ok [OF _ ok, THEN conjunct2])
qed (use assms(1) in \<open>auto simp: payload_effect_def Let_def apply_operation_def intro!: same_operations [OF ok, THEN conjunct1]
          same_operations [OF ok, THEN conjunct2]\<close>)

lemma fold_step_operations:
  assumes "fold_step E expected (Some s) (event, sha) = Inr s'" and ok: "operations_ok s"
  shows "operations_ok s'" and "operations_le s s'"
proof -
  obtain t digest where eff: "payload_effect E s event sha = Inr t"
    and s': "s' = t\<lparr>fs_body_digest := digest, fs_sequence := le_sequence event,
                fs_event_id := le_event_id event, fs_event_sha256 := sha,
                fs_prev_event_digest := le_prev_event_digest event,
                fs_open_mutation := advance_mutation (fs_open_mutation s) (fs_open_mutation t)\<rparr>"
    using assms(1) by (rule fold_step_cases)
  show "operations_ok s'" "operations_le s s'"
    using payload_effect_operations [OF eff ok] by (simp_all add: s' operations_ok_def operations_le_def)
qed

end
