(* ===== verification/Mutation_Protocol.thy ===== *)
theory Mutation_Protocol
  imports Operation_Ladder
begin

text \<open>
  The declared mutation (section 6.1 of the lifecycle contract): once a declaration is folded, only
  its constituents follow, in order and exactly as declared, and the record body they leave is the
  one the declaration fixed. \<open>mutation_ok\<close> says where an open mutation stands.
\<close>

section \<open>The manifest\<close>

definition digest_at :: "pystr \<Rightarrow> manifest_constituent list \<Rightarrow> nat \<Rightarrow> pystr" where
  "digest_at prior cs n = (if n = 0 then prior else mc_after_body_digest (cs ! (n - 1)))"

lemma validate_manifest_nth:
  assumes "validate_manifest prior pos previous cs = Some final" and "i < length cs"
  shows "mc_index (cs ! i) = pos + int i \<and> mc_sequence (cs ! i) = prior + 1 + pos + int i
    \<and> mc_event_type (cs ! i) = constituent_event_type (mc_payload (cs ! i))
    \<and> mc_before_body_digest (cs ! i) = before_body_digest (mc_payload (cs ! i))
    \<and> mc_after_body_digest (cs ! i) = after_body_digest (mc_payload (cs ! i))
    \<and> mc_before_body_digest (cs ! i) = digest_at previous cs i"
  using assms
proof (induction prior pos previous cs arbitrary: i rule: validate_manifest.induct)
  case (2 prior pos previous c cs)
  show ?case
  proof (cases i)
    case 0
    with 2 show ?thesis by (auto simp: digest_at_def)
  next
    case (Suc j)
    from "2.prems" have v: "validate_manifest prior (pos + 1) (mc_after_body_digest c) cs = Some final"
      by auto
    have j: "j < length cs" using "2.prems" Suc by simp
    have "digest_at (mc_after_body_digest c) cs j = digest_at previous (c # cs) (Suc j)"
      by (cases j) (simp_all add: digest_at_def)
    with "2.IH" [OF v j] "2.prems" Suc show ?thesis by (auto simp: algebra_simps)
  qed
qed simp

lemma validate_manifest_final:
  "validate_manifest prior pos previous cs = Some final \<Longrightarrow> final = digest_at previous cs (length cs)"
proof (induction prior pos previous cs rule: validate_manifest.induct)
  case (2 prior pos previous c cs)
  then have "final = digest_at (mc_after_body_digest c) cs (length cs)" by auto
  then show ?case by (cases cs) (auto simp: digest_at_def)
qed (simp add: digest_at_def)

text \<open>Equal dumps of constituents of one type carry the same body digests.\<close>

lemma dump_constituent_digests:
  assumes "dump_payload p = dump_payload (Constituent c)"
    and "payload_event_type p = constituent_event_type c"
  shows "\<exists>d. p = Constituent d \<and> before_body_digest d = before_body_digest c
    \<and> after_body_digest d = after_body_digest c"
proof -
  obtain d where d: "p = Constituent d" using constituent_of_type [OF assms(2)] by blast
  have "constituent_event_type d = constituent_event_type c" using assms(2) by (simp add: d)
  then show ?thesis
    using assms(1) d
    by (cases d; cases c)
      (auto simp: dump_record_updated_def dump_ledger_appended_def dump_result_accepted_def
        dump_result_rejected_def dump_state_transitioned_def)
qed

section \<open>Where an open mutation stands\<close>

definition budgets_known :: "mutation_declaration \<Rightarrow> bool" where
  "budgets_known d \<longleftrightarrow>
     fst ` set (budgets_of (recovery_evidence (Some d))) \<subseteq> record_field_value ` set COUNTER_FIELDS"

definition mutation_ok :: "pyenv \<Rightarrow> fold_state \<Rightarrow> bool" where
  "mutation_ok E s \<longleftrightarrow>
     (case fs_open_mutation s of
        None \<Rightarrow> True
      | Some m \<Rightarrow>
          let d = om_declaration m; n = om_applied m; cs = md_constituents d in
          validate_declaration_model E d \<and> budgets_known d \<and> n < length cs
          \<and> om_declaration_sequence m = md_prior_sequence d + 1
          \<and> fs_sequence s = om_declaration_sequence m + int n
          \<and> fs_body_digest s = digest_at (md_prior_body_digest d) cs n)"

definition valid_item :: "pyenv \<Rightarrow> lifecycle_event \<times> pystr \<Rightarrow> bool" where
  "valid_item E item \<longleftrightarrow> validate_event E (fst item) = Some (fst item)"

lemma valid_item_type: "valid_item E (event, sha) \<Longrightarrow> payload_event_type (le_payload event) = le_event_type event"
  by (simp add: valid_item_def validate_event_def)

lemma valid_item_payload: "valid_item E (event, sha) \<Longrightarrow> validate_payload E (le_payload event)"
  by (simp add: valid_item_def validate_event_def)

lemma declaration_manifest:
  "validate_declaration_model E d \<Longrightarrow>
     validate_manifest (md_prior_sequence d) 1 (md_prior_body_digest d) (md_constituents d)
       = Some (md_final_body_digest d) \<and> 2 \<le> length (md_constituents d)"
  by (auto simp: validate_declaration_model_def)

text \<open>A declaration that the fold admits names known budgets only.\<close>

lemma validate_declaration_budgets:
  assumes "validate_declaration E s event d = Inr u"
  shows "budgets_known d"
proof (cases "md_evidence d")
  case (RecoveryCommandEvidence e)
  with assms show ?thesis
    by (auto simp: validate_declaration_def validate_recovery_declaration_def Let_def budgets_known_def
        validate_budget_effects_def recovery_evidence_def budgets_of_def list_ex_iff)
qed (auto simp: budgets_known_def recovery_evidence_def budgets_of_def)

lemma payload_effect_open:
  assumes "payload_effect E s event sha = Inr t"
  shows "(\<exists>d. le_payload event = ApplicationMutationDeclared d \<and> fs_open_mutation s = None
            \<and> validate_declaration E s event d = Inr ()
            \<and> fs_open_mutation t = Some \<lparr>om_declaration = d, om_declaration_sequence = le_sequence event, om_applied = 0\<rparr>)
    \<or> (\<nexists>d. le_payload event = ApplicationMutationDeclared d) \<and> fs_open_mutation t = fs_open_mutation s"
proof (cases "le_payload event")
  case (Constituent c)
  then show ?thesis using assms
    by (cases c) (auto simp: payload_effect_def Let_def dest: mark_caused_frame(3))
qed (use assms in \<open>auto simp: payload_effect_def Let_def\<close>)

section \<open>One event of an open mutation\<close>

lemma admit_open:
  assumes "admit_event s event = Inr u" and "fs_open_mutation s = Some m"
  shows "om_applied m < length (md_constituents (om_declaration m))
    \<and> (let c = md_constituents (om_declaration m) ! om_applied m in
        le_mutation_id event = Some (md_mutation_id (om_declaration m))
        \<and> le_mutation_index event = Some (mc_index c) \<and> le_event_type event = mc_event_type c
        \<and> le_recorded_at event = mc_recorded_at c \<and> le_sequence event = mc_sequence c
        \<and> dump_payload (le_payload event) = dump_payload (Constituent (mc_payload c)))"
  using assms by (auto simp: admit_event_def expected_constituent_def Let_def split: option.splits)

lemma constituent_step:
  assumes step: "fold_step E expected (Some s) (event, sha) = Inr s'" and valid: "valid_item E (event, sha)"
    and ok: "mutation_ok E s" and m: "fs_open_mutation s = Some m"
  shows "fs_open_mutation s' =
      (if om_applied m + 1 = length (md_constituents (om_declaration m)) then None
       else Some (m\<lparr>om_applied := om_applied m + 1\<rparr>))"
    and "fs_body_digest s' =
      digest_at (md_prior_body_digest (om_declaration m)) (md_constituents (om_declaration m)) (om_applied m + 1)"
    and "\<exists>c. le_payload event = Constituent c"
proof -
  let ?d = "om_declaration m" and ?n = "om_applied m"
  let ?c = "md_constituents ?d ! ?n"
  obtain t digest where adm: "admit_event s event = Inr ()" and eff: "payload_effect E s event sha = Inr t"
    and dig: "next_digest E s (le_payload event) (fs_record t) = Inr digest"
    and s': "s' = t\<lparr>fs_body_digest := digest, fs_sequence := le_sequence event,
                fs_event_id := le_event_id event, fs_event_sha256 := sha,
                fs_prev_event_digest := le_prev_event_digest event,
                fs_open_mutation := advance_mutation (fs_open_mutation s) (fs_open_mutation t)\<rparr>"
    using step by (rule fold_step_cases)
  have n: "?n < length (md_constituents ?d)" and ty: "le_event_type event = mc_event_type ?c"
    and du: "dump_payload (le_payload event) = dump_payload (Constituent (mc_payload ?c))"
    using admit_open [OF adm m] by (auto simp: Let_def)
  have vd: "validate_declaration_model E ?d" using ok m by (simp add: mutation_ok_def Let_def)
  note man = validate_manifest_nth [OF conjunct1 [OF declaration_manifest [OF vd]] n]
  have "payload_event_type (le_payload event) = constituent_event_type (mc_payload ?c)"
    using valid_item_type [OF valid] ty man by simp
  then obtain c where c: "le_payload event = Constituent c"
    and after: "after_body_digest c = after_body_digest (mc_payload ?c)"
    using dump_constituent_digests [OF du] by blast
  show "\<exists>c. le_payload event = Constituent c" using c by blast
  show "fs_open_mutation s' =
      (if ?n + 1 = length (md_constituents ?d) then None else Some (m\<lparr>om_applied := ?n + 1\<rparr>))"
    by (simp add: s' advance_mutation_def m Let_def)
  have "digest = after_body_digest c" using dig c by (simp add: next_digest_def Let_def)
  also have "\<dots> = digest_at (md_prior_body_digest ?d) (md_constituents ?d) (?n + 1)"
    using after man by (simp add: digest_at_def)
  finally show "fs_body_digest s' = digest_at (md_prior_body_digest ?d) (md_constituents ?d) (?n + 1)"
    by (simp add: s')
qed

lemma fold_step_mutation:
  assumes step: "fold_step E expected (Some s) (event, sha) = Inr s'" and valid: "valid_item E (event, sha)"
    and ok: "mutation_ok E s"
  shows "mutation_ok E s'"
proof (cases "fs_open_mutation s")
  case (Some m)
  note c = constituent_step [OF step valid ok Some]
  have "fs_sequence s' = fs_sequence s + 1" by (rule fold_step_record(3) [OF step])
  then show ?thesis using ok Some c by (auto simp: mutation_ok_def Let_def)
next
  case None
  obtain t digest where adm: "admit_event s event = Inr ()" and eff: "payload_effect E s event sha = Inr t"
    and dig: "next_digest E s (le_payload event) (fs_record t) = Inr digest"
    and s': "s' = t\<lparr>fs_body_digest := digest, fs_sequence := le_sequence event,
                fs_event_id := le_event_id event, fs_event_sha256 := sha,
                fs_prev_event_digest := le_prev_event_digest event,
                fs_open_mutation := advance_mutation (fs_open_mutation s) (fs_open_mutation t)\<rparr>"
    using step by (rule fold_step_cases)
  from payload_effect_open [OF eff] show ?thesis
  proof (elim disjE exE conjE)
    fix d
    assume p: "le_payload event = ApplicationMutationDeclared d"
      and vd: "validate_declaration E s event d = Inr ()"
      and t: "fs_open_mutation t = Some \<lparr>om_declaration = d, om_declaration_sequence = le_sequence event, om_applied = 0\<rparr>"
    have "validate_declaration_model E d" using valid_item_payload [OF valid] p by simp
    moreover from this have "md_constituents d \<noteq> []"
      using declaration_manifest by fastforce
    moreover have "digest = fs_body_digest s" using dig p by (simp add: next_digest_def)
    moreover have "md_prior_body_digest d = fs_body_digest s" "md_prior_sequence d = fs_sequence s"
      using vd by (auto simp: validate_declaration_def)
    moreover have "le_sequence event = fs_sequence s + 1" using adm by (auto simp: admit_event_def)
    ultimately show ?thesis
      using validate_declaration_budgets [OF vd] t None
      by (simp add: mutation_ok_def s' advance_mutation_def digest_at_def)
  next
    assume "fs_open_mutation t = fs_open_mutation s"
    then show ?thesis using None by (simp add: mutation_ok_def s' advance_mutation_def)
  qed
qed

section \<open>The whole mutation\<close>

text \<open>A run of valid items from a fold state: the loop of \<open>fold\<close> past the genesis event.\<close>

definition fold_from :: "pyenv \<Rightarrow> fold_state \<Rightarrow> (lifecycle_event \<times> pystr) list \<Rightarrow> lifecycle_error + fold_state" where
  "fold_from E s items = rfold (\<lambda>s item. fold_step E None (Some s) item) s items"

lemma fold_from_simps [simp]:
  "fold_from E s [] = Inr s"
  "fold_from E s (item # items) = rbind (fold_step E None (Some s) item) (\<lambda>t. fold_from E t items)"
  by (simp_all add: fold_from_def)

lemma open_mutation_run:
  assumes "fold_from E s items = Inr s'" and "list_all (valid_item E) items" and "mutation_ok E s"
    and "fs_open_mutation s = Some m"
    and "om_applied m + length items \<le> length (md_constituents (om_declaration m))"
  shows "(let d = om_declaration m; cs = md_constituents d; n = om_applied m + length items in
      fs_body_digest s' = digest_at (md_prior_body_digest d) cs n
      \<and> fs_open_mutation s' = (if n = length cs then None else Some (m\<lparr>om_applied := n\<rparr>))
      \<and> map (\<lambda>i. le_mutation_index (fst i)) items = map (\<lambda>c. Some (mc_index c)) (take (length items) (drop (om_applied m) cs)))"
  using assms
proof (induction items arbitrary: s m)
  case Nil
  then show ?case by (auto simp: mutation_ok_def Let_def)
next
  case (Cons item items)
  obtain event sha where item: "item = (event, sha)" by (cases item)
  from Cons.prems item obtain t where st: "fold_step E None (Some s) (event, sha) = Inr t"
    and rest: "fold_from E t items = Inr s'" by auto
  have valid: "valid_item E (event, sha)" and valids: "list_all (valid_item E) items"
    using Cons.prems(2) item by auto
  let ?cs = "md_constituents (om_declaration m)"
  note c = constituent_step [OF st valid Cons.prems(3,4)]
  have n: "om_applied m < length ?cs" using Cons.prems(5) by simp
  have drop: "drop (om_applied m) ?cs = ?cs ! om_applied m # drop (om_applied m + 1) ?cs"
    using n by (simp add: Cons_nth_drop_Suc)
  have "admit_event s event = Inr ()" using st by (rule fold_step_cases)
  then have idx: "le_mutation_index event = Some (mc_index (?cs ! om_applied m))"
    using admit_open Cons.prems(4) by (fastforce simp: Let_def)
  show ?case
  proof (cases "om_applied m + 1 = length ?cs")
    case True
    then have "length items \<le> 0" using Cons.prems(5) unfolding list.size by linarith
    then have "items = []" by simp
    then show ?thesis using rest c True item idx drop by (simp add: Let_def)
  next
    case False
    then have om: "fs_open_mutation t = Some (m\<lparr>om_applied := om_applied m + 1\<rparr>)" using c by simp
    have "om_applied (m\<lparr>om_applied := om_applied m + 1\<rparr>) + length items
        \<le> length (md_constituents (om_declaration (m\<lparr>om_applied := om_applied m + 1\<rparr>)))"
      using Cons.prems(5) by simp
    from Cons.IH [OF rest valids fold_step_mutation [OF st valid Cons.prems(3)] om this]
    show ?thesis using item idx drop by (simp add: Let_def)
  qed
qed

end
