(* ===== verification/Chain_Load.thy ===== *)
theory Chain_Load
  imports Operation_Artifacts Mutation_Protocol
begin

text \<open>
  The verified load of a run directory (\<open>RunStateStore._stream_verified\<close> and its helpers in
  \<open>milestone_runner/state.py\<close>, \<open>ChainEntry\<close>, \<open>_payload_references\<close> and \<open>parse_witness_bytes\<close> in
  \<open>events.py\<close>). A directory is the map of what a no-follow walk finds at a relative path; reading
  strict JSON and building a typed model from it (\<open>json\<close>, pydantic) are the parameter \<open>wire\<close>.
\<close>

section \<open>What a no-follow read sees\<close>

text \<open>
  \<open>UnsafeNode\<close>: a symbolic link anywhere in the path, a directory or a special file at its end, or a
  component before the end that cannot be walked (\<open>BlockedPath\<close>).
\<close>

datatype unsafe_kind =
    SymbolicLink
  | DirectoryNode
  | SpecialFile
  | BlockedPath

datatype file_node =
    RegularFile bytes
  | UnsafeNode unsafe_kind

type_synonym tree = "pystr \<rightharpoonup> file_node"

record run_directory =
  rd_event_names :: "pystr list option"
  rd_run :: tree
  rd_root :: tree

record wire =
  loads :: "bytes \<Rightarrow> json option"
  decode_event :: "json \<Rightarrow> lifecycle_event option"
  decode_witness :: "json \<Rightarrow> publication_witness option"
  decode_artifact :: "artifact_name \<Rightarrow> json \<Rightarrow> operation_artifact option"

datatype load_error =
    Lifecycle lifecycle_error
  | EvidenceUnavailable
  | PolicyDigestMismatch
  | LifecycleAuthorityMismatch
  | LifecycleReadContention

fun lift_lifecycle :: "lifecycle_error + 'a \<Rightarrow> load_error + 'a" where
  "lift_lifecycle (Inl e) = Inl (Lifecycle e)"
| "lift_lifecycle (Inr x) = Inr x"

lemma lift_lifecycle_Inr [simp, result_simps]: "lift_lifecycle m = Inr x \<longleftrightarrow> m = Inr x"
  by (cases m) auto

definition MAX_ARTIFACT_BYTES :: nat where "MAX_ARTIFACT_BYTES = 64 * 1048576"
definition MAX_STATE_BYTES :: nat where "MAX_STATE_BYTES = 8 * 1048576"
definition MAX_EVENT_FILES :: nat where "MAX_EVENT_FILES = 1000000"
definition TEMP_FILE_PREFIX :: pystr where "TEMP_FILE_PREFIX = lit ''.milestone-runner-tmp-''"
definition EVENTS_DIRECTORY :: pystr where "EVENTS_DIRECTORY = lit ''events''"
definition PUBLICATION_WITNESS_FILE_NAME :: pystr where
  "PUBLICATION_WITNESS_FILE_NAME = lit ''event-publication.json''"
definition STATE_FILE_NAME :: pystr where "STATE_FILE_NAME = lit ''state.json''"

text \<open>\<open>_read_named\<close> below an already walked directory; \<open>Inr None\<close> is an optional file that is absent.\<close>

definition read_named :: "tree \<Rightarrow> pystr \<Rightarrow> nat \<Rightarrow> bool \<Rightarrow> load_error + bytes option" where
  "read_named files name ceiling optional =
     (case files name of
        None \<Rightarrow> if optional then Inr None else Inl EvidenceUnavailable
      | Some (UnsafeNode _) \<Rightarrow> Inl EvidenceUnavailable
      | Some (RegularFile payload) \<Rightarrow> raise_if (length payload > ceiling) EvidenceUnavailable (Inr (Some payload)))"

definition read_relative :: "tree \<Rightarrow> pystr \<Rightarrow> nat \<Rightarrow> bool \<Rightarrow> load_error + bytes option" where
  "read_relative files relative ceiling optional =
     raise_if (list_ex (\<lambda>p. p = [] \<or> p = lit ''.'' \<or> p = lit ''..'') (split_on 47 relative)) EvidenceUnavailable
     (read_named files relative ceiling optional)"

text \<open>\<open>except EvidenceUnavailable: raise ... from None\<close>.\<close>

fun on_unavailable :: "load_error \<Rightarrow> load_error + 'a \<Rightarrow> load_error + 'a" where
  "on_unavailable e (Inl EvidenceUnavailable) = Inl e"
| "on_unavailable e m = m"

lemma on_unavailable_Inr [simp, result_simps]: "on_unavailable e m = Inr x \<longleftrightarrow> m = Inr x"
  by (cases "(e, m)" rule: on_unavailable.cases) auto

section \<open>Chain entries\<close>

fun constituent_references :: "constituent_payload \<Rightarrow> evidence_reference list" where
  "constituent_references (RunRecordUpdated p) = up_evidence p"
| "constituent_references _ = []"

fun payload_references :: "event_payload \<Rightarrow> evidence_reference list" where
  "payload_references (StageStartBound p) = [ss_authorization p, ss_binding p, ss_witness p]"
| "payload_references (PolicyPublished policy) = [policy]"
| "payload_references (Constituent c) = constituent_references c"
| "payload_references (OperationRequestCreated p) = [qc_request p]"
| "payload_references (OperationDispatchIntent a) = [ae_reference a]"
| "payload_references (OperationDispatchReceived a) = [ae_reference a]"
| "payload_references (OperationPreSpawnFailed a) = [ae_reference a]"
| "payload_references (OperationResultReceived p) = rc_raw_result p # rc_transcripts p"
| "payload_references (OperationResultValidated p) = [rvd_validated p]"
| "payload_references (ApplicationMutationDeclared d) =
     (case md_evidence d of
        ResultEvidence e \<Rightarrow> (case rv_verdict e of None \<Rightarrow> [] | Some r \<Rightarrow> [r])
      | _ \<Rightarrow> [])
     @ concat (map (\<lambda>c. constituent_references (mc_payload c)) (md_constituents d))"
| "payload_references _ = []"

record chain_entry =
  ce_sequence :: int
  ce_event_type :: lifecycle_event_type
  ce_event_id :: pystr
  ce_state_version :: int
  ce_recorded_at :: pystr
  ce_sha256 :: pystr
  ce_references :: "evidence_reference list"

definition entry_of :: "lifecycle_event \<Rightarrow> pystr \<Rightarrow> chain_entry" where
  "entry_of event sha =
     \<lparr>ce_sequence = le_sequence event, ce_event_type = le_event_type event, ce_event_id = le_event_id event,
      ce_state_version = le_state_version event, ce_recorded_at = le_recorded_at event, ce_sha256 = sha,
      ce_references = payload_references (le_payload event)\<rparr>"

section \<open>Enumerating the event files\<close>

fun claimed_names :: "pystr list \<Rightarrow> (int \<times> lifecycle_event_type \<times> pystr) list option" where
  "claimed_names [] = Some []"
| "claimed_names (name # names) =
     (if take (length TEMP_FILE_PREFIX) name = TEMP_FILE_PREFIX then claimed_names names
      else (case parse_event_file_name name of
              None \<Rightarrow> None
            | Some (sequence, event_type) \<Rightarrow>
                map_option (\<lambda>rest. (sequence, event_type, name) # rest) (claimed_names names)))"

definition bounded_event_names ::
  "pystr list \<Rightarrow> load_error + (int \<times> lifecycle_event_type \<times> pystr) list" where
  "bounded_event_names names =
     raise_if (length names > MAX_EVENT_FILES) (Lifecycle EventChainBroken)
     (rbind (from_option (Lifecycle EventChainBroken) (claimed_names names)) (\<lambda>claimed.
      let ordered = sort_key fst claimed; sequences = map fst ordered in
      raise_if (\<not> unique sequences) (Lifecycle EventChainBroken)
      (raise_if (sequences \<noteq> map int [1..<length sequences + 1]) (Lifecycle EventChainBroken)
      (Inr ordered))))"

section \<open>Referenced artifacts\<close>

definition reference_refusal :: "evidence_reference \<Rightarrow> load_error" where
  "reference_refusal r =
     (if er_kind r = EK_POLICY then PolicyDigestMismatch
      else if er_kind r \<in> {EK_STAGE_START_AUTHORIZATION, EK_STAGE_START_BINDING, EK_STAGE_START_WITNESS}
      then LifecycleAuthorityMismatch
      else Lifecycle OperationRecordInvalid)"

definition reference_ceiling :: "evidence_reference \<Rightarrow> nat" where
  "reference_ceiling r =
     (if er_kind r \<in> {EK_TRANSCRIPT, EK_RAW_RESULT} then MAX_ARTIFACT_BYTES else MAX_LIFECYCLE_DOCUMENT_BYTES)"

text \<open>The strict parse of an operation artifact, after its bytes were matched with the reference.\<close>

definition parse_artifact ::
  "pyenv \<Rightarrow> wire \<Rightarrow> artifact_name \<Rightarrow> bytes \<Rightarrow> lifecycle_error + operation_artifact" where
  "parse_artifact E W name payload =
     (case loads W payload of
        Some (JObj kvs) \<Rightarrow>
          raise_if (\<not> no_duplicate_keys (JObj kvs)) OperationRecordInvalid
          (case obj_get (JObj kvs) (lit ''schema_version'') of
             Some (JInt version) \<Rightarrow>
               raise_if (version \<noteq> 1) LifecycleSchemaUnknown
               (rbind (from_option OperationRecordInvalid
                         (Option.bind (decode_artifact W name (JObj kvs)) (\<lambda>a.
                          refuse_if (artifact_model a \<noteq> name) (validate_artifact E a)))) (\<lambda>a.
                raise_if (artifact_bytes a \<noteq> payload) OperationRecordInvalid (Inr a)))
           | _ \<Rightarrow> Inl OperationRecordInvalid)
      | _ \<Rightarrow> Inl OperationRecordInvalid)"

definition verify_reference ::
  "pyenv \<Rightarrow> wire \<Rightarrow> run_directory \<Rightarrow> operation_pins \<Rightarrow> evidence_reference \<Rightarrow>
     load_error + operation_artifact option" where
  "verify_reference E W dir pins r =
     (let base = (if er_root r = ROOT_RUN then rd_run dir else rd_root dir) in
      rbind (on_unavailable (reference_refusal r)
               (read_relative base (er_path r) (reference_ceiling r) False)) (\<lambda>found.
      case found of
        None \<Rightarrow> Inl (Lifecycle PyAssertionError)
      | Some payload \<Rightarrow>
          raise_if (int (length payload) \<noteq> er_byte_count r \<or> sha256 E payload \<noteq> er_sha256 r) (reference_refusal r)
          (case match_operation_path (er_path r) of
             None \<Rightarrow> Inr None
           | Some (identifier, attempt, name) \<Rightarrow>
               if er_kind r = EK_RAW_RESULT then Inr None
               else
                 lift_lifecycle
                   (rbind (parse_artifact E W name payload) (\<lambda>a.
                    raise_if (artifact_pins a \<noteq> pins \<or> artifact_operation_id a \<noteq> identifier) OperationRecordInvalid
                    (raise_if (attempt \<noteq> None \<and> artifact_attempt a \<noteq> attempt) OperationRecordInvalid
                    (Inr (Some a))))))))"

text \<open>The loop over an entry's references.\<close>

fun verify_entry_references ::
  "pyenv \<Rightarrow> wire \<Rightarrow> run_directory \<Rightarrow> bool \<Rightarrow> fold_state \<Rightarrow> evidence_reference list \<Rightarrow> load_error + unit" where
  "verify_entry_references E W dir verify_authority state [] = Inr ()"
| "verify_entry_references E W dir verify_authority state (r # rs) =
     (if er_root r = ROOT_REPOSITORY \<and> \<not> verify_authority
      then verify_entry_references E W dir verify_authority state rs
      else
        rbind (verify_reference E W dir (fs_pins state) r) (\<lambda>artifact.
        rbind (case artifact of
                 None \<Rightarrow> Inr ()
               | Some a \<Rightarrow> lift_lifecycle (check_operation_artifact state r a)) (\<lambda>_.
        verify_entry_references E W dir verify_authority state rs)))"

section \<open>The streaming load\<close>

definition parse_witness_bytes :: "wire \<Rightarrow> bytes \<Rightarrow> lifecycle_error + publication_witness" where
  "parse_witness_bytes W payload =
     raise_if (length payload > MAX_LIFECYCLE_DOCUMENT_BYTES) EventChainBroken
     (case loads W payload of
        Some (JObj kvs) \<Rightarrow>
          raise_if (\<not> no_duplicate_keys (JObj kvs)) EventChainBroken
          (raise_if (obj_get (JObj kvs) (lit ''schema_version'') \<noteq> Some (JInt LIFECYCLE_SCHEMA_VERSION))
             LifecycleSchemaUnknown
          (rbind (from_option EventChainBroken (Option.bind (decode_witness W (JObj kvs)) validate_witness)) (\<lambda>w.
           raise_if (integrity_bytes (dump_witness w) \<noteq> payload) EventChainBroken (Inr w))))
      | _ \<Rightarrow> Inl EventChainBroken)"

definition event_path :: "pystr \<Rightarrow> pystr" where
  "event_path name = EVENTS_DIRECTORY @ 47 # name"

text \<open>One turn of the loop: read, parse, fold, check the run, check the references.\<close>

type_synonym stream_state = "fold_state option \<times> chain_entry list"

definition parse_stored_event ::
  "pyenv \<Rightarrow> wire \<Rightarrow> run_directory \<Rightarrow> pystr \<Rightarrow> load_error + lifecycle_event \<times> pystr" where
  "parse_stored_event E W dir name =
     rbind (on_unavailable (Lifecycle EventChainBroken)
              (read_named (rd_run dir) (event_path name) MAX_LIFECYCLE_DOCUMENT_BYTES False)) (\<lambda>found.
     case found of
       None \<Rightarrow> Inl (Lifecycle PyAssertionError)
     | Some payload \<Rightarrow> lift_lifecycle (parse_event_bytes E (loads W) (decode_event W) name payload))"

definition stream_step ::
  "pyenv \<Rightarrow> wire \<Rightarrow> run_directory \<Rightarrow> bool \<Rightarrow> pystr \<times> pystr \<Rightarrow> stream_state \<Rightarrow> pystr \<Rightarrow> load_error + stream_state" where
  "stream_step E W dir verify_authority owner st name =
     (let (run_id, repository_id) = owner; (state, entries) = st in
      rbind (parse_stored_event E W dir name) (\<lambda>(event, digest).
      rbind (lift_lifecycle (fold_step E None state (event, digest))) (\<lambda>next.
      raise_if (pn_run_id (fs_pins next) \<noteq> run_id \<or> pn_repository_identity (fs_pins next) \<noteq> repository_id)
        (Lifecycle EventChainBroken)
      (let entry = entry_of event digest in
       rbind (verify_entry_references E W dir verify_authority next (ce_references entry)) (\<lambda>_.
       Inr (Some next, entries @ [entry]))))))"

definition check_prospective_path :: "tree \<Rightarrow> pystr \<Rightarrow> load_error + unit" where
  "check_prospective_path files path =
     (case files path of Some (UnsafeNode _) \<Rightarrow> Inl (Lifecycle OperationRecordInvalid) | _ \<Rightarrow> Inr ())"

definition applied_receipt_of ::
  "operation_pins \<Rightarrow> pystr \<Rightarrow> chain_entry \<Rightarrow> pystr \<Rightarrow> applied_receipt option" where
  "applied_receipt_of pins identifier entry event_sha256 =
     validate_applied_receipt
       \<lparr>ar_schema_version = OPERATION_SCHEMA_VERSION, ar_pins = pins, ar_operation_id = identifier,
        ar_event_id = ce_event_id entry, ar_state_version = ce_state_version entry,
        ar_event_sha256 = event_sha256\<rparr>"

text \<open>
  One turn of the loop over \<open>causative_events\<close>: the missing receipts so far, plus this operation if its
  \<open>applied.json\<close> is absent.
\<close>

definition applied_step ::
  "run_directory \<Rightarrow> operation_pins \<Rightarrow> chain_entry list \<Rightarrow> pystr list \<Rightarrow> pystr \<times> pystr \<times> int \<times> pystr \<Rightarrow>
     load_error + pystr list" where
  "applied_step dir pins entries missing item =
     (let (identifier, event_id, version, event_sha) = item in
      case nth_opt entries (nat (version - 1)) of
        None \<Rightarrow> Inl (Lifecycle PyIndexError)
      | Some entry \<Rightarrow>
          raise_if (ce_event_id entry \<noteq> event_id) (Lifecycle EventChainBroken)
          (rbind (from_option (Lifecycle PyValueError) (applied_receipt_of pins identifier entry event_sha)) (\<lambda>receipt.
           rbind (lift_lifecycle (operation_artifact_path identifier APPLIED_FILE_NAME None)) (\<lambda>path.
           rbind (on_unavailable (Lifecycle OperationRecordInvalid)
                    (read_relative (rd_run dir) path MAX_LIFECYCLE_DOCUMENT_BYTES True)) (\<lambda>present.
           case present of
             None \<Rightarrow> Inr (missing @ [identifier])
           | Some payload \<Rightarrow>
               raise_if (payload \<noteq> artifact_bytes (AppliedArtifact receipt)) (Lifecycle OperationRecordConflict)
                 (Inr missing))))))"

record lifecycle_view =
  lv_record :: run_record
  lv_state :: fold_state
  lv_chain :: "chain_entry list"
  lv_projection :: projection
  lv_missing_applied :: "pystr list"

definition stream_events ::
  "pyenv \<Rightarrow> wire \<Rightarrow> run_directory \<Rightarrow> bool \<Rightarrow> pystr \<times> pystr \<Rightarrow> pystr list \<Rightarrow> load_error + stream_state" where
  "stream_events E W dir verify_authority owner names =
     rfold (stream_step E W dir verify_authority owner) (None, []) names"

definition stream_verified ::
  "pyenv \<Rightarrow> wire \<Rightarrow> run_directory \<Rightarrow> bool \<Rightarrow> pystr \<times> pystr \<Rightarrow> load_error + lifecycle_view" where
  "stream_verified E W dir verify_authority owner =
     rbind (from_option (Lifecycle EventChainBroken) (rd_event_names dir)) (\<lambda>listing.
     rbind (bounded_event_names listing) (\<lambda>named.
     rbind (stream_events E W dir verify_authority owner (map (\<lambda>(_, _, name). name) named)) (\<lambda>(folded, entries).
     rbind (from_option (Lifecycle EventChainBroken) folded) (\<lambda>state.
     rbind (on_unavailable (Lifecycle EventChainBroken)
              (read_named (rd_run dir) PUBLICATION_WITNESS_FILE_NAME MAX_LIFECYCLE_DOCUMENT_BYTES True)) (\<lambda>raw.
     rbind (case raw of
              None \<Rightarrow> Inr None
            | Some b \<Rightarrow> rbind (lift_lifecycle (parse_witness_bytes W b)) (\<lambda>w. Inr (Some w))) (\<lambda>witness.
     rbind (lift_lifecycle (check_witness state witness)) (\<lambda>_.
     let projection =
       (case read_named (rd_run dir) STATE_FILE_NAME MAX_STATE_BYTES True of Inl _ \<Rightarrow> Some [] | Inr p \<Rightarrow> p) in
     rbind (lift_lifecycle (projection_status (loads W) state projection)) (\<lambda>status.
     rbind (rfold (\<lambda>_ path. check_prospective_path (rd_run dir) path) () (fs_prospective_paths state)) (\<lambda>_.
     rbind (rfold (applied_step dir (fs_pins state) entries) [] (fs_causative_events state)) (\<lambda>missing.
     Inr \<lparr>lv_record = fs_record state, lv_state = state, lv_chain = entries,
          lv_projection = status, lv_missing_applied = missing\<rparr>))))))))))"

end
