(* ===== verification/Chain_Facts.thy ===== *)
theory Chain_Facts
  imports Chain_Load
begin

text \<open>
  What a verified load establishes: the invariants of the fold, the correspondence of the retained
  entries with the chain, append-only evolution from every prefix, tamper evidence of the hash
  chain and detection of a lost tail. The two replay interfaces of the prelude are interpreted on
  the streaming step.
\<close>

section \<open>A parsed event is a valid item\<close>

lemma validate_event_id: "validate_event E e = Some f \<Longrightarrow> f = e"
  unfolding validate_event_def refuse_if_Some option.inject by (elim conjE) (rule sym)

lemma parse_event_bytes_Inr:
  assumes "parse_event_bytes E ld dec name payload = Inr (event, digest)"
  shows "valid_item E (event, digest)" and "digest = sha256 E payload"
    and "canonical_bytes event = payload" and "parse_event_file_name name = Some (le_sequence event, le_event_type event)"
    and "\<exists>document. ld payload = Some document \<and> dec document = Some event"
    and "integrity_digest E (dump_payload (le_payload event)) = le_payload_digest event"
    and "event_identity E event = le_event_id event"
proof -
  note a = assms [unfolded parse_event_bytes_def]
  then obtain claimed document where n: "parse_event_file_name name = Some claimed"
    and d: "ld payload = Some document" and no: "\<exists>kvs. document = JObj kvs"
    by (auto split: option.splits json.splits)
  have v: "Option.bind (dec document) (validate_event E) = Some event"
    and rest: "canonical_bytes event = payload" "integrity_digest E (dump_payload (le_payload event)) = le_payload_digest event"
      "event_identity E event = le_event_id event" "(le_sequence event, le_event_type event) = claimed"
      "digest = sha256 E payload"
    using a n d no by auto
  obtain e where e: "dec document = Some e" "validate_event E e = Some event" using v by auto
  have "e = event" using validate_event_id [OF e(2)] by simp
  then show "valid_item E (event, digest)" "\<exists>document. ld payload = Some document \<and> dec document = Some event"
    using e d by (auto simp: valid_item_def)
  show "digest = sha256 E payload" "canonical_bytes event = payload"
    "parse_event_file_name name = Some (le_sequence event, le_event_type event)"
    "integrity_digest E (dump_payload (le_payload event)) = le_payload_digest event"
    "event_identity E event = le_event_id event"
    using rest n by auto
qed

lemma read_named_Inr:
  "read_named files name ceiling optional = Inr (Some payload) \<Longrightarrow> files name = Some (RegularFile payload)"
  by (auto simp: read_named_def split: option.splits file_node.splits if_splits)

lemma parse_stored_event_Inr:
  assumes "parse_stored_event E W dir name = Inr (event, digest)"
  obtains payload where "rd_run dir (event_path name) = Some (RegularFile payload)"
    and "parse_event_bytes E (loads W) (decode_event W) name payload = Inr (event, digest)"
  using assms by (auto simp: parse_stored_event_def dest!: read_named_Inr split: option.splits)

lemma stream_step_cases:
  assumes "stream_step E W dir va owner (state, entries) name = Inr st"
  obtains event digest s where "parse_stored_event E W dir name = Inr (event, digest)"
    and "fold_step E None state (event, digest) = Inr s"
    and "st = (Some s, entries @ [entry_of event digest])"
    and "pn_run_id (fs_pins s) = fst owner" and "pn_repository_identity (fs_pins s) = snd owner"
    and "verify_entry_references E W dir va s (payload_references (le_payload event)) = Inr ()"
    and "valid_item E (event, digest)"
proof -
  from assms obtain event digest s where h: "parse_stored_event E W dir name = Inr (event, digest)"
    "fold_step E None state (event, digest) = Inr s"
    "st = (Some s, entries @ [entry_of event digest])"
    "pn_run_id (fs_pins s) = fst owner" "pn_repository_identity (fs_pins s) = snd owner"
    "verify_entry_references E W dir va s (payload_references (le_payload event)) = Inr ()"
    by (cases owner) (auto simp: stream_step_def Let_def entry_of_def)
  have "valid_item E (event, digest)"
    using h(1) by (rule parse_stored_event_Inr) (rule parse_event_bytes_Inr(1))
  with h show ?thesis by (rule that)
qed

section \<open>The invariant of the load\<close>

definition entries_match :: "fold_state \<Rightarrow> chain_entry list \<Rightarrow> bool" where
  "entries_match s entries \<longleftrightarrow>
     entries \<noteq> [] \<and> int (length entries) = fs_sequence s
     \<and> (\<forall>i < length entries. ce_sequence (entries ! i) = int i + 1 \<and> ce_state_version (entries ! i) = int i + 1)
     \<and> ce_event_id (last entries) = fs_event_id s \<and> ce_sha256 (last entries) = fs_event_sha256 s
     \<and> distinct (map fst (fs_causative_events s))
     \<and> (\<forall>(i, event_id, version, sha) \<in> set (fs_causative_events s).
          1 \<le> version \<and> version \<le> fs_sequence s
          \<and> ce_event_id (entries ! nat (version - 1)) = event_id
          \<and> ce_sha256 (entries ! nat (version - 1)) = sha)"

definition stream_ok :: "pyenv \<Rightarrow> stream_state \<Rightarrow> bool" where
  "stream_ok E st \<longleftrightarrow>
     (case fst st of
        None \<Rightarrow> snd st = []
      | Some s \<Rightarrow> sound_record E s \<and> operations_ok s \<and> mutation_ok E s \<and> entries_match s (snd st))"

definition state_le :: "fold_state \<Rightarrow> fold_state \<Rightarrow> bool" where
  "state_le s t \<longleftrightarrow>
     fs_pins t = fs_pins s \<and> fs_genesis t = fs_genesis s \<and> fs_sequence s \<le> fs_sequence t
     \<and> record_evolves (fs_record s) (fs_record t) \<and> operations_le s t"

definition stream_le :: "stream_state \<Rightarrow> stream_state \<Rightarrow> bool" where
  "stream_le x y \<longleftrightarrow>
     extends (snd x) (snd y)
     \<and> (case fst x of None \<Rightarrow> True | Some s \<Rightarrow> (case fst y of None \<Rightarrow> False | Some t \<Rightarrow> state_le s t))"

lemma state_le_refl [simp]: "state_le s s"
  by (simp add: state_le_def operations_le_refl)

lemma state_le_trans: "state_le s t \<Longrightarrow> state_le t u \<Longrightarrow> state_le s u"
  unfolding state_le_def by (metis record_evolves_trans operations_le_trans order_trans)

lemma stream_le_refl: "stream_le x x"
  by (auto simp: stream_le_def split: option.split)

lemma stream_le_trans: "stream_le x y \<Longrightarrow> stream_le y z \<Longrightarrow> stream_le x z"
  unfolding stream_le_def
  by (auto split: option.splits intro: extends_trans state_le_trans)

lemma valid_item_versions: "valid_item E (event, sha) \<Longrightarrow> le_state_version event = le_sequence event"
  by (simp add: valid_item_def validate_event_def)

lemma genesis_ok:
  assumes g: "fold_step E None None (event, sha) = Inr s" and v: "valid_item E (event, sha)"
  shows "stream_ok E (Some s, [entry_of event sha])"
proof -
  have g': "genesis_step E event sha None = Inr s" using g by (simp add: fold_step_def)
  obtain r where r: "genesis_record (le_payload event) = Some r"
    and s: "fs_record s = r" "fs_pins s = le_pins event" "fs_body_digest s = body_digest E r"
      "fs_sequence s = 1" "le_sequence event = 1" "fs_open_mutation s = None"
      "fs_operations s = Map.empty" "fs_causative_events s = []"
      "rr_run_id r = pn_run_id (le_pins event)"
      "rr_repository_identity r = pn_repository_identity (le_pins event)"
      "rr_contract_sha256 r = pn_contract_sha256 (le_pins event)"
      "rr_policy_digest r = Some (pn_policy_digest (le_pins event))"
      "rr_stage_start_id r = Some (pn_stage_start_id (le_pins event))"
      "fs_event_id s = le_event_id event" "fs_event_sha256 s = sha"
    using g' by (rule genesis_step_cases)
  have "validate_run_record E r = Some r"
    using valid_item_payload [OF v] r by (auto simp: genesis_record_def split: event_payload.splits)
  then have "wf_run_record r" "rows_canonical E r" by (rule validate_run_record_wf, rule canonical_rows)
  then show ?thesis
    using s valid_item_versions [OF v]
    by (simp add: stream_ok_def sound_record_def digest_current_def pins_agree_def operations_ok_def
        mutation_ok_def entries_match_def entry_of_def)
qed

lemma update_absent: "map_of al k = None \<Longrightarrow> AList.update k v al = al @ [(k, v)]"
  by (induction al) auto

lemma fold_step_causative:
  assumes "fold_step E expected (Some s) (event, sha) = Inr s'"
  shows "fs_causative_events s' = fs_causative_events s
    \<or> (\<exists>i. causative s i = None \<and> fs_causative_events s' =
         fs_causative_events s @ [(i, le_event_id event, le_state_version event, sha)])"
proof -
  obtain t digest where eff: "payload_effect E s event sha = Inr t"
    and s': "s' = t\<lparr>fs_body_digest := digest, fs_sequence := le_sequence event,
                fs_event_id := le_event_id event, fs_event_sha256 := sha,
                fs_prev_event_digest := le_prev_event_digest event,
                fs_open_mutation := advance_mutation (fs_open_mutation s) (fs_open_mutation t)\<rparr>"
    using assms by (rule fold_step_cases)
  show ?thesis
  proof (cases "\<exists>p. le_payload event = Constituent (StateTransitioned p)")
    case True
    then obtain p after where a: "apply_transition E s p = Inr after"
      and m: "mark_caused event sha (tr_operation_id p) (s\<lparr>fs_record := after\<rparr>) = Inr t"
      using eff by (auto simp: payload_effect_def Let_def)
    show ?thesis
    proof (cases "tr_operation_id p")
      case None
      then show ?thesis using m by (auto simp: mark_caused_def s')
    next
      case (Some i)
      then have "causative s i = None" using apply_transition_operation [OF a] by blast
      then show ?thesis
        using m Some by (auto simp: mark_caused_def s' update_absent split: option.splits)
    qed
  next
    case False
    then have "fs_causative_events t = fs_causative_events s"
      using eff by (auto simp: payload_effect_def Let_def
          split: event_payload.splits constituent_payload.splits)
    then show ?thesis by (simp add: s')
  qed
qed

lemma entries_step:
  assumes step: "fold_step E None (Some s) (event, sha) = Inr s'" and v: "valid_item E (event, sha)"
    and ok: "entries_match s entries"
  shows "entries_match s' (entries @ [entry_of event sha])"
proof -
  obtain t digest where adm: "admit_event s event = Inr ()"
    and s': "s' = t\<lparr>fs_body_digest := digest, fs_sequence := le_sequence event,
                fs_event_id := le_event_id event, fs_event_sha256 := sha,
                fs_prev_event_digest := le_prev_event_digest event,
                fs_open_mutation := advance_mutation (fs_open_mutation s) (fs_open_mutation t)\<rparr>"
    using step by (rule fold_step_cases)
  have seq: "le_sequence event = fs_sequence s + 1" using adm by (auto simp: admit_event_def)
  have ver: "le_state_version event = le_sequence event" by (rule valid_item_versions [OF v])
  have len: "int (length entries) = fs_sequence s" and ne: "entries \<noteq> []"
    using ok by (simp_all add: entries_match_def)
  have tip: "fs_sequence s' = fs_sequence s + 1" "fs_event_id s' = le_event_id event" "fs_event_sha256 s' = sha"
    by (simp_all add: s' seq)
  have old: "1 \<le> version \<and> version \<le> fs_sequence s
      \<and> ce_event_id (entries ! nat (version - 1)) = event_id \<and> ce_sha256 (entries ! nat (version - 1)) = d"
    if "(i, event_id, version, d) \<in> set (fs_causative_events s)" for i event_id version d
    using ok that unfolding entries_match_def by fastforce
  have pos: "nat (version - 1) < length entries" if "1 \<le> version" "version \<le> fs_sequence s" for version
    using that len by linarith
  have caus: "\<forall>(i, event_id, version, d) \<in> set (fs_causative_events s').
      1 \<le> version \<and> version \<le> fs_sequence s'
      \<and> ce_event_id ((entries @ [entry_of event sha]) ! nat (version - 1)) = event_id
      \<and> ce_sha256 ((entries @ [entry_of event sha]) ! nat (version - 1)) = d"
    and dist: "distinct (map fst (fs_causative_events s'))"
  proof -
    have app: "1 \<le> version \<and> version \<le> fs_sequence s'
      \<and> ce_event_id ((entries @ [entry_of event sha]) ! nat (version - 1)) = event_id
      \<and> ce_sha256 ((entries @ [entry_of event sha]) ! nat (version - 1)) = d"
      if "(i, event_id, version, d) \<in> set (fs_causative_events s)" for i event_id version d
      using old [OF that] pos [of version] by (auto simp: nth_append tip)
    have new: "(entries @ [entry_of event sha]) ! nat (le_state_version event - 1) = entry_of event sha"
      using ver seq len by (simp add: nth_append)
    have d0: "distinct (map fst (fs_causative_events s))" using ok by (simp add: entries_match_def)
    from fold_step_causative [OF step]
    show "\<forall>(i, event_id, version, d) \<in> set (fs_causative_events s').
      1 \<le> version \<and> version \<le> fs_sequence s'
      \<and> ce_event_id ((entries @ [entry_of event sha]) ! nat (version - 1)) = event_id
      \<and> ce_sha256 ((entries @ [entry_of event sha]) ! nat (version - 1)) = d"
    proof (elim disjE exE conjE)
      assume "fs_causative_events s' = fs_causative_events s"
      then show ?thesis using app by auto
    next
      fix i
      assume c: "fs_causative_events s' = fs_causative_events s @ [(i, le_event_id event, le_state_version event, sha)]"
      show ?thesis unfolding c
        using app new ver seq len by (auto simp: entry_of_def tip)
    qed
    from fold_step_causative [OF step] show "distinct (map fst (fs_causative_events s'))"
      using d0 by (auto simp: map_of_eq_None_iff)
  qed
  have num: "ce_sequence ((entries @ [entry_of event sha]) ! i) = int i + 1
      \<and> ce_state_version ((entries @ [entry_of event sha]) ! i) = int i + 1"
    if "i < length (entries @ [entry_of event sha])" for i
    using ok that seq ver len by (auto simp: entries_match_def nth_append entry_of_def less_Suc_eq)
  show ?thesis
    unfolding entries_match_def using num caus dist len tip by (simp add: entry_of_def)
qed

lemma stream_step_ok:
  assumes ok: "stream_ok E st" and step: "stream_step E W dir va owner st name = Inr st'"
  shows "stream_ok E st'" and "stream_le st st'"
proof -
  obtain state entries where st: "st = (state, entries)" by (cases st)
  obtain event digest s where f: "fold_step E None state (event, digest) = Inr s"
    and st': "st' = (Some s, entries @ [entry_of event digest])" and v: "valid_item E (event, digest)"
    using step unfolding st by (rule stream_step_cases)
  show "stream_ok E st'"
  proof (cases state)
    case None
    then have "entries = []" using ok st by (simp add: stream_ok_def)
    then show ?thesis using genesis_ok [OF _ v] f None st' by simp
  next
    case (Some s0)
    then have o: "sound_record E s0" "operations_ok s0" "mutation_ok E s0" "entries_match s0 entries"
      using ok st by (simp_all add: stream_ok_def)
    note f' = f [unfolded Some]
    show ?thesis
      using fold_step_record(5) [OF f' o(1) valid_item_payload [OF v]] fold_step_operations(1) [OF f' o(2)]
        fold_step_mutation [OF f' v o(3)] entries_step [OF f' v o(4)]
      by (simp add: st' stream_ok_def)
  qed
  show "stream_le st st'"
  proof (cases state)
    case None
    then show ?thesis by (simp add: st st' stream_le_def)
  next
    case (Some s0)
    then have o: "operations_ok s0" "sound_record E s0" using ok st by (simp_all add: stream_ok_def)
    note f' = f [unfolded Some]
    show ?thesis
      using fold_step_record(1) [OF f' o(2) valid_item_payload [OF v]] fold_step_record(2-4) [OF f'] fold_step_operations(2) [OF f' o(1)] Some
      by (simp add: st st' stream_le_def state_le_def)
  qed
qed

interpretation stream: step_invariant "stream_step E W dir va owner" "stream_ok E" for E W dir va owner
  by unfold_locales (rule stream_step_ok(1))

interpretation stream: step_progress "stream_step E W dir va owner" "stream_ok E" stream_le for E W dir va owner
  by unfold_locales (rule stream_le_refl, erule (1) stream_le_trans, erule (1) stream_step_ok(2))

lemma stream_ok_start [simp]: "stream_ok E (None, [])"
  by (simp add: stream_ok_def)

lemma stream_events_ok: "stream_events E W dir va owner names = Inr st \<Longrightarrow> stream_ok E st"
  unfolding stream_events_def by (rule stream.run_keeps [OF stream_ok_start])

section \<open>Tamper evidence\<close>

definition stored_bytes :: "run_directory \<Rightarrow> pystr \<Rightarrow> bytes" where
  "stored_bytes dir name =
     (case rd_run dir (event_path name) of Some (RegularFile b) \<Rightarrow> b | _ \<Rightarrow> [])"

text \<open>Two different stored files with one digest.\<close>

definition collision ::
  "pyenv \<Rightarrow> (run_directory \<times> pystr list) \<Rightarrow> (run_directory \<times> pystr list) \<Rightarrow> bool" where
  "collision E a b \<longleftrightarrow>
     (\<exists>n \<in> set (snd a). \<exists>m \<in> set (snd b).
        stored_bytes (fst a) n \<noteq> stored_bytes (fst b) m
        \<and> sha256 E (stored_bytes (fst a) n) = sha256 E (stored_bytes (fst b) m))"

lemma stream_events_snoc:
  assumes "stream_events E W dir va owner (names @ [name]) = Inr st"
  obtains st0 where "stream_events E W dir va owner names = Inr st0"
    and "stream_step E W dir va owner st0 name = Inr st"
  using assms by (auto simp: stream_events_def rfold_snoc)

lemma stream_events_None:
  "stream_events E W dir va owner names = Inr (None, entries) \<Longrightarrow> names = []"
proof (cases names rule: rev_cases)
  case (snoc names' name)
  assume "stream_events E W dir va owner names = Inr (None, entries)"
  then obtain st0 where "stream_step E W dir va owner st0 name = Inr (None, entries)"
    unfolding snoc by (rule stream_events_snoc)
  then show ?thesis by (cases st0) (auto elim: stream_step_cases)
qed

lemma stored_event_bytes:
  assumes "parse_stored_event E W dir name = Inr (event, digest)"
  shows "digest = sha256 E (stored_bytes dir name)"
    and "Option.bind (loads W (stored_bytes dir name)) (decode_event W) = Some event"
    and "canonical_bytes event = stored_bytes dir name"
proof -
  obtain payload where p: "rd_run dir (event_path name) = Some (RegularFile payload)"
    and q: "parse_event_bytes E (loads W) (decode_event W) name payload = Inr (event, digest)"
    using assms by (rule parse_stored_event_Inr)
  have b: "stored_bytes dir name = payload" by (simp add: stored_bytes_def p)
  show "digest = sha256 E (stored_bytes dir name)" "canonical_bytes event = stored_bytes dir name"
    using parse_event_bytes_Inr(2,3) [OF q] b by simp_all
  show "Option.bind (loads W (stored_bytes dir name)) (decode_event W) = Some event"
    using parse_event_bytes_Inr(5) [OF q] b by auto
qed

lemma step_tip:
  assumes "fold_step E None state (event, digest) = Inr s"
  shows "fs_event_sha256 s = digest" and "fs_sequence s = le_sequence event"
    and "case state of None \<Rightarrow> le_sequence event = 1
         | Some s0 \<Rightarrow> le_sequence event = fs_sequence s0 + 1 \<and> le_prev_event_digest event = Some (fs_event_sha256 s0)"
proof -
  have "fs_event_sha256 s = digest \<and> fs_sequence s = le_sequence event
    \<and> (case state of None \<Rightarrow> le_sequence event = 1
         | Some s0 \<Rightarrow> le_sequence event = fs_sequence s0 + 1 \<and> le_prev_event_digest event = Some (fs_event_sha256 s0))"
  proof (cases state)
    case None
    then have "genesis_step E event digest None = Inr s" using assms by (simp add: fold_step_def)
    then show ?thesis using None by (auto elim!: genesis_step_cases)
  next
    case (Some s0)
    note f = assms [unfolded Some]
    have "admit_event s0 event = Inr ()" using f by (rule fold_step_cases)
    then have "le_sequence event = fs_sequence s0 + 1 \<and> le_prev_event_digest event = Some (fs_event_sha256 s0)"
      by (auto simp: admit_event_def)
    then show ?thesis using Some fold_step_record(3,6) [OF f] by simp
  qed
  then show "fs_event_sha256 s = digest" "fs_sequence s = le_sequence event"
    "case state of None \<Rightarrow> le_sequence event = 1
         | Some s0 \<Rightarrow> le_sequence event = fs_sequence s0 + 1 \<and> le_prev_event_digest event = Some (fs_event_sha256 s0)"
    by blast+
qed

lemma same_tip_same_bytes:
  assumes "stream_events E W dir va owner ns = Inr (Some s, es)"
    and "stream_events E W dir' va' owner' ms = Inr (Some t, fs)"
    and "fs_event_sha256 s = fs_event_sha256 t"
  shows "map (stored_bytes dir) ns = map (stored_bytes dir') ms \<or> collision E (dir, ns) (dir', ms)"
  using assms
proof (induction ns arbitrary: ms s es t fs rule: rev_induct)
  case Nil
  then show ?case by (simp add: stream_events_def)
next
  case (snoc n ns)
  obtain ms' m where ms: "ms = ms' @ [m]"
    using snoc.prems(2) by (cases ms rule: rev_cases) (auto simp: stream_events_def)
  obtain st0 where a0: "stream_events E W dir va owner ns = Inr st0"
    and a1: "stream_step E W dir va owner st0 n = Inr (Some s, es)"
    using snoc.prems(1) by (rule stream_events_snoc)
  obtain su0 where b0: "stream_events E W dir' va' owner' ms' = Inr su0"
    and b1: "stream_step E W dir' va' owner' su0 m = Inr (Some t, fs)"
    using snoc.prems(2) unfolding ms by (rule stream_events_snoc)
  obtain sa ea where st0: "st0 = (sa, ea)" by (cases st0)
  obtain sb eb where su0: "su0 = (sb, eb)" by (cases su0)
  obtain e d where e: "parse_stored_event E W dir n = Inr (e, d)" "fold_step E None sa (e, d) = Inr s"
    using a1 unfolding st0 by (rule stream_step_cases) auto
  obtain f c where f: "parse_stored_event E W dir' m = Inr (f, c)" "fold_step E None sb (f, c) = Inr t"
    using b1 unfolding su0 by (rule stream_step_cases) auto
  have dc: "sha256 E (stored_bytes dir n) = sha256 E (stored_bytes dir' m)"
    using snoc.prems(3) step_tip(1) [OF e(2)] step_tip(1) [OF f(2)] stored_event_bytes(1) [OF e(1)]
      stored_event_bytes(1) [OF f(1)] by simp
  show ?case
  proof (cases "stored_bytes dir n = stored_bytes dir' m")
    case False
    then show ?thesis using dc by (auto simp: ms collision_def)
  next
    case True
    then have ef: "e = f" using stored_event_bytes(2) [OF e(1)] stored_event_bytes(2) [OF f(1)] by simp
    have ok: "stream_ok E st0" "stream_ok E su0" using a0 b0 by (auto dest: stream_events_ok)
    show ?thesis
    proof (cases sa)
      case None
      then have "sb = None"
        using step_tip(3) [OF e(2)] step_tip(3) [OF f(2)] ok(2) ef
        by (auto simp: su0 stream_ok_def sound_record_def split: option.splits)
      then have "ns = []" "ms' = []"
        using None a0 b0 st0 su0 by (auto dest: stream_events_None)
      then show ?thesis using True by (simp add: ms)
    next
      case (Some s0)
      then obtain t0 where t0: "sb = Some t0"
        using step_tip(3) [OF e(2)] step_tip(3) [OF f(2)] ok(1) ef
        by (cases sb) (auto simp: st0 stream_ok_def sound_record_def)
      have "fs_event_sha256 s0 = fs_event_sha256 t0"
        using step_tip(3) [OF e(2)] step_tip(3) [OF f(2)] ef Some t0 by simp
      from snoc.IH [OF a0 [unfolded st0 Some] b0 [unfolded su0 t0] this]
      show ?thesis using True by (auto simp: ms collision_def)
    qed
  qed
qed

section \<open>A lost tail\<close>

lemma check_witness_Inr:
  assumes "check_witness s w = Inr u"
  shows "\<exists>x. w = Some x \<and> pw_pins x = fs_pins s \<and> pw_sequence x = fs_sequence s \<and> pw_event_id x = fs_event_id s
    \<and> pw_event_sha256 x = fs_event_sha256 s \<and> pw_prev_event_digest x = fs_prev_event_digest s"
  using assms by (auto simp: check_witness_def split: option.splits)

definition witness_of :: "wire \<Rightarrow> run_directory \<Rightarrow> publication_witness option" where
  "witness_of W dir =
     (case rd_run dir PUBLICATION_WITNESS_FILE_NAME of
        Some (RegularFile b) \<Rightarrow> (case parse_witness_bytes W b of Inr w \<Rightarrow> Some w | Inl _ \<Rightarrow> None)
      | _ \<Rightarrow> None)"

definition listed_names :: "run_directory \<Rightarrow> pystr list" where
  "listed_names dir =
     (case rd_event_names dir of
        None \<Rightarrow> []
      | Some listing \<Rightarrow>
          (case bounded_event_names listing of
             Inl _ \<Rightarrow> []
           | Inr named \<Rightarrow> map (\<lambda>(_, _, name). name) named))"

lemma stream_verified_cases:
  assumes "stream_verified E W dir va owner = Inr v"
  obtains "stream_events E W dir va owner (listed_names dir) = Inr (Some (lv_state v), lv_chain v)"
    and "lv_record v = fs_record (lv_state v)"
    and "check_witness (lv_state v) (witness_of W dir) = Inr ()"
    and "rfold (applied_step dir (fs_pins (lv_state v)) (lv_chain v)) [] (fs_causative_events (lv_state v))
           = Inr (lv_missing_applied v)"
    and "\<exists>projection. projection_status (loads W) (lv_state v) projection = Inr (lv_projection v)"
proof -
  note a = assms [unfolded stream_verified_def Let_def rbind_Inr from_option_Inr on_unavailable_Inr lift_lifecycle_Inr]
  then obtain listing named folded entries state raw witness missing where h:
    "rd_event_names dir = Some listing" "bounded_event_names listing = Inr named"
    "stream_events E W dir va owner (map (\<lambda>(_, _, name). name) named) = Inr (folded, entries)"
    "folded = Some state"
    "read_named (rd_run dir) PUBLICATION_WITNESS_FILE_NAME MAX_LIFECYCLE_DOCUMENT_BYTES True = Inr raw"
    "(case raw of None \<Rightarrow> Inr None | Some b \<Rightarrow> rbind (lift_lifecycle (parse_witness_bytes W b)) (\<lambda>w. Inr (Some w))) = Inr witness"
    "check_witness state witness = Inr ()"
    "\<exists>projection. projection_status (loads W) state projection = Inr (lv_projection v)"
    "rfold (applied_step dir (fs_pins state) entries) [] (fs_causative_events state) = Inr missing"
    "v = \<lparr>lv_record = fs_record state, lv_state = state, lv_chain = entries,
          lv_projection = lv_projection v, lv_missing_applied = missing\<rparr>"
    by (auto split: prod.splits) blast
  have w: "witness = witness_of W dir"
    using h(5-7) unfolding witness_of_def read_named_def check_witness_def
    by (auto split: option.splits file_node.splits if_splits)
  have n: "listed_names dir = map (\<lambda>(_, _, name). name) named"
    using h(1,2) by (simp add: listed_names_def)
  have v: "lv_state v = state" "lv_chain v = entries" "lv_record v = fs_record state" "lv_missing_applied v = missing"
    by (subst h(10), simp)+
  show ?thesis
    by (rule that) (use h w n v in auto)
qed

end
