(* ===== verification/Operation_Paths.thy ===== *)
theory Operation_Paths
  imports Lifecycle_Vocabulary
begin

text \<open>
  Addresses are read back as they were written: operation artifact paths and event file names.
\<close>

section \<open>Operation artifacts\<close>

lemma attempt_text_name: "attempt_directory_name n = Inr d \<Longrightarrow> attempt_text d = Some n"
  by (drule attempt_directory_name_value) (auto simp: attempt_text_def)

lemma attempt_directory_no_slash: "attempt_directory_name n = Inr d \<Longrightarrow> 47 \<notin> set d"
  by (drule attempt_directory_name_value) (auto simp: lit_def)

lemma split_address:
  "\<forall>p \<in> set ps. 47 \<notin> set p \<Longrightarrow> ps \<noteq> [] \<Longrightarrow> split_on 47 (join_on 47 ps) = ps"
  by (rule split_join)

lemma match_operation_artifact:
  assumes "operation_artifact_path i name attempt = Inr path"
  shows "match_operation_path path = Some (i, attempt, name)"
proof -
  have hex: "sha256_hex i" using assms by (auto simp: operation_artifact_path_def)
  note plain = sha256_hex_no_slash [OF hex] artifact_no_slash directories_no_slash
  show ?thesis
  proof (cases attempt)
    case None
    then have n: "name \<in> set run_level_artifacts"
      and p: "path = join_on 47 [OPERATIONS_DIRECTORY, i, artifact_file_name name]"
      using assms by (auto simp: operation_artifact_path_def)
    have "split_on 47 path = [OPERATIONS_DIRECTORY, i, artifact_file_name name]"
      unfolding p by (rule split_address) (use plain in auto)
    then show ?thesis using hex n None by (simp add: match_operation_path_def find_artifact_mem)
  next
    case (Some k)
    then obtain d where n: "name \<in> set attempt_artifacts" and d: "attempt_directory_name k = Inr d"
      and p: "path = join_on 47 [OPERATIONS_DIRECTORY, i, ATTEMPTS_DIRECTORY, d, artifact_file_name name]"
      using assms by (auto simp: operation_artifact_path_def)
    have "split_on 47 path = [OPERATIONS_DIRECTORY, i, ATTEMPTS_DIRECTORY, d, artifact_file_name name]"
      unfolding p by (rule split_address) (use plain attempt_directory_no_slash [OF d] in auto)
    then show ?thesis
      using hex n Some attempt_text_name [OF d] by (simp add: match_operation_path_def find_artifact_mem)
  qed
qed

lemma find_artifact_Some: "find_artifact names file = Some n \<Longrightarrow> n \<in> set names \<and> file = artifact_file_name n"
  by (auto simp: find_artifact_def find_Some_iff)

lemma attempt_names:
  "attempt_directory_name 1 = Inr (lit ''0001'')" "attempt_directory_name 2 = Inr (lit ''0002'')"
  "attempt_directory_name 3 = Inr (lit ''0003'')"
proof -
  have pad: "replicate (4 - length [c]) (48 :: nat) @ [c] = [48, 48, 48, c]" for c :: nat
    by (simp add: numeral_3_eq_3)
  show "attempt_directory_name 1 = Inr (lit ''0001'')" "attempt_directory_name 2 = Inr (lit ''0002'')"
    "attempt_directory_name 3 = Inr (lit ''0003'')"
    by (simp_all add: attempt_directory_name_def MAX_OPERATION_ATTEMPTS_def int_text_def nat_digits.simps
        Let_def pad del: replicate_Suc) (simp_all add: lit_def numeral_3_eq_3)
qed

lemma attempt_text_Some: "attempt_text v = Some k \<Longrightarrow> attempt_directory_name k = Inr v"
  by (auto simp: attempt_text_def attempt_names split: if_splits)

lemma match_operation_path_Some:
  assumes "match_operation_path path = Some (i, attempt, name)"
  shows "operation_artifact_path i name attempt = Inr path"
proof -
  have path: "path = join_on 47 (split_on 47 path)" by simp
  consider (run) d f where "split_on 47 path = [d, i, f]" "attempt = None" "d = OPERATIONS_DIRECTORY"
      "sha256_hex i" "find_artifact run_level_artifacts f = Some name"
    | (attempt) d a t f k where "split_on 47 path = [d, i, a, t, f]" "attempt = Some k"
      "d = OPERATIONS_DIRECTORY" "a = ATTEMPTS_DIRECTORY" "sha256_hex i"
      "attempt_text t = Some k" "find_artifact attempt_artifacts f = Some name"
    using assms unfolding match_operation_path_def by (auto split: list.splits)
  then show ?thesis
  proof cases
    case run
    then show ?thesis using path find_artifact_Some [OF run(5)]
      by (simp add: operation_artifact_path_def)
  next
    case attempt
    then show ?thesis using path find_artifact_Some [OF attempt(7)] attempt_text_Some [OF attempt(6)]
      by (simp add: operation_artifact_path_def)
  qed
qed

lemma operation_path_prefix:
  "operation_artifact_path i name attempt = Inr path \<Longrightarrow> prefix (lit ''operations/'') path"
  by (auto simp: operation_artifact_path_def OPERATIONS_DIRECTORY_def lit_def split: option.splits)

lemma classify_operation_path:
  assumes "operation_artifact_path i name attempt = Inr path"
  shows "classify_run_evidence_path E path = Some (operation_kind_by_name name)"
proof -
  have p: "prefix (lit ''operations/'') path" by (rule operation_path_prefix [OF assms])
  then have h: "take 2 path = lit ''op''" by (auto simp: lit_def prefix_def)
  have "path \<noteq> POLICY_REFERENCE_PATH" using h by (auto simp: POLICY_REFERENCE_PATH_def lit_def)
  moreover have "\<not> prefix (lit ''transcripts/'') path" using h by (auto simp: lit_def prefix_def)
  ultimately show ?thesis
    using match_operation_artifact [OF assms]
    by (simp add: classify_run_evidence_path_def is_transcript_path_def)
qed

section \<open>Event file names\<close>

lemma digits_value_snoc: "digits_value (ds @ [d]) = 10 * digits_value ds + (d - 48)"
  by (simp add: digits_value_def)

lemma digits_value_zeros: "digits_value (replicate k 48 @ ds) = digits_value ds"
proof -
  have "foldl (\<lambda>acc c. 10 * acc + (c - 48)) 0 (replicate k (48 :: nat)) = (0 :: nat)" by (induction k) auto
  then show ?thesis by (simp add: digits_value_def)
qed

lemma nat_digits_value: "digits_value (nat_digits n) = n"
proof (induction n rule: nat_digits.induct)
  case (1 n)
  show ?case
  proof (cases "n < 10")
    case True
    then show ?thesis by (subst nat_digits.simps) (simp add: digits_value_def)
  next
    case False
    with 1 show ?thesis by (subst nat_digits.simps) (simp add: digits_value_snoc)
  qed
qed

lemma nat_digits_digit: "list_all is_digit (nat_digits n)"
proof (induction n rule: nat_digits.induct)
  case (1 n)
  show ?case
  proof (cases "n < 10")
    case False
    with 1 show ?thesis by (subst nat_digits.simps) (auto simp: is_digit_def [of "48 + n mod 10"])
  qed (subst nat_digits.simps, simp add: is_digit_def)
qed

lemma nat_digits_length: "n < 10 ^ k \<Longrightarrow> 0 < k \<Longrightarrow> length (nat_digits n) \<le> k"
proof (induction n arbitrary: k rule: nat_digits.induct)
  case (1 n)
  show ?case
  proof (cases "n < 10")
    case True
    then show ?thesis using 1 by (subst nat_digits.simps) simp
  next
    case False
    have "k \<noteq> 1" using 1(2) False by auto
    then obtain j where k: "k = Suc j" "0 < j" using 1(3) by (cases k) auto
    have "n div 10 < 10 ^ j" using 1(2) k by (simp add: div_less_iff_less_mult mult.commute)
    then have "length (nat_digits (n div 10)) \<le> j" using 1(1) False k by simp
    then show ?thesis using False k by (subst nat_digits.simps) simp
  qed
qed

lemma pad8_facts:
  assumes "1 \<le> n" "n \<le> MAX_EVENT_SEQUENCE"
  shows "length (pad8 n) = 8" and "list_all is_digit (pad8 n)" and "digits_value (pad8 n) = nat n"
proof -
  have "nat n < 10 ^ 8" using assms by (simp add: MAX_EVENT_SEQUENCE_def MAX_STATE_VERSION_def)
  then have len: "length (nat_digits (nat n)) \<le> 8" by (rule nat_digits_length) simp
  have t: "int_text n = nat_digits (nat n)" using assms by (simp add: int_text_def)
  show "length (pad8 n) = 8" using len by (simp add: pad8_def t Let_def)
  show "list_all is_digit (pad8 n)" using nat_digits_digit [of "nat n"]
    by (auto simp: pad8_def t Let_def list_all_iff is_digit_def)
  show "digits_value (pad8 n) = nat n" by (simp add: pad8_def t Let_def digits_value_zeros nat_digits_value)
qed

lemma find_event_type: "find (\<lambda>t. event_type_value t = event_type_value u) all_event_type = Some u"
  by (cases u) (simp_all add: all_event_type_def)

lemma parse_event_file_name_name:
  assumes "event_file_name sequence event_type = Inr name"
  shows "parse_event_file_name name = Some (sequence, event_type)"
proof -
  have b: "1 \<le> sequence" "sequence \<le> MAX_EVENT_SEQUENCE"
    and name: "name = pad8 sequence @ lit ''-'' @ event_type_value event_type @ lit ''.json''"
    using assms by (auto simp: event_file_name_def)
  note p = pad8_facts [OF b]
  have ne: "0 < length (event_type_value event_type)" by (cases event_type) simp_all
  have len: "length name = 14 + length (event_type_value event_type)" using p(1) by (simp add: name)
  have "name ! 8 = 45" using p(1) by (simp add: name nth_append lit_def)
  moreover have "suffix (lit ''.json'') name" by (simp add: name suffix_def)
  moreover have "take 8 name = pad8 sequence" using p(1) by (simp add: name)
  moreover have "take (length name - 14) (drop 9 name) = event_type_value event_type"
    using p(1) len by (simp add: name lit_def)
  ultimately show ?thesis
    using p(2,3) b len ne by (simp add: parse_event_file_name_def Let_def find_event_type)
qed

end
