(* ===== verification/Concrete_Chain.thy ===== *)
theory Concrete_Chain
  imports Chain_Facts Operation_Paths "HOL-Library.Multiset"
begin

text \<open>
  A small concrete run, evaluated by the simplifier: the instances at which the hypotheses of the
  theorems hold. The digest function is constant, so every digest of the run is the same string;
  nothing in the model depends on its values.
\<close>

section \<open>How long a dump is\<close>

fun json_weight :: "json \<Rightarrow> nat" where
  "json_weight JNull = 4"
| "json_weight (JBool b) = 5"
| "json_weight (JInt i) = length (int_text i)"
| "json_weight (JStr v) = 6 * length v + 2"
| "json_weight (JList xs) = 2 + sum_list (map (\<lambda>x. json_weight x + 1) xs)"
| "json_weight (JObj kvs) = 2 + sum_list (map (\<lambda>(k, v). 6 * length k + 4 + json_weight v) kvs)"

lemma length_escape: "length (escape_char c) \<le> 6"
  by (simp add: escape_char_def)

lemma length_string_text: "length (string_text v) \<le> 6 * length v + 2"
proof -
  have "length (concat (map escape_char v)) \<le> 6 * length v"
    by (induction v) (auto intro!: order_trans [OF add_mono [OF length_escape]])
  then show ?thesis by (simp add: string_text_def)
qed

lemma length_join_on: "length (join_on c ps) \<le> sum_list (map (\<lambda>p. length p + 1) ps)"
  by (induction c ps rule: join_on.induct) auto

lemma sum_list_mono_ext: "(\<And>x. x \<in> set xs \<Longrightarrow> f x \<le> (g x :: nat)) \<Longrightarrow> sum_list (map f xs) \<le> sum_list (map g xs)"
  by (rule sum_list_mono)

lemma sum_list_sort: "sum_list (map (f :: 'a \<Rightarrow> nat) (sort_key k xs)) = sum_list (map f xs)"
  by (metis mset_map mset_sort sum_mset_sum_list)

lemma length_dumps: "length (dumps j) \<le> json_weight j"
proof (induction j rule: dumps.induct)
  case (4 v)
  then show ?case using length_string_text by simp
next
  case (5 xs)
  have "length (join_on 44 (map dumps xs)) \<le> sum_list (map (\<lambda>x. length (dumps x) + 1) xs)"
    using length_join_on [of 44 "map dumps xs"] by (simp add: o_def)
  also have "\<dots> \<le> sum_list (map (\<lambda>x. json_weight x + 1) xs)"
    by (rule sum_list_mono_ext) (use 5 in simp)
  finally show ?case by simp
next
  case (6 kvs)
  let ?f = "\<lambda>(k, t). string_text k @ 58 # t"
  let ?kts = "map (\<lambda>(k, v). (k, dumps v)) kvs"
  have "length (join_on 44 (map ?f (sort_key fst ?kts))) \<le> sum_list (map (\<lambda>p. length (?f p) + 1) (sort_key fst ?kts))"
    using length_join_on [of 44 "map ?f (sort_key fst ?kts)"] by (simp add: o_def)
  also have "\<dots> = sum_list (map (\<lambda>p. length (?f p) + 1) ?kts)" by (rule sum_list_sort)
  also have "\<dots> = sum_list (map (\<lambda>(k, v). length (string_text k) + 2 + length (dumps v)) kvs)"
    by (simp add: o_def case_prod_unfold)
  also have "\<dots> \<le> sum_list (map (\<lambda>(k, v). 6 * length k + 4 + json_weight v) kvs)"
  proof (rule sum_list_mono_ext)
    fix x assume x: "x \<in> set kvs"
    obtain k v where kv: "x = (k, v)" by (cases x)
    have "length (dumps v) \<le> json_weight v" using 6 x kv by auto
    then show "(\<lambda>(k, v). length (string_text k) + 2 + length (dumps v)) x \<le> (\<lambda>(k, v). 6 * length k + 4 + json_weight v) x"
      using length_string_text [of k] by (simp add: kv)
  qed
  finally show ?case by simp
qed (simp_all add: lit_def)

lemma length_utf8: "length (utf8 v) \<le> 4 * length v"
proof (induction v)
  case (Cons c v)
  have "length (utf8_char c) \<le> 4" by simp
  with Cons show ?case by (simp add: utf8_def)
qed (simp add: utf8_def)

lemma length_integrity: "length (integrity_bytes j) \<le> 4 * json_weight j"
  using length_utf8 [of "dumps j"] length_dumps [of j]
  by (simp add: integrity_bytes_def authority_json_bytes_def)

lemma int_text_digit: "0 \<le> i \<Longrightarrow> i < 10 \<Longrightarrow> int_text i = [48 + nat i]"
  by (simp add: int_text_def nat_digits.simps)

section \<open>The environment\<close>

definition zeros :: pystr where "zeros = replicate 64 48"

definition demo_env :: pyenv where
  "demo_env = \<lparr>sha256 = (\<lambda>_. zeros), nfc = (\<lambda>v. v), uni_digit = (\<lambda>_. False), uni_alnum = (\<lambda>_. False),
     uni_lower = (\<lambda>_. False), uni_upper = (\<lambda>_. False)\<rparr>"

definition demo_time :: pystr where "demo_time = lit ''2026-01-01T00:00:00Z''"

lemma demo_sha [simp]: "sha256 demo_env b = zeros" and demo_nfc [simp]: "nfc demo_env v = v"
  by (simp_all add: demo_env_def)

lemma zeros_hex [simp]: "sha256_hex zeros" and zeros_object [simp]: "git_object_id zeros"
  and length_zeros [simp]: "length zeros = 64" and zeros_Nil [simp]: "zeros \<noteq> []"
  by (simp_all add: zeros_def sha256_hex_def git_object_id_def list_all_iff is_hex_def is_digit_def)

lemma demo_time_ok [simp]: "utc_timestamp demo_time"
  by (simp add: demo_time_def lit_def utc_timestamp_def utc_shape_def is_digit_def)

lemma demo_digest [simp]: "body_digest demo_env r = zeros" "integrity_digest demo_env j = zeros"
  "event_identity demo_env e = zeros" "mutation_identity demo_env d = zeros"
  by (simp_all add: body_digest_def integrity_digest_def event_identity_def mutation_identity_def)

lemmas text_defs =
  scalar_field_def no_forbidden_codepoints_def is_surrogate_def bidirectional_controls_def
  strip_def is_space_def lit_def MAX_IDENTIFIER_CHARS_def MAX_ROOT_PATH_CHARS_def

definition demo_record :: run_record where
  "demo_record =
     \<lparr>rr_schema_version = 2, rr_run_id = lit ''run-1'', rr_repository_root = lit ''/r'',
      rr_repository_identity = lit ''repo'', rr_expected_branch = lit ''main'',
      rr_baseline_sha = zeros, rr_contract_sha256 = zeros, rr_workflow_state = IDLE,
      rr_stop_reason = None, rr_created_at = demo_time, rr_updated_at = demo_time,
      rr_policy_digest = Some zeros, rr_stage_start_id = Some zeros, rr_current_milestone = None,
      rr_completed_milestones = [], rr_milestone_checkpoints = [], rr_changed_paths = [],
      rr_provider_runs = [], rr_verification_results = [], rr_blocking_findings = [],
      rr_deferred_findings = [], rr_approvals = [], rr_review_attempts = 0,
      rr_successful_review_rounds = 0, rr_provider_failure_count = 0, rr_correction_round = 0,
      rr_closure_round = 0, rr_reconciliations = [], rr_reopenings = [], rr_review_recoveries = [],
      rr_revalidations = []\<rparr>"

lemma demo_scalars [simp]:
  "scalar_field demo_env MAX_IDENTIFIER_CHARS (lit ''run-1'')"
  "scalar_field demo_env MAX_IDENTIFIER_CHARS (lit ''repo'')"
  "scalar_field demo_env MAX_IDENTIFIER_CHARS (lit ''main'')"
  "absolute_path demo_env (lit ''/r'')"
  by (simp_all add: text_defs absolute_path_def)

lemma demo_record_valid [simp]: "validate_run_record demo_env demo_record = Some demo_record"
  by (simp add: demo_record_def validate_run_record_def scalar_fields_ok_def record_consistent_def
      STATE_SCHEMA_VERSION_def sorted_unique_def)

definition demo_pins :: operation_pins where
  "demo_pins = \<lparr>pn_repository_identity = lit ''repo'', pn_stage_id = lit ''AUTO-018'', pn_run_id = lit ''run-1'',
     pn_contract_sha256 = zeros, pn_policy_digest = zeros, pn_stage_start_id = zeros\<rparr>"

lemma demo_run_id [simp]: "run_id_grammar (lit ''run-1'')" "124 \<notin> set (lit ''run-1'')"
  unfolding lit_def by (simp_all add: run_id_grammar_def finding_id_def char_class_defs)

lemma demo_pins_valid [simp]: "validate_event_pins demo_pins" "valid_operation_pins demo_pins"
  unfolding validate_event_pins_def valid_operation_pins_def demo_pins_def
  by (simp_all, simp add: lit_def stage_id_grammar_def milestone_suffix_def stage_segments_def char_class_defs is_upnum_def)

text \<open>Event \<open>n\<close> of the run, outside and inside a declared mutation.\<close>

definition demo_event :: "int \<Rightarrow> (pystr \<times> int) option \<Rightarrow> event_payload \<Rightarrow> lifecycle_event" where
  "demo_event n mutation payload =
     \<lparr>le_schema_version = 1, le_pins = demo_pins, le_sequence = n, le_state_version = n,
      le_event_type = payload_event_type payload, le_recorded_at = demo_time,
      le_mutation_id = map_option fst mutation, le_mutation_index = map_option snd mutation,
      le_payload = payload, le_payload_digest = zeros,
      le_prev_event_digest = (if n = 1 then None else Some zeros), le_event_id = zeros\<rparr>"

lemma demo_event_valid:
  assumes "1 \<le> n" "n \<le> 1000" "validate_payload demo_env payload" "mutation = None \<or> mutation = Some (zeros, i) \<and> 1 \<le> i"
  shows "valid_item demo_env (demo_event n mutation payload, zeros)"
  using assms
  by (auto simp: valid_item_def validate_event_def demo_event_def LIFECYCLE_SCHEMA_VERSION_def
      valid_sequence_def MAX_EVENT_SEQUENCE_def MAX_STATE_VERSION_def)

definition demo_genesis :: lifecycle_event where
  "demo_genesis = demo_event 1 None (RunInitialized demo_record)"

definition demo_state :: fold_state where
  "demo_state =
     \<lparr>fs_pins = demo_pins, fs_record = demo_record, fs_body_digest = zeros, fs_sequence = 1,
      fs_event_id = zeros, fs_event_sha256 = zeros, fs_genesis = RUN_INITIALIZED,
      fs_prev_event_digest = None, fs_stage_start_bound = False, fs_policy_published = False,
      fs_open_mutation = None, fs_operations = Map.empty, fs_references = [],
      fs_prospective_paths = [], fs_causative_events = []\<rparr>"

lemma demo_genesis_valid: "valid_item demo_env (demo_genesis, zeros)"
  unfolding demo_genesis_def by (rule demo_event_valid) simp_all

lemma demo_genesis_step: "fold_step demo_env None None (demo_genesis, zeros) = Inr demo_state"
  by (simp add: fold_step_def genesis_step_def demo_genesis_def demo_event_def GENESIS_TYPES_def
      genesis_record_def demo_pins_def demo_record_def demo_state_def)

section \<open>The run after its genesis\<close>

definition stage_ref :: "evidence_kind \<Rightarrow> evidence_reference" where
  "stage_ref kind =
     \<lparr>er_kind = kind, er_root = ROOT_REPOSITORY,
      er_path = (case stage_start_reference_path kind zeros of Some p \<Rightarrow> p | None \<Rightarrow> []),
      er_sha256 = zeros, er_byte_count = 1\<rparr>"

definition run_ref :: "evidence_kind \<Rightarrow> pystr \<Rightarrow> evidence_reference" where
  "run_ref kind path =
     \<lparr>er_kind = kind, er_root = ROOT_RUN, er_path = path, er_sha256 = zeros, er_byte_count = 1\<rparr>"

definition demo_path :: "artifact_name \<Rightarrow> int option \<Rightarrow> pystr" where
  "demo_path name attempt = (case operation_artifact_path zeros name attempt of Inr p \<Rightarrow> p | Inl _ \<Rightarrow> [])"

definition demo_ref :: "artifact_name \<Rightarrow> int option \<Rightarrow> evidence_reference" where
  "demo_ref name attempt = run_ref (operation_kind_by_name name) (demo_path name attempt)"

lemma zeros_hexes: "list_all is_hex zeros"
  by (simp add: zeros_def list_all_iff is_hex_def is_digit_def)

lemma stage_ref_valid [simp]:
  "stage_kind_suffix kind = Some suff \<Longrightarrow> validate_reference demo_env (stage_ref kind) = Some (stage_ref kind)"
  by (simp add: validate_reference_def stage_ref_def stage_start_reference_path_def Let_def zeros_hexes
      suffix_def)

lemma policy_ref_valid [simp]:
  "validate_reference demo_env (run_ref EK_POLICY POLICY_REFERENCE_PATH) = Some (run_ref EK_POLICY POLICY_REFERENCE_PATH)"
  by (simp add: validate_reference_def run_ref_def classify_run_evidence_path_def)

lemma demo_path_run [simp]:
  "name \<in> set run_level_artifacts \<Longrightarrow> operation_artifact_path zeros name None = Inr (demo_path name None)"
  by (simp add: demo_path_def operation_artifact_path_def)

lemma demo_path_attempt [simp]:
  "name \<in> set attempt_artifacts \<Longrightarrow> operation_artifact_path zeros name (Some 1) = Inr (demo_path name (Some 1))"
  by (simp add: demo_path_def operation_artifact_path_def attempt_names)

lemma stage_suffix_operation [simp]: "stage_kind_suffix (operation_kind_by_name name) = None"
  by (cases name) simp_all

lemma demo_ref_valid:
  "operation_artifact_path zeros name attempt = Inr p \<Longrightarrow>
     validate_reference demo_env (demo_ref name attempt) = Some (demo_ref name attempt)"
  by (simp add: validate_reference_def demo_ref_def run_ref_def demo_path_def classify_operation_path)

definition demo_step :: operation_step where
  "demo_step = \<lparr>st_step_kind = PROVIDER, st_cycle_no = 0, st_role = REVIEW, st_slot = DISCOVERY_SLOT\<rparr>"

definition demo_adapter :: adapter_identity where
  "demo_adapter = \<lparr>ad_provider = lit ''codex'', ad_adapter_type = lit ''Codex''\<rparr>"

lemma demo_step_valid [simp]: "validate_step demo_step = Some demo_step" "124 \<notin> set DISCOVERY_SLOT"
  by (simp_all add: validate_step_def demo_step_def DISCOVERY_SLOT_def lit_def)

lemma demo_adapter_valid [simp]: "valid_adapter demo_adapter"
  by (simp add: valid_adapter_def demo_adapter_def provider_name_def adapter_type_name_def lit_def char_class_defs)

lemma demo_operation_id [simp]: "operation_id demo_env (lit ''run-1'') demo_step = Inr zeros"
  by (simp add: operation_id_def)

definition demo_attempt_evidence :: "artifact_name \<Rightarrow> attempt_evidence" where
  "demo_attempt_evidence name =
     \<lparr>ae_operation_id = zeros, ae_attempt = 1, ae_reference = demo_ref name (Some 1)\<rparr>"

definition demo_outcome :: execution_outcome where
  "demo_outcome = \<lparr>eo_exit_code = Some 0, eo_timed_out = False, eo_failure_class = None, eo_duration_ms = 5,
     eo_stdout_truncated = False, eo_stderr_truncated = False\<rparr>"

definition demo_payloads :: "event_payload list" where
  "demo_payloads =
     [StageStartBound \<lparr>ss_authorization = stage_ref EK_STAGE_START_AUTHORIZATION,
        ss_binding = stage_ref EK_STAGE_START_BINDING, ss_witness = stage_ref EK_STAGE_START_WITNESS\<rparr>,
      PolicyPublished (run_ref EK_POLICY POLICY_REFERENCE_PATH),
      OperationRequestCreated \<lparr>qc_operation_id = zeros, qc_step = demo_step, qc_adapter = demo_adapter,
        qc_request = demo_ref REQUEST_FILE_NAME None\<rparr>,
      OperationDispatchIntent (demo_attempt_evidence DISPATCH_INTENT_FILE_NAME),
      OperationDispatchReceived (demo_attempt_evidence DISPATCH_RECEIPT_FILE_NAME),
      OperationResultReceived \<lparr>rc_operation_id = zeros, rc_attempt = 1,
        rc_raw_result = demo_ref RAW_RESULT_FILE_NAME (Some 1), rc_outcome = demo_outcome, rc_transcripts = []\<rparr>,
      OperationResultValidated \<lparr>rvd_operation_id = zeros, rvd_attempt = 1, rvd_verdict = VALID,
        rvd_validated = demo_ref VALIDATED_RESULT_FILE_NAME (Some 1)\<rparr>]"

definition demo_items :: "(lifecycle_event \<times> pystr) list" where
  "demo_items = map (\<lambda>(i, p). (demo_event i None p, zeros)) (zip (map int [2..<9]) demo_payloads)"

definition demo_references :: "evidence_reference list" where
  "demo_references =
     [stage_ref EK_STAGE_START_AUTHORIZATION, stage_ref EK_STAGE_START_BINDING,
      stage_ref EK_STAGE_START_WITNESS, run_ref EK_POLICY POLICY_REFERENCE_PATH,
      demo_ref REQUEST_FILE_NAME None, demo_ref DISPATCH_INTENT_FILE_NAME (Some 1),
      demo_ref DISPATCH_RECEIPT_FILE_NAME (Some 1), demo_ref RAW_RESULT_FILE_NAME (Some 1),
      demo_ref VALIDATED_RESULT_FILE_NAME (Some 1)]"

definition demo_attempt :: attempt_record where
  "demo_attempt =
     \<lparr>at_attempt = 1, at_intent_sha256 = zeros, at_receipt_sha256 = Some zeros,
      at_pre_spawn_failure_sha256 = None, at_raw_result_sha256 = Some zeros,
      at_validated_sha256 = Some zeros, at_verdict = Some VALID\<rparr>"

definition demo_operation :: operation_record where
  "demo_operation =
     \<lparr>op_operation_id = zeros, op_step = demo_step, op_request_sha256 = zeros, op_adapter = demo_adapter,
      op_role = REVIEW, op_milestone_id = None, op_attempts = [demo_attempt], op_fingerprint_sha256 = None,
      op_persisted = None, op_persisted_verdict_sha256 = None, op_transition_event_id = None,
      op_transition_state_version = None, op_highest_phase = PH_RESULT_VALIDATED\<rparr>"

definition demo_state8 :: fold_state where
  "demo_state8 =
     demo_state\<lparr>fs_sequence := 8, fs_prev_event_digest := Some zeros, fs_stage_start_bound := True,
       fs_policy_published := True, fs_references := demo_references,
       fs_operations := [zeros \<mapsto> demo_operation]\<rparr>"

lemma demo_items_valid: "list_all (valid_item demo_env) demo_items"
proof -
  have "list_all (validate_payload demo_env) demo_payloads"
    by (simp add: demo_payloads_def demo_ref_valid [OF demo_path_run] demo_ref_valid [OF demo_path_attempt]
        run_level_artifacts_def attempt_artifacts_def validate_attempt_evidence_def
        demo_attempt_evidence_def MAX_OPERATION_ATTEMPTS_def demo_outcome_def MAX_EVENT_REFERENCES_def)
  then have "\<forall>(i, p) \<in> set (zip (map int [2..<9]) demo_payloads). valid_item demo_env (demo_event i None p, zeros)"
  proof (intro ballI, clarify)
    fix i p
    assume m: "(i, p) \<in> set (zip (map int [2..<9]) demo_payloads)"
      and v: "list_all (validate_payload demo_env) demo_payloads"
    have "2 \<le> i \<and> i < 9" using set_zip_leftD [OF m] by auto
    moreover have "validate_payload demo_env p"
      using set_zip_rightD [OF m] v by (simp add: list_all_iff)
    ultimately show "valid_item demo_env (demo_event i None p, zeros)"
      by (intro demo_event_valid) auto
  qed
  then show ?thesis by (auto simp: demo_items_def list_all_iff)
qed

lemmas demo_step_defs =
  fold_step_def admit_event_def payload_effect_def next_digest_def advance_mutation_def
  open_declaration_def bootstrapped_def GENESIS_TYPES_def DECLARED_ONLY_TYPES_def demo_event_def
  apply_operation_def attempt_step_def intent_step_def expect_artifact_def require_reference_def
  new_operation_def new_attempt_def

lemma demo_step_fields [simp]: "st_role demo_step = REVIEW" "step_milestone_id demo_step = None"
  by (simp_all add: demo_step_def step_milestone_id_def)

lemma last_opt_single [simp]: "last_opt [x] = Some x"
  by (simp add: last_opt_def)

lemma demo_operation_steps:
  "fold_from demo_env demo_state demo_items = Inr demo_state8"
  by (simp add: demo_items_def demo_payloads_def upt_rec demo_step_defs Let_def
      demo_state8_def demo_state_def demo_references_def demo_operation_def demo_attempt_def
      stage_start_reference_ok_def stage_ref_def stage_start_reference_path_def demo_pins_def run_ref_def
      demo_ref_def demo_attempt_evidence_def run_level_artifacts_def attempt_artifacts_def)

end
