(* ===== verification/Concrete_Mutation.thy ===== *)
theory Concrete_Mutation
  imports Concrete_Chain
begin

text \<open>
  The concrete run goes on: after the verdict (event 8) a declaration accepts the result (event 9),
  its two constituents count a successful review round (event 10) and move the run from IDLE to
  PREFLIGHT because of the operation (event 11).
\<close>

definition no_updates :: record_updates where
  "no_updates =
     \<lparr>ru_assigned = [], ru_updated_at = None, ru_stop_reason = None, ru_current_milestone = None,
      ru_completed_milestones = None, ru_milestone_checkpoints = None, ru_changed_paths = None,
      ru_provider_runs = None, ru_verification_results = None, ru_blocking_findings = None,
      ru_deferred_findings = None, ru_approvals = None, ru_review_attempts = None,
      ru_successful_review_rounds = None, ru_provider_failure_count = None, ru_correction_round = None,
      ru_closure_round = None\<rparr>"

definition round_updates :: record_updates where
  "round_updates =
     no_updates\<lparr>ru_assigned := [F_SUCCESSFUL_REVIEW_ROUNDS], ru_successful_review_rounds := Some 1\<rparr>"

definition demo_accepted :: constituent_payload where
  "demo_accepted = OperationResultAccepted
     \<lparr>ra_before_body_digest = zeros, ra_after_body_digest = zeros, ra_operation_id = zeros,
      ra_accepted_result_sha256 = zeros, ra_updates = round_updates\<rparr>"

definition demo_transition :: constituent_payload where
  "demo_transition = StateTransitioned
     \<lparr>tr_before_body_digest = zeros, tr_after_body_digest = zeros, tr_from_state = IDLE,
      tr_to_state = PREFLIGHT, tr_stop_reason = None, tr_updates = no_updates, tr_operation_id = Some zeros\<rparr>"

definition demo_constituent :: "int \<Rightarrow> constituent_payload \<Rightarrow> manifest_constituent" where
  "demo_constituent i p =
     \<lparr>mc_index = i, mc_event_type = constituent_event_type p, mc_sequence = 9 + i, mc_state_version = 9 + i,
      mc_recorded_at = demo_time, mc_before_body_digest = zeros, mc_after_body_digest = zeros, mc_payload = p\<rparr>"

definition demo_declaration :: mutation_declaration where
  "demo_declaration =
     \<lparr>md_schema_version = 1, md_mutation_id = zeros, md_pins = demo_pins, md_prior_event_id = zeros,
      md_prior_sequence = 8, md_prior_state_version = 8, md_prior_body_digest = zeros,
      md_action = RESULT_ACCEPTANCE, md_command = MC_START, md_initiated_at = demo_time,
      md_evidence = ResultEvidence \<lparr>rv_operation_id = zeros, rv_disposition = ACCEPTED,
         rv_verdict = Some (demo_ref VALIDATED_RESULT_FILE_NAME (Some 1))\<rparr>,
      md_constituents = [demo_constituent 1 demo_accepted, demo_constituent 2 demo_transition],
      md_transitions = [\<lparr>it_index = 2, it_from_state = IDLE, it_to_state = PREFLIGHT,
         it_stop_reason = None, it_updates = no_updates\<rparr>],
      md_final_body_digest = zeros\<rparr>"

definition demo_items2 :: "(lifecycle_event \<times> pystr) list" where
  "demo_items2 =
     [(demo_event 9 None (ApplicationMutationDeclared demo_declaration), zeros),
      (demo_event 10 (Some (zeros, 1)) (Constituent demo_accepted), zeros),
      (demo_event 11 (Some (zeros, 2)) (Constituent demo_transition), zeros)]"

definition demo_state9 :: fold_state where
  "demo_state9 =
     demo_state8\<lparr>fs_sequence := 9,
       fs_open_mutation := Some \<lparr>om_declaration = demo_declaration, om_declaration_sequence = 9, om_applied = 0\<rparr>\<rparr>"

definition demo_state11 :: fold_state where
  "demo_state11 =
     demo_state8\<lparr>fs_sequence := 11,
       fs_record := demo_record\<lparr>rr_successful_review_rounds := 1, rr_workflow_state := PREFLIGHT\<rparr>,
       fs_operations := [zeros \<mapsto> demo_operation
          \<lparr>op_persisted := Some ACCEPTED, op_persisted_verdict_sha256 := Some zeros,
           op_transition_event_id := Some zeros, op_transition_state_version := Some 11,
           op_highest_phase := PH_TRANSITION_APPLIED\<rparr>],
       fs_causative_events := [(zeros, (zeros, 11, zeros))]\<rparr>"

lemma no_updates_valid [simp]: "validate_updates demo_env no_updates = Some no_updates"
  by (simp add: validate_updates_def no_updates_def nested_values_ok_def all_record_field_def
      updates_value_none_def Let_def)

lemma round_updates_valid [simp]: "validate_updates demo_env round_updates = Some round_updates"
  by (simp add: validate_updates_def round_updates_def no_updates_def nested_values_ok_def all_record_field_def
      updates_value_none_def Let_def)

lemma demo_constituents_valid [simp]:
  "validate_constituent_payload demo_env demo_accepted" "validate_constituent_payload demo_env demo_transition"
  by (simp_all add: demo_accepted_def demo_transition_def)

lemma demo_verdict_valid [simp]:
  "validate_reference demo_env (demo_ref VALIDATED_RESULT_FILE_NAME (Some 1)) = Some (demo_ref VALIDATED_RESULT_FILE_NAME (Some 1))"
  by (simp add: demo_ref_valid [OF demo_path_attempt] attempt_artifacts_def)

lemma demo_declaration_valid [simp]: "validate_declaration_model demo_env demo_declaration"
  by (simp add: validate_declaration_model_def demo_declaration_def LIFECYCLE_SCHEMA_VERSION_def
      MAX_MANIFEST_CONSTITUENTS_def MAX_EVENT_SEQUENCE_def MAX_STATE_VERSION_def demo_constituent_def demo_accepted_def
      demo_transition_def intended_matches_def Let_def)

lemma demo_items2_valid: "list_all (valid_item demo_env) demo_items2"
  by (simp add: demo_items2_def demo_event_valid [where i = 1] demo_event_valid [where i = 2])

lemma length_demo_path: "length (demo_path VALIDATED_RESULT_FILE_NAME (Some 1)) = 111"
  by (simp add: demo_path_def operation_artifact_path_def attempt_names attempt_artifacts_def
      OPERATIONS_DIRECTORY_def ATTEMPTS_DIRECTORY_def lit_def)

lemma int_text_two: "length (int_text 10) \<le> 2" "length (int_text 11) \<le> 2"
  by (simp_all add: int_text_def nat_digits_length)

lemma demo_declaration_size:
  "length (integrity_bytes (dump_event (demo_event 9 None (ApplicationMutationDeclared demo_declaration))))
     \<le> MAX_LIFECYCLE_DOCUMENT_BYTES"
proof -
  have "json_weight (dump_event (demo_event 9 None (ApplicationMutationDeclared demo_declaration))) \<le> 1000000"
    using int_text_two
    by (simp add: dump_event_def demo_event_def dump_pins_def demo_pins_def dump_declaration_def
      demo_declaration_def dump_result_evidence_def dump_reference_def demo_ref_def run_ref_def
      dump_manifest_constituent_def demo_constituent_def demo_accepted_def demo_transition_def
      dump_result_accepted_def dump_state_transitioned_def dump_intended_transition_def dump_updates_def
      no_updates_def round_updates_def lit_def demo_time_def int_text_digit length_demo_path)
  then show ?thesis
    using length_integrity [of "dump_event (demo_event 9 None (ApplicationMutationDeclared demo_declaration))"]
    by (simp add: MAX_LIFECYCLE_DOCUMENT_BYTES_def)
qed

lemmas demo_mutation_defs =
  demo_declaration_def demo_constituent_def demo_accepted_def demo_transition_def no_updates_def
  round_updates_def demo_state8_def demo_state_def demo_pins_def demo_operation_def demo_attempt_def

lemma demo_declared_ok:
  "validate_declaration demo_env demo_state8 (demo_event 9 None (ApplicationMutationDeclared demo_declaration))
     demo_declaration = Inr ()"
  using demo_declaration_size
  by (simp add: validate_declaration_def demo_event_def demo_mutation_defs CONSTITUENT_TYPES_def
      validate_result_declaration_def validate_result_evidence_def verdict_reference_ok_def
      demo_ref_def run_ref_def Let_def attempt_artifacts_def)

lemma demo_step9:
  "fold_step demo_env None (Some demo_state8)
     (demo_event 9 None (ApplicationMutationDeclared demo_declaration), zeros) = Inr demo_state9"
proof -
  have "admit_event demo_state8 (demo_event 9 None (ApplicationMutationDeclared demo_declaration)) = Inr ()"
    by (simp add: admit_event_def demo_event_def demo_state8_def demo_state_def GENESIS_TYPES_def
        bootstrapped_def DECLARED_ONLY_TYPES_def)
  moreover have "fs_open_mutation demo_state8 = None" by (simp add: demo_state8_def demo_state_def)
  ultimately show ?thesis
    using demo_declared_ok
    by (simp add: fold_step_def payload_effect_def next_digest_def advance_mutation_def demo_event_def
        demo_state9_def demo_state8_def demo_state_def)
qed

definition demo_state10 :: fold_state where
  "demo_state10 =
     demo_state8\<lparr>fs_sequence := 10,
       fs_record := demo_record\<lparr>rr_successful_review_rounds := 1\<rparr>,
       fs_operations := [zeros \<mapsto> demo_operation
          \<lparr>op_persisted := Some ACCEPTED, op_persisted_verdict_sha256 := Some zeros,
           op_highest_phase := PH_RESULT_PERSISTED\<rparr>],
       fs_open_mutation := Some \<lparr>om_declaration = demo_declaration, om_declaration_sequence = 9, om_applied = 1\<rparr>\<rparr>"

lemma demo_record10_valid:
  "validate_run_record demo_env (demo_record\<lparr>rr_successful_review_rounds := 1\<rparr>)
     = Some (demo_record\<lparr>rr_successful_review_rounds := 1\<rparr>)"
  "validate_run_record demo_env (demo_record\<lparr>rr_successful_review_rounds := 1, rr_workflow_state := PREFLIGHT\<rparr>)
     = Some (demo_record\<lparr>rr_successful_review_rounds := 1, rr_workflow_state := PREFLIGHT\<rparr>)"
  by (simp_all add: demo_record_def validate_run_record_def scalar_fields_ok_def record_consistent_def
      STATE_SCHEMA_VERSION_def sorted_unique_def)

lemma updates_assigned [simp]: "ru_assigned round_updates = [F_SUCCESSFUL_REVIEW_ROUNDS]" "ru_assigned no_updates = []"
  by (simp_all add: round_updates_def no_updates_def)

lemma demo_step10:
  "fold_step demo_env None (Some demo_state9)
     (demo_event 10 (Some (zeros, 1)) (Constituent demo_accepted), zeros) = Inr demo_state10"
proof -
  have upd: "apply_updates demo_env demo_record round_updates None
      = Inr (demo_record\<lparr>rr_successful_review_rounds := 1\<rparr>)"
    by (simp add: apply_updates_def round_updates_def assign_field_def demo_record10_valid)
  have moved: "counters_move_by_one round_updates demo_record (demo_record\<lparr>rr_successful_review_rounds := 1\<rparr>)"
    by (simp add: counters_move_by_one_def assigned_counters_def COUNTER_FIELDS_def all_record_field_def
        round_updates_def counter_value_def demo_record_def)
  show ?thesis
    using upd moved
    by (simp add: fold_step_def admit_event_def expected_constituent_def demo_event_def demo_state9_def
        demo_state8_def demo_state_def demo_state10_def GENESIS_TYPES_def bootstrapped_def Let_def
        demo_declaration_def demo_constituent_def demo_accepted_def payload_effect_def open_declaration_def
        apply_accepted_def persistence_view_def result_evidence_of_def demo_operation_def demo_attempt_def
        check_accepted_def persist_operation_def next_digest_def advance_mutation_def
        ACCEPTED_FIELDS_def nth_opt_def)
qed

lemma demo_step11:
  "fold_step demo_env None (Some demo_state10)
     (demo_event 11 (Some (zeros, 2)) (Constituent demo_transition), zeros) = Inr demo_state11"
proof -
  have upd: "apply_updates demo_env (demo_record\<lparr>rr_successful_review_rounds := 1\<rparr>) no_updates (Some (PREFLIGHT, None))
      = Inr (demo_record\<lparr>rr_successful_review_rounds := 1, rr_workflow_state := PREFLIGHT\<rparr>)"
    using demo_record10_valid(2) by (simp add: apply_updates_def no_updates_def demo_record_def)
  have idle: "rr_workflow_state demo_record = IDLE" by (simp add: demo_record_def)
  show ?thesis
    using upd idle
    by (simp add: fold_step_def admit_event_def expected_constituent_def demo_event_def demo_state10_def
        demo_state8_def demo_state_def demo_state11_def GENESIS_TYPES_def bootstrapped_def Let_def
        demo_declaration_def demo_constituent_def demo_transition_def payload_effect_def open_declaration_def
        apply_transition_def mark_caused_def next_digest_def advance_mutation_def
        nth_opt_def transition_defs)
qed

lemma demo_mutation_steps: "fold_from demo_env demo_state8 demo_items2 = Inr demo_state11"
  using demo_step9 demo_step10 demo_step11 by (simp add: demo_items2_def)

end
