(* ===== verification/Concrete_Directory.thy ===== *)
theory Concrete_Directory
  imports Concrete_Mutation
begin

text \<open>
  A run directory on disk: the genesis event of the concrete run, its publication witness, no
  projection. The JSON reader of this instance maps every file to one versioned object, from which
  the typed models are decoded.
\<close>

definition demo_witness :: publication_witness where
  "demo_witness =
     \<lparr>pw_schema_version = 1, pw_pins = demo_pins, pw_sequence = 1, pw_event_id = zeros,
      pw_event_sha256 = zeros, pw_prev_event_digest = None\<rparr>"

definition demo_document :: json where
  "demo_document = JObj [(lit ''schema_version'', JInt 1)]"

definition demo_wire :: wire where
  "demo_wire =
     \<lparr>loads = (\<lambda>_. Some demo_document), decode_event = (\<lambda>_. Some demo_genesis),
      decode_witness = (\<lambda>_. Some demo_witness), decode_artifact = (\<lambda>_ _. None)\<rparr>"

definition demo_name :: pystr where
  "demo_name = pad8 1 @ lit ''-'' @ event_type_value RUN_INITIALIZED @ lit ''.json''"

definition demo_directory :: run_directory where
  "demo_directory =
     \<lparr>rd_event_names = Some [demo_name],
      rd_run = [event_path demo_name \<mapsto> RegularFile (canonical_bytes demo_genesis),
                PUBLICATION_WITNESS_FILE_NAME \<mapsto> RegularFile (integrity_bytes (dump_witness demo_witness))],
      rd_root = Map.empty\<rparr>"

lemma demo_names [simp]: "rd_event_names demo_directory = Some [demo_name]"
  by (simp add: demo_directory_def)

definition demo_owner :: "pystr \<times> pystr" where
  "demo_owner = (lit ''run-1'', lit ''repo'')"

lemma demo_name_parsed [simp]: "parse_event_file_name demo_name = Some (1, RUN_INITIALIZED)"
  by (rule parse_event_file_name_name)
    (simp add: event_file_name_def demo_name_def MAX_EVENT_SEQUENCE_def MAX_STATE_VERSION_def)

lemma hd_pad8: "pad8 1 = [48, 48, 48, 48, 48, 48, 48, 49]"
  by (simp add: pad8_def int_text_digit numeral_eq_Suc)

lemma demo_listing: "bounded_event_names [demo_name] = Inr [(1, RUN_INITIALIZED, demo_name)]"
proof -
  have "take (length TEMP_FILE_PREFIX) demo_name \<noteq> TEMP_FILE_PREFIX"
    by (simp add: TEMP_FILE_PREFIX_def demo_name_def hd_pad8 lit_def)
  then show ?thesis by (simp add: bounded_event_names_def MAX_EVENT_FILES_def)
qed

lemma demo_genesis_size: "length (canonical_bytes demo_genesis) \<le> MAX_LIFECYCLE_DOCUMENT_BYTES"
proof -
  have "json_weight (dump_event demo_genesis) \<le> 1000000"
    by (simp add: dump_event_def demo_genesis_def demo_event_def dump_pins_def demo_pins_def dump_run_record_def
        demo_record_def lit_def demo_time_def int_text_digit)
  then show ?thesis
    using length_integrity [of "dump_event demo_genesis"]
    by (simp add: MAX_LIFECYCLE_DOCUMENT_BYTES_def canonical_bytes_def)
qed

lemma demo_witness_size: "length (integrity_bytes (dump_witness demo_witness)) \<le> MAX_LIFECYCLE_DOCUMENT_BYTES"
proof -
  have "json_weight (dump_witness demo_witness) \<le> 1000000"
    by (simp add: dump_witness_def demo_witness_def dump_pins_def demo_pins_def lit_def int_text_digit)
  then show ?thesis
    using length_integrity [of "dump_witness demo_witness"]
    by (simp add: MAX_LIFECYCLE_DOCUMENT_BYTES_def)
qed

lemma demo_document_facts [simp]: "no_duplicate_keys demo_document"
  "obj_get demo_document (lit ''schema_version'') = Some (JInt 1)"
  by (simp_all add: demo_document_def obj_get_def)

lemma demo_paths_differ [simp]: "event_path demo_name \<noteq> PUBLICATION_WITNESS_FILE_NAME"
  "event_path demo_name \<noteq> STATE_FILE_NAME" "PUBLICATION_WITNESS_FILE_NAME \<noteq> STATE_FILE_NAME"
  by (simp_all add: event_path_def EVENTS_DIRECTORY_def PUBLICATION_WITNESS_FILE_NAME_def STATE_FILE_NAME_def lit_def)

lemma demo_stored:
  "parse_stored_event demo_env demo_wire demo_directory demo_name = Inr (demo_genesis, zeros)"
proof -
  have v: "validate_event demo_env demo_genesis = Some demo_genesis"
    using demo_genesis_valid by (simp add: valid_item_def)
  have f: "le_payload_digest demo_genesis = zeros" "le_event_id demo_genesis = zeros"
    "le_sequence demo_genesis = 1" "le_event_type demo_genesis = RUN_INITIALIZED"
    by (simp_all add: demo_genesis_def demo_event_def)
  have "parse_event_bytes demo_env (loads demo_wire) (decode_event demo_wire) demo_name (canonical_bytes demo_genesis)
      = Inr (demo_genesis, zeros)"
    using v f demo_genesis_size demo_document_facts
    by (simp add: parse_event_bytes_def demo_wire_def demo_document_def LIFECYCLE_SCHEMA_VERSION_def)
  then show ?thesis
    using demo_genesis_size
    by (simp add: parse_stored_event_def read_named_def demo_directory_def)
qed

lemma demo_stream:
  "stream_events demo_env demo_wire demo_directory va demo_owner [demo_name]
     = Inr (Some demo_state, [entry_of demo_genesis zeros])"
  using demo_genesis_step
  by (simp add: stream_events_def stream_step_def demo_owner_def demo_stored entry_of_def demo_state_def demo_pins_def
      demo_genesis_def demo_event_def)

lemma demo_witness_parsed:
  "parse_witness_bytes demo_wire (integrity_bytes (dump_witness demo_witness)) = Inr demo_witness"
proof -
  have "validate_witness demo_witness = Some demo_witness"
    by (simp add: validate_witness_def demo_witness_def LIFECYCLE_SCHEMA_VERSION_def valid_sequence_def
        MAX_EVENT_SEQUENCE_def MAX_STATE_VERSION_def)
  then show ?thesis
    using demo_witness_size
    by (simp add: parse_witness_bytes_def demo_wire_def demo_document_def obj_get_def LIFECYCLE_SCHEMA_VERSION_def)
qed

definition demo_view :: lifecycle_view where
  "demo_view =
     \<lparr>lv_record = demo_record, lv_state = demo_state, lv_chain = [entry_of demo_genesis zeros],
      lv_projection = MISSING, lv_missing_applied = []\<rparr>"

lemma demo_load: "stream_verified demo_env demo_wire demo_directory va demo_owner = Inr demo_view"
proof -
  have s: "fs_causative_events demo_state = []" "fs_prospective_paths demo_state = []"
    "check_witness demo_state (Some demo_witness) = Inr ()" "fs_record demo_state = demo_record"
    by (simp_all add: demo_state_def check_witness_def demo_witness_def)
  have p: "projection_status (loads demo_wire) demo_state None = Inr MISSING"
    by (simp add: projection_status_def projection_bytes_def event_backed_state_document_def demo_state_def
        demo_record_def is_policy_governed_def MAX_STATE_VERSION_def validate_tip_def)
  have w: "read_named (rd_run demo_directory) PUBLICATION_WITNESS_FILE_NAME MAX_LIFECYCLE_DOCUMENT_BYTES True
      = Inr (Some (integrity_bytes (dump_witness demo_witness)))"
    using demo_witness_size by (simp add: read_named_def demo_directory_def)
  have st: "read_named (rd_run demo_directory) STATE_FILE_NAME MAX_STATE_BYTES True = Inr None"
    by (simp add: read_named_def demo_directory_def not_sym)
  show ?thesis
    using s p w st demo_stream
    by (simp add: stream_verified_def demo_listing demo_witness_parsed demo_view_def Let_def)
qed

end
