(* ===== verification/Replay_Facts.thy ===== *)
theory Replay_Facts
  imports Chain_Facts Operation_Paths
begin

text \<open>
  Consequences of the invariants for whole replays: what \<open>fold\<close> establishes, what later loads of a
  grown directory keep, what the publication witness rules out, and when the projection is current.
\<close>

section \<open>The fold of a chain\<close>

definition fold_ok :: "pyenv \<Rightarrow> fold_state \<Rightarrow> bool" where
  "fold_ok E s \<longleftrightarrow> sound_record E s \<and> operations_ok s \<and> mutation_ok E s"

lemma genesis_fold_ok:
  assumes "genesis_step E event sha expected = Inr s" and "valid_item E (event, sha)"
  shows "fold_ok E s"
proof -
  have "genesis_step E event sha None = Inr s" using assms(1) by (auto simp: genesis_step_def Let_def)
  then show ?thesis
    using genesis_ok [of E event sha s] assms(2) by (simp add: fold_step_def stream_ok_def fold_ok_def)
qed

lemma fold_step_ok:
  assumes "fold_step E expected (Some s) (event, sha) = Inr t" and "valid_item E (event, sha)" and "fold_ok E s"
  shows "fold_ok E t" and "state_le s t"
  using fold_step_record [OF assms(1)] valid_item_payload [OF assms(2)] fold_step_operations [OF assms(1)]
    fold_step_mutation [OF assms(1,2)] assms(3)
  by (auto simp: fold_ok_def state_le_def)

text \<open>The fold past the genesis event does not look at the expected pins.\<close>

lemma fold_step_expected: "fold_step E expected (Some s) item = fold_step E None (Some s) item"
  by (simp add: fold_step_def)

definition valid_step :: "pyenv \<Rightarrow> fold_state \<Rightarrow> lifecycle_event \<times> pystr \<Rightarrow> lifecycle_error + fold_state" where
  "valid_step E s item = raise_if (\<not> valid_item E item) EventConflict (fold_step E None (Some s) item)"

interpretation chain: step_invariant "valid_step E" "fold_ok E" for E
  by unfold_locales (auto simp: valid_step_def intro: fold_step_ok)

interpretation chain: step_progress "valid_step E" "fold_ok E" state_le for E
  by unfold_locales (auto simp: valid_step_def intro: state_le_trans fold_step_ok)

lemma fold_from_valid: "list_all (valid_item E) items \<Longrightarrow> fold_from E s items = rfold (valid_step E) s items"
  by (induction items arbitrary: s) (auto simp: valid_step_def intro!: arg_cong2 [where f = rbind])

lemma fold_from_ok:
  assumes "fold_from E s items = Inr t" and "list_all (valid_item E) items" and "fold_ok E s"
  shows "fold_ok E t" and "state_le s t"
  using assms fold_from_valid chain.run_keeps chain.run_le by metis+

lemma fold_loop_Some:
  "fold_loop E expected (Some s) items = rbind (fold_from E s items) (\<lambda>t. Inr (Some t))"
proof (induction items arbitrary: s)
  case (Cons item items)
  show ?case
    using Cons fold_step_expected [of E expected s item]
    by (cases "fold_step E None (Some s) item") (auto simp: fold_loop_def)
qed (simp add: fold_loop_def)

lemma fold_chain_Cons:
  "fold_chain E expected ((event, sha) # items)
     = rbind (genesis_step E event sha expected) (\<lambda>s. fold_from E s items)"
proof (cases "genesis_step E event sha expected")
  case (Inr s)
  have "fold_loop E expected None ((event, sha) # items) = fold_loop E expected (Some s) items"
    using Inr by (simp add: fold_loop_def fold_step_def)
  then show ?thesis
    using Inr by (cases "fold_from E s items") (simp_all add: fold_chain_def fold_loop_Some)
qed (simp add: fold_chain_def fold_loop_def fold_step_def)

lemma fold_chain_Nil [simp]: "fold_chain E expected [] = Inl EventChainBroken"
  by (simp add: fold_chain_def fold_loop_def)

lemma fold_chain_ok:
  assumes "fold_chain E expected items = Inr s" and "list_all (valid_item E) items"
  shows "fold_ok E s"
proof (cases items)
  case (Cons item rest)
  obtain event sha where item: "item = (event, sha)" by (cases item)
  then obtain g where "genesis_step E event sha expected = Inr g" "fold_from E g rest = Inr s"
    using assms(1) Cons by (auto simp: fold_chain_Cons)
  then show ?thesis
    using genesis_fold_ok fold_from_ok(1) assms(2) Cons item by fastforce
qed (use assms in simp)

lemma fold_chain_length:
  assumes "fold_chain E expected items = Inr s"
  shows "fs_sequence s = int (length items)"
proof (cases items)
  case (Cons item rest)
  obtain event sha where item: "item = (event, sha)" by (cases item)
  then obtain g where g: "genesis_step E event sha expected = Inr g" and r: "fold_from E g rest = Inr s"
    using assms Cons by (auto simp: fold_chain_Cons)
  have "fs_sequence g = 1" using g by (rule genesis_step_cases) auto
  moreover have "fs_sequence t = fs_sequence g0 + int (length xs)" if "fold_from E g0 xs = Inr t" for g0 t xs
    using that
  proof (induction xs arbitrary: g0)
    case (Cons x xs)
    then show ?case by (cases x) (auto dest: fold_step_record(3))
  qed simp
  ultimately show ?thesis using r Cons by simp
qed (use assms in simp)

section \<open>Terminal runs\<close>

lemma terminal_stays:
  assumes "fold_from E s items = Inr t" and "list_all (valid_item E) items" and "fold_ok E s"
    and "rr_workflow_state (fs_record s) \<in> set TERMINAL_RUN_STATES"
  shows "rr_workflow_state (fs_record t) = rr_workflow_state (fs_record s)"
  using fold_from_ok(2) [OF assms(1-3)] run_path_terminal assms(4)
  by (auto simp: state_le_def record_evolves_def)

section \<open>Declared mutations\<close>

lemma declared_mutation_whole:
  assumes step: "fold_step E None (Some s) (event, sha) = Inr s1" and p: "le_payload event = ApplicationMutationDeclared d"
    and run: "fold_from E s1 items = Inr s2" and valid: "list_all (valid_item E) ((event, sha) # items)"
    and ok: "fold_ok E s" and len: "length items = length (md_constituents d)"
  shows "fs_open_mutation s2 = None \<and> body_digest E (fs_record s2) = md_final_body_digest d
    \<and> map (\<lambda>i. le_mutation_index (fst i)) items = map (\<lambda>c. Some (mc_index c)) (md_constituents d)"
proof -
  have v: "valid_item E (event, sha)" "list_all (valid_item E) items" using valid by simp_all
  have ok1: "fold_ok E s1" by (rule fold_step_ok(1) [OF step v(1) ok])
  have ok2: "fold_ok E s2" by (rule fold_from_ok(1) [OF run v(2) ok1])
  obtain t digest where eff: "payload_effect E s event sha = Inr t"
    and s1: "s1 = t\<lparr>fs_body_digest := digest, fs_sequence := le_sequence event,
                fs_event_id := le_event_id event, fs_event_sha256 := sha,
                fs_prev_event_digest := le_prev_event_digest event,
                fs_open_mutation := advance_mutation (fs_open_mutation s) (fs_open_mutation t)\<rparr>"
    using step by (rule fold_step_cases)
  have "fs_open_mutation s = None"
    "fs_open_mutation t = Some \<lparr>om_declaration = d, om_declaration_sequence = le_sequence event, om_applied = 0\<rparr>"
    using payload_effect_open [OF eff] p by auto
  then have m: "fs_open_mutation s1 = Some \<lparr>om_declaration = d, om_declaration_sequence = le_sequence event, om_applied = 0\<rparr>"
    by (simp add: s1 advance_mutation_def)
  have vd: "validate_declaration_model E d" using valid_item_payload [OF v(1)] p by simp
  have fin: "md_final_body_digest d = digest_at (md_prior_body_digest d) (md_constituents d) (length (md_constituents d))"
    by (rule validate_manifest_final [OF conjunct1 [OF declaration_manifest [OF vd]]])
  have r: "fs_body_digest s2 = digest_at (md_prior_body_digest d) (md_constituents d) (length items)
      \<and> fs_open_mutation s2 = None
      \<and> map (\<lambda>i. le_mutation_index (fst i)) items = map (\<lambda>c. Some (mc_index c)) (md_constituents d)"
    using open_mutation_run [OF run v(2) _ m] ok1 len by (simp add: fold_ok_def Let_def)
  have "fs_body_digest s2 = body_digest E (fs_record s2)"
    using ok2 by (simp add: fold_ok_def sound_record_def digest_current_def)
  then show ?thesis using r fin len by simp
qed

lemma open_mutation_step:
  assumes step: "fold_step E None (Some s) (event, sha) = Inr t" and v: "valid_item E (event, sha)"
    and ok: "fold_ok E s" and m: "fs_open_mutation s = Some m"
  shows "(\<exists>c. le_payload event = Constituent c)
    \<and> le_mutation_id event = Some (md_mutation_id (om_declaration m))
    \<and> le_mutation_index event = Some (int (om_applied m) + 1)
    \<and> fs_body_digest t = mc_after_body_digest (md_constituents (om_declaration m) ! om_applied m)"
proof -
  let ?d = "om_declaration m" and ?n = "om_applied m"
  have mok: "mutation_ok E s" using ok by (simp add: fold_ok_def)
  have "admit_event s event = Inr ()" using step by (rule fold_step_cases)
  note a = admit_open [OF this m]
  have "validate_declaration_model E ?d" using mok m by (simp add: mutation_ok_def Let_def)
  then have "mc_index (md_constituents ?d ! ?n) = 1 + int ?n"
    using validate_manifest_nth [OF conjunct1 [OF declaration_manifest]] a by blast
  then show ?thesis
    using constituent_step(2,3) [OF step v mok m] a by (simp add: Let_def digest_at_def)
qed

section \<open>Operations\<close>

lemma accepted_operation:
  assumes "fold_chain E expected items = Inr s" and "list_all (valid_item E) items"
    and "fs_operations s i = Some v" and "op_persisted v = Some ACCEPTED"
  shows "op_attempts v \<noteq> [] \<and> at_verdict (last (op_attempts v)) = Some VALID
    \<and> at_receipt_sha256 (last (op_attempts v)) \<noteq> None
    \<and> at_validated_sha256 (last (op_attempts v)) = op_persisted_verdict_sha256 v"
proof -
  have l: "ladder_ok i v" using fold_chain_ok [OF assms(1,2)] assms(3) by (simp add: fold_ok_def operations_ok_def)
  then have a: "op_attempts v \<noteq> []" "at_verdict (last (op_attempts v)) = Some VALID"
    "at_validated_sha256 (last (op_attempts v)) = op_persisted_verdict_sha256 v"
    using assms(4) by (simp_all add: ladder_ok_def accepted_on_valid_def)
  have "attempt_ok (last (op_attempts v))" using l a(1) by (simp add: ladder_ok_def attempts_ok_def)
  then show ?thesis using a by (auto simp: attempt_ok_def)
qed

lemma operation_evidence_kept:
  assumes "fold_from E s items = Inr t" and "list_all (valid_item E) items" and "fold_ok E s"
    and "fs_operations s i = Some v"
  shows "\<exists>w. fs_operations t i = Some w \<and> attempts_le (op_attempts v) (op_attempts w)
    \<and> (op_persisted v \<noteq> None \<longrightarrow> op_persisted w = op_persisted v \<and> op_attempts w = op_attempts v)
    \<and> phase_rank (op_highest_phase v) \<le> phase_rank (op_highest_phase w)"
proof -
  have "operations_le s t" using fold_from_ok(2) [OF assms(1-3)] by (simp add: state_le_def)
  then obtain w where "fs_operations t i = Some w" "ladder_le v w"
    using assms(4) unfolding operations_le_def by blast
  then show ?thesis by (auto simp: ladder_le_def kept_def)
qed

section \<open>A directory that has grown\<close>

lemma stored_event_same:
  "rd_run dir' (event_path n) = rd_run dir (event_path n) \<Longrightarrow>
     parse_stored_event E W dir' n = parse_stored_event E W dir n"
  by (simp add: parse_stored_event_def read_named_def)

lemma same_events_same_state:
  assumes "stream_events E W dir va owner ns = Inr st" and "stream_events E W dir' va' owner' ns = Inr st'"
    and "\<forall>n \<in> set ns. rd_run dir' (event_path n) = rd_run dir (event_path n)"
  shows "st' = st"
  using assms
proof (induction ns arbitrary: st st' rule: rev_induct)
  case (snoc n ns)
  obtain st0 where a: "stream_events E W dir va owner ns = Inr st0" "stream_step E W dir va owner st0 n = Inr st"
    using snoc.prems(1) by (rule stream_events_snoc)
  obtain su0 where b: "stream_events E W dir' va' owner' ns = Inr su0" "stream_step E W dir' va' owner' su0 n = Inr st'"
    using snoc.prems(2) by (rule stream_events_snoc)
  have same: "su0 = st0" using snoc.IH [OF a(1) b(1)] snoc.prems(3) by simp
  have p: "parse_stored_event E W dir' n = parse_stored_event E W dir n"
    using snoc.prems(3) by (intro stored_event_same) simp
  obtain state entries where st0: "st0 = (state, entries)" by (cases st0)
  show ?case
    using a(2) b(2) p unfolding same st0 by (elim stream_step_cases) (auto)
qed (simp add: stream_events_def)

lemma grown_directory:
  assumes "stream_verified E W dir va owner = Inr v" and "stream_verified E W dir' va' owner' = Inr v'"
    and "listed_names dir' = listed_names dir @ later"
    and "\<forall>n \<in> set (listed_names dir). rd_run dir' (event_path n) = rd_run dir (event_path n)"
  shows "state_le (lv_state v) (lv_state v')" and "extends (lv_chain v) (lv_chain v')"
proof -
  have a: "stream_events E W dir va owner (listed_names dir) = Inr (Some (lv_state v), lv_chain v)"
    using assms(1) by (rule stream_verified_cases)
  have b: "stream_events E W dir' va' owner' (listed_names dir @ later) = Inr (Some (lv_state v'), lv_chain v')"
    using assms(2) unfolding assms(3) [symmetric] by (rule stream_verified_cases)
  then obtain st where c: "stream_events E W dir' va' owner' (listed_names dir) = Inr st"
    by (auto simp: stream_events_def rfold_append)
  have "st = (Some (lv_state v), lv_chain v)" by (rule same_events_same_state [OF a c assms(4)])
  then have "stream_le (Some (lv_state v), lv_chain v) (Some (lv_state v'), lv_chain v')"
    using stream.run_le_suffix [OF stream_ok_start] b c unfolding stream_events_def by blast
  then show "state_le (lv_state v) (lv_state v')" "extends (lv_chain v) (lv_chain v')"
    by (simp_all add: stream_le_def)
qed

section \<open>The witness\<close>

lemma loaded_ok:
  assumes "stream_verified E W dir va owner = Inr v"
  shows "fold_ok E (lv_state v)" and "entries_match (lv_state v) (lv_chain v)"
    and "lv_record v = fs_record (lv_state v)"
    and "length (lv_chain v) = length (listed_names dir)"
    and "pn_run_id (fs_pins (lv_state v)) = fst owner" and "pn_repository_identity (fs_pins (lv_state v)) = snd owner"
proof -
  have a: "stream_events E W dir va owner (listed_names dir) = Inr (Some (lv_state v), lv_chain v)"
    using assms by (rule stream_verified_cases)
  show "lv_record v = fs_record (lv_state v)" using assms by (rule stream_verified_cases)
  have ok: "stream_ok E (Some (lv_state v), lv_chain v)" by (rule stream_events_ok [OF a])
  then show "fold_ok E (lv_state v)" "entries_match (lv_state v) (lv_chain v)"
    unfolding stream_ok_def fold_ok_def fst_conv snd_conv option.case by blast+
  have len: "length (snd st) = length ns" if "stream_events E W dir va owner ns = Inr st" for ns st
    using that
  proof (induction ns arbitrary: st rule: rev_induct)
    case (snoc n ns)
    obtain st0 where b: "stream_events E W dir va owner ns = Inr st0" "stream_step E W dir va owner st0 n = Inr st"
      using snoc.prems by (rule stream_events_snoc)
    then show ?case using snoc.IH [OF b(1)] by (cases st0) (auto elim: stream_step_cases)
  qed (auto simp: stream_events_def)
  show "length (lv_chain v) = length (listed_names dir)" using len [OF a] by simp
  have "listed_names dir \<noteq> []" using a by (auto simp: stream_events_def)
  then obtain ns n where ns: "listed_names dir = ns @ [n]" by (cases "listed_names dir" rule: rev_cases) auto
  obtain st0 where "stream_step E W dir va owner st0 n = Inr (Some (lv_state v), lv_chain v)"
    using a unfolding ns by (rule stream_events_snoc)
  then show "pn_run_id (fs_pins (lv_state v)) = fst owner" "pn_repository_identity (fs_pins (lv_state v)) = snd owner"
    by (cases st0; auto elim: stream_step_cases)+
qed

lemma loaded_witness:
  assumes "stream_verified E W dir va owner = Inr v"
  obtains w where "witness_of W dir = Some w" and "pw_sequence w = int (length (listed_names dir))"
    and "pw_event_sha256 w = fs_event_sha256 (lv_state v)" and "pw_pins w = fs_pins (lv_state v)"
proof -
  have "check_witness (lv_state v) (witness_of W dir) = Inr ()" using assms by (rule stream_verified_cases)
  then obtain w where w: "witness_of W dir = Some w" "pw_sequence w = fs_sequence (lv_state v)"
    "pw_event_sha256 w = fs_event_sha256 (lv_state v)" "pw_pins w = fs_pins (lv_state v)"
    using check_witness_Inr by blast
  have "fs_sequence (lv_state v) = int (length (listed_names dir))"
    using loaded_ok(2,4) [OF assms] by (simp add: entries_match_def)
  then show ?thesis using that w by simp
qed

lemma lost_tail_refused:
  assumes "stream_verified E W dir va owner = Inr v" and "witness_of W dir' = witness_of W dir"
    and "length (listed_names dir') \<noteq> length (listed_names dir)"
  shows "\<exists>e. stream_verified E W dir' va' owner' = Inl e"
proof (cases "stream_verified E W dir' va' owner'")
  case (Inr v')
  then show ?thesis using assms by (auto elim!: loaded_witness)
qed simp

lemma same_witness_same_bytes:
  assumes "stream_verified E W dir va owner = Inr v" and "stream_verified E W dir' va' owner' = Inr v'"
    and "witness_of W dir' = witness_of W dir"
  shows "map (stored_bytes dir) (listed_names dir) = map (stored_bytes dir') (listed_names dir')
    \<or> collision E (dir, listed_names dir) (dir', listed_names dir')"
proof -
  have "fs_event_sha256 (lv_state v) = fs_event_sha256 (lv_state v')"
    using loaded_witness [OF assms(1)] loaded_witness [OF assms(2)] assms(3) by (metis option.inject)
  moreover have "stream_events E W dir va owner (listed_names dir) = Inr (Some (lv_state v), lv_chain v)"
    using assms(1) by (rule stream_verified_cases)
  moreover have "stream_events E W dir' va' owner' (listed_names dir') = Inr (Some (lv_state v'), lv_chain v')"
    using assms(2) by (rule stream_verified_cases)
  ultimately show ?thesis using same_tip_same_bytes by blast
qed

section \<open>The projection\<close>

definition expected_projection :: "fold_state \<Rightarrow> bytes option" where
  "expected_projection s = projection_bytes (fs_record s) (fs_sequence s) (fs_event_id s)"

lemma projection_status_cases:
  assumes "projection_status ld s payload = Inr p"
  shows "expected_projection s \<noteq> None"
    and "p = MISSING \<longleftrightarrow> payload = None"
    and "p = CURRENT \<longleftrightarrow> payload \<noteq> None \<and> payload = expected_projection s"
    and "p = STALE \<Longrightarrow> \<exists>b kvs n. payload = Some b \<and> ld b = Some (JObj kvs)
           \<and> obj_get (JObj kvs) (lit ''state_version'') = Some (JInt n) \<and> n < fs_sequence s"
proof -
  obtain expected where e: "expected_projection s = Some expected"
    using assms by (auto simp: projection_status_def expected_projection_def)
  then show "expected_projection s \<noteq> None" by simp
  have cases: "(case payload of
          None \<Rightarrow> Inr MISSING
        | Some given \<Rightarrow>
            if given = expected then Inr CURRENT
            else (case ld given of
                    Some (JObj kvs) \<Rightarrow>
                      (let version3 = obj_get (JObj kvs) (lit ''schema_version'') = Some (JInt 3) in
                       case obj_get (JObj kvs) (lit ''state_version'') of
                         Some (JInt version) \<Rightarrow>
                           raise_if (version3 \<and> version > fs_sequence s) EventChainBroken
                           (Inr (if version3 \<and> version < fs_sequence s then STALE else DAMAGED))
                       | _ \<Rightarrow> Inr DAMAGED)
                  | _ \<Rightarrow> Inr DAMAGED)) = (Inr p :: lifecycle_error + projection)"
    using assms e by (simp add: projection_status_def expected_projection_def)
  show "p = MISSING \<longleftrightarrow> payload = None"
    "p = CURRENT \<longleftrightarrow> payload \<noteq> None \<and> payload = expected_projection s"
    using cases e by (auto simp: Let_def split: option.splits if_splits json.splits)
  show "\<exists>b kvs n. payload = Some b \<and> ld b = Some (JObj kvs)
           \<and> obj_get (JObj kvs) (lit ''state_version'') = Some (JInt n) \<and> n < fs_sequence s" if "p = STALE"
    using cases that by (auto simp: Let_def split: option.splits if_splits json.splits)
qed

section \<open>What is built can be read back\<close>

lemma build_event_cases:
  assumes "build_event E pins n ty at payload prev mid mi = Inr e"
  shows "validate_event E e = Some e" and "le_sequence e = n" and "le_event_type e = ty"
    and "le_payload e = payload" and "le_prev_event_digest e = prev" and "le_pins e = pins"
    and "integrity_digest E (dump_payload (le_payload e)) = le_payload_digest e"
    and "event_identity E e = le_event_id e" and "length (canonical_bytes e) \<le> MAX_LIFECYCLE_DOCUMENT_BYTES"
proof -
  define doc where "doc =
        \<lparr>le_schema_version = LIFECYCLE_SCHEMA_VERSION, le_pins = pins, le_sequence = n,
         le_state_version = n, le_event_type = ty, le_recorded_at = at,
         le_mutation_id = mid, le_mutation_index = mi, le_payload = payload,
         le_payload_digest = integrity_digest E (dump_payload payload),
         le_prev_event_digest = prev, le_event_id = []\<rparr>"
  note a = assms [unfolded build_event_def Let_def doc_def [symmetric] rbind_Inr from_option_Inr raise_if_Inr]
  then have v: "validate_event E (doc\<lparr>le_event_id := event_identity E doc\<rparr>) = Some e"
    and len: "length (canonical_bytes e) \<le> MAX_LIFECYCLE_DOCUMENT_BYTES" by auto
  have e: "e = doc\<lparr>le_event_id := event_identity E doc\<rparr>" by (rule validate_event_id [OF v])
  show "validate_event E e = Some e" using v e by simp
  show "length (canonical_bytes e) \<le> MAX_LIFECYCLE_DOCUMENT_BYTES" by (rule len)
  show "event_identity E e = le_event_id e" by (simp add: e)
  show "le_sequence e = n" "le_event_type e = ty" "le_payload e = payload" "le_prev_event_digest e = prev"
    "le_pins e = pins" "integrity_digest E (dump_payload (le_payload e)) = le_payload_digest e"
    by (simp_all add: e doc_def)
qed

lemma built_event_parses:
  assumes b: "build_event E pins n ty at payload prev mid mi = Inr e" and "event_file_name n ty = Inr name"
    and "ld (canonical_bytes e) = Some (dump_event e)" and "dec (dump_event e) = Some e"
    and "no_duplicate_keys (dump_event e)"
  shows "parse_event_bytes E ld dec name (canonical_bytes e) = Inr (e, sha256 E (canonical_bytes e))"
proof -
  obtain kvs where k: "dump_event e = JObj kvs" and "map_of kvs (lit ''schema_version'') = Some (JInt (le_schema_version e))"
    by (simp add: dump_event_def)
  moreover have "le_schema_version e = LIFECYCLE_SCHEMA_VERSION"
    using build_event_cases(1) [OF b] by (simp add: validate_event_def)
  ultimately have sv: "obj_get (JObj kvs) (lit ''schema_version'') = Some (JInt LIFECYCLE_SCHEMA_VERSION)"
    by (simp add: obj_get_def)
  show ?thesis
    using build_event_cases [OF b] parse_event_file_name_name [OF assms(2)] assms(3-5) sv
    by (simp add: parse_event_bytes_def k)
qed

section \<open>Results and counters\<close>

lemma persistence_counters:
  assumes "apply_accepted E s p d = Inr (after, ops)"
  shows "\<forall>m \<in> set (assigned_counters (ra_updates p)). counter_value after m = counter_value (fs_record s) m + 1"
  using assms by (auto simp: apply_accepted_def counters_move_by_one_def list_all_iff algebra_simps)

lemma rejection_counters:
  assumes "apply_rejected E s p d = Inr (after, ops)"
  shows "rr_successful_review_rounds after = rr_successful_review_rounds (fs_record s)"
    and "\<forall>m \<in> set (assigned_counters (rj_updates p)). counter_value after m = counter_value (fs_record s) m + 1"
  using assms by (auto simp: apply_rejected_def counters_move_by_one_def list_all_iff algebra_simps)

end
