(* ===== verification/Concrete_Facts.thy ===== *)
theory Concrete_Facts
  imports Concrete_Directory Replay_Facts
begin

text \<open>The concrete run satisfies the invariants, and one run that is already over.\<close>

lemma demo_state_ok: "fold_ok demo_env demo_state"
  using genesis_fold_ok [of demo_env demo_genesis zeros None demo_state] demo_genesis_step demo_genesis_valid
  by (simp add: fold_step_def)

lemma demo_state8_ok: "fold_ok demo_env demo_state8"
  by (rule fold_from_ok(1) [OF demo_operation_steps demo_items_valid demo_state_ok])

lemma demo_state9_ok: "fold_ok demo_env demo_state9"
  using fold_step_ok(1) [OF demo_step9 _ demo_state8_ok] demo_items2_valid by (simp add: demo_items2_def)

lemma demo_whole_chain:
  "fold_chain demo_env None ((demo_genesis, zeros) # demo_items @ demo_items2) = Inr demo_state11"
proof -
  have "genesis_step demo_env demo_genesis zeros None = Inr demo_state"
    using demo_genesis_step by (simp add: fold_step_def)
  moreover have "fold_from demo_env demo_state (demo_items @ demo_items2) = Inr demo_state11"
    using demo_operation_steps demo_mutation_steps by (simp add: fold_from_def rfold_append)
  ultimately show ?thesis by (simp add: fold_chain_Cons)
qed

lemma demo_whole_valid: "list_all (valid_item demo_env) ((demo_genesis, zeros) # demo_items @ demo_items2)"
  using demo_genesis_valid demo_items_valid demo_items2_valid by simp

definition demo_done :: fold_state where
  "demo_done = demo_state\<lparr>fs_record := demo_record\<lparr>rr_workflow_state := DONE\<rparr>\<rparr>"

definition demo_done_next :: fold_state where
  "demo_done_next =
     demo_done\<lparr>fs_sequence := 2, fs_prev_event_digest := Some zeros, fs_stage_start_bound := True,
       fs_references := [stage_ref EK_STAGE_START_AUTHORIZATION, stage_ref EK_STAGE_START_BINDING,
                         stage_ref EK_STAGE_START_WITNESS]\<rparr>"

lemma demo_done_ok: "fold_ok demo_env demo_done"
proof -
  have "validate_run_record demo_env (demo_record\<lparr>rr_workflow_state := DONE\<rparr>) = Some (demo_record\<lparr>rr_workflow_state := DONE\<rparr>)"
    by (simp add: demo_record_def validate_run_record_def scalar_fields_ok_def record_consistent_def
        STATE_SCHEMA_VERSION_def sorted_unique_def)
  then have "wf_run_record (demo_record\<lparr>rr_workflow_state := DONE\<rparr>)"
    "rows_canonical demo_env (demo_record\<lparr>rr_workflow_state := DONE\<rparr>)"
    by (rule validate_run_record_wf, rule canonical_rows)
  then show ?thesis
    by (simp add: fold_ok_def sound_record_def digest_current_def pins_agree_def operations_ok_def mutation_ok_def
        demo_done_def demo_state_def demo_record_def demo_pins_def)
qed

lemma demo_done_step: "fold_from demo_env demo_done (take 1 demo_items) = Inr demo_done_next"
  by (simp add: demo_items_def demo_payloads_def upt_rec demo_step_defs Let_def demo_done_def demo_done_next_def
      demo_state_def stage_start_reference_ok_def stage_ref_def stage_start_reference_path_def demo_pins_def)

lemma demo_done_valid: "list_all (valid_item demo_env) (take 1 demo_items)"
  using demo_items_valid by (auto simp: list_all_iff dest: in_set_takeD)

lemma demo_projection: "projection_status (loads demo_wire) demo_state None = Inr MISSING"
  by (simp add: projection_status_def projection_bytes_def event_backed_state_document_def demo_state_def
      demo_record_def is_policy_governed_def MAX_STATE_VERSION_def validate_tip_def)

lemma demo_built:
  "build_event demo_env demo_pins 1 RUN_INITIALIZED demo_time (RunInitialized demo_record) None None None = Inr demo_genesis"
proof -
  have "validate_event demo_env demo_genesis = Some demo_genesis"
    using demo_genesis_valid by (simp add: valid_item_def)
  then show ?thesis
    using demo_genesis_size
    by (simp add: build_event_def Let_def demo_genesis_def demo_event_def LIFECYCLE_SCHEMA_VERSION_def)
qed

lemma demo_genesis_keys: "no_duplicate_keys (dump_event demo_genesis)"
  by (simp add: dump_event_def demo_genesis_def demo_event_def dump_pins_def demo_pins_def dump_run_record_def
      demo_record_def)

lemma demo_env_hash: "\<forall>b. sha256_hex (sha256 demo_env b)"
  by simp

lemma demo_accepted_step:
  "apply_accepted demo_env demo_state9
     \<lparr>ra_before_body_digest = zeros, ra_after_body_digest = zeros, ra_operation_id = zeros,
      ra_accepted_result_sha256 = zeros, ra_updates = round_updates\<rparr> (Some demo_declaration)
   = Inr (fs_record demo_state10, fs_operations demo_state10)"
proof -
  have upd: "apply_updates demo_env demo_record round_updates None
      = Inr (demo_record\<lparr>rr_successful_review_rounds := 1\<rparr>)"
    by (simp add: apply_updates_def round_updates_def assign_field_def demo_record10_valid)
  have moved: "counters_move_by_one round_updates demo_record (demo_record\<lparr>rr_successful_review_rounds := 1\<rparr>)"
    by (simp add: counters_move_by_one_def assigned_counters_def COUNTER_FIELDS_def all_record_field_def
        round_updates_def counter_value_def demo_record_def)
  show ?thesis
    using upd moved
    by (simp add: apply_accepted_def persistence_view_def result_evidence_of_def demo_operation_def demo_attempt_def
        demo_state9_def demo_state8_def demo_state_def demo_state10_def demo_declaration_def
        check_accepted_def persist_operation_def ACCEPTED_FIELDS_def)
qed

lemma demo_listed: "listed_names demo_directory = [demo_name]"
  by (simp add: listed_names_def demo_listing)

lemma demo_empty_listing: "listed_names (demo_directory\<lparr>rd_event_names := Some []\<rparr>) = []"
  by (simp add: listed_names_def bounded_event_names_def unique_def MAX_EVENT_FILES_def)

end
