(* ===== verification/Machine_Result_Facts.thy ===== *)
theory Machine_Result_Facts
  imports Machine_Results Run_Record_Facts
begin

text \<open>
  What a parser's answer means: an extracted block is the only block of the text, a block written
  as the prompt asks for it is extracted again, and an accepted review or closure result satisfies
  the accounting rules its consumers rely on.
\<close>

section \<open>Indices of a property\<close>

definition indices :: "('a \<Rightarrow> bool) \<Rightarrow> 'a list \<Rightarrow> nat list" where
  "indices P xs = filter (\<lambda>i. P (xs ! i)) [0..<length xs]"

lemma indices_Nil [simp]: "indices P [] = []"
  by (simp add: indices_def)

lemma indices_append: "indices P (xs @ ys) = indices P xs @ map (\<lambda>i. i + length xs) (indices P ys)"
proof -
  have "[0..<length xs + length ys] = [0..<length xs] @ map (\<lambda>i. i + length xs) [0..<length ys]"
    by (simp add: upt_add_eq_append [of 0] map_add_upt add.commute)
  then show ?thesis
    by (simp add: indices_def filter_map o_def nth_append) (rule filter_cong, auto)
qed

lemma indices_Cons: "indices P (x # xs) = (if P x then [0] else []) @ map (\<lambda>i. i + 1) (indices P xs)"
  using indices_append [of P "[x]" xs] by (simp add: indices_def)

lemma indices_empty: "indices P xs = [] \<longleftrightarrow> (\<forall>x \<in> set xs. \<not> P x)"
  by (auto simp: indices_def filter_empty_conv set_conv_nth)

lemma indices_single:
  assumes "indices P xs = [i]"
  shows "i < length xs \<and> P (xs ! i) \<and> (\<forall>j < length xs. P (xs ! j) \<longrightarrow> j = i)"
proof -
  have "set (indices P xs) = {i}" using assms by simp
  then show ?thesis unfolding indices_def by (auto simp: set_eq_iff)
qed

lemma length_indices: "length (indices P xs) = length (filter P xs)"
  by (induction xs) (simp_all add: indices_Cons)

lemma sentinel_lines_indices: "sentinel_lines lines s = indices (\<lambda>l. strip l = s) lines"
  by (simp add: sentinel_lines_def indices_def)

lemma nonblank_before: "s \<le> length lines \<Longrightarrow> nonblank_between lines 0 s = indices (\<lambda>l. strip l \<noteq> []) (take s lines)"
  unfolding nonblank_between_def indices_def by (simp, rule filter_cong) auto

lemma nonblank_after:
  assumes "k \<le> length lines"
  shows "nonblank_between lines k (length lines) = map (\<lambda>i. i + k) (indices (\<lambda>l. strip l \<noteq> []) (drop k lines))"
proof -
  have "[k..<length lines] = map (\<lambda>i. i + k) [0..<length lines - k]"
    using assms by (simp add: map_add_upt)
  then show ?thesis
    using assms by (simp add: nonblank_between_def indices_def filter_map o_def add.commute cong: filter_cong)
qed

section \<open>Lines\<close>

definition plain_line :: "pystr \<Rightarrow> bool" where
  "plain_line l \<longleftrightarrow> list_all (\<lambda>c. \<not> is_linebreak c) l"

lemma split_lines_plain: "plain_line l \<Longrightarrow> split_lines cur (l @ rest) = split_lines (cur @ l) rest"
  by (induction l arbitrary: cur) (auto simp: plain_line_def is_linebreak_def)

lemma split_lines_join:
  "ls \<noteq> [] \<Longrightarrow> \<forall>l \<in> set ls. plain_line l \<Longrightarrow> last ls \<noteq> [] \<Longrightarrow> split_lines [] (join_on 10 ls) = ls"
proof (induction "10::nat" ls rule: join_on.induct)
  case (2 p)
  then show ?case using split_lines_plain [of p "[]" "[]"] by simp
next
  case (3 p q ps)
  then have "split_lines [] (join_on 10 (q # ps)) = q # ps" by simp
  moreover have "split_lines [] (p @ 10 # join_on 10 (q # ps)) = split_lines p (10 # join_on 10 (q # ps))"
    using 3 split_lines_plain [of p "[]"] by simp
  moreover have "split_lines p (10 # join_on 10 (q # ps)) = p # split_lines [] (join_on 10 (q # ps))"
    by (simp add: is_linebreak_def)
  ultimately show ?case by simp
qed simp

lemma splitlines_join:
  "ls \<noteq> [] \<Longrightarrow> \<forall>l \<in> set ls. plain_line l \<Longrightarrow> last ls \<noteq> [] \<Longrightarrow> splitlines (join_on 10 ls) = ls"
  by (simp add: splitlines_def split_lines_join)

section \<open>Extraction\<close>

lemma sentinel_pairs_distinct: "fst (RESULT_SENTINELS r) \<noteq> snd (RESULT_SENTINELS r)"
  by (cases r) simp_all

lemma extract_cases:
  assumes "extract_result_block text g t = Inr body"
  obtains s e where "sentinel_lines (splitlines text) (gr_start g) = [s]"
    and "sentinel_lines (splitlines text) (gr_end g) = [e]" and "s \<le> e"
    and "\<forall>f \<in> set (foreign_sentinels g). sentinel_lines (splitlines text) f = []"
    and "length (nonblank_between (splitlines text) (e + 1) (length (splitlines text))) \<le> 1"
    and "\<forall>i \<in> set (nonblank_between (splitlines text) (e + 1) (length (splitlines text))). is_fence (splitlines text ! i)"
    and "body = join_on 10 (take (e - (s + 1)) (drop (s + 1) (splitlines text)))"
    and "length body \<le> MAX_RESULT_BLOCK_CHARS"
proof -
  let ?l = "splitlines text"
  let ?s = "sentinel_lines ?l (gr_start g)" and ?e = "sentinel_lines ?l (gr_end g)"
  note a = assms [unfolded extract_result_block_def Let_def raise_if_Inr sum.inject]
  have s: "?s \<noteq> []" "\<not> 1 < length ?s" and e: "?e \<noteq> []" "\<not> 1 < length ?e" using a by simp_all
  have s1: "?s = [hd ?s]" using s by (cases ?s) (auto split: list.splits)
  have e1: "?e = [hd ?e]" using e by (cases ?e) (auto split: list.splits)
  let ?after = "nonblank_between ?l (hd ?e + 1) (length ?l)"
  have after: "length ?after \<le> 1" "?after \<noteq> [] \<Longrightarrow> is_fence (?l ! hd ?after)" using a by simp_all
  have "\<forall>i \<in> set ?after. is_fence (?l ! i)"
    using after by (cases ?after) (auto simp: le_Suc_eq)
  then show ?thesis
    using that [OF s1 e1] a after(1) by (auto simp: list_ex_iff not_less)
qed

lemma split_at_two:
  assumes "s < e" and "e < length xs"
  shows "xs = take s xs @ [xs ! s] @ take (e - (s + 1)) (drop (s + 1) xs) @ [xs ! e] @ drop (e + 1) xs"
proof -
  have "xs = take s xs @ xs ! s # drop (s + 1) xs" using assms by (simp add: id_take_nth_drop)
  moreover have "drop (s + 1) xs = take (e - (s + 1)) (drop (s + 1) xs) @ drop e xs"
    using assms by (metis Suc_eq_plus1 Suc_leI append_take_drop_id drop_drop le_add_diff_inverse2)
  moreover have "drop e xs = xs ! e # drop (e + 1) xs" using assms by (simp add: Cons_nth_drop_Suc)
  ultimately show ?thesis by (metis append_Cons append_Nil)
qed

text \<open>The block is the only one, and nothing but one closing fence follows it.\<close>

lemma extracted_block:
  assumes "extract_result_block text (for_role role) t = Inr body"
  shows "\<exists>pre open_line block close_line post.
      splitlines text = pre @ [open_line] @ block @ [close_line] @ post
      \<and> strip open_line = fst (RESULT_SENTINELS role) \<and> strip close_line = snd (RESULT_SENTINELS role)
      \<and> body = join_on 10 block \<and> length body \<le> MAX_RESULT_BLOCK_CHARS
      \<and> (\<forall>l \<in> set (pre @ block @ post). strip l \<notin> set ALL_SENTINELS)
      \<and> (\<forall>l \<in> set post. strip l = [] \<or> is_fence l)
      \<and> length (filter (\<lambda>l. strip l \<noteq> []) post) \<le> 1"
proof -
  let ?g = "for_role role" and ?l = "splitlines text"
  obtain s e where s: "sentinel_lines ?l (gr_start ?g) = [s]" and e: "sentinel_lines ?l (gr_end ?g) = [e]"
    and le: "s \<le> e" and foreign: "\<forall>f \<in> set (foreign_sentinels ?g). sentinel_lines ?l f = []"
    and one: "length (nonblank_between ?l (e + 1) (length ?l)) \<le> 1"
    and fence: "\<forall>i \<in> set (nonblank_between ?l (e + 1) (length ?l)). is_fence (?l ! i)"
    and body: "body = join_on 10 (take (e - (s + 1)) (drop (s + 1) ?l))"
    and len: "length body \<le> MAX_RESULT_BLOCK_CHARS"
    using assms by (rule extract_cases)
  note s1 = indices_single [OF s [unfolded sentinel_lines_indices]]
  note e1 = indices_single [OF e [unfolded sentinel_lines_indices]]
  have "strip (?l ! s) \<noteq> strip (?l ! e)"
    using s1 e1 sentinel_pairs_distinct [of role] by (simp add: for_role_def)
  then have se: "s < e" using le by (metis le_neq_implies_less)
  define pre where "pre = take s ?l"
  define block where "block = take (e - (s + 1)) (drop (s + 1) ?l)"
  define post where "post = drop (e + 1) ?l"
  have split: "?l = pre @ [?l ! s] @ block @ [?l ! e] @ post"
    unfolding pre_def block_def post_def by (rule split_at_two [OF se conjunct1 [OF e1]])
  have post_nb: "nonblank_between ?l (e + 1) (length ?l)
      = map (\<lambda>i. i + (e + 1)) (indices (\<lambda>l. strip l \<noteq> []) post)"
    unfolding post_def by (rule nonblank_after) (use e1 in simp)
  have once: "\<forall>l \<in> set (pre @ block @ post). strip l \<noteq> q"
    if "sentinel_lines ?l q = [i]" "q = strip (?l ! s) \<or> q = strip (?l ! e)" for q i
  proof -
    have "length (filter (\<lambda>l. strip l = q) (pre @ [?l ! s] @ block @ [?l ! e] @ post)) = 1"
      using that(1) split by (metis length_indices sentinel_lines_indices One_nat_def list.size(3,4) plus_nat.add_0 add.commute)
    then have "filter (\<lambda>l. strip l = q) (pre @ block @ post) = []" using that(2) by (auto split: if_splits)
    then show ?thesis by (auto simp: filter_empty_conv)
  qed
  have "\<forall>l \<in> set (pre @ block @ post). strip l \<notin> set ALL_SENTINELS"
  proof (intro ballI notI)
    fix l assume l: "l \<in> set (pre @ block @ post)" and mem: "strip l \<in> set ALL_SENTINELS"
    have "strip l \<noteq> gr_start ?g" "strip l \<noteq> gr_end ?g"
      using once [OF s] once [OF e] s1 e1 l by auto
    then have "sentinel_lines ?l (strip l) = []" using foreign mem by (auto simp: foreign_sentinels_def)
    then have "\<forall>x \<in> set ?l. strip x \<noteq> strip l" by (simp add: sentinel_lines_indices indices_empty)
    then show False using l by (subst (asm) split) auto
  qed
  moreover have "\<forall>l \<in> set post. strip l = [] \<or> is_fence l"
  proof
    fix l assume "l \<in> set post"
    then obtain i where i: "i < length post" "l = post ! i" by (auto simp: in_set_conv_nth)
    have at: "?l ! (i + (e + 1)) = l" using i e1 unfolding post_def by (simp add: add.commute)
    show "strip l = [] \<or> is_fence l"
    proof (cases "strip l = []")
      case False
      then have "i \<in> set (indices (\<lambda>l. strip l \<noteq> []) post)" using i by (simp add: indices_def)
      then have "i + (e + 1) \<in> set (nonblank_between ?l (e + 1) (length ?l))" unfolding post_nb by auto
      then show ?thesis using fence at by metis
    qed simp
  qed
  moreover have "length (filter (\<lambda>l. strip l \<noteq> []) post) \<le> 1"
    using one post_nb by (simp add: length_indices)
  ultimately show ?thesis
    using split s1 e1 body len unfolding block_def [symmetric]
    by (intro exI [of _ pre] exI [of _ "?l ! s"] exI [of _ block] exI [of _ "?l ! e"] exI [of _ post])
      (simp add: for_role_def)
qed

section \<open>A block written as the prompt asks is extracted again\<close>

definition FENCE :: pystr where "FENCE = lit ''```''"

definition quiet_line :: "pystr \<Rightarrow> bool" where
  "quiet_line l \<longleftrightarrow> plain_line l \<and> strip l \<notin> set ALL_SENTINELS \<and> \<not> is_fence l"

definition render_block :: "provider_role \<Rightarrow> pystr list \<Rightarrow> pystr list \<Rightarrow> pystr" where
  "render_block role pre block =
     join_on 10 (pre @ [FENCE, fst (RESULT_SENTINELS role)] @ block @ [snd (RESULT_SENTINELS role), FENCE])"

lemma sentinel_line_facts:
  "plain_line (fst (RESULT_SENTINELS role))" "plain_line (snd (RESULT_SENTINELS role))"
  "strip (fst (RESULT_SENTINELS role)) = fst (RESULT_SENTINELS role)"
  "strip (snd (RESULT_SENTINELS role)) = snd (RESULT_SENTINELS role)"
  "\<not> is_fence (fst (RESULT_SENTINELS role))" "\<not> is_fence (snd (RESULT_SENTINELS role))"
  by (cases role; simp add: plain_line_def is_linebreak_def lit_def strip_def is_space_def is_fence_def)+

lemma fence_facts: "plain_line FENCE" "strip FENCE = FENCE" "is_fence FENCE" "FENCE \<noteq> []"
  "FENCE \<notin> set ALL_SENTINELS"
  by (simp_all add: FENCE_def plain_line_def is_linebreak_def lit_def strip_def is_space_def is_fence_def
      ALL_SENTINELS_def all_provider_role_def)

lemma sentinels_listed:
  "fst (RESULT_SENTINELS role) \<in> set ALL_SENTINELS" "snd (RESULT_SENTINELS role) \<in> set ALL_SENTINELS"
  by (cases role; simp add: ALL_SENTINELS_def all_provider_role_def)+

lemma render_lines:
  assumes "\<forall>l \<in> set (pre @ block). quiet_line l"
  shows "splitlines (render_block role pre block) =
    pre @ [FENCE, fst (RESULT_SENTINELS role)] @ block @ [snd (RESULT_SENTINELS role), FENCE]"
  unfolding render_block_def
  by (rule splitlines_join)
    (use assms in \<open>auto simp: quiet_line_def sentinel_line_facts fence_facts\<close>)

lemma extract_render:
  assumes q: "\<forall>l \<in> set (pre @ block). quiet_line l"
    and len: "length (join_on 10 block) \<le> MAX_RESULT_BLOCK_CHARS"
  shows "extract_result_block (render_block role pre block) (for_role role) t = Inr (join_on 10 block)"
proof -
  define S where "S = fst (RESULT_SENTINELS role)"
  define T where "T = snd (RESULT_SENTINELS role)"
  define L where "L = pre @ [FENCE, S] @ block @ [T, FENCE]"
  let ?p = "length pre" and ?e = "length pre + 2 + length block"
  have L: "splitlines (render_block role pre block) = L"
    unfolding L_def S_def T_def by (rule render_lines [OF q])
  have ST: "S \<noteq> T" "strip S = S" "strip T = T" "\<not> is_fence S" "\<not> is_fence T" "S \<noteq> []" "T \<noteq> []"
    using sentinel_pairs_distinct [of role] sentinel_line_facts [of role]
    unfolding S_def T_def by (auto, (cases role; simp)+)
  have listed: "S \<in> set ALL_SENTINELS" "T \<in> set ALL_SENTINELS"
    unfolding S_def T_def by (rule sentinels_listed)+
  have quiet: "indices (\<lambda>l. strip l = s) pre = []" "indices (\<lambda>l. strip l = s) block = []"
    if "s \<in> set ALL_SENTINELS" for s
    using q that by (auto simp: indices_empty quiet_line_def)
  have nofence: "indices is_fence pre = []" "indices is_fence block = []"
    using q by (auto simp: indices_empty quiet_line_def)
  have F: "FENCE \<noteq> S" "FENCE \<noteq> T" using fence_facts(5) listed by auto
  have starts: "sentinel_lines L S = [?p + 1]"
    unfolding sentinel_lines_indices L_def
    using quiet [OF listed(1)] ST F by (simp add: indices_append indices_Cons fence_facts)
  have ends: "sentinel_lines L T = [?e]"
    unfolding sentinel_lines_indices L_def
    using quiet [OF listed(2)] ST F by (simp add: indices_append indices_Cons fence_facts)
  have foreign: "sentinel_lines L f = []" if "f \<in> set (foreign_sentinels (for_role role))" for f
    using that quiet [of f] ST fence_facts unfolding sentinel_lines_indices L_def
    by (auto simp: indices_append indices_Cons foreign_sentinels_def for_role_def S_def T_def)
  have "drop (?e + 1) ((pre @ [FENCE, S] @ block @ [T]) @ [FENCE]) = [FENCE]"
    by (subst drop_append) simp
  then have rest: "drop (?e + 1) L = [FENCE]" by (simp add: L_def)
  have "nonblank_between L (?e + 1) (length L) = map (\<lambda>i. i + (?e + 1)) (indices (\<lambda>l. strip l \<noteq> []) [FENCE])"
    unfolding rest [symmetric] by (rule nonblank_after) (simp add: L_def)
  then have after: "nonblank_between L (?e + 1) (length L) = [?e + 1]"
    by (simp add: indices_Cons fence_facts)
  have fences: "filter (\<lambda>i. is_fence (L ! i)) [0..<length L] = [?p, ?e + 1]"
    unfolding indices_def [symmetric] L_def
    using nofence ST by (simp add: indices_append indices_Cons fence_facts)
  have before: "nonblank_between L 0 (?p + 1) = indices (\<lambda>l. strip l \<noteq> []) pre @ [?p]"
    by (subst nonblank_before) (simp_all add: L_def indices_append indices_Cons fence_facts)
  have at: "L ! (?e + 1) = FENCE" by (simp add: L_def nth_append)
  have body: "take (?e - (?p + 1 + 1)) (drop (?p + 1 + 1) L) = block" by (simp add: L_def)
  show ?thesis
    unfolding extract_result_block_def Let_def L
    using starts ends foreign after fences before at body len fence_facts(3)
    by (simp add: for_role_def S_def [symmetric] T_def [symmetric] list_ex_iff fences_wrap_def
        del: take_drop drop_drop)
qed

section \<open>What an accepted result satisfies\<close>

lemma rulings_ok_iff:
  "rulings_ok known seen rs \<longleftrightarrow>
     set (map cl_id rs) \<subseteq> set known \<and> distinct (map cl_id rs) \<and> set (map cl_id rs) \<inter> set seen = {}
     \<and> (\<forall>r \<in> set rs. cl_status r \<noteq> FS_DEFERRED)"
  by (induction rs arbitrary: seen) auto

lemma map_opt_same: "map_opt f xs = Some ys \<Longrightarrow> (\<And>x y. f x = Some y \<Longrightarrow> h y = g x) \<Longrightarrow> map h ys = map g xs"
  by (induction xs arbitrary: ys) (auto split: option.splits)

lemma map_opt_len: "map_opt f xs = Some ys \<Longrightarrow> length ys = length xs"
  by (induction xs arbitrary: ys) (auto split: option.splits)

lemma map_eq_all: "map h ys = map g xs \<Longrightarrow> \<forall>x \<in> set xs. g x \<in> S \<Longrightarrow> \<forall>y \<in> set ys. h y \<in> S"
  by (metis (no_types, lifting) image_eqI imageE set_map)

lemma as_finding_fields:
  "as_finding E st r = Some f \<Longrightarrow> fd_finding_id f = rp_id r"
  "as_finding E st r = Some f \<Longrightarrow> fd_severity f = rp_severity r"
  "as_finding E st r = Some f \<Longrightarrow> fd_status f = st"
  by (auto simp: as_finding_def dest!: validate_finding_id)

lemma review_cases:
  assumes "parse_review_result E safe_load text n t = Inr r"
  obtains raw :: raw_review_block where "n \<ge> 1" and "\<forall>b \<in> set (rr_raw_blockers raw). rp_severity b \<in> set BLOCKING_SEVERITIES"
    and "\<forall>d \<in> set (rr_raw_deferred raw). rp_severity d \<in> set DEFERRED_SEVERITIES"
    and "int (length (rr_raw_blockers raw)) \<le> n"
    and "rr_raw_verdict raw = BLOCKED \<longleftrightarrow> rr_raw_blockers raw \<noteq> []"
    and "distinct (map rp_id (rr_raw_blockers raw @ rr_raw_deferred raw))"
    and "map_opt (as_finding E FS_OPEN) (rr_raw_blockers raw) = Some (rw_blockers r)"
    and "map_opt (as_finding E FS_DEFERRED) (rr_raw_deferred raw) = Some (rw_deferred r)"
    and "rw_verdict r = rr_raw_verdict raw"
proof -
  note a = assms [unfolded parse_review_result_def Let_def raise_if_Inr rbind_Inr from_option_Inr]
  then obtain raw :: raw_review_block and blockers deferred where h:
    "\<not> n < 1" "\<not> list_ex (\<lambda>b. rp_severity b \<notin> set BLOCKING_SEVERITIES) (rr_raw_blockers raw)"
    "\<not> list_ex (\<lambda>d. rp_severity d \<notin> set DEFERRED_SEVERITIES) (rr_raw_deferred raw)"
    "\<not> n < int (length (rr_raw_blockers raw))"
    "\<not> (rr_raw_verdict raw = BLOCKED \<and> rr_raw_blockers raw = [])"
    "\<not> (rr_raw_verdict raw = APPROVED \<and> rr_raw_blockers raw \<noteq> [])"
    "\<not> \<not> unique (map rp_id (rr_raw_blockers raw @ rr_raw_deferred raw))"
    "map_opt (as_finding E FS_OPEN) (rr_raw_blockers raw) = Some blockers"
    "map_opt (as_finding E FS_DEFERRED) (rr_raw_deferred raw) = Some deferred"
    "Inr \<lparr>rw_verdict = rr_raw_verdict raw, rw_blockers = blockers, rw_deferred = deferred\<rparr> = (Inr r :: result_error + review_result)"
    by (elim conjE exE) (rule that, assumption+)
  have v: "rr_raw_verdict raw = BLOCKED \<longleftrightarrow> rr_raw_blockers raw \<noteq> []"
    using h(5,6) by (cases "rr_raw_verdict raw") auto
  have r: "r = \<lparr>rw_verdict = rr_raw_verdict raw, rw_blockers = blockers, rw_deferred = deferred\<rparr>"
    using h(10) by simp
  show ?thesis
    by (rule that [of raw]) (use h v r in \<open>simp_all add: list_ex_iff not_less\<close>)
qed

text \<open>
  Every rejection is the typed one, with the evidence it was given, unless the loader itself raises an
  exception that is no \<open>yaml.YAMLError\<close> on an extracted block: then that exception escapes.
\<close>

definition loader_escapes ::
  "(pystr \<Rightarrow> yaml_error + pyval) \<Rightarrow> pystr \<Rightarrow> provider_role \<Rightarrow> result_transcripts option \<Rightarrow> bool" where
  "loader_escapes safe_load text role t \<longleftrightarrow>
     (case extract_result_block text (for_role role) t of
        Inl _ \<Rightarrow> False
      | Inr body \<Rightarrow> safe_load body = Inl LoaderException)"

definition rejects_with :: "provider_role \<Rightarrow> result_transcripts option \<Rightarrow> bool \<Rightarrow> result_error + 'a \<Rightarrow> bool" where
  "rejects_with role t escaped m \<longleftrightarrow>
     (if escaped then m = Inl ResultLoaderException else \<forall>e. m = Inl e \<longrightarrow> e = MalformedResult role t)"

lemma rejects_with_bind:
  "rejects_with role t escaped m \<Longrightarrow> (\<And>x. \<not> escaped \<Longrightarrow> rejects_with role t False (f x))
     \<Longrightarrow> rejects_with role t escaped (rbind m f)"
  by (cases m) (auto simp: rejects_with_def split: if_splits)

lemma rejects_with_intros:
  "rejects_with role t False (Inr x)"
  "rejects_with role t False k \<Longrightarrow> rejects_with role t False (raise_if c (MalformedResult role t) k)"
  "rejects_with role t False (from_option (MalformedResult role t) o1)"
  by (auto simp: rejects_with_def raise_if_def) (cases o1, auto)

lemmas rejects_with_rules = rejects_with_bind rejects_with_intros

lemma gr_role_for_role [simp]: "gr_role (for_role role) = role"
  by (simp add: for_role_def)

lemma extract_rejects: "rejects_with role t False (extract_result_block text (for_role role) t)"
  unfolding extract_result_block_def Let_def gr_role_for_role by (intro rejects_with_rules)

lemma document_rejects:
  "rejects_with role t False (case document of
     PDict mapping \<Rightarrow> raise_if (\<not> list_all (\<lambda>(k, _). str_key k) mapping) (MalformedResult role t) (Inr mapping)
   | _ \<Rightarrow> Inl (MalformedResult role t))"
  by (auto simp: rejects_with_def raise_if_def split: pyval.splits)

lemma load_rejects:
  "rejects_with role t (loader_escapes safe_load text role t) (load_block safe_load text (for_role role) t)"
proof (cases "extract_result_block text (for_role role) t")
  case (Inl e)
  then show ?thesis
    using extract_rejects [where role = role and t = t] by (simp add: load_block_def loader_escapes_def rejects_with_def)
next
  case (Inr body)
  have "rejects_with role t (safe_load body = Inl LoaderException)
      (rbind (yaml_read (MalformedResult role t) ResultLoaderException (safe_load body)) f)"
    if "\<And>document. rejects_with role t False (f document)" for f :: "pyval \<Rightarrow> result_error + (pyval \<times> pyval) list"
  proof (cases "safe_load body")
    case (Inl failure)
    then show ?thesis by (cases failure) (simp_all add: rejects_with_def)
  qed (use that in simp)
  note loaded = this [OF document_rejects]
  show ?thesis
    unfolding load_block_def Let_def gr_role_for_role loader_escapes_def Inr sum.case rbind.simps by (rule loaded)
qed

lemma parsers_reject:
  "rejects_with IMPLEMENTATION t (loader_escapes safe_load text IMPLEMENTATION t)
     (parse_milestone_result E safe_load text expected t)"
  "rejects_with CORRECTION t (loader_escapes safe_load text CORRECTION t) (parse_correction_result E safe_load text t)"
  "1 \<le> n \<Longrightarrow> rejects_with REVIEW t (loader_escapes safe_load text REVIEW t) (parse_review_result E safe_load text n t)"
  "rejects_with CLOSURE t (loader_escapes safe_load text CLOSURE t) (parse_closure_result safe_load text ids t)"
  unfolding parse_milestone_result_def parse_correction_result_def parse_review_result_def
    parse_closure_result_def Let_def gr_role_for_role
  by (simp_all only: raise_if_False not_less) (intro rejects_with_rules load_rejects)+

text \<open>The findings of an accepted review.\<close>

lemma review_accounting:
  assumes "parse_review_result E safe_load text n t = Inr r"
  shows "rw_verdict r = BLOCKED \<longleftrightarrow> rw_blockers r \<noteq> []"
    and "int (length (rw_blockers r)) \<le> n"
    and "distinct (map fd_finding_id (rw_blockers r @ rw_deferred r))"
    and "\<forall>f \<in> set (rw_blockers r). fd_severity f \<in> set BLOCKING_SEVERITIES \<and> fd_status f = FS_OPEN"
    and "\<forall>f \<in> set (rw_deferred r). fd_severity f \<in> set DEFERRED_SEVERITIES \<and> fd_status f = FS_DEFERRED"
proof -
  obtain raw :: raw_review_block where bs: "\<forall>b \<in> set (rr_raw_blockers raw). rp_severity b \<in> set BLOCKING_SEVERITIES"
    and ds: "\<forall>d \<in> set (rr_raw_deferred raw). rp_severity d \<in> set DEFERRED_SEVERITIES"
    and len: "int (length (rr_raw_blockers raw)) \<le> n"
    and verdict: "rr_raw_verdict raw = BLOCKED \<longleftrightarrow> rr_raw_blockers raw \<noteq> []"
    and dist: "distinct (map rp_id (rr_raw_blockers raw @ rr_raw_deferred raw))"
    and b: "map_opt (as_finding E FS_OPEN) (rr_raw_blockers raw) = Some (rw_blockers r)"
    and d: "map_opt (as_finding E FS_DEFERRED) (rr_raw_deferred raw) = Some (rw_deferred r)"
    and v: "rw_verdict r = rr_raw_verdict raw"
    using assms by (rule review_cases)
  have lb: "length (rw_blockers r) = length (rr_raw_blockers raw)"
    using b by (rule map_opt_len)
  have ids: "map fd_finding_id (rw_blockers r) = map rp_id (rr_raw_blockers raw)"
    "map fd_finding_id (rw_deferred r) = map rp_id (rr_raw_deferred raw)"
    by (rule map_opt_same [OF b], erule as_finding_fields(1), rule map_opt_same [OF d], erule as_finding_fields(1))
  have sev: "map fd_severity (rw_blockers r) = map rp_severity (rr_raw_blockers raw)"
    "map fd_severity (rw_deferred r) = map rp_severity (rr_raw_deferred raw)"
    by (rule map_opt_same [OF b], erule as_finding_fields(2), rule map_opt_same [OF d], erule as_finding_fields(2))
  have st: "map fd_status (rw_blockers r) = map (\<lambda>_. FS_OPEN) (rr_raw_blockers raw)"
    "map fd_status (rw_deferred r) = map (\<lambda>_. FS_DEFERRED) (rr_raw_deferred raw)"
    by (rule map_opt_same [OF b], erule as_finding_fields(3), rule map_opt_same [OF d], erule as_finding_fields(3))
  show "rw_verdict r = BLOCKED \<longleftrightarrow> rw_blockers r \<noteq> []" using v verdict lb by (metis length_0_conv)
  show "int (length (rw_blockers r)) \<le> n" using len lb by simp
  show "distinct (map fd_finding_id (rw_blockers r @ rw_deferred r))" using dist ids by simp
  have b1: "\<forall>f \<in> set (rw_blockers r). fd_severity f \<in> set BLOCKING_SEVERITIES"
    and d1: "\<forall>f \<in> set (rw_deferred r). fd_severity f \<in> set DEFERRED_SEVERITIES"
    using map_eq_all [OF sev(1) bs] map_eq_all [OF sev(2) ds] .
  have b2: "\<forall>f \<in> set (rw_blockers r). fd_status f \<in> {FS_OPEN}"
    and d2: "\<forall>f \<in> set (rw_deferred r). fd_status f \<in> {FS_DEFERRED}"
    by (rule map_eq_all [OF st(1)], simp, rule map_eq_all [OF st(2)], simp)
  show "\<forall>f \<in> set (rw_blockers r). fd_severity f \<in> set BLOCKING_SEVERITIES \<and> fd_status f = FS_OPEN"
    using b1 b2 by simp
  show "\<forall>f \<in> set (rw_deferred r). fd_severity f \<in> set DEFERRED_SEVERITIES \<and> fd_status f = FS_DEFERRED"
    using d1 d2 by simp
qed

text \<open>The rulings of an accepted closure.\<close>

lemma closure_accounting:
  assumes "parse_closure_result safe_load text ids t = Inr c"
  shows "set (closed_ids c) \<union> set (open_ids c) \<subseteq> set ids"
    and "distinct (closed_ids c @ open_ids c)"
    and "set (map cl_id (co_findings c)) = set (closed_ids c) \<union> set (open_ids c)"
proof -
  have "rulings_ok ids [] (co_findings c)"
    using assms by (auto simp: parse_closure_result_def Let_def)
  then have r: "set (map cl_id (co_findings c)) \<subseteq> set ids" "distinct (map cl_id (co_findings c))"
    "\<forall>x \<in> set (co_findings c). cl_status x \<noteq> FS_DEFERRED"
    by (simp_all add: rulings_ok_iff)
  have two: "cl_status x = FS_CLOSED \<or> cl_status x = FS_OPEN" if "x \<in> set (co_findings c)" for x
    using r(3) that by (cases "cl_status x") auto
  show "set (map cl_id (co_findings c)) = set (closed_ids c) \<union> set (open_ids c)"
    using two by (auto simp: closed_ids_def open_ids_def)
  then show "set (closed_ids c) \<union> set (open_ids c) \<subseteq> set ids" using r(1) by simp
  have inj: "inj_on cl_id (set (co_findings c))" using r(2) by (simp add: distinct_map)
  have part: "distinct (map cl_id (filter P (co_findings c)))" for P
    using r(2) by (rule distinct_map_filter)
  have "set (closed_ids c) \<inter> set (open_ids c) = {}"
  proof (rule ccontr)
    assume "set (closed_ids c) \<inter> set (open_ids c) \<noteq> {}"
    then obtain x y where xy: "x \<in> set (co_findings c)" "y \<in> set (co_findings c)" "cl_id x = cl_id y"
      "cl_status x = FS_CLOSED" "cl_status y = FS_OPEN"
      unfolding closed_ids_def open_ids_def set_map set_filter by blast
    then have "x = y" using inj_onD [OF inj] by blast
    then show False using xy by simp
  qed
  then show "distinct (closed_ids c @ open_ids c)"
    using part by (simp add: closed_ids_def open_ids_def)
qed

end
