(* ===== verification/Concrete_Results.thy ===== *)
theory Concrete_Results
  imports Concrete_Directory Machine_Result_Facts
begin

text \<open>
  Concrete answers of a provider: a blocked review with one finding and the closure of that finding,
  each between its sentinels. The YAML loader of the instance returns the mapping directly.
\<close>

definition str_entry :: "string \<Rightarrow> string \<Rightarrow> pyval \<times> pyval" where
  "str_entry k v = (PStr (lit k), PStr (lit v))"

definition demo_reported :: pyval where
  "demo_reported = PDict [str_entry ''id'' ''F1'', str_entry ''severity'' ''HIGH'', str_entry ''title'' ''t'',
     str_entry ''summary'' ''s'']"

definition demo_review_yaml :: "pystr \<Rightarrow> yaml_error + pyval" where
  "demo_review_yaml = (\<lambda>_. Inr (PDict [str_entry ''verdict'' ''BLOCKED'', (PStr (lit ''blockers''), PList [demo_reported])]))"

definition demo_closure_yaml :: "pystr \<Rightarrow> yaml_error + pyval" where
  "demo_closure_yaml = (\<lambda>_. Inr (PDict [(PStr (lit ''findings''),
     PList [PDict [str_entry ''id'' ''F1'', str_entry ''status'' ''CLOSED'', str_entry ''reason'' ''r'']])]))"

definition demo_finding :: finding where
  "demo_finding = \<lparr>fd_finding_id = lit ''F1'', fd_severity = HIGH, fd_title = lit ''t'', fd_summary = lit ''s'',
     fd_status = FS_OPEN\<rparr>"

lemma quiet_x: "quiet_line (lit ''x'')"
  by (simp add: quiet_line_def plain_line_def is_linebreak_def lit_def strip_def is_space_def is_fence_def
      ALL_SENTINELS_def all_provider_role_def)

lemma demo_block: "extract_result_block (render_block role [] [lit ''x'']) (for_role role) t = Inr (lit ''x'')"
proof -
  have "length (lit ''x'') \<le> MAX_RESULT_BLOCK_CHARS" by (simp add: MAX_RESULT_BLOCK_CHARS_def lit_def)
  then have "extract_result_block (render_block role [] [lit ''x'']) (for_role role) t = Inr (join_on 10 [lit ''x''])"
    by (intro extract_render) (simp_all add: quiet_x)
  then show ?thesis by simp
qed

lemma demo_finding_valid: "validate_finding demo_env demo_finding = Some demo_finding"
  by (simp add: validate_finding_def demo_finding_def identifier_field_def finding_id_def char_class_defs
      text_field_def MAX_TITLE_CHARS_def MAX_TEXT_CHARS_def text_defs)

lemma demo_reported_read: "read_finding demo_reported = Some \<lparr>rp_id = lit ''F1'', rp_severity = HIGH, rp_title = lit ''t'', rp_summary = lit ''s''\<rparr>"
  by (simp add: demo_reported_def str_entry_def closed_fields_def required_def get_field_def read_enum_def all_severity_def)

lemma demo_review:
  "parse_review_result demo_env demo_review_yaml (render_block REVIEW [] [lit ''x'']) 3 None
     = Inr \<lparr>rw_verdict = BLOCKED, rw_blockers = [demo_finding], rw_deferred = []\<rparr>"
proof -
  have "load_block demo_review_yaml (render_block REVIEW [] [lit ''x'']) (for_role REVIEW) None
      = Inr [str_entry ''verdict'' ''BLOCKED'', (PStr (lit ''blockers''), PList [demo_reported])]"
    by (simp add: load_block_def demo_block demo_review_yaml_def str_entry_def)
  moreover have "raw_review_model [str_entry ''verdict'' ''BLOCKED'', (PStr (lit ''blockers''), PList [demo_reported])]
      = Some \<lparr>rr_raw_verdict = BLOCKED, rr_raw_blockers =
          [\<lparr>rp_id = lit ''F1'', rp_severity = HIGH, rp_title = lit ''t'', rp_summary = lit ''s''\<rparr>], rr_raw_deferred = []\<rparr>"
    by (simp add: raw_review_model_def str_entry_def closed_fields_def required_def get_field_def read_enum_def
        all_review_verdict_def list_field_def demo_reported_read MAX_RESULT_LIST_ITEMS_def)
  moreover have "as_finding demo_env FS_OPEN \<lparr>rp_id = lit ''F1'', rp_severity = HIGH, rp_title = lit ''t'', rp_summary = lit ''s''\<rparr>
      = Some demo_finding"
    using demo_finding_valid by (simp add: as_finding_def demo_finding_def)
  ultimately show ?thesis by (simp add: parse_review_result_def Let_def BLOCKING_SEVERITIES_def)
qed

lemma demo_closure:
  "parse_closure_result demo_closure_yaml (render_block CLOSURE [] [lit ''x'']) [lit ''F1''] None
     = Inr \<lparr>co_findings = [\<lparr>cl_id = lit ''F1'', cl_status = FS_CLOSED, cl_reason = lit ''r''\<rparr>]\<rparr>"
proof -
  have "raw_closure_model [(PStr (lit ''findings''),
     PList [PDict [str_entry ''id'' ''F1'', str_entry ''status'' ''CLOSED'', str_entry ''reason'' ''r'']])]
      = Some [\<lparr>cl_id = lit ''F1'', cl_status = FS_CLOSED, cl_reason = lit ''r''\<rparr>]"
    by (simp add: raw_closure_model_def str_entry_def closed_fields_def required_def get_field_def read_enum_def
        all_finding_status_def list_field_def MAX_RESULT_LIST_ITEMS_def read_text_def bounded_text_def
        strip_def is_space_def lit_def MAX_TEXT_CHARS_def)
  then show ?thesis
    by (simp add: parse_closure_result_def Let_def load_block_def demo_block demo_closure_yaml_def)
qed

end
