(* ===== verification/Typed_Refusals.thy ===== *)
theory Typed_Refusals
  imports Replay_Facts
begin

text \<open>
  The fold refuses only with lifecycle errors. Each Python exception that the code could raise on an
  index, an assertion or a helper's \<open>ValueError\<close> is excluded by an invariant: the manifest is longer
  than the applied prefix, an operation is keyed by a SHA-256 name, attempts are numbered 1 to 3,
  declared budgets are counters, assigned fields carry values.
\<close>

definition typed :: "lifecycle_error + 'a \<Rightarrow> bool" where
  "typed m \<longleftrightarrow> (\<forall>e. m = Inl e \<longrightarrow> refusal_stop_reason e \<noteq> None)"

lemma typed_Inr: "typed (Inr x)" by (simp add: typed_def)

lemma typed_Inl: "refusal_stop_reason e \<noteq> None \<Longrightarrow> typed (Inl e)" by (simp add: typed_def)

lemma typed_bind: "typed m \<Longrightarrow> (\<And>x. m = Inr x \<Longrightarrow> typed (f x)) \<Longrightarrow> typed (rbind m f)"
  by (cases m) (auto simp: typed_def)

lemma typed_raise: "refusal_stop_reason e \<noteq> None \<Longrightarrow> (\<not> c \<Longrightarrow> typed k) \<Longrightarrow> typed (raise_if c e k)"
  by (auto simp: typed_def raise_if_def)

lemma typed_raise_never: "\<not> c \<Longrightarrow> typed k \<Longrightarrow> typed (raise_if c e k)"
  by (simp add: raise_if_def)

lemma typed_from_option: "refusal_stop_reason e \<noteq> None \<Longrightarrow> typed (from_option e x)"
  by (cases x) (auto simp: typed_def)

lemma typed_require_prefix: "typed k \<Longrightarrow> typed (require_prefix xs ys k)"
  by (simp add: require_prefix_def typed_raise)

lemma typed_option:
  "(x = None \<Longrightarrow> typed a) \<Longrightarrow> (\<And>y. x = Some y \<Longrightarrow> typed (f y)) \<Longrightarrow> typed (case x of None \<Rightarrow> a | Some y \<Rightarrow> f y)"
  by (cases x) auto

lemma typed_if: "(c \<Longrightarrow> typed a) \<Longrightarrow> (\<not> c \<Longrightarrow> typed b) \<Longrightarrow> typed (if c then a else b)"
  by simp

lemma typed_pair: "(\<And>a b. p = (a, b) \<Longrightarrow> typed (f a b)) \<Longrightarrow> typed (case p of (a, b) \<Rightarrow> f a b)"
  by (cases p) auto

lemma lifecycle_refusals:
  "refusal_stop_reason EventChainBroken \<noteq> None" "refusal_stop_reason EventConflict \<noteq> None"
  "refusal_stop_reason OperationRecordInvalid \<noteq> None" "refusal_stop_reason OperationRecordConflict \<noteq> None"
  by simp_all

lemmas typed_rules =
  typed_Inr lifecycle_refusals typed_Inl typed_bind typed_raise typed_from_option typed_require_prefix
  typed_option typed_if typed_pair

section \<open>Addresses\<close>

lemma typed_address:
  assumes "sha256_hex i" and "name \<in> set attempt_artifacts" and "1 \<le> n" "n \<le> 3"
  shows "typed (operation_artifact_path i name (Some n))"
  using assms by (auto simp: operation_artifact_path_def attempt_directory_name_def MAX_OPERATION_ATTEMPTS_def typed_def Let_def)

lemma typed_expect:
  assumes "sha256_hex i" and "name \<in> set attempt_artifacts" and "1 \<le> n" "n \<le> 3"
  shows "typed (expect_artifact r kind i name (Some n))"
  unfolding expect_artifact_def require_reference_def
  by (intro typed_rules typed_address assms)

section \<open>Record changes\<close>

lemma typed_apply_updates: "typed (apply_updates E r u st)"
  unfolding apply_updates_def by (intro typed_rules)

lemma typed_completed_row: "typed (completed_row xs ys)"
  unfolding completed_row_def Let_def by (intro typed_rules)

lemma typed_completion: "typed (check_provider_completion row ev)"
  unfolding check_provider_completion_def Let_def by (intro typed_rules)

lemma typed_provider_rows: "typed (provider_rows_update E xs ys ev)"
  unfolding provider_rows_update_def Let_def
  by (intro typed_rules typed_completed_row typed_completion)

lemma known_field: "n \<in> record_field_value ` set COUNTER_FIELDS \<Longrightarrow> field_of_name n \<noteq> None"
  by (auto simp: field_of_name_def find_None_iff all_record_field_complete)

lemma known_fields:
  "fst ` set budgets \<subseteq> record_field_value ` set COUNTER_FIELDS \<Longrightarrow>
     map_opt (\<lambda>(name, _). field_of_name name) budgets \<noteq> None"
proof (induction budgets)
  case (Cons b bs)
  then have "field_of_name (fst b) \<noteq> None" by (intro known_field) simp
  then show ?case using Cons by (cases b) auto
qed simp

lemma typed_record_update:
  assumes "fst ` set (budgets_of (recovery_evidence d)) \<subseteq> record_field_value ` set COUNTER_FIELDS"
  shows "typed (apply_record_update E s p d)"
proof -
  define known where "known = map_opt (\<lambda>(name, _). field_of_name name) (budgets_of (recovery_evidence d))"
  have k: "\<not> known = None" unfolding known_def by (rule known_fields [OF assms])
  show ?thesis
    unfolding apply_record_update_def Let_def known_def [symmetric]
    by (intro typed_Inr lifecycle_refusals typed_raise_never [OF k] typed_raise
       typed_bind typed_require_prefix typed_apply_updates typed_provider_rows typed_pair)
qed

lemma typed_transition: "typed (apply_transition E s p)"
  unfolding apply_transition_def Let_def by (intro typed_rules typed_apply_updates)

lemma typed_ledger: "typed (apply_ledger E s p d)"
  unfolding apply_ledger_def Let_def by (intro typed_rules)

lemma typed_accepted: "typed (apply_accepted E s p d)"
  unfolding apply_accepted_def persistence_view_def check_accepted_def Let_def
  by (intro typed_rules typed_apply_updates)

lemma typed_rejected: "typed (apply_rejected E s p d)"
  unfolding apply_rejected_def persistence_view_def check_rejected_def Let_def
  by (intro typed_rules typed_apply_updates)

section \<open>Operation evidence\<close>

definition operation_payload :: "event_payload \<Rightarrow> bool" where
  "operation_payload p \<longleftrightarrow> (\<exists>q. p = OperationRequestCreated q) \<or> attempt_of p \<noteq> None"

lemma attempt_bounds: "validate_payload E p \<Longrightarrow> attempt_of p = Some (i, n) \<Longrightarrow> 1 \<le> n \<and> n \<le> 3"
  by (cases p) (auto simp: validate_attempt_evidence_def MAX_OPERATION_ATTEMPTS_def)

lemma typed_complete:
  assumes "attempt_of p = Some (i, n)" and "\<nexists>q. p = OperationDispatchIntent q"
    and "sha256_hex i'" and "1 \<le> n" "n \<le> 3"
  shows "typed (complete_attempt i' ph l p)"
  using assms
  by (cases p) (auto intro!: typed_raise typed_bind typed_Inr typed_expect simp: attempt_artifacts_def)

lemma typed_attempt_step:
  assumes p: "attempt_of p = Some (i, n)" and h: "sha256_hex i'" and b: "1 \<le> n" "n \<le> 3"
  shows "typed (attempt_step i' n view p)"
proof (cases "\<exists>q. p = OperationDispatchIntent q")
  case True
  then obtain q where q: "p = OperationDispatchIntent q" by blast
  have "1 \<le> ae_attempt q" "ae_attempt q \<le> 3" using p b q by auto
  then have "typed (intent_step i' (op_attempts view) q)"
    unfolding intent_step_def Let_def
    by (intro typed_rules typed_expect h) (simp_all add: attempt_artifacts_def)
  then show ?thesis by (simp add: attempt_step_def q)
next
  case False
  have "attempt_step i' n view p =
      (case last_opt (op_attempts view) of None \<Rightarrow> Inl OperationRecordInvalid
       | Some l \<Rightarrow> raise_if (at_attempt l \<noteq> n) OperationRecordInvalid
           (rbind (complete_attempt i' (op_highest_phase view) l p)
             (\<lambda>(l', phase, refs). Inr (butlast (op_attempts view) @ [l'], phase, refs))))"
    using False by (cases p) (auto simp: attempt_step_def Let_def)
  then show ?thesis
    by (simp only:) (intro typed_rules typed_complete [OF p False h b])
qed

lemma typed_operation:
  assumes hash: "\<forall>b. sha256_hex (sha256 E b)" and ok: "operations_ok s"
    and pins: "run_id_grammar (pn_run_id (fs_pins s))"
    and v: "validate_payload E p" and o: "operation_payload p"
  shows "typed (apply_operation E s p)"
proof (cases "\<exists>q. p = OperationRequestCreated q")
  case True
  then obtain q where q: "p = OperationRequestCreated q" by blast
  have "124 \<notin> set (pn_run_id (fs_pins s))"
    using pins unfolding run_id_grammar_def finding_id_def
    by (auto simp: list_all_iff char_class_defs is_name_char_def split: list.splits)
  then have id: "operation_id E (pn_run_id (fs_pins s)) (qc_step q)
      = Inr (sha256 E (utf8 (operation_material (pn_run_id (fs_pins s)) (qc_step q))))"
    using pins by (simp add: operation_id_def)
  have e: "typed (expect_artifact r k (sha256 E b) REQUEST_FILE_NAME None)" for r k b
    using hash by (auto simp: expect_artifact_def require_reference_def operation_artifact_path_def
        run_level_artifacts_def intro!: typed_rules)
  show ?thesis
    unfolding apply_operation_def q event_payload.case id rbind.simps
    by (intro typed_rules) (metis e)
next
  case False
  then obtain i n where a: "attempt_of p = Some (i, n)" using o by (auto simp: operation_payload_def)
  have eq: "apply_operation E s p =
      (case fs_operations s i of None \<Rightarrow> Inl OperationRecordInvalid
       | Some view \<Rightarrow> raise_if (op_persisted view \<noteq> None) OperationRecordConflict
           (rbind (attempt_step i n view p) (\<lambda>(attempts, phase, refs).
            Inr ((fs_operations s)(i \<mapsto> view\<lparr>op_attempts := attempts, op_highest_phase := phase\<rparr>), refs))))"
    using False a by (cases p) (auto simp: apply_operation_def)
  have h: "sha256_hex i" if "fs_operations s i = Some view" for view
    using ok that by (auto simp: operations_ok_def ladder_ok_def)
  show ?thesis
    unfolding eq using attempt_bounds [OF v a]
    by (intro typed_rules typed_attempt_step [OF a] h) auto
qed

section \<open>Declarations\<close>

lemma assigned_counter_value:
  assumes "validate_updates E u \<noteq> None" and "f \<in> set (assigned_counters u)"
  shows "updated_counter u f \<noteq> None"
proof -
  obtain w where "validate_updates E u = Some w" using assms(1) by blast
  then have "\<not> (\<exists>f \<in> set all_record_field. f \<in> set (ru_assigned u) \<and> updates_value_none u f \<and> f \<notin> set NULLABLE_FIELDS)"
    by (simp add: validate_updates_def Let_def)
  moreover have "f \<in> set (ru_assigned u)" and c: "f \<in> set COUNTER_FIELDS"
    using assms(2) by (auto simp: assigned_counters_def)
  moreover have "f \<notin> set NULLABLE_FIELDS" using c by (auto simp: COUNTER_FIELDS_def NULLABLE_FIELDS_def)
  ultimately have "\<not> updates_value_none u f" using all_record_field_complete by blast
  then show ?thesis
    using c by (auto simp: COUNTER_FIELDS_def updates_value_none_def updated_counter_def all_record_field_def)
qed

lemma typed_budget_pass:
  assumes "validate_constituent_payload E (mc_payload c)"
  shows "typed (budget_pass acc c)"
proof (cases "constituent_updates (mc_payload c)")
  case (Some u)
  have "validate_updates E u \<noteq> None" using assms Some by (cases "mc_payload c") auto
  then have "\<not> list_ex (\<lambda>m. updated_counter u m = None) (assigned_counters u)"
    using assigned_counter_value by (auto simp: list_ex_iff)
  then show ?thesis
    unfolding budget_pass_def Some option.case Let_def by (intro typed_raise_never typed_Inr)
qed (simp add: budget_pass_def typed_Inr)

lemma typed_budget_run:
  "list_all (\<lambda>c. validate_constituent_payload E (mc_payload c)) cs \<Longrightarrow> typed (rfold budget_pass acc cs)"
  by (induction cs arbitrary: acc) (auto intro!: typed_rules typed_budget_pass)

lemma typed_result_evidence:
  assumes ok: "operations_ok s" and p: "persisted_operation p \<noteq> None"
  shows "typed (validate_result_evidence s evidence p)"
proof (cases "fs_operations s (rv_operation_id evidence)")
  case (Some view)
  have l: "ladder_ok (rv_operation_id evidence) view" using ok Some by (auto simp: operations_ok_def)
  have at: "1 \<le> at_attempt a \<and> at_attempt a \<le> 3" if "last_opt (op_attempts view) = Some a" for a
  proof -
    have ne: "op_attempts view \<noteq> []" "last (op_attempts view) = a" using that by auto
    have "attempts_ok (op_attempts view)" using l by (simp add: ladder_ok_def)
    then have "at_attempt a = int (length (op_attempts view) - 1) + 1 \<and> length (op_attempts view) \<le> 3"
      using ne by (auto simp: attempts_ok_def last_conv_nth)
    then show ?thesis using ne(1) by (cases "op_attempts view") auto
  qed
  have verdict: "typed (verdict_reference_ok (rv_operation_id evidence) r (last_opt (op_attempts view)) k n x y)"
    if "n \<in> set attempt_artifacts" for r k n x y
    unfolding verdict_reference_ok_def
    using at l that
    by (auto split: option.split intro!: typed_rules typed_address simp: ladder_ok_def)
  show ?thesis
    unfolding validate_result_evidence_def Let_def Some option.case
    using p by (cases p)
      (auto split: rejection_source.split intro!: typed_rules verdict simp: attempt_artifacts_def)
qed (simp add: validate_result_evidence_def typed_Inl)

lemma typed_declaration:
  assumes ok: "operations_ok s" and d: "validate_declaration_model E d"
  shows "typed (validate_declaration E s event d)"
proof -
  have cs: "list_all (\<lambda>c. validate_constituent_payload E (mc_payload c)) (md_constituents d)"
    using d by (auto simp: validate_declaration_model_def list_all_iff)
  have budget: "typed (validate_budget_effects (fs_record s) d e)" for e
    unfolding validate_budget_effects_def Let_def
    by (intro typed_rules typed_budget_run [OF cs])
  have recovery: "typed (validate_recovery_declaration s d e n ps)" for e n ps
    unfolding validate_recovery_declaration_def by (intro typed_rules budget)
  have result: "typed (validate_result_declaration s d e n
      (filter (\<lambda>p. persisted_operation p \<noteq> None) (map mc_payload (md_constituents d))))" for e n
  proof (cases "\<exists>p. filter (\<lambda>p. persisted_operation p \<noteq> None) (map mc_payload (md_constituents d)) = [p]")
    case True
    then obtain p where f: "filter (\<lambda>p. persisted_operation p \<noteq> None) (map mc_payload (md_constituents d)) = [p]"
      by blast
    have "p \<in> set (filter (\<lambda>p. persisted_operation p \<noteq> None) (map mc_payload (md_constituents d)))"
      unfolding f by simp
    then have "persisted_operation p \<noteq> None" by simp
    from typed_result_evidence [OF ok this] show ?thesis
      unfolding validate_result_declaration_def Let_def f list.case by (intro typed_rules)
  next
    case False
    then show ?thesis
      unfolding validate_result_declaration_def Let_def
      by (auto split: list.split intro!: typed_Inl)
  qed
  show ?thesis
    unfolding validate_declaration_def Let_def
    by (cases "md_evidence d") (simp_all only: mutation_evidence.case, (intro typed_rules recovery result)+)
qed

section \<open>One event\<close>

lemma typed_mark:
  "(\<And>i. identifier = Some i \<Longrightarrow> fs_operations s i \<noteq> None) \<Longrightarrow> typed (mark_caused event sha identifier s)"
  by (auto simp: mark_caused_def typed_def split: option.splits)

lemma typed_constituent:
  assumes m: "mutation_ok E s" and that: "le_payload event = Constituent c"
  shows "typed (payload_effect E s event sha)"
proof (cases c)
  case (RunRecordUpdated p)
  have "fst ` set (budgets_of (recovery_evidence (open_declaration s))) \<subseteq> record_field_value ` set COUNTER_FIELDS"
    using m by (auto simp: mutation_ok_def open_declaration_def budgets_known_def recovery_evidence_def
        budgets_of_def Let_def split: option.splits)
  from typed_record_update [OF this] show ?thesis
    unfolding payload_effect_def Let_def that RunRecordUpdated event_payload.case constituent_payload.case
    by (intro typed_rules)
next
  case (StateTransitioned p)
  show ?thesis
    unfolding payload_effect_def Let_def that StateTransitioned event_payload.case constituent_payload.case
  proof (intro typed_bind typed_transition)
    fix after assume a: "apply_transition E s p = Inr after"
    have "fs_operations s i \<noteq> None" if i: "tr_operation_id p = Some i" for i
      using apply_transition_operation [OF a] i by auto
    then show "typed (mark_caused event sha (tr_operation_id p) (s\<lparr>fs_record := after\<rparr>))"
      by (intro typed_mark) simp
  qed
qed (unfold payload_effect_def Let_def that,
    simp_all only: event_payload.case constituent_payload.case,
    (intro typed_rules typed_ledger typed_accepted typed_rejected)+)

lemma typed_effect:
  assumes hash: "\<forall>b. sha256_hex (sha256 E b)" and ok: "fold_ok E s"
    and adm: "admit_event s event = Inr u" and v: "valid_item E (event, sha)"
  shows "typed (payload_effect E s event sha)"
proof -
  note vp = valid_item_payload [OF v]
  have o: "operations_ok s" and m: "mutation_ok E s" using ok by (simp_all add: fold_ok_def)
  have pins: "fs_pins s = le_pins event" and ng: "le_event_type event \<notin> set GENESIS_TYPES"
    using adm by (auto simp: admit_event_def)
  have "validate_event_pins (le_pins event)" using v by (simp add: valid_item_def validate_event_def)
  then have run: "run_id_grammar (pn_run_id (fs_pins s))"
    by (simp add: pins validate_event_pins_def valid_operation_pins_def)
  have op: "typed (payload_effect E s event sha)" if "operation_payload (le_payload event)"
  proof -
    have "payload_effect E s event sha = rbind (apply_operation E s (le_payload event)) (\<lambda>(operations, refs).
          Inr (s\<lparr>fs_operations := operations, fs_references := fs_references s @ refs\<rparr>))"
      using that by (cases "le_payload event") (auto simp: payload_effect_def operation_payload_def Let_def)
    then show ?thesis
      by (simp only:) (intro typed_rules typed_operation [OF hash o run vp that])
  qed
  show ?thesis
  proof (cases "le_payload event")
    case (ApplicationMutationDeclared d)
    then have "validate_declaration_model E d" using vp by simp
    then show ?thesis
      unfolding payload_effect_def Let_def ApplicationMutationDeclared event_payload.case
      by (intro typed_rules typed_declaration [OF o])
  next
    case (Constituent c)
    show ?thesis by (rule typed_constituent [OF m Constituent])
  next
    case (RunInitialized r)
    then show ?thesis using ng valid_item_type [OF v] by (simp add: GENESIS_TYPES_def)
  next
    case (RunBaselined r)
    then show ?thesis using ng valid_item_type [OF v] by (simp add: GENESIS_TYPES_def)
  next
    case (StageStartBound p)
    show ?thesis unfolding payload_effect_def Let_def StageStartBound event_payload.case by (intro typed_rules)
  next
    case (PolicyPublished p)
    show ?thesis unfolding payload_effect_def Let_def PolicyPublished event_payload.case by (intro typed_rules)
  qed (rule op, simp add: operation_payload_def)+
qed

lemma typed_admit:
  assumes "mutation_ok E s"
  shows "typed (admit_event s event)"
proof -
  have e: "typed (expected_constituent m event)" if "fs_open_mutation s = Some m" for m
    using assms that unfolding expected_constituent_def Let_def
    by (auto simp: mutation_ok_def Let_def nth_opt_def intro!: typed_rules)
  show ?thesis unfolding admit_event_def by (intro typed_rules e)
qed

lemma fold_step_typed:
  assumes hash: "\<forall>b. sha256_hex (sha256 E b)" and ok: "fold_ok E s" and v: "valid_item E (event, sha)"
  shows "typed (fold_step E expected (Some s) (event, sha))"
proof -
  have n: "typed (next_digest E s p r)" for p r
    unfolding next_digest_def Let_def by (cases p) (simp_all add: typed_Inr typed_raise)
  have "mutation_ok E s" using ok by (simp add: fold_ok_def)
  then show ?thesis
    unfolding fold_step_def Let_def prod.case option.case
    by (intro typed_bind typed_admit typed_effect [OF hash ok _ v] n typed_Inr)
qed

text \<open>The genesis event, and with it every fold of valid events.\<close>

lemma genesis_typed:
  assumes "valid_item E (event, sha)"
  shows "typed (genesis_step E event sha expected)"
proof (cases "le_event_type event \<in> set GENESIS_TYPES")
  case True
  then obtain r where r: "genesis_record (le_payload event) = Some r"
    using valid_item_type [OF assms] by (cases "le_payload event")
      (auto simp: GENESIS_TYPES_def genesis_record_def elim: constituent_event_type.elims)
  show ?thesis
    unfolding genesis_step_def Let_def r from_option.simps by (intro typed_rules)
qed (simp add: genesis_step_def typed_Inl)

lemma fold_from_typed:
  assumes "\<forall>b. sha256_hex (sha256 E b)" and "fold_ok E s" and "list_all (valid_item E) items"
  shows "typed (fold_from E s items)"
  using assms(2,3)
proof (induction items arbitrary: s)
  case (Cons item items)
  obtain event sha where item: "item = (event, sha)" by (cases item)
  have v: "valid_item E (event, sha)" using Cons.prems item by simp
  show ?case
    unfolding fold_from_simps item
    by (intro typed_bind fold_step_typed [OF assms(1) Cons.prems(1) v] Cons.IH)
      (use Cons.prems v fold_step_ok(1) in auto)
qed (simp add: typed_Inr)

lemma fold_chain_typed:
  assumes "\<forall>b. sha256_hex (sha256 E b)" and "list_all (valid_item E) items"
  shows "typed (fold_chain E expected items)"
proof (cases items)
  case (Cons item rest)
  obtain event sha where item: "item = (event, sha)" by (cases item)
  have v: "valid_item E (event, sha)" using assms(2) Cons item by simp
  show ?thesis
    unfolding Cons item fold_chain_Cons
    by (intro typed_bind genesis_typed [OF v] fold_from_typed [OF assms(1)])
      (use assms(2) Cons item v genesis_fold_ok in auto)
qed (simp add: typed_Inl)

end
