(* ===== verification/Actions.thy ===== *)
theory Actions
  imports Prelude
begin

text \<open>
  Methods that change an object and may raise: an action maps the state to the state it leaves behind
  and to its outcome, so that what was already done when an exception is raised stays done.
\<close>

type_synonym ('s, 'e, 'a) action = "'s \<Rightarrow> 's \<times> ('e + 'a)"

definition a_return :: "'a \<Rightarrow> ('s, 'e, 'a) action" where
  "a_return x = (\<lambda>s. (s, Inr x))"

definition a_raise :: "'e \<Rightarrow> ('s, 'e, 'a) action" where
  "a_raise e = (\<lambda>s. (s, Inl e))"

definition a_bind :: "('s, 'e, 'a) action \<Rightarrow> ('a \<Rightarrow> ('s, 'e, 'b) action) \<Rightarrow> ('s, 'e, 'b) action" where
  "a_bind m f = (\<lambda>s. case m s of (t, Inl e) \<Rightarrow> (t, Inl e) | (t, Inr x) \<Rightarrow> f x t)"

definition a_pure :: "'e + 'a \<Rightarrow> ('s, 'e, 'a) action" where
  "a_pure r = (\<lambda>s. (s, r))"

definition a_get :: "('s \<Rightarrow> 'a) \<Rightarrow> ('s, 'e, 'a) action" where
  "a_get f = (\<lambda>s. (s, Inr (f s)))"

definition a_update :: "('s \<Rightarrow> 's) \<Rightarrow> ('s, 'e, unit) action" where
  "a_update f = (\<lambda>s. (f s, Inr ()))"

definition a_raise_if :: "bool \<Rightarrow> 'e \<Rightarrow> ('s, 'e, 'a) action \<Rightarrow> ('s, 'e, 'a) action" where
  "a_raise_if c e m = (if c then a_raise e else m)"

text \<open>\<open>except\<close> clauses that raise another exception instead.\<close>

definition a_except :: "('e \<Rightarrow> 'e) \<Rightarrow> ('s, 'e, 'a) action \<Rightarrow> ('s, 'e, 'a) action" where
  "a_except h m = (\<lambda>s. case m s of (t, Inl e) \<Rightarrow> (t, Inl (h e)) | (t, Inr x) \<Rightarrow> (t, Inr x))"

fun a_each :: "('x \<Rightarrow> ('s, 'e, unit) action) \<Rightarrow> 'x list \<Rightarrow> ('s, 'e, unit) action" where
  "a_each f [] = a_return ()"
| "a_each f (x # xs) = a_bind (f x) (\<lambda>_. a_each f xs)"

lemmas action_defs = a_return_def a_raise_def a_pure_def a_get_def a_update_def

lemma a_return_run [simp]: "a_return x s = (s, Inr x)" by (simp add: a_return_def)
lemma a_raise_run [simp]: "a_raise e s = (s, Inl e)" by (simp add: a_raise_def)
lemma a_pure_run [simp]: "a_pure r s = (s, r)" by (simp add: a_pure_def)
lemma a_get_run [simp]: "a_get f s = (s, Inr (f s))" by (simp add: a_get_def)
lemma a_update_run [simp]: "a_update f s = (f s, Inr ())" by (simp add: a_update_def)

lemma a_raise_if_run [simp]: "a_raise_if c e m s = (if c then (s, Inl e) else m s)"
  by (simp add: a_raise_if_def)

lemma a_bind_Inr: "m s = (t, Inr x) \<Longrightarrow> a_bind m f s = f x t" by (simp add: a_bind_def)
lemma a_bind_Inl: "m s = (t, Inl e) \<Longrightarrow> a_bind m f s = (t, Inl e)" by (simp add: a_bind_def)

lemma a_bind_runs [simp]:
  "a_bind (a_return x) f s = f x s" "a_bind (a_raise e) f s = (s, Inl e)" "a_bind (a_get g) f s = f (g s) s"
  "a_bind (a_update u) h s = h () (u s)" "a_bind (a_pure (Inr x)) f s = f x s" "a_bind (a_pure (Inl e)) f s = (s, Inl e)"
  by (simp_all add: a_bind_def)

lemma a_bind_returns:
  "a_bind m f s = (t, Inr y) \<longleftrightarrow> (\<exists>u x. m s = (u, Inr x) \<and> f x u = (t, Inr y))"
  by (auto simp: a_bind_def split: prod.splits sum.splits)

lemma a_except_returns: "a_except h m s = (t, Inr x) \<longleftrightarrow> m s = (t, Inr x)"
  by (auto simp: a_except_def split: prod.splits sum.splits)

lemma a_raise_if_returns: "a_raise_if c e m s = (t, Inr x) \<longleftrightarrow> \<not> c \<and> m s = (t, Inr x)"
  by simp

lemmas returns_simps = a_bind_returns a_except_returns a_raise_if_returns

end
