(* ===== verification/Redaction.thy ===== *)
theory Redaction
  imports Json "HOL-Library.Product_Lexorder"
begin

text \<open>
  The secret redactor every written byte passes through (\<open>successor_planning/redaction.py\<close>). The eight
  regular expressions of the source are data of a small pattern language with the backtracking
  matcher of Python's \<open>re\<close>: greedy bounded repetitions of a character class, alternatives tried in
  order, word boundaries and the one capturing group. \<open>re_matches\<close> is the declarative meaning of a
  pattern, which the matcher implements. \<open>redact_text\<close> collects the spans of all patterns, resolves
  them from the left and replaces each chosen span by its marker.
\<close>

section \<open>Patterns and their matcher\<close>

datatype re_item =
    Chars "nat \<Rightarrow> bool" nat nat
  | Choice "re_item list list"
  | Boundary
  | GroupStart
  | GroupEnd

text \<open>\<open>\w\<close> of one character, and \<open>\b\<close> between the characters around a position.\<close>

definition word_char :: "pyenv \<Rightarrow> nat \<Rightarrow> bool" where
  "word_char E c \<longleftrightarrow> c = 95 \<or> (if c < 128 then is_alnum c else uni_alnum E c)"

definition word_boundary :: "pyenv \<Rightarrow> pystr \<Rightarrow> nat \<Rightarrow> bool" where
  "word_boundary E t p \<longleftrightarrow>
     (0 < p \<and> p \<le> length t \<and> word_char E (t ! (p - 1))) \<noteq> (p < length t \<and> word_char E (t ! p))"

fun first_some :: "('a \<Rightarrow> 'b option) \<Rightarrow> 'a list \<Rightarrow> 'b option" where
  "first_some f [] = None"
| "first_some f (x # xs) = (case f x of None \<Rightarrow> first_some f xs | Some y \<Rightarrow> Some y)"

lemma first_some_cong [fundef_cong]:
  "xs = ys \<Longrightarrow> (\<And>x. x \<in> set ys \<Longrightarrow> f x = g x) \<Longrightarrow> first_some f xs = first_some g ys"
  by (induction ys arbitrary: xs) (auto split: option.split)

lemma first_some_None [simp]: "first_some f xs = None \<longleftrightarrow> (\<forall>x \<in> set xs. f x = None)"
  by (induction xs) (auto split: option.splits)

lemma first_some_Some: "first_some f xs = Some y \<Longrightarrow> \<exists>x \<in> set xs. f x = Some y"
  by (induction xs) (auto split: option.splits)

fun re_weight :: "re_item \<Rightarrow> nat" where
  "re_weight (Choice alternatives) = 1 + sum_list (map (\<lambda>a. sum_list (map re_weight a)) alternatives)"
| "re_weight _ = 1"

definition re_size :: "re_item list \<Rightarrow> nat" where
  "re_size items = sum_list (map re_weight items)"

lemma re_size_simps [simp]: "re_size [] = 0" "re_size (x # xs) = re_weight x + re_size xs"
  "re_size (xs @ ys) = re_size xs + re_size ys"
  by (simp_all add: re_size_def)

lemma re_size_alternative: "a \<in> set alternatives \<Longrightarrow> re_size a \<le> sum_list (map re_size alternatives)"
  by (simp add: member_le_sum_list)

lemma re_weight_Choice: "re_weight (Choice alternatives) = 1 + sum_list (map re_size alternatives)"
  by (simp add: re_size_def [abs_def])

text \<open>
  The matcher at position \<open>p\<close> with the captured span \<open>g\<close>: the end of the match and the group. A
  repetition tries its longest run first.
\<close>

function re_match :: "pyenv \<Rightarrow> pystr \<Rightarrow> re_item list \<Rightarrow> nat \<Rightarrow> nat \<times> nat \<Rightarrow> (nat \<times> nat \<times> nat) option" where
  "re_match E t [] p g = Some (p, g)"
| "re_match E t (Chars P lo hi # items) p g =
     first_some (\<lambda>n. re_match E t items (p + n) g) (rev [lo ..< Suc (min hi (length (takeWhile P (drop p t))))])"
| "re_match E t (Choice alternatives # items) p g =
     first_some (\<lambda>a. re_match E t (a @ items) p g) alternatives"
| "re_match E t (Boundary # items) p g = (if word_boundary E t p then re_match E t items p g else None)"
| "re_match E t (GroupStart # items) p g = re_match E t items p (p, snd g)"
| "re_match E t (GroupEnd # items) p g = re_match E t items p (fst g, p)"
  by pat_completeness auto
termination
proof (relation "measure (\<lambda>(E, t, items, p, g). re_size items)", goal_cases)
  case (3 E t alternatives items p g a)
  then show ?case using re_size_alternative [of a alternatives] by (simp add: re_weight_Choice del: re_weight.simps(1))
qed simp_all

text \<open>\<open>finditer\<close> for patterns that match no empty span: the matches from position \<open>p\<close>, left to right.\<close>

function finditer :: "pyenv \<Rightarrow> pystr \<Rightarrow> re_item list \<Rightarrow> nat \<Rightarrow> (nat \<times> nat \<times> nat \<times> nat) list" where
  "finditer E t items p =
     (if p > length t then []
      else (case re_match E t items p (0, 0) of
              None \<Rightarrow> finditer E t items (p + 1)
            | Some (e, g) \<Rightarrow> (p, e, g) # finditer E t items (max e (p + 1))))"
  by pat_completeness auto
termination by (relation "measure (\<lambda>(E, t, items, p). Suc (length t) - p)") auto

declare finditer.simps [simp del]

section \<open>The pattern table\<close>

definition one_of :: "string \<Rightarrow> nat \<Rightarrow> bool" where
  "one_of s c \<longleftrightarrow> c \<in> set (lit s)"

definition text_items :: "string \<Rightarrow> re_item list" where
  "text_items s = map (\<lambda>c. Chars (\<lambda>x. x = c) 1 1) (lit s)"

text \<open>
  \<open>re.IGNORECASE\<close> on \<open>str\<close>: the ASCII letters and the four other characters whose case folding is one
  of them.
\<close>

definition fold_case :: "nat \<Rightarrow> nat" where
  "fold_case c =
     (if is_upper c then c + 32
      else if c = 0x130 \<or> c = 0x131 then 105
      else if c = 0x17F then 115
      else if c = 0x212A then 107
      else c)"

definition ci_items :: "string \<Rightarrow> re_item list" where
  "ci_items s = map (\<lambda>c. Chars (\<lambda>x. fold_case x = c) 1 1) (lit s)"

definition blanks :: re_item where "blanks = Chars (one_of [CHR '' '', CHR 0x09]) 0 8"
definition separator :: re_item where "separator = Chars (one_of ''_-'') 0 1"
definition quote_mark :: re_item where "quote_mark = Chars (one_of [CHR 0x22, CHR 0x27]) 0 1"
definition is_url_safe :: "nat \<Rightarrow> bool" where "is_url_safe c \<longleftrightarrow> is_alnum c \<or> one_of ''_-'' c"

record secret_pattern =
  sp_name :: pystr
  sp_items :: "re_item list"
  sp_group :: nat
  sp_priority :: nat

definition aws_access_key_id :: "re_item list" where
  "aws_access_key_id =
     [Boundary,
      Choice (map text_items [''AKIA'', ''ASIA'', ''AGPA'', ''AIDA'', ''AROA'', ''ANPA'', ''ANVA'', ''ABIA'', ''ACCA'']),
      Chars (\<lambda>c. is_digit c \<or> is_upper c) 16 16, Boundary]"

definition github_token :: "re_item list" where
  "github_token =
     Boundary # text_items ''gh'' @ [Chars (one_of ''pousr'') 1 1] @ text_items ''_'' @ [Chars is_alnum 16 255, Boundary]"

definition slack_token :: "re_item list" where
  "slack_token =
     Boundary # text_items ''xox'' @ [Chars (one_of ''abeoprs'') 1 1] @ text_items ''-''
     @ [Chars (\<lambda>c. is_alnum c \<or> c = 45) 10 255, Boundary]"

definition private_key_block :: "re_item list" where
  "private_key_block =
     text_items ''-----BEGIN '' @ [Chars (\<lambda>c. is_upper c \<or> c = 32) 0 40] @ text_items ''PRIVATE KEY-----''"

definition bearer_token :: "re_item list" where
  "bearer_token =
     [Boundary, Chars (one_of ''Bb'') 1 1] @ text_items ''earer ''
     @ [Chars (\<lambda>c. is_alnum c \<or> one_of ''._~+/=-'' c) 16 512]"

definition json_web_token :: "re_item list" where
  "json_web_token =
     Boundary # text_items ''eyJ'' @ [Chars is_url_safe 8 512] @ text_items ''.''
     @ [Chars is_url_safe 8 512] @ text_items ''.'' @ [Chars is_url_safe 8 512]"

definition credential_assignment :: "re_item list" where
  "credential_assignment =
     [Choice
        [ci_items ''api'' @ [separator] @ ci_items ''key'',
         ci_items ''secret'' @ [separator] @ ci_items ''key'',
         ci_items ''secret'', ci_items ''password'', ci_items ''passwd'', ci_items ''token'',
         ci_items ''access'' @ [separator] @ ci_items ''key''],
      blanks, Chars (one_of '':='') 1 1, blanks, quote_mark,
      GroupStart, Chars (\<lambda>c. is_alnum (fold_case c) \<or> one_of ''_./+=-'' c) 8 256, GroupEnd, quote_mark]"

definition url_userinfo :: "re_item list" where
  "url_userinfo =
     [Boundary, Chars is_lower 1 1, Chars (\<lambda>c. is_lower c \<or> is_digit c \<or> one_of ''+.-'' c) 1 31]
     @ text_items ''://'' @ [Chars (\<lambda>c. \<not> is_space c \<and> \<not> one_of ''/@:'' c) 1 128] @ text_items '':''
     @ [GroupStart, Chars (\<lambda>c. \<not> is_space c \<and> \<not> one_of ''/@'' c) 1 256, GroupEnd] @ text_items ''@''"

definition PATTERNS :: "secret_pattern list" where
  "PATTERNS =
     [\<lparr>sp_name = lit ''aws_access_key_id'', sp_items = aws_access_key_id, sp_group = 0, sp_priority = 0\<rparr>,
      \<lparr>sp_name = lit ''github_token'', sp_items = github_token, sp_group = 0, sp_priority = 0\<rparr>,
      \<lparr>sp_name = lit ''slack_token'', sp_items = slack_token, sp_group = 0, sp_priority = 0\<rparr>,
      \<lparr>sp_name = lit ''private_key_block'', sp_items = private_key_block, sp_group = 0, sp_priority = 0\<rparr>,
      \<lparr>sp_name = lit ''bearer_token'', sp_items = bearer_token, sp_group = 0, sp_priority = 0\<rparr>,
      \<lparr>sp_name = lit ''json_web_token'', sp_items = json_web_token, sp_group = 0, sp_priority = 0\<rparr>,
      \<lparr>sp_name = lit ''credential_assignment'', sp_items = credential_assignment, sp_group = 1, sp_priority = 1\<rparr>,
      \<lparr>sp_name = lit ''url_userinfo'', sp_items = url_userinfo, sp_group = 1, sp_priority = 1\<rparr>]"

section \<open>\<open>redact_text\<close>\<close>

type_synonym span = "nat \<times> nat \<times> nat \<times> pystr"

definition pattern_spans :: "pyenv \<Rightarrow> pystr \<Rightarrow> secret_pattern \<Rightarrow> span list" where
  "pattern_spans E t sp =
     map (\<lambda>(s, e). (s, e, sp_priority sp, sp_name sp))
       (filter (\<lambda>(s, e). s < e)
          (map (\<lambda>(p, e, g). if sp_group sp = 0 then (p, e) else g) (finditer E t (sp_items sp) 0)))"

definition span_key :: "span \<Rightarrow> nat \<times> int \<times> nat \<times> pystr" where
  "span_key s = (case s of (b, e, priority, name) \<Rightarrow> (b, - int e, priority, name))"

definition collected_spans :: "pyenv \<Rightarrow> pystr \<Rightarrow> span list" where
  "collected_spans E t = sort_key span_key (concat (map (pattern_spans E t) PATTERNS))"

text \<open>The resolution from the left: a span that starts before \<open>position\<close> is skipped.\<close>

fun resolve :: "nat \<Rightarrow> span list \<Rightarrow> span list" where
  "resolve position [] = []"
| "resolve position ((s, e, priority, name) # spans) =
     (if s < position then resolve position spans else (s, e, priority, name) # resolve e spans)"

definition marker :: "pystr \<Rightarrow> pystr" where
  "marker name = lit ''[REDACTED:'' @ name @ lit '']''"

fun replace_spans :: "pystr \<Rightarrow> nat \<Rightarrow> span list \<Rightarrow> pystr" where
  "replace_spans t position [] = drop position t"
| "replace_spans t position ((s, e, priority, name) # spans) =
     take (s - position) (drop position t) @ marker name @ replace_spans t e spans"

record redaction_finding =
  rf_pattern_name :: pystr
  rf_occurrences :: nat
  rf_first_offset :: nat

definition span_name :: "span \<Rightarrow> pystr" where
  "span_name s = (case s of (_, _, _, name) \<Rightarrow> name)"

definition findings_of :: "span list \<Rightarrow> redaction_finding list" where
  "findings_of chosen =
     map (\<lambda>name. \<lparr>rf_pattern_name = name,
                  rf_occurrences = length (filter (\<lambda>s. span_name s = name) chosen),
                  rf_first_offset = fst (hd (filter (\<lambda>s. span_name s = name) chosen))\<rparr>)
       (sort (remdups (map span_name chosen)))"

definition redact_text :: "pyenv \<Rightarrow> pystr \<Rightarrow> pystr \<times> redaction_finding list" where
  "redact_text E t =
     (let spans = collected_spans E t in
      if spans = [] then (t, [])
      else (let chosen = resolve 0 spans in (replace_spans t 0 chosen, findings_of chosen)))"

end
