(* ===== verification/Event_Storage.thy ===== *)
theory Event_Storage
  imports Actions Redaction Chain_Load
begin

text \<open>
  The durable storage of one run under a held lock: \<open>RunLifecycleStorage\<close> of \<open>milestone_runner/state.py\<close>
  with \<open>write_redacted_artifact\<close>, \<open>publish_atomically\<close>, \<open>publish_exclusively\<close> and \<open>confirm_durable\<close>, and
  the state of the \<open>EventStore\<close> of \<open>events.py\<close> that owns it. The operating system answers every write
  and every durability barrier through the parameter \<open>disk\<close>, indexed by the number of the answer: it
  may fail before the canonical name changed, fail after it changed, or succeed. Every failure ends
  the operation, so a crash between two writes leaves the directory that one of these answers leaves.
  The identities of directories and files (device and inode) under which confirmations are cached are
  not part of the model: a confirmation is repeated instead of reused.
\<close>

section \<open>The state of the store\<close>

record event_store =
  es_pins :: operation_pins
  es_state :: "fold_state option"
  es_entries :: "chain_entry list"
  es_names :: "pystr list"
  es_witness :: "bytes option"
  es_disk :: run_directory
  es_barriers :: nat

datatype store_error =
    Load load_error
  | StateRootRefused
  | StatePublicationFailure
  | ExclusivePublicationConflict
  | PublicationUncertain

type_synonym 'a store_action = "(event_store, store_error, 'a) action"

datatype publication_outcome =
    NOT_PUBLISHED
  | DURABLE
  | UNCERTAIN

type_synonym disk_answers = "nat \<Rightarrow> publication_outcome"

datatype exclusive_outcome =
    CREATED
  | IDENTICAL_EXISTS

fun load_result :: "load_error + 'a \<Rightarrow> store_error + 'a" where
  "load_result (Inl e) = Inl (Load e)"
| "load_result (Inr x) = Inr x"

lemma load_result_Inr [simp, result_simps]: "load_result m = Inr x \<longleftrightarrow> m = Inr x"
  by (cases m) auto

lemma load_result_Inl [simp]: "load_result m = Inl e \<longleftrightarrow> (\<exists>d. m = Inl d \<and> e = Load d)"
  by (cases m) auto

definition lifecycle_result :: "lifecycle_error + 'a \<Rightarrow> store_error + 'a" where
  "lifecycle_result m = load_result (lift_lifecycle m)"

lemma lifecycle_result_Inr [simp, result_simps]: "lifecycle_result m = Inr x \<longleftrightarrow> m = Inr x"
  by (simp add: lifecycle_result_def)

lemma lifecycle_result_Inl: "lifecycle_result m = Inl e \<longleftrightarrow> (\<exists>d. m = Inl d \<and> e = Load (Lifecycle d))"
  by (cases m) (auto simp: lifecycle_result_def)

abbreviation lifecycle_refusal :: "lifecycle_error \<Rightarrow> store_error" where
  "lifecycle_refusal e \<equiv> Load (Lifecycle e)"

section \<open>Publication\<close>

definition event_directory_prefix :: pystr where
  "event_directory_prefix = EVENTS_DIRECTORY @ [47]"

text \<open>Publishing a file makes its name visible in its directory.\<close>

definition note_name :: "pystr \<Rightarrow> pystr list option \<Rightarrow> pystr list option" where
  "note_name name listing =
     (case listing of None \<Rightarrow> Some [name] | Some names \<Rightarrow> Some (if name \<in> set names then names else names @ [name]))"

definition put_file :: "pystr \<Rightarrow> bytes \<Rightarrow> run_directory \<Rightarrow> run_directory" where
  "put_file path payload dir =
     dir\<lparr>rd_run := (rd_run dir)(path \<mapsto> RegularFile payload),
         rd_event_names :=
           (if prefix event_directory_prefix path
            then note_name (drop (length event_directory_prefix) path) (rd_event_names dir)
            else rd_event_names dir)\<rparr>"

definition put_action :: "pystr \<Rightarrow> bytes \<Rightarrow> unit store_action" where
  "put_action path payload = a_update (\<lambda>s. s\<lparr>es_disk := put_file path payload (es_disk s)\<rparr>)"

text \<open>The next answer of the operating system.\<close>

definition ask_disk :: "disk_answers \<Rightarrow> publication_outcome store_action" where
  "ask_disk disk =
     a_bind (a_get es_barriers) (\<lambda>n.
     a_bind (a_update (\<lambda>s. s\<lparr>es_barriers := n + 1\<rparr>)) (\<lambda>_. a_return (disk n)))"

text \<open>The barriers after the canonical name holds the bytes.\<close>

definition settle :: "publication_outcome \<Rightarrow> 'a \<Rightarrow> 'a store_action" where
  "settle outcome x = (if outcome = DURABLE then a_return x else a_raise PublicationUncertain)"

text \<open>\<open>os.replace\<close> fails on a directory and replaces any other node.\<close>

definition publish_atomically :: "disk_answers \<Rightarrow> pystr \<Rightarrow> bytes \<Rightarrow> unit store_action" where
  "publish_atomically disk path payload =
     a_bind (a_get (\<lambda>s. rd_run (es_disk s) path)) (\<lambda>node.
     a_bind (ask_disk disk) (\<lambda>outcome.
     if outcome = NOT_PUBLISHED \<or> node = Some (UnsafeNode BlockedPath) \<or> node = Some (UnsafeNode DirectoryNode)
     then a_raise StatePublicationFailure
     else a_bind (put_action path payload) (\<lambda>_. settle outcome ())))"

text \<open>
  \<open>os.link\<close> is the atomic absence test. An existing file must hold the same bytes, which then are
  confirmed.
\<close>

definition publish_exclusively :: "disk_answers \<Rightarrow> pystr \<Rightarrow> bytes \<Rightarrow> exclusive_outcome store_action" where
  "publish_exclusively disk path payload =
     a_bind (a_get (\<lambda>s. rd_run (es_disk s) path)) (\<lambda>node.
     a_bind (ask_disk disk) (\<lambda>outcome.
     if outcome = NOT_PUBLISHED then a_raise StatePublicationFailure
     else (case node of
             None \<Rightarrow> a_bind (put_action path payload) (\<lambda>_. settle outcome CREATED)
           | Some (RegularFile existing) \<Rightarrow>
               if length existing > MAX_ARTIFACT_BYTES \<or> existing \<noteq> payload then a_raise ExclusivePublicationConflict
               else settle outcome IDENTICAL_EXISTS
           | Some (UnsafeNode BlockedPath) \<Rightarrow> a_raise StatePublicationFailure
           | Some (UnsafeNode _) \<Rightarrow> a_raise ExclusivePublicationConflict)))"

record redacted_write =
  rw_byte_count :: nat
  rw_findings :: "redaction_finding list"
  rw_exclusive_outcome :: "exclusive_outcome option"
  rw_sha256 :: pystr

definition write_redacted_artifact ::
  "pyenv \<Rightarrow> disk_answers \<Rightarrow> pystr \<Rightarrow> pystr \<Rightarrow> bool \<Rightarrow> bool \<Rightarrow> redacted_write store_action" where
  "write_redacted_artifact E disk path content exclusive refuse_redaction =
     a_bind (a_get (\<lambda>s. rd_run (es_disk s) path)) (\<lambda>node.
     a_raise_if (node = Some (UnsafeNode SymbolicLink)) StateRootRefused
     (let (redacted, findings) = redact_text E content in
      a_raise_if (refuse_redaction \<and> (findings \<noteq> [] \<or> redacted \<noteq> content)) StatePublicationFailure
      (a_bind (a_pure (from_option (lifecycle_refusal PyValueError) (encode_strict redacted))) (\<lambda>payload.
       a_raise_if (length payload > MAX_ARTIFACT_BYTES) StatePublicationFailure
       (a_bind (if exclusive then a_bind (publish_exclusively disk path payload) (\<lambda>made. a_return (Some made))
                else a_bind (publish_atomically disk path payload) (\<lambda>_. a_return None)) (\<lambda>outcome.
        a_return \<lparr>rw_byte_count = length payload, rw_findings = findings,
                  rw_exclusive_outcome = outcome, rw_sha256 = sha256 E payload\<rparr>))))))"

text \<open>\<open>_write\<close> of a strict document: its integrity bytes, decoded, are the text \<open>dumps document\<close>.\<close>

definition write_document :: "pyenv \<Rightarrow> disk_answers \<Rightarrow> pystr \<Rightarrow> json \<Rightarrow> bool \<Rightarrow> redacted_write store_action" where
  "write_document E disk path document exclusive = write_redacted_artifact E disk path (dumps document) exclusive True"

definition conflict_as :: "lifecycle_error \<Rightarrow> store_error \<Rightarrow> store_error" where
  "conflict_as refusal e = (if e = ExclusivePublicationConflict then lifecycle_refusal refusal else e)"

definition publish_evidence ::
  "pyenv \<Rightarrow> disk_answers \<Rightarrow> pystr \<Rightarrow> pystr \<Rightarrow> bool \<Rightarrow> evidence_reference store_action" where
  "publish_evidence E disk path content structural =
     (case (classify_run_evidence_path E path, match_operation_path path) of
        (Some kind, Some _) \<Rightarrow>
          a_bind (a_except (conflict_as OperationRecordConflict)
                    (write_redacted_artifact E disk path content True structural)) (\<lambda>w.
          a_pure (from_option (lifecycle_refusal PyValueError)
            (validate_reference E
               \<lparr>er_kind = kind, er_root = ROOT_RUN, er_path = path, er_sha256 = rw_sha256 w,
                er_byte_count = int (rw_byte_count w)\<rparr>)))
      | _ \<Rightarrow> a_raise (lifecycle_refusal OperationRecordInvalid))"

definition publish_witness :: "pyenv \<Rightarrow> disk_answers \<Rightarrow> json \<Rightarrow> unit store_action" where
  "publish_witness E disk document =
     a_bind (write_document E disk PUBLICATION_WITNESS_FILE_NAME document False) (\<lambda>_.
     a_update (\<lambda>s. s\<lparr>es_witness := Some (integrity_bytes document)\<rparr>))"

definition publish_event :: "pyenv \<Rightarrow> disk_answers \<Rightarrow> pystr \<Rightarrow> json \<Rightarrow> unit store_action" where
  "publish_event E disk name document =
     a_bind (a_except (conflict_as EventConflict) (write_document E disk (event_path name) document True)) (\<lambda>w.
     a_raise_if (rw_exclusive_outcome w = Some IDENTICAL_EXISTS) (lifecycle_refusal EventConflict)
     (a_update (\<lambda>s. s\<lparr>es_names := es_names s @ [name]\<rparr>)))"

definition publish_projection :: "pyenv \<Rightarrow> disk_answers \<Rightarrow> json \<Rightarrow> unit store_action" where
  "publish_projection E disk document =
     a_bind (write_document E disk STATE_FILE_NAME document False) (\<lambda>_. a_return ())"

section \<open>Verification under the hold\<close>

definition read_named_or_none :: "tree \<Rightarrow> pystr \<Rightarrow> bytes option" where
  "read_named_or_none files name =
     (case read_named files name MAX_LIFECYCLE_DOCUMENT_BYTES True of Inl _ \<Rightarrow> Some [] | Inr found \<Rightarrow> found)"

text \<open>The second argument of the source's \<open>check_tip\<close>, the tip's digest, is not used by its body.\<close>

definition check_tip :: "int \<Rightarrow> unit store_action" where
  "check_tip sequence =
     a_bind (a_get (\<lambda>s. s)) (\<lambda>s.
     let witness = read_named_or_none (rd_run (es_disk s)) PUBLICATION_WITNESS_FILE_NAME in
     a_bind (a_pure (load_result
               (rbind (from_option (Lifecycle EventChainBroken) (rd_event_names (es_disk s))) bounded_event_names)))
       (\<lambda>named.
        let names = map (\<lambda>(_, _, name). name) named in
        a_raise_if (names \<noteq> es_names s \<or> int (length names) \<noteq> sequence \<or> witness \<noteq> es_witness s)
          (lifecycle_refusal EventChainBroken) (a_return ())))"

definition confirm_durable ::
  "pyenv \<Rightarrow> disk_answers \<Rightarrow> evidence_root \<Rightarrow> pystr \<Rightarrow> pystr \<Rightarrow> nat \<Rightarrow> unit store_action" where
  "confirm_durable E disk root path expected_sha256 ceiling =
     a_bind (a_get (\<lambda>s. if root = ROOT_RUN then rd_run (es_disk s) else rd_root (es_disk s))) (\<lambda>base.
     a_bind (a_pure (load_result (read_relative base path ceiling False))) (\<lambda>found.
     a_raise_if (map_option (sha256 E) found \<noteq> Some expected_sha256) (Load EvidenceUnavailable)
     (a_bind (ask_disk disk) (\<lambda>outcome. settle outcome ()))))"

definition unavailable_as :: "load_error \<Rightarrow> store_error \<Rightarrow> store_error" where
  "unavailable_as refusal e = (if e = Load EvidenceUnavailable then Load refusal else e)"

definition confirm_event :: "pyenv \<Rightarrow> disk_answers \<Rightarrow> pystr \<Rightarrow> pystr \<Rightarrow> unit store_action" where
  "confirm_event E disk name sha =
     a_except (unavailable_as (Lifecycle EventChainBroken))
       (confirm_durable E disk ROOT_RUN (event_path name) sha MAX_LIFECYCLE_DOCUMENT_BYTES)"

definition confirm_witness :: "pyenv \<Rightarrow> disk_answers \<Rightarrow> pystr \<Rightarrow> unit store_action" where
  "confirm_witness E disk sha =
     a_except (unavailable_as (Lifecycle EventChainBroken))
       (confirm_durable E disk ROOT_RUN PUBLICATION_WITNESS_FILE_NAME sha MAX_LIFECYCLE_DOCUMENT_BYTES)"

definition confirm_references :: "pyenv \<Rightarrow> disk_answers \<Rightarrow> evidence_reference list \<Rightarrow> unit store_action" where
  "confirm_references E disk references =
     a_each (\<lambda>r. a_except (unavailable_as (reference_refusal r))
               (confirm_durable E disk (er_root r) (er_path r) (er_sha256 r) (reference_ceiling r))) references"

fun verified_artifacts ::
  "pyenv \<Rightarrow> wire \<Rightarrow> run_directory \<Rightarrow> operation_pins \<Rightarrow> evidence_reference list \<Rightarrow>
     load_error + (evidence_reference \<times> operation_artifact) list" where
  "verified_artifacts E W dir pins [] = Inr []"
| "verified_artifacts E W dir pins (r # rs) =
     rbind (verify_reference E W dir pins r) (\<lambda>artifact.
     rbind (verified_artifacts E W dir pins rs) (\<lambda>artifacts.
     Inr (case artifact of None \<Rightarrow> artifacts | Some a \<Rightarrow> (r, a) # artifacts)))"

definition verify_references ::
  "pyenv \<Rightarrow> wire \<Rightarrow> evidence_reference list \<Rightarrow> (evidence_reference \<times> operation_artifact) list store_action" where
  "verify_references E W references =
     a_bind (a_get (\<lambda>s. s)) (\<lambda>s.
     a_pure (load_result (verified_artifacts E W (es_disk s) (es_pins s) references)))"

text \<open>\<open>confirm_all\<close> of the relied-upon dependency set of a verified load.\<close>

definition chain_entry_name :: "chain_entry \<Rightarrow> lifecycle_error + pystr" where
  "chain_entry_name entry = event_file_name (ce_sequence entry) (ce_event_type entry)"

definition confirm_entries :: "pyenv \<Rightarrow> disk_answers \<Rightarrow> chain_entry list \<Rightarrow> unit store_action" where
  "confirm_entries E disk entries =
     a_each (\<lambda>entry.
       a_bind (a_pure (lifecycle_result (chain_entry_name entry))) (\<lambda>name.
       a_bind (confirm_event E disk name (ce_sha256 entry)) (\<lambda>_.
       confirm_references E disk (ce_references entry)))) entries"

definition confirm_all :: "pyenv \<Rightarrow> disk_answers \<Rightarrow> lifecycle_view \<Rightarrow> unit store_action" where
  "confirm_all E disk view =
     a_bind (confirm_entries E disk (lv_chain view)) (\<lambda>_.
     a_bind (a_get es_witness) (\<lambda>witness.
     a_bind (a_pure (from_option (lifecycle_refusal PyAssertionError) witness)) (\<lambda>w.
     a_bind (confirm_witness E disk (sha256 E w)) (\<lambda>_.
     if lv_projection view = CURRENT then
       a_bind (a_pure (from_option (lifecycle_refusal PyValueError)
                (projection_bytes (fs_record (lv_state view)) (fs_sequence (lv_state view))
                   (fs_event_id (lv_state view))))) (\<lambda>current.
       a_except (unavailable_as (Lifecycle EventChainBroken))
         (confirm_durable E disk ROOT_RUN STATE_FILE_NAME (sha256 E current) MAX_STATE_BYTES))
     else a_return ()))))"

end
