(* ===== verification/Event_Payloads.thy ===== *)
theory Event_Payloads
  imports Lifecycle_Replay
begin

text \<open>
  How the payloads of body events are computed from the record before and after a change
  (\<open>record_updates\<close>, \<open>_record_updated_payload\<close>, \<open>_transition_payload\<close> and \<open>_planned_payload\<close> of
  \<open>milestone_runner/events.py\<close>). A payload model that its constructor refuses is \<open>PyValueError\<close>.
\<close>

section \<open>The typed difference of two records\<close>

text \<open>The source compares the JSON values of the fields, which determine the fields.\<close>

definition fixed_fields_equal :: "run_record \<Rightarrow> run_record \<Rightarrow> bool" where
  "fixed_fields_equal before after \<longleftrightarrow>
     rr_schema_version before = rr_schema_version after \<and> rr_run_id before = rr_run_id after
     \<and> rr_repository_root before = rr_repository_root after
     \<and> rr_repository_identity before = rr_repository_identity after
     \<and> rr_expected_branch before = rr_expected_branch after \<and> rr_baseline_sha before = rr_baseline_sha after
     \<and> rr_contract_sha256 before = rr_contract_sha256 after \<and> rr_created_at before = rr_created_at after
     \<and> rr_policy_digest before = rr_policy_digest after \<and> rr_stage_start_id before = rr_stage_start_id after
     \<and> rr_reconciliations before = rr_reconciliations after \<and> rr_reopenings before = rr_reopenings after
     \<and> rr_review_recoveries before = rr_review_recoveries after \<and> rr_revalidations before = rr_revalidations after"

definition field_changed :: "run_record \<Rightarrow> run_record \<Rightarrow> record_field \<Rightarrow> bool" where
  "field_changed before after f =
     (case f of
        F_UPDATED_AT \<Rightarrow> rr_updated_at before \<noteq> rr_updated_at after
      | F_STOP_REASON \<Rightarrow> rr_stop_reason before \<noteq> rr_stop_reason after
      | F_CURRENT_MILESTONE \<Rightarrow> rr_current_milestone before \<noteq> rr_current_milestone after
      | F_COMPLETED_MILESTONES \<Rightarrow> rr_completed_milestones before \<noteq> rr_completed_milestones after
      | F_MILESTONE_CHECKPOINTS \<Rightarrow> rr_milestone_checkpoints before \<noteq> rr_milestone_checkpoints after
      | F_CHANGED_PATHS \<Rightarrow> rr_changed_paths before \<noteq> rr_changed_paths after
      | F_PROVIDER_RUNS \<Rightarrow> rr_provider_runs before \<noteq> rr_provider_runs after
      | F_VERIFICATION_RESULTS \<Rightarrow> rr_verification_results before \<noteq> rr_verification_results after
      | F_BLOCKING_FINDINGS \<Rightarrow> rr_blocking_findings before \<noteq> rr_blocking_findings after
      | F_DEFERRED_FINDINGS \<Rightarrow> rr_deferred_findings before \<noteq> rr_deferred_findings after
      | F_APPROVALS \<Rightarrow> rr_approvals before \<noteq> rr_approvals after
      | F_REVIEW_ATTEMPTS \<Rightarrow> rr_review_attempts before \<noteq> rr_review_attempts after
      | F_SUCCESSFUL_REVIEW_ROUNDS \<Rightarrow> rr_successful_review_rounds before \<noteq> rr_successful_review_rounds after
      | F_PROVIDER_FAILURE_COUNT \<Rightarrow> rr_provider_failure_count before \<noteq> rr_provider_failure_count after
      | F_CORRECTION_ROUND \<Rightarrow> rr_correction_round before \<noteq> rr_correction_round after
      | F_CLOSURE_ROUND \<Rightarrow> rr_closure_round before \<noteq> rr_closure_round after)"

definition changed_fields :: "run_record \<Rightarrow> run_record \<Rightarrow> record_field list" where
  "changed_fields before after = sort_key record_field_value (filter (field_changed before after) all_record_field)"

definition given_if :: "bool \<Rightarrow> 'a \<Rightarrow> 'a option" where
  "given_if c x = (if c then Some x else None)"

definition updates_between :: "run_record \<Rightarrow> run_record \<Rightarrow> record_updates" where
  "updates_between before after =
     (let changed = field_changed before after in
      \<lparr>ru_assigned = changed_fields before after,
       ru_updated_at = given_if (changed F_UPDATED_AT) (rr_updated_at after),
       ru_stop_reason = (if changed F_STOP_REASON then rr_stop_reason after else None),
       ru_current_milestone = (if changed F_CURRENT_MILESTONE then rr_current_milestone after else None),
       ru_completed_milestones = given_if (changed F_COMPLETED_MILESTONES) (rr_completed_milestones after),
       ru_milestone_checkpoints = given_if (changed F_MILESTONE_CHECKPOINTS) (rr_milestone_checkpoints after),
       ru_changed_paths = given_if (changed F_CHANGED_PATHS) (rr_changed_paths after),
       ru_provider_runs = given_if (changed F_PROVIDER_RUNS) (rr_provider_runs after),
       ru_verification_results = given_if (changed F_VERIFICATION_RESULTS) (rr_verification_results after),
       ru_blocking_findings = given_if (changed F_BLOCKING_FINDINGS) (rr_blocking_findings after),
       ru_deferred_findings = given_if (changed F_DEFERRED_FINDINGS) (rr_deferred_findings after),
       ru_approvals = given_if (changed F_APPROVALS) (rr_approvals after),
       ru_review_attempts = given_if (changed F_REVIEW_ATTEMPTS) (rr_review_attempts after),
       ru_successful_review_rounds =
         given_if (changed F_SUCCESSFUL_REVIEW_ROUNDS) (rr_successful_review_rounds after),
       ru_provider_failure_count = given_if (changed F_PROVIDER_FAILURE_COUNT) (rr_provider_failure_count after),
       ru_correction_round = given_if (changed F_CORRECTION_ROUND) (rr_correction_round after),
       ru_closure_round = given_if (changed F_CLOSURE_ROUND) (rr_closure_round after)\<rparr>)"

definition record_updates_of :: "pyenv \<Rightarrow> run_record \<Rightarrow> run_record \<Rightarrow> lifecycle_error + record_updates" where
  "record_updates_of E before after =
     raise_if (\<not> fixed_fields_equal before after) PyValueError
     (from_option PyValueError (validate_updates E (updates_between before after)))"

section \<open>Payload builders\<close>

text \<open>The constructor of a payload model.\<close>

definition constructed :: "pyenv \<Rightarrow> constituent_payload \<Rightarrow> lifecycle_error + constituent_payload" where
  "constructed E p = raise_if (\<not> validate_constituent_payload E p) PyValueError (Inr p)"

definition record_updated_payload ::
  "pyenv \<Rightarrow> run_record \<Rightarrow> run_record \<Rightarrow> evidence_reference list \<Rightarrow> lifecycle_error + constituent_payload" where
  "record_updated_payload E before after evidence =
     raise_if (rr_workflow_state before \<noteq> rr_workflow_state after) EventConflict
     (rbind (record_updates_of E before after) (\<lambda>updates.
      constructed E (RunRecordUpdated
        \<lparr>up_before_body_digest = body_digest E before, up_after_body_digest = body_digest E after,
         up_updates = updates, up_evidence = evidence\<rparr>)))"

definition without_stop_reason :: "record_updates \<Rightarrow> record_updates" where
  "without_stop_reason updates =
     updates\<lparr>ru_assigned := filter (\<lambda>f. f \<noteq> F_STOP_REASON) (ru_assigned updates), ru_stop_reason := None\<rparr>"

definition transition_payload ::
  "pyenv \<Rightarrow> run_record \<Rightarrow> run_record \<Rightarrow> pystr option \<Rightarrow> lifecycle_error + constituent_payload" where
  "transition_payload E before after operation =
     rbind (record_updates_of E before after) (\<lambda>updates.
     rbind (from_option PyValueError (validate_updates E (without_stop_reason updates))) (\<lambda>carried.
     constructed E (StateTransitioned
       \<lparr>tr_before_body_digest = body_digest E before, tr_after_body_digest = body_digest E after,
        tr_from_state = rr_workflow_state before, tr_to_state = rr_workflow_state after,
        tr_stop_reason = rr_stop_reason after, tr_updates = carried, tr_operation_id = operation\<rparr>)))"

record planned_change =
  pc_event_type :: lifecycle_event_type
  pc_before :: run_record
  pc_after :: run_record
  pc_recorded_at :: pystr
  pc_operation_id :: "pystr option"
  pc_evidence :: "evidence_reference list"
  pc_ledger_entry :: "recovery_ledger_entry option"
  pc_accepted_result_sha256 :: "pystr option"
  pc_rejection_source :: "rejection_source option"
  pc_verdict_sha256 :: "pystr option"
  pc_diagnostic :: "pystr option"

definition ledger_payload ::
  "pyenv \<Rightarrow> planned_change \<Rightarrow> recovery_ledger_entry \<Rightarrow> lifecycle_error + constituent_payload" where
  "ledger_payload E change entry =
     (let ledger = ledger_by_command (rl_command entry) in
      constructed E (RecoveryLedgerAppended
        \<lparr>la_before_body_digest = body_digest E (pc_before change),
         la_after_body_digest = body_digest E (pc_after change),
         la_ledger = ledger, la_entry = entry,
         la_previous_length = int (length (ledger_of ledger (pc_before change))),
         la_entry_digest = integrity_digest E (dump_ledger_entry entry)\<rparr>))"

definition accepted_payload ::
  "pyenv \<Rightarrow> planned_change \<Rightarrow> pystr \<Rightarrow> lifecycle_error + constituent_payload" where
  "accepted_payload E change operation =
     rbind (from_option EventConflict (pc_accepted_result_sha256 change)) (\<lambda>sha.
     rbind (record_updates_of E (pc_before change) (pc_after change)) (\<lambda>updates.
     constructed E (OperationResultAccepted
       \<lparr>ra_before_body_digest = body_digest E (pc_before change),
        ra_after_body_digest = body_digest E (pc_after change), ra_operation_id = operation,
        ra_accepted_result_sha256 = sha, ra_updates = updates\<rparr>)))"

definition rejected_payload ::
  "pyenv \<Rightarrow> planned_change \<Rightarrow> pystr \<Rightarrow> lifecycle_error + constituent_payload" where
  "rejected_payload E change operation =
     rbind (from_option EventConflict (pc_rejection_source change)) (\<lambda>source.
     rbind (record_updates_of E (pc_before change) (pc_after change)) (\<lambda>updates.
     constructed E (OperationResultRejected
       \<lparr>rj_before_body_digest = body_digest E (pc_before change),
        rj_after_body_digest = body_digest E (pc_after change), rj_operation_id = operation,
        rj_source = source, rj_verdict_sha256 = pc_verdict_sha256 change,
        rj_diagnostic = pc_diagnostic change, rj_updates = updates\<rparr>)))"

definition planned_payload :: "pyenv \<Rightarrow> planned_change \<Rightarrow> lifecycle_error + constituent_payload" where
  "planned_payload E change =
     (case pc_event_type change of
        STATE_TRANSITIONED \<Rightarrow> transition_payload E (pc_before change) (pc_after change) (pc_operation_id change)
      | RUN_RECORD_UPDATED \<Rightarrow> record_updated_payload E (pc_before change) (pc_after change) (pc_evidence change)
      | RECOVERY_LEDGER_APPENDED \<Rightarrow>
          rbind (from_option EventConflict (pc_ledger_entry change)) (ledger_payload E change)
      | kind \<Rightarrow>
          rbind (from_option EventConflict (pc_operation_id change)) (\<lambda>operation.
          case kind of
            OPERATION_RESULT_ACCEPTED \<Rightarrow> accepted_payload E change operation
          | OPERATION_RESULT_REJECTED \<Rightarrow> rejected_payload E change operation
          | _ \<Rightarrow> Inl EventConflict))"

section \<open>The difference applied to the record before gives the record after\<close>

lemma changed_fields_set [simp]: "set (changed_fields before after) = {f. field_changed before after f}"
  by (auto simp: changed_fields_def all_record_field_complete)

lemma changed_fields_distinct: "distinct (changed_fields before after)"
proof -
  have "distinct all_record_field" by (simp add: all_record_field_def)
  then show ?thesis by (simp add: changed_fields_def distinct_filter)
qed

text \<open>The value of a field, as what assigning it changes.\<close>

definition copy_field :: "run_record \<Rightarrow> record_field \<Rightarrow> run_record \<Rightarrow> run_record" where
  "copy_field after f r =
     (case f of
        F_UPDATED_AT \<Rightarrow> r\<lparr>rr_updated_at := rr_updated_at after\<rparr>
      | F_STOP_REASON \<Rightarrow> r\<lparr>rr_stop_reason := rr_stop_reason after\<rparr>
      | F_CURRENT_MILESTONE \<Rightarrow> r\<lparr>rr_current_milestone := rr_current_milestone after\<rparr>
      | F_COMPLETED_MILESTONES \<Rightarrow> r\<lparr>rr_completed_milestones := rr_completed_milestones after\<rparr>
      | F_MILESTONE_CHECKPOINTS \<Rightarrow> r\<lparr>rr_milestone_checkpoints := rr_milestone_checkpoints after\<rparr>
      | F_CHANGED_PATHS \<Rightarrow> r\<lparr>rr_changed_paths := rr_changed_paths after\<rparr>
      | F_PROVIDER_RUNS \<Rightarrow> r\<lparr>rr_provider_runs := rr_provider_runs after\<rparr>
      | F_VERIFICATION_RESULTS \<Rightarrow> r\<lparr>rr_verification_results := rr_verification_results after\<rparr>
      | F_BLOCKING_FINDINGS \<Rightarrow> r\<lparr>rr_blocking_findings := rr_blocking_findings after\<rparr>
      | F_DEFERRED_FINDINGS \<Rightarrow> r\<lparr>rr_deferred_findings := rr_deferred_findings after\<rparr>
      | F_APPROVALS \<Rightarrow> r\<lparr>rr_approvals := rr_approvals after\<rparr>
      | F_REVIEW_ATTEMPTS \<Rightarrow> r\<lparr>rr_review_attempts := rr_review_attempts after\<rparr>
      | F_SUCCESSFUL_REVIEW_ROUNDS \<Rightarrow> r\<lparr>rr_successful_review_rounds := rr_successful_review_rounds after\<rparr>
      | F_PROVIDER_FAILURE_COUNT \<Rightarrow> r\<lparr>rr_provider_failure_count := rr_provider_failure_count after\<rparr>
      | F_CORRECTION_ROUND \<Rightarrow> r\<lparr>rr_correction_round := rr_correction_round after\<rparr>
      | F_CLOSURE_ROUND \<Rightarrow> r\<lparr>rr_closure_round := rr_closure_round after\<rparr>)"

lemma assign_changed:
  "field_changed before after f \<Longrightarrow> assign_field (updates_between before after) f r = Some (copy_field after f r)"
  by (cases f) (simp_all add: assign_field_def updates_between_def copy_field_def given_if_def Let_def)

lemma assign_changed_fields:
  "\<forall>f \<in> set fs. field_changed before after f \<Longrightarrow>
     assign_fields (updates_between before after) fs r = Some (fold (copy_field after) fs r)"
  by (induction fs arbitrary: r) (simp_all add: assign_changed)

lemma field_changed_copy:
  "field_changed (copy_field after f r) after g \<longleftrightarrow> g \<noteq> f \<and> field_changed r after g"
  by (cases f; cases g) (simp_all add: field_changed_def copy_field_def)

lemma field_changed_copies:
  "field_changed (fold (copy_field after) fs r) after g \<longleftrightarrow> g \<notin> set fs \<and> field_changed r after g"
  by (induction fs arbitrary: r) (auto simp: field_changed_copy)

lemma copy_fixed [simp]:
  "fixed_fields_equal (copy_field after f r) after \<longleftrightarrow> fixed_fields_equal r after"
  "rr_workflow_state (copy_field after f r) = rr_workflow_state r"
  by (cases f; simp add: fixed_fields_equal_def copy_field_def)+

lemma copies_fixed [simp]:
  "fixed_fields_equal (fold (copy_field after) fs r) after \<longleftrightarrow> fixed_fields_equal r after"
  "rr_workflow_state (fold (copy_field after) fs r) = rr_workflow_state r"
  by (induction fs arbitrary: r) simp_all

lemma record_equalI:
  assumes "fixed_fields_equal r s" and "\<And>f. \<not> field_changed r s f"
  shows "r\<lparr>rr_workflow_state := w\<rparr> = s\<lparr>rr_workflow_state := w\<rparr>"
proof -
  have c: "\<not> field_changed r s f" for f using assms(2) .
  show ?thesis
    using assms(1) c [of F_UPDATED_AT] c [of F_STOP_REASON] c [of F_CURRENT_MILESTONE] c [of F_COMPLETED_MILESTONES]
      c [of F_MILESTONE_CHECKPOINTS] c [of F_CHANGED_PATHS] c [of F_PROVIDER_RUNS] c [of F_VERIFICATION_RESULTS]
      c [of F_BLOCKING_FINDINGS] c [of F_DEFERRED_FINDINGS] c [of F_APPROVALS] c [of F_REVIEW_ATTEMPTS]
      c [of F_SUCCESSFUL_REVIEW_ROUNDS] c [of F_PROVIDER_FAILURE_COUNT] c [of F_CORRECTION_ROUND] c [of F_CLOSURE_ROUND]
    by (cases r; cases s) (simp add: fixed_fields_equal_def field_changed_def)
qed

lemma assign_difference:
  assumes "fixed_fields_equal before after"
  shows "\<exists>r. assign_fields (updates_between before after) (changed_fields before after) before = Some r
    \<and> r\<lparr>rr_workflow_state := w\<rparr> = after\<lparr>rr_workflow_state := w\<rparr>
    \<and> rr_workflow_state r = rr_workflow_state before"
proof -
  let ?r = "fold (copy_field after) (changed_fields before after) before"
  have "assign_fields (updates_between before after) (changed_fields before after) before = Some ?r"
    by (rule assign_changed_fields) simp
  moreover have "?r\<lparr>rr_workflow_state := w\<rparr> = after\<lparr>rr_workflow_state := w\<rparr>"
    by (rule record_equalI) (use assms in \<open>simp_all add: field_changed_copies\<close>)
  ultimately show ?thesis by simp
qed

lemma record_updates_of_Inr:
  "record_updates_of E before after = Inr u \<Longrightarrow> fixed_fields_equal before after \<and> u = updates_between before after"
  by (auto simp: record_updates_of_def validate_updates_def Let_def)

lemma updates_round_trip:
  assumes "record_updates_of E before after = Inr u" and "validate_run_record E after = Some after"
    and "rr_workflow_state before = rr_workflow_state after"
  shows "apply_updates E before u None = Inr after"
proof -
  note u = record_updates_of_Inr [OF assms(1)]
  obtain r where r: "assign_fields (updates_between before after) (changed_fields before after) before = Some r"
    "r\<lparr>rr_workflow_state := rr_workflow_state r\<rparr> = after\<lparr>rr_workflow_state := rr_workflow_state r\<rparr>"
    "rr_workflow_state r = rr_workflow_state before"
    using assign_difference [OF conjunct1 [OF u], of "rr_workflow_state before"] by auto
  have "r = after" using r(2,3) assms(3) by (metis (no_types, lifting) run_record.surjective run_record.update_convs(8))
  moreover have "ru_assigned (updates_between before after) = changed_fields before after"
    by (simp add: updates_between_def Let_def)
  ultimately show ?thesis using r(1) u assms(2) by (simp add: apply_updates_def)
qed

lemma assign_without_stop:
  "f \<noteq> F_STOP_REASON \<Longrightarrow> assign_field (without_stop_reason u) f r = assign_field u f r"
  by (cases f) (simp_all add: assign_field_def without_stop_reason_def)

lemma assign_without_stop_fields:
  "F_STOP_REASON \<notin> set fs \<Longrightarrow> assign_fields (without_stop_reason u) fs r = assign_fields u fs r"
  by (induction fs arbitrary: r) (auto simp: assign_without_stop cong: bind_option_cong)

lemma transition_round_trip:
  assumes "record_updates_of E before after = Inr u" and "validate_run_record E after = Some after"
  shows "apply_updates E before (without_stop_reason u) (Some (rr_workflow_state after, rr_stop_reason after)) = Inr after"
proof -
  note u = record_updates_of_Inr [OF assms(1)]
  let ?fs = "filter (\<lambda>f. f \<noteq> F_STOP_REASON) (changed_fields before after)"
  let ?r = "fold (copy_field after) ?fs before"
  have assigned: "ru_assigned (updates_between before after) = changed_fields before after"
    by (simp add: updates_between_def Let_def)
  have "assign_fields (updates_between before after) ?fs before = Some ?r"
    by (rule assign_changed_fields) simp
  then have a: "assign_fields (without_stop_reason u) (ru_assigned (without_stop_reason u)) before = Some ?r"
    using u assign_without_stop_fields [of ?fs "updates_between before after" before] assigned
    by (simp add: without_stop_reason_def)
  have c: "copy_field after F_STOP_REASON ?r = ?r\<lparr>rr_stop_reason := rr_stop_reason after\<rparr>"
    by (simp add: copy_field_def)
  have "(copy_field after F_STOP_REASON ?r)\<lparr>rr_workflow_state := rr_workflow_state after\<rparr>
      = after\<lparr>rr_workflow_state := rr_workflow_state after\<rparr>"
    by (rule record_equalI) (use u in \<open>auto simp: field_changed_copy field_changed_copies\<close>)
  then have "?r\<lparr>rr_workflow_state := rr_workflow_state after, rr_stop_reason := rr_stop_reason after\<rparr> = after"
    unfolding c by (cases ?r) simp
  then show ?thesis using a assms(2) by (simp add: apply_updates_def)
qed

end
