(* ===== verification/Event_Store.thy ===== *)
theory Event_Store
  imports Event_Storage Event_Payloads
begin

text \<open>
  The append protocol (\<open>EventStore\<close> of \<open>milestone_runner/events.py\<close>, section 7.2): an envelope is
  recognised as a duplicate, or folded onto the verified state before anything is published; then its
  references are verified and confirmed, and the witness, the event and the projection are published
  in this order. The wrappers build the payload of each event type. \<open>declare_mutation\<close> folds a whole declared
  mutation before its declaration is published.
\<close>

section \<open>Small helpers\<close>

text \<open>A Python subscript: negative indices count from the end.\<close>

definition py_nth :: "'a list \<Rightarrow> int \<Rightarrow> 'a option" where
  "py_nth xs i =
     (if 0 \<le> i then nth_opt xs (nat i)
      else if 0 \<le> int (length xs) + i then nth_opt xs (nat (int (length xs) + i))
      else None)"

definition require_state :: "fold_state store_action" where
  "require_state = a_bind (a_get es_state) (\<lambda>state. a_pure (from_option (lifecycle_refusal EventChainBroken) state))"

definition tip_sequence :: "fold_state option \<Rightarrow> int" where
  "tip_sequence state = (case state of None \<Rightarrow> 0 | Some s \<Rightarrow> fs_sequence s)"

record appended_event =
  ev_event :: lifecycle_event
  ev_sha256 :: pystr
  ev_duplicate :: bool

definition has_open_mutation :: "fold_state option \<Rightarrow> bool" where
  "has_open_mutation state = (case state of None \<Rightarrow> False | Some s \<Rightarrow> fs_open_mutation s \<noteq> None)"

section \<open>Publication of an envelope\<close>

definition envelope_of ::
  "pyenv \<Rightarrow> event_store \<Rightarrow> lifecycle_event_type \<Rightarrow> event_payload \<Rightarrow> pystr \<Rightarrow> pystr option \<Rightarrow> int option \<Rightarrow>
     lifecycle_error + lifecycle_event" where
  "envelope_of E s event_type payload recorded_at mutation_id mutation_index =
     (let sequence = tip_sequence (es_state s) + 1 in
      raise_if (sequence > MAX_EVENT_SEQUENCE) EventConflict
      (build_event E (es_pins s) sequence event_type recorded_at payload
         (map_option fs_event_sha256 (es_state s)) mutation_id mutation_index))"

definition confirm_established :: "pyenv \<Rightarrow> wire \<Rightarrow> disk_answers \<Rightarrow> unit store_action" where
  "confirm_established E W disk =
     a_bind require_state (\<lambda>state.
     a_bind (check_tip (fs_sequence state)) (\<lambda>_.
     a_bind (a_get es_witness) (\<lambda>raw.
     a_bind (a_pure (lifecycle_result
               (case raw of None \<Rightarrow> Inr None | Some b \<Rightarrow> rbind (parse_witness_bytes W b) (\<lambda>w. Inr (Some w))))) (\<lambda>witness.
     a_bind (a_pure (lifecycle_result (check_witness state witness))) (\<lambda>_.
     a_bind (a_pure (from_option (lifecycle_refusal PyAssertionError) raw)) (\<lambda>b.
     a_bind (confirm_witness E disk (sha256 E b)) (\<lambda>_.
     a_bind (a_get es_entries) (\<lambda>entries. confirm_entries E disk entries))))))))"

definition check_artifacts ::
  "fold_state \<Rightarrow> (evidence_reference \<times> operation_artifact) list \<Rightarrow> lifecycle_error + unit" where
  "check_artifacts folded artifacts = rfold (\<lambda>_ (r, a). check_operation_artifact folded r a) () artifacts"

definition projection_document :: "fold_state \<Rightarrow> json option" where
  "projection_document s = event_backed_state_document (fs_record s) (fs_sequence s) (fs_event_id s)"

definition publish_folded ::
  "pyenv \<Rightarrow> wire \<Rightarrow> disk_answers \<Rightarrow> lifecycle_event \<Rightarrow> pystr \<Rightarrow> fold_state \<Rightarrow> unit store_action" where
  "publish_folded E W disk envelope digest folded =
     (let references = payload_references (le_payload envelope) in
      a_bind (verify_references E W references) (\<lambda>artifacts.
      a_bind (a_pure (lifecycle_result (check_artifacts folded artifacts))) (\<lambda>_.
      a_bind (confirm_references E disk references) (\<lambda>_.
      a_bind (a_pure (from_option (lifecycle_refusal PyValueError) (witness_for envelope digest))) (\<lambda>witness.
      a_bind (publish_witness E disk (dump_witness witness)) (\<lambda>_.
      a_bind (a_pure (lifecycle_result (event_file_name (le_sequence envelope) (le_event_type envelope)))) (\<lambda>name.
      a_bind (publish_event E disk name (dump_event envelope)) (\<lambda>_.
      a_bind (a_update (\<lambda>s. s\<lparr>es_entries := es_entries s @ [entry_of envelope digest],
                                es_state := Some folded\<rparr>)) (\<lambda>_.
      a_bind (a_pure (from_option (lifecycle_refusal PyValueError) (projection_document folded)))
        (publish_projection E disk))))))))))"

definition publish_envelope ::
  "pyenv \<Rightarrow> wire \<Rightarrow> disk_answers \<Rightarrow> bool \<Rightarrow> lifecycle_event \<Rightarrow> appended_event store_action" where
  "publish_envelope E W disk authority envelope =
     (let digest = sha256 E (canonical_bytes envelope) in
      a_bind (a_get (\<lambda>s. s)) (\<lambda>s.
      let tip = tip_sequence (es_state s) in
      if le_sequence envelope \<le> tip then
        a_bind (a_pure (from_option (lifecycle_refusal PyIndexError)
                 (py_nth (es_entries s) (le_sequence envelope - 1)))) (\<lambda>existing.
        a_raise_if (ce_sha256 existing \<noteq> digest) (lifecycle_refusal EventConflict)
        (a_bind (confirm_established E W disk) (\<lambda>_.
         a_return \<lparr>ev_event = envelope, ev_sha256 = digest, ev_duplicate = True\<rparr>)))
      else
        a_raise_if (le_event_type envelope = STATE_TRANSITIONED \<and> \<not> authority) (lifecycle_refusal EventConflict)
        (a_raise_if (le_sequence envelope \<noteq> tip + 1) (lifecycle_refusal EventConflict)
        (a_bind (a_pure (lifecycle_result (fold_step E (Some (es_pins s)) (es_state s) (envelope, digest)))) (\<lambda>folded.
         a_bind (case es_state s of None \<Rightarrow> a_return () | Some state \<Rightarrow> check_tip (fs_sequence state)) (\<lambda>_.
         a_bind (publish_folded E W disk envelope digest folded) (\<lambda>_.
         a_return \<lparr>ev_event = envelope, ev_sha256 = digest, ev_duplicate = False\<rparr>)))))))"

definition append_event ::
  "pyenv \<Rightarrow> wire \<Rightarrow> disk_answers \<Rightarrow> lifecycle_event_type \<Rightarrow> event_payload \<Rightarrow> pystr \<Rightarrow> appended_event store_action" where
  "append_event E W disk event_type payload recorded_at =
     a_bind (a_get (\<lambda>s. s)) (\<lambda>s.
     a_raise_if (has_open_mutation (es_state s)) (lifecycle_refusal ApplicationMutationIncomplete)
     (a_bind (a_pure (lifecycle_result (envelope_of E s event_type payload recorded_at None None)))
       (publish_envelope E W disk False)))"

text \<open>A payload model refuses its fields before the event is built.\<close>

definition append_payload ::
  "pyenv \<Rightarrow> wire \<Rightarrow> disk_answers \<Rightarrow> event_payload \<Rightarrow> pystr \<Rightarrow> appended_event store_action" where
  "append_payload E W disk payload recorded_at =
     a_raise_if (\<not> validate_payload E payload) (lifecycle_refusal PyValueError)
     (append_event E W disk (payload_event_type payload) payload recorded_at)"

section \<open>Genesis and bootstrap\<close>

definition initialize :: "pyenv \<Rightarrow> wire \<Rightarrow> disk_answers \<Rightarrow> run_record \<Rightarrow> pystr \<Rightarrow> appended_event store_action" where
  "initialize E W disk record recorded_at = append_payload E W disk (RunInitialized record) recorded_at"

definition baseline ::
  "pyenv \<Rightarrow> wire \<Rightarrow> disk_answers \<Rightarrow> run_record \<Rightarrow> pystr \<Rightarrow> int \<Rightarrow> pystr \<Rightarrow> appended_event store_action" where
  "baseline E W disk record source_sha256 source_byte_count recorded_at =
     append_payload E W disk
       (RunBaselined \<lparr>rb_record = record, rb_source_schema_version = 2, rb_source_sha256 = source_sha256,
                      rb_source_byte_count = source_byte_count\<rparr>) recorded_at"

definition bind_stage_start ::
  "pyenv \<Rightarrow> wire \<Rightarrow> disk_answers \<Rightarrow> evidence_reference \<Rightarrow> evidence_reference \<Rightarrow> evidence_reference \<Rightarrow> pystr \<Rightarrow>
     appended_event store_action" where
  "bind_stage_start E W disk authorization binding witness recorded_at =
     append_payload E W disk
       (StageStartBound \<lparr>ss_authorization = authorization, ss_binding = binding, ss_witness = witness\<rparr>) recorded_at"

definition record_policy ::
  "pyenv \<Rightarrow> wire \<Rightarrow> disk_answers \<Rightarrow> evidence_reference \<Rightarrow> pystr \<Rightarrow> appended_event store_action" where
  "record_policy E W disk policy recorded_at = append_payload E W disk (PolicyPublished policy) recorded_at"

section \<open>Body events\<close>

definition require_current :: "pyenv \<Rightarrow> run_record \<Rightarrow> unit store_action" where
  "require_current E before =
     a_bind require_state (\<lambda>state.
     a_raise_if (body_digest E before \<noteq> fs_body_digest state) (lifecycle_refusal EventConflict) (a_return ()))"

definition record_update ::
  "pyenv \<Rightarrow> wire \<Rightarrow> disk_answers \<Rightarrow> run_record \<Rightarrow> run_record \<Rightarrow> pystr \<Rightarrow> evidence_reference list \<Rightarrow>
     appended_event store_action" where
  "record_update E W disk before after recorded_at evidence =
     a_bind (require_current E before) (\<lambda>_.
     a_bind (a_pure (lifecycle_result (record_updated_payload E before after evidence))) (\<lambda>payload.
     append_event E W disk RUN_RECORD_UPDATED (Constituent payload) recorded_at))"

text \<open>\<open>_publish_constituent\<close>: a constituent is emitted exactly as its declaration fixed it.\<close>

definition publish_constituent ::
  "pyenv \<Rightarrow> wire \<Rightarrow> disk_answers \<Rightarrow> bool \<Rightarrow> mutation_declaration \<Rightarrow> int \<Rightarrow> constituent_payload \<Rightarrow>
     appended_event store_action" where
  "publish_constituent E W disk authority declaration index payload =
     a_bind (a_pure (from_option (lifecycle_refusal PyIndexError) (py_nth (md_constituents declaration) (index - 1))))
       (\<lambda>constituent.
        a_raise_if (dump_constituent_payload payload \<noteq> dump_constituent_payload (mc_payload constituent))
          (lifecycle_refusal EventConflict)
        (a_bind (a_get (\<lambda>s. s)) (\<lambda>s.
         a_bind (a_pure (lifecycle_result
                   (envelope_of E s (mc_event_type constituent) (Constituent (mc_payload constituent))
                      (mc_recorded_at constituent) (Some (md_mutation_id declaration)) (Some index))))
           (publish_envelope E W disk authority))))"

definition append_transition ::
  "pyenv \<Rightarrow> wire \<Rightarrow> disk_answers \<Rightarrow> run_record \<Rightarrow> run_record \<Rightarrow> pystr \<Rightarrow> pystr option \<Rightarrow>
     (mutation_declaration \<times> int) option \<Rightarrow> appended_event store_action" where
  "append_transition E W disk before after recorded_at operation constituent =
     a_bind (a_pure (lifecycle_result (transition_payload E before after operation))) (\<lambda>payload.
     case constituent of
       Some (declaration, index) \<Rightarrow> publish_constituent E W disk True declaration index payload
     | None \<Rightarrow>
         a_bind (require_current E before) (\<lambda>_.
         a_bind (a_get (\<lambda>s. s)) (\<lambda>s.
         a_raise_if (has_open_mutation (es_state s)) (lifecycle_refusal ApplicationMutationIncomplete)
         (a_bind (a_pure (lifecycle_result
                   (envelope_of E s STATE_TRANSITIONED (Constituent payload) recorded_at None None)))
           (publish_envelope E W disk True)))))"

definition append_constituent ::
  "pyenv \<Rightarrow> wire \<Rightarrow> disk_answers \<Rightarrow> mutation_declaration \<Rightarrow> int \<Rightarrow> appended_event store_action" where
  "append_constituent E W disk declaration index =
     a_bind (a_pure (from_option (lifecycle_refusal PyIndexError) (py_nth (md_constituents declaration) (index - 1))))
       (\<lambda>constituent.
        a_raise_if (mc_event_type constituent = STATE_TRANSITIONED) (lifecycle_refusal EventConflict)
        (publish_constituent E W disk False declaration index (mc_payload constituent)))"

section \<open>Declaring a mutation\<close>

definition constituent_in_range :: "manifest_constituent \<Rightarrow> bool" where
  "constituent_in_range c \<longleftrightarrow>
     1 \<le> mc_index c \<and> 2 \<le> mc_sequence c \<and> mc_sequence c \<le> MAX_EVENT_SEQUENCE
     \<and> 2 \<le> mc_state_version c \<and> mc_state_version c \<le> MAX_EVENT_SEQUENCE"

text \<open>
  The loop over the planned changes, from the change at \<open>index\<close> on; \<open>previous\<close> is the record after
  the change before it.
\<close>

fun plan_constituents ::
  "pyenv \<Rightarrow> fold_state \<Rightarrow> int \<Rightarrow> run_record option \<Rightarrow> planned_change list \<Rightarrow>
     lifecycle_error + manifest_constituent list" where
  "plan_constituents E state index previous [] = Inr []"
| "plan_constituents E state index previous (change # changes) =
     raise_if
       (case previous of None \<Rightarrow> False | Some r \<Rightarrow> body_digest E (pc_before change) \<noteq> body_digest E r) EventConflict
     (rbind (planned_payload E change) (\<lambda>payload.
      let sequence = fs_sequence state + 1 + index;
          constituent =
            \<lparr>mc_index = index, mc_event_type = pc_event_type change, mc_sequence = sequence,
             mc_state_version = sequence, mc_recorded_at = pc_recorded_at change,
             mc_before_body_digest = before_body_digest payload,
             mc_after_body_digest = after_body_digest payload, mc_payload = payload\<rparr> in
      raise_if (\<not> constituent_in_range constituent) PyValueError
      (rbind (plan_constituents E state (index + 1) (Some (pc_after change)) changes) (\<lambda>rest.
       Inr (constituent # rest)))))"

definition intended_of :: "int \<times> state_transitioned \<Rightarrow> intended_transition" where
  "intended_of ip =
     \<lparr>it_index = fst ip, it_from_state = tr_from_state (snd ip), it_to_state = tr_to_state (snd ip),
      it_stop_reason = tr_stop_reason (snd ip), it_updates = tr_updates (snd ip)\<rparr>"

definition planned_declaration ::
  "pyenv \<Rightarrow> fold_state \<Rightarrow> mutation_action \<Rightarrow> mutation_command \<Rightarrow> pystr \<Rightarrow> mutation_evidence \<Rightarrow> planned_change list \<Rightarrow>
     manifest_constituent list \<Rightarrow> mutation_declaration" where
  "planned_declaration E state action command initiated_at evidence changes constituents =
     (let document =
        \<lparr>md_schema_version = LIFECYCLE_SCHEMA_VERSION, md_mutation_id = [], md_pins = fs_pins state,
         md_prior_event_id = fs_event_id state, md_prior_sequence = fs_sequence state,
         md_prior_state_version = fs_sequence state, md_prior_body_digest = fs_body_digest state,
         md_action = action, md_command = command, md_initiated_at = initiated_at, md_evidence = evidence,
         md_constituents = constituents, md_transitions = map intended_of (declared_transitions constituents),
         md_final_body_digest = body_digest E (pc_after (last changes))\<rparr> in
      document\<lparr>md_mutation_id := mutation_identity E document\<rparr>)"

text \<open>The simulation: every constituent is built and folded on top of the declaration.\<close>

definition simulate_constituent ::
  "pyenv \<Rightarrow> operation_pins \<Rightarrow> pystr \<Rightarrow> fold_state \<Rightarrow> manifest_constituent \<Rightarrow> lifecycle_error + fold_state" where
  "simulate_constituent E pins mutation_id simulated c =
     rbind (build_event E pins (mc_sequence c) (mc_event_type c) (mc_recorded_at c) (Constituent (mc_payload c))
              (Some (fs_event_sha256 simulated)) (Some mutation_id) (Some (mc_index c))) (\<lambda>candidate.
     fold_step E (Some pins) (Some simulated) (candidate, sha256 E (canonical_bytes candidate)))"

definition simulate_declaration ::
  "pyenv \<Rightarrow> operation_pins \<Rightarrow> fold_state \<Rightarrow> lifecycle_event \<Rightarrow> mutation_declaration \<Rightarrow> lifecycle_error + fold_state" where
  "simulate_declaration E pins state envelope declaration =
     rbind (fold_step E (Some pins) (Some state) (envelope, sha256 E (canonical_bytes envelope))) (\<lambda>declared.
     rfold (simulate_constituent E pins (md_mutation_id declaration)) declared (md_constituents declaration))"

definition declare_mutation ::
  "pyenv \<Rightarrow> wire \<Rightarrow> disk_answers \<Rightarrow> mutation_action \<Rightarrow> mutation_command \<Rightarrow> pystr \<Rightarrow> mutation_evidence \<Rightarrow>
     planned_change list \<Rightarrow> mutation_declaration store_action" where
  "declare_mutation E W disk action command initiated_at evidence changes =
     a_bind require_state (\<lambda>state.
     a_raise_if (fs_open_mutation state \<noteq> None) (lifecycle_refusal ApplicationMutationIncomplete)
     (a_raise_if (length changes < 2) (lifecycle_refusal EventConflict)
     (a_raise_if (body_digest E (pc_before (hd changes)) \<noteq> fs_body_digest state) (lifecycle_refusal EventConflict)
     (a_bind (a_pure (lifecycle_result (plan_constituents E state 1 None changes))) (\<lambda>constituents.
      let declaration = planned_declaration E state action command initiated_at evidence changes constituents in
      a_raise_if (\<not> validate_declaration_model E declaration) (lifecycle_refusal EventConflict)
      (a_bind (a_get (\<lambda>s. s)) (\<lambda>s.
       a_bind (a_pure (lifecycle_result
                 (envelope_of E s APPLICATION_MUTATION_DECLARED (ApplicationMutationDeclared declaration)
                    initiated_at None None))) (\<lambda>envelope.
       a_raise_if (length (canonical_bytes envelope) > MAX_LIFECYCLE_DOCUMENT_BYTES) (lifecycle_refusal EventConflict)
       (a_bind (a_pure (lifecycle_result (simulate_declaration E (es_pins s) state envelope declaration))) (\<lambda>_.
        a_bind (publish_envelope E W disk False envelope) (\<lambda>_. a_return declaration)))))))))))"

section \<open>The operation ladder\<close>

definition publish_operation_artifact ::
  "pyenv \<Rightarrow> disk_answers \<Rightarrow> pystr \<Rightarrow> operation_artifact \<Rightarrow> evidence_reference store_action" where
  "publish_operation_artifact E disk path artifact =
     a_raise_if (length (artifact_bytes artifact) > MAX_LIFECYCLE_DOCUMENT_BYTES)
       (lifecycle_refusal OperationRecordInvalid)
     (publish_evidence E disk path (dumps (dump_artifact artifact)) True)"

definition publish_operation_text :: "pyenv \<Rightarrow> disk_answers \<Rightarrow> pystr \<Rightarrow> pystr \<Rightarrow> evidence_reference store_action" where
  "publish_operation_text E disk path content = publish_evidence E disk path content False"

definition record_operation_request ::
  "pyenv \<Rightarrow> wire \<Rightarrow> disk_answers \<Rightarrow> request_created \<Rightarrow> pystr \<Rightarrow> appended_event option store_action" where
  "record_operation_request E W disk p recorded_at =
     a_bind require_state (\<lambda>state.
     case fs_operations state (qc_operation_id p) of
       Some existing \<Rightarrow>
         a_raise_if
           (op_request_sha256 existing \<noteq> er_sha256 (qc_request p) \<or> op_step existing \<noteq> qc_step p
            \<or> op_adapter existing \<noteq> qc_adapter p) (lifecycle_refusal OperationRecordConflict)
         (a_bind (confirm_established E W disk) (\<lambda>_.
          a_bind (confirm_references E disk [qc_request p]) (\<lambda>_. a_return None)))
     | None \<Rightarrow>
         a_bind (append_payload E W disk (OperationRequestCreated p) recorded_at) (\<lambda>e. a_return (Some e)))"

fun attempt_payload :: "lifecycle_event_type \<Rightarrow> attempt_evidence \<Rightarrow> event_payload option" where
  "attempt_payload OPERATION_DISPATCH_INTENT a = Some (OperationDispatchIntent a)"
| "attempt_payload OPERATION_DISPATCH_RECEIVED a = Some (OperationDispatchReceived a)"
| "attempt_payload OPERATION_PRE_SPAWN_FAILED a = Some (OperationPreSpawnFailed a)"
| "attempt_payload _ a = None"

definition record_operation_attempt_event ::
  "pyenv \<Rightarrow> wire \<Rightarrow> disk_answers \<Rightarrow> lifecycle_event_type \<Rightarrow> attempt_evidence \<Rightarrow> pystr \<Rightarrow> appended_event store_action" where
  "record_operation_attempt_event E W disk kind a recorded_at =
     a_bind (a_pure (from_option (lifecycle_refusal EventConflict) (attempt_payload kind a))) (\<lambda>payload.
     append_payload E W disk payload recorded_at)"

definition record_operation_result ::
  "pyenv \<Rightarrow> wire \<Rightarrow> disk_answers \<Rightarrow> result_received \<Rightarrow> pystr \<Rightarrow> appended_event store_action" where
  "record_operation_result E W disk p recorded_at = append_payload E W disk (OperationResultReceived p) recorded_at"

definition record_operation_validation ::
  "pyenv \<Rightarrow> wire \<Rightarrow> disk_answers \<Rightarrow> result_validated \<Rightarrow> pystr \<Rightarrow> appended_event store_action" where
  "record_operation_validation E W disk p recorded_at = append_payload E W disk (OperationResultValidated p) recorded_at"

end
