(* ===== verification/Redaction_Facts.thy ===== *)
theory Redaction_Facts
  imports Redaction
begin

text \<open>
  What the redactor guarantees. The backtracking matcher is sound and complete for the declarative meaning
  \<open>re_matches\<close> of its patterns; \<open>finditer\<close> covers every position at which a pattern matches, so that the secret
  part of every occurrence is collected; the resolution of overlapping spans keeps disjoint spans in order and
  drops a span only when its first character is inside one that starts before it or covers it; and the text
  between the chosen spans is kept as it was. The last section but one describes the eight recognised secrets in
  plain terms, without the pattern language, and shows that each is an occurrence of its row of the table.
\<close>

section \<open>The declarative meaning of a pattern\<close>

definition run_of :: "(nat \<Rightarrow> bool) \<Rightarrow> nat \<Rightarrow> pystr \<Rightarrow> bool" where
  "run_of P n xs \<longleftrightarrow> n \<le> length xs \<and> (\<forall>i < n. P (xs ! i))"

lemma run_of_takeWhile: "run_of P n xs \<longleftrightarrow> n \<le> length (takeWhile P xs)"
proof
  assume r: "run_of P n xs"
  show "n \<le> length (takeWhile P xs)"
  proof (rule ccontr)
    assume "\<not> n \<le> length (takeWhile P xs)"
    then have "length (takeWhile P xs) < n" by simp
    moreover from this r have "length (takeWhile P xs) < length xs" by (simp add: run_of_def)
    ultimately show False using r nth_length_takeWhile [of P xs] by (simp add: run_of_def)
  qed
next
  assume n: "n \<le> length (takeWhile P xs)"
  then have "P (xs ! i)" if "i < n" for i
    using that by (metis less_le_trans nth_mem set_takeWhileD takeWhile_nth)
  moreover have "n \<le> length xs" using n length_takeWhile_le [of P xs] by linarith
  ultimately show "run_of P n xs" by (simp add: run_of_def)
qed

inductive re_matches ::
  "pyenv \<Rightarrow> pystr \<Rightarrow> re_item list \<Rightarrow> nat \<Rightarrow> nat \<times> nat \<Rightarrow> nat \<Rightarrow> nat \<times> nat \<Rightarrow> bool" for E t where
  nothing: "re_matches E t [] p g p g"
| chars: "lo \<le> n \<Longrightarrow> n \<le> hi \<Longrightarrow> run_of P n (drop p t) \<Longrightarrow> re_matches E t items (p + n) g e h
    \<Longrightarrow> re_matches E t (Chars P lo hi # items) p g e h"
| alternative: "a \<in> set alternatives \<Longrightarrow> re_matches E t (a @ items) p g e h
    \<Longrightarrow> re_matches E t (Choice alternatives # items) p g e h"
| boundary: "word_boundary E t p \<Longrightarrow> re_matches E t items p g e h
    \<Longrightarrow> re_matches E t (Boundary # items) p g e h"
| group_start: "re_matches E t items p (p, snd g) e h \<Longrightarrow> re_matches E t (GroupStart # items) p g e h"
| group_end: "re_matches E t items p (fst g, p) e h \<Longrightarrow> re_matches E t (GroupEnd # items) p g e h"

lemma run_lengths: "n \<in> set (rev [lo ..< Suc (min hi k)]) \<longleftrightarrow> lo \<le> n \<and> n \<le> hi \<and> n \<le> k"
  by auto

lemma matcher_sound: "re_match E t items p g = Some (e, h) \<Longrightarrow> re_matches E t items p g e h"
proof (induction E t items p g rule: re_match.induct)
  case (2 E t P lo hi items p g)
  then obtain n where n: "n \<in> set (rev [lo ..< Suc (min hi (length (takeWhile P (drop p t))))])"
    and m: "re_match E t items (p + n) g = Some (e, h)"
    unfolding re_match.simps by (blast dest: first_some_Some)
  have "re_matches E t items (p + n) g e h" by (rule 2(1) [OF n m])
  then show ?case using n unfolding run_lengths by (intro chars) (auto simp: run_of_takeWhile)
next
  case (3 E t alternatives items p g)
  then obtain a where "a \<in> set alternatives" "re_match E t (a @ items) p g = Some (e, h)"
    by (auto dest!: first_some_Some)
  then show ?case using 3(1) by (intro alternative) auto
qed (auto intro: re_matches.intros split: if_splits)

lemma matcher_complete: "re_matches E t items p g e h \<Longrightarrow> re_match E t items p g \<noteq> None"
proof (induction rule: re_matches.induct)
  case (chars lo n hi P p items g e h)
  then have "n \<in> set (rev [lo ..< Suc (min hi (length (takeWhile P (drop p t))))])"
    unfolding run_lengths by (simp add: run_of_takeWhile)
  with chars.IH show ?case unfolding re_match.simps first_some_None by - (rule notI, drule bspec, assumption, erule notE, assumption)
qed auto

lemma matcher_correct: "re_match E t items p g = None \<longleftrightarrow> (\<nexists>e h. re_matches E t items p g e h)"
  using matcher_sound matcher_complete by (metis option.exhaust surj_pair)

lemma re_matches_le: "re_matches E t items p g e h \<Longrightarrow> p \<le> e"
  by (induction rule: re_matches.induct) auto

lemma re_matches_within: "re_matches E t items p g e h \<Longrightarrow> p \<le> length t \<Longrightarrow> e \<le> length t"
  by (induction rule: re_matches.induct) (auto simp: run_of_def)

lemma re_matches_append:
  "re_matches E t xs p g q k \<Longrightarrow> re_matches E t ys q k e h \<Longrightarrow> re_matches E t (xs @ ys) p g e h"
  by (induction rule: re_matches.induct) (auto intro: re_matches.intros)

lemma re_matches_split:
  "re_matches E t items p g e h \<Longrightarrow> items = xs @ ys \<Longrightarrow> \<exists>q k. re_matches E t xs p g q k \<and> re_matches E t ys q k e h"
proof (induction arbitrary: xs rule: re_matches.induct)
  case (alternative a alternatives items p g e h)
  show ?case
  proof (cases xs)
    case Nil
    then have "ys = Choice alternatives # items" using alternative.prems by simp
    then show ?thesis
      using Nil re_matches.alternative [OF alternative.hyps] re_matches.nothing by metis
  next
    case (Cons x xs')
    then obtain q k where "re_matches E t (a @ xs') p g q k" "re_matches E t ys q k e h"
      using alternative.IH [of "a @ xs'"] alternative.prems by auto
    then show ?thesis using Cons alternative by (auto intro: re_matches.intros)
  qed
qed (fastforce simp: Cons_eq_append_conv intro: re_matches.intros)+

inductive_cases group_start_match: "re_matches E t (GroupStart # items) p g e h"
inductive_cases group_end_match: "re_matches E t (GroupEnd # items) p g e h"
inductive_cases repetition_match: "re_matches E t (Chars P lo hi # items) p g e h"

lemma only_characters:
  "re_matches E t items p g e h \<Longrightarrow> list_all (\<lambda>i. case i of Chars _ _ _ \<Rightarrow> True | _ \<Rightarrow> False) items \<Longrightarrow> h = g"
  by (induction rule: re_matches.induct) auto

text \<open>The captured group of a repetition that takes at least one character.\<close>

lemma group_nonempty:
  assumes "re_matches E t (pre @ [GroupStart, Chars P lo hi, GroupEnd] @ post) p g e h" and "0 < lo"
    and "list_all (\<lambda>i. case i of Chars _ _ _ \<Rightarrow> True | _ \<Rightarrow> False) post"
  shows "fst h < snd h"
proof -
  obtain q k where "re_matches E t (GroupStart # Chars P lo hi # GroupEnd # post) q k e h"
    using re_matches_split [OF assms(1) refl] by auto
  then have "re_matches E t (Chars P lo hi # GroupEnd # post) q (q, snd k) e h" by (rule group_start_match)
  then obtain n where n: "lo \<le> n" "re_matches E t (GroupEnd # post) (q + n) (q, snd k) e h" by (rule repetition_match)
  from n(2) have "re_matches E t post (q + n) (q, q + n) e h" by (rule group_end_match) simp
  then show ?thesis using only_characters [OF _ assms(3)] n(1) assms(2) by fastforce
qed

section \<open>\<open>finditer\<close>\<close>

lemma finditer_sound:
  "(p, e, g) \<in> set (finditer E t items q) \<Longrightarrow> q \<le> p \<and> p \<le> length t \<and> re_match E t items p (0, 0) = Some (e, g)"
proof (induction E t items q rule: finditer.induct)
  case (1 E t items q)
  show ?case
    using 1(3) 1(1,2) by (subst (asm) finditer.simps) (force split: if_splits option.splits prod.splits)
qed

lemma finditer_covers:
  "re_match E t items p (0, 0) \<noteq> None \<Longrightarrow> q \<le> p \<Longrightarrow> p \<le> length t
     \<Longrightarrow> \<exists>b e g. (b, e, g) \<in> set (finditer E t items q) \<and> b \<le> p \<and> p < max e (b + 1)"
proof (induction E t items q rule: finditer.induct)
  case (1 E t items q)
  show ?case
  proof (cases "re_match E t items q (0, 0)")
    case None
    with 1(3-5) have "q + 1 \<le> p" by (cases "q = p") auto
    then show ?thesis
      using 1(1) [OF _ None] 1(3,5) None by (subst finditer.simps) auto
  next
    case (Some m)
    obtain e g where m: "m = (e, g)" by (cases m)
    show ?thesis
    proof (cases "p < max e (q + 1)")
      case True
      have "(q, e, g) \<in> set (finditer E t items q)"
        using Some m 1(4,5) by (subst finditer.simps) simp
      then show ?thesis using True 1(4) by blast
    next
      case False
      have "\<not> q > length t" "max e (q + 1) \<le> p" using 1(4,5) False by auto
      then have "\<exists>b e' h. (b, e', h) \<in> set (finditer E t items (max e (q + 1))) \<and> b \<le> p \<and> p < max e' (b + 1)"
        using 1(2) [OF _ Some m [symmetric]] 1(3,5) by blast
      moreover have "set (finditer E t items (max e (q + 1))) \<subseteq> set (finditer E t items q)"
        using Some m 1(4,5) by (subst (2) finditer.simps) auto
      ultimately show ?thesis by blast
    qed
  qed
qed

lemma needed_character:
  "re_matches E t items p g e h \<Longrightarrow> Chars P lo hi \<in> set items \<Longrightarrow> 0 < lo \<Longrightarrow> list_ex P (drop p t)"
proof (induction rule: re_matches.induct)
  case (chars lo' n hi' Q p items g e h)
  show ?case
  proof (cases "Chars P lo hi = Chars Q lo' hi'")
    case True
    then have "Q (drop p t ! 0)" "0 < length (drop p t)" using chars by (auto simp: run_of_def)
    then show ?thesis using True nth_mem [of 0 "drop p t"] unfolding list_ex_iff by blast
  next
    case False
    then have "list_ex P (drop (p + n) t)" using chars by auto
    then show ?thesis unfolding list_ex_iff by (metis add.commute drop_drop in_set_dropD)
  qed
qed auto

lemma finditer_none:
  assumes "Chars P lo hi \<in> set items" and "0 < lo" and "\<not> list_ex P (drop p t)"
  shows "finditer E t items p = []"
proof -
  have "(b, e, g) \<notin> set (finditer E t items p)" for b e g
  proof
    assume m: "(b, e, g) \<in> set (finditer E t items p)"
    then have "re_matches E t items b (0, 0) e g" and "p \<le> b" using finditer_sound matcher_sound by blast+
    then have "list_ex P (drop b t)" "drop b t = drop (b - p) (drop p t)" using needed_character assms by auto
    then show False using assms(3) unfolding list_ex_iff by (metis in_set_dropD)
  qed
  then show ?thesis by (cases "finditer E t items p") auto
qed

lemma mandatory_nonempty:
  "re_matches E t items p g e h \<Longrightarrow> Chars P lo hi \<in> set items \<Longrightarrow> 0 < lo \<Longrightarrow> p < e"
proof (induction rule: re_matches.induct)
  case (chars lo' n hi' Q p items g e h)
  then show ?case using re_matches_le [OF chars.hyps(4)] by (cases "Chars P lo hi = Chars Q lo' hi'") auto
qed auto

section \<open>Resolution\<close>

text \<open>Spans in order, none starting before the end of the one before it.\<close>

fun in_order :: "nat \<Rightarrow> span list \<Rightarrow> bool" where
  "in_order position [] = True"
| "in_order position ((s, e, _) # spans) = (position \<le> s \<and> s < e \<and> in_order e spans)"

definition span_ok :: "span \<Rightarrow> bool" where
  "span_ok s = (case s of (b, e, _) \<Rightarrow> b < e)"

lemma resolve_in_order: "list_all span_ok spans \<Longrightarrow> in_order position (resolve position spans)"
  by (induction position spans rule: resolve.induct) (auto simp: span_ok_def)

lemma resolve_subset: "set (resolve position spans) \<subseteq> set spans"
  by (induction position spans rule: resolve.induct) auto

text \<open>
  A span lies inside a chosen one, or its first character does and the chosen one starts before it: of the spans
  that start together the longest comes first.
\<close>

lemma resolve_covers:
  "sorted (map span_key spans) \<Longrightarrow> list_all span_ok spans \<Longrightarrow> (b, r, c) \<in> set spans \<Longrightarrow> position \<le> b
     \<Longrightarrow> \<exists>(s, e, _) \<in> set (resolve position spans). s \<le> b \<and> b < e \<and> (s < b \<or> r \<le> e)"
proof (induction position spans rule: resolve.induct)
  case (2 position s e priority name spans)
  have first: "s < b \<or> s = b \<and> r \<le> e" using 2(3,5) by (cases c) (auto simp: span_key_def less_eq_prod_def split: prod.splits dest!: bspec)
  show ?case
  proof (cases "s < position")
    case True
    then have "(b, r, c) \<in> set spans" using 2(5,6) by auto
    then show ?thesis using 2(1) [OF True] 2(3,4,6) True by simp
  next
    case False
    show ?thesis
    proof (cases "b < e")
      case True
      then show ?thesis using first False by auto
    next
      case ge: False
      then have "(b, r, c) \<in> set spans" using 2(4,5) by (auto simp: span_ok_def)
      then have "\<exists>(s, e, _) \<in> set (resolve e spans). s \<le> b \<and> b < e \<and> (s < b \<or> r \<le> e)"
        using 2(2) [OF False] 2(3,4) ge by simp
      then show ?thesis using False by auto
    qed
  qed
qed simp

lemma collected_in_key_order: "sorted (map span_key (collected_spans E t))"
  by (simp add: collected_spans_def)

lemma collected_ok: "list_all span_ok (collected_spans E t)"
  by (auto simp: collected_spans_def pattern_spans_def span_ok_def list_all_iff)

text \<open>Each collected span is the match, or the captured group, of a pattern of the table.\<close>

definition pattern_span :: "pyenv \<Rightarrow> pystr \<Rightarrow> secret_pattern \<Rightarrow> nat \<Rightarrow> nat \<Rightarrow> bool" where
  "pattern_span E t sp b e \<longleftrightarrow>
     (\<exists>p q g. p \<le> length t \<and> re_matches E t (sp_items sp) p (0, 0) q g
        \<and> (b, e) = (if sp_group sp = 0 then (p, q) else g))"

lemma collected_spans_match:
  assumes "(b, e, priority, name) \<in> set (collected_spans E t)"
  shows "\<exists>sp \<in> set PATTERNS. sp_name sp = name \<and> pattern_span E t sp b e \<and> b < e"
proof -
  obtain sp p q g where sp: "sp \<in> set PATTERNS" "sp_name sp = name" "(p, q, g) \<in> set (finditer E t (sp_items sp) 0)"
    "(b, e) = (if sp_group sp = 0 then (p, q) else g)" "b < e"
    using assms by (auto simp: collected_spans_def pattern_spans_def)
  then show ?thesis
    using finditer_sound [OF sp(3)] matcher_sound unfolding pattern_span_def by blast
qed

text \<open>Every pattern has a mandatory character, so it matches no empty span.\<close>

lemma pattern_mandatory:
  assumes "sp \<in> set PATTERNS"
  shows "\<exists>P lo hi. Chars P lo hi \<in> set (sp_items sp) \<and> 0 < lo"
proof -
  let ?mandatory = "list_ex (\<lambda>i. case i of Chars _ lo _ \<Rightarrow> 0 < lo | _ \<Rightarrow> False)"
  have "?mandatory aws_access_key_id \<and> ?mandatory github_token \<and> ?mandatory slack_token
      \<and> ?mandatory private_key_block \<and> ?mandatory bearer_token \<and> ?mandatory json_web_token
      \<and> ?mandatory credential_assignment \<and> ?mandatory url_userinfo"
    by (simp add: aws_access_key_id_def github_token_def slack_token_def private_key_block_def
        bearer_token_def json_web_token_def credential_assignment_def url_userinfo_def text_items_def lit_def)
  then have "?mandatory (sp_items sp)" using assms by (auto simp: PATTERNS_def)
  then obtain item where item: "item \<in> set (sp_items sp)" "case item of Chars _ lo _ \<Rightarrow> 0 < lo | _ \<Rightarrow> False"
    by (auto simp: list_ex_iff)
  show ?thesis by (cases item; use item in auto)
qed

text \<open>The captured group of a match is not empty either.\<close>

lemma captured_nonempty:
  assumes "sp \<in> set PATTERNS" and "sp_group sp \<noteq> 0" and m: "re_matches E t (sp_items sp) p (0, 0) e g"
  shows "fst g < snd g"
proof -
  have "sp_items sp = credential_assignment \<or> sp_items sp = url_userinfo"
    using assms(1,2) by (auto simp: PATTERNS_def)
  then obtain pre P lo hi post where "sp_items sp = pre @ [GroupStart, Chars P lo hi, GroupEnd] @ post" "0 < lo"
    "list_all (\<lambda>i. case i of Chars _ _ _ \<Rightarrow> True | _ \<Rightarrow> False) post"
  proof (elim disjE)
    assume c: "sp_items sp = credential_assignment"
    have "sp_items sp = take 5 (sp_items sp) @ [GroupStart,
        Chars (\<lambda>c. is_alnum (fold_case c) \<or> one_of ''_./+=-'' c) 8 256, GroupEnd] @ [quote_mark]"
      by (simp add: c credential_assignment_def eval_nat_numeral)
    then show ?thesis by (rule that) (simp_all add: quote_mark_def)
  next
    assume c: "sp_items sp = url_userinfo"
    have "sp_items sp = take 8 (sp_items sp) @ [GroupStart,
        Chars (\<lambda>c. \<not> is_space c \<and> \<not> one_of ''/@'' c) 1 256, GroupEnd] @ text_items ''@''"
      by (simp add: c url_userinfo_def text_items_def lit_def eval_nat_numeral)
    then show ?thesis by (rule that) (simp_all add: text_items_def lit_def)
  qed
  then show ?thesis using group_nonempty m by metis
qed

text \<open>
  An occurrence of a pattern at \<open>p\<close> is dealt with: it lies in a match whose secret part, the match itself or its
  group, is inside a replaced span, or starts inside one that begins before it. (In the second case the span of the
  part is skipped, so what goes beyond the replaced span is kept.)
\<close>

definition occurrence_replaced :: "pyenv \<Rightarrow> pystr \<Rightarrow> span list \<Rightarrow> re_item list \<Rightarrow> nat \<Rightarrow> nat \<Rightarrow> bool" where
  "occurrence_replaced E t spans items n p \<longleftrightarrow>
     (\<exists>q e g b r. re_matches E t items q (0, 0) e g \<and> q \<le> p \<and> p < e
        \<and> (b, r) = (if n = 0 then (q, e) else g) \<and> b < r
        \<and> (\<exists>(s, x, _) \<in> set spans. s \<le> b \<and> b < x \<and> (s < b \<or> r \<le> x)))"

lemma match_replaced:
  assumes sp: "sp \<in> set PATTERNS" and m: "re_matches E t (sp_items sp) p (0, 0) e g"
  shows "occurrence_replaced E t (resolve 0 (collected_spans E t)) (sp_items sp) (sp_group sp) p"
proof -
  obtain P lo hi where c: "Chars P lo hi \<in> set (sp_items sp)" "0 < lo" using pattern_mandatory [OF sp] by blast
  have "list_ex P (drop p t)" by (rule needed_character [OF m c])
  then have p: "p \<le> length t" by (cases "p \<le> length t") auto
  obtain q e' h where f: "(q, e', h) \<in> set (finditer E t (sp_items sp) 0)" "q \<le> p" "p < max e' (q + 1)"
    using finditer_covers [OF matcher_complete [OF m]] p by blast
  have m': "re_matches E t (sp_items sp) q (0, 0) e' h" using finditer_sound [OF f(1)] matcher_sound by blast
  then have "q < e'" by (rule mandatory_nonempty [OF _ c])
  then have "p < e'" using f(2,3) by simp
  obtain b r where part: "(b, r) = (if sp_group sp = 0 then (q, e') else h)" by (metis surj_pair)
  have "b < r" using part \<open>q < e'\<close> captured_nonempty [OF sp _ m'] by (cases h) (auto split: if_splits)
  then have "(b, r, sp_priority sp, sp_name sp) \<in> set (pattern_spans E t sp)"
    unfolding pattern_spans_def using f(1) part by force
  then have "(b, r, sp_priority sp, sp_name sp) \<in> set (collected_spans E t)"
    using sp by (auto simp: collected_spans_def)
  from resolve_covers [OF collected_in_key_order collected_ok this, of 0]
  have "\<exists>(s, x, _) \<in> set (resolve 0 (collected_spans E t)). s \<le> b \<and> b < x \<and> (s < b \<or> r \<le> x)" by simp
  with m' f(2) \<open>p < e'\<close> part \<open>b < r\<close> show ?thesis
    unfolding occurrence_replaced_def by (intro exI [of _ q] exI [of _ e'] exI [of _ h] exI [of _ b] exI [of _ r] conjI)
qed

text \<open>The table, pattern by pattern with the group that is replaced.\<close>

lemma table_rows:
  "\<forall>(items, n) \<in> {(aws_access_key_id, 0), (github_token, 0), (slack_token, 0), (private_key_block, 0), (bearer_token, 0),
      (json_web_token, 0), (credential_assignment, 1), (url_userinfo, 1)}.
     \<exists>sp \<in> set PATTERNS. sp_items sp = items \<and> sp_group sp = n"
  by (simp add: PATTERNS_def)

lemma occurrence_of_row:
  assumes "(items, n) \<in> {(aws_access_key_id, 0), (github_token, 0), (slack_token, 0), (private_key_block, 0), (bearer_token, 0),
      (json_web_token, 0), (credential_assignment, 1), (url_userinfo, 1)}"
    and "re_matches E t items p (0, 0) e g"
  shows "occurrence_replaced E t (resolve 0 (collected_spans E t)) items n p"
  using bspec [OF table_rows assms(1)] match_replaced assms(2) by blast

section \<open>The recognised shapes\<close>

text \<open>
  The shapes of the table in plain terms: \<open>starts_at\<close> a text at a position, \<open>run_of\<close> characters of a class
  after it.
\<close>

definition starts_at :: "pystr \<Rightarrow> nat \<Rightarrow> string \<Rightarrow> bool" where
  "starts_at t p s \<longleftrightarrow> take (length s) (drop p t) = lit s"

definition aws_shape :: "pyenv \<Rightarrow> pystr \<Rightarrow> nat \<Rightarrow> bool" where
  "aws_shape E t p \<longleftrightarrow>
     (\<exists>s \<in> {''AKIA'', ''ASIA'', ''AGPA'', ''AIDA'', ''AROA'', ''ANPA'', ''ANVA'', ''ABIA'', ''ACCA''}. starts_at t p s)
     \<and> run_of (\<lambda>c. is_digit c \<or> is_upper c) 16 (drop (p + 4) t)
     \<and> word_boundary E t p \<and> word_boundary E t (p + 20)"

definition github_shape :: "pyenv \<Rightarrow> pystr \<Rightarrow> nat \<Rightarrow> bool" where
  "github_shape E t p \<longleftrightarrow>
     (\<exists>s \<in> {''ghp_'', ''gho_'', ''ghu_'', ''ghs_'', ''ghr_''}. starts_at t p s)
     \<and> (\<exists>n \<in> {16..255}. run_of is_alnum n (drop (p + 4) t) \<and> word_boundary E t p \<and> word_boundary E t (p + 4 + n))"

definition slack_shape :: "pyenv \<Rightarrow> pystr \<Rightarrow> nat \<Rightarrow> bool" where
  "slack_shape E t p \<longleftrightarrow>
     (\<exists>s \<in> {''xoxa-'', ''xoxb-'', ''xoxe-'', ''xoxo-'', ''xoxp-'', ''xoxr-'', ''xoxs-''}. starts_at t p s)
     \<and> (\<exists>n \<in> {10..255}. run_of (\<lambda>c. is_alnum c \<or> c = 45) n (drop (p + 5) t)
          \<and> word_boundary E t p \<and> word_boundary E t (p + 5 + n))"

definition private_key_shape :: "pystr \<Rightarrow> nat \<Rightarrow> bool" where
  "private_key_shape t p \<longleftrightarrow>
     starts_at t p ''-----BEGIN ''
     \<and> (\<exists>n \<le> 40. run_of (\<lambda>c. is_upper c \<or> c = 32) n (drop (p + 11) t) \<and> starts_at t (p + 11 + n) ''PRIVATE KEY-----'')"

definition bearer_shape :: "pyenv \<Rightarrow> pystr \<Rightarrow> nat \<Rightarrow> bool" where
  "bearer_shape E t p \<longleftrightarrow>
     (starts_at t p ''Bearer '' \<or> starts_at t p ''bearer '') \<and> word_boundary E t p
     \<and> run_of (\<lambda>c. is_alnum c \<or> one_of ''._~+/=-'' c) 16 (drop (p + 7) t)"

text \<open>A keyword in either case, \<open>:\<close> or \<open>=\<close> with blanks around it, and a value of at least eight characters.\<close>

definition starts_folded :: "pystr \<Rightarrow> nat \<Rightarrow> string \<Rightarrow> bool" where
  "starts_folded t p s \<longleftrightarrow> map fold_case (take (length s) (drop p t)) = lit s"

definition assignment_shape :: "pystr \<Rightarrow> nat \<Rightarrow> bool" where
  "assignment_shape t p \<longleftrightarrow>
     (\<exists>s \<in> {''secret'', ''password'', ''passwd'', ''token''}
          \<union> {k @ j @ ''key'' | k j. k \<in> {''api'', ''secret'', ''access''} \<and> j \<in> {'''', ''_'', ''-''}}.
        starts_folded t p s
        \<and> (\<exists>a \<in> {0..8}. \<exists>b \<in> {0..8}. \<exists>q \<in> {0..1}.
             run_of (\<lambda>c. c = 32 \<or> c = 9) a (drop (p + length s) t)
             \<and> run_of (\<lambda>c. c = 58 \<or> c = 61) 1 (drop (p + length s + a) t)
             \<and> run_of (\<lambda>c. c = 32 \<or> c = 9) b (drop (p + length s + a + 1) t)
             \<and> run_of (\<lambda>c. c = 34 \<or> c = 39) q (drop (p + length s + a + 1 + b) t)
             \<and> run_of (\<lambda>c. is_alnum (fold_case c) \<or> one_of ''_./+=-'' c) 8 (drop (p + length s + a + 1 + b + q) t)))"

definition userinfo_shape :: "pyenv \<Rightarrow> pystr \<Rightarrow> nat \<Rightarrow> bool" where
  "userinfo_shape E t p \<longleftrightarrow>
     word_boundary E t p \<and> p < length t \<and> is_lower (t ! p)
     \<and> (\<exists>a \<in> {1..31}. \<exists>b \<in> {1..128}. \<exists>c \<in> {1..256}.
          run_of (\<lambda>c. is_lower c \<or> is_digit c \<or> one_of ''+.-'' c) a (drop (p + 1) t)
          \<and> starts_at t (p + 1 + a) ''://''
          \<and> run_of (\<lambda>c. \<not> is_space c \<and> \<not> one_of ''/@:'' c) b (drop (p + 4 + a) t)
          \<and> starts_at t (p + 4 + a + b) '':''
          \<and> run_of (\<lambda>c. \<not> is_space c \<and> \<not> one_of ''/@'' c) c (drop (p + 5 + a + b) t)
          \<and> starts_at t (p + 5 + a + b + c) ''@'')"

definition jwt_shape :: "pyenv \<Rightarrow> pystr \<Rightarrow> nat \<Rightarrow> bool" where
  "jwt_shape E t p \<longleftrightarrow>
     word_boundary E t p \<and> starts_at t p ''eyJ''
     \<and> (\<exists>a \<in> {8..512}. \<exists>b \<in> {8..512}.
          run_of (\<lambda>c. is_alnum c \<or> c = 95 \<or> c = 45) a (drop (p + 3) t) \<and> starts_at t (p + 3 + a) ''.''
          \<and> run_of (\<lambda>c. is_alnum c \<or> c = 95 \<or> c = 45) b (drop (p + 4 + a) t) \<and> starts_at t (p + 4 + a + b) ''.''
          \<and> run_of (\<lambda>c. is_alnum c \<or> c = 95 \<or> c = 45) 8 (drop (p + 5 + a + b) t))"

text \<open>Each shape is an occurrence of its pattern.\<close>

fun takes_one :: "re_item \<Rightarrow> nat \<Rightarrow> bool" where
  "takes_one (Chars P lo hi) c = (lo = 1 \<and> hi = 1 \<and> P c)"
| "takes_one _ c = False"

lemma singles_match:
  "list_all2 takes_one xs s \<Longrightarrow> take (length s) (drop p t) = s \<Longrightarrow> re_matches E t items (p + length s) g e h
     \<Longrightarrow> re_matches E t (xs @ items) p g e h"
proof (induction xs s arbitrary: p rule: list_all2_induct)
  case (Cons x xs c s)
  obtain P where x: "x = Chars P 1 1" "P c" using Cons(1) by (cases x) auto
  have d: "drop p t = c # drop (Suc p) t" "take (length s) (drop (Suc p) t) = s"
    using Cons.prems(1) by (cases "drop p t"; simp add: drop_Suc tl_drop [symmetric])+
  then have "run_of P 1 (drop p t)" using x(2) by (simp add: run_of_def)
  moreover have "re_matches E t (xs @ items) (Suc p) g e h" using Cons.IH [OF d(2)] Cons.prems(2) by simp
  ultimately show ?case using chars [of 1 1 1 P p t E "xs @ items" g e h] x(1) by simp
qed simp

text \<open>A pattern that matches at a position, whatever was captured before.\<close>

definition matchable :: "pyenv \<Rightarrow> pystr \<Rightarrow> re_item list \<Rightarrow> nat \<Rightarrow> bool" where
  "matchable E t items p \<longleftrightarrow> (\<forall>g. \<exists>e h. re_matches E t items p g e h)"

lemma matchable_nothing: "matchable E t [] p"
  unfolding matchable_def by (intro allI exI) (rule re_matches.nothing)

lemma matchable_boundary: "word_boundary E t p \<Longrightarrow> matchable E t items p \<Longrightarrow> matchable E t (Boundary # items) p"
  unfolding matchable_def by (blast intro: boundary)

lemma matchable_run:
  "run_of P n (drop p t) \<Longrightarrow> n \<in> {lo..hi} \<Longrightarrow> matchable E t items (p + n) \<Longrightarrow> matchable E t (Chars P lo hi # items) p"
  unfolding matchable_def by (meson atLeastAtMost_iff chars)

lemma matchable_choice:
  "a \<in> set alternatives \<Longrightarrow> matchable E t (a @ items) p \<Longrightarrow> matchable E t (Choice alternatives # items) p"
  unfolding matchable_def by (blast intro: alternative)

lemma matchable_group: "matchable E t items p \<Longrightarrow> matchable E t (GroupStart # items) p"
  "matchable E t items p \<Longrightarrow> matchable E t (GroupEnd # items) p"
  unfolding matchable_def by (blast intro: group_start, blast intro: group_end)

lemma matchable_starts:
  "starts_at t p s \<Longrightarrow> list_all2 takes_one xs (lit s) \<Longrightarrow> matchable E t items (p + length s) \<Longrightarrow> matchable E t (xs @ items) p"
  unfolding matchable_def using singles_match [of xs "lit s" p t E items] by (metis length_map lit_def starts_at_def)

lemma matchable_text:
  "starts_at t p s \<Longrightarrow> matchable E t items (p + length s) \<Longrightarrow> matchable E t (text_items s @ items) p"
  by (rule matchable_starts) (simp_all add: text_items_def list_all2_map1 list_all2_same)

lemma matchable_text_then:
  "starts_at t p s \<Longrightarrow> matchable E t items q \<Longrightarrow> q = p + length s \<Longrightarrow> matchable E t (text_items s @ items) p"
  using matchable_text by simp

lemma matchable_occurs: "matchable E t items p \<Longrightarrow> \<exists>e g. re_matches E t items p (0, 0) e g"
  by (simp add: matchable_def)

lemma aws_occurs: "aws_shape E t p \<Longrightarrow> matchable E t aws_access_key_id p"
  unfolding aws_shape_def aws_access_key_id_def
proof (elim conjE bexE)
  fix s
  let ?prefixes = "[''AKIA'', ''ASIA'', ''AGPA'', ''AIDA'', ''AROA'', ''ANPA'', ''ANVA'', ''ABIA'', ''ACCA'']"
  assume s: "s \<in> {''AKIA'', ''ASIA'', ''AGPA'', ''AIDA'', ''AROA'', ''ANPA'', ''ANVA'', ''ABIA'', ''ACCA''}" "starts_at t p s"
    and r: "run_of (\<lambda>c. is_digit c \<or> is_upper c) 16 (drop (p + 4) t)"
    and b: "word_boundary E t p" "word_boundary E t (p + 20)"
  have l: "length s = 4" "text_items s \<in> set (map text_items ?prefixes)" using s(1) by auto
  have "matchable E t [Boundary] (p + 4 + 16)" using b(2) by (intro matchable_boundary matchable_nothing) (simp add: add.assoc)
  then have "matchable E t [Chars (\<lambda>c. is_digit c \<or> is_upper c) 16 16, Boundary] (p + length s)"
    unfolding l(1) by (intro matchable_run [OF r]) simp
  from matchable_boundary [OF b(1) matchable_choice [OF l(2) matchable_text [OF s(2) this]]]
  show "matchable E t [Boundary, Choice (map text_items ?prefixes), Chars (\<lambda>c. is_digit c \<or> is_upper c) 16 16, Boundary] p" .
qed

lemma github_occurs: "github_shape E t p \<Longrightarrow> matchable E t github_token p"
  unfolding github_shape_def
proof (elim conjE bexE)
  fix s n
  assume s: "s \<in> {''ghp_'', ''gho_'', ''ghu_'', ''ghs_'', ''ghr_''}" "starts_at t p s"
    and n: "n \<in> {16..255}" "run_of is_alnum n (drop (p + 4) t)"
    and b: "word_boundary E t p" "word_boundary E t (p + 4 + n)"
  have l: "length s = 4" using s(1) by auto
  have xs: "list_all2 takes_one (text_items ''gh'' @ [Chars (one_of ''pousr'') 1 1] @ text_items ''_'') (lit s)"
    using s(1) by (auto simp: text_items_def lit_def one_of_def)
  have "matchable E t [Chars is_alnum 16 255, Boundary] (p + length s)"
    unfolding l by (intro matchable_run [OF n(2,1)] matchable_boundary [OF b(2)] matchable_nothing)
  from matchable_boundary [OF b(1) matchable_starts [OF s(2) xs this]]
  show "matchable E t github_token p" by (simp add: github_token_def)
qed

lemma slack_occurs: "slack_shape E t p \<Longrightarrow> matchable E t slack_token p"
  unfolding slack_shape_def
proof (elim conjE bexE)
  fix s n
  assume s: "s \<in> {''xoxa-'', ''xoxb-'', ''xoxe-'', ''xoxo-'', ''xoxp-'', ''xoxr-'', ''xoxs-''}" "starts_at t p s"
    and n: "n \<in> {10..255}" "run_of (\<lambda>c. is_alnum c \<or> c = 45) n (drop (p + 5) t)"
    and b: "word_boundary E t p" "word_boundary E t (p + 5 + n)"
  have l: "length s = 5" using s(1) by auto
  have xs: "list_all2 takes_one (text_items ''xox'' @ [Chars (one_of ''abeoprs'') 1 1] @ text_items ''-'') (lit s)"
    using s(1) by (auto simp: text_items_def lit_def one_of_def)
  have "matchable E t [Chars (\<lambda>c. is_alnum c \<or> c = 45) 10 255, Boundary] (p + length s)"
    unfolding l by (intro matchable_run [OF n(2,1)] matchable_boundary [OF b(2)] matchable_nothing)
  from matchable_boundary [OF b(1) matchable_starts [OF s(2) xs this]]
  show "matchable E t slack_token p" by (simp add: slack_token_def)
qed

lemma private_key_occurs: "private_key_shape t p \<Longrightarrow> matchable E t private_key_block p"
  unfolding private_key_shape_def
proof (elim conjE exE)
  fix n
  assume s: "starts_at t p ''-----BEGIN ''" and n: "n \<le> 40" "run_of (\<lambda>c. is_upper c \<or> c = 32) n (drop (p + 11) t)"
    and k: "starts_at t (p + 11 + n) ''PRIVATE KEY-----''"
  have "matchable E t (text_items ''PRIVATE KEY-----'' @ []) (p + 11 + n)" by (rule matchable_text [OF k matchable_nothing])
  then have "matchable E t (Chars (\<lambda>c. is_upper c \<or> c = 32) 0 40 # text_items ''PRIVATE KEY-----'' @ []) (p + 11)"
    by (rule matchable_run [OF n(2), rotated]) (simp add: n(1))
  from matchable_text_then [OF s this] show "matchable E t private_key_block p" by (simp add: private_key_block_def)
qed

lemma bearer_occurs: "bearer_shape E t p \<Longrightarrow> matchable E t bearer_token p"
proof -
  assume "bearer_shape E t p"
  then obtain s where s: "s \<in> {''Bearer '', ''bearer ''}" "starts_at t p s" and b: "word_boundary E t p"
    and r: "run_of (\<lambda>c. is_alnum c \<or> one_of ''._~+/=-'' c) 16 (drop (p + 7) t)"
    unfolding bearer_shape_def by blast
  have l: "length s = 7" using s(1) by auto
  have xs: "list_all2 takes_one ([Chars (one_of ''Bb'') 1 1] @ text_items ''earer '') (lit s)"
    using s(1) by (auto simp: text_items_def lit_def one_of_def)
  have "matchable E t [Chars (\<lambda>c. is_alnum c \<or> one_of ''._~+/=-'' c) 16 512] (p + length s)"
    unfolding l by (intro matchable_run [OF r] matchable_nothing) simp
  from matchable_boundary [OF b matchable_starts [OF s(2) xs this]]
  show "matchable E t bearer_token p" by (simp add: bearer_token_def)
qed

lemma jwt_occurs: "jwt_shape E t p \<Longrightarrow> matchable E t json_web_token p"
proof -
  let ?safe = "\<lambda>c. is_alnum c \<or> c = 95 \<or> c = 45"
  have safe: "is_url_safe = ?safe" by (auto simp: is_url_safe_def one_of_def lit_def fun_eq_iff)
  assume "jwt_shape E t p"
  then obtain a b where w: "word_boundary E t p" and s: "starts_at t p ''eyJ''"
    and a: "a \<in> {8..512}" "run_of ?safe a (drop (p + 3) t)" "starts_at t (p + 3 + a) ''.''"
    and b: "b \<in> {8..512}" "run_of ?safe b (drop (p + 4 + a) t)" "starts_at t (p + 4 + a + b) ''.''"
    and c: "run_of ?safe 8 (drop (p + 5 + a + b) t)"
    unfolding jwt_shape_def by (elim conjE bexE) (rule that, assumption+)
  have "matchable E t [Chars ?safe 8 512] (p + 5 + a + b)"
    by (intro matchable_run [OF c] matchable_nothing) simp
  from matchable_text_then [OF b(3) this]
  have "matchable E t (text_items ''.'' @ [Chars ?safe 8 512]) (p + 4 + a + b)" by simp
  from matchable_text_then [OF a(3) matchable_run [OF b(2,1) this]]
  have "matchable E t (text_items ''.'' @ Chars ?safe 8 512 # text_items ''.'' @ [Chars ?safe 8 512]) (p + 3 + a)"
    by simp
  from matchable_text_then [OF s matchable_run [OF a(2,1) this]]
  have "matchable E t (text_items ''eyJ'' @ Chars ?safe 8 512 # text_items ''.'' @ Chars ?safe 8 512
      # text_items ''.'' @ [Chars ?safe 8 512]) p"
    by simp
  from matchable_boundary [OF w this] show "matchable E t json_web_token p"
    by (simp add: json_web_token_def safe)
qed

lemma starts_folded_append:
  "starts_folded t p (s @ u) \<Longrightarrow> starts_folded t p s \<and> starts_folded t (p + length s) u"
proof -
  assume "starts_folded t p (s @ u)"
  then have e: "map fold_case (take (length s + length u) (drop p t)) = lit s @ lit u" by (simp add: starts_folded_def lit_def)
  show ?thesis
    using arg_cong [OF e, of "take (length s)"] arg_cong [OF e, of "drop (length s)"]
    by (simp add: starts_folded_def take_map drop_map lit_def drop_take add.commute)
qed

lemma matchable_folded:
  "starts_folded t p s \<Longrightarrow> matchable E t items (p + length s) \<Longrightarrow> matchable E t (ci_items s @ items) p"
proof -
  assume s: "starts_folded t p s" and m: "matchable E t items (p + length s)"
  let ?u = "take (length s) (drop p t)"
  have l: "length ?u = length s" using arg_cong [OF s [unfolded starts_folded_def], of length] by (simp add: lit_def)
  then have u: "take (length ?u) (drop p t) = ?u" by simp
  have s': "list_all2 takes_one (ci_items s) ?u"
    unfolding ci_items_def s [unfolded starts_folded_def, symmetric] by (simp add: list_all2_map1 list_all2_same)
  show ?thesis
    unfolding matchable_def
  proof
    fix g
    obtain e h where "re_matches E t items (p + length ?u) g e h" using m unfolding matchable_def l by blast
    from singles_match [OF s' u this] show "\<exists>e h. re_matches E t (ci_items s @ items) p g e h" by blast
  qed
qed

lemma folded_joint: "starts_folded t p j \<Longrightarrow> j \<in> {'''', ''_'', ''-''} \<Longrightarrow> run_of (one_of ''_-'') (length j) (drop p t)"
  by (cases "drop p t") (auto simp: starts_folded_def run_of_def lit_def one_of_def fold_case_def is_upper_def split: if_splits)

lemma matchable_keyword:
  "starts_folded t p s \<Longrightarrow> s \<in> {''secret'', ''password'', ''passwd'', ''token''}
     \<Longrightarrow> matchable E t items (p + length s)
     \<Longrightarrow> matchable E t (hd credential_assignment # items) p"
  using matchable_folded [of t p s E items]
  unfolding credential_assignment_def list.sel by (intro matchable_choice [of "ci_items s"]) auto

lemma matchable_compound:
  assumes s: "starts_folded t p (k @ j @ ''key'')" and k: "k \<in> {''api'', ''secret'', ''access''}"
    and j: "j \<in> {'''', ''_'', ''-''}" and m: "matchable E t items (p + length (k @ j @ ''key''))"
  shows "matchable E t (hd credential_assignment # items) p"
proof -
  have f: "starts_folded t p k" "starts_folded t (p + length k) j" "starts_folded t (p + length k + length j) ''key''"
    using starts_folded_append s by blast+
  have "matchable E t items (p + length k + length j + length ''key'')" using m by (simp add: add.assoc)
  from matchable_folded [OF f(3) this]
  have "matchable E t (separator # ci_items ''key'' @ items) (p + length k)"
    unfolding separator_def by (intro matchable_run [OF folded_joint [OF f(2) j]]) (use j in auto)
  from matchable_folded [OF f(1) this] show ?thesis
    unfolding credential_assignment_def list.sel by (intro matchable_choice [of "ci_items k @ [separator] @ ci_items ''key''"]) (use k in auto)
qed

lemma assignment_occurs: "assignment_shape t p \<Longrightarrow> matchable E t credential_assignment p"
proof -
  let ?blank = "\<lambda>c::nat. c = 32 \<or> c = 9"
  have classes: "one_of [CHR '' '', CHR 0x09] = ?blank" "one_of '':='' = (\<lambda>c. c = 58 \<or> c = 61)"
    "one_of [CHR 0x22, CHR 0x27] = (\<lambda>c. c = 34 \<or> c = 39)" by (auto simp: one_of_def lit_def fun_eq_iff)
  assume "assignment_shape t p"
  then obtain s a b q where f: "starts_folded t p s"
    and s: "s \<in> {''secret'', ''password'', ''passwd'', ''token''}
      \<union> {k @ j @ ''key'' | k j. k \<in> {''api'', ''secret'', ''access''} \<and> j \<in> {'''', ''_'', ''-''}}"
    and n: "a \<in> {0..8}" "b \<in> {0..8}" "q \<in> {0..1}"
    and r: "run_of ?blank a (drop (p + length s) t)" "run_of (\<lambda>c. c = 58 \<or> c = 61) 1 (drop (p + length s + a) t)"
      "run_of ?blank b (drop (p + length s + a + 1) t)" "run_of (\<lambda>c. c = 34 \<or> c = 39) q (drop (p + length s + a + 1 + b) t)"
      "run_of (\<lambda>c. is_alnum (fold_case c) \<or> one_of ''_./+=-'' c) 8 (drop (p + length s + a + 1 + b + q) t)"
    unfolding assignment_shape_def by (elim bexE conjE) (rule that, assumption+)
  have "matchable E t [quote_mark] (p + length s + a + 1 + b + q + 8)"
    unfolding quote_mark_def by (intro matchable_run [of _ 0] matchable_nothing) (simp_all add: run_of_def)
  then have "matchable E t (tl credential_assignment) (p + length s)"
    unfolding credential_assignment_def list.sel blanks_def quote_mark_def classes
    by (intro matchable_run [OF r(1) n(1)] matchable_run [OF r(2)] matchable_run [OF r(3) n(2)] matchable_run [OF r(4) n(3)]
        matchable_run [OF r(5)] matchable_group) simp_all
  then have "matchable E t (hd credential_assignment # tl credential_assignment) p"
    using matchable_keyword [OF f] matchable_compound f s by blast
  then show ?thesis by (simp add: credential_assignment_def)
qed

lemma userinfo_occurs: "userinfo_shape E t p \<Longrightarrow> matchable E t url_userinfo p"
proof -
  let ?scheme = "\<lambda>c. is_lower c \<or> is_digit c \<or> one_of ''+.-'' c"
  let ?user = "\<lambda>c. \<not> is_space c \<and> \<not> one_of ''/@:'' c"
  let ?secret = "\<lambda>c. \<not> is_space c \<and> \<not> one_of ''/@'' c"
  let ?rest = "[GroupStart, Chars ?secret 1 256, GroupEnd] @ text_items ''@''"
  assume "userinfo_shape E t p"
  then obtain a b c where w: "word_boundary E t p" "p < length t" "is_lower (t ! p)"
    and a: "a \<in> {1..31}" "run_of ?scheme a (drop (p + 1) t)" "starts_at t (p + 1 + a) ''://''"
    and b: "b \<in> {1..128}" "run_of ?user b (drop (p + 4 + a) t)" "starts_at t (p + 4 + a + b) '':''"
    and c: "c \<in> {1..256}" "run_of ?secret c (drop (p + 5 + a + b) t)" "starts_at t (p + 5 + a + b + c) ''@''"
    unfolding userinfo_shape_def by (elim conjE bexE) (rule that, assumption+)
  have "matchable E t (text_items ''@'' @ []) (p + 5 + a + b + c)" by (rule matchable_text [OF c(3) matchable_nothing])
  from matchable_group(1) [OF matchable_run [OF c(2,1) matchable_group(2) [OF this]]]
  have "matchable E t ?rest (p + 5 + a + b)" by simp
  from matchable_text_then [OF b(3) this]
  have "matchable E t (text_items '':'' @ ?rest) (p + 4 + a + b)" by simp
  from matchable_text_then [OF a(3) matchable_run [OF b(2,1) this]]
  have "matchable E t (text_items ''://'' @ Chars ?user 1 128 # text_items '':'' @ ?rest) (p + 1 + a)"
    by simp
  from matchable_run [OF a(2,1) this]
  have "matchable E t (Chars ?scheme 1 31 # text_items ''://'' @ Chars ?user 1 128 # text_items '':'' @ ?rest) (p + 1)" .
  moreover have "run_of is_lower 1 (drop p t)" using w(2,3) by (simp add: run_of_def)
  ultimately have "matchable E t (Chars is_lower 1 1 # Chars ?scheme 1 31 # text_items ''://'' @ Chars ?user 1 128
      # text_items '':'' @ ?rest) p"
    by (intro matchable_run [of is_lower 1]) simp_all
  from matchable_boundary [OF w(1) this] show "matchable E t url_userinfo p" by (simp add: url_userinfo_def)
qed

text \<open>Every shape of the list is an occurrence of its row of the table, so it is replaced.\<close>

lemma shape_replaced:
  assumes "(shape, items, n) \<in> {(aws_shape E t, aws_access_key_id, 0), (github_shape E t, github_token, 0),
      (slack_shape E t, slack_token, 0), (private_key_shape t, private_key_block, 0), (bearer_shape E t, bearer_token, 0),
      (jwt_shape E t, json_web_token, 0), (assignment_shape t, credential_assignment, 1),
      (userinfo_shape E t, url_userinfo, 1)}"
    and "shape p"
  shows "occurrence_replaced E t (resolve 0 (collected_spans E t)) items n p"
proof -
  have "matchable E t items p"
    using assms aws_occurs github_occurs slack_occurs private_key_occurs bearer_occurs jwt_occurs assignment_occurs
      userinfo_occurs
    by (elim insertE) auto
  then obtain e g where "re_matches E t items p (0, 0) e g" using matchable_occurs by blast
  then show ?thesis by (rule occurrence_of_row [rotated]) (use assms(1) in auto)
qed

section \<open>The replaced text\<close>

text \<open>The text is cut into kept pieces and chosen spans; only the spans are replaced.\<close>

fun kept_pieces :: "pystr \<Rightarrow> nat \<Rightarrow> span list \<Rightarrow> pystr list" where
  "kept_pieces t position [] = [drop position t]"
| "kept_pieces t position ((s, e, _) # spans) = take (s - position) (drop position t) # kept_pieces t e spans"

fun interleave :: "pystr list \<Rightarrow> pystr list \<Rightarrow> pystr" where
  "interleave (k # ks) (m # ms) = k @ m @ interleave ks ms"
| "interleave ks ms = concat ks"

lemma replace_spans_interleave:
  "replace_spans t position spans
     = interleave (kept_pieces t position spans) (map (\<lambda>s. marker (span_name s)) spans)"
  by (induction t position spans rule: replace_spans.induct) (auto simp: span_name_def)

lemma original_interleave:
  "in_order position spans \<Longrightarrow>
     drop position t
       = interleave (kept_pieces t position spans) (map (\<lambda>(s, e, _). take (e - s) (drop s t)) spans)"
proof (induction t position spans rule: replace_spans.induct)
  case (2 t position s e priority name spans)
  have "drop position t = take (s - position) (drop position t) @ drop s t"
    using 2(2) append_take_drop_id [of "s - position" "drop position t"] by simp
  also have "drop s t = take (e - s) (drop s t) @ drop e t"
    using 2(2) append_take_drop_id [of "e - s" "drop s t"] by simp
  finally show ?case using 2 by simp
qed simp

lemma findings_Nil [simp]: "findings_of chosen = [] \<longleftrightarrow> chosen = []"
proof -
  have "sort xs = [] \<longleftrightarrow> xs = []" for xs :: "pystr list" by (metis length_0_conv length_sort)
  then show ?thesis by (simp add: findings_of_def)
qed

lemma resolve_Nil: "spans \<noteq> [] \<Longrightarrow> resolve 0 spans \<noteq> []"
  by (cases spans) auto

lemma redact_text_cases:
  "redact_text E t
     = (replace_spans t 0 (resolve 0 (collected_spans E t)), findings_of (resolve 0 (collected_spans E t)))"
  by (simp add: redact_text_def Let_def findings_of_def)

lemma redact_clean: "snd (redact_text E t) = [] \<Longrightarrow> fst (redact_text E t) = t"
  using resolve_Nil [of "collected_spans E t"] by (auto simp: redact_text_def Let_def split: if_splits)

text \<open>The occurrences reported per pattern count every replaced span once.\<close>

lemma occurrences_total:
  "sum_list (map rf_occurrences (findings_of chosen)) = length chosen"
proof -
  let ?names = "sort (remdups (map span_name chosen))"
  have "sum_list (map (\<lambda>n. length (filter (\<lambda>s. span_name s = n) xs)) ns) = length xs"
    if "distinct ns" "span_name ` set xs \<subseteq> set ns" for ns xs
    using that
  proof (induction ns arbitrary: xs)
    case (Cons n ns)
    let ?rest = "filter (\<lambda>s. span_name s \<noteq> n) xs"
    have "(\<lambda>m. length (filter (\<lambda>s. span_name s = m) xs)) m = length (filter (\<lambda>s. span_name s = m) ?rest)"
      if "m \<in> set ns" for m
      using that Cons.prems(1) by (auto intro!: arg_cong [where f = length] filter_cong)
    then have "sum_list (map (\<lambda>m. length (filter (\<lambda>s. span_name s = m) xs)) ns) = length ?rest"
      using Cons.IH [of ?rest] Cons.prems by (auto cong: map_cong)
    then show ?case using sum_length_filter_compl [of "\<lambda>s. span_name s = n" xs] by simp
  qed auto
  then show ?thesis by (simp add: findings_of_def comp_def)
qed

lemma finding_names: "map rf_pattern_name (findings_of chosen) = sort (remdups (map span_name chosen))"
  by (simp add: findings_of_def comp_def)

end
