(* ===== verification/Storage_Facts.thy ===== *)
theory Storage_Facts
  imports Event_Store Redaction_Facts Replay_Facts
begin

text \<open>
  What each storage operation can leave behind. A publication leaves the directory as it was or with
  the one file added; the fields that describe the verified chain change only where the source assigns
  them; verification and confirmation change nothing but the count of answers.
\<close>

section \<open>Actions that only ask the disk\<close>

text \<open>The same store, apart from the number of answers taken.\<close>

definition same_store :: "event_store \<Rightarrow> event_store \<Rightarrow> bool" where
  "same_store s t \<longleftrightarrow>
     es_disk t = es_disk s \<and> es_state t = es_state s \<and> es_entries t = es_entries s
     \<and> es_names t = es_names s \<and> es_witness t = es_witness s \<and> es_pins t = es_pins s"

lemma same_store_refl [simp]: "same_store s s"
  by (simp add: same_store_def)

lemma same_store_trans: "same_store s t \<Longrightarrow> same_store t u \<Longrightarrow> same_store s u"
  by (simp add: same_store_def)

definition inert :: "'a store_action \<Rightarrow> bool" where
  "inert m \<longleftrightarrow> (\<forall>s. same_store s (fst (m s)))"

named_theorems inert_rules \<open>actions that change nothing but the count of answers\<close>

lemma inert_basic [inert_rules]:
  "inert (a_return x)" "inert (a_raise e)" "inert (a_pure r)" "inert (a_get f)"
  by (simp_all add: inert_def)

lemma inert_run: "inert m \<Longrightarrow> m s = (t, r) \<Longrightarrow> same_store s t"
  unfolding inert_def by (metis fst_conv)

lemma inert_raise_if [inert_rules]: "inert m \<Longrightarrow> inert (a_raise_if c e m)"
  by (simp add: inert_def)

lemma inert_bind [inert_rules]: "inert m \<Longrightarrow> (\<And>x. inert (f x)) \<Longrightarrow> inert (a_bind m f)"
proof -
  assume m: "inert m" and f: "\<And>x. inert (f x)"
  show "inert (a_bind m f)" unfolding inert_def
  proof
    fix s
    obtain t r where r: "m s = (t, r)" by (cases "m s")
    note st = inert_run [OF m r]
    show "same_store s (fst (a_bind m f s))"
      using r f st by (cases r) (auto simp: a_bind_def inert_def intro: same_store_trans)
  qed
qed

lemma inert_except [inert_rules]: "inert m \<Longrightarrow> inert (a_except h m)"
proof -
  assume m: "inert m"
  have "fst (a_except h m s) = fst (m s)" for s
    by (cases "m s"; cases "snd (m s)") (simp_all add: a_except_def)
  with m show ?thesis by (simp add: inert_def)
qed

lemma inert_each [inert_rules]: "(\<And>x. inert (f x)) \<Longrightarrow> inert (a_each f xs)"
  by (induction xs) (auto intro!: inert_rules)

lemma inert_ask [inert_rules]: "inert (ask_disk disk)"
  by (simp add: inert_def ask_disk_def same_store_def)

lemma inert_settle [inert_rules]: "inert (settle outcome x)"
  by (simp add: settle_def inert_rules)

lemma inert_check_tip [inert_rules]: "inert (check_tip n)"
  by (simp add: check_tip_def Let_def inert_rules)

lemma inert_confirm_durable [inert_rules]: "inert (confirm_durable E disk root path sha ceiling)"
  by (simp add: confirm_durable_def inert_rules)

lemma inert_confirm [inert_rules]:
  "inert (confirm_event E disk name sha)" "inert (confirm_witness E disk sha)" "inert (confirm_references E disk rs)"
  "inert (confirm_entries E disk entries)"
  by (simp_all add: confirm_event_def confirm_witness_def confirm_references_def confirm_entries_def inert_rules)

lemma inert_confirm_all [inert_rules]: "inert (confirm_all E disk view)"
  by (simp add: confirm_all_def inert_rules)

lemma inert_verify_references [inert_rules]: "inert (verify_references E W rs)"
  by (simp add: verify_references_def inert_rules)

lemma inert_require_state [inert_rules]: "inert require_state"
  by (simp add: require_state_def inert_rules)

lemma inert_confirm_established [inert_rules]: "inert (confirm_established E W disk)"
  by (simp add: confirm_established_def inert_rules)

section \<open>Publications\<close>

text \<open>A publication of \<open>payload\<close> at \<open>path\<close>: nothing happened, or the file is there.\<close>

definition published :: "pystr \<Rightarrow> bytes \<Rightarrow> event_store \<Rightarrow> event_store \<Rightarrow> bool" where
  "published path payload s t \<longleftrightarrow> same_store (s\<lparr>es_disk := put_file path payload (es_disk s)\<rparr>) t"

lemma published_fields:
  "published path payload s t \<Longrightarrow> es_disk t = put_file path payload (es_disk s) \<and> es_state t = es_state s
     \<and> es_entries t = es_entries s \<and> es_names t = es_names s \<and> es_witness t = es_witness s \<and> es_pins t = es_pins s"
  by (simp add: published_def same_store_def)

lemma publish_atomically_cases:
  assumes "publish_atomically disk path payload s = (t, r)"
  obtains (refused) e where "r = Inl e" and "same_store s t"
    | (uncertain) "r = Inl PublicationUncertain" and "published path payload s t"
    | (durable) "r = Inr ()" and "published path payload s t"
  using assms unfolding publish_atomically_def ask_disk_def put_action_def settle_def published_def same_store_def
  by (auto split: if_splits simp: a_bind_def)

lemma publish_exclusively_cases:
  assumes "publish_exclusively disk path payload s = (t, r)"
  obtains (refused) e where "r = Inl e" and "same_store s t"
    | (uncertain) "r = Inl PublicationUncertain" and "published path payload s t" and "rd_run (es_disk s) path = None"
    | (created) "r = Inr CREATED" and "published path payload s t" and "rd_run (es_disk s) path = None"
    | (identical) "r = Inr IDENTICAL_EXISTS" and "same_store s t"
        and "rd_run (es_disk s) path = Some (RegularFile payload)"
  using assms unfolding publish_exclusively_def ask_disk_def put_action_def settle_def published_def same_store_def
  by (auto split: if_splits option.splits file_node.splits unsafe_kind.splits simp: a_bind_def)

lemma integrity_bytes_text: "integrity_bytes document = utf8 (dumps document)"
  by (simp add: integrity_bytes_def authority_json_bytes_def)

lemma write_document_cases:
  assumes "write_document E disk path document exclusive s = (t, r)"
  obtains (refused) e where "r = Inl e" and "same_store s t"
    | (uncertain) "r = Inl PublicationUncertain" and "published path (integrity_bytes document) s t"
        and "exclusive \<Longrightarrow> rd_run (es_disk s) path = None"
    | (written) w where "r = Inr w" and "published path (integrity_bytes document) s t"
        and "rw_exclusive_outcome w = (if exclusive then Some CREATED else None)"
        and "rw_sha256 w = sha256 E (integrity_bytes document)"
        and "exclusive \<Longrightarrow> rd_run (es_disk s) path = None"
    | (identical) w where "r = Inr w" and "same_store s t" and "rw_exclusive_outcome w = Some IDENTICAL_EXISTS"
        and exclusive
proof -
  obtain redacted findings where red: "redact_text E (dumps document) = (redacted, findings)"
    by (cases "redact_text E (dumps document)")
  let ?bytes = "integrity_bytes document"
  show ?thesis
  proof (cases "rd_run (es_disk s) path = Some (UnsafeNode SymbolicLink) \<or> findings \<noteq> [] \<or> redacted \<noteq> dumps document
      \<or> encode_strict redacted = None \<or> length (utf8 redacted) > MAX_ARTIFACT_BYTES")
    case True
    then have "\<exists>e. (t, r) = (s, Inl e)"
      using assms red
      by (auto simp: write_document_def write_redacted_artifact_def encode_strict_def refuse_if_def split: if_splits)
    then show ?thesis using refused same_store_refl by blast
  next
    case False
    then have enc: "encode_strict redacted = Some ?bytes" "\<not> length ?bytes > MAX_ARTIFACT_BYTES"
      by (auto simp: encode_strict_def refuse_if_def integrity_bytes_text split: if_splits)
    note run = assms [unfolded write_document_def write_redacted_artifact_def]
    show ?thesis
    proof (cases exclusive)
      case True
      obtain t' r' where p: "publish_exclusively disk path ?bytes s = (t', r')" by (cases "publish_exclusively disk path ?bytes s")
      have "(t, r) = (t', case r' of Inl e \<Rightarrow> Inl e | Inr o' \<Rightarrow>
          Inr \<lparr>rw_byte_count = length ?bytes, rw_findings = findings, rw_exclusive_outcome = Some o', rw_sha256 = sha256 E ?bytes\<rparr>)"
        using run red False enc True p by (auto simp: a_bind_def split: sum.splits)
      then show ?thesis
        using p by (elim publish_exclusively_cases) (use True refused uncertain written identical in auto)
    next
      case not: False
      obtain t' r' where p: "publish_atomically disk path ?bytes s = (t', r')" by (cases "publish_atomically disk path ?bytes s")
      have "(t, r) = (t', case r' of Inl e \<Rightarrow> Inl e | Inr _ \<Rightarrow>
          Inr \<lparr>rw_byte_count = length ?bytes, rw_findings = findings, rw_exclusive_outcome = None, rw_sha256 = sha256 E ?bytes\<rparr>)"
        using run red False enc not p by (auto simp: a_bind_def split: sum.splits)
      then show ?thesis
        using p by (elim publish_atomically_cases) (use not refused uncertain written in auto)
    qed
  qed
qed

lemma publish_witness_cases:
  assumes "publish_witness E disk document s = (t, r)"
  obtains (refused) e where "r = Inl e" and "same_store s t"
    | (uncertain) e where "r = Inl e" and "published PUBLICATION_WITNESS_FILE_NAME (integrity_bytes document) s t"
    | (written) "r = Inr ()"
        and "published PUBLICATION_WITNESS_FILE_NAME (integrity_bytes document) (s\<lparr>es_witness := Some (integrity_bytes document)\<rparr>) t"
proof -
  obtain t' r' where p: "write_document E disk PUBLICATION_WITNESS_FILE_NAME document False s = (t', r')"
    by (cases "write_document E disk PUBLICATION_WITNESS_FILE_NAME document False s")
  have tr: "(t, r) = (case r' of Inl e \<Rightarrow> (t', Inl e) | Inr _ \<Rightarrow> (t'\<lparr>es_witness := Some (integrity_bytes document)\<rparr>, Inr ()))"
    using assms p by (auto simp: publish_witness_def a_bind_def split: sum.splits)
  show ?thesis
    using p
  proof (cases rule: write_document_cases)
    case (written w)
    then show ?thesis using tr that(3) by (simp add: published_def same_store_def)
  qed (use tr that(1,2) in auto)
qed

lemma publish_event_cases:
  assumes "publish_event E disk name document s = (t, r)"
  obtains (refused) e where "r = Inl e" and "same_store s t"
    | (uncertain) e where "r = Inl e" and "published (event_path name) (integrity_bytes document) s t"
        and "rd_run (es_disk s) (event_path name) = None"
    | (written) "r = Inr ()" and "rd_run (es_disk s) (event_path name) = None"
        and "published (event_path name) (integrity_bytes document) (s\<lparr>es_names := es_names s @ [name]\<rparr>) t"
proof -
  obtain t' r' where p: "write_document E disk (event_path name) document True s = (t', r')"
    by (cases "write_document E disk (event_path name) document True s")
  have tr: "(t, r) = (case r' of Inl e \<Rightarrow> (t', Inl (conflict_as EventConflict e))
      | Inr w \<Rightarrow> if rw_exclusive_outcome w = Some IDENTICAL_EXISTS then (t', Inl (lifecycle_refusal EventConflict))
                 else (t'\<lparr>es_names := es_names t' @ [name]\<rparr>, Inr ()))"
    using assms p by (auto simp: publish_event_def a_bind_def a_except_def split: sum.splits if_splits)
  show ?thesis
    using p
  proof (cases rule: write_document_cases)
    case (written w)
    then show ?thesis using tr that(3) by (simp add: published_def same_store_def)
  qed (use tr that(1,2) in auto)
qed

lemma publish_projection_cases:
  assumes "publish_projection E disk document s = (t, r)"
  obtains (refused) e where "r = Inl e" and "same_store s t"
    | (written) "published STATE_FILE_NAME (integrity_bytes document) s t"
proof -
  obtain t' r' where p: "write_document E disk STATE_FILE_NAME document False s = (t', r')"
    by (cases "write_document E disk STATE_FILE_NAME document False s")
  have tr: "(t, r) = (t', case r' of Inl e \<Rightarrow> Inl e | Inr _ \<Rightarrow> Inr ())"
    using assms p by (auto simp: publish_projection_def a_bind_def split: sum.splits)
  show ?thesis
    using p by (cases rule: write_document_cases) (use tr that in auto)
qed

end
