(* ===== verification/Directory_Facts.thy ===== *)
theory Directory_Facts
  imports Storage_Facts
begin

text \<open>
  What a load depends on. The three files an append writes (the event, the witness, the projection) are
  never the address of a referenced artifact, so the stream over the earlier events reads the same
  bytes before and after; and the listing with the new name added is the listing the stream expects.
\<close>

section \<open>Addresses\<close>

lemma event_path_eq [simp]: "event_path m = event_path n \<longleftrightarrow> m = n"
  by (simp add: event_path_def)

lemma event_path_prefix [simp]: "prefix event_directory_prefix (event_path n)"
  by (simp add: event_directory_prefix_def event_path_def)

lemma event_path_drop [simp]: "drop (length event_directory_prefix) (event_path n) = n"
  by (simp add: event_directory_prefix_def event_path_def)

lemma top_files [simp]:
  "event_path n \<noteq> PUBLICATION_WITNESS_FILE_NAME" "PUBLICATION_WITNESS_FILE_NAME \<noteq> event_path n"
  "event_path n \<noteq> STATE_FILE_NAME" "STATE_FILE_NAME \<noteq> event_path n"
  "PUBLICATION_WITNESS_FILE_NAME \<noteq> STATE_FILE_NAME" "STATE_FILE_NAME \<noteq> PUBLICATION_WITNESS_FILE_NAME"
  "\<not> prefix event_directory_prefix PUBLICATION_WITNESS_FILE_NAME" "\<not> prefix event_directory_prefix STATE_FILE_NAME"
  by (simp_all add: event_path_def EVENTS_DIRECTORY_def PUBLICATION_WITNESS_FILE_NAME_def STATE_FILE_NAME_def
      event_directory_prefix_def lit_def)

text \<open>The addresses that a publication of an event writes.\<close>

definition protocol_path :: "pystr \<Rightarrow> bool" where
  "protocol_path p \<longleftrightarrow>
     p = PUBLICATION_WITNESS_FILE_NAME \<or> p = STATE_FILE_NAME \<or> prefix event_directory_prefix p"

lemma protocol_path_hd: "protocol_path p \<Longrightarrow> hd p = 101 \<or> hd p = 115"
  by (auto simp: protocol_path_def PUBLICATION_WITNESS_FILE_NAME_def STATE_FILE_NAME_def
      event_directory_prefix_def EVENTS_DIRECTORY_def lit_def prefix_def)

lemma prefix_hd: "prefix (x # xs) p \<Longrightarrow> hd p = x"
  by (auto simp: prefix_def)

lemma operations_hd: "operation_artifact_path i name attempt = Inr path \<Longrightarrow> hd path = 111"
  using operation_path_prefix [of i name attempt path] prefix_hd [of 111 "lit ''perations/''" path] by (simp add: lit_def)

lemma transcript_hd: "is_transcript_path E p \<Longrightarrow> hd p = 116"
  using prefix_hd [of 116 "lit ''ranscripts/''" p] by (simp add: is_transcript_path_def lit_def split: if_splits)

lemma classified_path: "classify_run_evidence_path E p = Some k \<Longrightarrow> \<not> protocol_path p"
proof
  assume c: "classify_run_evidence_path E p = Some k" and "protocol_path p"
  then have "hd p = 101 \<or> hd p = 115" by (simp add: protocol_path_hd)
  moreover have "hd p = 112 \<or> hd p = 116 \<or> hd p = 111"
  proof (cases "match_operation_path p")
    case None
    then show ?thesis
      using c transcript_hd [of E p]
      by (auto simp: classify_run_evidence_path_def POLICY_REFERENCE_PATH_def lit_def split: if_splits)
  next
    case (Some m)
    then show ?thesis using operations_hd match_operation_path_Some by (metis prod_cases3)
  qed
  ultimately show False by auto
qed

lemma reference_address:
  "validate_reference E r \<noteq> None \<Longrightarrow> er_root r = ROOT_RUN \<Longrightarrow> \<not> protocol_path (er_path r)"
  using classified_path by (auto simp: validate_reference_def Let_def refuse_if_def split: option.splits if_splits)

section \<open>References are valid\<close>

lemma constituent_references_valid:
  "validate_constituent_payload E c \<Longrightarrow> \<forall>r \<in> set (constituent_references c). validate_reference E r \<noteq> None"
  by (cases c) (simp_all add: list_all_iff)

lemma payload_references_valid:
  assumes "validate_payload E p"
  shows "\<forall>r \<in> set (payload_references p). validate_reference E r \<noteq> None"
proof (cases p)
  case (ApplicationMutationDeclared d)
  have d: "validate_declaration_model E d" using assms ApplicationMutationDeclared by simp
  then have "validate_mutation_evidence E (md_evidence d)"
    "\<forall>c \<in> set (md_constituents d). validate_constituent_payload E (mc_payload c)"
    unfolding validate_declaration_model_def list_all_iff by blast+
  then have c: "\<forall>r \<in> set (concat (map (\<lambda>c. constituent_references (mc_payload c)) (md_constituents d))).
      validate_reference E r \<noteq> None" and e: "validate_mutation_evidence E (md_evidence d)"
    using constituent_references_valid unfolding set_concat set_map by blast+
  show ?thesis
    unfolding ApplicationMutationDeclared payload_references.simps set_append
    using c e by (cases "md_evidence d"; cases "case md_evidence d of ResultEvidence x \<Rightarrow> rv_verdict x | _ \<Rightarrow> None") auto
next
  case (Constituent c)
  then show ?thesis using assms constituent_references_valid by simp
qed (use assms in \<open>auto simp: validate_attempt_evidence_def list_all_iff\<close>)

lemma valid_item_references:
  "valid_item E (event, sha) \<Longrightarrow> \<forall>r \<in> set (payload_references (le_payload event)). validate_reference E r \<noteq> None"
  by (rule payload_references_valid) (rule valid_item_payload)

section \<open>Directories with the same evidence\<close>

definition same_evidence :: "run_directory \<Rightarrow> run_directory \<Rightarrow> bool" where
  "same_evidence dir dir' \<longleftrightarrow>
     rd_root dir' = rd_root dir \<and> (\<forall>p. \<not> protocol_path p \<longrightarrow> rd_run dir' p = rd_run dir p)"

lemma same_evidence_refl [simp]: "same_evidence dir dir"
  by (simp add: same_evidence_def)

lemma same_evidence_put: "protocol_path p \<Longrightarrow> same_evidence dir (put_file p b dir')  \<longleftrightarrow> same_evidence dir dir'"
  by (auto simp: same_evidence_def put_file_def)

lemma verify_reference_same:
  assumes "same_evidence dir dir'" and "validate_reference E r \<noteq> None"
  shows "verify_reference E W dir' pins r = verify_reference E W dir pins r"
proof -
  have "(if er_root r = ROOT_RUN then rd_run dir' else rd_root dir') (er_path r)
      = (if er_root r = ROOT_RUN then rd_run dir else rd_root dir) (er_path r)"
    using assms reference_address [OF assms(2)] by (auto simp: same_evidence_def)
  then show ?thesis by (simp add: verify_reference_def read_relative_def read_named_def Let_def)
qed

lemma verify_entry_references_same:
  assumes "same_evidence dir dir'"
  shows "\<forall>r \<in> set rs. validate_reference E r \<noteq> None \<Longrightarrow>
    verify_entry_references E W dir' va state rs = verify_entry_references E W dir va state rs"
proof (induction rs)
  case (Cons r rs)
  then have "verify_reference E W dir' (fs_pins state) r = verify_reference E W dir (fs_pins state) r"
    by (intro verify_reference_same assms) simp
  then show ?case using Cons by (cases "verify_reference E W dir (fs_pins state) r") (auto cong: rbind_cong)
qed simp

lemma stream_step_same:
  assumes "same_evidence dir dir'" and "rd_run dir' (event_path n) = rd_run dir (event_path n)"
  shows "stream_step E W dir' va owner st n = stream_step E W dir va owner st n"
proof -
  have p: "parse_stored_event E W dir' n = parse_stored_event E W dir n"
    using assms(2) by (rule stored_event_same)
  obtain state entries where st: "st = (state, entries)" by (cases st)
  show ?thesis
  proof (cases "parse_stored_event E W dir n")
    case (Inr item)
    obtain event digest where item: "item = (event, digest)" by (cases item)
    have "valid_item E (event, digest)"
      using Inr unfolding item by (rule parse_stored_event_Inr) (rule parse_event_bytes_Inr(1))
    then have "verify_entry_references E W dir' va tip (payload_references (le_payload event))
        = verify_entry_references E W dir va tip (payload_references (le_payload event))" for tip
      by (intro verify_entry_references_same assms(1) valid_item_references)
    then show ?thesis using p Inr item st by (cases owner) (simp add: stream_step_def entry_of_def)
  qed (use p st in \<open>cases owner, simp add: stream_step_def\<close>)
qed

lemma stream_events_same:
  assumes "same_evidence dir dir'"
  shows "\<forall>n \<in> set ns. rd_run dir' (event_path n) = rd_run dir (event_path n) \<Longrightarrow>
    stream_events E W dir' va owner ns = stream_events E W dir va owner ns"
  unfolding stream_events_def
proof (induction ns rule: rev_induct)
  case (snoc n ns)
  then show ?case using stream_step_same [OF assms, of n] by (simp add: rfold_snoc cong: rbind_cong)
qed simp

section \<open>The listing after an append\<close>

lemma insort_key_snoc: "f a \<le> f x \<Longrightarrow> insort_key f a (ys @ [x]) = insort_key f a ys @ [x]"
  by (induction ys) simp_all

lemma sort_key_snoc: "\<forall>y \<in> set xs. f y \<le> f x \<Longrightarrow> sort_key f (xs @ [x]) = sort_key f xs @ [x]"
  by (induction xs) (simp_all add: insort_key_snoc)

lemma claimed_names_append:
  "claimed_names l = Some c \<Longrightarrow> take (length TEMP_FILE_PREFIX) name \<noteq> TEMP_FILE_PREFIX
     \<Longrightarrow> parse_event_file_name name = Some (n, ty) \<Longrightarrow> claimed_names (l @ [name]) = Some (c @ [(n, ty, name)])"
  by (induction l arbitrary: c) (auto split: if_splits option.splits)

lemma claimed_names_member:
  "claimed_names l = Some c \<Longrightarrow> name \<in> set l \<Longrightarrow> take (length TEMP_FILE_PREFIX) name \<noteq> TEMP_FILE_PREFIX
     \<Longrightarrow> parse_event_file_name name = Some (n, ty) \<Longrightarrow> (n, ty, name) \<in> set c"
  by (induction l arbitrary: c) (auto split: if_splits option.splits)

lemma claimed_names_listed: "claimed_names l = Some c \<Longrightarrow> (n, ty, name) \<in> set c \<Longrightarrow> name \<in> set l"
  by (induction l arbitrary: c) (auto split: if_splits option.splits)

lemma event_name_not_temporary:
  assumes "event_file_name n ty = Inr name"
  shows "take (length TEMP_FILE_PREFIX) name \<noteq> TEMP_FILE_PREFIX"
proof -
  have name: "name = pad8 n @ lit ''-'' @ event_type_value ty @ lit ''.json''" and "1 \<le> n" "n \<le> MAX_EVENT_SEQUENCE"
    using assms by (auto simp: event_file_name_def)
  then have p: "length (pad8 n) = 8" "list_all is_digit (pad8 n)" using pad8_facts [of n] by auto
  then obtain d ds where d: "pad8 n = d # ds" "is_digit d" by (cases "pad8 n") auto
  obtain ts where ts: "TEMP_FILE_PREFIX = 46 # ts" by (simp add: TEMP_FILE_PREFIX_def lit_def)
  have "d \<noteq> 46" using d(2) by (auto simp: is_digit_def)
  then show ?thesis by (simp add: name d(1) ts)
qed

lemma bounded_event_names_Inr:
  assumes "bounded_event_names l = Inr named"
  obtains c where "claimed_names l = Some c" and "named = sort_key fst c"
    and "map fst named = map int [1 ..< length named + 1]" and "length l \<le> MAX_EVENT_FILES"
proof -
  note a = assms [unfolded bounded_event_names_def Let_def raise_if_Inr rbind_Inr from_option_Inr]
  then obtain c where c: "claimed_names l = Some c" "named = sort_key fst c"
    "map fst named = map int [1 ..< length (map fst named) + 1]" by blast
  show ?thesis
  proof (rule that [OF c(1,2)])
    show "map fst named = map int [1 ..< length named + 1]" using c(3) unfolding length_map .
    show "length l \<le> MAX_EVENT_FILES" using a by linarith
  qed
qed

lemma bounded_event_names_append:
  assumes l: "bounded_event_names l = Inr named" and name: "event_file_name (int (length named) + 1) ty = Inr name"
  shows "name \<notin> set l"
    and "length l < MAX_EVENT_FILES \<Longrightarrow> bounded_event_names (l @ [name]) = Inr (named @ [(int (length named) + 1, ty, name)])"
proof -
  let ?n = "int (length named) + 1"
  obtain c where c: "claimed_names l = Some c" "named = sort_key fst c"
    "map fst named = map int [1 ..< length named + 1]" "length l \<le> MAX_EVENT_FILES"
    using l by (rule bounded_event_names_Inr)
  note t = event_name_not_temporary [OF name] and p = parse_event_file_name_name [OF name]
  have seqs: "fst ` set c = int ` {1 ..< length named + 1}"
    using arg_cong [OF c(3), of set] c(2) by (simp del: upt_Suc)
  show "name \<notin> set l"
  proof
    assume "name \<in> set l"
    then have "?n \<in> fst ` set c" using claimed_names_member [OF c(1) _ t p] by force
    then show False using seqs by auto
  qed
  assume "length l < MAX_EVENT_FILES"
  then have len': "\<not> MAX_EVENT_FILES < length (l @ [name])" by simp
  have "claimed_names (l @ [name]) = Some (c @ [(?n, ty, name)])" by (rule claimed_names_append [OF c(1) t p])
  moreover have "sort_key fst (c @ [(?n, ty, name)]) = named @ [(?n, ty, name)]"
  proof -
    have "y \<in> fst ` set c \<Longrightarrow> y \<le> ?n" for y unfolding seqs by auto
    then show ?thesis unfolding c(2) by (intro sort_key_snoc) auto
  qed
  moreover have m: "map fst (named @ [(?n, ty, name)]) = map int [1 ..< length (map fst (named @ [(?n, ty, name)])) + 1]"
  proof -
    have "[1 ..< length named + 1 + 1] = [1 ..< length named + 1] @ [length named + 1]" by simp
    then show ?thesis using c(3) by (simp del: upt_Suc)
  qed
  moreover have "unique (map fst (named @ [(?n, ty, name)]))"
    by (subst m) (simp add: distinct_map del: upt_Suc)
  ultimately show "bounded_event_names (l @ [name]) = Inr (named @ [(?n, ty, name)])"
    using len' by (simp add: bounded_event_names_def Let_def del: upt_Suc unique_distinct length_map length_append)
qed

end
