(* ===== verification/Publication_Stages.thy ===== *)
theory Publication_Stages
  imports Directory_Facts
begin

text \<open>
  The append protocol against the load. \<open>publish_folded_cases\<close> lists the four directories a publication
  can leave, in the order the files are written; the lemmas after it say what a load makes of each: the
  witness alone refuses the run, the witness and the event give the folded state with an old projection,
  and all three files give it with a current one.
\<close>

section \<open>The stages of a publication\<close>

definition references_verified ::
  "pyenv \<Rightarrow> wire \<Rightarrow> run_directory \<Rightarrow> operation_pins \<Rightarrow> fold_state \<Rightarrow> evidence_reference list \<Rightarrow> bool" where
  "references_verified E W dir pins folded references \<longleftrightarrow>
     (\<exists>artifacts. verified_artifacts E W dir pins references = Inr artifacts \<and> check_artifacts folded artifacts = Inr ())"

definition witness_stage :: "publication_witness \<Rightarrow> run_directory \<Rightarrow> run_directory" where
  "witness_stage w dir = put_file PUBLICATION_WITNESS_FILE_NAME (integrity_bytes (dump_witness w)) dir"

definition event_stage :: "publication_witness \<Rightarrow> pystr \<Rightarrow> lifecycle_event \<Rightarrow> run_directory \<Rightarrow> run_directory" where
  "event_stage w name envelope dir = put_file (event_path name) (canonical_bytes envelope) (witness_stage w dir)"

definition projection_stage ::
  "publication_witness \<Rightarrow> pystr \<Rightarrow> lifecycle_event \<Rightarrow> json \<Rightarrow> run_directory \<Rightarrow> run_directory" where
  "projection_stage w name envelope document dir =
     put_file STATE_FILE_NAME (integrity_bytes document) (event_stage w name envelope dir)"

definition advanced :: "event_store \<Rightarrow> publication_witness \<Rightarrow> pystr \<Rightarrow> lifecycle_event \<Rightarrow> pystr \<Rightarrow> fold_state \<Rightarrow>
  event_store \<Rightarrow> bool" where
  "advanced s w name envelope digest folded t \<longleftrightarrow>
     es_state t = Some folded \<and> es_entries t = es_entries s @ [entry_of envelope digest]
     \<and> es_names t = es_names s @ [name] \<and> es_witness t = Some (integrity_bytes (dump_witness w)) \<and> es_pins t = es_pins s"

lemma a_bind_cases:
  assumes "a_bind m f s = (t, r)"
  obtains (raised) e where "m s = (t, Inl e)" and "r = Inl e"
    | (returned) u x where "m s = (u, Inr x)" and "f x u = (t, r)"
  using assms by (auto simp: a_bind_def split: prod.splits sum.splits)

lemma publish_folded_cases:
  assumes "publish_folded E W disk envelope digest folded s = (t, r)"
  obtains (refused) e where "r = Inl e" and "es_disk t = es_disk s"
    | (witness) e w where "r = Inl e" and "witness_for envelope digest = Some w"
        and "references_verified E W (es_disk s) (es_pins s) folded (payload_references (le_payload envelope))"
        and "es_disk t = witness_stage w (es_disk s)"
    | (event) e w name where "r = Inl e" and "witness_for envelope digest = Some w"
        and "references_verified E W (es_disk s) (es_pins s) folded (payload_references (le_payload envelope))"
        and "event_file_name (le_sequence envelope) (le_event_type envelope) = Inr name"
        and "rd_run (es_disk s) (event_path name) = None"
        and "es_disk t = event_stage w name envelope (es_disk s)"
    | (projected) w name document where "witness_for envelope digest = Some w"
        and "references_verified E W (es_disk s) (es_pins s) folded (payload_references (le_payload envelope))"
        and "event_file_name (le_sequence envelope) (le_event_type envelope) = Inr name"
        and "rd_run (es_disk s) (event_path name) = None"
        and "projection_document folded = Some document"
        and "es_disk t = projection_stage w name envelope document (es_disk s)"
        and "advanced s w name envelope digest folded t"
proof -
  let ?refs = "payload_references (le_payload envelope)"
  show ?thesis
    using assms unfolding publish_folded_def Let_def
  proof (cases rule: a_bind_cases)
    case (raised e)
    then show ?thesis
      using refused inert_run [OF inert_verify_references] by (auto simp: same_store_def)
  next
    case v: (returned s1 artifacts)
    have s1: "s1 = s" "verified_artifacts E W (es_disk s) (es_pins s) ?refs = Inr artifacts"
      using v(1) by (auto simp: verify_references_def)
    from v(2) show ?thesis
    proof (cases rule: a_bind_cases)
      case (raised e)
      then show ?thesis using refused s1 by simp
    next
      case c: (returned s2 u)
      have ver: "references_verified E W (es_disk s) (es_pins s) folded ?refs" and s2: "s2 = s"
        using c(1) s1 by (auto simp: references_verified_def)
      from c(2) show ?thesis
      proof (cases rule: a_bind_cases)
        case (raised e)
        then show ?thesis
          using refused inert_run [OF inert_confirm(3)] s2 by (auto simp: same_store_def)
      next
        case d: (returned s3 u)
        have s3: "same_store s s3" using inert_run [OF inert_confirm(3) d(1)] s2 by simp
        from d(2) show ?thesis
        proof (cases rule: a_bind_cases)
          case (raised e)
          then show ?thesis using refused s3 by (auto simp: same_store_def)
        next
          case w: (returned s4 w)
          have s4: "s4 = s3" and wit: "witness_for envelope digest = Some w" using w(1) by auto
          show ?thesis
            using w(2) unfolding s4
          proof (cases rule: a_bind_cases)
            case (raised e)
            from raised(1) show ?thesis
            proof (cases rule: publish_witness_cases)
              case refused
              then show ?thesis using that(1) raised(2) s3 by (auto simp: same_store_def)
            next
              case uncertain
              then show ?thesis using witness [OF _ wit ver] raised(2) s3
                by (auto simp: published_def same_store_def witness_stage_def)
            qed (use raised in auto)
          next
            case p: (returned s5 u)
            have s5: "es_disk s5 = witness_stage w (es_disk s)" "es_pins s5 = es_pins s" "es_entries s5 = es_entries s"
              "es_names s5 = es_names s" "es_witness s5 = Some (integrity_bytes (dump_witness w))"
              using p(1) s3 by (cases rule: publish_witness_cases;
                  auto simp: published_def same_store_def witness_stage_def)+
            from p(2) show ?thesis
            proof (cases rule: a_bind_cases)
              case (raised e)
              then show ?thesis using witness [OF _ wit ver] s5 by simp
            next
              case n: (returned s6 name)
              have s6: "s6 = s5" and name: "event_file_name (le_sequence envelope) (le_event_type envelope) = Inr name"
                using n(1) by auto
              have absent: "rd_run (es_disk s5) (event_path name) = rd_run (es_disk s) (event_path name)"
                by (simp add: s5 witness_stage_def put_file_def)
              show ?thesis
                using n(2) unfolding s6
              proof (cases rule: a_bind_cases)
                case (raised e)
                from raised(1) show ?thesis
                proof (cases rule: publish_event_cases)
                  case refused
                  then show ?thesis using witness [OF _ wit ver] raised(2) s5 by (auto simp: same_store_def)
                next
                  case uncertain
                  then show ?thesis using event [OF _ wit ver name] raised(2) s5 absent
                    by (auto simp: published_def same_store_def event_stage_def canonical_bytes_def)
                qed (use raised in auto)
              next
                case q: (returned s7 u)
                have s7: "es_disk s7 = event_stage w name envelope (es_disk s)" "es_pins s7 = es_pins s"
                  "es_entries s7 = es_entries s" "es_names s7 = es_names s @ [name]"
                  "es_witness s7 = Some (integrity_bytes (dump_witness w))"
                  and none: "rd_run (es_disk s) (event_path name) = None"
                  using q(1) s5 absent by (cases rule: publish_event_cases;
                      auto simp: published_def same_store_def event_stage_def canonical_bytes_def)+
                define s8 where "s8 = s7\<lparr>es_entries := es_entries s7 @ [entry_of envelope digest], es_state := Some folded\<rparr>"
                have s8: "es_disk s8 = event_stage w name envelope (es_disk s)" "advanced s w name envelope digest folded s8"
                  by (simp_all add: s8_def s7 advanced_def)
                have "a_bind (a_pure (from_option (lifecycle_refusal PyValueError) (projection_document folded)))
                    (publish_projection E disk) s8 = (t, r)"
                  using q(2) by (simp add: s8_def)
                then show ?thesis
                proof (cases rule: a_bind_cases)
                  case (raised e)
                  then show ?thesis using event [OF _ wit ver name none] s8 by simp
                next
                  case x: (returned s9 document)
                  have s9: "s9 = s8" "projection_document folded = Some document" using x(1) by auto
                  from x(2) show ?thesis
                  proof (cases rule: publish_projection_cases)
                    case (refused e)
                    then show ?thesis using event [OF _ wit ver name none] s8 s9 by (auto simp: same_store_def)
                  next
                    case written
                    then show ?thesis
                      using projected [OF wit ver name none s9(2)] s8 s9
                      by (auto simp: published_def same_store_def projection_stage_def advanced_def)
                  qed
                qed
              qed
            qed
          qed
        qed
      qed
    qed
  qed
qed

section \<open>What a load makes of a stage\<close>

lemma stage_evidence:
  "same_evidence dir (witness_stage w dir)" "same_evidence dir (event_stage w name envelope dir)"
  "same_evidence dir (projection_stage w name envelope document dir)"
  by (simp_all add: witness_stage_def event_stage_def projection_stage_def same_evidence_put protocol_path_def)

lemma stage_files:
  "rd_run (witness_stage w dir) PUBLICATION_WITNESS_FILE_NAME = Some (RegularFile (integrity_bytes (dump_witness w)))"
  "rd_run (event_stage w name envelope dir) PUBLICATION_WITNESS_FILE_NAME = Some (RegularFile (integrity_bytes (dump_witness w)))"
  "rd_run (projection_stage w name envelope document dir) PUBLICATION_WITNESS_FILE_NAME
     = Some (RegularFile (integrity_bytes (dump_witness w)))"
  "rd_run (event_stage w name envelope dir) (event_path name) = Some (RegularFile (canonical_bytes envelope))"
  "rd_run (projection_stage w name envelope document dir) (event_path name) = Some (RegularFile (canonical_bytes envelope))"
  "rd_run (event_stage w name envelope dir) STATE_FILE_NAME = rd_run dir STATE_FILE_NAME"
  "rd_run (projection_stage w name envelope document dir) STATE_FILE_NAME = Some (RegularFile (integrity_bytes document))"
  "rd_run (witness_stage w dir) (event_path n) = rd_run dir (event_path n)"
  "n \<noteq> name \<Longrightarrow> rd_run (event_stage w name envelope dir) (event_path n) = rd_run dir (event_path n)"
  "n \<noteq> name \<Longrightarrow> rd_run (projection_stage w name envelope document dir) (event_path n) = rd_run dir (event_path n)"
  "rd_event_names (witness_stage w dir) = rd_event_names dir"
  "rd_event_names (event_stage w name envelope dir) = note_name name (rd_event_names dir)"
  "rd_event_names (projection_stage w name envelope document dir) = note_name name (rd_event_names dir)"
  by (simp_all add: witness_stage_def event_stage_def projection_stage_def put_file_def)

text \<open>A JSON reader that reads back what the canonical writer wrote.\<close>

definition reads_event :: "wire \<Rightarrow> lifecycle_event \<Rightarrow> bool" where
  "reads_event W e \<longleftrightarrow>
     (\<exists>kvs. loads W (canonical_bytes e) = Some (JObj kvs) \<and> no_duplicate_keys (JObj kvs)
        \<and> obj_get (JObj kvs) (lit ''schema_version'') = Some (JInt LIFECYCLE_SCHEMA_VERSION)
        \<and> decode_event W (JObj kvs) = Some e)"

definition reads_witness :: "wire \<Rightarrow> publication_witness \<Rightarrow> bool" where
  "reads_witness W w \<longleftrightarrow>
     length (integrity_bytes (dump_witness w)) \<le> MAX_LIFECYCLE_DOCUMENT_BYTES
     \<and> (\<exists>kvs. loads W (integrity_bytes (dump_witness w)) = Some (JObj kvs) \<and> no_duplicate_keys (JObj kvs)
        \<and> obj_get (JObj kvs) (lit ''schema_version'') = Some (JInt LIFECYCLE_SCHEMA_VERSION)
        \<and> decode_witness W (JObj kvs) = Some w)"

definition reads_projection :: "wire \<Rightarrow> fold_state \<Rightarrow> bool" where
  "reads_projection W s \<longleftrightarrow>
     (\<forall>b kvs n. expected_projection s = Some b \<longrightarrow> loads W b = Some (JObj kvs)
        \<longrightarrow> obj_get (JObj kvs) (lit ''state_version'') = Some (JInt n) \<longrightarrow> n = fs_sequence s)"

lemma witness_for_Some:
  assumes "witness_for envelope digest = Some w"
  shows "validate_witness w = Some w" and "pw_schema_version w = LIFECYCLE_SCHEMA_VERSION"
    and "pw_pins w = le_pins envelope" and "pw_sequence w = le_sequence envelope" and "pw_event_id w = le_event_id envelope"
    and "pw_event_sha256 w = digest" and "pw_prev_event_digest w = le_prev_event_digest envelope"
  using assms by (auto simp: witness_for_def validate_witness_def)

lemma parse_witness_read:
  "witness_for envelope digest = Some w \<Longrightarrow> reads_witness W w
     \<Longrightarrow> parse_witness_bytes W (integrity_bytes (dump_witness w)) = Inr w"
  using witness_for_Some(1) [of envelope digest w]
  by (auto simp: reads_witness_def parse_witness_bytes_def)

lemma parse_event_read:
  assumes "build_event E pins n ty at payload prev mid mi = Inr envelope"
    and "event_file_name n ty = Inr name" and "reads_event W envelope"
  shows "parse_event_bytes E (loads W) (decode_event W) name (canonical_bytes envelope)
    = Inr (envelope, sha256 E (canonical_bytes envelope))"
  using build_event_cases [OF assms(1)] parse_event_file_name_name [OF assms(2)] assms(3)
  by (auto simp: reads_event_def parse_event_bytes_def)

text \<open>The rest of a load, once the stream and the witness have been read.\<close>

definition finish_load ::
  "pyenv \<Rightarrow> wire \<Rightarrow> run_directory \<Rightarrow> fold_state \<Rightarrow> chain_entry list \<Rightarrow> load_error + lifecycle_view" where
  "finish_load E W dir state entries =
     (let projection =
        (case read_named (rd_run dir) STATE_FILE_NAME MAX_STATE_BYTES True of Inl _ \<Rightarrow> Some [] | Inr p \<Rightarrow> p) in
      rbind (lift_lifecycle (projection_status (loads W) state projection)) (\<lambda>status.
      rbind (rfold (\<lambda>_ path. check_prospective_path (rd_run dir) path) () (fs_prospective_paths state)) (\<lambda>_.
      rbind (rfold (applied_step dir (fs_pins state) entries) [] (fs_causative_events state)) (\<lambda>missing.
      Inr \<lparr>lv_record = fs_record state, lv_state = state, lv_chain = entries,
           lv_projection = status, lv_missing_applied = missing\<rparr>))))"

lemma stream_verified_finish:
  assumes "rd_event_names dir = Some l" and "bounded_event_names l = Inr named"
    and "stream_events E W dir va owner (map (\<lambda>(_, _, name). name) named) = Inr (Some state, entries)"
    and "rd_run dir PUBLICATION_WITNESS_FILE_NAME = Some (RegularFile b)" and "length b \<le> MAX_LIFECYCLE_DOCUMENT_BYTES"
    and "parse_witness_bytes W b = Inr w"
  shows "stream_verified E W dir va owner
    = rbind (lift_lifecycle (check_witness state (Some w))) (\<lambda>_. finish_load E W dir state entries)"
  using assms by (simp add: stream_verified_def read_named_def finish_load_def Let_def)

lemma loaded_parts:
  assumes "stream_verified E W dir va owner = Inr v"
  obtains l named b w where "rd_event_names dir = Some l" and "bounded_event_names l = Inr named"
    and "listed_names dir = map (\<lambda>(_, _, name). name) named"
    and "stream_events E W dir va owner (listed_names dir) = Inr (Some (lv_state v), lv_chain v)"
    and "rd_run dir PUBLICATION_WITNESS_FILE_NAME = Some (RegularFile b)" and "length b \<le> MAX_LIFECYCLE_DOCUMENT_BYTES"
    and "parse_witness_bytes W b = Inr w" and "check_witness (lv_state v) (Some w) = Inr ()"
    and "finish_load E W dir (lv_state v) (lv_chain v) = Inr v"
proof -
  note a = assms [unfolded stream_verified_def rbind_Inr from_option_Inr on_unavailable_Inr lift_lifecycle_Inr]
  then obtain l named folded entries state raw witness where h:
    "rd_event_names dir = Some l" "bounded_event_names l = Inr named"
    "stream_events E W dir va owner (map (\<lambda>(_, _, name). name) named) = Inr (folded, entries)" "folded = Some state"
    "read_named (rd_run dir) PUBLICATION_WITNESS_FILE_NAME MAX_LIFECYCLE_DOCUMENT_BYTES True = Inr raw"
    "(case raw of None \<Rightarrow> Inr None | Some b \<Rightarrow> rbind (lift_lifecycle (parse_witness_bytes W b)) (\<lambda>w. Inr (Some w))) = Inr witness"
    "check_witness state witness = Inr ()" "finish_load E W dir state entries = Inr v"
    unfolding finish_load_def by (auto split: prod.splits)
  have v: "lv_state v = state" "lv_chain v = entries" using h(8) by (auto simp: finish_load_def Let_def)
  obtain w where w: "witness = Some w" using h(7) by (cases witness) (auto simp: check_witness_def)
  then obtain b where b: "raw = Some b" "parse_witness_bytes W b = Inr w" using h(6) by (cases raw) auto
  have r: "rd_run dir PUBLICATION_WITNESS_FILE_NAME = Some (RegularFile b)" "length b \<le> MAX_LIFECYCLE_DOCUMENT_BYTES"
    using h(5) b by (auto simp: read_named_def split: option.splits file_node.splits if_splits)
  have l: "listed_names dir = map (\<lambda>(_, _, name). name) named" using h(1,2) by (simp add: listed_names_def)
  show ?thesis by (rule that) (use h w b r l v in simp_all)
qed

lemma witness_ahead:
  assumes "pw_sequence w = fs_sequence s + 1"
  shows "check_witness s (Some w) = Inl EventChainBroken"
  using assms by (simp add: check_witness_def raise_if_def)

lemma witness_stage_refused:
  assumes v: "stream_verified E W dir va owner = Inr v"
    and w: "witness_for envelope digest = Some w" "reads_witness W w"
    and n: "le_sequence envelope = fs_sequence (lv_state v) + 1"
  shows "stream_verified E W (witness_stage w dir) va owner = Inl (Lifecycle EventChainBroken)"
proof -
  obtain l named where h: "rd_event_names dir = Some l" "bounded_event_names l = Inr named"
    "listed_names dir = map (\<lambda>(_, _, name). name) named"
    "stream_events E W dir va owner (listed_names dir) = Inr (Some (lv_state v), lv_chain v)"
    using v by (rule loaded_parts)
  have s: "stream_events E W (witness_stage w dir) va owner (listed_names dir) = Inr (Some (lv_state v), lv_chain v)"
    using stream_events_same [OF stage_evidence(1)] h(4) by (simp add: stage_files)
  have "stream_verified E W (witness_stage w dir) va owner
      = rbind (lift_lifecycle (check_witness (lv_state v) (Some w)))
          (\<lambda>_. finish_load E W (witness_stage w dir) (lv_state v) (lv_chain v))"
  proof (rule stream_verified_finish)
    show "rd_event_names (witness_stage w dir) = Some l" by (simp add: stage_files h(1))
    show "rd_run (witness_stage w dir) PUBLICATION_WITNESS_FILE_NAME = Some (RegularFile (integrity_bytes (dump_witness w)))"
      by (simp add: stage_files)
    show "parse_witness_bytes W (integrity_bytes (dump_witness w)) = Inr w" by (rule parse_witness_read [OF w])
    show "length (integrity_bytes (dump_witness w)) \<le> MAX_LIFECYCLE_DOCUMENT_BYTES" using w(2) by (simp add: reads_witness_def)
  qed (use h s in simp_all)
  then show ?thesis using witness_ahead [of w "lv_state v"] witness_for_Some(4) [OF w(1)] n by simp
qed

lemma verified_entry_references:
  "verified_artifacts E W dir (fs_pins state) rs = Inr artifacts \<Longrightarrow> check_artifacts state artifacts = Inr ()
     \<Longrightarrow> verify_entry_references E W dir va state rs = Inr ()"
proof (induction rs arbitrary: artifacts)
  case (Cons r rs)
  then obtain a rest where a: "verify_reference E W dir (fs_pins state) r = Inr a"
    "verified_artifacts E W dir (fs_pins state) rs = Inr rest"
    "artifacts = (case a of None \<Rightarrow> rest | Some x \<Rightarrow> (r, x) # rest)" by auto
  then have "check_artifacts state rest = Inr ()" and "\<And>x. a = Some x \<Longrightarrow> check_operation_artifact state r x = Inr ()"
    using Cons.prems(2) by (auto simp: check_artifacts_def split: option.splits)
  then show ?case using Cons.IH [OF a(2)] a(1) by (cases a) auto
qed simp

text \<open>A directory that an append has led to: the earlier files, the new event, its witness.\<close>

definition appended_to :: "run_directory \<Rightarrow> publication_witness \<Rightarrow> pystr \<Rightarrow> lifecycle_event \<Rightarrow> run_directory \<Rightarrow> bool" where
  "appended_to dir w name envelope dir' \<longleftrightarrow>
     same_evidence dir dir' \<and> rd_event_names dir' = note_name name (rd_event_names dir)
     \<and> rd_run dir' (event_path name) = Some (RegularFile (canonical_bytes envelope))
     \<and> (\<forall>n. n \<noteq> name \<longrightarrow> rd_run dir' (event_path n) = rd_run dir (event_path n))
     \<and> rd_run dir' PUBLICATION_WITNESS_FILE_NAME = Some (RegularFile (integrity_bytes (dump_witness w)))"

lemma stages_appended:
  "appended_to dir w name envelope (event_stage w name envelope dir)"
  "appended_to dir w name envelope (projection_stage w name envelope document dir)"
  by (simp_all add: appended_to_def stage_files stage_evidence)

text \<open>The event of an append, built, and folded onto the verified state or as the first of a chain.\<close>

definition accepted_event ::
  "pyenv \<Rightarrow> wire \<Rightarrow> fold_state option \<Rightarrow> lifecycle_event \<Rightarrow> fold_state \<Rightarrow> publication_witness \<Rightarrow> pystr \<Rightarrow> bool" where
  "accepted_event E W state envelope folded w name \<longleftrightarrow>
     (\<exists>pins n ty at payload prev mid mi. build_event E pins n ty at payload prev mid mi = Inr envelope)
     \<and> fold_step E None state (envelope, sha256 E (canonical_bytes envelope)) = Inr folded
     \<and> witness_for envelope (sha256 E (canonical_bytes envelope)) = Some w
     \<and> event_file_name (le_sequence envelope) (le_event_type envelope) = Inr name
     \<and> reads_event W envelope \<and> reads_witness W w"

lemma accepted_event_stored:
  assumes a: "accepted_event E W state envelope folded w name"
    and f: "rd_run dir' (event_path name) = Some (RegularFile (canonical_bytes envelope))"
  shows "parse_stored_event E W dir' name = Inr (envelope, sha256 E (canonical_bytes envelope))"
    and "valid_item E (envelope, sha256 E (canonical_bytes envelope))"
proof -
  obtain pins n ty at payload prev mid mi where b: "build_event E pins n ty at payload prev mid mi = Inr envelope"
    using a by (auto simp: accepted_event_def)
  have n: "event_file_name n ty = Inr name" using a build_event_cases(2,3) [OF b] by (simp add: accepted_event_def)
  have r: "reads_event W envelope" using a by (simp add: accepted_event_def)
  show "parse_stored_event E W dir' name = Inr (envelope, sha256 E (canonical_bytes envelope))"
    using parse_event_read [OF b n r] build_event_cases(9) [OF b] f
    by (simp add: parse_stored_event_def read_named_def)
  show "valid_item E (envelope, sha256 E (canonical_bytes envelope))"
    using build_event_cases(1) [OF b] by (simp add: valid_item_def)
qed

lemma appended_witness_ok:
  assumes a: "accepted_event E W state envelope folded w name"
    and pins: "le_pins envelope = fs_pins folded" and "fs_event_id folded = le_event_id envelope"
    and "fs_prev_event_digest folded = le_prev_event_digest envelope"
  shows "check_witness folded (Some w) = Inr ()"
proof -
  note w = witness_for_Some [of envelope "sha256 E (canonical_bytes envelope)" w]
  have "fs_sequence folded = le_sequence envelope" "fs_event_sha256 folded = sha256 E (canonical_bytes envelope)"
    using a step_tip by (auto simp: accepted_event_def)
  then show ?thesis using a w assms(2-4) by (simp add: check_witness_def accepted_event_def)
qed

lemma fold_step_identity:
  assumes f: "fold_step E expected state (envelope, digest) = Inr folded" and v: "valid_item E (envelope, digest)"
  shows "le_pins envelope = fs_pins folded" and "fs_event_id folded = le_event_id envelope"
    and "fs_prev_event_digest folded = le_prev_event_digest envelope"
    and "\<And>st. state = Some st \<Longrightarrow> fs_pins folded = fs_pins st"
proof -
  have "le_pins envelope = fs_pins folded \<and> fs_event_id folded = le_event_id envelope
    \<and> fs_prev_event_digest folded = le_prev_event_digest envelope \<and> (\<forall>st. state = Some st \<longrightarrow> fs_pins folded = fs_pins st)"
  proof (cases state)
    case None
    then have g: "genesis_step E envelope digest expected = Inr folded" using f by (simp add: fold_step_def)
    then have "le_pins envelope = fs_pins folded \<and> fs_event_id folded = le_event_id envelope
        \<and> fs_prev_event_digest folded = None \<and> le_sequence envelope = 1"
      by (auto simp: genesis_step_def Let_def)
    moreover have "(le_prev_event_digest envelope = None) = (le_sequence envelope = 1)"
      using v by (simp add: valid_item_def validate_event_def)
    ultimately show ?thesis using None by simp
  next
    case (Some st)
    note g = f [unfolded Some]
    have "admit_event st envelope = Inr ()" using g by (rule fold_step_cases)
    then have "le_pins envelope = fs_pins st" by (auto simp: admit_event_def)
    moreover have "fs_event_id folded = le_event_id envelope \<and> fs_prev_event_digest folded = le_prev_event_digest envelope"
      using g by (rule fold_step_cases) simp
    ultimately show ?thesis using Some fold_step_record(2) [OF g] by simp
  qed
  then show "le_pins envelope = fs_pins folded" "fs_event_id folded = le_event_id envelope"
    "fs_prev_event_digest folded = le_prev_event_digest envelope"
    "\<And>st. state = Some st \<Longrightarrow> fs_pins folded = fs_pins st" by blast+
qed

text \<open>What the listing of the earlier events was: every name of a sequence number up to the tip.\<close>

definition listing_of :: "run_directory \<Rightarrow> pystr list" where
  "listing_of dir = (case rd_event_names dir of None \<Rightarrow> [] | Some l \<Rightarrow> l)"

lemma appended_load:
  assumes dir: "rd_event_names dir = None \<and> named = [] \<or> bounded_event_names (listing_of dir) = Inr named \<and> rd_event_names dir \<noteq> None"
    and stream: "stream_events E W dir va owner (map (\<lambda>(_, _, name). name) named) = Inr (state, entries)"
    and len: "le_sequence envelope = int (length named) + 1" and room: "length (listing_of dir) < MAX_EVENT_FILES"
    and acc: "accepted_event E W state envelope folded w name"
    and refs: "references_verified E W dir (fs_pins folded) folded (payload_references (le_payload envelope))"
    and own: "pn_run_id (fs_pins folded) = fst owner" "pn_repository_identity (fs_pins folded) = snd owner"
    and app: "appended_to dir w name envelope dir'"
  shows "stream_verified E W dir' va owner
      = finish_load E W dir' folded (entries @ [entry_of envelope (sha256 E (canonical_bytes envelope))])"
    and "listed_names dir' = map (\<lambda>(_, _, name). name) named @ [name]"
    and "name \<notin> set (listing_of dir)"
proof -
  let ?digest = "sha256 E (canonical_bytes envelope)" and ?names = "map (\<lambda>(_, _, name). name) named"
  note stored = accepted_event_stored [OF acc, of dir']
  have app': "same_evidence dir dir'" "rd_event_names dir' = note_name name (rd_event_names dir)"
    "rd_run dir' (event_path name) = Some (RegularFile (canonical_bytes envelope))"
    "\<And>n. n \<noteq> name \<Longrightarrow> rd_run dir' (event_path n) = rd_run dir (event_path n)"
    "rd_run dir' PUBLICATION_WITNESS_FILE_NAME = Some (RegularFile (integrity_bytes (dump_witness w)))"
    using app by (simp_all add: appended_to_def)
  have acc': "event_file_name (le_sequence envelope) (le_event_type envelope) = Inr name"
    "fold_step E None state (envelope, ?digest) = Inr folded"
    "witness_for envelope ?digest = Some w" "reads_witness W w"
    using acc by (simp_all add: accepted_event_def)
  have listing: "bounded_event_names (listing_of dir) = Inr named"
    using dir by (auto simp: listing_of_def bounded_event_names_def Let_def MAX_EVENT_FILES_def unique_def)
  note b = bounded_event_names_append [OF listing acc'(1) [unfolded len]]
  show "name \<notin> set (listing_of dir)" by (rule b(1))
  then have names': "rd_event_names dir' = Some (listing_of dir @ [name])"
    using app'(2) by (auto simp: note_name_def listing_of_def split: option.splits)
  have bounded': "bounded_event_names (listing_of dir @ [name]) = Inr (named @ [(le_sequence envelope, le_event_type envelope, name)])"
    using b(2) [OF room] len by simp
  then show "listed_names dir' = ?names @ [name]" using names' by (simp add: listed_names_def)
  have notin: "name \<notin> set ?names"
  proof
    assume "name \<in> set ?names"
    then obtain n ty where m: "(n, ty, name) \<in> set named" by auto
    obtain c where c: "claimed_names (listing_of dir) = Some c" "named = sort_key fst c"
      using listing by (rule bounded_event_names_Inr)
    show False using b(1) claimed_names_listed [OF c(1), of n ty name] c(2) m by simp
  qed
  have "stream_events E W dir' va owner ?names = Inr (state, entries)"
    using stream_events_same [OF app'(1), of ?names] app'(4) notin stream by metis
  moreover have "stream_step E W dir' va owner (state, entries) name = Inr (Some folded, entries @ [entry_of envelope ?digest])"
  proof -
    have "verify_entry_references E W dir va folded (payload_references (le_payload envelope)) = Inr ()"
      using refs verified_entry_references by (auto simp: references_verified_def)
    then have "verify_entry_references E W dir' va folded (payload_references (le_payload envelope)) = Inr ()"
      using verify_entry_references_same [OF app'(1) valid_item_references [OF stored(2) [OF app'(3)]]] by simp
    then show ?thesis
      using stored(1) [OF app'(3)] acc'(2) own by (cases owner) (simp add: stream_step_def entry_of_def Let_def)
  qed
  ultimately have "stream_events E W dir' va owner (?names @ [name]) = Inr (Some folded, entries @ [entry_of envelope ?digest])"
    by (simp add: stream_events_def rfold_snoc)
  then have "stream_verified E W dir' va owner
      = rbind (lift_lifecycle (check_witness folded (Some w)))
          (\<lambda>_. finish_load E W dir' folded (entries @ [entry_of envelope ?digest]))"
    using stream_verified_finish [OF names' bounded' _ app'(5) _ parse_witness_read [OF acc'(3,4)]] acc'(4)
    by (simp add: reads_witness_def)
  moreover have "check_witness folded (Some w) = Inr ()"
    using fold_step_identity [OF acc'(2) stored(2) [OF app'(3)]] by (intro appended_witness_ok [OF acc]) auto
  ultimately show "stream_verified E W dir' va owner
      = finish_load E W dir' folded (entries @ [entry_of envelope ?digest])" by simp
qed

section \<open>The files beside the chain after an append\<close>

definition applied_path :: "pystr \<Rightarrow> pystr" where
  "applied_path i = join_on 47 [OPERATIONS_DIRECTORY, i, artifact_file_name APPLIED_FILE_NAME]"

text \<open>
  Nothing stands in the way of the next load: the transcripts the state announces are absent or regular
  files, and the operation whose transition the event is has no applied receipt yet.
\<close>

definition side_files_free :: "run_directory \<Rightarrow> fold_state option \<Rightarrow> fold_state \<Rightarrow> bool" where
  "side_files_free dir state folded \<longleftrightarrow>
     (\<forall>p \<in> set (fs_prospective_paths folded). \<forall>k. rd_run dir p \<noteq> Some (UnsafeNode k))
     \<and> (\<forall>item \<in> set (fs_causative_events folded).
          item \<in> set (case state of None \<Rightarrow> [] | Some s \<Rightarrow> fs_causative_events s)
          \<or> (case item of (i, _, _, sha) \<Rightarrow> sha256_hex i \<and> sha256_hex sha \<and> rd_run dir (applied_path i) = None))"

lemma rfold_total: "(\<And>x s. x \<in> set xs \<Longrightarrow> \<exists>t. step s x = Inr t) \<Longrightarrow> \<exists>t. rfold step s xs = Inr t"
proof (induction xs arbitrary: s)
  case (Cons x xs)
  obtain t where "step s x = Inr t" using Cons.prems by (meson list.set_intros(1))
  moreover obtain u where "rfold step t xs = Inr u" using Cons by (meson list.set_intros(2))
  ultimately show ?case by simp
qed simp

lemma rfold_each: "rfold step s xs = Inr t \<Longrightarrow> x \<in> set xs \<Longrightarrow> \<exists>a b. step a x = Inr b"
  by (induction xs arbitrary: s) auto

lemma applied_address:
  assumes "sha256_hex i"
  shows "operation_artifact_path i APPLIED_FILE_NAME None = Inr (applied_path i)" and "\<not> protocol_path (applied_path i)"
    and "list_ex (\<lambda>p. p = [] \<or> p = lit ''.'' \<or> p = lit ''..'') (split_on 47 (applied_path i)) = False"
proof -
  show o: "operation_artifact_path i APPLIED_FILE_NAME None = Inr (applied_path i)"
    using assms by (simp add: operation_artifact_path_def applied_path_def run_level_artifacts_def)
  show "\<not> protocol_path (applied_path i)" using operations_hd [OF o] protocol_path_hd by fastforce
  have "split_on 47 (applied_path i) = [OPERATIONS_DIRECTORY, i, artifact_file_name APPLIED_FILE_NAME]"
    unfolding applied_path_def using sha256_hex_no_slash [OF assms]
    by (intro split_address) (auto simp: OPERATIONS_DIRECTORY_def lit_def)
  moreover have "i \<noteq> []" "i \<noteq> lit ''.''" "i \<noteq> lit ''..''" using assms by (auto simp: sha256_hex_def lit_def)
  ultimately show "list_ex (\<lambda>p. p = [] \<or> p = lit ''.'' \<or> p = lit ''..'') (split_on 47 (applied_path i)) = False"
    by (simp add: OPERATIONS_DIRECTORY_def)
qed

text \<open>An item of an earlier load is answered in the same way by the directory after the append.\<close>

lemma applied_step_kept:
  assumes "applied_step dir pins entries m item = Inr m'" and "same_evidence dir dir'"
  shows "\<exists>q. applied_step dir' pins (entries @ later) n item = Inr q"
proof -
  obtain i event_id version sha where item: "item = (i, event_id, version, sha)" by (cases item)
  obtain entry receipt path where h: "nth_opt entries (nat (version - 1)) = Some entry" "ce_event_id entry = event_id"
    "applied_receipt_of pins i entry sha = Some receipt" "operation_artifact_path i APPLIED_FILE_NAME None = Inr path"
    and r: "\<exists>present. read_relative (rd_run dir) path MAX_LIFECYCLE_DOCUMENT_BYTES True = Inr present
        \<and> (\<forall>b. present = Some b \<longrightarrow> b = artifact_bytes (AppliedArtifact receipt))"
    using assms(1) unfolding item applied_step_def
    by (auto split: option.splits simp: Let_def)
  have "\<not> protocol_path path" using operations_hd [OF h(4)] protocol_path_hd by fastforce
  then have same: "rd_run dir' path = rd_run dir path" using assms(2) by (simp add: same_evidence_def)
  have "read_relative (rd_run dir') path MAX_LIFECYCLE_DOCUMENT_BYTES True
      = read_relative (rd_run dir) path MAX_LIFECYCLE_DOCUMENT_BYTES True"
    by (simp add: read_relative_def read_named_def same)
  moreover have "nth_opt (entries @ later) (nat (version - 1)) = Some entry"
    using h(1) by (simp add: nth_append)
  moreover obtain present where "read_relative (rd_run dir) path MAX_LIFECYCLE_DOCUMENT_BYTES True = Inr present"
    and "present = None \<or> present = Some (artifact_bytes (AppliedArtifact receipt))"
    using r by (metis option.exhaust)
  ultimately show ?thesis
    using h unfolding item applied_step_def by (auto simp: nth_opt_def)
qed

lemma applied_step_new:
  assumes i: "sha256_hex i" "sha256_hex sha" and absent: "rd_run dir' (applied_path i) = None"
    and entry: "nth_opt entries (nat (version - 1)) = Some entry" "ce_event_id entry = event_id"
    and ok: "sha256_hex event_id" "1 \<le> ce_state_version entry" "valid_operation_pins pins"
  shows "applied_step dir' pins entries m (i, event_id, version, sha) = Inr (m @ [i])"
proof -
  have "\<exists>r. applied_receipt_of pins i entry sha = Some r"
    using i entry ok by (simp add: applied_receipt_of_def validate_applied_receipt_def operation_version_def)
  then obtain receipt where receipt: "applied_receipt_of pins i entry sha = Some receipt" by blast
  have "read_relative (rd_run dir') (applied_path i) MAX_LIFECYCLE_DOCUMENT_BYTES True = Inr None"
    using absent applied_address(3) [OF i(1)] by (simp add: read_relative_def read_named_def)
  then show ?thesis
    using entry receipt applied_address(1) [OF i(1)] by (simp add: applied_step_def nth_opt_def)
qed

text \<open>The projection of the earlier state, or none, or one that is not a projection, does not stop a load.\<close>

lemma projection_status_later:
  assumes "projection_status ld s payload = Inr p" and "projection_document t = Some document"
    and "fs_sequence s \<le> fs_sequence t"
    and "\<And>b kvs n. expected_projection s = Some b \<Longrightarrow> ld b = Some (JObj kvs)
      \<Longrightarrow> obj_get (JObj kvs) (lit ''state_version'') = Some (JInt n) \<Longrightarrow> n = fs_sequence s"
  shows "\<exists>q. projection_status ld t payload = Inr q"
proof -
  have t: "projection_bytes (fs_record t) (fs_sequence t) (fs_event_id t) = Some (integrity_bytes document)"
    using assms(2) by (simp add: projection_bytes_def projection_document_def)
  obtain b where b: "expected_projection s = Some b"
    using assms(1) by (auto simp: projection_status_def expected_projection_def)
  show ?thesis
  proof (cases payload)
    case None
    then show ?thesis using t by (simp add: projection_status_def)
  next
    case (Some given)
    have old: "given = b \<or> (\<forall>kvs n. ld given = Some (JObj kvs) \<longrightarrow> obj_get (JObj kvs) (lit ''state_version'') = Some (JInt n)
        \<longrightarrow> \<not> (obj_get (JObj kvs) (lit ''schema_version'') = Some (JInt 3) \<and> n > fs_sequence s))"
      using assms(1) b Some by (auto simp: projection_status_def expected_projection_def Let_def split: if_splits)
    have late: "\<not> (obj_get (JObj kvs) (lit ''schema_version'') = Some (JInt 3) \<and> n > fs_sequence t)"
      if "ld given = Some (JObj kvs)" "obj_get (JObj kvs) (lit ''state_version'') = Some (JInt n)" for kvs n
      using old assms(3) assms(4) [OF b] that by fastforce
    then show ?thesis
      using t Some unfolding projection_status_def
      by (auto simp: Let_def raise_if_def split: option.splits json.splits)
  qed
qed

lemma projection_status_current:
  "projection_document t = Some document \<Longrightarrow> projection_status ld t (Some (integrity_bytes document)) = Inr CURRENT"
  by (simp add: projection_status_def projection_bytes_def projection_document_def)

definition stored_projection :: "run_directory \<Rightarrow> bytes option" where
  "stored_projection dir = (case read_named (rd_run dir) STATE_FILE_NAME MAX_STATE_BYTES True of Inl _ \<Rightarrow> Some [] | Inr p \<Rightarrow> p)"

definition no_new_unsafe :: "run_directory \<Rightarrow> run_directory \<Rightarrow> bool" where
  "no_new_unsafe dir dir' \<longleftrightarrow> (\<forall>p k. rd_run dir' p = Some (UnsafeNode k) \<longrightarrow> rd_run dir p = Some (UnsafeNode k))"

lemma stages_safe:
  "no_new_unsafe dir (event_stage w name envelope dir)"
  "no_new_unsafe dir (projection_stage w name envelope document dir)"
  by (simp_all add: no_new_unsafe_def projection_stage_def event_stage_def witness_stage_def put_file_def)

lemma prospective_free:
  "\<forall>p \<in> set ps. \<forall>k. files p \<noteq> Some (UnsafeNode k) \<Longrightarrow> rfold (\<lambda>_ p. check_prospective_path files p) () ps = Inr ()"
proof (induction ps)
  case (Cons p ps)
  then have "check_prospective_path files p = Inr ()"
    by (auto simp: check_prospective_path_def split: option.split file_node.split)
  with Cons show ?case by simp
qed simp

lemma finish_appended:
  assumes old: "\<forall>item \<in> set items. \<exists>m m'. applied_step dir (fs_pins folded) entries m item = Inr m'"
    and items: "items = (case state of None \<Rightarrow> [] | Some s \<Rightarrow> fs_causative_events s)"
    and caused: "fs_causative_events folded = items
      \<or> (\<exists>i. fs_causative_events folded = items @ [(i, le_event_id envelope, le_state_version envelope, digest)])"
    and side: "side_files_free dir state folded" and len: "le_sequence envelope = int (length entries) + 1"
    and v: "valid_item E (envelope, digest)" and pins: "le_pins envelope = fs_pins folded"
    and app: "same_evidence dir dir'" "no_new_unsafe dir dir'"
    and status: "projection_status (loads W) folded (stored_projection dir') = Inr q"
  shows "\<exists>missing. finish_load E W dir' folded (entries @ [entry_of envelope digest])
    = Inr \<lparr>lv_record = fs_record folded, lv_state = folded, lv_chain = entries @ [entry_of envelope digest],
           lv_projection = q, lv_missing_applied = missing\<rparr>"
proof -
  let ?entries = "entries @ [entry_of envelope digest]"
  have "\<exists>m'. applied_step dir' (fs_pins folded) ?entries m item = Inr m'"
    if item: "item \<in> set (fs_causative_events folded)" for item m
  proof (cases "item \<in> set items")
    case True
    then show ?thesis using old applied_step_kept app(1) by blast
  next
    case False
    then obtain i where i: "item = (i, le_event_id envelope, le_state_version envelope, digest)"
      using item caused by auto
    then have c: "sha256_hex i" "sha256_hex digest" "rd_run dir (applied_path i) = None"
      using side item False items unfolding side_files_free_def by fastforce+
    have ev: "le_state_version envelope = le_sequence envelope" "sha256_hex (le_event_id envelope)"
      "validate_event_pins (le_pins envelope)"
      using v by (auto simp: valid_item_def validate_event_def)
    have "applied_step dir' (fs_pins folded) ?entries m item = Inr (m @ [i])"
      unfolding i
    proof (rule applied_step_new [OF c(1,2)])
      show "rd_run dir' (applied_path i) = None"
        using c app(1) applied_address(2) [OF c(1)] by (simp add: same_evidence_def)
      show "nth_opt ?entries (nat (le_state_version envelope - 1)) = Some (entry_of envelope digest)"
        using ev(1) len by (simp add: nth_append)
      show "ce_event_id (entry_of envelope digest) = le_event_id envelope" by (simp add: entry_of_def)
      show "1 \<le> ce_state_version (entry_of envelope digest)" using ev(1) len by (simp add: entry_of_def)
      show "valid_operation_pins (fs_pins folded)" using ev(3) pins by (simp add: validate_event_pins_def)
    qed (rule ev(2))
    then show ?thesis by blast
  qed
  then obtain missing where m: "rfold (applied_step dir' (fs_pins folded) ?entries) [] (fs_causative_events folded) = Inr missing"
    using rfold_total [of "fs_causative_events folded" "applied_step dir' (fs_pins folded) ?entries"] by metis
  have "rfold (\<lambda>_ p. check_prospective_path (rd_run dir') p) () (fs_prospective_paths folded) = Inr ()"
    using side app(2) by (intro prospective_free) (auto simp: side_files_free_def no_new_unsafe_def)
  then show ?thesis
    using m status by (simp add: finish_load_def stored_projection_def Let_def)
qed

lemma finish_load_Inr:
  assumes "finish_load E W dir state entries = Inr v"
  shows "projection_status (loads W) state (stored_projection dir) = Inr (lv_projection v)"
    and "\<forall>item \<in> set (fs_causative_events state). \<exists>m m'. applied_step dir (fs_pins state) entries m item = Inr m'"
    and "lv_state v = state" and "lv_chain v = entries" and "lv_record v = fs_record state"
proof -
  from assms obtain m where r: "rfold (applied_step dir (fs_pins state) entries) [] (fs_causative_events state) = Inr m"
    and rest: "projection_status (loads W) state (stored_projection dir) = Inr (lv_projection v)"
      "lv_state v = state" "lv_chain v = entries" "lv_record v = fs_record state"
    by (auto simp: finish_load_def stored_projection_def Let_def)
  show "projection_status (loads W) state (stored_projection dir) = Inr (lv_projection v)" by (rule rest(1))
  show "lv_state v = state" by (rule rest(2))
  show "lv_chain v = entries" by (rule rest(3))
  show "lv_record v = fs_record state" by (rule rest(4))
  show "\<forall>item \<in> set (fs_causative_events state). \<exists>m m'. applied_step dir (fs_pins state) entries m item = Inr m'"
    by (intro ballI rfold_each [OF r])
qed

end
