(* ===== verification/Append_Facts.thy ===== *)
theory Append_Facts
  imports Publication_Stages
begin

text \<open>
  What appending an event leaves behind: the three outcomes of an interrupted or completed
  publication, as the next verified load of the directory sees them.
\<close>

section \<open>Publication of an envelope\<close>

lemma publish_envelope_cases:
  assumes "publish_envelope E W disk authority envelope s = (t, r)" and "tip_sequence (es_state s) < le_sequence envelope"
  obtains (refused) e where "r = Inl e" and "same_store s t"
    | (published) folded u x where "le_sequence envelope = tip_sequence (es_state s) + 1"
        and "fold_step E (Some (es_pins s)) (es_state s) (envelope, sha256 E (canonical_bytes envelope)) = Inr folded"
        and "same_store s u" and "publish_folded E W disk envelope (sha256 E (canonical_bytes envelope)) folded u = (t, x)"
        and "r = (case x of Inl e \<Rightarrow> Inl e | Inr _ \<Rightarrow>
               Inr \<lparr>ev_event = envelope, ev_sha256 = sha256 E (canonical_bytes envelope), ev_duplicate = False\<rparr>)"
proof -
  let ?digest = "sha256 E (canonical_bytes envelope)"
  show ?thesis
  proof (cases "(le_event_type envelope = STATE_TRANSITIONED \<and> \<not> authority) \<or> le_sequence envelope \<noteq> tip_sequence (es_state s) + 1")
    case True
    with assms have "t = s" and "r = Inl (lifecycle_refusal EventConflict)"
      by (auto simp: publish_envelope_def Let_def split: if_splits)
    then show ?thesis by (intro refused) auto
  next
    case False
    with assms have run: "a_bind (a_pure (lifecycle_result (fold_step E (Some (es_pins s)) (es_state s) (envelope, ?digest)))) (\<lambda>folded.
         a_bind (case es_state s of None \<Rightarrow> a_return () | Some state \<Rightarrow> check_tip (fs_sequence state)) (\<lambda>_.
         a_bind (publish_folded E W disk envelope ?digest folded) (\<lambda>_.
         a_return \<lparr>ev_event = envelope, ev_sha256 = ?digest, ev_duplicate = False\<rparr>))) s = (t, r)"
      by (auto simp: publish_envelope_def Let_def)
    from run show ?thesis
    proof (cases rule: a_bind_cases)
      case (raised e)
      then show ?thesis using refused by auto
    next
      case f: (returned u folded)
      have u: "u = s" and step: "fold_step E (Some (es_pins s)) (es_state s) (envelope, ?digest) = Inr folded"
        using f(1) by (auto split: sum.splits)
      have inert: "inert (case es_state s of None \<Rightarrow> a_return () | Some state \<Rightarrow> check_tip (fs_sequence state))"
        by (simp add: inert_rules split: option.split)
      show ?thesis
        using f(2) unfolding u
      proof (cases rule: a_bind_cases)
        case (raised e)
        then show ?thesis using refused inert_run [OF inert] by blast
      next
        case c: (returned u' x)
        have u': "same_store s u'" by (rule inert_run [OF inert c(1)])
        from c(2) show ?thesis
        proof (cases rule: a_bind_cases)
          case (raised e)
          then show ?thesis using published [OF _ step u' raised(1)] False by auto
        next
          case d: (returned u'' y)
          then show ?thesis using published [OF _ step u'] False by auto
        qed
      qed
    qed
  qed
qed


section \<open>The store and the directory it holds\<close>

text \<open>
  \<open>held\<close>: the store was opened on a directory that loads, and holds its state, its chain and its tip.
  \<open>fresh\<close>: the run has neither events nor a projection.
\<close>

definition held ::
  "pyenv \<Rightarrow> wire \<Rightarrow> bool \<Rightarrow> pystr \<times> pystr \<Rightarrow> event_store \<Rightarrow> lifecycle_view \<Rightarrow> bool" where
  "held E W va owner s v \<longleftrightarrow>
     stream_verified E W (es_disk s) va owner = Inr v \<and> es_state s = Some (lv_state v) \<and> es_entries s = lv_chain v
     \<and> es_pins s = fs_pins (lv_state v) \<and> es_names s = listed_names (es_disk s)
     \<and> es_witness s = read_named_or_none (rd_run (es_disk s)) PUBLICATION_WITNESS_FILE_NAME"

definition fresh :: "pystr \<times> pystr \<Rightarrow> event_store \<Rightarrow> bool" where
  "fresh owner s \<longleftrightarrow>
     es_state s = None \<and> es_entries s = [] \<and> es_names s = [] \<and> rd_event_names (es_disk s) = None
     \<and> rd_run (es_disk s) STATE_FILE_NAME = None
     \<and> pn_run_id (es_pins s) = fst owner \<and> pn_repository_identity (es_pins s) = snd owner"

definition ready :: "pyenv \<Rightarrow> wire \<Rightarrow> bool \<Rightarrow> pystr \<times> pystr \<Rightarrow> event_store \<Rightarrow> bool" where
  "ready E W va owner s \<longleftrightarrow> fresh owner s \<or> (\<exists>v. held E W va owner s v)"

text \<open>The JSON reader reads back what the store is about to write, and nothing from an empty file.\<close>

definition reads_back :: "wire \<Rightarrow> fold_state option \<Rightarrow> lifecycle_event \<Rightarrow> pystr \<Rightarrow> bool" where
  "reads_back W state envelope digest \<longleftrightarrow>
     reads_event W envelope \<and> (\<forall>w. witness_for envelope digest = Some w \<longrightarrow> reads_witness W w)
     \<and> (\<forall>st. state = Some st \<longrightarrow> reads_projection W st) \<and> loads W [] = None"

definition earlier_items :: "fold_state option \<Rightarrow> (pystr \<times> pystr \<times> int \<times> pystr) list" where
  "earlier_items state = (case state of None \<Rightarrow> [] | Some s \<Rightarrow> fs_causative_events s)"

lemma ready_listing:
  assumes "ready E W va owner s"
  obtains named where "rd_event_names (es_disk s) = None \<and> named = []
      \<or> bounded_event_names (listing_of (es_disk s)) = Inr named \<and> rd_event_names (es_disk s) \<noteq> None"
    and "stream_events E W (es_disk s) va owner (map (\<lambda>(_, _, name). name) named) = Inr (es_state s, es_entries s)"
    and "tip_sequence (es_state s) = int (length named)" and "length (es_entries s) = length named"
    and "es_names s = map (\<lambda>(_, _, name). name) named"
    and "pn_run_id (es_pins s) = fst owner" and "pn_repository_identity (es_pins s) = snd owner"
    and "\<forall>st. es_state s = Some st \<longrightarrow> es_pins s = fs_pins st \<and> fold_ok E st"
    and "\<forall>item \<in> set (earlier_items (es_state s)).
      \<exists>m m'. applied_step (es_disk s) (es_pins s) (es_entries s) m item = Inr m'"
    and "\<forall>st. es_state s = Some st \<longrightarrow> (\<exists>q. projection_status (loads W) st (stored_projection (es_disk s)) = Inr q)"
    and "es_state s = None \<longrightarrow> stored_projection (es_disk s) = None"
proof (cases "fresh owner s")
  case True
  then show ?thesis
    using that [of "[]"]
    by (simp add: fresh_def stream_events_def tip_sequence_def earlier_items_def stored_projection_def read_named_def)
next
  case False
  then obtain v where h: "held E W va owner s v" using assms by (auto simp: ready_def)
  then have load: "stream_verified E W (es_disk s) va owner = Inr v" by (simp add: held_def)
  obtain l named where p: "rd_event_names (es_disk s) = Some l" "bounded_event_names l = Inr named"
    "listed_names (es_disk s) = map (\<lambda>(_, _, name). name) named"
    "stream_events E W (es_disk s) va owner (listed_names (es_disk s)) = Inr (Some (lv_state v), lv_chain v)"
    and f: "finish_load E W (es_disk s) (lv_state v) (lv_chain v) = Inr v"
    using load by (rule loaded_parts)
  note ok = loaded_ok [OF load] and fin = finish_load_Inr [OF f]
  have len: "length (lv_chain v) = length named" "fs_sequence (lv_state v) = int (length named)"
    using ok(2,4) p(3) by (simp_all add: entries_match_def)
  show ?thesis
    by (rule that [of named]) (use h p ok fin(1,2) len in
      \<open>auto simp: held_def listing_of_def tip_sequence_def earlier_items_def\<close>)
qed


section \<open>The load after an append\<close>

lemma fold_step_unexpected:
  assumes "fold_step E (Some pins) state item = Inr folded"
  shows "fold_step E None state item = Inr folded"
proof (cases state)
  case None
  then show ?thesis using assms by (cases item) (auto simp: fold_step_def genesis_step_def Let_def)
qed (use assms fold_step_expected in metis)

lemma genesis_pins:
  "fold_step E (Some pins) None (envelope, digest) = Inr folded \<Longrightarrow> fs_pins folded = pins \<and> fs_causative_events folded = []"
  by (auto simp: fold_step_def genesis_step_def Let_def)

lemma folded_document:
  assumes "fold_step E None state (envelope, digest) = Inr folded" and "valid_item E (envelope, digest)"
    and "\<forall>st. state = Some st \<longrightarrow> fold_ok E st"
  obtains document where "projection_document folded = Some document"
proof -
  have "stream_ok E (None, [])" by (simp add: stream_ok_def)
  have "sound_record E folded"
  proof (cases state)
    case None
    then have "genesis_step E envelope digest None = Inr folded" using assms(1) by (simp add: fold_step_def)
    then have "fold_chain E None [(envelope, digest)] = Inr folded"
      by (simp add: fold_chain_def fold_loop_def fold_step_def)
    then show ?thesis using fold_chain_ok [of E None "[(envelope, digest)]" folded] assms(2) by (simp add: fold_ok_def)
  next
    case (Some st)
    then show ?thesis using fold_step_ok [OF assms(1)[unfolded Some] assms(2)] assms(3) by (simp add: fold_ok_def)
  qed
  moreover have "fs_event_id folded = le_event_id envelope" by (rule fold_step_identity [OF assms(1,2)])
  moreover have "fs_sequence folded = le_sequence envelope" by (rule step_tip [OF assms(1)])
  moreover have "sha256_hex (le_event_id envelope)" "1 \<le> le_sequence envelope" "le_sequence envelope \<le> MAX_STATE_VERSION"
    using assms(2) by (auto simp: valid_item_def validate_event_def valid_sequence_def MAX_STATE_VERSION_def MAX_EVENT_SEQUENCE_def)
  ultimately show ?thesis
    using that by (simp add: projection_document_def event_backed_state_document_def sound_record_def pins_agree_def
        is_policy_governed_def validate_tip_def)
qed

lemma appended_view:
  assumes ready: "ready E W va owner s" and built: "build_event E pins n ty at payload prev mid mi = Inr envelope"
    and fold: "fold_step E (Some (es_pins s)) (es_state s) (envelope, sha256 E (canonical_bytes envelope)) = Inr folded"
    and reader: "reads_back W (es_state s) envelope (sha256 E (canonical_bytes envelope))"
    and room: "length (listing_of (es_disk s)) < MAX_EVENT_FILES" and side: "side_files_free (es_disk s) (es_state s) folded"
    and w: "witness_for envelope (sha256 E (canonical_bytes envelope)) = Some w"
    and refs: "references_verified E W (es_disk s) (es_pins s) folded (payload_references (le_payload envelope))"
    and name: "event_file_name (le_sequence envelope) (le_event_type envelope) = Inr name"
    and app: "appended_to (es_disk s) w name envelope dir'" and safe: "no_new_unsafe (es_disk s) dir'"
    and proj: "stored_projection dir' = stored_projection (es_disk s)
      \<or> (\<exists>document. projection_document folded = Some document
           \<and> stored_projection dir' = (if length (integrity_bytes document) \<le> MAX_STATE_BYTES
                                       then Some (integrity_bytes document) else Some []))"
  shows "listed_names dir' = es_names s @ [name]"
    and "\<exists>q missing. projection_status (loads W) folded (stored_projection dir') = Inr q
      \<and> stream_verified E W dir' va owner
        = Inr \<lparr>lv_record = fs_record folded, lv_state = folded,
               lv_chain = es_entries s @ [entry_of envelope (sha256 E (canonical_bytes envelope))],
               lv_projection = q, lv_missing_applied = missing\<rparr>"
proof -
  let ?digest = "sha256 E (canonical_bytes envelope)"
  obtain named where r: "rd_event_names (es_disk s) = None \<and> named = []
      \<or> bounded_event_names (listing_of (es_disk s)) = Inr named \<and> rd_event_names (es_disk s) \<noteq> None"
    "stream_events E W (es_disk s) va owner (map (\<lambda>(_, _, name). name) named) = Inr (es_state s, es_entries s)"
    "tip_sequence (es_state s) = int (length named)" "length (es_entries s) = length named"
    "es_names s = map (\<lambda>(_, _, name). name) named"
    "pn_run_id (es_pins s) = fst owner" "pn_repository_identity (es_pins s) = snd owner"
    "\<forall>st. es_state s = Some st \<longrightarrow> es_pins s = fs_pins st \<and> fold_ok E st"
    "\<forall>item \<in> set (earlier_items (es_state s)). \<exists>m m'. applied_step (es_disk s) (es_pins s) (es_entries s) m item = Inr m'"
    "\<forall>st. es_state s = Some st \<longrightarrow> (\<exists>q. projection_status (loads W) st (stored_projection (es_disk s)) = Inr q)"
    "es_state s = None \<longrightarrow> stored_projection (es_disk s) = None"
    using ready by (rule ready_listing)
  note step = fold_step_unexpected [OF fold]
  have v: "valid_item E (envelope, ?digest)" using build_event_cases(1) [OF built] by (simp add: valid_item_def)
  note id = fold_step_identity [OF step v]
  have pins: "fs_pins folded = es_pins s"
    using genesis_pins fold id(4) r(8) by (cases "es_state s") auto
  have acc: "accepted_event E W (es_state s) envelope folded w name"
    unfolding accepted_event_def
  proof (intro conjI)
    show "\<exists>pins n ty at payload prev mid mi. build_event E pins n ty at payload prev mid mi = Inr envelope"
      using built by blast
  qed (use step w name reader in \<open>auto simp: reads_back_def\<close>)
  have seq: "le_sequence envelope = int (length named) + 1"
    using step_tip(3) [OF step] r(3) by (cases "es_state s") (auto simp: tip_sequence_def)
  have own: "pn_run_id (fs_pins folded) = fst owner" "pn_repository_identity (fs_pins folded) = snd owner"
    using r(6,7) pins by simp_all
  note load = appended_load [OF r(1,2) seq room acc refs [folded pins] own app]
  show "listed_names dir' = es_names s @ [name]" using load(2) r(5) by simp
  obtain document where doc: "projection_document folded = Some document"
    by (rule folded_document [OF step v]) (use r(8) in auto)
  have "\<exists>q. projection_status (loads W) folded (stored_projection dir') = Inr q"
    using proj
  proof (elim disjE exE conjE)
    assume same: "stored_projection dir' = stored_projection (es_disk s)"
    show ?thesis
    proof (cases "es_state s")
      case None
      then show ?thesis using r(11) same doc
        by (simp add: projection_status_def projection_bytes_def projection_document_def)
    next
      case (Some st)
      then obtain q where q: "projection_status (loads W) st (stored_projection (es_disk s)) = Inr q" using r(10) by blast
      have "fs_sequence st \<le> fs_sequence folded"
        using step_tip(2,3) [OF step] Some by simp
      then show ?thesis
        unfolding same
        by (rule projection_status_later [OF q doc]) (use reader Some in \<open>auto simp: reads_back_def reads_projection_def\<close>)
    qed
  next
    fix d
    assume d: "projection_document folded = Some d"
      "stored_projection dir' = (if length (integrity_bytes d) \<le> MAX_STATE_BYTES then Some (integrity_bytes d) else Some [])"
    show ?thesis
    proof (cases "length (integrity_bytes d) \<le> MAX_STATE_BYTES")
      case True
      then show ?thesis using d projection_status_current by auto
    next
      case False
      moreover have "loads W [] = None" using reader by (simp add: reads_back_def)
      ultimately show ?thesis using d
        by (auto simp: projection_status_def projection_bytes_def projection_document_def)
    qed
  qed
  then obtain q where q: "projection_status (loads W) folded (stored_projection dir') = Inr q" ..
  have caused: "fs_causative_events folded = earlier_items (es_state s)
      \<or> (\<exists>i. fs_causative_events folded = earlier_items (es_state s) @ [(i, le_event_id envelope, le_state_version envelope, ?digest)])"
  proof (cases "es_state s")
    case None
    then show ?thesis using genesis_pins fold by (simp add: earlier_items_def)
  next
    case (Some st)
    then show ?thesis using fold_step_causative [OF step [unfolded Some]] by (auto simp: earlier_items_def)
  qed
  have "\<exists>missing. finish_load E W dir' folded (es_entries s @ [entry_of envelope ?digest])
    = Inr \<lparr>lv_record = fs_record folded, lv_state = folded, lv_chain = es_entries s @ [entry_of envelope ?digest],
           lv_projection = q, lv_missing_applied = missing\<rparr>"
  proof (rule finish_appended [OF _ _ caused side _ v _ _ safe q])
    show "\<forall>item \<in> set (earlier_items (es_state s)). \<exists>m m'. applied_step (es_disk s) (fs_pins folded) (es_entries s) m item = Inr m'"
      using r(9) pins by simp
    show "earlier_items (es_state s) = (case es_state s of None \<Rightarrow> [] | Some s \<Rightarrow> fs_causative_events s)"
      by (simp add: earlier_items_def)
    show "le_sequence envelope = int (length (es_entries s)) + 1" using seq r(4) by simp
    show "le_pins envelope = fs_pins folded" by (rule id(1))
    show "same_evidence (es_disk s) dir'" using app by (simp add: appended_to_def)
  qed
  then show "\<exists>q missing. projection_status (loads W) folded (stored_projection dir') = Inr q
      \<and> stream_verified E W dir' va owner
        = Inr \<lparr>lv_record = fs_record folded, lv_state = folded,
               lv_chain = es_entries s @ [entry_of envelope ?digest],
               lv_projection = q, lv_missing_applied = missing\<rparr>"
    using load(1) q by auto
qed


section \<open>The outcomes of an append\<close>

definition appended_outcome ::
  "pyenv \<Rightarrow> wire \<Rightarrow> bool \<Rightarrow> pystr \<times> pystr \<Rightarrow> lifecycle_event \<Rightarrow> event_store \<Rightarrow> run_directory \<Rightarrow> lifecycle_view \<Rightarrow> bool" where
  "appended_outcome E W va owner envelope s dir' v' \<longleftrightarrow>
     stream_verified E W dir' va owner = Inr v'
     \<and> fold_step E (Some (es_pins s)) (es_state s) (envelope, sha256 E (canonical_bytes envelope)) = Inr (lv_state v')
     \<and> lv_record v' = fs_record (lv_state v')
     \<and> lv_chain v' = es_entries s @ [entry_of envelope (sha256 E (canonical_bytes envelope))]"

lemma ready_witness_refused:
  assumes "ready E W va owner s" and "witness_for envelope digest = Some w" and "reads_witness W w"
    and "le_sequence envelope = tip_sequence (es_state s) + 1"
  shows "stream_verified E W (witness_stage w (es_disk s)) va owner = Inl (Lifecycle EventChainBroken)"
proof (cases "fresh owner s")
  case True
  then show ?thesis by (simp add: stream_verified_def stage_files fresh_def)
next
  case False
  then obtain v where h: "held E W va owner s v" using assms(1) by (auto simp: ready_def)
  then show ?thesis
    using witness_stage_refused [of E W "es_disk s" va owner v envelope digest w] assms(2-4)
    by (simp add: held_def tip_sequence_def)
qed

lemma stored_projection_stage:
  "stored_projection (event_stage w name envelope dir) = stored_projection dir"
  "stored_projection (projection_stage w name envelope document dir)
     = (if length (integrity_bytes document) \<le> MAX_STATE_BYTES then Some (integrity_bytes document) else Some [])"
  by (simp_all add: stored_projection_def stage_files read_named_def raise_if_def)

lemma advanced_held:
  assumes "advanced s w name envelope (sha256 E (canonical_bytes envelope)) (lv_state v) t"
    and "stream_verified E W (es_disk t) va owner = Inr v"
    and "lv_chain v = es_entries s @ [entry_of envelope (sha256 E (canonical_bytes envelope))]"
    and "listed_names (es_disk t) = es_names s @ [name]" and "fs_pins (lv_state v) = es_pins s"
    and "rd_run (es_disk t) PUBLICATION_WITNESS_FILE_NAME = Some (RegularFile (integrity_bytes (dump_witness w)))"
    and "length (integrity_bytes (dump_witness w)) \<le> MAX_LIFECYCLE_DOCUMENT_BYTES"
  shows "held E W va owner t v"
  using assms by (simp add: held_def advanced_def read_named_or_none_def read_named_def)

lemma publish_envelope_outcomes:
  assumes ready: "ready E W va owner s" and built: "build_event E pins n ty at payload prev mid mi = Inr envelope"
    and new: "tip_sequence (es_state s) < le_sequence envelope"
    and reader: "reads_back W (es_state s) envelope (sha256 E (canonical_bytes envelope))"
    and room: "length (listing_of (es_disk s)) < MAX_EVENT_FILES"
    and side: "\<And>folded. fold_step E (Some (es_pins s)) (es_state s) (envelope, sha256 E (canonical_bytes envelope)) = Inr folded
      \<Longrightarrow> side_files_free (es_disk s) (es_state s) folded"
    and run: "publish_envelope E W disk authority envelope s = (t, r)"
  obtains (unchanged) e where "r = Inl e" and "es_disk t = es_disk s"
    | (wedged) e where "r = Inl e" and "stream_verified E W (es_disk t) va owner = Inl (Lifecycle EventChainBroken)"
    | (interrupted) e v' where "r = Inl e" and "appended_outcome E W va owner envelope s (es_disk t) v'"
    | (appended) v' where "r = Inr \<lparr>ev_event = envelope, ev_sha256 = sha256 E (canonical_bytes envelope), ev_duplicate = False\<rparr>"
        and "appended_outcome E W va owner envelope s (es_disk t) v'" and "held E W va owner t v'"
        and "\<And>document. projection_document (lv_state v') = Some document \<Longrightarrow>
          length (integrity_bytes document) \<le> MAX_STATE_BYTES \<Longrightarrow> lv_projection v' = CURRENT"
  using run new
proof (cases rule: publish_envelope_cases)
  case (refused e)
  then show ?thesis using unchanged by (simp add: same_store_def)
next
  case (published folded u x)
  let ?digest = "sha256 E (canonical_bytes envelope)"
  have u: "es_disk u = es_disk s" "es_pins u = es_pins s" "es_entries u = es_entries s" "es_names u = es_names s"
    using published(3) by (simp_all add: same_store_def)
  note step = fold_step_unexpected [OF published(2)]
  have v: "valid_item E (envelope, ?digest)" using build_event_cases(1) [OF built] by (simp add: valid_item_def)
  note view = appended_view [OF ready built published(2) reader room side [OF published(2)]]
  have pins: "fs_pins folded = es_pins s"
    using genesis_pins published(2) fold_step_identity(4) [OF step v] ready
    by (cases "es_state s") (auto simp: ready_def fresh_def held_def)
  from published(4) show ?thesis
  proof (cases rule: publish_folded_cases)
    case (refused e)
    then show ?thesis using unchanged published(5) u by simp
  next
    case (witness e w)
    then show ?thesis
      using wedged published(5) u ready_witness_refused [OF ready witness(2) _ published(1)] reader
      by (simp add: reads_back_def)
  next
    case (event e w name)
    obtain q missing where load: "stream_verified E W (es_disk t) va owner
        = Inr \<lparr>lv_record = fs_record folded, lv_state = folded, lv_chain = es_entries s @ [entry_of envelope ?digest],
               lv_projection = q, lv_missing_applied = missing\<rparr>" (is "_ = Inr ?view")
      using view(2) [OF event(2) event(3) [unfolded u] event(4) stages_appended(1) stages_safe(1)] event(6) u
      by (auto simp: stored_projection_stage)
    have "appended_outcome E W va owner envelope s (es_disk t) ?view"
      using load published(2) by (simp add: appended_outcome_def)
    then show ?thesis using interrupted published(5) event(1) by simp
  next
    case (projected w name document)
    note stage = projected(1) projected(2) [unfolded u] projected(3) stages_appended(2) stages_safe(2)
    obtain q missing where load: "stream_verified E W (es_disk t) va owner
        = Inr \<lparr>lv_record = fs_record folded, lv_state = folded, lv_chain = es_entries s @ [entry_of envelope ?digest],
               lv_projection = q, lv_missing_applied = missing\<rparr>" (is "_ = Inr ?view")
      and status: "projection_status (loads W) folded (stored_projection (es_disk t)) = Inr q"
      using view(2) [OF stage, of document] projected(5,6) u by (auto simp: stored_projection_stage)
    have names: "listed_names (es_disk t) = es_names s @ [name]"
      using view(1) [OF stage, of document] projected(5,6) u by (simp add: stored_projection_stage)
    have out: "appended_outcome E W va owner envelope s (es_disk t) ?view"
      using load published(2) by (simp add: appended_outcome_def)
    show ?thesis
    proof (cases x)
      case (Inl e)
      then show ?thesis using interrupted out published(5) by simp
    next
      case (Inr a)
      have "held E W va owner t ?view"
      proof (rule advanced_held)
        show "advanced s w name envelope ?digest (lv_state ?view) t" using projected(7) u by (simp add: advanced_def)
        show "length (integrity_bytes (dump_witness w)) \<le> MAX_LIFECYCLE_DOCUMENT_BYTES"
          using reader projected(1) by (simp add: reads_back_def reads_witness_def)
      qed (use load names pins projected(6) in \<open>simp_all add: stage_files\<close>)
      moreover have "q = CURRENT" if "projection_document folded = Some d" "length (integrity_bytes d) \<le> MAX_STATE_BYTES" for d
        using status that projected(5,6) u projection_status_current [of folded document "loads W"]
        by (simp add: stored_projection_stage)
      ultimately show ?thesis by (intro appended [OF _ out]) (use published(5) Inr in simp_all)
    qed
  qed
qed

end
