(* ===== verification/Declaration_Facts.thy ===== *)
theory Declaration_Facts
  imports Append_Facts
begin

text \<open>
  What a declared mutation guarantees: a declaration that was published has been simulated to its end, so
  its constituents fold one after the other onto the state the store now has, close the mutation, and
  leave the record body of the last planned change.
\<close>

text \<open>The event of a constituent of a declaration.\<close>

definition constituent_event :: "pyenv \<Rightarrow> pystr \<Rightarrow> lifecycle_event \<times> pystr \<Rightarrow> manifest_constituent \<Rightarrow> bool" where
  "constituent_event E mutation_id item c \<longleftrightarrow>
     (case item of (event, sha) \<Rightarrow>
        le_payload event = Constituent (mc_payload c) \<and> le_event_type event = mc_event_type c
        \<and> le_sequence event = mc_sequence c \<and> le_mutation_id event = Some mutation_id
        \<and> le_mutation_index event = Some (mc_index c) \<and> sha = sha256 E (canonical_bytes event))"

lemma build_event_mutation:
  assumes "build_event E pins n ty at payload prev mid mi = Inr e"
  shows "le_mutation_id e = mid" and "le_mutation_index e = mi"
proof -
  define doc where "doc =
        \<lparr>le_schema_version = LIFECYCLE_SCHEMA_VERSION, le_pins = pins, le_sequence = n,
         le_state_version = n, le_event_type = ty, le_recorded_at = at,
         le_mutation_id = mid, le_mutation_index = mi, le_payload = payload,
         le_payload_digest = integrity_digest E (dump_payload payload),
         le_prev_event_digest = prev, le_event_id = []\<rparr>"
  have "validate_event E (doc\<lparr>le_event_id := event_identity E doc\<rparr>) = Some e"
    using assms by (auto simp: build_event_def Let_def doc_def)
  then have "e = doc\<lparr>le_event_id := event_identity E doc\<rparr>" by (rule validate_event_id)
  then show "le_mutation_id e = mid" and "le_mutation_index e = mi" by (simp_all add: doc_def)
qed

lemma simulated_items:
  "rfold (simulate_constituent E pins mutation_id) s cs = Inr final \<Longrightarrow>
     \<exists>items. fold_from E s items = Inr final \<and> list_all (valid_item E) items
       \<and> list_all2 (constituent_event E mutation_id) items cs"
proof (induction cs arbitrary: s)
  case (Cons c cs)
  then obtain t where one: "simulate_constituent E pins mutation_id s c = Inr t"
    and r: "rfold (simulate_constituent E pins mutation_id) t cs = Inr final" by auto
  from one obtain candidate where b: "build_event E pins (mc_sequence c) (mc_event_type c) (mc_recorded_at c)
        (Constituent (mc_payload c)) (Some (fs_event_sha256 s)) (Some mutation_id) (Some (mc_index c)) = Inr candidate"
    and f: "fold_step E (Some pins) (Some s) (candidate, sha256 E (canonical_bytes candidate)) = Inr t"
    by (auto simp: simulate_constituent_def)
  obtain items where i: "fold_from E t items = Inr final" "list_all (valid_item E) items"
    "list_all2 (constituent_event E mutation_id) items cs"
    using Cons.IH [OF r] by blast
  let ?item = "(candidate, sha256 E (canonical_bytes candidate))"
  have "valid_item E ?item" using build_event_cases(1) [OF b] by (simp add: valid_item_def)
  moreover have "constituent_event E mutation_id ?item c"
    using build_event_cases [OF b] build_event_mutation [OF b] by (simp add: constituent_event_def)
  ultimately show ?case
    using i f fold_step_expected [of E "Some pins" s ?item] by (intro exI [of _ "?item # items"]) auto
qed simp

lemma declare_mutation_cases:
  assumes "declare_mutation E W disk action command initiated_at evidence changes s = (t, Inr d)"
  obtains st cs envelope final a where "es_state s = Some st" and "fs_open_mutation st = None"
    and "plan_constituents E st 1 None changes = Inr cs"
    and "d = planned_declaration E st action command initiated_at evidence changes cs"
    and "envelope_of E s APPLICATION_MUTATION_DECLARED (ApplicationMutationDeclared d) initiated_at None None = Inr envelope"
    and "simulate_declaration E (es_pins s) st envelope d = Inr final"
    and "publish_envelope E W disk False envelope s = (t, Inr a)"
  using assms
  by (auto simp: declare_mutation_def returns_simps require_state_def Let_def lifecycle_result_Inr
      simp del: a_raise_if_run a_bind_runs)

lemma append_returned:
  assumes "publish_envelope E W disk authority envelope s = (t, Inr a)" and "tip_sequence (es_state s) < le_sequence envelope"
    and "fold_step E (Some (es_pins s)) (es_state s) (envelope, sha256 E (canonical_bytes envelope)) = Inr folded"
  shows "es_state t = Some folded"
  using assms(1,2)
proof (cases rule: publish_envelope_cases)
  case (published folded' u x)
  then have x: "x = Inr ()" by (auto split: sum.splits)
  from published(4) show ?thesis
    by (cases rule: publish_folded_cases) (use x published(2) assms(3) in \<open>auto simp: advanced_def\<close>)
qed simp

lemma declaration_completes:
  assumes run: "declare_mutation E W disk action command initiated_at evidence changes s = (t, Inr d)"
    and ok: "es_state s = Some st" "fold_ok E st"
  shows "\<exists>declared items final. es_state t = Some declared \<and> fold_from E declared items = Inr final
    \<and> list_all2 (constituent_event E (md_mutation_id d)) items (md_constituents d)
    \<and> fs_open_mutation final = None \<and> body_digest E (fs_record final) = body_digest E (pc_after (last changes))"
  using run
proof (cases rule: declare_mutation_cases)
  case (1 st' cs envelope final a)
  have st: "st' = st" using 1(1) ok(1) by simp
  let ?digest = "sha256 E (canonical_bytes envelope)"
  obtain declared where dec: "fold_step E (Some (es_pins s)) (Some st) (envelope, ?digest) = Inr declared"
    and sim: "rfold (simulate_constituent E (es_pins s) (md_mutation_id d)) declared (md_constituents d) = Inr final"
    using 1(6) unfolding simulate_declaration_def st by auto
  have b: "build_event E (es_pins s) (tip_sequence (es_state s) + 1) APPLICATION_MUTATION_DECLARED initiated_at
      (ApplicationMutationDeclared d) (map_option fs_event_sha256 (es_state s)) None None = Inr envelope"
    using 1(5) by (auto simp: envelope_of_def Let_def)
  have "tip_sequence (es_state s) < le_sequence envelope" using build_event_cases(2) [OF b] by simp
  then have t: "es_state t = Some declared" using append_returned [OF 1(7)] dec 1(1) st by simp
  obtain items where i: "fold_from E declared items = Inr final" "list_all (valid_item E) items"
    "list_all2 (constituent_event E (md_mutation_id d)) items (md_constituents d)"
    using simulated_items [OF sim] by blast
  have "valid_item E (envelope, ?digest)" using build_event_cases(1) [OF b] by (simp add: valid_item_def)
  moreover have "fold_step E None (Some st) (envelope, ?digest) = Inr declared"
    using dec by (subst (asm) fold_step_expected)
  ultimately have "fs_open_mutation final = None \<and> body_digest E (fs_record final) = md_final_body_digest d"
    using declared_mutation_whole [OF _ build_event_cases(4) [OF b] i(1) _ ok(2)]
      i(2) list_all2_lengthD [OF i(3)] by simp
  moreover have "md_final_body_digest d = body_digest E (pc_after (last changes))"
    using 1(4) by (simp add: planned_declaration_def Let_def)
  ultimately show ?thesis using t i by auto
qed

end
