(* ===== verification/Clean_Text.thy ===== *)
theory Clean_Text
  imports Redaction_Facts
begin

text \<open>
  A test of two or three neighbouring characters at a time that a text passes only if no pattern of the
  redactor matches in it: every pattern has neighbouring characters of its own, and the test looks for them.
\<close>

definition clean_pair :: "nat \<Rightarrow> nat \<Rightarrow> bool" where
  "clean_pair a b \<longleftrightarrow>
     \<not> (a = 103 \<and> b = 104) \<and> \<not> (a = 120 \<and> b = 111)
     \<and> \<not> (a = 45 \<and> b = 45) \<and> \<not> (a = 114 \<and> b = 32) \<and> \<not> (a = 121 \<and> b = 74) \<and> \<not> (a = 47 \<and> b = 47)
     \<and> \<not> (fold_case a \<in> {121, 116, 100, 110} \<and> b \<in> {32, 9, 58, 61})"

definition clean_triple :: "nat \<Rightarrow> nat \<Rightarrow> nat \<Rightarrow> bool" where
  "clean_triple a b c \<longleftrightarrow>
     \<not> (a = 65 \<and> (b, c) \<in> {(75, 73), (83, 73), (71, 80), (73, 68), (82, 79), (78, 80), (78, 86), (66, 73), (67, 67)})"

fun clean_text :: "pystr \<Rightarrow> bool" where
  "clean_text (a # b # c # t) \<longleftrightarrow> clean_triple a b c \<and> clean_pair a b \<and> clean_text (b # c # t)"
| "clean_text [a, b] \<longleftrightarrow> clean_pair a b"
| "clean_text [a] \<longleftrightarrow> True"
| "clean_text [] \<longleftrightarrow> True"

lemma clean_text_nth: "clean_text t \<Longrightarrow> Suc p < length t \<Longrightarrow> clean_pair (t ! p) (t ! Suc p)"
  by (induction t arbitrary: p rule: clean_text.induct) (auto simp: nth_Cons split: nat.split)

lemma clean_text_triple:
  "clean_text t \<Longrightarrow> Suc (Suc p) < length t \<Longrightarrow> clean_triple (t ! p) (t ! Suc p) (t ! Suc (Suc p))"
  by (induction t arbitrary: p rule: clean_text.induct) (auto simp: nth_Cons split: nat.split)

inductive_cases chars_match: "re_matches E t (Chars P lo hi # items) p g e h"
inductive_cases choice_match: "re_matches E t (Choice alternatives # items) p g e h"
inductive_cases boundary_match: "re_matches E t (Boundary # items) p g e h"

lemma one_char:
  assumes "re_matches E t (Chars P 1 1 # items) p g e h"
  shows "p < length t \<and> P (t ! p) \<and> re_matches E t items (Suc p) g e h"
  using assms by (rule chars_match) (auto simp: run_of_def)

lemma one_char_simp:
  "re_matches E t (Chars P 1 1 # items) p g e h \<longleftrightarrow> p < length t \<and> P (t ! p) \<and> re_matches E t items (Suc p) g e h"
  "re_matches E t (Chars P (Suc 0) (Suc 0) # items) p g e h \<longleftrightarrow> p < length t \<and> P (t ! p) \<and> re_matches E t items (Suc p) g e h"
proof -
  have "re_matches E t (Chars P 1 1 # items) p g e h" if "p < length t" "P (t ! p)" "re_matches E t items (Suc p) g e h"
    using chars [of 1 1 1 P p t E items g e h] that by (auto simp: run_of_def)
  then show "re_matches E t (Chars P 1 1 # items) p g e h \<longleftrightarrow> p < length t \<and> P (t ! p) \<and> re_matches E t items (Suc p) g e h"
    using one_char by blast
  then show "re_matches E t (Chars P (Suc 0) (Suc 0) # items) p g e h \<longleftrightarrow> p < length t \<and> P (t ! p) \<and> re_matches E t items (Suc p) g e h"
    by simp
qed

lemma choice_simp: "re_matches E t (Choice alternatives # items) p g e h \<longleftrightarrow> (\<exists>a \<in> set alternatives. re_matches E t (a @ items) p g e h)"
  by (auto elim: choice_match intro: alternative)

lemma boundary_simp: "re_matches E t (Boundary # items) p g e h \<longleftrightarrow> word_boundary E t p \<and> re_matches E t items p g e h"
  by (auto elim: boundary_match intro: boundary)

lemmas first_items = one_char_simp choice_simp boundary_simp text_items_def ci_items_def lit_def

lemma clean_aws: "clean_text t \<Longrightarrow> \<not> re_matches E t aws_access_key_id p g e h"
  using clean_text_triple [of t p] by (auto simp: aws_access_key_id_def first_items clean_triple_def)

lemma clean_github: "clean_text t \<Longrightarrow> \<not> re_matches E t github_token p g e h"
  using clean_text_nth [of t p] by (auto simp: github_token_def first_items clean_pair_def)

lemma clean_slack: "clean_text t \<Longrightarrow> \<not> re_matches E t slack_token p g e h"
  using clean_text_nth [of t p] by (auto simp: slack_token_def first_items clean_pair_def)

lemma clean_private: "clean_text t \<Longrightarrow> \<not> re_matches E t private_key_block p g e h"
  using clean_text_nth [of t p] by (auto simp: private_key_block_def first_items clean_pair_def)

lemma clean_jwt: "clean_text t \<Longrightarrow> \<not> re_matches E t json_web_token p g e h"
  using clean_text_nth [of t "Suc p"] by (auto simp: json_web_token_def first_items clean_pair_def)

lemma clean_bearer: "clean_text t \<Longrightarrow> \<not> re_matches E t bearer_token p g e h"
  using clean_text_nth [of t "p + 5"] by (auto simp: bearer_token_def first_items clean_pair_def eval_nat_numeral)

lemma clean_url: "clean_text t \<Longrightarrow> \<not> re_matches E t url_userinfo p g e h"
proof
  assume c: "clean_text t" and m: "re_matches E t url_userinfo p g e h"
  obtain items where "url_userinfo = Boundary # Chars is_lower 1 1 # Chars (\<lambda>c. is_lower c \<or> is_digit c \<or> one_of ''+.-'' c) 1 31
     # Chars (\<lambda>x. x = 58) 1 1 # Chars (\<lambda>x. x = 47) 1 1 # Chars (\<lambda>x. x = 47) 1 1 # items"
    by (simp add: url_userinfo_def text_items_def lit_def)
  note shape = this
  from m [unfolded shape] have "re_matches E t (Chars (\<lambda>c. is_lower c \<or> is_digit c \<or> one_of ''+.-'' c) 1 31
     # Chars (\<lambda>x. x = 58) 1 1 # Chars (\<lambda>x. x = 47) 1 1 # Chars (\<lambda>x. x = 47) 1 1 # items) (Suc p) g e h"
    unfolding boundary_simp one_char_simp(1) by blast
  then obtain q where "re_matches E t (Chars (\<lambda>x. x = 58) 1 1 # Chars (\<lambda>x. x = 47) 1 1 # Chars (\<lambda>x. x = 47) 1 1 # items) q g e h"
    by (rule chars_match) blast
  then show False using clean_text_nth [OF c, of "Suc q"] by (simp add: first_items clean_pair_def)
qed

text \<open>A keyword is followed by blanks and a separator.\<close>

lemma clean_keyword:
  assumes c: "clean_text t" and m: "re_matches E t (Chars (\<lambda>x. fold_case x = k) 1 1 # blanks # Chars (one_of '':='') 1 1 # items) p g e h"
    and k: "k \<in> {121, 116, 100, 110}"
  shows False
proof -
  from m have a: "p < length t" "fold_case (t ! p) = k"
    and r: "re_matches E t (blanks # Chars (one_of '':='') 1 1 # items) (Suc p) g e h"
    by (auto simp: first_items)
  from r [unfolded blanks_def] obtain n where n: "run_of (one_of [CHR '' '', CHR 0x09]) n (drop (Suc p) t)"
    and s: "re_matches E t (Chars (one_of '':='') 1 1 # items) (Suc p + n) g e h"
    by (rule chars_match)
  have "Suc p < length t \<and> t ! Suc p \<in> {32, 9, 58, 61}"
  proof (cases n)
    case 0
    then show ?thesis using s by (auto simp: one_char_simp one_of_def lit_def)
  next
    case (Suc m)
    then show ?thesis using n by (auto simp: run_of_def one_of_def lit_def)
  qed
  then show False using clean_text_nth [OF c, of p] a k by (auto simp: clean_pair_def)
qed

lemma clean_credential: "clean_text t \<Longrightarrow> \<not> re_matches E t credential_assignment p g e h"
proof
  assume c: "clean_text t" and m: "re_matches E t credential_assignment p g e h"
  obtain items where i: "credential_assignment = [Choice
        [ci_items ''api'' @ [separator] @ ci_items ''key'',
         ci_items ''secret'' @ [separator] @ ci_items ''key'',
         ci_items ''secret'', ci_items ''password'', ci_items ''passwd'', ci_items ''token'',
         ci_items ''access'' @ [separator] @ ci_items ''key'']] @ blanks # Chars (one_of '':='') 1 1 # items"
    by (simp add: credential_assignment_def)
  have sep: "\<not> re_matches E t (separator # Chars (\<lambda>x. fold_case x = 107) 1 1 # Chars (\<lambda>x. fold_case x = 101) 1 1
      # Chars (\<lambda>x. fold_case x = 121) 1 1 # blanks # Chars (one_of '':='') 1 1 # items) q g e h" for q
  proof
    assume "re_matches E t (separator # Chars (\<lambda>x. fold_case x = 107) 1 1 # Chars (\<lambda>x. fold_case x = 101) 1 1
      # Chars (\<lambda>x. fold_case x = 121) 1 1 # blanks # Chars (one_of '':='') 1 1 # items) q g e h"
    then obtain n where "re_matches E t (Chars (\<lambda>x. fold_case x = 107) 1 1 # Chars (\<lambda>x. fold_case x = 101) 1 1
      # Chars (\<lambda>x. fold_case x = 121) 1 1 # blanks # Chars (one_of '':='') 1 1 # items) (q + n) g e h"
      unfolding separator_def by (rule chars_match)
    then show False using clean_keyword [OF c, of E 121] unfolding one_char_simp(1) by (metis insertI1 one_char_simp(1))
  qed
  have after: "\<not> re_matches E t (blanks # Chars (one_of '':='') (Suc 0) (Suc 0) # items) (Suc q) g e h"
    if "q < length t" "fold_case (t ! q) \<in> {121, 116, 100, 110}" for q
    using clean_keyword [OF c, of E "fold_case (t ! q)" items q g e h] that by (auto simp: one_char_simp)
  show False
    using m sep unfolding i by (auto simp: ci_items_def lit_def choice_simp one_char_simp after)
qed

lemma no_match_no_finding: "(\<And>p e h. \<not> re_matches E t items p (0, 0) e h) \<Longrightarrow> finditer E t items q = []"
  using finditer_sound matcher_sound by (metis list.set_intros(1) neq_Nil_conv prod_cases4)

lemma clean_text_kept: "clean_text t \<Longrightarrow> redact_text E t = (t, [])"
  by (simp add: redact_text_def collected_spans_def PATTERNS_def pattern_spans_def no_match_no_finding
      clean_aws clean_github clean_slack clean_private clean_jwt clean_bearer clean_url clean_credential)


section \<open>Documents whose strings are clean\<close>

text \<open>A character that is in no neighbourhood the test looks for.\<close>

definition neutral :: "nat \<Rightarrow> bool" where
  "neutral c \<longleftrightarrow> c \<in> {34, 44, 91, 93, 123, 125}"

lemma neutral_clean:
  assumes "neutral c"
  shows "clean_pair x c" and "clean_pair c x" and "clean_triple c x y" and "clean_triple x c y" and "clean_triple x y c"
  using assms unfolding neutral_def insert_iff empty_iff
  by (elim disjE FalseE; simp add: clean_pair_def clean_triple_def fold_case_def is_upper_def; fail)+

lemma clean_cons:
  assumes "\<And>x. clean_pair c x" and "\<And>x y. clean_triple c x y" and "clean_text t"
  shows "clean_text (c # t)"
  using assms by (cases t rule: clean_text.cases) auto

lemma clean_join: "clean_text xs \<Longrightarrow> clean_text (c # ys) \<Longrightarrow> neutral c \<Longrightarrow> clean_text (xs @ c # ys)"
proof (induction xs rule: clean_text.induct)
  case (2 a b)
  then show ?case using neutral_clean [of c] by (cases ys) auto
next
  case (3 a)
  then show ?case using neutral_clean [of c] by (cases ys) auto
qed auto

lemma clean_colon: "clean_text t \<Longrightarrow> clean_text (58 # t)"
  by (rule clean_cons) (auto simp: clean_pair_def clean_triple_def fold_case_def is_upper_def)

lemma clean_neutral: "neutral c \<Longrightarrow> clean_text t \<Longrightarrow> clean_text (c # t)"
  by (rule clean_cons) (auto intro: neutral_clean)

definition clean_string :: "pystr \<Rightarrow> bool" where
  "clean_string v \<longleftrightarrow> clean_text v \<and> list_all (\<lambda>c. escape_char c = [c] \<and> c < 128) v"

fun clean_json :: "json \<Rightarrow> bool" where
  "clean_json (JStr v) \<longleftrightarrow> clean_string v"
| "clean_json (JList xs) \<longleftrightarrow> list_all clean_json xs"
| "clean_json (JObj kvs) \<longleftrightarrow> list_all (\<lambda>(k, v). clean_string k \<and> clean_json v) kvs"
| "clean_json _ \<longleftrightarrow> True"

lemma unescaped: "list_all (\<lambda>c. escape_char c = [c]) v \<Longrightarrow> concat (map escape_char v) = v"
  by (induction v) auto

lemma clean_string_text: "clean_string v \<Longrightarrow> clean_text t \<Longrightarrow> clean_text (string_text v @ t)"
  using clean_join [of v 34 t] clean_neutral [of 34]
  by (auto simp: clean_string_def string_text_def unescaped neutral_def list_all_iff)

lemma clean_joined:
  "(\<And>x. x \<in> set ts \<Longrightarrow> clean_text x) \<Longrightarrow> neutral c \<Longrightarrow> clean_text (join_on c ts @ [d])" if "neutral d"
proof (induction c ts rule: join_on.induct)
  case (2 c p)
  then show ?case using that clean_join [of p d "[]"] by simp
next
  case (3 c p q ps)
  then show ?case using clean_join [of p c "join_on c (q # ps) @ [d]"] clean_neutral by simp
qed simp

lemma clean_digits: "list_all (\<lambda>c. 48 \<le> c \<and> c \<le> 57) t \<Longrightarrow> clean_text t"
  by (induction t rule: clean_text.induct) (auto simp: clean_pair_def clean_triple_def fold_case_def is_upper_def)

lemma digits_digits: "list_all (\<lambda>c. 48 \<le> c \<and> c \<le> 57) (nat_digits n)"
proof (induction n rule: nat_digits.induct)
  case (1 n)
  then show ?case by (subst nat_digits.simps) auto
qed

lemma clean_int: "clean_text (int_text i)"
proof -
  have d: "clean_text (nat_digits n)" for n using clean_digits digits_digits by blast
  have "clean_text (45 # nat_digits n)" for n
    using d [of n] digits_digits [of n]
    by (cases "nat_digits n" rule: clean_text.cases)
      (auto simp: clean_pair_def clean_triple_def fold_case_def is_upper_def)
  then show ?thesis using d by (simp add: int_text_def)
qed

theorem clean_json_dumps: "clean_json j \<Longrightarrow> clean_text (dumps j)"
proof (induction j rule: dumps.induct)
  case (2 b)
  then show ?case by (cases b) (simp_all add: lit_def clean_pair_def clean_triple_def fold_case_def is_upper_def)
next
  case (5 xs)
  then have "clean_text (join_on 44 (map dumps xs) @ [93])"
    by (intro clean_joined) (auto simp: neutral_def list_all_iff)
  then show ?case using clean_neutral [of 91] by (simp add: neutral_def)
next
  case (6 kvs)
  let ?texts = "map (\<lambda>(k, t). string_text k @ 58 # t) (sort_key fst (map (\<lambda>(k, v). (k, dumps v)) kvs))"
  have "clean_text (join_on 44 ?texts @ [125])"
    using 6 by (intro clean_joined) (auto simp: neutral_def list_all_iff intro!: clean_string_text clean_colon)
  then show ?case using clean_neutral [of 123] by (simp add: neutral_def)
qed (simp_all add: lit_def clean_pair_def clean_triple_def fold_case_def is_upper_def clean_int
      clean_string_text [where t = "[]", simplified])

lemma clean_json_kept: "clean_json j \<Longrightarrow> redact_text E (dumps j) = (dumps j, [])"
  by (intro clean_text_kept clean_json_dumps)


text \<open>Such a document is ASCII text.\<close>

lemma ascii_join: "(\<And>t. t \<in> set ts \<Longrightarrow> list_all (\<lambda>c. c < 128) t) \<Longrightarrow> list_all (\<lambda>c. c < 128) (join_on 44 ts :: pystr)"
  by (induction "44 :: nat" ts rule: join_on.induct) auto

lemma ascii_string: "clean_string v \<Longrightarrow> list_all (\<lambda>c. c < 128) (string_text v)"
  by (auto simp: clean_string_def string_text_def unescaped list_all_iff)

lemma clean_json_ascii: "clean_json j \<Longrightarrow> list_all (\<lambda>c. c < 128) (dumps j)"
proof (induction j rule: dumps.induct)
  case (2 b)
  then show ?case by (cases b) (simp_all add: lit_def)
next
  case (3 i)
  have "list_all (\<lambda>c. c < 128) (nat_digits n)" for n using digits_digits [of n] by (auto simp: list_all_iff)
  then show ?case by (simp add: int_text_def)
next
  case (5 xs)
  then have "list_all (\<lambda>c. c < 128) (join_on 44 (map dumps xs))" by (intro ascii_join) (auto simp: list_all_iff)
  then show ?case by simp
next
  case (6 kvs)
  let ?texts = "map (\<lambda>(k, t). string_text k @ 58 # t) (sort_key fst (map (\<lambda>(k, v). (k, dumps v)) kvs))"
  have "list_all (\<lambda>c. c < 128) (string_text k @ 58 # dumps v)" if "(k, v) \<in> set kvs" for k v
    using 6 that ascii_string [of k] by (auto simp: list_all_iff)
  then have "list_all (\<lambda>c. c < 128) (join_on 44 ?texts)" by (intro ascii_join) auto
  then show ?case by simp
qed (simp_all add: lit_def ascii_string)

lemma clean_json_encodes: "clean_json j \<Longrightarrow> encode_strict (dumps j) \<noteq> None"
  using clean_json_ascii [of j]
  by (auto simp: encode_strict_def refuse_if_def list_all_iff list_ex_iff is_surrogate_def)

end
