(* ===== verification/Append_Success.thy ===== *)
theory Append_Success
  imports Append_Facts Clean_Text
begin

text \<open>
  Progress of the append protocol: when every answer of the operating system is \<open>DURABLE\<close>, the fold
  accepts the event, its references verify, the three documents carry no text the redactor would change
  and nothing but regular files stands at their paths, the append returns. Also the append of an event
  that the chain already holds.
\<close>

abbreviation durable :: disk_answers where
  "durable \<equiv> (\<lambda>_. DURABLE)"

definition storable :: "pyenv \<Rightarrow> json \<Rightarrow> bool" where
  "storable E document \<longleftrightarrow>
     redact_text E (dumps document) = (dumps document, []) \<and> encode_strict (dumps document) \<noteq> None
     \<and> length (integrity_bytes document) \<le> MAX_ARTIFACT_BYTES"

definition writable :: "run_directory \<Rightarrow> pystr \<Rightarrow> bool" where
  "writable dir path \<longleftrightarrow> (\<forall>k. rd_run dir path \<noteq> Some (UnsafeNode k))"

lemma write_document_durable:
  assumes "storable E document" and "writable (es_disk s) path"
    and "exclusive \<Longrightarrow> rd_run (es_disk s) path = None"
  shows "\<exists>t w. write_document E durable path document exclusive s = (t, Inr w)
    \<and> (exclusive \<longrightarrow> rw_exclusive_outcome w = Some CREATED)"
proof -
  have "encode_strict (dumps document) = Some (integrity_bytes document)"
    using assms(1) by (auto simp: storable_def encode_strict_def refuse_if_def integrity_bytes_text split: if_splits)
  then show ?thesis
    using assms
    by (cases exclusive; auto simp: write_document_def write_redacted_artifact_def storable_def writable_def
        publish_exclusively_def publish_atomically_def ask_disk_def settle_def put_action_def a_bind_def)
qed

lemma publish_witness_durable:
  assumes "storable E document" and "writable (es_disk s) PUBLICATION_WITNESS_FILE_NAME"
  shows "\<exists>t. publish_witness E durable document s = (t, Inr ())"
  using write_document_durable [of E document s PUBLICATION_WITNESS_FILE_NAME False] assms
  by (auto simp: publish_witness_def a_bind_def)

lemma publish_event_durable:
  assumes "storable E document" and "rd_run (es_disk s) (event_path name) = None"
  shows "\<exists>t. publish_event E durable name document s = (t, Inr ())"
  using write_document_durable [of E document s "event_path name" True] assms
  by (auto simp: publish_event_def a_bind_def a_except_def writable_def)

lemma publish_projection_durable:
  assumes "storable E document" and "writable (es_disk s) STATE_FILE_NAME"
  shows "\<exists>t. publish_projection E durable document s = (t, Inr ())"
  using write_document_durable [of E document s STATE_FILE_NAME False] assms
  by (auto simp: publish_projection_def a_bind_def)

lemma settle_durable: "a_bind (ask_disk durable) (\<lambda>answer. settle answer x) s = (s\<lparr>es_barriers := es_barriers s + 1\<rparr>, Inr x)"
  by (simp add: ask_disk_def settle_def a_bind_def)

text \<open>A reference that has just been verified is also confirmed.\<close>

lemma verified_artifacts_each:
  "verified_artifacts E W dir pins rs = Inr artifacts \<Longrightarrow> r \<in> set rs \<Longrightarrow> \<exists>a. verify_reference E W dir pins r = Inr a"
  by (induction rs arbitrary: artifacts) auto

lemma confirm_references_durable:
  assumes "\<And>r. r \<in> set rs \<Longrightarrow> \<exists>a. verify_reference E W (es_disk s) pins r = Inr a"
  shows "\<exists>t. confirm_references E durable rs s = (t, Inr ()) \<and> same_store s t"
  using assms
proof (induction rs arbitrary: s)
  case (Cons r rs)
  then obtain a where v: "verify_reference E W (es_disk s) pins r = Inr a" by auto
  then obtain payload where p: "read_relative (if er_root r = ROOT_RUN then rd_run (es_disk s) else rd_root (es_disk s))
      (er_path r) (reference_ceiling r) False = Inr (Some payload)" "sha256 E payload = er_sha256 r"
    by (auto simp: verify_reference_def on_unavailable_Inr split: option.splits)
  define u where "u = s\<lparr>es_barriers := es_barriers s + 1\<rparr>"
  have u: "confirm_durable E durable (er_root r) (er_path r) (er_sha256 r) (reference_ceiling r) s = (u, Inr ())"
      "same_store s u"
    using p by (auto simp: confirm_durable_def settle_durable u_def same_store_def)
  have "es_disk u = es_disk s" using u(2) by (simp add: same_store_def)
  then obtain t where "confirm_references E durable rs u = (t, Inr ())" and "same_store u t"
    using Cons.IH [of u] Cons.prems by auto
  moreover from this u(1) have "confirm_references E durable (r # rs) s = (t, Inr ())"
    by (auto simp: confirm_references_def a_bind_returns a_except_returns)
  ultimately show ?case using u(2) by (auto simp: same_store_def)
qed (simp add: confirm_references_def same_store_def)

text \<open>The append of the next event completes.\<close>

definition next_event_clear ::
  "pyenv \<Rightarrow> wire \<Rightarrow> event_store \<Rightarrow> lifecycle_event \<Rightarrow> fold_state \<Rightarrow> publication_witness \<Rightarrow> pystr \<Rightarrow> json \<Rightarrow> bool" where
  "next_event_clear E W s envelope folded w name document \<longleftrightarrow>
     fold_step E (Some (es_pins s)) (es_state s) (envelope, sha256 E (canonical_bytes envelope)) = Inr folded
     \<and> references_verified E W (es_disk s) (es_pins s) folded (payload_references (le_payload envelope))
     \<and> witness_for envelope (sha256 E (canonical_bytes envelope)) = Some w
     \<and> event_file_name (le_sequence envelope) (le_event_type envelope) = Inr name
     \<and> projection_document folded = Some document
     \<and> storable E (dump_witness w) \<and> storable E (dump_event envelope) \<and> storable E document
     \<and> writable (es_disk s) PUBLICATION_WITNESS_FILE_NAME \<and> writable (es_disk s) STATE_FILE_NAME
     \<and> rd_run (es_disk s) (event_path name) = None"


lemma publish_folded_durable:
  assumes "next_event_clear E W s envelope folded w name document"
  shows "\<exists>t. publish_folded E W durable envelope (sha256 E (canonical_bytes envelope)) folded s = (t, Inr ())"
proof -
  let ?digest = "sha256 E (canonical_bytes envelope)" and ?refs = "payload_references (le_payload envelope)"
  note c = assms [unfolded next_event_clear_def]
  obtain artifacts where v: "verified_artifacts E W (es_disk s) (es_pins s) ?refs = Inr artifacts"
    "check_artifacts folded artifacts = Inr ()"
    using c by (auto simp: references_verified_def)
  obtain s1 where s1: "confirm_references E durable ?refs s = (s1, Inr ())" "same_store s s1"
    using confirm_references_durable [OF verified_artifacts_each [OF v(1)]] by blast
  have d1: "es_disk s1 = es_disk s" using s1(2) by (simp add: same_store_def)
  obtain s2 where s2: "publish_witness E durable (dump_witness w) s1 = (s2, Inr ())"
    using publish_witness_durable c d1 by metis
  then have "published PUBLICATION_WITNESS_FILE_NAME (integrity_bytes (dump_witness w))
      (s1\<lparr>es_witness := Some (integrity_bytes (dump_witness w))\<rparr>) s2"
    by (rule publish_witness_cases) auto
  then have d2: "es_disk s2 = witness_stage w (es_disk s)" by (simp add: published_def same_store_def witness_stage_def d1)
  have "rd_run (es_disk s2) (event_path name) = None" using c by (simp add: d2 stage_files)
  then obtain s3 where s3: "publish_event E durable name (dump_event envelope) s2 = (s3, Inr ())"
    using publish_event_durable c by metis
  then have "published (event_path name) (integrity_bytes (dump_event envelope)) (s2\<lparr>es_names := es_names s2 @ [name]\<rparr>) s3"
    by (rule publish_event_cases) auto
  then have d3: "es_disk s3 = event_stage w name envelope (es_disk s)"
    by (simp add: published_def same_store_def event_stage_def canonical_bytes_def d2)
  define s4 where "s4 = s3\<lparr>es_entries := es_entries s3 @ [entry_of envelope ?digest], es_state := Some folded\<rparr>"
  have "writable (es_disk s4) STATE_FILE_NAME" using c d3 by (simp add: writable_def s4_def stage_files)
  then obtain t where t: "publish_projection E durable document s4 = (t, Inr ())"
    using publish_projection_durable c by metis
  have "publish_folded E W durable envelope ?digest folded s = (t, Inr ())"
    using v s1(1) s2 s3 t c
    by (simp add: publish_folded_def Let_def verify_references_def a_bind_def lifecycle_result_def s4_def)
  then show ?thesis ..
qed

lemma held_tip:
  assumes "held E W va owner s v"
  shows "check_tip (fs_sequence (lv_state v)) s = (s, Inr ())"
proof -
  have load: "stream_verified E W (es_disk s) va owner = Inr v" using assms by (simp add: held_def)
  obtain l named where p: "rd_event_names (es_disk s) = Some l" "bounded_event_names l = Inr named"
    "listed_names (es_disk s) = map (\<lambda>(_, _, name). name) named"
    using load by (rule loaded_parts)
  have "int (length named) = fs_sequence (lv_state v)"
    using loaded_ok(2,4) [OF load] p(3) by (simp add: entries_match_def)
  then show ?thesis
    using assms p by (simp add: held_def check_tip_def a_bind_def Let_def)
qed

lemma publish_envelope_durable_tip:
  assumes "next_event_clear E W s envelope folded w name document"
    and "le_sequence envelope = tip_sequence (es_state s) + 1"
    and "le_event_type envelope = STATE_TRANSITIONED \<Longrightarrow> authority"
    and tip: "(case es_state s of None \<Rightarrow> a_return () | Some state \<Rightarrow> check_tip (fs_sequence state)) s = (s, Inr ())"
  shows "\<exists>t. publish_envelope E W durable authority envelope s
    = (t, Inr \<lparr>ev_event = envelope, ev_sha256 = sha256 E (canonical_bytes envelope), ev_duplicate = False\<rparr>)"
proof -
  let ?digest = "sha256 E (canonical_bytes envelope)"
  obtain t where t: "publish_folded E W durable envelope ?digest folded s = (t, Inr ())"
    using publish_folded_durable [OF assms(1)] by blast
  have "fold_step E (Some (es_pins s)) (es_state s) (envelope, ?digest) = Inr folded"
    using assms(1) by (simp add: next_event_clear_def)
  then have "publish_envelope E W durable authority envelope s
      = (t, Inr \<lparr>ev_event = envelope, ev_sha256 = ?digest, ev_duplicate = False\<rparr>)"
    using assms(2,3) t tip
    by (auto simp: publish_envelope_def Let_def lifecycle_result_def a_bind_Inr)
  then show ?thesis ..
qed

lemma publish_envelope_durable:
  assumes "ready E W va owner s" and "next_event_clear E W s envelope folded w name document"
    and "le_sequence envelope = tip_sequence (es_state s) + 1"
    and "le_event_type envelope = STATE_TRANSITIONED \<Longrightarrow> authority"
  shows "\<exists>t. publish_envelope E W durable authority envelope s
    = (t, Inr \<lparr>ev_event = envelope, ev_sha256 = sha256 E (canonical_bytes envelope), ev_duplicate = False\<rparr>)"
proof (rule publish_envelope_durable_tip [OF assms(2-4)])
  show "(case es_state s of None \<Rightarrow> a_return () | Some state \<Rightarrow> check_tip (fs_sequence state)) s = (s, Inr ())"
  proof (cases "fresh owner s")
    case True
    then show ?thesis by (simp add: fresh_def)
  next
    case False
    then obtain v where v: "held E W va owner s v" using assms(1) by (auto simp: ready_def)
    then show ?thesis using held_tip [OF v] by (simp add: held_def)
  qed
qed simp

section \<open>An event the chain already holds\<close>

lemma inert_established: "inert (confirm_established E W disk)"
  by (auto simp: confirm_established_def inert_rules require_state_def split: option.split)

lemma duplicate_append_run:
  assumes "publish_envelope E W disk authority envelope s = (t, r)" and "le_sequence envelope \<le> tip_sequence (es_state s)"
  shows "same_store s t"
    and "r = Inr a \<Longrightarrow> ev_duplicate a \<and> ev_event a = envelope
      \<and> (\<exists>entry. py_nth (es_entries s) (le_sequence envelope - 1) = Some entry
           \<and> ce_sha256 entry = sha256 E (canonical_bytes envelope))"
proof -
  let ?digest = "sha256 E (canonical_bytes envelope)"
  have run: "a_bind (a_pure (from_option (lifecycle_refusal PyIndexError) (py_nth (es_entries s) (le_sequence envelope - 1))))
      (\<lambda>existing. a_raise_if (ce_sha256 existing \<noteq> ?digest) (lifecycle_refusal EventConflict)
        (a_bind (confirm_established E W disk) (\<lambda>_.
         a_return \<lparr>ev_event = envelope, ev_sha256 = ?digest, ev_duplicate = True\<rparr>))) s = (t, r)"
    using assms by (simp add: publish_envelope_def Let_def)
  have "same_store s t \<and> (\<forall>a. r = Inr a \<longrightarrow> ev_duplicate a \<and> ev_event a = envelope
      \<and> (\<exists>entry. py_nth (es_entries s) (le_sequence envelope - 1) = Some entry \<and> ce_sha256 entry = ?digest))"
    using run
  proof (cases rule: a_bind_cases)
    case (raised e)
    then show ?thesis by (auto simp: same_store_def)
  next
    case f: (returned u existing)
    have u: "u = s" "py_nth (es_entries s) (le_sequence envelope - 1) = Some existing" using f(1) by auto
    show ?thesis
    proof (cases "ce_sha256 existing = ?digest")
      case False
      then show ?thesis using f(2) u by (auto simp: same_store_def)
    next
      case True
      then have "a_bind (confirm_established E W disk) (\<lambda>_.
         a_return \<lparr>ev_event = envelope, ev_sha256 = ?digest, ev_duplicate = True\<rparr>) s = (t, r)" using f(2) u by simp
      then show ?thesis
        by (cases rule: a_bind_cases) (use inert_run [OF inert_established] u True in auto)
    qed
  qed
  then show "same_store s t"
    and "r = Inr a \<Longrightarrow> ev_duplicate a \<and> ev_event a = envelope
      \<and> (\<exists>entry. py_nth (es_entries s) (le_sequence envelope - 1) = Some entry \<and> ce_sha256 entry = ?digest)"
    by blast+
qed

end
