(* ===== verification/Concrete_Append.thy ===== *)
theory Concrete_Append
  imports Append_Success Concrete_Facts "HOL-Library.Code_Target_Nat" "HOL-Library.Code_Target_Int"
begin

text \<open>
  The concrete run again, appended by the store itself: an empty store on an empty directory, whose first
  append publishes the genesis event. The reader of this instance reads nothing from an empty file.
\<close>

definition append_wire :: wire where
  "append_wire = demo_wire\<lparr>loads := (\<lambda>b. if b = [] then None else Some demo_document)\<rparr>"

definition append_store :: event_store where
  "append_store =
     \<lparr>es_pins = demo_pins, es_state = None, es_entries = [], es_names = [], es_witness = None,
      es_disk = \<lparr>rd_event_names = None, rd_run = Map.empty, rd_root = Map.empty\<rparr>, es_barriers = 0\<rparr>"

definition demo_projection_document :: json where
  "demo_projection_document = the (projection_document demo_state)"

lemma append_ready: "ready demo_env append_wire va demo_owner append_store"
  by (simp add: ready_def fresh_def append_store_def demo_owner_def demo_pins_def)

lemma demo_document_exists: "projection_document demo_state = Some demo_projection_document"
  by (simp add: demo_projection_document_def projection_document_def event_backed_state_document_def demo_state_def
        demo_record_def is_policy_governed_def MAX_STATE_VERSION_def validate_tip_def)

lemma demo_clean_event: "clean_json (dump_event demo_genesis)"
  by code_simp

lemma demo_clean_witness: "clean_json (dump_witness demo_witness)"
  by code_simp

lemma demo_clean_projection: "clean_json demo_projection_document"
  by code_simp


lemma storable_clean: "clean_json j \<Longrightarrow> json_weight j \<le> 16777216 \<Longrightarrow> storable E j"
  using clean_json_kept [of j E] clean_json_encodes [of j] length_integrity [of j]
  by (simp add: storable_def MAX_ARTIFACT_BYTES_def)

lemma demo_projection_shape:
  "demo_projection_document = obj_update (dump_run_record demo_record)
     [(lit ''schema_version'', JInt 3), (lit ''state_version'', JInt 1), (lit ''last_event_id'', JStr zeros)]"
  by (simp add: demo_projection_document_def projection_document_def event_backed_state_document_def demo_state_def
      demo_record_def is_policy_governed_def MAX_STATE_VERSION_def validate_tip_def dump_tip_def
      EVENT_BACKED_STATE_SCHEMA_VERSION_def)

lemma demo_storable: "storable demo_env (dump_event demo_genesis)" "storable demo_env (dump_witness demo_witness)"
  "storable demo_env demo_projection_document"
proof -
  have "json_weight (dump_event demo_genesis) \<le> 16777216"
    by (simp add: dump_event_def demo_genesis_def demo_event_def dump_pins_def demo_pins_def dump_run_record_def
        demo_record_def lit_def demo_time_def int_text_digit)
  then show "storable demo_env (dump_event demo_genesis)" by (rule storable_clean [OF demo_clean_event])
  have "json_weight (dump_witness demo_witness) \<le> 16777216"
    by (simp add: dump_witness_def demo_witness_def dump_pins_def demo_pins_def lit_def int_text_digit)
  then show "storable demo_env (dump_witness demo_witness)" by (rule storable_clean [OF demo_clean_witness])
  have "json_weight demo_projection_document \<le> 16777216" by code_simp
  then show "storable demo_env demo_projection_document" by (rule storable_clean [OF demo_clean_projection])
qed

lemma demo_witness_made: "witness_for demo_genesis zeros = Some demo_witness"
  by (simp add: witness_for_def validate_witness_def demo_witness_def demo_genesis_def demo_event_def
      LIFECYCLE_SCHEMA_VERSION_def valid_sequence_def MAX_EVENT_SEQUENCE_def MAX_STATE_VERSION_def)

lemma demo_genesis_name: "event_file_name (le_sequence demo_genesis) (le_event_type demo_genesis) = Inr demo_name"
  by (simp add: demo_genesis_def demo_event_def event_file_name_def demo_name_def MAX_EVENT_SEQUENCE_def MAX_STATE_VERSION_def)

lemma append_step:
  "fold_step demo_env (Some (es_pins append_store)) (es_state append_store) (demo_genesis, zeros) = Inr demo_state"
  by (simp add: append_store_def fold_step_def genesis_step_def demo_genesis_def demo_event_def GENESIS_TYPES_def
      genesis_record_def demo_pins_def demo_record_def demo_state_def)

lemma append_clear:
  "next_event_clear demo_env append_wire append_store demo_genesis demo_state demo_witness demo_name demo_projection_document"
  using append_step demo_witness_made demo_genesis_name demo_document_exists demo_storable
  by (simp add: next_event_clear_def references_verified_def check_artifacts_def writable_def append_store_def
      demo_genesis_def demo_event_def)

lemma integrity_not_empty: "integrity_bytes (JObj kvs) \<noteq> []"
  by (simp add: integrity_bytes_def authority_json_bytes_def utf8_def)

lemma append_reads: "reads_back append_wire (es_state append_store) demo_genesis (sha256 demo_env (canonical_bytes demo_genesis))"
proof -
  obtain kvs where e: "dump_event demo_genesis = JObj kvs" by (simp add: dump_event_def)
  obtain kvs' where w: "dump_witness demo_witness = JObj kvs'" by (simp add: dump_witness_def)
  have "reads_event append_wire demo_genesis"
    using integrity_not_empty [of kvs] demo_document_facts
    by (simp add: reads_event_def append_wire_def demo_wire_def canonical_bytes_def e demo_document_def
        LIFECYCLE_SCHEMA_VERSION_def)
  moreover have "reads_witness append_wire demo_witness"
    using integrity_not_empty [of kvs'] demo_document_facts demo_witness_size
    by (simp add: reads_witness_def append_wire_def demo_wire_def w demo_document_def LIFECYCLE_SCHEMA_VERSION_def)
  ultimately show ?thesis
    by (simp add: reads_back_def demo_witness_made append_store_def append_wire_def)
qed

lemma append_side: "side_files_free (es_disk append_store) (es_state append_store) demo_state"
  by (simp add: side_files_free_def append_store_def demo_state_def)

end
