(* ===== verification/Concrete_Declaration.thy ===== *)
theory Concrete_Declaration
  imports Declaration_Facts Concrete_Append
begin

text \<open>
  A declared mutation appended by the store: the bootstrapped concrete run (event 3) declares the two
  transitions from IDLE over PREFLIGHT to IMPLEMENTING as one application step (event 4), whose
  constituents will be events 5 and 6.
\<close>

definition boot_state :: fold_state where
  "boot_state = demo_state\<lparr>fs_sequence := 3, fs_prev_event_digest := Some zeros, fs_stage_start_bound := True,
     fs_policy_published := True\<rparr>"

definition record_in :: "run_status \<Rightarrow> run_record" where
  "record_in status = demo_record\<lparr>rr_workflow_state := status\<rparr>"

definition boot_change :: "run_status \<Rightarrow> run_status \<Rightarrow> planned_change" where
  "boot_change from_state to_state =
     \<lparr>pc_event_type = STATE_TRANSITIONED, pc_before = record_in from_state, pc_after = record_in to_state,
      pc_recorded_at = demo_time, pc_operation_id = None, pc_evidence = [], pc_ledger_entry = None,
      pc_accepted_result_sha256 = None, pc_rejection_source = None, pc_verdict_sha256 = None, pc_diagnostic = None\<rparr>"

definition boot_payload :: "run_status \<Rightarrow> run_status \<Rightarrow> constituent_payload" where
  "boot_payload from_state to_state = StateTransitioned
     \<lparr>tr_before_body_digest = zeros, tr_after_body_digest = zeros, tr_from_state = from_state,
      tr_to_state = to_state, tr_stop_reason = None, tr_updates = no_updates, tr_operation_id = None\<rparr>"

definition boot_constituent :: "int \<Rightarrow> run_status \<Rightarrow> run_status \<Rightarrow> manifest_constituent" where
  "boot_constituent i from_state to_state =
     \<lparr>mc_index = i, mc_event_type = STATE_TRANSITIONED, mc_sequence = 4 + i, mc_state_version = 4 + i,
      mc_recorded_at = demo_time, mc_before_body_digest = zeros, mc_after_body_digest = zeros,
      mc_payload = boot_payload from_state to_state\<rparr>"

definition boot_constituents :: "manifest_constituent list" where
  "boot_constituents = [boot_constituent 1 IDLE PREFLIGHT, boot_constituent 2 PREFLIGHT IMPLEMENTING]"

definition boot_changes :: "planned_change list" where
  "boot_changes = [boot_change IDLE PREFLIGHT, boot_change PREFLIGHT IMPLEMENTING]"

definition boot_declaration :: mutation_declaration where
  "boot_declaration = planned_declaration demo_env boot_state APPLICATION_STEP MC_START demo_time
     (ApplicationStepEvidence (lit ''start'')) boot_changes boot_constituents"

definition boot_event :: lifecycle_event where
  "boot_event = demo_event 4 None (ApplicationMutationDeclared boot_declaration)"

lemma record_in_valid: "status \<noteq> HUMAN_INTERVENTION_REQUIRED \<Longrightarrow>
  validate_run_record demo_env (record_in status) = Some (record_in status)"
  by (simp add: record_in_def demo_record_def validate_run_record_def scalar_fields_ok_def record_consistent_def
      STATE_SCHEMA_VERSION_def sorted_unique_def)

lemma record_in_updates: "record_updates_of demo_env (record_in x) (record_in y) = Inr no_updates"
proof -
  have same: "\<not> field_changed (record_in x) (record_in y) f" for f
    by (cases f) (simp_all add: field_changed_def record_in_def)
  then have "set (changed_fields (record_in x) (record_in y)) = {}" by simp
  then have "changed_fields (record_in x) (record_in y) = []" by (simp only: set_empty)
  then have "updates_between (record_in x) (record_in y) = no_updates"
    by (simp add: updates_between_def given_if_def no_updates_def Let_def same)
  then show ?thesis by (simp add: record_updates_of_def fixed_fields_equal_def record_in_def)
qed

lemma boot_payload_made:
  "planned_payload demo_env (boot_change x y) = Inr (boot_payload x y)"
proof -
  have "without_stop_reason no_updates = no_updates" by (simp add: without_stop_reason_def no_updates_def)
  moreover have "rr_workflow_state (record_in s) = s" "rr_stop_reason (record_in s) = None" for s
    by (simp_all add: record_in_def demo_record_def)
  ultimately show ?thesis
    by (simp add: planned_payload_def boot_change_def transition_payload_def record_in_updates constructed_def
        boot_payload_def)
qed

lemma boot_plan: "plan_constituents demo_env boot_state 1 None boot_changes = Inr boot_constituents"
proof -
  have "before_body_digest (boot_payload x y) = zeros" "after_body_digest (boot_payload x y) = zeros" for x y
    by (simp_all add: boot_payload_def)
  then show ?thesis
    by (simp add: boot_changes_def boot_payload_made boot_constituents_def boot_constituent_def constituent_in_range_def
        MAX_EVENT_SEQUENCE_def MAX_STATE_VERSION_def boot_change_def [of IDLE] boot_change_def [of PREFLIGHT]
        boot_state_def Let_def boot_payload_made [unfolded boot_change_def])
qed


lemma boot_payload_valid [simp]: "validate_constituent_payload demo_env (boot_payload x y)"
  by (simp add: boot_payload_def)

lemmas boot_defs = boot_declaration_def planned_declaration_def boot_constituents_def boot_constituent_def
  boot_state_def demo_state_def boot_changes_def boot_change_def boot_payload_def intended_of_def

lemma boot_transitions: "declared_transitions boot_constituents
  = [(1, \<lparr>tr_before_body_digest = zeros, tr_after_body_digest = zeros, tr_from_state = IDLE,
      tr_to_state = PREFLIGHT, tr_stop_reason = None, tr_updates = no_updates, tr_operation_id = None\<rparr>),
     (2, \<lparr>tr_before_body_digest = zeros, tr_after_body_digest = zeros, tr_from_state = PREFLIGHT,
      tr_to_state = IMPLEMENTING, tr_stop_reason = None, tr_updates = no_updates, tr_operation_id = None\<rparr>)]"
  by (simp add: boot_constituents_def boot_constituent_def boot_payload_def)

lemma boot_declaration_shape:
  "boot_declaration =
     \<lparr>md_schema_version = 1, md_mutation_id = zeros, md_pins = demo_pins, md_prior_event_id = zeros,
      md_prior_sequence = 3, md_prior_state_version = 3, md_prior_body_digest = zeros,
      md_action = APPLICATION_STEP, md_command = MC_START, md_initiated_at = demo_time,
      md_evidence = ApplicationStepEvidence (lit ''start''), md_constituents = boot_constituents,
      md_transitions = [\<lparr>it_index = 1, it_from_state = IDLE, it_to_state = PREFLIGHT, it_stop_reason = None, it_updates = no_updates\<rparr>,
         \<lparr>it_index = 2, it_from_state = PREFLIGHT, it_to_state = IMPLEMENTING, it_stop_reason = None, it_updates = no_updates\<rparr>],
      md_final_body_digest = zeros\<rparr>"
  by (simp add: boot_declaration_def planned_declaration_def boot_transitions intended_of_def Let_def boot_state_def
      demo_state_def LIFECYCLE_SCHEMA_VERSION_def)

lemma boot_declaration_valid: "validate_declaration_model demo_env boot_declaration"
  by (simp add: validate_declaration_model_def boot_declaration_shape LIFECYCLE_SCHEMA_VERSION_def boot_constituents_def
      boot_constituent_def boot_payload_def MAX_MANIFEST_CONSTITUENTS_def MAX_EVENT_SEQUENCE_def MAX_STATE_VERSION_def
      intended_matches_def Let_def)

lemma demo_event_built:
  assumes "valid_item demo_env (demo_event n mutation payload, zeros)"
    and "length (canonical_bytes (demo_event n mutation payload)) \<le> MAX_LIFECYCLE_DOCUMENT_BYTES"
  shows "build_event demo_env demo_pins n (payload_event_type payload) demo_time payload (if n = 1 then None else Some zeros)
    (map_option fst mutation) (map_option snd mutation) = Inr (demo_event n mutation payload)"
  using assms by (simp add: build_event_def Let_def demo_event_def LIFECYCLE_SCHEMA_VERSION_def valid_item_def)

lemma canonical_size: "json_weight (dump_event e) \<le> 1000000 \<Longrightarrow> length (canonical_bytes e) \<le> MAX_LIFECYCLE_DOCUMENT_BYTES"
  using length_integrity [of "dump_event e"] by (simp add: MAX_LIFECYCLE_DOCUMENT_BYTES_def canonical_bytes_def)

lemmas dump_defs = dump_event_def demo_event_def dump_pins_def demo_pins_def dump_declaration_def boot_declaration_shape
  boot_constituents_def boot_constituent_def boot_payload_def dump_manifest_constituent_def dump_state_transitioned_def
  dump_intended_transition_def dump_updates_def no_updates_def lit_def demo_time_def

lemma boot_weights: "json_weight (dump_event boot_event) \<le> 1000000"
  "json_weight (dump_event (demo_event 5 (Some (zeros, 1)) (Constituent (boot_payload IDLE PREFLIGHT)))) \<le> 1000000"
  "json_weight (dump_event (demo_event 6 (Some (zeros, 2)) (Constituent (boot_payload PREFLIGHT IMPLEMENTING)))) \<le> 1000000"
  unfolding boot_event_def by (simp_all add: dump_defs int_text_digit)

lemma boot_valid:
  "valid_item demo_env (boot_event, zeros)"
  "valid_item demo_env (demo_event 5 (Some (zeros, 1)) (Constituent (boot_payload x y)), zeros)"
  "valid_item demo_env (demo_event 6 (Some (zeros, 2)) (Constituent (boot_payload x y)), zeros)"
  unfolding boot_event_def
  by (simp_all add: demo_event_valid boot_declaration_valid demo_event_valid [where i = 1] demo_event_valid [where i = 2])


section \<open>The simulation\<close>

definition boot_declared :: fold_state where
  "boot_declared = boot_state\<lparr>fs_sequence := 4,
     fs_open_mutation := Some \<lparr>om_declaration = boot_declaration, om_declaration_sequence = 4, om_applied = 0\<rparr>\<rparr>"

definition boot_middle :: fold_state where
  "boot_middle = boot_state\<lparr>fs_sequence := 5, fs_record := record_in PREFLIGHT,
     fs_open_mutation := Some \<lparr>om_declaration = boot_declaration, om_declaration_sequence = 4, om_applied = 1\<rparr>\<rparr>"

definition boot_final :: fold_state where
  "boot_final = boot_state\<lparr>fs_sequence := 6, fs_record := record_in IMPLEMENTING\<rparr>"

lemma boot_size: "length (canonical_bytes boot_event) \<le> MAX_LIFECYCLE_DOCUMENT_BYTES"
  by (rule canonical_size [OF boot_weights(1)])

lemma boot_declared_ok: "validate_declaration demo_env boot_state boot_event boot_declaration = Inr ()"
proof -
  have "length (integrity_bytes (dump_event boot_event)) \<le> MAX_LIFECYCLE_DOCUMENT_BYTES"
    using boot_size by (simp add: canonical_bytes_def)
  then show ?thesis
    by (simp add: validate_declaration_def boot_declaration_shape boot_state_def demo_state_def boot_event_def
        demo_event_def CONSTITUENT_TYPES_def boot_constituents_def boot_constituent_def boot_payload_def Let_def)
qed

lemma boot_step4: "fold_step demo_env pins (Some boot_state) (boot_event, zeros) = Inr boot_declared"
proof -
  have "admit_event boot_state boot_event = Inr ()"
    by (simp add: admit_event_def boot_event_def demo_event_def boot_state_def demo_state_def GENESIS_TYPES_def
        bootstrapped_def DECLARED_ONLY_TYPES_def)
  moreover have "fs_open_mutation boot_state = None" by (simp add: boot_state_def demo_state_def)
  moreover have "le_payload boot_event = ApplicationMutationDeclared boot_declaration" "le_sequence boot_event = 4"
    "le_event_id boot_event = zeros" "le_prev_event_digest boot_event = Some zeros"
    by (simp_all add: boot_event_def demo_event_def)
  ultimately show ?thesis
    using boot_declared_ok
    by (simp add: fold_step_def payload_effect_def next_digest_def advance_mutation_def boot_declared_def
        boot_state_def demo_state_def)
qed

lemma boot_applied:
  "x \<noteq> HUMAN_INTERVENTION_REQUIRED \<Longrightarrow> apply_updates demo_env (record_in y) no_updates (Some (x, None)) = Inr (record_in x)"
  using record_in_valid [of x] by (simp add: apply_updates_def no_updates_def record_in_def demo_record_def)

lemma boot_step5:
  "fold_step demo_env pins (Some boot_declared)
     (demo_event 5 (Some (zeros, 1)) (Constituent (boot_payload IDLE PREFLIGHT)), zeros) = Inr boot_middle"
  using boot_applied [of PREFLIGHT IDLE]
  by (simp add: fold_step_def admit_event_def expected_constituent_def demo_event_def boot_declared_def boot_state_def
      demo_state_def boot_middle_def GENESIS_TYPES_def bootstrapped_def Let_def boot_declaration_shape boot_constituents_def
      boot_constituent_def boot_payload_def payload_effect_def open_declaration_def apply_transition_def mark_caused_def
      next_digest_def advance_mutation_def nth_opt_def transition_defs record_in_def demo_record_def)

lemma boot_step6:
  "fold_step demo_env pins (Some boot_middle)
     (demo_event 6 (Some (zeros, 2)) (Constituent (boot_payload PREFLIGHT IMPLEMENTING)), zeros) = Inr boot_final"
  using boot_applied [of IMPLEMENTING PREFLIGHT]
  by (simp add: fold_step_def admit_event_def expected_constituent_def demo_event_def boot_middle_def boot_state_def
      demo_state_def boot_final_def GENESIS_TYPES_def bootstrapped_def Let_def boot_declaration_shape boot_constituents_def
      boot_constituent_def boot_payload_def payload_effect_def open_declaration_def apply_transition_def mark_caused_def
      next_digest_def advance_mutation_def nth_opt_def transition_defs record_in_def demo_record_def)

lemma boot_simulated:
  "simulate_declaration demo_env demo_pins boot_state boot_event boot_declaration = Inr boot_final"
proof -
  note b5 = demo_event_built [OF boot_valid(2) canonical_size [OF boot_weights(2)], simplified]
  note b6 = demo_event_built [OF boot_valid(3) canonical_size [OF boot_weights(3)], simplified]
  have "md_mutation_id boot_declaration = zeros" "md_constituents boot_declaration
      = [boot_constituent 1 IDLE PREFLIGHT, boot_constituent 2 PREFLIGHT IMPLEMENTING]"
    by (simp_all add: boot_declaration_shape boot_constituents_def)
  moreover have "fs_event_sha256 boot_declared = zeros" "fs_event_sha256 boot_middle = zeros"
    by (simp_all add: boot_declared_def boot_middle_def boot_state_def demo_state_def)
  moreover have "constituent_event_type (boot_payload x y) = STATE_TRANSITIONED" for x y by (simp add: boot_payload_def)
  ultimately show ?thesis
    using b5 b6 by (simp add: simulate_declaration_def boot_step4 simulate_constituent_def boot_step5 boot_step6
        boot_constituent_def)
qed


section \<open>The store\<close>

definition numbered_name :: "int \<Rightarrow> lifecycle_event_type \<Rightarrow> pystr" where
  "numbered_name n event_type = pad8 n @ lit ''-'' @ event_type_value event_type @ lit ''.json''"

definition boot_names :: "pystr list" where
  "boot_names = [demo_name, numbered_name 2 STAGE_START_BOUND, numbered_name 3 POLICY_PUBLISHED]"

definition boot_store :: event_store where
  "boot_store =
     \<lparr>es_pins = demo_pins, es_state = Some boot_state, es_entries = [], es_names = boot_names, es_witness = None,
      es_disk = \<lparr>rd_event_names = Some boot_names, rd_run = Map.empty, rd_root = Map.empty\<rparr>, es_barriers = 0\<rparr>"

lemma numbered: "1 \<le> n \<Longrightarrow> n \<le> 1000 \<Longrightarrow> event_file_name n ty = Inr (numbered_name n ty)"
  by (simp add: event_file_name_def numbered_name_def MAX_EVENT_SEQUENCE_def MAX_STATE_VERSION_def)

lemma boot_listing: "bounded_event_names boot_names = Inr [(1, RUN_INITIALIZED, demo_name),
    (2, STAGE_START_BOUND, numbered_name 2 STAGE_START_BOUND), (3, POLICY_PUBLISHED, numbered_name 3 POLICY_PUBLISHED)]"
proof -
  have n: "event_file_name 2 STAGE_START_BOUND = Inr (numbered_name 2 STAGE_START_BOUND)"
    "event_file_name 3 POLICY_PUBLISHED = Inr (numbered_name 3 POLICY_PUBLISHED)" by (rule numbered; simp)+
  have two: "bounded_event_names [demo_name, numbered_name 2 STAGE_START_BOUND]
      = Inr [(1, RUN_INITIALIZED, demo_name), (2, STAGE_START_BOUND, numbered_name 2 STAGE_START_BOUND)]"
    using bounded_event_names_append(2) [OF demo_listing, of STAGE_START_BOUND] n by (simp add: MAX_EVENT_FILES_def)
  show ?thesis
    using bounded_event_names_append(2) [OF two, of POLICY_PUBLISHED] n by (simp add: boot_names_def MAX_EVENT_FILES_def)
qed

lemma boot_tip: "check_tip (fs_sequence boot_state) boot_store = (boot_store, Inr ())"
  using boot_listing
  by (simp add: check_tip_def boot_store_def boot_state_def read_named_or_none_def read_named_def Let_def boot_names_def)

definition boot_witness :: publication_witness where
  "boot_witness = demo_witness\<lparr>pw_sequence := 4, pw_prev_event_digest := Some zeros\<rparr>"

lemma boot_documents: "projection_document boot_declared
    = Some (obj_update (dump_run_record demo_record)
        [(lit ''schema_version'', JInt 3), (lit ''state_version'', JInt 4), (lit ''last_event_id'', JStr zeros)])"
  "witness_for boot_event zeros = Some boot_witness"
  by (simp_all add: projection_document_def event_backed_state_document_def boot_declared_def boot_state_def demo_state_def
      demo_record_def is_policy_governed_def MAX_STATE_VERSION_def validate_tip_def dump_tip_def
      EVENT_BACKED_STATE_SCHEMA_VERSION_def witness_for_def validate_witness_def boot_witness_def demo_witness_def
      boot_event_def demo_event_def LIFECYCLE_SCHEMA_VERSION_def valid_sequence_def MAX_EVENT_SEQUENCE_def)

lemma boot_clean: "clean_json (dump_witness boot_witness)"
  "clean_json (obj_update (dump_run_record demo_record)
        [(lit ''schema_version'', JInt 3), (lit ''state_version'', JInt 4), (lit ''last_event_id'', JStr zeros)])"
  by code_simp+

lemma boot_clean_event: "clean_json (dump_event boot_event)"
  unfolding boot_event_def demo_event_def boot_declaration_shape by code_simp


lemma boot_storable: "storable demo_env (dump_witness boot_witness)" "storable demo_env (dump_event boot_event)"
  "storable demo_env (obj_update (dump_run_record demo_record)
        [(lit ''schema_version'', JInt 3), (lit ''state_version'', JInt 4), (lit ''last_event_id'', JStr zeros)])"
proof -
  have "json_weight (dump_witness boot_witness) \<le> 16777216" by code_simp
  then show "storable demo_env (dump_witness boot_witness)" by (rule storable_clean [OF boot_clean(1)])
  show "storable demo_env (dump_event boot_event)" using storable_clean [OF boot_clean_event] boot_weights(1) by simp
  have "json_weight (obj_update (dump_run_record demo_record)
        [(lit ''schema_version'', JInt 3), (lit ''state_version'', JInt 4), (lit ''last_event_id'', JStr zeros)]) \<le> 16777216"
    by code_simp
  then show "storable demo_env (obj_update (dump_run_record demo_record)
        [(lit ''schema_version'', JInt 3), (lit ''state_version'', JInt 4), (lit ''last_event_id'', JStr zeros)])"
    by (rule storable_clean [OF boot_clean(2)])
qed

lemma boot_event_fields: "le_sequence boot_event = 4" "le_event_type boot_event = APPLICATION_MUTATION_DECLARED"
  "payload_references (le_payload boot_event) = []" "fs_open_mutation boot_state = None" "fs_body_digest boot_state = zeros"
  "es_state boot_store = Some boot_state" "es_pins boot_store = demo_pins" "fs_sequence boot_state = 3"
  "fs_event_sha256 boot_state = zeros"
  by (simp_all add: boot_event_def demo_event_def boot_declaration_shape boot_constituents_def boot_constituent_def
      boot_payload_def boot_state_def demo_state_def boot_store_def)

lemma boot_clear: "next_event_clear demo_env append_wire boot_store boot_event boot_declared boot_witness
  (numbered_name 4 APPLICATION_MUTATION_DECLARED) (obj_update (dump_run_record demo_record)
        [(lit ''schema_version'', JInt 3), (lit ''state_version'', JInt 4), (lit ''last_event_id'', JStr zeros)])"
  using boot_step4 [of "Some demo_pins"] boot_documents boot_storable numbered [of 4 APPLICATION_MUTATION_DECLARED]
  by (simp add: next_event_clear_def boot_event_fields references_verified_def check_artifacts_def writable_def)
    (simp add: boot_store_def)

lemma boot_published: "\<exists>t. publish_envelope demo_env append_wire durable False boot_event boot_store
    = (t, Inr \<lparr>ev_event = boot_event, ev_sha256 = zeros, ev_duplicate = False\<rparr>)"
  using publish_envelope_durable_tip [OF boot_clear, of False] boot_tip
  by (simp add: boot_event_fields tip_sequence_def)

lemma boot_envelope: "envelope_of demo_env boot_store APPLICATION_MUTATION_DECLARED
    (ApplicationMutationDeclared boot_declaration) demo_time None None = Inr boot_event"
  using demo_event_built [of 4 None "ApplicationMutationDeclared boot_declaration"] boot_valid(1) boot_size
  by (simp add: envelope_of_def boot_event_fields tip_sequence_def boot_event_def MAX_EVENT_SEQUENCE_def MAX_STATE_VERSION_def)

lemma boot_declares:
  "\<exists>t. declare_mutation demo_env append_wire durable APPLICATION_STEP MC_START demo_time
      (ApplicationStepEvidence (lit ''start'')) boot_changes boot_store = (t, Inr boot_declaration)"
proof -
  obtain t where t: "publish_envelope demo_env append_wire durable False boot_event boot_store
      = (t, Inr \<lparr>ev_event = boot_event, ev_sha256 = zeros, ev_duplicate = False\<rparr>)"
    using boot_published by blast
  have "require_state boot_store = (boot_store, Inr boot_state)" by (simp add: require_state_def boot_event_fields)
  moreover have "length boot_changes = 2" by (simp add: boot_changes_def)
  ultimately have "declare_mutation demo_env append_wire durable APPLICATION_STEP MC_START demo_time
      (ApplicationStepEvidence (lit ''start'')) boot_changes boot_store = (t, Inr boot_declaration)"
    using boot_plan boot_declaration_valid boot_envelope boot_size boot_simulated t
    by (simp add: declare_mutation_def a_bind_Inr boot_event_fields Let_def lifecycle_result_def
        boot_declaration_def [symmetric])
  then show ?thesis ..
qed

lemma boot_state_ok: "fold_ok demo_env boot_state"
  using demo_state_ok
  by (simp add: fold_ok_def sound_record_def digest_current_def pins_agree_def operations_ok_def mutation_ok_def
      boot_state_def demo_state_def)


text \<open>A difference of one counter.\<close>

lemma singleton_list: "set xs = {x} \<Longrightarrow> distinct xs \<Longrightarrow> xs = [x]"
  by (cases xs; cases "tl xs") auto

lemma round_difference:
  "record_updates_of demo_env demo_record (demo_record\<lparr>rr_successful_review_rounds := 1, rr_workflow_state := PREFLIGHT\<rparr>)
     = Inr round_updates"
proof -
  let ?after = "demo_record\<lparr>rr_successful_review_rounds := 1, rr_workflow_state := PREFLIGHT\<rparr>"
  have only: "field_changed demo_record ?after f \<longleftrightarrow> f = F_SUCCESSFUL_REVIEW_ROUNDS" for f
    by (cases f) (simp_all add: field_changed_def demo_record_def)
  then have "changed_fields demo_record ?after = [F_SUCCESSFUL_REVIEW_ROUNDS]"
    by (intro singleton_list changed_fields_distinct) simp
  then have "updates_between demo_record ?after = round_updates"
    by (simp add: updates_between_def given_if_def round_updates_def no_updates_def Let_def only)
  then show ?thesis by (simp add: record_updates_of_def fixed_fields_equal_def)
qed

end
