(* ===== verification/Concrete_Redaction.thy ===== *)
theory Concrete_Redaction
  imports Redaction_Facts
begin

text \<open>
  Two concrete texts: one with a token that is replaced, and one where a value assigned to a keyword
  overlaps a bearer token that starts inside it. In the second the token's own span is skipped, because
  it starts before the end of the earlier one, and its tail is left as it was.
\<close>

definition overlapping :: pystr where
  "overlapping = lit ''token=a-bearer 0123456789abcdef''"

lemmas evaluation = one_of_def text_items_def ci_items_def fold_case_def lit_def word_boundary_def word_char_def
  char_class_defs upt_rec is_url_safe_def blanks_def separator_def quote_mark_def

lemma overlapping_none:
  "finditer E overlapping github_token 0 = []" "finditer E overlapping slack_token 0 = []"
  "finditer E overlapping private_key_block 0 = []" "finditer E overlapping json_web_token 0 = []"
  by (rule finditer_none [of "\<lambda>x. x = 103" 1 1] finditer_none [of "\<lambda>x. x = 120" 1 1]
      finditer_none [of "\<lambda>x. x = 66" 1 1] finditer_none [of "\<lambda>x. x = 74" 1 1],
      simp_all add: github_token_def slack_token_def private_key_block_def json_web_token_def text_items_def
        lit_def overlapping_def; fail)+

lemma overlapping_aws: "finditer E overlapping aws_access_key_id 0 = []"
  by (simp add: evaluation overlapping_def aws_access_key_id_def finditer.simps)

lemma overlapping_url: "finditer E overlapping url_userinfo 0 = []"
  by (rule finditer_none [of "\<lambda>x. x = 58" 1 1])
    (simp_all add: url_userinfo_def text_items_def lit_def overlapping_def)

lemma overlapping_bearer: "finditer E overlapping bearer_token 0 = [(8, 31, 0, 0)]"
  by (simp add: evaluation overlapping_def bearer_token_def finditer.simps)

lemma overlapping_credential: "finditer E overlapping credential_assignment 0 = [(0, 14, 6, 14)]"
proof -
  have "re_match E overlapping credential_assignment 0 (0, 0) = Some (14, 6, 14)"
    by (simp add: evaluation overlapping_def credential_assignment_def)
  moreover have "finditer E overlapping credential_assignment 14 = []"
    by (rule finditer_none [of "one_of '':=''" 1 1])
      (simp_all add: credential_assignment_def one_of_def lit_def overlapping_def)
  ultimately show ?thesis by (subst finditer.simps) simp
qed

lemma overlapping_spans:
  "collected_spans E overlapping = [(6, 14, 1, lit ''credential_assignment''), (8, 31, 0, lit ''bearer_token'')]"
  by (simp add: collected_spans_def PATTERNS_def pattern_spans_def overlapping_none overlapping_aws overlapping_url
      overlapping_bearer overlapping_credential span_key_def less_eq_prod_def)

lemma overlapping_chosen: "resolve 0 (collected_spans E overlapping) = [(6, 14, 1, lit ''credential_assignment'')]"
  by (simp add: overlapping_spans)

lemma overlapping_text:
  "replace_spans overlapping 0 [(6, 14, 1, lit ''credential_assignment'')]
     = lit ''token=[REDACTED:credential_assignment] 0123456789abcdef''"
  by (simp add: marker_def overlapping_def lit_def)

lemma overlapping_redacted:
  "redact_text E overlapping
     = (lit ''token=[REDACTED:credential_assignment] 0123456789abcdef'',
        [\<lparr>rf_pattern_name = lit ''credential_assignment'', rf_occurrences = 1, rf_first_offset = 6\<rparr>])"
  unfolding redact_text_cases overlapping_chosen overlapping_text
  by (simp add: findings_of_def span_name_def)

text \<open>The two secrets of the text are of recognised shapes.\<close>

lemma overlapping_shapes: "bearer_shape E overlapping 8" "assignment_shape overlapping 0"
proof -
  show "bearer_shape E overlapping 8"
    by (simp add: bearer_shape_def starts_at_def overlapping_def run_of_takeWhile evaluation)
  show "assignment_shape overlapping 0"
    unfolding assignment_shape_def
    by (rule bexI [of _ "''token''"], intro conjI bexI [of _ 0])
      (simp_all add: starts_folded_def overlapping_def run_of_takeWhile evaluation)
qed

lemma overlapping_single:
  assumes "[\<lparr>rf_pattern_name = lit ''credential_assignment'', rf_occurrences = 1, rf_first_offset = 6\<rparr>] = findings_of spans"
  shows "length spans = 1"
  using occurrences_total [of spans] unfolding assms [symmetric] by simp

lemma overlapping_occurrence: "re_matches E overlapping credential_assignment 0 (0, 0) 14 (6, 14)"
proof -
  have "(0, 14, 6, 14) \<in> set (finditer E overlapping credential_assignment 0)" by (simp add: overlapping_credential)
  then show ?thesis using finditer_sound matcher_sound by blast
qed

end
