(* ===== verification/Runner_Config.thy ===== *)
theory Runner_Config
  imports Run_Vocabulary
begin

text \<open>
  The runner configuration of \<open>milestone_runner/config.py\<close>: every section as a record, every validator
  as a function that returns the normalised section or refuses. A configuration reaches the validators
  as the typed document that pydantic reads; \<open>cfg_review_policy\<close> is \<open>None\<close> when the key is absent and
  \<open>Some None\<close> when it is null, because the version dispatch tells the two apart.
\<close>

definition MAX_CONFIG_BYTES :: nat where "MAX_CONFIG_BYTES = 2 ^ 20"
definition MAX_FULL_REVIEWS_CEILING :: int where "MAX_FULL_REVIEWS_CEILING = 1"
definition MAX_CORRECTION_ROUNDS_CEILING :: int where "MAX_CORRECTION_ROUNDS_CEILING = 1"
definition MAX_CLOSURE_REVIEWS_CEILING :: int where "MAX_CLOSURE_REVIEWS_CEILING = 1"
definition MAX_BLOCKERS_CEILING :: int where "MAX_BLOCKERS_CEILING = 3"
definition MAX_TIMEOUT_SECONDS :: int where "MAX_TIMEOUT_SECONDS = 12 * 60 * 60"

lemmas ceiling_defs =
  MAX_FULL_REVIEWS_CEILING_def MAX_CORRECTION_ROUNDS_CEILING_def MAX_CLOSURE_REVIEWS_CEILING_def
  MAX_BLOCKERS_CEILING_def

section \<open>Grammars\<close>

text \<open>\<open>AUTO-[0-9]{3}\<close> and \<open>AUTO-[0-9]{3}-M[0-9]{2}\<close>: a digit in the shape stands for any digit.\<close>

definition has_shape :: "pystr \<Rightarrow> pystr \<Rightarrow> bool" where
  "has_shape shape v \<longleftrightarrow> list_all2 (\<lambda>p c. if is_digit p then is_digit c else c = p) shape v"

definition legacy_stage_id :: "pystr \<Rightarrow> bool" where
  "legacy_stage_id v \<longleftrightarrow> has_shape (lit ''AUTO-000'') v"

definition branch_grammar :: "pystr \<Rightarrow> bool" where
  "branch_grammar v \<longleftrightarrow>
     (case v of [] \<Rightarrow> False | c # cs \<Rightarrow> is_alnum c \<and> list_all (\<lambda>d. is_name_char d \<or> d = 47) cs)"

definition name_grammar :: "pystr \<Rightarrow> bool" where
  "name_grammar v \<longleftrightarrow> (case v of [] \<Rightarrow> False | c # cs \<Rightarrow> is_alnum c \<and> list_all is_name_char cs)"

definition environment_name :: "pystr \<Rightarrow> bool" where
  "environment_name v \<longleftrightarrow>
     (case v of [] \<Rightarrow> False
      | c # cs \<Rightarrow> (is_upper c \<or> is_lower c \<or> c = 95) \<and> list_all (\<lambda>d. is_alnum d \<or> d = 95) cs)"

text \<open>\<open>[a-z0-9]+(?:-[a-z0-9]+)*--[0-9a-f]{12}\<close>: the digest is the last twelve characters.\<close>

definition repository_identity_grammar :: "pystr \<Rightarrow> bool" where
  "repository_identity_grammar v \<longleftrightarrow>
     (let n = length v - 14; digest = drop (length v - 12) v in
      15 \<le> length v \<and> list_all is_hex digest \<and> take 2 (drop n v) = lit ''--''
      \<and> list_all (\<lambda>p. p \<noteq> [] \<and> list_all (\<lambda>c. is_lower c \<or> is_digit c) p) (split_on 45 (take n v)))"

definition config_scalar :: "(pystr \<Rightarrow> bool) \<Rightarrow> nat \<Rightarrow> pystr \<Rightarrow> bool" where
  "config_scalar pattern maximum v \<longleftrightarrow> v \<noteq> [] \<and> length v \<le> maximum \<and> pattern v"

section \<open>The sections\<close>

record repository_settings =
  rg_root :: pystr
  rg_identity :: pystr
  rg_expected_branch :: pystr
  rg_baseline_sha :: pystr
  rg_conda_environment :: pystr

definition validate_repository :: "repository_settings \<Rightarrow> repository_settings option" where
  "validate_repository r =
     refuse_if (take 1 (rg_root r) \<noteq> lit ''/'')
     (refuse_if (length (rg_root r) > MAX_ROOT_PATH_CHARS)
     (refuse_if (\<not> config_scalar repository_identity_grammar MAX_IDENTIFIER_CHARS (rg_identity r))
     (refuse_if (\<not> config_scalar branch_grammar MAX_IDENTIFIER_CHARS (rg_expected_branch r))
     (refuse_if (\<not> git_object_id (rg_baseline_sha r))
     (refuse_if (\<not> config_scalar name_grammar MAX_IDENTIFIER_CHARS (rg_conda_environment r))
     (Some r))))))"

record contract_ceilings =
  cc_max_remediation_cycles :: int
  cc_max_blockers :: int

definition validate_ceilings :: "contract_ceilings \<Rightarrow> contract_ceilings option" where
  "validate_ceilings c =
     refuse_if (\<not> (1 \<le> cc_max_remediation_cycles c \<and> cc_max_remediation_cycles c \<le> 3))
     (refuse_if (\<not> (1 \<le> cc_max_blockers c \<and> cc_max_blockers c \<le> 3))
     (Some c))"

text \<open>\<open>sg_v2\<close> holds the two fields that \<open>StageSettingsV2\<close> adds.\<close>

record stage_settings =
  sg_stage_id :: pystr
  sg_contract_path :: pystr
  sg_contract_sha256 :: pystr
  sg_plan_directory :: "pystr option"
  sg_v2 :: "(pystr option \<times> contract_ceilings) option"

definition validate_plan_directory :: "pyenv \<Rightarrow> pystr option \<Rightarrow> pystr option option" where
  "validate_plan_directory E value =
     (case value of
        None \<Rightarrow> Some None
      | Some v \<Rightarrow>
          if take 1 v = lit ''/'' then refuse_if (length v > MAX_ROOT_PATH_CHARS) (Some (Some v))
          else map_option Some (normalize_repository_path E v))"

definition validate_registry_path :: "pyenv \<Rightarrow> pystr option \<Rightarrow> pystr option option" where
  "validate_registry_path E value =
     (case value of None \<Rightarrow> Some None | Some v \<Rightarrow> map_option Some (normalize_repository_path E v))"

text \<open>\<open>StageSettings\<close> for schema version 1, \<open>StageSettingsV2\<close> for version 2.\<close>

definition validate_stage :: "pyenv \<Rightarrow> int \<Rightarrow> stage_settings \<Rightarrow> stage_settings option" where
  "validate_stage E version s =
     refuse_if ((sg_v2 s = None) \<noteq> (version = 1))
     (refuse_if (if version = 1 then \<not> config_scalar legacy_stage_id MAX_IDENTIFIER_CHARS (sg_stage_id s)
                 else \<not> config_scalar stage_id_grammar 64 (sg_stage_id s))
     (Option.bind (normalize_repository_path E (sg_contract_path s)) (\<lambda>contract_path.
      refuse_if (\<not> sha256_hex (sg_contract_sha256 s))
      (Option.bind (validate_plan_directory E (sg_plan_directory s)) (\<lambda>plan_directory.
       let base = s\<lparr>sg_contract_path := contract_path, sg_plan_directory := plan_directory\<rparr> in
       case sg_v2 s of
         None \<Rightarrow> Some base
       | Some (registry_path, ceilings) \<Rightarrow>
           Option.bind (validate_registry_path E registry_path) (\<lambda>path.
           Option.bind (validate_ceilings ceilings) (\<lambda>c.
           Some (base\<lparr>sg_v2 := Some (path, c)\<rparr>))))))))"

record allowlist_settings =
  al_allowed_paths :: "pystr list"
  al_forbidden_paths :: "pystr list"
  al_required_coverage :: "pystr list"

definition validate_paths :: "pyenv \<Rightarrow> pystr list \<Rightarrow> pystr list option" where
  "validate_paths E value =
     Option.bind (map_opt (normalize_repository_path E) value) (\<lambda>normalized.
     refuse_if (\<not> unique normalized) (Some normalized))"

definition validate_allowlist :: "pyenv \<Rightarrow> allowlist_settings \<Rightarrow> allowlist_settings option" where
  "validate_allowlist E a =
     refuse_if (al_allowed_paths a = [] \<or> al_required_coverage a = [])
     (Option.bind (validate_paths E (al_allowed_paths a)) (\<lambda>allowed.
      Option.bind (validate_paths E (al_forbidden_paths a)) (\<lambda>forbidden.
      Option.bind (validate_paths E (al_required_coverage a)) (\<lambda>coverage.
      Some \<lparr>al_allowed_paths = allowed, al_forbidden_paths = forbidden, al_required_coverage = coverage\<rparr>))))"

record review_policy_settings =
  rs_max_full_reviews :: int
  rs_max_correction_rounds :: int
  rs_max_closure_reviews :: int
  rs_max_blockers :: int
  rs_blocking_severities :: "finding_severity list"
  rs_defer_severities :: "finding_severity list"

definition validate_severity_split :: "finding_severity list \<Rightarrow> finding_severity list \<Rightarrow> bool" where
  "validate_severity_split blocking deferred \<longleftrightarrow>
     unique blocking \<and> unique deferred \<and> set blocking \<inter> set deferred = {}
     \<and> set blocking \<union> set deferred = set all_severity
     \<and> set BLOCKING_SEVERITIES \<subseteq> set blocking \<and> set deferred \<subseteq> set DEFERRED_SEVERITIES"

definition validate_review_settings :: "review_policy_settings \<Rightarrow> review_policy_settings option" where
  "validate_review_settings r =
     refuse_if (\<not> (1 \<le> rs_max_full_reviews r \<and> rs_max_full_reviews r \<le> MAX_FULL_REVIEWS_CEILING))
     (refuse_if (\<not> (0 \<le> rs_max_correction_rounds r \<and> rs_max_correction_rounds r \<le> MAX_CORRECTION_ROUNDS_CEILING))
     (refuse_if (\<not> (0 \<le> rs_max_closure_reviews r \<and> rs_max_closure_reviews r \<le> MAX_CLOSURE_REVIEWS_CEILING))
     (refuse_if (\<not> (1 \<le> rs_max_blockers r \<and> rs_max_blockers r \<le> MAX_BLOCKERS_CEILING))
     (refuse_if (rs_blocking_severities r = [])
     (refuse_if (\<not> validate_severity_split (rs_blocking_severities r) (rs_defer_severities r))
     (Some r))))))"

text \<open>The two closed modes; the stronger ones are no members.\<close>

datatype claude_permission_mode = CPM_PLAN | CPM_DEFAULT | CPM_ACCEPT_EDITS
datatype codex_sandbox_mode = CSM_READ_ONLY | CSM_WORKSPACE_WRITE

fun permission_mode_value :: "claude_permission_mode \<Rightarrow> pystr" where
  "permission_mode_value CPM_PLAN = lit ''plan''"
| "permission_mode_value CPM_DEFAULT = lit ''default''"
| "permission_mode_value CPM_ACCEPT_EDITS = lit ''acceptEdits''"

fun sandbox_mode_value :: "codex_sandbox_mode \<Rightarrow> pystr" where
  "sandbox_mode_value CSM_READ_ONLY = lit ''read-only''"
| "sandbox_mode_value CSM_WORKSPACE_WRITE = lit ''workspace-write''"

record provider_settings =
  ps_executable :: pystr
  ps_arguments :: "pystr list"
  ps_timeout_seconds :: int

definition bounded_argument :: "pystr \<Rightarrow> bool" where
  "bounded_argument v \<longleftrightarrow> v \<noteq> [] \<and> length v \<le> MAX_ARGUMENT_CHARS"

definition validate_provider :: "provider_settings \<Rightarrow> bool" where
  "validate_provider p \<longleftrightarrow>
     config_scalar name_grammar MAX_IDENTIFIER_CHARS (ps_executable p)
     \<and> list_all bounded_argument (ps_arguments p)
     \<and> 1 \<le> ps_timeout_seconds p \<and> ps_timeout_seconds p \<le> MAX_TIMEOUT_SECONDS"

record providers_settings =
  pv_claude :: provider_settings
  pv_permission_mode :: claude_permission_mode
  pv_codex :: provider_settings
  pv_sandbox_mode :: codex_sandbox_mode
  pv_allowed_environment_variables :: "pystr list"

definition validate_providers :: "providers_settings \<Rightarrow> bool" where
  "validate_providers p \<longleftrightarrow>
     validate_provider (pv_claude p) \<and> validate_provider (pv_codex p)
     \<and> list_all (config_scalar environment_name MAX_IDENTIFIER_CHARS) (pv_allowed_environment_variables p)
     \<and> unique (pv_allowed_environment_variables p)"

record verification_command =
  vc_command :: "pystr list"
  vc_timeout_seconds :: int
  vc_purpose :: "pystr option"

definition validate_command :: "verification_command \<Rightarrow> bool" where
  "validate_command c \<longleftrightarrow>
     vc_command c \<noteq> [] \<and> list_all bounded_argument (vc_command c)
     \<and> 1 \<le> vc_timeout_seconds c \<and> vc_timeout_seconds c \<le> MAX_TIMEOUT_SECONDS"

record verification_settings =
  vs_focused :: "verification_command list"
  vs_final :: "verification_command list"

definition validate_verification :: "verification_settings \<Rightarrow> bool" where
  "validate_verification v \<longleftrightarrow>
     list_all validate_command (vs_focused v) \<and> list_all validate_command (vs_final v) \<and> vs_final v \<noteq> []"

record git_settings =
  gs_execute_commit :: bool
  gs_execute_push :: bool

section \<open>The configuration\<close>

record runner_config =
  cfg_schema_version :: int
  cfg_repository :: repository_settings
  cfg_stage :: stage_settings
  cfg_allowlist :: allowlist_settings
  cfg_review_policy :: "review_policy_settings option option"
  cfg_providers :: providers_settings
  cfg_verification :: verification_settings
  cfg_git :: git_settings

definition version_dispatch :: "runner_config \<Rightarrow> bool" where
  "version_dispatch c \<longleftrightarrow>
     (cfg_schema_version c = 1 \<or> cfg_schema_version c = 2)
     \<and> \<not> (cfg_schema_version c = 2 \<and> cfg_review_policy c \<noteq> None)
     \<and> \<not> (cfg_schema_version c = 1 \<and> (cfg_review_policy c = None \<or> cfg_review_policy c = Some None))"

definition contract_not_forbidden :: "stage_settings \<Rightarrow> allowlist_settings \<Rightarrow> bool" where
  "contract_not_forbidden s a \<longleftrightarrow>
     (case sg_v2 s of Some (Some registry_path, _) \<Rightarrow> registry_path \<notin> set (al_allowed_paths a) | _ \<Rightarrow> True)
     \<and> sg_contract_path s \<notin> set (al_allowed_paths a)"

definition validate_review_option ::
  "review_policy_settings option option \<Rightarrow> review_policy_settings option option option" where
  "validate_review_option value =
     (case value of
        Some (Some r) \<Rightarrow> map_option (\<lambda>v. Some (Some v)) (validate_review_settings r)
      | _ \<Rightarrow> Some value)"

definition validate_runner_config :: "pyenv \<Rightarrow> runner_config \<Rightarrow> runner_config option" where
  "validate_runner_config E c =
     refuse_if (\<not> version_dispatch c)
     (Option.bind (validate_stage E (cfg_schema_version c) (cfg_stage c)) (\<lambda>stage.
      Option.bind (validate_repository (cfg_repository c)) (\<lambda>repository.
      Option.bind (validate_allowlist E (cfg_allowlist c)) (\<lambda>allowlist.
      Option.bind (validate_review_option (cfg_review_policy c)) (\<lambda>review_policy.
      refuse_if (\<not> validate_providers (cfg_providers c))
      (refuse_if (\<not> validate_verification (cfg_verification c))
      (refuse_if (\<not> contract_not_forbidden stage allowlist)
      (Some (c\<lparr>cfg_stage := stage, cfg_repository := repository, cfg_allowlist := allowlist,
               cfg_review_policy := review_policy\<rparr>)))))))))"

text \<open>
  \<open>load_runner_config\<close>: \<open>content\<close> is \<open>path.read_bytes()\<close>, \<open>document\<close> the UTF-8 decoding, \<open>yaml.safe_load\<close> and
  pydantic's reading of a mapping (\<open>Inr None\<close> for a document that is no such mapping). Each failure is the same
  exception, but for one of the YAML loader that is no \<open>yaml.YAMLError\<close>.
\<close>

datatype config_error = InvalidRunnerConfiguration | ConfigLoaderException

definition load_runner_config ::
  "pyenv \<Rightarrow> (bytes \<Rightarrow> yaml_error + runner_config option) \<Rightarrow> bytes option \<Rightarrow> config_error + runner_config" where
  "load_runner_config E document content =
     rbind (from_option InvalidRunnerConfiguration content) (\<lambda>raw.
     raise_if (length raw > MAX_CONFIG_BYTES) InvalidRunnerConfiguration
     (rbind (yaml_read InvalidRunnerConfiguration ConfigLoaderException (document raw)) (\<lambda>read.
      from_option InvalidRunnerConfiguration (Option.bind read (validate_runner_config E)))))"

section \<open>What a validated configuration satisfies\<close>

lemma validate_paths_normalized:
  assumes "validate_paths E value = Some ps"
  shows "distinct ps" and "\<forall>p \<in> set ps. safe_relative_path p" and "length ps = length value"
proof -
  from assms have m: "map_opt (normalize_repository_path E) value = Some ps" and d: "distinct ps"
    by (auto simp: validate_paths_def)
  show "distinct ps" by (rule d)
  show "\<forall>p \<in> set ps. safe_relative_path p"
    using map_opt_all[OF m, of safe_relative_path]
    by (auto simp: normalize_repository_path_def normalized_path_safe)
  show "length ps = length value" using m by (metis length_map map_opt_Some)
qed

lemma validate_allowlist_parts:
  assumes "validate_allowlist E a = Some b"
  shows "validate_paths E (al_allowed_paths a) = Some (al_allowed_paths b)"
    and "validate_paths E (al_forbidden_paths a) = Some (al_forbidden_paths b)"
    and "validate_paths E (al_required_coverage a) = Some (al_required_coverage b)"
  using assms by (auto simp: validate_allowlist_def)

lemma validate_runner_config_parts:
  assumes "validate_runner_config E c = Some d"
  shows "version_dispatch c"
    and "validate_stage E (cfg_schema_version c) (cfg_stage c) = Some (cfg_stage d)"
    and "validate_repository (cfg_repository c) = Some (cfg_repository d)"
    and "validate_allowlist E (cfg_allowlist c) = Some (cfg_allowlist d)"
    and "validate_review_option (cfg_review_policy c) = Some (cfg_review_policy d)"
    and "contract_not_forbidden (cfg_stage d) (cfg_allowlist d)"
    and "cfg_schema_version d = cfg_schema_version c"
  using assms by (auto simp: validate_runner_config_def)

text \<open>The budgets of a configured review policy and its split of the severities.\<close>

definition policy_within_ceilings :: "review_policy_settings \<Rightarrow> bool" where
  "policy_within_ceilings r \<longleftrightarrow>
     rs_max_full_reviews r = 1 \<and> rs_max_correction_rounds r \<in> {0, 1} \<and> rs_max_closure_reviews r \<in> {0, 1}
     \<and> rs_max_blockers r \<in> {1, 2, 3}
     \<and> (\<forall>s. s \<in> set (rs_blocking_severities r) \<longleftrightarrow> s \<notin> set (rs_defer_severities r))
     \<and> CRITICAL \<in> set (rs_blocking_severities r) \<and> HIGH \<in> set (rs_blocking_severities r)"

lemma validate_review_settings_within:
  assumes "validate_review_settings r = Some s"
  shows "s = r" and "policy_within_ceilings r"
proof -
  show "s = r" using assms by (auto simp: validate_review_settings_def)
  have "\<forall>s. s \<in> set (rs_blocking_severities r) \<longleftrightarrow> s \<notin> set (rs_defer_severities r)"
    using assms all_severity_complete
    unfolding validate_review_settings_def validate_severity_split_def by (simp; blast)
  then show "policy_within_ceilings r"
    using assms by (auto simp: validate_review_settings_def policy_within_ceilings_def ceiling_defs
        validate_severity_split_def BLOCKING_SEVERITIES_def)
qed

end
