(* ===== verification/Stage_Policy.thy ===== *)
theory Stage_Policy
  imports Runner_Config Run_Record_Json
begin

text \<open>
  \<open>milestone_runner/policy.py\<close>: role selections, the project defaults and stage overrides, the contract
  binding, \<open>resolve_policy\<close>, and the Stage Start records with their integrity pins, as \<open>application.py\<close>
  builds them in \<open>stage_start\<close> and \<open>_binding_for\<close>. A record's dump is the JSON object of
  \<open>model_dump(mode="json")\<close>; \<open>to_py\<close> hands it to the canonical digest.
\<close>

definition POLICY_SCHEMA_VERSION :: int where "POLICY_SCHEMA_VERSION = 2"
definition BUILTIN_MAX_REMEDIATION_CYCLES :: int where "BUILTIN_MAX_REMEDIATION_CYCLES = 1"
definition BUILTIN_MAX_BLOCKERS :: int where "BUILTIN_MAX_BLOCKERS = 3"
definition MAX_OWNER_EXTENSIONS :: int where "MAX_OWNER_EXTENSIONS = 2"
definition MAX_ROLE_TIMEOUT_SECONDS :: int where "MAX_ROLE_TIMEOUT_SECONDS = 43200"

definition POLICY_BLOCKING_SEVERITIES :: "finding_severity list" where
  "POLICY_BLOCKING_SEVERITIES = [CRITICAL, HIGH]"

definition POLICY_DEFER_SEVERITIES :: "finding_severity list" where
  "POLICY_DEFER_SEVERITIES = [MEDIUM, LOW]"

datatype capability_mode = READ_ONLY | WORKSPACE_WRITE
datatype on_retry_exhausted = ASK_OWNER_AND_FREEZE
datatype start_principal = LOCAL_CLI
datatype registry_authority_kind = NO_GOVERNED_REGISTRY | GOVERNED_REGISTRY

fun capability_value :: "capability_mode \<Rightarrow> pystr" where
  "capability_value READ_ONLY = lit ''READ_ONLY''"
| "capability_value WORKSPACE_WRITE = lit ''WORKSPACE_WRITE''"

fun retry_value :: "on_retry_exhausted \<Rightarrow> pystr" where
  "retry_value ASK_OWNER_AND_FREEZE = lit ''ask_owner_and_freeze''"

fun principal_value :: "start_principal \<Rightarrow> pystr" where
  "principal_value LOCAL_CLI = lit ''LOCAL_CLI''"

fun registry_kind_value :: "registry_authority_kind \<Rightarrow> pystr" where
  "registry_kind_value NO_GOVERNED_REGISTRY = lit ''NO_GOVERNED_REGISTRY''"
| "registry_kind_value GOVERNED_REGISTRY = lit ''GOVERNED_REGISTRY''"

definition READ_ONLY_PROVIDER_ROLES :: "provider_role list" where
  "READ_ONLY_PROVIDER_ROLES = [REVIEW, CLOSURE]"

datatype policy_error = InvalidPolicyConfiguration | PolicyValueError

text \<open>\<open>_canonical_path\<close>: a persisted path is already normalised.\<close>

definition canonical_path :: "pyenv \<Rightarrow> pystr \<Rightarrow> bool" where
  "canonical_path E value \<longleftrightarrow> normalize_repository_path E value = Some value"

section \<open>Selections, defaults and overrides\<close>

record role_selection =
  sel_provider_id :: pystr
  sel_model_id :: pystr
  sel_capability_mode :: capability_mode
  sel_timeout_seconds :: int

definition provider_id_grammar :: "pystr \<Rightarrow> bool" where
  "provider_id_grammar v \<longleftrightarrow>
     v \<noteq> [] \<and> is_lower (hd v)
     \<and> list_all (\<lambda>p. p \<noteq> [] \<and> list_all (\<lambda>c. is_lower c \<or> is_digit c) p) (split_on 45 v)"

definition model_id_grammar :: "pystr \<Rightarrow> bool" where
  "model_id_grammar v \<longleftrightarrow>
     (case v of [] \<Rightarrow> False
      | c # cs \<Rightarrow> is_alnum c \<and> list_all (\<lambda>d. is_name_char d \<or> d \<in> set (lit '':@/+'')) cs)"

fun two_dots :: "pystr \<Rightarrow> bool" where
  "two_dots [] = False"
| "two_dots [c] = False"
| "two_dots (c # d # rest) = (c = 46 \<and> d = 46 \<or> two_dots (d # rest))"

definition validate_selection :: "role_selection \<Rightarrow> bool" where
  "validate_selection s \<longleftrightarrow>
     1 \<le> length (sel_provider_id s) \<and> length (sel_provider_id s) \<le> 64
     \<and> provider_id_grammar (sel_provider_id s) \<and> \<not> two_dots (sel_provider_id s)
     \<and> 1 \<le> length (sel_model_id s) \<and> length (sel_model_id s) \<le> 128
     \<and> model_id_grammar (sel_model_id s) \<and> \<not> two_dots (sel_model_id s)
     \<and> 1 \<le> sel_timeout_seconds s \<and> sel_timeout_seconds s \<le> MAX_ROLE_TIMEOUT_SECONDS"

type_synonym roles = "(provider_role \<times> role_selection) list"

text \<open>\<open>ProjectExecutionDefaults\<close> and \<open>StageExecutionOverrides\<close>, which adds nothing to it.\<close>

record execution_defaults =
  pd_schema_version :: int
  pd_max_remediation_cycles :: "int option"
  pd_max_blockers :: "int option"
  pd_on_retry_exhausted :: "on_retry_exhausted option"
  pd_roles :: roles

definition validate_defaults :: "execution_defaults \<Rightarrow> bool" where
  "validate_defaults d \<longleftrightarrow>
     pd_schema_version d = POLICY_SCHEMA_VERSION
     \<and> pred_option (\<lambda>n. 1 \<le> n \<and> n \<le> 3) (pd_max_remediation_cycles d)
     \<and> pred_option (\<lambda>n. 1 \<le> n \<and> n \<le> 3) (pd_max_blockers d)
     \<and> list_all (\<lambda>(_, s). validate_selection s) (pd_roles d)"

record registry_context =
  rx_kind :: registry_authority_kind
  rx_path :: "pystr option"

definition validate_registry_context :: "pyenv \<Rightarrow> registry_context \<Rightarrow> bool" where
  "validate_registry_context E x \<longleftrightarrow>
     pred_option (canonical_path E) (rx_path x) \<and> (rx_kind x = NO_GOVERNED_REGISTRY) = (rx_path x = None)"

record binding_fields =
  bf_repository_identity :: pystr
  bf_stage_id :: pystr
  bf_contract_path :: pystr
  bf_contract_sha256 :: pystr
  bf_registry_context :: registry_context

definition validate_binding_fields :: "pyenv \<Rightarrow> binding_fields \<Rightarrow> bool" where
  "validate_binding_fields E b \<longleftrightarrow>
     repository_identity_grammar (bf_repository_identity b) \<and> stage_id_grammar (bf_stage_id b)
     \<and> canonical_path E (bf_contract_path b) \<and> sha256_hex (bf_contract_sha256 b)
     \<and> validate_registry_context E (bf_registry_context b)"

record contract_binding =
  cb_fields :: binding_fields
  cb_ceilings :: contract_ceilings

definition validate_contract_binding :: "pyenv \<Rightarrow> contract_binding \<Rightarrow> contract_binding option" where
  "validate_contract_binding E b =
     refuse_if (\<not> validate_binding_fields E (cb_fields b))
     (Option.bind (validate_ceilings (cb_ceilings b)) (\<lambda>_. Some b))"

text \<open>\<open>StageSettingsV2.registry_context\<close> and \<open>RunnerConfig.contract_binding\<close>; a schema-1 stage has no binding.\<close>

definition registry_context_of :: "pystr option \<Rightarrow> registry_context" where
  "registry_context_of path =
     \<lparr>rx_kind = (if path = None then NO_GOVERNED_REGISTRY else GOVERNED_REGISTRY), rx_path = path\<rparr>"

definition contract_binding_of :: "pyenv \<Rightarrow> runner_config \<Rightarrow> config_error + contract_binding option" where
  "contract_binding_of E config =
     (case sg_v2 (cfg_stage config) of
        None \<Rightarrow> Inl InvalidRunnerConfiguration
      | Some (registry_path, ceilings) \<Rightarrow> Inr (validate_contract_binding E
          \<lparr>cb_fields = \<lparr>bf_repository_identity = rg_identity (cfg_repository config),
             bf_stage_id = sg_stage_id (cfg_stage config), bf_contract_path = sg_contract_path (cfg_stage config),
             bf_contract_sha256 = sg_contract_sha256 (cfg_stage config),
             bf_registry_context = registry_context_of registry_path\<rparr>,
           cb_ceilings = ceilings\<rparr>))"

section \<open>The effective policy\<close>

record effective_policy =
  ep_schema_version :: int
  ep_fields :: binding_fields
  ep_contract_ceilings :: contract_ceilings
  ep_max_remediation_cycles :: int
  ep_on_retry_exhausted :: on_retry_exhausted
  ep_max_blockers :: int
  ep_blocking_severities :: "finding_severity list"
  ep_defer_severities :: "finding_severity list"
  ep_max_owner_extensions :: int
  ep_roles :: roles
  ep_project_defaults_digest :: "pystr option"
  ep_stage_overrides_digest :: pystr

definition role_read_only :: "roles \<Rightarrow> provider_role \<Rightarrow> bool" where
  "role_read_only selections r \<longleftrightarrow> map_option sel_capability_mode (map_of selections r) = Some READ_ONLY"

definition validate_effective :: "pyenv \<Rightarrow> effective_policy \<Rightarrow> bool" where
  "validate_effective E p \<longleftrightarrow>
     ep_schema_version p = POLICY_SCHEMA_VERSION \<and> validate_binding_fields E (ep_fields p)
     \<and> validate_ceilings (ep_contract_ceilings p) \<noteq> None
     \<and> 1 \<le> ep_max_remediation_cycles p \<and> ep_max_remediation_cycles p \<le> 3
     \<and> 1 \<le> ep_max_blockers p \<and> ep_max_blockers p \<le> 3
     \<and> list_all (\<lambda>(_, s). validate_selection s) (ep_roles p)
     \<and> pred_option sha256_hex (ep_project_defaults_digest p) \<and> sha256_hex (ep_stage_overrides_digest p)
     \<and> ep_blocking_severities p = POLICY_BLOCKING_SEVERITIES \<and> ep_defer_severities p = POLICY_DEFER_SEVERITIES
     \<and> ep_max_owner_extensions p = MAX_OWNER_EXTENSIONS
     \<and> ep_max_remediation_cycles p \<le> cc_max_remediation_cycles (ep_contract_ceilings p)
     \<and> ep_max_blockers p \<le> cc_max_blockers (ep_contract_ceilings p)
     \<and> set (map fst (ep_roles p)) = set all_provider_role
     \<and> list_all (role_read_only (ep_roles p)) READ_ONLY_PROVIDER_ROLES"

section \<open>Dumps and digests\<close>

fun to_py :: "json \<Rightarrow> pyval" where
  "to_py JNull = PNone"
| "to_py (JBool b) = PBool b"
| "to_py (JInt i) = PInt i"
| "to_py (JStr v) = PStr v"
| "to_py (JList xs) = PList (map to_py xs)"
| "to_py (JObj kvs) = PDict (map (\<lambda>(k, v). (PStr k, to_py v)) kvs)"

definition selection_dump :: "role_selection \<Rightarrow> json" where
  "selection_dump s = JObj
     [(lit ''provider_id'', JStr (sel_provider_id s)), (lit ''model_id'', JStr (sel_model_id s)),
      (lit ''capability_mode'', JStr (capability_value (sel_capability_mode s))),
      (lit ''timeout_seconds'', JInt (sel_timeout_seconds s))]"

definition roles_dump :: "roles \<Rightarrow> json" where
  "roles_dump selections = JObj (map (\<lambda>(r, s). (provider_role_value r, selection_dump s)) selections)"

definition defaults_dump :: "execution_defaults \<Rightarrow> json" where
  "defaults_dump d = JObj
     [(lit ''schema_version'', JInt (pd_schema_version d)),
      (lit ''max_remediation_cycles'', jopt JInt (pd_max_remediation_cycles d)),
      (lit ''max_blockers'', jopt JInt (pd_max_blockers d)),
      (lit ''on_retry_exhausted'', jopt (\<lambda>r. JStr (retry_value r)) (pd_on_retry_exhausted d)),
      (lit ''roles'', roles_dump (pd_roles d))]"

definition ceilings_dump :: "contract_ceilings \<Rightarrow> json" where
  "ceilings_dump c = JObj
     [(lit ''max_remediation_cycles'', JInt (cc_max_remediation_cycles c)),
      (lit ''max_blockers'', JInt (cc_max_blockers c))]"

definition registry_dump :: "registry_context \<Rightarrow> json" where
  "registry_dump x = JObj
     [(lit ''kind'', JStr (registry_kind_value (rx_kind x))), (lit ''path'', jopt JStr (rx_path x))]"

definition fields_dump :: "binding_fields \<Rightarrow> (pystr \<times> json) list" where
  "fields_dump b =
     [(lit ''repository_identity'', JStr (bf_repository_identity b)), (lit ''stage_id'', JStr (bf_stage_id b)),
      (lit ''contract_path'', JStr (bf_contract_path b)), (lit ''contract_sha256'', JStr (bf_contract_sha256 b)),
      (lit ''registry_context'', registry_dump (bf_registry_context b))]"

definition severities_dump :: "finding_severity list \<Rightarrow> json" where
  "severities_dump s = JList (map (\<lambda>x. JStr (severity_value x)) s)"

definition effective_dump :: "effective_policy \<Rightarrow> json" where
  "effective_dump p = JObj
     ((lit ''schema_version'', JInt (ep_schema_version p)) # fields_dump (ep_fields p) @
      [(lit ''contract_ceilings'', ceilings_dump (ep_contract_ceilings p)),
       (lit ''max_remediation_cycles'', JInt (ep_max_remediation_cycles p)),
       (lit ''on_retry_exhausted'', JStr (retry_value (ep_on_retry_exhausted p))),
       (lit ''max_blockers'', JInt (ep_max_blockers p)),
       (lit ''blocking_severities'', severities_dump (ep_blocking_severities p)),
       (lit ''defer_severities'', severities_dump (ep_defer_severities p)),
       (lit ''max_owner_extensions'', JInt (ep_max_owner_extensions p)),
       (lit ''roles'', roles_dump (ep_roles p)),
       (lit ''project_defaults_digest'', jopt JStr (ep_project_defaults_digest p)),
       (lit ''stage_overrides_digest'', JStr (ep_stage_overrides_digest p))])"

definition dump_digest :: "pyenv \<Rightarrow> json \<Rightarrow> pystr option" where
  "dump_digest E document = canonical_digest E (to_py document)"

definition policy_digest :: "pyenv \<Rightarrow> effective_policy \<Rightarrow> pystr option" where
  "policy_digest E p = dump_digest E (effective_dump p)"

definition authority_digest :: "pyenv \<Rightarrow> json \<Rightarrow> pystr" where
  "authority_digest E payload = sha256 E (authority_json_bytes payload)"

definition stage_start_key :: "pyenv \<Rightarrow> pystr \<Rightarrow> pystr \<Rightarrow> pystr \<Rightarrow> pystr option" where
  "stage_start_key E repository_identity stage_id contract_sha256 = dump_digest E (JObj
     [(lit ''repository_identity'', JStr repository_identity), (lit ''stage_id'', JStr stage_id),
      (lit ''contract_sha256'', JStr contract_sha256)])"

section \<open>Resolution\<close>

definition resolve_scalar :: "int \<Rightarrow> int \<Rightarrow> int option \<Rightarrow> int option \<Rightarrow> policy_error + int" where
  "resolve_scalar builtin ceiling override preset =
     (case override of
        Some v \<Rightarrow> raise_if (v > ceiling) InvalidPolicyConfiguration (Inr v)
      | None \<Rightarrow> Inr (min (case preset of Some d \<Rightarrow> d | None \<Rightarrow> builtin) ceiling))"

fun choose_roles :: "roles \<Rightarrow> roles \<Rightarrow> provider_role list \<Rightarrow> policy_error + roles" where
  "choose_roles overrides defaults [] = Inr []"
| "choose_roles overrides defaults (r # rs) =
     (case (case map_of overrides r of Some s \<Rightarrow> Some s | None \<Rightarrow> map_of defaults r) of
        None \<Rightarrow> Inl InvalidPolicyConfiguration
      | Some chosen \<Rightarrow> rbind (choose_roles overrides defaults rs) (\<lambda>rest. Inr ((r, chosen) # rest)))"

definition resolve_policy ::
  "pyenv \<Rightarrow> execution_defaults option \<Rightarrow> execution_defaults \<Rightarrow> contract_binding \<Rightarrow> pystr option \<Rightarrow>
     policy_error + effective_policy" where
  "resolve_policy E defaults overrides contract project_defaults_digest =
     rbind (resolve_scalar BUILTIN_MAX_REMEDIATION_CYCLES (cc_max_remediation_cycles (cb_ceilings contract))
       (pd_max_remediation_cycles overrides) (Option.bind defaults pd_max_remediation_cycles)) (\<lambda>cycles.
     rbind (resolve_scalar BUILTIN_MAX_BLOCKERS (cc_max_blockers (cb_ceilings contract))
       (pd_max_blockers overrides) (Option.bind defaults pd_max_blockers)) (\<lambda>blockers.
     let retry = (case pd_on_retry_exhausted overrides of
                    Some r \<Rightarrow> Some r | None \<Rightarrow> Option.bind defaults pd_on_retry_exhausted) in
     rbind (choose_roles (pd_roles overrides) (case defaults of None \<Rightarrow> [] | Some d \<Rightarrow> pd_roles d)
       all_provider_role) (\<lambda>selections.
     rbind (from_option PolicyValueError (dump_digest E (defaults_dump overrides))) (\<lambda>overrides_digest.
     let p = \<lparr>ep_schema_version = POLICY_SCHEMA_VERSION, ep_fields = cb_fields contract,
              ep_contract_ceilings = cb_ceilings contract, ep_max_remediation_cycles = cycles,
              ep_on_retry_exhausted = (case retry of Some r \<Rightarrow> r | None \<Rightarrow> ASK_OWNER_AND_FREEZE),
              ep_max_blockers = blockers, ep_blocking_severities = POLICY_BLOCKING_SEVERITIES,
              ep_defer_severities = POLICY_DEFER_SEVERITIES, ep_max_owner_extensions = MAX_OWNER_EXTENSIONS,
              ep_roles = selections, ep_project_defaults_digest = project_defaults_digest,
              ep_stage_overrides_digest = overrides_digest\<rparr> in
     raise_if (\<not> validate_effective E p) InvalidPolicyConfiguration (Inr p)))))"

end
