(* ===== verification/Stage_Start.thy ===== *)
theory Stage_Start
  imports Stage_Policy
begin

text \<open>
  The Stage Start records of \<open>policy.py\<close> - authorization, pointer, binding and consumption witness - with
  every validator, and how \<open>application.py\<close> builds them: \<open>stage_start\<close> the authorization and its pointer,
  \<open>_binding_for\<close> the binding, \<open>_start_policy_run\<close> the witness.
\<close>

section \<open>Calendar timestamps\<close>

text \<open>\<open>datetime.strptime(value, "%Y-%m-%dT%H:%M:%SZ")\<close> on a value of the right shape.\<close>

definition decimal :: "pystr \<Rightarrow> nat" where
  "decimal v = foldl (\<lambda>n c. 10 * n + (c - 48)) 0 v"

definition days_in_month :: "nat \<Rightarrow> nat \<Rightarrow> nat" where
  "days_in_month y m =
     (if m = 2 then (if y mod 4 = 0 \<and> (y mod 100 \<noteq> 0 \<or> y mod 400 = 0) then 29 else 28)
      else if m \<in> {4, 6, 9, 11} then 30 else 31)"

definition calendar_timestamp :: "pystr \<Rightarrow> bool" where
  "calendar_timestamp v \<longleftrightarrow>
     utc_timestamp v
     \<and> (let y = decimal (take 4 v); m = decimal (take 2 (drop 5 v)); d = decimal (take 2 (drop 8 v)) in
        1 \<le> y \<and> 1 \<le> m \<and> m \<le> 12 \<and> 1 \<le> d \<and> d \<le> days_in_month y m
        \<and> decimal (take 2 (drop 11 v)) \<le> 23 \<and> decimal (take 2 (drop 14 v)) \<le> 59
        \<and> decimal (take 2 (drop 17 v)) \<le> 59)"

section \<open>The authorization\<close>

record stage_start_authorization =
  sa_schema_version :: int
  sa_fields :: binding_fields
  sa_stage_start_id :: pystr
  sa_authorization_digest :: pystr
  sa_stage_start_key :: pystr
  sa_principal :: start_principal
  sa_contract_ceilings :: contract_ceilings
  sa_stage_overrides :: execution_defaults
  sa_effective_policy :: effective_policy
  sa_effective_policy_digest :: pystr
  sa_created_at :: pystr

definition authorization_items :: "stage_start_authorization \<Rightarrow> (pystr \<times> json) list" where
  "authorization_items a =
     (lit ''schema_version'', JInt (sa_schema_version a)) # fields_dump (sa_fields a) @
     [(lit ''stage_start_id'', JStr (sa_stage_start_id a)),
      (lit ''authorization_digest'', JStr (sa_authorization_digest a)),
      (lit ''stage_start_key'', JStr (sa_stage_start_key a)),
      (lit ''principal'', JStr (principal_value (sa_principal a))),
      (lit ''contract_ceilings'', ceilings_dump (sa_contract_ceilings a)),
      (lit ''stage_overrides'', defaults_dump (sa_stage_overrides a)),
      (lit ''effective_policy'', effective_dump (sa_effective_policy a)),
      (lit ''effective_policy_digest'', JStr (sa_effective_policy_digest a)),
      (lit ''created_at'', JStr (sa_created_at a))]"

definition logical_authorization_payload :: "(pystr \<times> json) list \<Rightarrow> (pystr \<times> json) list" where
  "logical_authorization_payload payload =
     filter (\<lambda>(k, v). k \<notin> set (map lit [''stage_start_id'', ''authorization_digest'', ''created_at''])) payload"

definition validate_authorization :: "pyenv \<Rightarrow> stage_start_authorization \<Rightarrow> stage_start_authorization option" where
  "validate_authorization E a =
     refuse_if (sa_schema_version a \<noteq> POLICY_SCHEMA_VERSION)
     (refuse_if (\<not> validate_binding_fields E (sa_fields a))
     (refuse_if (\<not> list_all sha256_hex [sa_stage_start_id a, sa_authorization_digest a, sa_stage_start_key a,
                                         sa_effective_policy_digest a])
     (refuse_if (validate_ceilings (sa_contract_ceilings a) = None)
     (refuse_if (\<not> validate_defaults (sa_stage_overrides a))
     (refuse_if (\<not> validate_effective E (sa_effective_policy a))
     (refuse_if (\<not> calendar_timestamp (sa_created_at a))
     (refuse_if (sa_fields a \<noteq> ep_fields (sa_effective_policy a)
                 \<or> sa_contract_ceilings a \<noteq> ep_contract_ceilings (sa_effective_policy a))
     (refuse_if (policy_digest E (sa_effective_policy a) \<noteq> Some (sa_effective_policy_digest a))
     (refuse_if (dump_digest E (defaults_dump (sa_stage_overrides a))
                 \<noteq> Some (ep_stage_overrides_digest (sa_effective_policy a)))
     (refuse_if (stage_start_key E (bf_repository_identity (sa_fields a)) (bf_stage_id (sa_fields a))
                   (bf_contract_sha256 (sa_fields a)) \<noteq> Some (sa_stage_start_key a))
     (refuse_if (sa_stage_start_id a
                 \<noteq> authority_digest E (JObj (logical_authorization_payload (authorization_items a))))
     (refuse_if (sa_authorization_digest a
                 \<noteq> authority_digest E (JObj (filter (\<lambda>(k, v). k \<noteq> lit ''authorization_digest'')
                      (authorization_items a))))
     (Some a)))))))))))))"

text \<open>The dictionary \<open>logical\<close> of \<open>stage_start\<close> and the record built from it.\<close>

definition logical_items :: "effective_policy \<Rightarrow> execution_defaults \<Rightarrow> pystr \<Rightarrow> pystr \<Rightarrow> pystr \<Rightarrow> (pystr \<times> json) list" where
  "logical_items policy overrides stage_id digest key =
     [(lit ''schema_version'', JInt 2), (lit ''principal'', JStr (principal_value LOCAL_CLI)),
      (lit ''repository_identity'', JStr (bf_repository_identity (ep_fields policy))),
      (lit ''stage_id'', JStr stage_id),
      (lit ''contract_path'', JStr (bf_contract_path (ep_fields policy))),
      (lit ''contract_sha256'', JStr (bf_contract_sha256 (ep_fields policy))),
      (lit ''contract_ceilings'', ceilings_dump (ep_contract_ceilings policy)),
      (lit ''registry_context'', registry_dump (bf_registry_context (ep_fields policy))),
      (lit ''stage_overrides'', defaults_dump overrides),
      (lit ''effective_policy'', effective_dump policy),
      (lit ''effective_policy_digest'', JStr digest),
      (lit ''stage_start_key'', JStr key)]"

definition build_authorization ::
  "pyenv \<Rightarrow> effective_policy \<Rightarrow> execution_defaults \<Rightarrow> pystr \<Rightarrow> pystr \<Rightarrow> policy_error + stage_start_authorization" where
  "build_authorization E policy overrides stage_id created_at =
     rbind (from_option PolicyValueError (policy_digest E policy)) (\<lambda>digest.
     rbind (from_option PolicyValueError (stage_start_key E (bf_repository_identity (ep_fields policy)) stage_id
              (bf_contract_sha256 (ep_fields policy)))) (\<lambda>key.
     let logical = logical_items policy overrides stage_id digest key;
         logical_id = authority_digest E (JObj logical);
         payload = logical @ [(lit ''stage_start_id'', JStr logical_id), (lit ''created_at'', JStr created_at)] in
     from_option PolicyValueError (validate_authorization E
       \<lparr>sa_schema_version = 2, sa_fields = (ep_fields policy)\<lparr>bf_stage_id := stage_id\<rparr>,
        sa_stage_start_id = logical_id, sa_authorization_digest = authority_digest E (JObj payload),
        sa_stage_start_key = key, sa_principal = LOCAL_CLI, sa_contract_ceilings = ep_contract_ceilings policy,
        sa_stage_overrides = overrides, sa_effective_policy = policy, sa_effective_policy_digest = digest,
        sa_created_at = created_at\<rparr>)))"

section \<open>Pointer, binding and witness\<close>

record stage_start_pointer =
  sp_schema_version :: int
  sp_stage_start_key :: pystr
  sp_stage_start_id :: pystr
  sp_authorization_digest :: pystr

definition validate_pointer :: "stage_start_pointer \<Rightarrow> bool" where
  "validate_pointer p \<longleftrightarrow>
     sp_schema_version p = POLICY_SCHEMA_VERSION
     \<and> list_all sha256_hex [sp_stage_start_key p, sp_stage_start_id p, sp_authorization_digest p]"

definition pointer_items :: "stage_start_pointer \<Rightarrow> (pystr \<times> json) list" where
  "pointer_items p =
     [(lit ''schema_version'', JInt (sp_schema_version p)), (lit ''stage_start_key'', JStr (sp_stage_start_key p)),
      (lit ''stage_start_id'', JStr (sp_stage_start_id p)),
      (lit ''authorization_digest'', JStr (sp_authorization_digest p))]"

record stage_start_binding =
  sb_pointer :: stage_start_pointer
  sb_policy_digest :: pystr
  sb_run_id :: pystr
  sb_binding_digest :: pystr

definition binding_payload :: "stage_start_binding \<Rightarrow> (pystr \<times> json) list" where
  "binding_payload b =
     pointer_items (sb_pointer b)
     @ [(lit ''policy_digest'', JStr (sb_policy_digest b)), (lit ''run_id'', JStr (sb_run_id b))]"

definition validate_start_binding :: "pyenv \<Rightarrow> stage_start_binding \<Rightarrow> stage_start_binding option" where
  "validate_start_binding E b =
     refuse_if (\<not> validate_pointer (sb_pointer b))
     (refuse_if (\<not> list_all sha256_hex [sb_policy_digest b, sb_binding_digest b])
     (refuse_if (\<not> run_id_grammar (sb_run_id b))
     (refuse_if (sb_binding_digest b \<noteq> authority_digest E (JObj (binding_payload b)))
     (Some b))))"

record consumption_witness =
  cw_pointer :: stage_start_pointer
  cw_stage_id :: pystr
  cw_contract_sha256 :: pystr
  cw_policy_digest :: pystr
  cw_run_id :: pystr
  cw_binding_digest :: pystr
  cw_witness_digest :: pystr

definition witness_payload :: "consumption_witness \<Rightarrow> (pystr \<times> json) list" where
  "witness_payload w =
     pointer_items (cw_pointer w)
     @ [(lit ''stage_id'', JStr (cw_stage_id w)), (lit ''contract_sha256'', JStr (cw_contract_sha256 w)),
        (lit ''policy_digest'', JStr (cw_policy_digest w)), (lit ''run_id'', JStr (cw_run_id w)),
        (lit ''binding_digest'', JStr (cw_binding_digest w))]"

definition validate_consumption :: "pyenv \<Rightarrow> consumption_witness \<Rightarrow> consumption_witness option" where
  "validate_consumption E w =
     refuse_if (\<not> validate_pointer (cw_pointer w))
     (refuse_if (\<not> list_all sha256_hex [cw_contract_sha256 w, cw_policy_digest w, cw_binding_digest w, cw_witness_digest w])
     (refuse_if (\<not> stage_id_grammar (cw_stage_id w))
     (refuse_if (\<not> run_id_grammar (cw_run_id w))
     (refuse_if (cw_witness_digest w \<noteq> authority_digest E (JObj (witness_payload w)))
     (Some w)))))"

definition pointer_for :: "stage_start_authorization \<Rightarrow> stage_start_pointer" where
  "pointer_for a =
     \<lparr>sp_schema_version = 2, sp_stage_start_key = sa_stage_start_key a, sp_stage_start_id = sa_stage_start_id a,
      sp_authorization_digest = sa_authorization_digest a\<rparr>"

definition binding_for :: "pyenv \<Rightarrow> stage_start_authorization \<Rightarrow> pystr \<Rightarrow> stage_start_binding option" where
  "binding_for E a run_id =
     (let payload =
        [(lit ''schema_version'', JInt 2), (lit ''stage_start_key'', JStr (sa_stage_start_key a)),
         (lit ''stage_start_id'', JStr (sa_stage_start_id a)),
         (lit ''authorization_digest'', JStr (sa_authorization_digest a)),
         (lit ''policy_digest'', JStr (sa_effective_policy_digest a)), (lit ''run_id'', JStr run_id)] in
      validate_start_binding E
        \<lparr>sb_pointer = pointer_for a, sb_policy_digest = sa_effective_policy_digest a, sb_run_id = run_id,
         sb_binding_digest = authority_digest E (JObj payload)\<rparr>)"

definition consumption_for ::
  "pyenv \<Rightarrow> stage_start_authorization \<Rightarrow> stage_start_binding \<Rightarrow> consumption_witness option" where
  "consumption_for E a b =
     (let payload = binding_payload b @ [(lit ''binding_digest'', JStr (sb_binding_digest b)),
            (lit ''stage_id'', JStr (bf_stage_id (sa_fields a))),
            (lit ''contract_sha256'', JStr (bf_contract_sha256 (sa_fields a)))] in
      validate_consumption E
        \<lparr>cw_pointer = sb_pointer b, cw_stage_id = bf_stage_id (sa_fields a),
         cw_contract_sha256 = bf_contract_sha256 (sa_fields a), cw_policy_digest = sb_policy_digest b,
         cw_run_id = sb_run_id b, cw_binding_digest = sb_binding_digest b,
         cw_witness_digest = authority_digest E (JObj payload)\<rparr>)"

section \<open>Reading the evidence of a Stage Start\<close>

text \<open>
  \<open>_read_start_binding\<close> and \<open>_read_start_consumption\<close>: \<open>stored\<close> is what the authority store returns for the
  authorization's id - \<open>None\<close> where it raises a \<open>StateError\<close>, \<open>Some None\<close> where nothing is stored. Every refusal
  carries \<open>STAGE_START_ALREADY_BOUND\<close>.
\<close>

datatype start_refusal = StartAlreadyBound

definition read_start_binding ::
  "stage_start_authorization \<Rightarrow> pystr option \<Rightarrow> stage_start_binding option option \<Rightarrow>
     start_refusal + stage_start_binding option" where
  "read_start_binding a expected_run_id stored =
     (case stored of
        None \<Rightarrow> Inl StartAlreadyBound
      | Some None \<Rightarrow> raise_if (expected_run_id \<noteq> None) StartAlreadyBound (Inr None)
      | Some (Some b) \<Rightarrow>
          raise_if (sp_stage_start_key (sb_pointer b) \<noteq> sa_stage_start_key a
              \<or> sp_authorization_digest (sb_pointer b) \<noteq> sa_authorization_digest a
              \<or> sb_policy_digest b \<noteq> sa_effective_policy_digest a
              \<or> expected_run_id \<noteq> None \<and> expected_run_id \<noteq> Some (sb_run_id b))
            StartAlreadyBound (Inr (Some b)))"

definition read_start_consumption ::
  "pyenv \<Rightarrow> stage_start_authorization \<Rightarrow> pystr option \<Rightarrow> stage_start_binding option option \<Rightarrow>
     consumption_witness option option \<Rightarrow> start_refusal + consumption_witness option" where
  "read_start_consumption E a expected_run_id stored_binding stored =
     rbind (read_start_binding a expected_run_id stored_binding) (\<lambda>binding.
     case stored of
       None \<Rightarrow> Inl StartAlreadyBound
     | Some None \<Rightarrow> raise_if (binding \<noteq> None \<or> expected_run_id \<noteq> None) StartAlreadyBound (Inr None)
     | Some (Some w) \<Rightarrow>
         rbind (from_option StartAlreadyBound (binding_for E a (cw_run_id w))) (\<lambda>expected.
         raise_if (sp_stage_start_key (cw_pointer w) \<noteq> sa_stage_start_key a
             \<or> cw_stage_id w \<noteq> bf_stage_id (sa_fields a)
             \<or> cw_contract_sha256 w \<noteq> bf_contract_sha256 (sa_fields a)
             \<or> sp_authorization_digest (cw_pointer w) \<noteq> sa_authorization_digest a
             \<or> cw_policy_digest w \<noteq> sa_effective_policy_digest a
             \<or> cw_binding_digest w \<noteq> sb_binding_digest expected
             \<or> binding \<noteq> None \<and> binding \<noteq> Some expected
             \<or> expected_run_id \<noteq> None \<and> expected_run_id \<noteq> Some (cw_run_id w))
           StartAlreadyBound (Inr (Some w))))"

end
