(* ===== verification/Policy_Facts.thy ===== *)
theory Policy_Facts
  imports Stage_Start
begin

text \<open>
  What a resolved policy satisfies, when resolution refuses, and that the records built from a resolved
  policy pass their own validators: the digests computed on the dictionary as it is assembled are those
  of the record's dump, because the serialization sorts the keys.
\<close>

section \<open>Resolution\<close>

lemma resolve_scalar_Inr:
  "resolve_scalar builtin ceiling override preset = Inr v \<longleftrightarrow>
     (case override of Some w \<Rightarrow> v = w \<and> w \<le> ceiling
      | None \<Rightarrow> v = min (case preset of Some d \<Rightarrow> d | None \<Rightarrow> builtin) ceiling)"
  by (auto simp: resolve_scalar_def split: option.splits)

lemma resolve_scalar_le: "resolve_scalar builtin ceiling override preset = Inr v \<Longrightarrow> v \<le> ceiling"
  by (auto simp: resolve_scalar_Inr split: option.splits)

abbreviation chosen :: "roles \<Rightarrow> roles \<Rightarrow> provider_role \<Rightarrow> role_selection option" where
  "chosen overrides defaults r \<equiv> (case map_of overrides r of Some s \<Rightarrow> Some s | None \<Rightarrow> map_of defaults r)"

lemma choose_roles_Inr:
  "choose_roles overrides defaults rs = Inr selections \<longleftrightarrow>
     map (\<lambda>r. map_option (Pair r) (chosen overrides defaults r)) rs = map Some selections"
  by (induction rs arbitrary: selections) (auto split: option.splits)

lemma choose_roles_lookup:
  assumes "choose_roles overrides defaults rs = Inr selections"
  shows "map fst selections = rs" and "r \<in> set rs \<Longrightarrow> map_of selections r = chosen overrides defaults r"
    and "(r, s) \<in> set selections \<Longrightarrow> chosen overrides defaults r = Some s"
proof -
  show "map fst selections = rs"
    using assms by (induction rs arbitrary: selections) (auto split: option.splits)
  show "r \<in> set rs \<Longrightarrow> map_of selections r = chosen overrides defaults r"
    using assms by (induction rs arbitrary: selections) (auto split: option.splits if_splits)
  show "(r, s) \<in> set selections \<Longrightarrow> chosen overrides defaults r = Some s"
    using assms by (induction rs arbitrary: selections) (auto split: option.splits)
qed

lemma choose_roles_defined:
  "(\<forall>r \<in> set rs. chosen overrides defaults r \<noteq> None) \<longleftrightarrow> (\<exists>selections. choose_roles overrides defaults rs = Inr selections)"
proof (induction rs)
  case (Cons r rs)
  then show ?case by (cases "chosen overrides defaults r") auto
qed simp

definition default_roles :: "execution_defaults option \<Rightarrow> roles" where
  "default_roles defaults = (case defaults of None \<Rightarrow> [] | Some d \<Rightarrow> pd_roles d)"

lemma resolve_policy_Inr:
  assumes "resolve_policy E defaults overrides contract digest = Inr p"
  shows "validate_effective E p" and "ep_fields p = cb_fields contract"
    and "ep_contract_ceilings p = cb_ceilings contract"
    and "resolve_scalar BUILTIN_MAX_REMEDIATION_CYCLES (cc_max_remediation_cycles (cb_ceilings contract))
       (pd_max_remediation_cycles overrides) (Option.bind defaults pd_max_remediation_cycles)
       = Inr (ep_max_remediation_cycles p)"
    and "resolve_scalar BUILTIN_MAX_BLOCKERS (cc_max_blockers (cb_ceilings contract))
       (pd_max_blockers overrides) (Option.bind defaults pd_max_blockers) = Inr (ep_max_blockers p)"
    and "choose_roles (pd_roles overrides) (default_roles defaults) all_provider_role = Inr (ep_roles p)"
    and "dump_digest E (defaults_dump overrides) = Some (ep_stage_overrides_digest p)"
    and "ep_project_defaults_digest p = digest"
proof -
  let ?p = "\<lambda>cycles blockers selections overrides_digest.
    \<lparr>ep_schema_version = POLICY_SCHEMA_VERSION, ep_fields = cb_fields contract,
     ep_contract_ceilings = cb_ceilings contract, ep_max_remediation_cycles = cycles,
     ep_on_retry_exhausted = (case (case pd_on_retry_exhausted overrides of
                    Some r \<Rightarrow> Some r | None \<Rightarrow> Option.bind defaults pd_on_retry_exhausted) of
                    Some r \<Rightarrow> r | None \<Rightarrow> ASK_OWNER_AND_FREEZE),
     ep_max_blockers = blockers, ep_blocking_severities = POLICY_BLOCKING_SEVERITIES,
     ep_defer_severities = POLICY_DEFER_SEVERITIES, ep_max_owner_extensions = MAX_OWNER_EXTENSIONS,
     ep_roles = selections, ep_project_defaults_digest = digest, ep_stage_overrides_digest = overrides_digest\<rparr>"
  obtain cycles blockers selections overrides_digest where
    q1: "resolve_scalar BUILTIN_MAX_REMEDIATION_CYCLES (cc_max_remediation_cycles (cb_ceilings contract))
       (pd_max_remediation_cycles overrides) (Option.bind defaults pd_max_remediation_cycles) = Inr cycles"
    and q2: "resolve_scalar BUILTIN_MAX_BLOCKERS (cc_max_blockers (cb_ceilings contract))
       (pd_max_blockers overrides) (Option.bind defaults pd_max_blockers) = Inr blockers"
    and q3: "choose_roles (pd_roles overrides) (default_roles defaults) all_provider_role = Inr selections"
    and q4: "dump_digest E (defaults_dump overrides) = Some overrides_digest"
    and q5: "validate_effective E (?p cycles blockers selections overrides_digest)"
    and p: "?p cycles blockers selections overrides_digest = p"
    using assms unfolding resolve_policy_def Let_def rbind_Inr raise_if_Inr from_option_Inr not_not
      default_roles_def[symmetric] sum.inject
    by (elim exE conjE) (rule that, assumption+)
  show "validate_effective E p" using q5 unfolding p .
  have f: "ep_fields p = cb_fields contract" "ep_contract_ceilings p = cb_ceilings contract"
    "ep_max_remediation_cycles p = cycles" "ep_max_blockers p = blockers" "ep_roles p = selections"
    "ep_stage_overrides_digest p = overrides_digest" "ep_project_defaults_digest p = digest"
    unfolding p[symmetric] by simp_all
  show "ep_fields p = cb_fields contract" "ep_contract_ceilings p = cb_ceilings contract"
    "ep_project_defaults_digest p = digest" by (rule f)+
  show "resolve_scalar BUILTIN_MAX_REMEDIATION_CYCLES (cc_max_remediation_cycles (cb_ceilings contract))
       (pd_max_remediation_cycles overrides) (Option.bind defaults pd_max_remediation_cycles)
       = Inr (ep_max_remediation_cycles p)"
    "resolve_scalar BUILTIN_MAX_BLOCKERS (cc_max_blockers (cb_ceilings contract))
       (pd_max_blockers overrides) (Option.bind defaults pd_max_blockers) = Inr (ep_max_blockers p)"
    "choose_roles (pd_roles overrides) (default_roles defaults) all_provider_role = Inr (ep_roles p)"
    "dump_digest E (defaults_dump overrides) = Some (ep_stage_overrides_digest p)"
    unfolding f by (rule q1 q2 q3 q4)+
qed

section \<open>When resolution refuses\<close>

text \<open>Documents of ASCII strings whose keys survive the canonical digest are digested as they are.\<close>

fun plain_json :: "json \<Rightarrow> bool" where
  "plain_json (JStr v) = list_all (\<lambda>c. c < 128) v"
| "plain_json (JList xs) = (\<forall>x \<in> set xs. plain_json x)"
| "plain_json (JObj kvs) =
     (distinct (map fst kvs)
      \<and> (\<forall>(k, v) \<in> set kvs. list_all (\<lambda>c. c < 128) k \<and> k \<notin> set digest_excluded_fields \<and> plain_json v))"
| "plain_json _ = True"

definition nfc_keeps_ascii :: "pyenv \<Rightarrow> bool" where
  "nfc_keeps_ascii E \<longleftrightarrow> (\<forall>v. list_all (\<lambda>c. c < 128) v \<longrightarrow> nfc E v = v)"

lemma ascii_no_surrogate: "list_all (\<lambda>c. c < 128) v \<Longrightarrow> \<not> list_ex is_surrogate v"
  by (induction v) (auto simp: is_surrogate_def)

lemma canonicalize_items_plain:
  assumes "nfc_keeps_ascii E" and "\<forall>(k, v) \<in> set kvs. canonicalize E (to_py v) = Some v"
    and "\<forall>(k, v) \<in> set kvs. list_all (\<lambda>c. c < 128) k \<and> k \<notin> set digest_excluded_fields"
    and "distinct (map fst (done_items @ kvs))"
  shows "canonicalize_items E done_items (map (\<lambda>(k, v). (PStr k, to_py v)) kvs) = Some (done_items @ kvs)"
  using assms(2-4)
proof (induction kvs arbitrary: done_items)
  case (Cons kv kvs)
  obtain k v where kv: "kv = (k, v)" by (cases kv)
  have "nfc E k = k" using assms(1) Cons.prems(2) kv by (simp add: nfc_keeps_ascii_def)
  moreover have "canonicalize_items E (done_items @ [(k, v)]) (map (\<lambda>(k, v). (PStr k, to_py v)) kvs)
      = Some ((done_items @ [(k, v)]) @ kvs)"
    by (rule Cons.IH) (use Cons.prems kv in simp_all)
  ultimately show ?case using Cons.prems kv by simp
qed simp

lemma canonicalize_plain:
  assumes "nfc_keeps_ascii E"
  shows "plain_json j \<Longrightarrow> canonicalize E (to_py j) = Some j"
proof (induction j)
  case (JStr v)
  then show ?case using assms ascii_no_surrogate by (simp add: nfc_keeps_ascii_def)
next
  case (JList xs)
  have "\<forall>x \<in> set xs. canonicalize E (to_py x) = Some x" using JList by simp
  then have "canonicalize_list E (map to_py xs) = Some xs" by (induction xs) simp_all
  then show ?case by simp
next
  case (JObj kvs)
  have "\<forall>(k, v) \<in> set kvs. canonicalize E (to_py v) = Some v"
    using JObj by (fastforce simp: snds.simps)
  moreover have "\<forall>(k, v) \<in> set kvs. list_all (\<lambda>c. c < 128) k \<and> k \<notin> set digest_excluded_fields"
    using JObj.prems by auto
  ultimately have "canonicalize_items E [] (map (\<lambda>(k, v). (PStr k, to_py v)) kvs) = Some ([] @ kvs)"
    by (rule canonicalize_items_plain[OF assms]) (use JObj.prems in simp)
  then show ?case by simp
qed simp_all

text \<open>The serialization of a plain document is ASCII, so encoding it never fails.\<close>

lemma nat_digits_ascii: "list_all (\<lambda>c. c < 128) (nat_digits n)"
proof (induction n rule: nat_digits.induct)
  case (1 n)
  then show ?case by (subst nat_digits.simps) auto
qed

lemma escape_ascii: "c < 128 \<Longrightarrow> list_all (\<lambda>c. c < 128) (escape_char c)"
  by (auto simp: escape_char_def hex_digit_def lit_def)

lemma string_text_ascii: "list_all (\<lambda>c. c < 128) v \<Longrightarrow> list_all (\<lambda>c. c < 128) (string_text v)"
  unfolding string_text_def by (induction v) (auto simp: escape_ascii)

lemma join_on_ascii: "c < 128 \<Longrightarrow> \<forall>x \<in> set xs. list_all (\<lambda>c. c < 128) x \<Longrightarrow> list_all (\<lambda>c. c < 128) (join_on c xs)"
  by (induction c xs rule: join_on.induct) auto

lemma dumps_ascii: "plain_json j \<Longrightarrow> list_all (\<lambda>c. c < 128) (dumps j)"
proof (induction j)
  case (JObj kvs)
  have "\<forall>x \<in> set (map (\<lambda>(k, t). string_text k @ 58 # t) (sort_key fst (map (\<lambda>(k, v). (k, dumps v)) kvs))).
      list_all (\<lambda>c. c < 128) x"
    using JObj by (fastforce simp: snds.simps string_text_ascii)
  then show ?case by (simp add: join_on_ascii)
qed (auto simp: lit_def int_text_def nat_digits_ascii string_text_ascii join_on_ascii)

lemma dump_digest_plain:
  assumes "nfc_keeps_ascii E" and "plain_json j"
  shows "dump_digest E j = Some (sha256 E (utf8 (dumps j)))"
  using canonicalize_plain[OF assms] ascii_no_surrogate[OF dumps_ascii[OF assms(2)]]
  by (simp add: dump_digest_def canonical_digest_def canonical_json_bytes_def encode_strict_def)

lemma provider_id_ascii: "provider_id_grammar v \<Longrightarrow> list_all (\<lambda>c. c < 128) v"
proof (unfold list_all_iff, rule ballI)
  fix c
  assume g: "provider_id_grammar v" and c: "c \<in> set v"
  show "c < 128"
  proof (cases "c = 45")
    case False
    then obtain p where "p \<in> set (split_on 45 v)" "c \<in> set p" using split_covers[OF c] by blast
    with g have "is_lower c \<or> is_digit c" by (auto simp: provider_id_grammar_def list_all_iff)
    then show ?thesis by (auto simp: char_class_defs)
  qed simp
qed

lemma model_id_ascii: "model_id_grammar v \<Longrightarrow> list_all (\<lambda>c. c < 128) v"
  by (auto simp: model_id_grammar_def list_all_iff char_class_defs lit_def split: list.splits)

lemma capability_ascii: "list_all (\<lambda>c. c < 128) (capability_value c)"
  by (cases c) (simp_all add: lit_def)

lemma role_value_ascii: "list_all (\<lambda>c. c < 128) (provider_role_value r)"
  by (cases r) (simp_all add: lit_def)

lemma role_value_kept: "provider_role_value r \<notin> set digest_excluded_fields"
  by (cases r) (simp_all add: digest_excluded_fields_def)

lemma role_value_inj: "inj provider_role_value"
  by (rule injI, rename_tac a b, case_tac a; case_tac b; simp)

lemma selection_plain: "validate_selection s \<Longrightarrow> plain_json (selection_dump s)"
  unfolding selection_dump_def plain_json.simps
  by (simp add: validate_selection_def provider_id_ascii model_id_ascii capability_ascii digest_excluded_fields_def)
    (simp add: lit_def)

lemma roles_plain:
  assumes "distinct (map fst rs)" and "list_all (\<lambda>(_, s). validate_selection s) rs"
  shows "plain_json (roles_dump rs)"
proof -
  have "map fst (map (\<lambda>(r, s). (provider_role_value r, selection_dump s)) rs) = map provider_role_value (map fst rs)"
    by (induction rs) auto
  then have "distinct (map fst (map (\<lambda>(r, s). (provider_role_value r, selection_dump s)) rs))"
    using assms(1) role_value_inj by (metis distinct_map inj_on_subset subset_UNIV)
  then show ?thesis
    using assms(2) role_value_ascii unfolding list_all_iff
    by (auto simp: roles_dump_def selection_plain role_value_kept list_all_iff)
qed

lemma defaults_plain:
  assumes "validate_defaults d" and "distinct (map fst (pd_roles d))"
  shows "plain_json (defaults_dump d)"
proof -
  have "plain_json (roles_dump (pd_roles d))" using assms by (simp add: roles_plain validate_defaults_def)
  moreover have "plain_json (jopt JInt n)" for n by (cases n) simp_all
  moreover have "plain_json (jopt (\<lambda>r. JStr (retry_value r)) n)" for n
    by (cases n; cases "the n") (auto simp: lit_def)
  ultimately show ?thesis
    unfolding defaults_dump_def plain_json.simps by (simp add: digest_excluded_fields_def) (simp add: lit_def)
qed

text \<open>What resolution asks of its inputs, beyond their own validity.\<close>

definition resolvable :: "execution_defaults option \<Rightarrow> execution_defaults \<Rightarrow> contract_binding \<Rightarrow> bool" where
  "resolvable defaults overrides contract \<longleftrightarrow>
     pred_option (\<lambda>n. n \<le> cc_max_remediation_cycles (cb_ceilings contract)) (pd_max_remediation_cycles overrides)
     \<and> pred_option (\<lambda>n. n \<le> cc_max_blockers (cb_ceilings contract)) (pd_max_blockers overrides)
     \<and> (\<forall>r. chosen (pd_roles overrides) (default_roles defaults) r \<noteq> None)
     \<and> (\<forall>r \<in> {REVIEW, CLOSURE}. map_option sel_capability_mode
            (chosen (pd_roles overrides) (default_roles defaults) r) = Some READ_ONLY)"

lemma resolve_scalar_total:
  assumes "1 \<le> builtin" "builtin \<le> 3" "1 \<le> ceiling" "ceiling \<le> 3"
    and "pred_option (\<lambda>n. 1 \<le> n \<and> n \<le> 3) override" and "pred_option (\<lambda>n. 1 \<le> n \<and> n \<le> 3) preset"
    and "pred_option (\<lambda>n. n \<le> ceiling) override"
  shows "\<exists>v. resolve_scalar builtin ceiling override preset = Inr v \<and> 1 \<le> v \<and> v \<le> 3 \<and> v \<le> ceiling"
  using assms by (cases override; cases preset) (auto simp: resolve_scalar_def)

lemma resolve_scalar_refused:
  "resolve_scalar builtin ceiling override preset = Inr v \<Longrightarrow> pred_option (\<lambda>n. n \<le> ceiling) override"
  by (cases override) (auto simp: resolve_scalar_def)

lemma validate_ceilings_bounds:
  "validate_ceilings c \<noteq> None \<Longrightarrow>
     1 \<le> cc_max_remediation_cycles c \<and> cc_max_remediation_cycles c \<le> 3 \<and> 1 \<le> cc_max_blockers c \<and> cc_max_blockers c \<le> 3"
  by (auto simp: validate_ceilings_def)

lemma chosen_valid:
  assumes "list_all (\<lambda>(_, s). validate_selection s) overrides" "list_all (\<lambda>(_, s). validate_selection s) defaults"
    and "chosen overrides defaults r = Some s"
  shows "validate_selection s"
  using assms by (auto simp: list_all_iff split: option.splits dest!: map_of_SomeD)

lemma read_only_roles:
  assumes "choose_roles overrides defaults all_provider_role = Inr selections"
  shows "list_all (role_read_only selections) READ_ONLY_PROVIDER_ROLES
    \<longleftrightarrow> (\<forall>r \<in> {REVIEW, CLOSURE}. map_option sel_capability_mode (chosen overrides defaults r) = Some READ_ONLY)"
  using choose_roles_lookup(2)[OF assms all_provider_role_complete]
  by (simp add: READ_ONLY_PROVIDER_ROLES_def role_read_only_def)

lemma resolve_policy_resolvable:
  assumes "resolve_policy E defaults overrides contract digest = Inr p"
  shows "resolvable defaults overrides contract"
proof -
  note r = resolve_policy_Inr[OF assms]
  have "\<forall>r. chosen (pd_roles overrides) (default_roles defaults) r \<noteq> None"
    using choose_roles_defined[of all_provider_role] r(6) all_provider_role_complete by blast
  moreover have "list_all (role_read_only (ep_roles p)) READ_ONLY_PROVIDER_ROLES"
    using r(1) by (simp add: validate_effective_def)
  ultimately show ?thesis
    using resolve_scalar_refused[OF r(4)] resolve_scalar_refused[OF r(5)] read_only_roles[OF r(6)]
    by (simp add: resolvable_def)
qed

lemma resolve_policy_total:
  assumes contract: "validate_contract_binding E contract = Some c"
    and overrides: "validate_defaults overrides" "distinct (map fst (pd_roles overrides))"
    and defaults: "pred_option validate_defaults defaults"
    and digest: "pred_option sha256_hex digest" and hex: "\<forall>b. sha256_hex (sha256 E b)" and nfc: "nfc_keeps_ascii E"
    and ok: "resolvable defaults overrides contract"
  shows "\<exists>p. resolve_policy E defaults overrides contract digest = Inr p"
proof -
  from contract have fields: "validate_binding_fields E (cb_fields contract)"
    and ceil: "validate_ceilings (cb_ceilings contract) \<noteq> None"
    by (auto simp: validate_contract_binding_def)
  note cb = validate_ceilings_bounds[OF ceil]
  have ov: "pred_option (\<lambda>n. 1 \<le> n \<and> n \<le> 3) (pd_max_remediation_cycles overrides)"
    "pred_option (\<lambda>n. 1 \<le> n \<and> n \<le> 3) (pd_max_blockers overrides)"
    "list_all (\<lambda>(_, s). validate_selection s) (pd_roles overrides)"
    using overrides(1) by (simp_all add: validate_defaults_def)
  have df: "pred_option (\<lambda>n. 1 \<le> n \<and> n \<le> 3) (Option.bind defaults pd_max_remediation_cycles)"
    "pred_option (\<lambda>n. 1 \<le> n \<and> n \<le> 3) (Option.bind defaults pd_max_blockers)"
    "list_all (\<lambda>(_, s). validate_selection s) (default_roles defaults)"
    using defaults by (cases defaults; simp add: validate_defaults_def default_roles_def)+
  have lim: "pred_option (\<lambda>n. n \<le> cc_max_remediation_cycles (cb_ceilings contract)) (pd_max_remediation_cycles overrides)"
    "pred_option (\<lambda>n. n \<le> cc_max_blockers (cb_ceilings contract)) (pd_max_blockers overrides)"
    using ok by (simp_all add: resolvable_def)
  obtain cycles where c: "resolve_scalar BUILTIN_MAX_REMEDIATION_CYCLES (cc_max_remediation_cycles (cb_ceilings contract))
       (pd_max_remediation_cycles overrides) (Option.bind defaults pd_max_remediation_cycles) = Inr cycles"
    "1 \<le> cycles" "cycles \<le> 3" "cycles \<le> cc_max_remediation_cycles (cb_ceilings contract)"
    using resolve_scalar_total[of BUILTIN_MAX_REMEDIATION_CYCLES "cc_max_remediation_cycles (cb_ceilings contract)", OF _ _ _ _ ov(1) df(1)] cb lim
    by (auto simp: BUILTIN_MAX_REMEDIATION_CYCLES_def)
  obtain blockers where b: "resolve_scalar BUILTIN_MAX_BLOCKERS (cc_max_blockers (cb_ceilings contract))
       (pd_max_blockers overrides) (Option.bind defaults pd_max_blockers) = Inr blockers"
    "1 \<le> blockers" "blockers \<le> 3" "blockers \<le> cc_max_blockers (cb_ceilings contract)"
    using resolve_scalar_total[of BUILTIN_MAX_BLOCKERS "cc_max_blockers (cb_ceilings contract)", OF _ _ _ _ ov(2) df(2)] cb lim
    by (auto simp: BUILTIN_MAX_BLOCKERS_def)
  obtain selections where s: "choose_roles (pd_roles overrides) (default_roles defaults) all_provider_role = Inr selections"
    using choose_roles_defined[of all_provider_role "default_roles defaults" "pd_roles overrides"] ok
    unfolding resolvable_def by blast
  have sv: "list_all (\<lambda>(_, s). validate_selection s) selections"
    using choose_roles_lookup(3)[OF s] chosen_valid[OF ov(3) df(3)] by (fastforce simp: list_all_iff)
  have d: "dump_digest E (defaults_dump overrides) = Some (sha256 E (utf8 (dumps (defaults_dump overrides))))"
    by (rule dump_digest_plain[OF nfc defaults_plain[OF overrides]])
  have ro: "list_all (role_read_only selections) READ_ONLY_PROVIDER_ROLES"
    using ok read_only_roles[OF s] by (simp add: resolvable_def)
  show ?thesis
    unfolding resolve_policy_def Let_def c(1) b(1) s[unfolded default_roles_def] d from_option.simps rbind.simps
    using fields ceil c(2-4) b(2-4) sv ro hex digest choose_roles_lookup(1)[OF s]
    by (simp add: validate_effective_def)
qed

section \<open>The records of a Stage Start\<close>

text \<open>Two dictionaries with the same items, each key once, have the same digest.\<close>

lemma authority_digest_items:
  assumes "distinct (map fst kvs)" and "distinct (map fst kvs')" and "set kvs = set kvs'"
  shows "authority_digest E (JObj kvs) = authority_digest E (JObj kvs')"
  unfolding authority_digest_def authority_json_bytes_def dumps_obj_order[OF assms] by (rule refl)

lemma build_authorization_validates:
  assumes policy: "resolve_policy E defaults overrides contract digest = Inr policy"
    and overrides: "validate_defaults overrides"
    and hex: "\<forall>b. sha256_hex (sha256 E b)"
    and d: "policy_digest E policy = Some d"
    and k: "stage_start_key E (bf_repository_identity (ep_fields policy)) (bf_stage_id (ep_fields policy))
              (bf_contract_sha256 (ep_fields policy)) = Some key"
    and created: "calendar_timestamp created_at"
  shows "\<exists>a. build_authorization E policy overrides (bf_stage_id (ep_fields policy)) created_at = Inr a
           \<and> validate_authorization E a = Some a \<and> sa_effective_policy a = policy"
proof -
  let ?logical = "logical_items policy overrides (bf_stage_id (ep_fields policy)) d key"
  let ?id = "authority_digest E (JObj ?logical)"
  let ?payload = "?logical @ [(lit ''stage_start_id'', JStr ?id), (lit ''created_at'', JStr created_at)]"
  let ?a = "\<lparr>sa_schema_version = 2, sa_fields = ep_fields policy,
        sa_stage_start_id = ?id, sa_authorization_digest = authority_digest E (JObj ?payload),
        sa_stage_start_key = key, sa_principal = LOCAL_CLI, sa_contract_ceilings = ep_contract_ceilings policy,
        sa_stage_overrides = overrides, sa_effective_policy = policy, sa_effective_policy_digest = d,
        sa_created_at = created_at\<rparr>"
  note r = resolve_policy_Inr[OF policy]
  have v: "validate_binding_fields E (ep_fields policy)" "validate_ceilings (ep_contract_ceilings policy) \<noteq> None"
    using r(1) by (simp_all add: validate_effective_def)
  have dig: "sha256_hex d" "sha256_hex key" "sha256_hex ?id" "sha256_hex (authority_digest E (JObj ?payload))"
    using d k hex by (auto simp: policy_digest_def stage_start_key_def dump_digest_def canonical_digest_def
        authority_digest_def)
  have items: "set (logical_authorization_payload (authorization_items ?a)) = set ?logical"
    "distinct (map fst (logical_authorization_payload (authorization_items ?a)))" "distinct (map fst ?logical)"
    by (auto simp: logical_authorization_payload_def authorization_items_def logical_items_def fields_dump_def)
  have full: "set (filter (\<lambda>(k, v). k \<noteq> lit ''authorization_digest'') (authorization_items ?a)) = set ?payload"
    "distinct (map fst (filter (\<lambda>(k, v). k \<noteq> lit ''authorization_digest'') (authorization_items ?a)))"
    "distinct (map fst ?payload)"
    by (auto simp: authorization_items_def logical_items_def fields_dump_def)
  have ids: "authority_digest E (JObj (logical_authorization_payload (authorization_items ?a))) = ?id"
    "authority_digest E (JObj (filter (\<lambda>(k, v). k \<noteq> lit ''authorization_digest'') (authorization_items ?a)))
       = authority_digest E (JObj ?payload)"
    using authority_digest_items[OF items(2,3,1)] authority_digest_items[OF full(2,3,1)] by auto
  have "validate_authorization E ?a = Some ?a"
    unfolding validate_authorization_def refuse_if_Some
    using v dig overrides r(1,7) created d k ids by (simp add: POLICY_SCHEMA_VERSION_def)
  then show ?thesis
    using d k by (intro exI[of _ ?a]) (simp add: build_authorization_def Let_def)
qed

lemma validate_authorization_pins:
  assumes "validate_authorization E a = Some b"
  shows "b = a" and "list_all sha256_hex [sa_stage_start_id a, sa_authorization_digest a, sa_stage_start_key a,
      sa_effective_policy_digest a]" and "validate_binding_fields E (sa_fields a)"
  using assms by (auto simp: validate_authorization_def)

lemma binding_and_witness_validate:
  assumes a: "validate_authorization E a = Some b" and run: "run_id_grammar run_id"
    and hex: "\<forall>b. sha256_hex (sha256 E b)"
  shows "\<exists>s w. binding_for E a run_id = Some s \<and> consumption_for E a s = Some w
           \<and> read_start_consumption E a (Some run_id) (Some (Some s)) (Some (Some w)) = Inr (Some w)"
proof -
  note pins = validate_authorization_pins[OF a]
  have h: "sha256_hex (authority_digest E j)" for j using hex by (simp add: authority_digest_def)
  let ?payload = "[(lit ''schema_version'', JInt 2), (lit ''stage_start_key'', JStr (sa_stage_start_key a)),
         (lit ''stage_start_id'', JStr (sa_stage_start_id a)),
         (lit ''authorization_digest'', JStr (sa_authorization_digest a)),
         (lit ''policy_digest'', JStr (sa_effective_policy_digest a)), (lit ''run_id'', JStr run_id)]"
  let ?s = "\<lparr>sb_pointer = pointer_for a, sb_policy_digest = sa_effective_policy_digest a, sb_run_id = run_id,
         sb_binding_digest = authority_digest E (JObj ?payload)\<rparr>"
  have ptr: "validate_pointer (pointer_for a)"
    using pins(2) by (simp add: validate_pointer_def pointer_for_def POLICY_SCHEMA_VERSION_def)
  have pay: "binding_payload ?s = ?payload" by (simp add: binding_payload_def pointer_items_def pointer_for_def)
  have s: "binding_for E a run_id = Some ?s"
    unfolding binding_for_def Let_def validate_start_binding_def refuse_if_Some
    using ptr pins(2) run h pay by simp
  let ?wp = "binding_payload ?s @ [(lit ''binding_digest'', JStr (sb_binding_digest ?s)),
            (lit ''stage_id'', JStr (bf_stage_id (sa_fields a))),
            (lit ''contract_sha256'', JStr (bf_contract_sha256 (sa_fields a)))]"
  let ?w = "\<lparr>cw_pointer = pointer_for a, cw_stage_id = bf_stage_id (sa_fields a),
         cw_contract_sha256 = bf_contract_sha256 (sa_fields a), cw_policy_digest = sa_effective_policy_digest a,
         cw_run_id = run_id, cw_binding_digest = sb_binding_digest ?s,
         cw_witness_digest = authority_digest E (JObj ?wp)\<rparr>"
  have eq: "authority_digest E (JObj (witness_payload ?w)) = authority_digest E (JObj ?wp)"
    by (rule authority_digest_items)
      (auto simp: witness_payload_def binding_payload_def pointer_items_def)
  have f: "sha256_hex (bf_contract_sha256 (sa_fields a))" "stage_id_grammar (bf_stage_id (sa_fields a))"
    using pins(3) by (simp_all add: validate_binding_fields_def)
  have w: "consumption_for E a ?s = Some ?w"
    unfolding consumption_for_def Let_def validate_consumption_def refuse_if_Some
    using ptr pins(2) run h f eq by simp
  have "read_start_consumption E a (Some run_id) (Some (Some ?s)) (Some (Some ?w)) = Inr (Some ?w)"
    unfolding read_start_consumption_def read_start_binding_def
    by (simp add: s pointer_for_def)
  with s w show ?thesis by blast
qed

text \<open>What is read as consumed names one run: the witness and a stored binding agree on it.\<close>

lemma read_start_consumption_one_run:
  assumes "read_start_consumption E a expected (Some stored) (Some (Some w)) = Inr (Some v)"
  shows "v = w" and "pred_option (\<lambda>b. sb_run_id b = cw_run_id w \<and> sb_binding_digest b = cw_binding_digest w) stored"
    and "pred_option (\<lambda>r. r = cw_run_id w) expected"
  using assms
  by (auto simp: read_start_consumption_def read_start_binding_def binding_for_def Let_def
      validate_start_binding_def split: option.splits)

lemma read_start_consumption_result:
  "read_start_consumption E a expected stored (Some (Some w)) = Inr v \<Longrightarrow> v = Some w"
  by (auto simp: read_start_consumption_def)

end
