(* ===== verification/Review_Rounds.thy ===== *)
theory Review_Rounds
  imports Runner_Config Machine_Results
begin

text \<open>
  \<open>milestone_runner/review.py\<close>: the review policy, the five durable counters, the findings ledger and the
  coordinator that accounts a parsed result and decides what it means. Every derivation builds a new
  ledger. The free text \<open>reason\<close> of a decision is not modelled. \<open>round_step\<close> is the coordinator as a step
  relation on the two ledgers.
\<close>

section \<open>The policy\<close>

datatype round_kind = RK_REVIEW | RK_CORRECTION | RK_CLOSURE

datatype severity_disposition = BLOCKS | DEFERS

datatype review_outcome = RO_APPROVED | RO_NEEDS_CORRECTION | RO_NEEDS_CLOSURE | RO_CLEARED | RO_STOP

datatype review_error =
    BudgetExhausted round_kind int int
  | RoundMalformed provider_role
  | RoundValueError

record review_policy =
  po_max_full_reviews :: int
  po_max_correction_rounds :: int
  po_max_closure_reviews :: int
  po_max_blockers :: int
  po_blocking_severities :: "finding_severity list"
  po_defer_severities :: "finding_severity list"

definition DEFAULT_REVIEW_POLICY :: review_policy where
  "DEFAULT_REVIEW_POLICY =
     \<lparr>po_max_full_reviews = 1, po_max_correction_rounds = 1, po_max_closure_reviews = 1, po_max_blockers = 3,
      po_blocking_severities = [CRITICAL, HIGH], po_defer_severities = [MEDIUM, LOW]\<rparr>"

text \<open>\<open>_validate_against_the_loader\<close>: the loader's own model decides.\<close>

definition validate_policy :: "review_policy \<Rightarrow> review_policy option" where
  "validate_policy p =
     Option.bind (validate_review_settings
       \<lparr>rs_max_full_reviews = po_max_full_reviews p, rs_max_correction_rounds = po_max_correction_rounds p,
        rs_max_closure_reviews = po_max_closure_reviews p, rs_max_blockers = po_max_blockers p,
        rs_blocking_severities = po_blocking_severities p, rs_defer_severities = po_defer_severities p\<rparr>)
       (\<lambda>_. Some p)"

definition from_settings :: "review_policy_settings \<Rightarrow> review_policy option" where
  "from_settings settings = validate_policy
     \<lparr>po_max_full_reviews = rs_max_full_reviews settings,
      po_max_correction_rounds = rs_max_correction_rounds settings,
      po_max_closure_reviews = rs_max_closure_reviews settings,
      po_max_blockers = rs_max_blockers settings,
      po_blocking_severities = rs_blocking_severities settings,
      po_defer_severities = rs_defer_severities settings\<rparr>"

fun limit_for :: "review_policy \<Rightarrow> round_kind \<Rightarrow> int" where
  "limit_for p RK_REVIEW = po_max_full_reviews p"
| "limit_for p RK_CORRECTION = po_max_correction_rounds p"
| "limit_for p RK_CLOSURE = po_max_closure_reviews p"

definition disposition :: "review_policy \<Rightarrow> finding_severity \<Rightarrow> severity_disposition option" where
  "disposition p severity =
     (if severity \<in> set (po_blocking_severities p) then Some BLOCKS
      else if severity \<in> set (po_defer_severities p) then Some DEFERS
      else None)"

section \<open>The counters\<close>

record budget_ledger =
  bl_review_attempts :: int
  bl_successful_review_rounds :: int
  bl_provider_failure_count :: int
  bl_correction_round :: int
  bl_closure_round :: int

definition no_rounds :: budget_ledger where
  "no_rounds = \<lparr>bl_review_attempts = 0, bl_successful_review_rounds = 0, bl_provider_failure_count = 0,
                bl_correction_round = 0, bl_closure_round = 0\<rparr>"

definition validate_budget :: "budget_ledger \<Rightarrow> budget_ledger option" where
  "validate_budget b =
     refuse_if (bl_review_attempts b < 0 \<or> bl_successful_review_rounds b < 0 \<or> bl_provider_failure_count b < 0
                \<or> bl_correction_round b < 0 \<or> bl_closure_round b < 0) (Some b)"

datatype counter =
    REVIEW_ATTEMPTS
  | SUCCESSFUL_REVIEW_ROUNDS
  | PROVIDER_FAILURE_COUNT
  | CORRECTION_ROUND
  | CLOSURE_ROUND

fun ROUND_COUNTER_FIELDS :: "round_kind \<Rightarrow> counter" where
  "ROUND_COUNTER_FIELDS RK_REVIEW = SUCCESSFUL_REVIEW_ROUNDS"
| "ROUND_COUNTER_FIELDS RK_CORRECTION = CORRECTION_ROUND"
| "ROUND_COUNTER_FIELDS RK_CLOSURE = CLOSURE_ROUND"

fun get_counter :: "budget_ledger \<Rightarrow> counter \<Rightarrow> int" where
  "get_counter b REVIEW_ATTEMPTS = bl_review_attempts b"
| "get_counter b SUCCESSFUL_REVIEW_ROUNDS = bl_successful_review_rounds b"
| "get_counter b PROVIDER_FAILURE_COUNT = bl_provider_failure_count b"
| "get_counter b CORRECTION_ROUND = bl_correction_round b"
| "get_counter b CLOSURE_ROUND = bl_closure_round b"

text \<open>A counter of a valid ledger is non-negative, so the fresh model with one counter raised is valid.\<close>

fun incremented :: "budget_ledger \<Rightarrow> counter \<Rightarrow> budget_ledger" where
  "incremented b REVIEW_ATTEMPTS = b\<lparr>bl_review_attempts := bl_review_attempts b + 1\<rparr>"
| "incremented b SUCCESSFUL_REVIEW_ROUNDS =
     b\<lparr>bl_successful_review_rounds := bl_successful_review_rounds b + 1\<rparr>"
| "incremented b PROVIDER_FAILURE_COUNT = b\<lparr>bl_provider_failure_count := bl_provider_failure_count b + 1\<rparr>"
| "incremented b CORRECTION_ROUND = b\<lparr>bl_correction_round := bl_correction_round b + 1\<rparr>"
| "incremented b CLOSURE_ROUND = b\<lparr>bl_closure_round := bl_closure_round b + 1\<rparr>"

definition consumed :: "budget_ledger \<Rightarrow> round_kind \<Rightarrow> int" where
  "consumed b kind = get_counter b (ROUND_COUNTER_FIELDS kind)"

definition with_attempt :: "budget_ledger \<Rightarrow> budget_ledger" where
  "with_attempt b = incremented b REVIEW_ATTEMPTS"

definition with_provider_failure :: "budget_ledger \<Rightarrow> budget_ledger" where
  "with_provider_failure b = incremented b PROVIDER_FAILURE_COUNT"

datatype parsed_result =
    ParsedReview review_result
  | ParsedCorrection correction_result
  | ParsedClosure closure_result

fun round_kind_of :: "parsed_result \<Rightarrow> round_kind" where
  "round_kind_of (ParsedReview r) = RK_REVIEW"
| "round_kind_of (ParsedCorrection r) = RK_CORRECTION"
| "round_kind_of (ParsedClosure r) = RK_CLOSURE"

definition remaining_rounds :: "review_policy \<Rightarrow> budget_ledger \<Rightarrow> round_kind \<Rightarrow> int" where
  "remaining_rounds p b kind = max (limit_for p kind - consumed b kind) 0"

definition consume_round :: "review_policy \<Rightarrow> budget_ledger \<Rightarrow> parsed_result \<Rightarrow> review_error + budget_ledger" where
  "consume_round p b result =
     (let kind = round_kind_of result; limit = limit_for p kind; used = consumed b kind in
      raise_if (used \<ge> limit) (BudgetExhausted kind used limit)
      (Inr (incremented b (ROUND_COUNTER_FIELDS kind))))"

section \<open>The findings ledger\<close>

record findings_ledger =
  fl_blocking :: "finding list"
  fl_deferred :: "finding list"

definition no_findings :: findings_ledger where
  "no_findings = \<lparr>fl_blocking = [], fl_deferred = []\<rparr>"

definition ledger_valid :: "findings_ledger \<Rightarrow> bool" where
  "ledger_valid f \<longleftrightarrow>
     (\<forall>b \<in> set (fl_blocking f). fd_severity b \<in> set BLOCKING_SEVERITIES \<and> fd_status b \<noteq> FS_DEFERRED)
     \<and> (\<forall>d \<in> set (fl_deferred f). fd_severity d \<in> set DEFERRED_SEVERITIES \<and> fd_status d = FS_DEFERRED)
     \<and> unique (map fd_finding_id (fl_blocking f @ fl_deferred f))"

definition make_ledger :: "finding list \<Rightarrow> finding list \<Rightarrow> review_error + findings_ledger" where
  "make_ledger blocking deferred =
     (let f = \<lparr>fl_blocking = blocking, fl_deferred = deferred\<rparr> in
      raise_if (\<not> ledger_valid f) RoundValueError (Inr f))"

definition open_blocker_ids :: "findings_ledger \<Rightarrow> pystr list" where
  "open_blocker_ids f = map fd_finding_id (filter (\<lambda>b. fd_status b = FS_OPEN) (fl_blocking f))"

definition closed_blocker_ids :: "findings_ledger \<Rightarrow> pystr list" where
  "closed_blocker_ids f = map fd_finding_id (filter (\<lambda>b. fd_status b = FS_CLOSED) (fl_blocking f))"

definition deferred_ids :: "findings_ledger \<Rightarrow> pystr list" where
  "deferred_ids f = map fd_finding_id (fl_deferred f)"

definition has_open_blockers :: "findings_ledger \<Rightarrow> bool" where
  "has_open_blockers f \<longleftrightarrow> open_blocker_ids f \<noteq> []"

definition record_review :: "findings_ledger \<Rightarrow> review_result \<Rightarrow> review_error + findings_ledger" where
  "record_review f result =
     (let known = set (open_blocker_ids f) \<union> set (closed_blocker_ids f) \<union> set (deferred_ids f) in
      raise_if (list_ex (\<lambda>n. fd_finding_id n \<in> known) (rw_blockers result @ rw_deferred result))
        (RoundMalformed REVIEW)
      (make_ledger (fl_blocking f @ rw_blockers result) (fl_deferred f @ rw_deferred result)))"

fun closing_ids :: "pystr set \<Rightarrow> pystr set \<Rightarrow> closure_ruling list \<Rightarrow> review_error + pystr set" where
  "closing_ids known closing [] = Inr closing"
| "closing_ids known closing (ruling # rulings) =
     (if cl_id ruling \<notin> known then Inl (RoundMalformed CLOSURE)
      else if cl_status ruling = FS_CLOSED then closing_ids known (insert (cl_id ruling) closing) rulings
      else if cl_status ruling \<noteq> FS_OPEN then Inl (RoundMalformed CLOSURE)
      else closing_ids known closing rulings)"

definition close_finding :: "pystr set \<Rightarrow> finding \<Rightarrow> finding" where
  "close_finding closing b = (if fd_finding_id b \<in> closing then b\<lparr>fd_status := FS_CLOSED\<rparr> else b)"

definition apply_closure :: "findings_ledger \<Rightarrow> closure_result \<Rightarrow> review_error + findings_ledger" where
  "apply_closure f result =
     rbind (closing_ids (set (open_blocker_ids f)) {} (co_findings result)) (\<lambda>closing.
     make_ledger (map (close_finding closing) (fl_blocking f)) (fl_deferred f))"

section \<open>The coordinator\<close>

record round_decision =
  dc_kind :: round_kind
  dc_outcome :: review_outcome
  dc_budget :: budget_ledger
  dc_findings :: findings_ledger

definition accept_review ::
  "review_policy \<Rightarrow> budget_ledger \<Rightarrow> findings_ledger \<Rightarrow> review_result \<Rightarrow> review_error + round_decision" where
  "accept_review p budget findings result =
     rbind (consume_round p budget (ParsedReview result)) (\<lambda>spent.
     rbind (record_review findings result) (\<lambda>filed.
     Inr \<lparr>dc_kind = RK_REVIEW,
          dc_outcome = (if \<not> has_open_blockers filed then RO_APPROVED
                        else if remaining_rounds p spent RK_CORRECTION > 0 then RO_NEEDS_CORRECTION
                        else RO_STOP),
          dc_budget = spent, dc_findings = filed\<rparr>))"

definition accept_correction ::
  "review_policy \<Rightarrow> budget_ledger \<Rightarrow> findings_ledger \<Rightarrow> correction_result \<Rightarrow> review_error + round_decision" where
  "accept_correction p budget findings result =
     raise_if (\<not> has_open_blockers findings) RoundValueError
     (rbind (consume_round p budget (ParsedCorrection result)) (\<lambda>spent.
      Inr \<lparr>dc_kind = RK_CORRECTION,
           dc_outcome = (if cr_status result \<noteq> MS_COMPLETE then RO_STOP
                         else if remaining_rounds p spent RK_CLOSURE > 0 then RO_NEEDS_CLOSURE
                         else RO_STOP),
           dc_budget = spent, dc_findings = findings\<rparr>))"

definition accept_closure ::
  "review_policy \<Rightarrow> budget_ledger \<Rightarrow> findings_ledger \<Rightarrow> closure_result \<Rightarrow> review_error + round_decision" where
  "accept_closure p budget findings result =
     rbind (consume_round p budget (ParsedClosure result)) (\<lambda>spent.
     rbind (apply_closure findings result) (\<lambda>ruled.
     Inr \<lparr>dc_kind = RK_CLOSURE,
          dc_outcome = (if has_open_blockers ruled then RO_STOP else RO_CLEARED),
          dc_budget = spent, dc_findings = ruled\<rparr>))"

definition record_review_attempt :: "budget_ledger \<Rightarrow> budget_ledger" where
  "record_review_attempt budget = with_attempt budget"

definition record_provider_failure :: "budget_ledger \<Rightarrow> provider_failure_class \<Rightarrow> budget_ledger" where
  "record_provider_failure budget failure_class = with_provider_failure budget"

text \<open>
  The coordinator as a state machine: what a call leaves when the application publishes its ledgers. The
  application hands it parsed results only: a review read under the policy's blocker cap, a closure read
  against the open blockers.
\<close>

inductive round_step ::
  "pyenv \<Rightarrow> (pystr \<Rightarrow> yaml_error + pyval) \<Rightarrow> review_policy \<Rightarrow>
     budget_ledger \<times> findings_ledger \<Rightarrow> budget_ledger \<times> findings_ledger \<Rightarrow> bool" for E safe_load p where
  attempted: "round_step E safe_load p (b, f) (record_review_attempt b, f)"
| failed: "round_step E safe_load p (b, f) (record_provider_failure b failure_class, f)"
| reviewed: "parse_review_result E safe_load text (po_max_blockers p) transcripts = Inr r \<Longrightarrow>
     accept_review p b f r = Inr d \<Longrightarrow> round_step E safe_load p (b, f) (dc_budget d, dc_findings d)"
| corrected: "parse_correction_result E safe_load text transcripts = Inr c \<Longrightarrow>
     accept_correction p b f c = Inr d \<Longrightarrow> round_step E safe_load p (b, f) (dc_budget d, dc_findings d)"
| closed: "parse_closure_result safe_load text (open_blocker_ids f) transcripts = Inr l \<Longrightarrow>
     accept_closure p b f l = Inr d \<Longrightarrow> round_step E safe_load p (b, f) (dc_budget d, dc_findings d)"

end
