(* ===== verification/Review_Facts.thy ===== *)
theory Review_Facts
  imports Review_Rounds Machine_Result_Facts
begin

text \<open>
  What the review coordinator guarantees: the budgets of a valid policy bound every counter of a round
  however the calls are interleaved, findings are only appended and only closed by a closure ruling, and
  the outcome of a round says whether a blocker is open.
\<close>

section \<open>One round\<close>

lemma validate_policy_limits:
  assumes "validate_policy p = Some q"
  shows "limit_for p kind \<le> 1" and "0 \<le> limit_for p kind" and "po_max_blockers p \<in> {1, 2, 3}"
    and "disposition p severity \<noteq> None" and "severity \<in> set BLOCKING_SEVERITIES \<Longrightarrow> disposition p severity = Some BLOCKS"
proof -
  from assms obtain s where s: "validate_review_settings
       \<lparr>rs_max_full_reviews = po_max_full_reviews p, rs_max_correction_rounds = po_max_correction_rounds p,
        rs_max_closure_reviews = po_max_closure_reviews p, rs_max_blockers = po_max_blockers p,
        rs_blocking_severities = po_blocking_severities p, rs_defer_severities = po_defer_severities p\<rparr> = Some s"
    by (auto simp: validate_policy_def)
  note w = validate_review_settings_within(2)[OF s, unfolded policy_within_ceilings_def, simplified]
  show "limit_for p kind \<le> 1" "0 \<le> limit_for p kind" using w by (cases kind; auto)+
  show "po_max_blockers p \<in> {1, 2, 3}" using w by auto
  show "disposition p severity \<noteq> None" using w by (auto simp: disposition_def)
  show "severity \<in> set BLOCKING_SEVERITIES \<Longrightarrow> disposition p severity = Some BLOCKS"
    using w by (auto simp: disposition_def BLOCKING_SEVERITIES_def)
qed

lemma consume_round_Inr:
  "consume_round p b result = Inr c \<longleftrightarrow>
     consumed b (round_kind_of result) < limit_for p (round_kind_of result)
     \<and> c = incremented b (ROUND_COUNTER_FIELDS (round_kind_of result))"
  by (auto simp: consume_round_def Let_def)

lemma get_incremented: "get_counter (incremented b c) d = get_counter b d + (if c = d then 1 else 0)"
  by (cases c; cases d) simp_all

lemma make_ledger_Inr [simp]:
  "make_ledger blocking deferred = Inr f \<longleftrightarrow>
     f = \<lparr>fl_blocking = blocking, fl_deferred = deferred\<rparr> \<and> ledger_valid f"
  by (auto simp: make_ledger_def Let_def)

lemma record_review_Inr:
  assumes "record_review f result = Inr g"
  shows "ledger_valid g" and "fl_blocking g = fl_blocking f @ rw_blockers result"
    and "fl_deferred g = fl_deferred f @ rw_deferred result"
  using assms by (auto simp: record_review_def Let_def)

lemma closing_ids_Inr:
  "closing_ids known closing rulings = Inr ids \<Longrightarrow>
     ids = closing \<union> {cl_id r | r. r \<in> set rulings \<and> cl_status r = FS_CLOSED} \<and> cl_id ` set rulings \<subseteq> known"
  by (induction rulings arbitrary: closing) (auto split: if_splits)

lemma close_finding_simps [simp]:
  "fd_finding_id (close_finding ids b) = fd_finding_id b" "fd_severity (close_finding ids b) = fd_severity b"
  "fd_status (close_finding ids b) = (if fd_finding_id b \<in> ids then FS_CLOSED else fd_status b)"
  by (simp_all add: close_finding_def)

lemma apply_closure_Inr:
  assumes "apply_closure f result = Inr g"
  shows "ledger_valid g" and "fl_deferred g = fl_deferred f"
    and "fl_blocking g = map (close_finding (set (closed_ids result))) (fl_blocking f)"
    and "cl_id ` set (co_findings result) \<subseteq> set (open_blocker_ids f)"
proof -
  from assms obtain ids where i: "closing_ids (set (open_blocker_ids f)) {} (co_findings result) = Inr ids"
    and g: "g = \<lparr>fl_blocking = map (close_finding ids) (fl_blocking f), fl_deferred = fl_deferred f\<rparr>" "ledger_valid g"
    by (auto simp: apply_closure_def)
  have "ids = set (closed_ids result)" using closing_ids_Inr[OF i] by (auto simp: closed_ids_def)
  with g show "ledger_valid g" "fl_deferred g = fl_deferred f"
    "fl_blocking g = map (close_finding (set (closed_ids result))) (fl_blocking f)" by simp_all
  show "cl_id ` set (co_findings result) \<subseteq> set (open_blocker_ids f)" using closing_ids_Inr[OF i] by simp
qed

lemma accept_review_Inr:
  assumes "accept_review p b f r = Inr d"
  shows "consume_round p b (ParsedReview r) = Inr (dc_budget d)" and "record_review f r = Inr (dc_findings d)"
    and "dc_outcome d = (if \<not> has_open_blockers (dc_findings d) then RO_APPROVED
           else if remaining_rounds p (dc_budget d) RK_CORRECTION > 0 then RO_NEEDS_CORRECTION else RO_STOP)"
  using assms by (auto simp: accept_review_def)

lemma accept_correction_Inr:
  assumes "accept_correction p b f r = Inr d"
  shows "consume_round p b (ParsedCorrection r) = Inr (dc_budget d)" and "dc_findings d = f"
    and "has_open_blockers f" and "dc_outcome d = RO_NEEDS_CLOSURE \<or> dc_outcome d = RO_STOP"
  using assms by (auto simp: accept_correction_def split: if_splits)

lemma accept_closure_Inr:
  assumes "accept_closure p b f r = Inr d"
  shows "consume_round p b (ParsedClosure r) = Inr (dc_budget d)" and "apply_closure f r = Inr (dc_findings d)"
    and "dc_outcome d = (if has_open_blockers (dc_findings d) then RO_STOP else RO_CLEARED)"
  using assms by (auto simp: accept_closure_def)

section \<open>Any number of rounds\<close>

text \<open>What a step may do to a ledger of findings.\<close>

definition findings_evolve :: "findings_ledger \<Rightarrow> findings_ledger \<Rightarrow> bool" where
  "findings_evolve f g \<longleftrightarrow>
     (\<exists>ids new. fl_blocking g = map (close_finding ids) (fl_blocking f) @ new)
     \<and> extends (fl_deferred f) (fl_deferred g)"

lemma close_finding_empty [simp]: "close_finding {} = id"
  by (rule ext) (simp add: close_finding_def)

lemma close_finding_twice: "close_finding ids (close_finding jds b) = close_finding (jds \<union> ids) b"
  by (simp add: close_finding_def)

lemma findings_evolve_refl [simp]: "findings_evolve f f"
  unfolding findings_evolve_def by (auto intro: exI[of _ "{}"])

lemma findings_evolve_trans:
  assumes "findings_evolve f g" and "findings_evolve g h"
  shows "findings_evolve f h"
proof -
  from assms[unfolded findings_evolve_def] obtain ids new jds mew where
    "fl_blocking g = map (close_finding ids) (fl_blocking f) @ new"
    "fl_blocking h = map (close_finding jds) (fl_blocking g) @ mew"
    by blast
  then have "fl_blocking h = map (close_finding (ids \<union> jds)) (fl_blocking f) @ (map (close_finding jds) new @ mew)"
    by (simp add: close_finding_twice)
  then show ?thesis using assms extends_trans unfolding findings_evolve_def by blast
qed

lemma round_step_evolves:
  assumes "round_step E safe_load p (b, f) (c, g)"
  shows "findings_evolve f g"
  using assms
proof (cases rule: round_step.cases)
  case (reviewed answer transcripts r d)
  then have "fl_blocking g = map (close_finding {}) (fl_blocking f) @ rw_blockers r"
    "fl_deferred g = fl_deferred f @ rw_deferred r"
    using record_review_Inr[OF accept_review_Inr(2)] by auto
  then show ?thesis
    unfolding findings_evolve_def by (intro conjI exI[of _ "{}"] exI[of _ "rw_blockers r"]) simp_all
next
  case (closed answer transcripts l d)
  then have "fl_blocking g = map (close_finding (set (closed_ids l))) (fl_blocking f) @ []"
    "fl_deferred g = fl_deferred f"
    using apply_closure_Inr[OF accept_closure_Inr(2)] by auto
  then show ?thesis
    unfolding findings_evolve_def by (intro conjI exI[of _ "set (closed_ids l)"] exI[of _ "[]"]) simp_all
qed (auto dest: accept_correction_Inr(2))

text \<open>The state of a run of rounds: valid ledgers, budgets within their limits, nothing closed unheard.\<close>

definition rounds_ok :: "review_policy \<Rightarrow> budget_ledger \<times> findings_ledger \<Rightarrow> bool" where
  "rounds_ok p = (\<lambda>(b, f).
     ledger_valid f \<and> (\<forall>kind. 0 \<le> consumed b kind \<and> consumed b kind \<le> limit_for p kind)
     \<and> int (length (fl_blocking f)) \<le> consumed b RK_REVIEW * po_max_blockers p
     \<and> (closed_blocker_ids f \<noteq> [] \<longrightarrow> 1 \<le> consumed b RK_CLOSURE))"

lemma consume_round_keeps:
  assumes "consume_round p b r = Inr c"
    and "\<forall>kind. 0 \<le> consumed b kind \<and> consumed b kind \<le> limit_for p kind"
  shows "\<forall>kind. 0 \<le> consumed c kind \<and> consumed c kind \<le> limit_for p kind"
    and "consumed c (round_kind_of r) = consumed b (round_kind_of r) + 1"
    and "kind \<noteq> round_kind_of r \<Longrightarrow> consumed c kind = consumed b kind"
proof -
  have eq: "ROUND_COUNTER_FIELDS k = ROUND_COUNTER_FIELDS l \<longleftrightarrow> k = l" for k l by (cases k; cases l) auto
  have c: "consumed c k = consumed b k + (if round_kind_of r = k then 1 else 0)" for k
    using assms(1) by (simp add: consume_round_Inr consumed_def get_incremented eq)
  then show "\<forall>kind. 0 \<le> consumed c kind \<and> consumed c kind \<le> limit_for p kind"
    using assms by (auto simp: consume_round_Inr)
  show "consumed c (round_kind_of r) = consumed b (round_kind_of r) + 1" using c by simp
  show "kind \<noteq> round_kind_of r \<Longrightarrow> consumed c kind = consumed b kind" using c by simp
qed

lemma attempt_consumes_nothing [simp]:
  "consumed (record_review_attempt b) kind = consumed b kind"
  "consumed (record_provider_failure b failure_class) kind = consumed b kind"
  by (cases kind; simp add: consumed_def get_incremented record_review_attempt_def record_provider_failure_def
      with_attempt_def with_provider_failure_def)+

lemma not_open_nor_deferred: "s \<noteq> FS_OPEN \<Longrightarrow> s \<noteq> FS_DEFERRED \<Longrightarrow> s = FS_CLOSED"
  by (cases s) auto

lemma rounds_ok_step:
  assumes "round_step E safe_load p s t" and "rounds_ok p s"
  shows "rounds_ok p t"
  using assms(1)
proof (cases rule: round_step.cases)
  case (attempted b f)
  then show ?thesis using assms(2) by (simp add: rounds_ok_def)
next
  case (failed b f failure_class)
  then show ?thesis using assms(2) by (simp add: rounds_ok_def)
next
  case (reviewed answer transcripts r b f d)
  note c = accept_review_Inr(1)[OF reviewed(4)] and g = record_review_Inr[OF accept_review_Inr(2)[OF reviewed(4)]]
    and acc = review_accounting[OF reviewed(3)]
  have ok: "rounds_ok p (b, f)" using assms(2) reviewed(1) by simp
  then have k: "\<forall>kind. 0 \<le> consumed b kind \<and> consumed b kind \<le> limit_for p kind" by (simp add: rounds_ok_def)
  have "closed_blocker_ids (dc_findings d) = closed_blocker_ids f"
    using g(2) acc(4) by (simp add: closed_blocker_ids_def filter_empty_conv)
  moreover have "int (length (fl_blocking (dc_findings d))) \<le> (consumed b RK_REVIEW + 1) * po_max_blockers p"
    using g(2) acc(2) ok by (simp add: rounds_ok_def distrib_right)
  ultimately show ?thesis
    using reviewed(2) ok g(1) consume_round_keeps[OF c k] by (simp add: rounds_ok_def)
next
  case (corrected answer transcripts r b f d)
  note c = accept_correction_Inr(1)[OF corrected(4)]
  have ok: "rounds_ok p (b, f)" using assms(2) corrected(1) by simp
  then have k: "\<forall>kind. 0 \<le> consumed b kind \<and> consumed b kind \<le> limit_for p kind" by (simp add: rounds_ok_def)
  show ?thesis
    using corrected(2) ok accept_correction_Inr(2)[OF corrected(4)] consume_round_keeps[OF c k]
    by (simp add: rounds_ok_def)
next
  case (closed answer f transcripts l b d)
  note c = accept_closure_Inr(1)[OF closed(4)] and g = apply_closure_Inr[OF accept_closure_Inr(2)[OF closed(4)]]
  have ok: "rounds_ok p (b, f)" using assms(2) closed(1) by simp
  then have k: "\<forall>kind. 0 \<le> consumed b kind \<and> consumed b kind \<le> limit_for p kind" by (simp add: rounds_ok_def)
  then have "0 \<le> consumed b RK_CLOSURE" by simp
  then show ?thesis
    using closed(2) ok g(1,3) consume_round_keeps[OF c k] by (simp add: rounds_ok_def)
qed

lemma get_no_rounds [simp]: "get_counter no_rounds c = 0"
  by (cases c) (simp_all add: no_rounds_def)

lemma rounds_ok_start: "validate_policy p = Some q \<Longrightarrow> rounds_ok p (no_rounds, no_findings)"
  using validate_policy_limits(2)[of p q]
  by (simp add: rounds_ok_def no_findings_def ledger_valid_def closed_blocker_ids_def consumed_def
      del: get_counter.simps)

lemma rounds_ok_reachable:
  assumes "validate_policy p = Some q"
    and "(round_step E safe_load p)\<^sup>*\<^sup>* (no_rounds, no_findings) s"
  shows "rounds_ok p s"
  using assms(2) by (induction rule: rtranclp_induct) (auto intro: rounds_ok_step rounds_ok_start[OF assms(1)])

lemma round_steps_evolve:
  assumes "(round_step E safe_load p)\<^sup>*\<^sup>* s t"
  shows "findings_evolve (snd s) (snd t)"
  using assms
proof (induction rule: rtranclp_induct)
  case (step t u)
  then have "findings_evolve (snd t) (snd u)"
    using round_step_evolves[of E safe_load p "fst t" "snd t" "fst u" "snd u"] by simp
  with step.IH show ?case by (rule findings_evolve_trans)
qed simp

text \<open>A counter only grows.\<close>

lemma incremented_grows: "get_counter b k \<le> get_counter (incremented b c) k"
  by (simp add: get_incremented)

lemma consume_round_grows: "consume_round p b r = Inr c \<Longrightarrow> get_counter b k \<le> get_counter c k"
  by (simp add: consume_round_Inr incremented_grows del: incremented.simps)

lemma round_step_counts:
  assumes "round_step E safe_load p (b, f) (c, g)"
  shows "get_counter b k \<le> get_counter c k"
  using assms
proof (cases rule: round_step.cases)
  case (reviewed answer transcripts r d)
  then show ?thesis using consume_round_grows[OF accept_review_Inr(1)] by simp
next
  case (corrected answer transcripts r d)
  then show ?thesis using consume_round_grows[OF accept_correction_Inr(1)] by simp
next
  case (closed answer transcripts l d)
  then show ?thesis using consume_round_grows[OF accept_closure_Inr(1)] by simp
qed (simp_all add: record_review_attempt_def record_provider_failure_def with_attempt_def
    with_provider_failure_def incremented_grows del: incremented.simps)

lemma round_steps_count:
  assumes "(round_step E safe_load p)\<^sup>*\<^sup>* s t"
  shows "get_counter (fst s) k \<le> get_counter (fst t) k"
  using assms
proof (induction rule: rtranclp_induct)
  case (step t u)
  then have "get_counter (fst t) k \<le> get_counter (fst u) k"
    using round_step_counts[of E safe_load p "fst t" "snd t" "fst u" "snd u" k] by simp
  with step.IH show ?case by simp
qed simp

end
