(* ===== verification/Workflow_Store.thy ===== *)
theory Workflow_Store
  imports Lifecycle_Vocabulary Run_Record_Json
begin

text \<open>
  The event-sourced workflow of one governed task: \<open>workflow/events.py\<close>, \<open>workflow/transitions.py\<close> and
  \<open>workflow/event_store.py\<close> of \<open>ai_workflow_engine\<close>, with the text and JSON canonicalization of
  \<open>prompt/context.py\<close>, \<open>prompt/models.py\<close> and \<open>prompt/renderer.py\<close> that they use. The state directory of a task
  is the list of its regular files (\<open>None\<close> when it does not exist). \<open>workflow_wire\<close> holds UTF-8 decoding,
  \<open>json.loads\<close> and pydantic's reading of a document into the event's fields.
\<close>

section \<open>Text and JSON\<close>

text \<open>The loop that replaces every run of white space by one space.\<close>

fun collapse :: "bool \<Rightarrow> pystr \<Rightarrow> pystr" where
  "collapse in_run [] = []"
| "collapse in_run (c # cs) =
     (if is_space c then (if in_run then collapse True cs else 32 # collapse True cs)
      else c # collapse False cs)"

definition strip_spaces :: "pystr \<Rightarrow> pystr" where
  "strip_spaces v = rev (dropWhile (\<lambda>c. c = 32) (rev (dropWhile (\<lambda>c. c = 32) v)))"

definition normalize_note :: "pyenv \<Rightarrow> pystr \<Rightarrow> pystr option" where
  "normalize_note E value =
     refuse_if (list_ex is_surrogate value) (Some (strip_spaces (collapse False (nfc E value))))"

definition normalize_text :: "pyenv \<Rightarrow> pystr \<Rightarrow> pystr option" where
  "normalize_text E value =
     refuse_if (list_ex is_surrogate value)
     (let result = strip_spaces (collapse False (nfc E value)) in refuse_if (result = []) (Some result))"

definition INT64_MIN :: int where "INT64_MIN = - (2 ^ 63)"
definition INT64_MAX :: int where "INT64_MAX = 2 ^ 63 - 1"

function (sequential) canonicalize_json_value :: "pyenv \<Rightarrow> json \<Rightarrow> json option"
  and canonicalize_values :: "pyenv \<Rightarrow> json list \<Rightarrow> json list option"
  and canonicalize_entries :: "pyenv \<Rightarrow> (pystr \<times> json) list \<Rightarrow> (pystr \<times> json) list \<Rightarrow> (pystr \<times> json) list option" where
  "canonicalize_json_value E JNull = Some JNull"
| "canonicalize_json_value E (JBool b) = Some (JBool b)"
| "canonicalize_json_value E (JInt i) = refuse_if (\<not> (INT64_MIN \<le> i \<and> i \<le> INT64_MAX)) (Some (JInt i))"
| "canonicalize_json_value E (JStr v) = refuse_if (list_ex is_surrogate v) (Some (JStr (nfc E v)))"
| "canonicalize_json_value E (JList xs) = map_option JList (canonicalize_values E xs)"
| "canonicalize_json_value E (JObj kvs) = map_option JObj (canonicalize_entries E [] kvs)"
| "canonicalize_values E [] = Some []"
| "canonicalize_values E (x # xs) =
     (case canonicalize_json_value E x of None \<Rightarrow> None
      | Some y \<Rightarrow> map_option (\<lambda>ys. y # ys) (canonicalize_values E xs))"
| "canonicalize_entries E normalized [] = Some normalized"
| "canonicalize_entries E normalized ((k, v) # kvs) =
     (if list_ex is_surrogate k then None
      else if nfc E k \<in> fst ` set normalized then None
      else (case canonicalize_json_value E v of None \<Rightarrow> None
            | Some y \<Rightarrow> canonicalize_entries E (normalized @ [(nfc E k, y)]) kvs))"
  by pat_completeness auto
termination
  by (relation "measure (\<lambda>x. case x of
        Inl (E, v) \<Rightarrow> size v
      | Inr (Inl (E, xs)) \<Rightarrow> size_list size xs
      | Inr (Inr (E, n, kvs)) \<Rightarrow> size_list (size_prod (\<lambda>_. 0) size) kvs)") auto

definition canonical_json :: "pyenv \<Rightarrow> json \<Rightarrow> bytes option" where
  "canonical_json E value =
     Option.bind (canonicalize_json_value E value) (\<lambda>normalized. encode_strict (dumps normalized))"

section \<open>Events\<close>

datatype workflow_stage =
    PLAN_REVIEW
  | IMPLEMENTATION_STAGE
  | IMPLEMENTATION_REVIEW
  | REMEDIATION
  | GOVERNANCE_CLOSEOUT
  | GOVERNANCE_REVIEW
  | PUSH_STAGE

fun stage_value :: "workflow_stage \<Rightarrow> pystr" where
  "stage_value PLAN_REVIEW = lit ''plan-review''"
| "stage_value IMPLEMENTATION_STAGE = lit ''implementation''"
| "stage_value IMPLEMENTATION_REVIEW = lit ''implementation-review''"
| "stage_value REMEDIATION = lit ''remediation''"
| "stage_value GOVERNANCE_CLOSEOUT = lit ''governance-closeout''"
| "stage_value GOVERNANCE_REVIEW = lit ''governance-review''"
| "stage_value PUSH_STAGE = lit ''push''"

datatype state_action = COMPLETED_ACTION | VERDICT_ACTION

fun action_value :: "state_action \<Rightarrow> pystr" where
  "action_value COMPLETED_ACTION = lit ''completed''"
| "action_value VERDICT_ACTION = lit ''verdict''"

datatype verdict = V_APPROVED | V_REJECTED

fun workflow_verdict_value :: "verdict \<Rightarrow> pystr" where
  "workflow_verdict_value V_APPROVED = lit ''APPROVED''"
| "workflow_verdict_value V_REJECTED = lit ''REJECTED''"

definition VERDICT_STAGES :: "workflow_stage list" where
  "VERDICT_STAGES = [PLAN_REVIEW, IMPLEMENTATION_REVIEW, GOVERNANCE_REVIEW]"

record workflow_event =
  we_schema_version :: pystr
  we_project_id :: pystr
  we_task_id :: pystr
  we_sequence :: int
  we_parent_digest :: "pystr option"
  we_stage :: workflow_stage
  we_action :: state_action
  we_verdict :: "verdict option"
  we_prompt_id :: "pystr option"
  we_agent_run_id :: "pystr option"
  we_head :: pystr
  we_note :: pystr

definition project_id_grammar :: "pystr \<Rightarrow> bool" where
  "project_id_grammar v \<longleftrightarrow> (case v of [] \<Rightarrow> False | c # cs \<Rightarrow> is_alnum c \<and> list_all is_name_char cs)"

definition hex16 :: "pystr \<Rightarrow> bool" where
  "hex16 v \<longleftrightarrow> length v = 16 \<and> list_all is_hex v"

definition validate_workflow_event :: "pyenv \<Rightarrow> workflow_event \<Rightarrow> workflow_event option" where
  "validate_workflow_event E e =
     refuse_if (we_schema_version e \<noteq> lit ''1.0'')
     (refuse_if (\<not> project_id_grammar (we_project_id e))
     (refuse_if (normalize_text E (we_task_id e) \<noteq> Some (we_task_id e))
     (refuse_if (we_sequence e < 1)
     (refuse_if (\<not> pred_option sha256_hex (we_parent_digest e))
     (refuse_if (\<not> pred_option hex16 (we_prompt_id e) \<or> \<not> pred_option hex16 (we_agent_run_id e))
     (refuse_if (\<not> git_object_id (we_head e))
     (refuse_if (normalize_note E (we_note e) \<noteq> Some (we_note e))
     (refuse_if (if we_stage e \<in> set VERDICT_STAGES then we_action e \<noteq> VERDICT_ACTION \<or> we_verdict e = None
                 else we_action e \<noteq> COMPLETED_ACTION \<or> we_verdict e \<noteq> None)
     (refuse_if ((we_parent_digest e = None) \<noteq> (we_sequence e = 1))
     (Some e))))))))))"

section \<open>Transitions\<close>

datatype workflow_error =
    TransitionViolation
  | TerminalTask
  | VerdictRequired
  | VerdictForbidden
  | SequenceConflict
  | StateCorrupt
  | StateIdentityMismatch
  | StateAddressingError
  | WorkflowValueError
  | WorkflowJSONDecodeError

definition INITIAL_STAGE :: workflow_stage where "INITIAL_STAGE = PLAN_REVIEW"

text \<open>\<open>_TRANSITIONS\<close>: the outcome is a verdict, \<open>None\<close> standing for the literal \<open>"completed"\<close>.\<close>

fun TRANSITIONS :: "workflow_stage \<times> verdict option \<Rightarrow> workflow_stage option" where
  "TRANSITIONS (PLAN_REVIEW, Some V_APPROVED) = Some IMPLEMENTATION_STAGE"
| "TRANSITIONS (PLAN_REVIEW, Some V_REJECTED) = Some PLAN_REVIEW"
| "TRANSITIONS (IMPLEMENTATION_STAGE, None) = Some IMPLEMENTATION_REVIEW"
| "TRANSITIONS (IMPLEMENTATION_REVIEW, Some V_APPROVED) = Some GOVERNANCE_CLOSEOUT"
| "TRANSITIONS (IMPLEMENTATION_REVIEW, Some V_REJECTED) = Some REMEDIATION"
| "TRANSITIONS (REMEDIATION, None) = Some IMPLEMENTATION_REVIEW"
| "TRANSITIONS (GOVERNANCE_CLOSEOUT, None) = Some GOVERNANCE_REVIEW"
| "TRANSITIONS (GOVERNANCE_REVIEW, Some V_APPROVED) = Some PUSH_STAGE"
| "TRANSITIONS (GOVERNANCE_REVIEW, Some V_REJECTED) = Some GOVERNANCE_CLOSEOUT"
| "TRANSITIONS _ = None"

definition event_outcome :: "workflow_event \<Rightarrow> verdict option" where
  "event_outcome e = (if we_action e = VERDICT_ACTION then we_verdict e else None)"

text \<open>A validated event that is no push has an entry in the table, so the look-up never fails.\<close>

definition next_stage_after :: "workflow_event \<Rightarrow> workflow_stage option" where
  "next_stage_after e = (if we_stage e = PUSH_STAGE then None else TRANSITIONS (we_stage e, event_outcome e))"

definition expected_stage :: "workflow_event list \<Rightarrow> workflow_stage option" where
  "expected_stage history = (if history = [] then Some INITIAL_STAGE else next_stage_after (last history))"

definition check_new_stage :: "workflow_event list \<Rightarrow> workflow_stage \<Rightarrow> workflow_error + unit" where
  "check_new_stage history stage =
     (case expected_stage history of
        None \<Rightarrow> Inl TerminalTask
      | Some expected \<Rightarrow> raise_if (stage \<noteq> expected) TransitionViolation (Inr ()))"

definition check_outcome_kind :: "workflow_stage \<Rightarrow> bool \<Rightarrow> workflow_error + unit" where
  "check_outcome_kind stage has_verdict =
     raise_if (stage \<in> set VERDICT_STAGES \<and> \<not> has_verdict) VerdictRequired
     (raise_if (stage \<notin> set VERDICT_STAGES \<and> has_verdict) VerdictForbidden (Inr ()))"

section \<open>The store\<close>

type_synonym directory = "(pystr \<times> bytes) list"

record workflow_wire =
  ww_decode :: "bytes \<Rightarrow> pystr option"
  ww_loads :: "pystr \<Rightarrow> json option"
  ww_event :: "json \<Rightarrow> workflow_event option"

text \<open>
  What \<open>Path.resolve\<close> answers about the directory of a task: whether it lies under the state root and whether
  it lies inside the target repository.
\<close>

record placement =
  at_state_root :: "pystr \<Rightarrow> pystr \<Rightarrow> bool"
  at_repository :: "pystr \<Rightarrow> pystr \<Rightarrow> bool"

definition task_dir_name :: "pyenv \<Rightarrow> pystr \<Rightarrow> pystr" where
  "task_dir_name E task_id =
     take 40 (map (\<lambda>c. if is_name_char c then c else 95) task_id) @ 45 # take 16 (sha256 E (utf8 task_id))"

definition state_directory :: "pyenv \<Rightarrow> placement \<Rightarrow> pystr \<Rightarrow> pystr \<Rightarrow> workflow_error + pystr" where
  "state_directory E P project_id task_id =
     raise_if (\<not> project_id_grammar project_id) StateAddressingError
     (raise_if (\<not> at_state_root P project_id (task_dir_name E task_id)) StateAddressingError
     (Inr (task_dir_name E task_id)))"

definition event_dump :: "workflow_event \<Rightarrow> json" where
  "event_dump e = JObj
     [(lit ''schema_version'', JStr (we_schema_version e)), (lit ''project_id'', JStr (we_project_id e)),
      (lit ''task_id'', JStr (we_task_id e)), (lit ''sequence'', JInt (we_sequence e)),
      (lit ''parent_digest'', jopt JStr (we_parent_digest e)), (lit ''stage'', JStr (stage_value (we_stage e))),
      (lit ''action'', JStr (action_value (we_action e))),
      (lit ''verdict'', jopt (\<lambda>v. JStr (workflow_verdict_value v)) (we_verdict e)),
      (lit ''prompt_id'', jopt JStr (we_prompt_id e)), (lit ''agent_run_id'', jopt JStr (we_agent_run_id e)),
      (lit ''head'', JStr (we_head e)), (lit ''note'', JStr (we_note e))]"

definition event_bytes :: "pyenv \<Rightarrow> workflow_event \<Rightarrow> bytes option" where
  "event_bytes E e = map_option (\<lambda>b. b @ [10]) (canonical_json E (event_dump e))"

text \<open>\<open>f"{index:08d}.json"\<close>\<close>

definition event_file :: "nat \<Rightarrow> pystr" where
  "event_file n = pad8 (int n) @ lit ''.json''"

text \<open>
  The loop of \<open>load_history\<close>: \<open>index\<close> counts from 1, \<open>previous\<close> is the file read before. The refusals
  come in the code's order.
\<close>

fun load_events ::
  "pyenv \<Rightarrow> workflow_wire \<Rightarrow> pystr \<Rightarrow> pystr \<Rightarrow> nat \<Rightarrow> bytes option \<Rightarrow> workflow_event list \<Rightarrow> bytes list \<Rightarrow>
     workflow_error + workflow_event list" where
  "load_events E W project_id task_id index previous history [] = Inr history"
| "load_events E W project_id task_id index previous history (raw # raws) =
     raise_if (raw = [] \<or> last raw \<noteq> 10 \<or> length (filter (\<lambda>c. c = 10) raw) \<noteq> 1) StateCorrupt
     (rbind (from_option StateCorrupt (ww_decode W (butlast raw))) (\<lambda>body.
      rbind (from_option WorkflowJSONDecodeError (ww_loads W body)) (\<lambda>parsed.
      raise_if (\<not> no_duplicate_keys parsed) StateCorrupt
      (rbind (from_option StateCorrupt (Option.bind (ww_event W parsed) (validate_workflow_event E))) (\<lambda>event.
       rbind (from_option WorkflowValueError (event_bytes E event)) (\<lambda>canonical.
       raise_if (canonical \<noteq> raw) StateCorrupt
       (raise_if (we_sequence event \<noteq> int index) StateCorrupt
       (raise_if (we_project_id event \<noteq> project_id \<or> we_task_id event \<noteq> task_id) StateIdentityMismatch
       (raise_if (we_parent_digest event \<noteq> map_option (sha256 E) previous) StateCorrupt
       (raise_if (Some (we_stage event) \<noteq> expected_stage history) StateCorrupt
       (load_events E W project_id task_id (Suc index) (Some raw) (history @ [event]) raws)))))))))))"

definition is_temp :: "pystr \<Rightarrow> bool" where
  "is_temp name \<longleftrightarrow> 9 \<le> length name \<and> drop (length name - 9) name = lit ''.json.tmp''"

definition event_file_shape :: "pystr \<Rightarrow> bool" where
  "event_file_shape name \<longleftrightarrow>
     length name = 13 \<and> list_all is_digit (take 8 name) \<and> drop 8 name = lit ''.json''"

definition event_names :: "directory \<Rightarrow> pystr list" where
  "event_names d = filter (\<lambda>n. \<not> is_temp n) (sort (map fst d))"

definition load_history ::
  "pyenv \<Rightarrow> workflow_wire \<Rightarrow> placement \<Rightarrow> directory option \<Rightarrow> pystr \<Rightarrow> pystr \<Rightarrow> workflow_error + workflow_event list" where
  "load_history E W P stored project_id task_id =
     rbind (from_option WorkflowValueError (normalize_text E task_id)) (\<lambda>task.
     rbind (state_directory E P project_id task) (\<lambda>_.
     case stored of
       None \<Rightarrow> Inr []
     | Some d \<Rightarrow>
         (let names = event_names d in
          if names = [] then Inr []
          else raise_if (\<not> list_all event_file_shape names) StateCorrupt
            (raise_if (names \<noteq> map event_file [1..<length names + 1]) StateCorrupt
            (load_events E W project_id task 1 None [] (map (\<lambda>n. the (map_of d n)) names))))))"

record workflow_state =
  wst_project_id :: pystr
  wst_task_id :: pystr
  wst_events :: "workflow_event list"
  wst_next_stage :: "workflow_stage option"
  wst_terminal :: bool

definition derive_state ::
  "pyenv \<Rightarrow> workflow_wire \<Rightarrow> placement \<Rightarrow> directory option \<Rightarrow> pystr \<Rightarrow> pystr \<Rightarrow> workflow_error + workflow_state" where
  "derive_state E W P stored project_id task_id =
     rbind (load_history E W P stored project_id task_id) (\<lambda>history.
     rbind (from_option WorkflowValueError (normalize_text E task_id)) (\<lambda>task.
     Inr \<lparr>wst_project_id = project_id, wst_task_id = task, wst_events = history,
          wst_next_stage = expected_stage history,
          wst_terminal = (history \<noteq> [] \<and> expected_stage history = None)\<rparr>))"

section \<open>Appending\<close>

text \<open>
  The directory while \<open>append\<close> runs: a unique temporary file is created and written, linked under the final
  name, which never replaces a file, and unlinked. \<open>append_point\<close> is every directory a crash can leave.
\<close>

definition temp_name :: "pystr \<Rightarrow> pystr" where
  "temp_name unique_hex = 46 # unique_hex @ lit ''.json.tmp''"

definition add_file :: "pystr \<Rightarrow> bytes \<Rightarrow> directory \<Rightarrow> directory" where
  "add_file name content d = d @ [(name, content)]"

inductive append_point :: "pystr \<Rightarrow> pystr \<Rightarrow> bytes \<Rightarrow> directory \<Rightarrow> directory \<Rightarrow> bool" for temp final data d where
  not_begun: "append_point temp final data d d"
| writing: "append_point temp final data d (add_file temp (take n data) d)"
| linked: "map_of d final = None \<Longrightarrow> append_point temp final data d (add_file final data (add_file temp data d))"
| published: "map_of d final = None \<Longrightarrow> append_point temp final data d (add_file final data d)"

definition link_file :: "pystr \<Rightarrow> bytes \<Rightarrow> directory \<Rightarrow> workflow_error + directory" where
  "link_file final data d =
     (case map_of d final of
        None \<Rightarrow> Inr (add_file final data d)
      | Some existing \<Rightarrow> raise_if (existing \<noteq> data) SequenceConflict (Inr d))"

definition append_workflow_event ::
  "pyenv \<Rightarrow> placement \<Rightarrow> directory option \<Rightarrow> workflow_event \<Rightarrow> workflow_error + directory" where
  "append_workflow_event E P stored event =
     rbind (state_directory E P (we_project_id event) (we_task_id event)) (\<lambda>name.
     raise_if (at_repository P (we_project_id event) name) StateAddressingError
     (rbind (from_option WorkflowValueError (event_bytes E event)) (\<lambda>data.
      let d = (case stored of None \<Rightarrow> [] | Some d \<Rightarrow> d); final = event_file (nat (we_sequence event)) in
      rbind (link_file final data d) (\<lambda>e.
      raise_if (map_of e final \<noteq> Some data) StateCorrupt (Inr e)))))"

definition record_outcome ::
  "pyenv \<Rightarrow> workflow_wire \<Rightarrow> placement \<Rightarrow> directory option \<Rightarrow> pystr \<Rightarrow> pystr \<Rightarrow> workflow_stage \<Rightarrow> verdict option \<Rightarrow>
     pystr option \<Rightarrow> pystr option \<Rightarrow> pystr \<Rightarrow> pystr \<Rightarrow> workflow_error + workflow_event \<times> directory" where
  "record_outcome E W P stored project_id task_id stage verdict prompt_id agent_run_id note head =
     rbind (from_option WorkflowValueError (normalize_text E task_id)) (\<lambda>task.
     rbind (load_history E W P stored project_id task) (\<lambda>history.
     rbind (check_outcome_kind stage (verdict \<noteq> None)) (\<lambda>_.
     rbind (check_new_stage history stage) (\<lambda>_.
     rbind (if history = [] then Inr None
            else map_sum id (\<lambda>b. Some (sha256 E b))
              (from_option WorkflowValueError (event_bytes E (last history)))) (\<lambda>parent_digest.
     rbind (from_option WorkflowValueError (normalize_note E note)) (\<lambda>normalized_note.
     rbind (from_option WorkflowValueError (validate_workflow_event E
       \<lparr>we_schema_version = lit ''1.0'', we_project_id = project_id, we_task_id = task,
        we_sequence = int (length history) + 1, we_parent_digest = parent_digest, we_stage = stage,
        we_action = (if stage \<in> set VERDICT_STAGES then VERDICT_ACTION else COMPLETED_ACTION),
        we_verdict = verdict, we_prompt_id = prompt_id, we_agent_run_id = agent_run_id,
        we_head = head, we_note = normalized_note\<rparr>)) (\<lambda>event.
     rbind (append_workflow_event E P stored event) (\<lambda>d. Inr (event, d)))))))))"

end
