(* ===== verification/Workflow_Facts.thy ===== *)
theory Workflow_Facts
  imports Workflow_Store Operation_Paths "HOL-Library.Multiset"
begin

text \<open>
  What the workflow store guarantees: a loaded history is a path of the transition table with unbroken
  parent digests; an outcome is recorded only for the expected stage and is the next event a load yields;
  and a crash anywhere in an append leaves the history as it was or extended by the event.
\<close>

section \<open>File names\<close>

lemma digits_value_Cons: "digits_value (c # cs) = (c - 48) * 10 ^ length cs + digits_value cs"
  by (induction cs rule: rev_induct) (simp_all add: digits_value_def algebra_simps)

lemma digits_value_bound: "list_all is_digit v \<Longrightarrow> digits_value v < 10 ^ length v"
proof (induction v)
  case (Cons c cs)
  then have "c - 48 \<le> 9" by (auto simp: is_digit_def)
  then have "(c - 48) * 10 ^ length cs \<le> 9 * 10 ^ length cs" by (rule mult_le_mono1)
  moreover have "digits_value cs < 10 ^ length cs" using Cons by simp
  ultimately show ?case unfolding digits_value_Cons length_Cons power_Suc by linarith
qed (simp add: digits_value_def)

text \<open>Digit strings of one length are ordered as the numbers they denote.\<close>

lemma digits_less:
  "length v = length w \<Longrightarrow> list_all is_digit v \<Longrightarrow> list_all is_digit w \<Longrightarrow>
     v < w \<longleftrightarrow> digits_value v < digits_value w"
proof (induction v w rule: list_induct2)
  case (Cons c cs d ds)
  let ?k = "10 ^ length ds"
  have b: "digits_value cs < ?k" "digits_value ds < ?k"
    using Cons digits_value_bound[of cs] digits_value_bound[of ds] by auto
  have cd: "48 \<le> c" "48 \<le> d" using Cons.prems by (simp_all add: is_digit_def)
  have step: "x < y \<Longrightarrow> u < ?k \<Longrightarrow> x * ?k + u < y * ?k + w" for x y u w :: nat
  proof -
    assume "x < y" "u < ?k"
    then have "x * ?k + u < Suc x * ?k" by simp
    also have "\<dots> \<le> y * ?k + w" using \<open>x < y\<close> by (metis Suc_leI mult_le_mono1 trans_le_add1)
    finally show ?thesis .
  qed
  consider "c < d" | "d < c" | "c = d" by linarith
  then show ?case
  proof cases
    case 1
    then have "c - 48 < d - 48" using cd by linarith
    with 1 step[OF this b(1)] Cons.hyps show ?thesis by (simp add: digits_value_Cons)
  next
    case 2
    then have "d - 48 < c - 48" using cd by linarith
    from step[OF this b(2), of "digits_value cs"] 2 Cons.hyps show ?thesis by (simp add: digits_value_Cons)
  next
    case 3
    with Cons show ?thesis by (simp add: digits_value_Cons)
  qed
qed (simp add: digits_value_def)

lemma append_less_same: "length v = length w \<Longrightarrow> v @ s < w @ s \<longleftrightarrow> v < (w :: nat list)"
  by (induction v w rule: list_induct2) auto

lemma pad8_nat:
  assumes "1 \<le> n" and "n < 10 ^ 8"
  shows "length (pad8 (int n)) = 8" and "list_all is_digit (pad8 (int n))" and "digits_value (pad8 (int n)) = n"
proof -
  have "1 \<le> int n" "int n \<le> MAX_EVENT_SEQUENCE"
    using assms by (simp_all add: MAX_EVENT_SEQUENCE_def MAX_STATE_VERSION_def)
  from pad8_facts[OF this] show "length (pad8 (int n)) = 8" "list_all is_digit (pad8 (int n))"
    "digits_value (pad8 (int n)) = n" by simp_all
qed

lemma event_file_facts:
  assumes "1 \<le> n" and "n < 10 ^ 8"
  shows "event_file_shape (event_file n)" and "\<not> is_temp (event_file n)"
proof -
  note p = pad8_nat(1,2)[OF assms]
  then show "event_file_shape (event_file n)" by (simp add: event_file_shape_def event_file_def)
  have "drop 4 (event_file n) = drop 4 (pad8 (int n)) @ lit ''.json''" using p by (simp add: event_file_def)
  moreover have "hd (drop 4 (pad8 (int n))) = pad8 (int n) ! 4" using p by (simp add: hd_drop_conv_nth)
  moreover have "is_digit (pad8 (int n) ! 4)" using p by (simp add: list_all_length)
  ultimately have "hd (drop 4 (event_file n)) \<noteq> 46"
    using p by (auto simp: is_digit_def hd_append)
  then show "\<not> is_temp (event_file n)"
    using p by (auto simp: is_temp_def event_file_def lit_def)
qed

lemma event_file_less:
  assumes "1 \<le> m" "m < 10 ^ 8" and "1 \<le> n" "n < 10 ^ 8"
  shows "event_file m < event_file n \<longleftrightarrow> m < n"
  using pad8_nat[OF assms(1,2)] pad8_nat[OF assms(3,4)]
  by (simp add: event_file_def append_less_same digits_less)

lemma event_file_inj:
  assumes "1 \<le> m" "m < 10 ^ 8" and "1 \<le> n" "n < 10 ^ 8" and "event_file m = event_file n"
  shows "m = n"
  using event_file_less[OF assms(1-4)] event_file_less[OF assms(3,4,1,2)] assms(5) by auto

text \<open>A directory that is loaded holds the files 1 to n, and n has at most eight digits.\<close>

lemma event_file_length: "length (event_file n) = 13 \<Longrightarrow> n < 10 ^ 8"
proof -
  assume "length (event_file n) = 13"
  then have "length (nat_digits n) \<le> 8"
    by (simp add: event_file_def pad8_def int_text_def Let_def)
  moreover have "n < 10 ^ length (nat_digits n)"
    using digits_value_bound[OF nat_digits_digit, of n] by (simp add: nat_digits_value)
  moreover have "(10::nat) ^ length (nat_digits n) \<le> 10 ^ 8" using calculation(1) by (intro power_increasing) auto
  ultimately show "n < 10 ^ 8" by linarith
qed

section \<open>Loading\<close>

text \<open>What one accepted file says: the event, its canonical bytes and its place in the chain.\<close>

definition fits ::
  "pyenv \<Rightarrow> pystr \<Rightarrow> pystr \<Rightarrow> nat \<Rightarrow> bytes option \<Rightarrow> workflow_event list \<Rightarrow> bytes \<Rightarrow> workflow_event \<Rightarrow> bool" where
  "fits E project_id task_id index previous history raw event \<longleftrightarrow>
     validate_workflow_event E event = Some event \<and> event_bytes E event = Some raw \<and> we_sequence event = int index
     \<and> we_project_id event = project_id \<and> we_task_id event = task_id
     \<and> we_parent_digest event = map_option (sha256 E) previous \<and> Some (we_stage event) = expected_stage history"

text \<open>Reading the canonical bytes of a valid event yields the event.\<close>

definition loads_back :: "pyenv \<Rightarrow> workflow_wire \<Rightarrow> workflow_event \<Rightarrow> bool" where
  "loads_back E W event \<longleftrightarrow>
     (\<forall>body. canonical_json E (event_dump event) = Some body \<longrightarrow>
        (\<exists>t j. ww_decode W body = Some t \<and> ww_loads W t = Some j \<and> no_duplicate_keys j \<and> ww_event W j = Some event))"

lemma validate_workflow_event_id: "validate_workflow_event E e = Some f \<Longrightarrow> f = e"
  by (auto simp: validate_workflow_event_def)

lemma load_events_Cons:
  assumes "load_events E W project task index previous history (raw # raws) = Inr h"
  obtains event where "fits E project task index previous history raw event"
    and "load_events E W project task (Suc index) (Some raw) (history @ [event]) raws = Inr h"
proof -
  from assms obtain event where
    "\<exists>x. validate_workflow_event E x = Some event" "event_bytes E event = Some raw" "we_sequence event = int index"
    "we_project_id event = project" "we_task_id event = task"
    "we_parent_digest event = map_option (sha256 E) previous" "Some (we_stage event) = expected_stage history"
    "load_events E W project task (Suc index) (Some raw) (history @ [event]) raws = Inr h"
    unfolding load_events.simps raise_if_Inr rbind_Inr from_option_Inr bind_eq_Some_conv not_not de_Morgan_disj
    by (elim exE conjE) (rule that, (rule exI, assumption)?, simp_all)
  then show thesis using that validate_workflow_event_id by (metis fits_def)
qed

lemma event_bytes_newline: "event_bytes E e = Some raw \<Longrightarrow> \<exists>body. canonical_json E (event_dump e) = Some body \<and> raw = body @ [10]"
  by (auto simp: event_bytes_def)

text \<open>The serialization is one line.\<close>

lemma escape_no_newline: "10 \<notin> set (escape_char c)"
  by (auto simp: escape_char_def lit_def hex_digit_def)

lemma string_no_newline: "10 \<notin> set (string_text v)"
  by (induction v) (simp_all add: string_text_def escape_no_newline)

lemma digits_no_newline: "10 \<notin> set (nat_digits n)"
  using nat_digits_digit[of n] by (auto simp: list_all_iff is_digit_def)

lemma join_on_no_newline: "c \<noteq> 10 \<Longrightarrow> \<forall>x \<in> set xs. 10 \<notin> set x \<Longrightarrow> 10 \<notin> set (join_on c xs)"
  by (induction c xs rule: join_on.induct) auto

lemma dumps_no_newline: "10 \<notin> set (dumps j)"
proof (induction j)
  case (JObj kvs)
  have "\<forall>x \<in> set (map (\<lambda>(k, t). string_text k @ 58 # t) (sort_key fst (map (\<lambda>(k, v). (k, dumps v)) kvs))).
      10 \<notin> set x"
    using JObj by (fastforce simp: snds.simps string_no_newline)
  then show ?case by (simp add: join_on_no_newline)
qed (simp_all add: lit_def int_text_def digits_no_newline string_no_newline join_on_no_newline)

lemma utf8_no_newline: "10 \<notin> set v \<Longrightarrow> 10 \<notin> set (utf8 v)"
  by (induction v) (auto simp: utf8_def)

lemma canonical_no_newline: "canonical_json E j = Some body \<Longrightarrow> 10 \<notin> set body"
  by (auto simp: canonical_json_def encode_strict_def utf8_no_newline dumps_no_newline)

lemma load_one:
  assumes "fits E project task index previous history raw event" and "loads_back E W event"
  shows "load_events E W project task index previous history [raw] = Inr (history @ [event])"
proof -
  from assms(1) have "event_bytes E event = Some raw" by (simp add: fits_def)
  from event_bytes_newline[OF this]
  obtain body where b: "canonical_json E (event_dump event) = Some body" "raw = body @ [10]" by blast
  have "filter (\<lambda>c. c = 10) body = []" using canonical_no_newline[OF b(1)] by (auto simp: filter_empty_conv)
  moreover obtain t j where "ww_decode W body = Some t" "ww_loads W t = Some j" "no_duplicate_keys j"
      "ww_event W j = Some event"
    using assms(2) b(1) by (auto simp: loads_back_def)
  moreover have "\<not> (raw = [] \<or> last raw \<noteq> 10 \<or> length (filter (\<lambda>c. c = 10) raw) \<noteq> 1)"
    using calculation(1) b(2) by simp
  ultimately show ?thesis using assms(1) b(2) by (simp add: fits_def)
qed

lemma rbind_raise_if: "rbind (raise_if c e k) f = raise_if c e (rbind k f)"
  by (simp add: raise_if_def)

lemma rbind_assoc: "rbind (rbind m f) g = rbind m (\<lambda>x. rbind (f x) g)"
  by (cases m) simp_all

lemma load_events_snoc:
  "load_events E W project task index previous history (raws @ [raw]) =
     rbind (load_events E W project task index previous history raws) (\<lambda>h.
       load_events E W project task (index + length raws) (if raws = [] then previous else Some (last raws)) h [raw])"
proof (induction raws arbitrary: index previous history)
  case (Cons r raws)
  have eq: "load_events E W project task (Suc index) (Some r) h (raws @ [raw]) =
      rbind (load_events E W project task (Suc index) (Some r) h raws) (\<lambda>h.
        load_events E W project task (index + length (r # raws)) (if r # raws = [] then previous else Some (last (r # raws))) h [raw])"
    for h by (simp only: Cons.IH) (simp del: load_events.simps)
  show ?case
    by (simp only: append_Cons load_events.simps(2)[of _ _ _ _ _ _ _ r] rbind_raise_if rbind_assoc eq)
qed (simp only: append_Nil load_events.simps(1) rbind.simps list.size add_0_right if_True simp_thms)

text \<open>A loaded history, event by event.\<close>

lemma load_events_fits:
  "load_events E W project task index previous history raws = Inr h \<Longrightarrow>
     \<exists>new. h = history @ new \<and> length new = length raws
       \<and> (\<forall>i < length new. fits E project task (index + i) (if i = 0 then previous else Some (raws ! (i - 1)))
            (history @ take i new) (raws ! i) (new ! i))"
proof (induction raws arbitrary: index previous history)
  case (Cons raw raws)
  obtain event where e: "fits E project task index previous history raw event"
    and l: "load_events E W project task (Suc index) (Some raw) (history @ [event]) raws = Inr h"
    using load_events_Cons[OF Cons.prems] by blast
  from Cons.IH[OF l] obtain new where new: "h = (history @ [event]) @ new" "length new = length raws"
    "\<forall>i < length new. fits E project task (Suc index + i) (if i = 0 then Some raw else Some (raws ! (i - 1)))
       ((history @ [event]) @ take i new) (raws ! i) (new ! i)" by blast
  have "fits E project task (index + i) (if i = 0 then previous else Some ((raw # raws) ! (i - 1)))
      (history @ take i (event # new)) ((raw # raws) ! i) ((event # new) ! i)" if "i < length (event # new)" for i
  proof (cases i)
    case 0
    with e show ?thesis by simp
  next
    case (Suc k)
    then have "k < length new" using that by simp
    with new(3) have "fits E project task (Suc index + k) (if k = 0 then Some raw else Some (raws ! (k - 1)))
       ((history @ [event]) @ take k new) (raws ! k) (new ! k)" by blast
    then show ?thesis using Suc by (cases k) simp_all
  qed
  then show ?case using new(1,2) by (intro exI[of _ "event # new"]) simp
qed simp

section \<open>The directory\<close>

definition dir_of :: "directory option \<Rightarrow> directory" where
  "dir_of stored = (case stored of None \<Rightarrow> [] | Some d \<Rightarrow> d)"

definition contents :: "directory \<Rightarrow> bytes list" where
  "contents d = map (\<lambda>n. the (map_of d n)) (event_names d)"

lemma event_names_Nil [simp]: "event_names [] = []"
  by (simp add: event_names_def)

lemma load_history_Inr:
  "load_history E W P stored project task_id = Inr h \<longleftrightarrow>
     (\<exists>task name. normalize_text E task_id = Some task \<and> state_directory E P project task = Inr name
        \<and> list_all event_file_shape (event_names (dir_of stored))
        \<and> event_names (dir_of stored) = map event_file [1..<length (event_names (dir_of stored)) + 1]
        \<and> load_events E W project task 1 None [] (contents (dir_of stored)) = Inr h)"
  by (auto simp: load_history_def dir_of_def contents_def Let_def split: option.splits)

lemma event_names_sorted: "event_names d = sort (filter (\<lambda>n. \<not> is_temp n) (map fst d))"
  by (simp add: event_names_def filter_sort)

lemma is_temp_temp_name [simp]: "is_temp (temp_name u)"
  by (simp add: is_temp_def temp_name_def)

lemma event_names_temp [simp]: "is_temp temp \<Longrightarrow> event_names (add_file temp x d) = event_names d"
  by (simp add: event_names_sorted add_file_def)

lemma map_of_add_file: "n \<in> fst ` set d \<Longrightarrow> map_of (add_file m x d) n = map_of d n"
  by (auto simp: add_file_def map_add_def map_of_append split: option.splits dest: weak_map_of_SomeI)

lemma event_names_in: "n \<in> set (event_names d) \<Longrightarrow> n \<in> fst ` set d"
  by (auto simp: event_names_sorted)

lemma contents_temp [simp]: "is_temp temp \<Longrightarrow> contents (add_file temp x d) = contents d"
  unfolding contents_def by (simp add: map_of_add_file event_names_in cong: map_cong)

text \<open>The next file of a directory that loads: its name is free and sorts last.\<close>

lemma next_file:
  assumes names: "event_names d = map event_file [1..<length (event_names d) + 1]"
    and n: "n = length (event_names d)" "n + 1 < 10 ^ 8"
  shows "map_of d (event_file (n + 1)) = None" and "event_file (n + 1) \<notin> fst ` set d"
    and "event_names (add_file (event_file (n + 1)) x d) = event_names d @ [event_file (n + 1)]"
    and "contents (add_file (event_file (n + 1)) x d) = contents d @ [x]"
proof -
  let ?f = "event_file (n + 1)"
  have set: "set (event_names d) = event_file ` {1..n}" using names n(1) by (metis Suc_eq_plus1 atLeastLessThanSuc_atLeastAtMost set_map set_upt)
  have temp: "\<not> is_temp ?f" using event_file_facts(2)[of "n + 1"] n(2) by simp
  show free: "?f \<notin> fst ` set d"
  proof
    assume "?f \<in> fst ` set d"
    then have "?f \<in> set (event_names d)" using temp by (simp add: event_names_sorted)
    then obtain m where m: "m \<in> {1..n}" "?f = event_file m" using set by auto
    then have "n + 1 = m" using n(2) by (intro event_file_inj) auto
    with m(1) show False by simp
  qed
  then show none: "map_of d ?f = None" by (simp add: map_of_eq_None_iff)
  have less: "\<forall>k \<in> set (event_names d). k \<le> ?f"
  proof
    fix k
    assume "k \<in> set (event_names d)"
    then obtain m where "1 \<le> m" "m \<le> n" "k = event_file m" using set by auto
    then show "k \<le> ?f" using event_file_less[of m "n + 1"] n(2) by (simp add: less_imp_le)
  qed
  have "sort (filter (\<lambda>n. \<not> is_temp n) (map fst d) @ [?f]) = event_names d @ [?f]"
    by (rule properties_for_sort) (use less in \<open>simp_all add: event_names_sorted sorted_append\<close>)
  then show names': "event_names (add_file ?f x d) = event_names d @ [?f]"
    using temp by (simp add: event_names_sorted add_file_def)
  have "the (map_of (add_file ?f x d) k) = the (map_of d k)" if "k \<in> set (event_names d)" for k
    using that by (simp add: map_of_add_file event_names_in)
  moreover have "map_of (add_file ?f x d) ?f = Some x" using none by (simp add: add_file_def map_add_def)
  ultimately show "contents (add_file ?f x d) = contents d @ [x]"
    unfolding contents_def names' by simp
qed

text \<open>Extending a directory that loads by a file that fits.\<close>

lemma load_history_extended:
  assumes l: "load_history E W P stored project task_id = Inr h"
    and t: "normalize_text E task_id = Some task" and n: "length h + 1 < 10 ^ 8"
    and fit: "fits E project task (length h + 1) (if h = [] then None else Some (last (contents (dir_of stored)))) h raw event"
    and rb: "loads_back E W event"
  shows "load_history E W P (Some (add_file (event_file (length h + 1)) raw (dir_of stored))) project task_id
     = Inr (h @ [event])"
    and "map_of (dir_of stored) (event_file (length h + 1)) = None"
    and "length (contents (dir_of stored)) = length h"
proof -
  let ?d = "dir_of stored"
  from l t obtain name where s: "state_directory E P project task = Inr name"
    and shape: "list_all event_file_shape (event_names ?d)"
    and names: "event_names ?d = map event_file [1..<length (event_names ?d) + 1]"
    and le: "load_events E W project task 1 None [] (contents ?d) = Inr h"
    by (auto simp: load_history_Inr)
  have len: "length h = length (contents ?d)" using load_events_fits[OF le] by auto
  then have lenn: "length h = length (event_names ?d)" by (simp add: contents_def)
  note nx = next_file[OF names lenn n]
  show "map_of ?d (event_file (length h + 1)) = None" by (rule nx(1))
  show "length (contents ?d) = length h" using len by simp
  have "contents ?d = [] \<longleftrightarrow> h = []" using len by auto
  then have "load_events E W project task 1 None [] (contents ?d @ [raw]) = Inr (h @ [event])"
    using load_events_snoc[of E W project task 1 None "[]" "contents ?d" raw] le len
      load_one[OF fit rb] by (simp del: load_events.simps add: add.commute)
  moreover have "event_names ?d @ [event_file (length h + 1)]
      = map event_file [1..<length (event_names ?d @ [event_file (length h + 1)]) + 1]"
    using names lenn by (metis One_nat_def Suc_eq_plus1 Suc_leI length_append_singleton list.simps(8,9) map_append
        upt_Suc zero_less_Suc)
  moreover have "event_file_shape (event_file (length h + 1))" using event_file_facts(1) n by simp
  ultimately show "load_history E W P (Some (add_file (event_file (length h + 1)) raw ?d)) project task_id = Inr (h @ [event])"
    using t s shape unfolding load_history_Inr dir_of_def option.case nx(3)[of raw, unfolded dir_of_def]
      nx(4)[of raw, unfolded dir_of_def]
    by (intro exI[of _ task] exI[of _ name]) (simp add: dir_of_def del: load_events.simps)
qed

section \<open>Recording\<close>

lemma normalized_task: "record_outcome E W P stored project task_id stage verdict prompt run note head = Inr (event, d)
    \<Longrightarrow> \<exists>task. normalize_text E task_id = Some task \<and> normalize_text E task = Some task
          \<and> we_task_id event = task"
  by (auto simp: record_outcome_def validate_workflow_event_def)

lemma record_outcome_Inr:
  assumes "record_outcome E W P stored project task_id stage verdict prompt run note head = Inr (event, d)"
    and t: "normalize_text E task_id = Some task"
  obtains h where "load_history E W P stored project task = Inr h"
    and "check_outcome_kind stage (verdict \<noteq> None) = Inr ()" and "check_new_stage h stage = Inr ()"
    and "validate_workflow_event E event = Some event" and "append_workflow_event E P stored event = Inr d"
    and "we_project_id event = project" and "we_task_id event = task" and "we_stage event = stage"
    and "we_sequence event = int (length h) + 1" and "we_verdict event = verdict"
    and "h \<noteq> [] \<longrightarrow> (\<exists>b. event_bytes E (last h) = Some b \<and> we_parent_digest event = Some (sha256 E b))"
    and "h = [] \<longrightarrow> we_parent_digest event = None"
proof -
  note a = assms(1)[unfolded record_outcome_def rbind_Inr from_option_Inr t option.inject]
  from a obtain h parent n where
    h: "load_history E W P stored project task = Inr h" "check_outcome_kind stage (verdict \<noteq> None) = Inr ()"
      "check_new_stage h stage = Inr ()"
    and parent: "(if h = [] then Inr None
            else map_sum id (\<lambda>b. Some (sha256 E b))
              (from_option WorkflowValueError (event_bytes E (last h)))) = Inr parent"
    and v: "validate_workflow_event E
       \<lparr>we_schema_version = lit ''1.0'', we_project_id = project, we_task_id = task,
        we_sequence = int (length h) + 1, we_parent_digest = parent, we_stage = stage,
        we_action = (if stage \<in> set VERDICT_STAGES then VERDICT_ACTION else COMPLETED_ACTION),
        we_verdict = verdict, we_prompt_id = prompt, we_agent_run_id = run,
        we_head = head, we_note = n\<rparr> = Some event"
    and ap: "append_workflow_event E P stored event = Inr d"
    by (elim exE conjE) auto
  have e: "event = \<lparr>we_schema_version = lit ''1.0'', we_project_id = project, we_task_id = task,
        we_sequence = int (length h) + 1, we_parent_digest = parent, we_stage = stage,
        we_action = (if stage \<in> set VERDICT_STAGES then VERDICT_ACTION else COMPLETED_ACTION),
        we_verdict = verdict, we_prompt_id = prompt, we_agent_run_id = run, we_head = head, we_note = n\<rparr>"
    using v by (rule validate_workflow_event_id)
  have "h \<noteq> [] \<Longrightarrow> \<exists>b. event_bytes E (last h) = Some b \<and> parent = Some (sha256 E b)"
    using parent by (cases "event_bytes E (last h)") auto
  moreover have "h = [] \<Longrightarrow> parent = None" using parent by simp
  moreover have "validate_workflow_event E event = Some event" using v unfolding e .
  ultimately show thesis using that h ap by (simp add: e)
qed

lemma check_new_stage_Inr: "check_new_stage h stage = Inr u \<longleftrightarrow> expected_stage h = Some stage"
  by (auto simp: check_new_stage_def split: option.splits)

lemma append_workflow_event_Inr:
  "append_workflow_event E P stored event = Inr d \<Longrightarrow>
     \<exists>data. event_bytes E event = Some data
       \<and> link_file (event_file (nat (we_sequence event))) data (dir_of stored) = Inr d"
  by (auto simp: append_workflow_event_def dir_of_def Let_def)

lemma last_contents:
  assumes "load_events E W project task 1 None [] raws = Inr h" and "h \<noteq> []"
  shows "event_bytes E (last h) = Some (last raws)"
proof -
  from load_events_fits[OF assms(1)] have len: "length h = length raws"
    and f: "\<forall>i < length h. fits E project task (1 + i) (if i = 0 then None else Some (raws ! (i - 1))) (take i h) (raws ! i) (h ! i)"
    by auto
  from assms(2) have "length h - 1 < length h" by simp
  with f have "event_bytes E (h ! (length h - 1)) = Some (raws ! (length h - 1))" unfolding fits_def by blast
  moreover have "raws \<noteq> []" using assms(2) len by auto
  ultimately show ?thesis using assms(2) len by (simp add: last_conv_nth)
qed

text \<open>The recorded event fits behind the history, under the name of the next file.\<close>

lemma recorded_fits:
  assumes r: "record_outcome E W P stored project task_id stage verdict prompt run note head = Inr (event, d)"
    and l: "load_history E W P stored project task_id = Inr h"
  obtains task raw where "normalize_text E task_id = Some task" and "normalize_text E task = Some task"
    and "fits E project task (length h + 1) (if h = [] then None else Some (last (contents (dir_of stored)))) h raw event"
    and "link_file (event_file (length h + 1)) raw (dir_of stored) = Inr d" and "expected_stage h = Some stage"
proof -
  from normalized_task[OF r] obtain task where t: "normalize_text E task_id = Some task"
      "normalize_text E task = Some task" by blast
  have l': "load_history E W P stored project task = Inr h"
    using l t by (simp add: load_history_Inr)
  obtain h' where h': "load_history E W P stored project task = Inr h'"
    and kind: "check_outcome_kind stage (verdict \<noteq> None) = Inr ()"
    and k1: "check_new_stage h' stage = Inr ()" and k2: "validate_workflow_event E event = Some event"
    and k3: "append_workflow_event E P stored event = Inr d" and k4: "we_project_id event = project"
    and k5: "we_task_id event = task" and k6: "we_stage event = stage"
    and k7: "we_sequence event = int (length h') + 1" and k8: "we_verdict event = verdict"
    and p: "h' \<noteq> [] \<longrightarrow> (\<exists>b. event_bytes E (last h') = Some b \<and> we_parent_digest event = Some (sha256 E b))"
      "h' = [] \<longrightarrow> we_parent_digest event = None"
    using r t(1) by (rule record_outcome_Inr)
  note k = k1 k2 k3 k4 k5 k6 k7
  have hh: "h' = h" using h' l' by simp
  obtain raw where raw: "event_bytes E event = Some raw"
    "link_file (event_file (nat (we_sequence event))) raw (dir_of stored) = Inr d"
    using append_workflow_event_Inr[OF k(3)] by blast
  have parent: "we_parent_digest event = map_option (sha256 E) (if h = [] then None else Some (last (contents (dir_of stored))))"
  proof (cases "h = []")
    case False
    have "load_events E W project task 1 None [] (contents (dir_of stored)) = Inr h"
      using l t by (auto simp: load_history_Inr)
    from last_contents[OF this False] p(1) False show ?thesis by (auto simp: hh)
  qed (use p hh in simp)
  have st: "expected_stage h = Some stage" using k(1) by (simp add: check_new_stage_Inr hh)
  have nat: "nat (we_sequence event) = length h + 1" using k(7) hh by simp
  show thesis
  proof (rule that[OF t])
    show "fits E project task (length h + 1) (if h = [] then None else Some (last (contents (dir_of stored)))) h raw event"
      unfolding fits_def using k raw(1) parent st hh by simp
    show "link_file (event_file (length h + 1)) raw (dir_of stored) = Inr d" using raw(2) nat by simp
    show "expected_stage h = Some stage" by (rule st)
  qed
qed

lemma link_file_free: "map_of d final = None \<Longrightarrow> link_file final data d = Inr e \<Longrightarrow> e = add_file final data d"
  by (simp add: link_file_def)

text \<open>A directory is seen by a load through its event files only.\<close>

lemma load_history_temp:
  assumes "is_temp temp"
  shows "load_history E W P (Some (add_file temp x (dir_of stored))) project task_id
    = load_history E W P (Some (dir_of stored)) project task_id"
  unfolding load_history_def option.case Let_def contents_def[symmetric]
    event_names_temp[OF assms] contents_temp[OF assms] by (rule refl)

lemma load_history_dir_of: "load_history E W P (Some (dir_of stored)) project task_id = load_history E W P stored project task_id"
  by (cases stored) (simp_all add: dir_of_def load_history_def)

text \<open>Every directory a crash can leave inside an append loads to the old history or to the extended one.\<close>

lemma append_point_loads:
  assumes l: "load_history E W P stored project task_id = Inr h"
    and t: "normalize_text E task_id = Some task" and n: "length h + 1 < 10 ^ 8"
    and fit: "fits E project task (length h + 1) (if h = [] then None else Some (last (contents (dir_of stored)))) h raw event"
    and rb: "loads_back E W event"
    and point: "append_point temp (event_file (length h + 1)) raw (dir_of stored) d" and temp: "is_temp temp"
  shows "load_history E W P (Some d) project task_id = Inr h
    \<or> load_history E W P (Some d) project task_id = Inr (h @ [event])"
  using point
proof cases
  case not_begun
  then show ?thesis using l by (simp add: load_history_dir_of)
next
  case (writing k)
  then show ?thesis using l load_history_temp[OF temp] by (simp add: load_history_dir_of)
next
  case linked
  let ?s = "Some (add_file temp raw (dir_of stored))"
  have l': "load_history E W P ?s project task_id = Inr h" using l load_history_temp[OF temp] by (simp add: load_history_dir_of)
  have c: "contents (dir_of ?s) = contents (dir_of stored)" using temp by (simp add: dir_of_def)
  have "load_history E W P (Some (add_file (event_file (length h + 1)) raw (dir_of ?s))) project task_id = Inr (h @ [event])"
    by (rule load_history_extended(1)[OF l' t n _ rb]) (unfold c, rule fit)
  then show ?thesis using linked by (simp add: dir_of_def)
next
  case published
  then show ?thesis using load_history_extended(1)[OF l t n fit rb] by simp
qed

text \<open>A loaded history starts with the initial stage and follows the transition table.\<close>

lemma load_history_path:
  assumes "load_history E W P stored project task_id = Inr h" and "i < length h"
  shows "we_sequence (h ! i) = int i + 1" and "expected_stage (take i h) = Some (we_stage (h ! i))"
    and "we_project_id (h ! i) = project" and "validate_workflow_event E (h ! i) = Some (h ! i)"
    and "i = 0 \<Longrightarrow> we_parent_digest (h ! i) = None"
    and "0 < i \<Longrightarrow> \<exists>b. event_bytes E (h ! (i - 1)) = Some b \<and> we_parent_digest (h ! i) = Some (sha256 E b)"
proof -
  let ?raws = "contents (dir_of stored)"
  from assms(1) obtain task where
    "load_events E W project task 1 None [] ?raws = Inr h" by (auto simp: load_history_Inr)
  from load_events_fits[OF this] have f: "\<And>k. k < length h \<Longrightarrow>
      fits E project task (1 + k) (if k = 0 then None else Some (?raws ! (k - 1))) (take k h) (?raws ! k) (h ! k)"
    by auto
  note g = f[OF assms(2), unfolded fits_def]
  from g show "we_sequence (h ! i) = int i + 1" "expected_stage (take i h) = Some (we_stage (h ! i))"
    "we_project_id (h ! i) = project" "validate_workflow_event E (h ! i) = Some (h ! i)"
    "i = 0 \<Longrightarrow> we_parent_digest (h ! i) = None" by auto
  assume i: "0 < i"
  then have "event_bytes E (h ! (i - 1)) = Some (?raws ! (i - 1))" using f[of "i - 1"] assms(2) by (simp add: fits_def)
  then show "\<exists>b. event_bytes E (h ! (i - 1)) = Some b \<and> we_parent_digest (h ! i) = Some (sha256 E b)"
    using g i by auto
qed

end
