(* ===== verification/Path_Patterns.thy ===== *)
theory Path_Patterns
  imports PyText
begin

text \<open>
  The segment-aware matcher of \<open>milestone_runner/scope.py\<close>. \<open>fnmatch.fnmatchcase\<close> is the standard
  library's (Python 3.11): a pattern is read into parts, a bracket expression into the tokens of the
  regular expression class that \<open>fnmatch.translate\<close> writes, empty ranges removed the way it removes
  them; the parts then match the whole name, an asterisk any number of characters. \<open>match_segments\<close> is the
  loop of \<open>_match_segments\<close> over the set of reachable positions.
\<close>

section \<open>\<open>fnmatch.fnmatchcase\<close>\<close>

datatype class_token = Member nat | Dash

datatype glob_part = Star | AnyOne | NoOne | Exactly nat | OneOf bool "class_token list"

text \<open>The text between the brackets and what follows the closing one, if there is a closing one.\<close>

definition bracket_content :: "pystr \<Rightarrow> (pystr \<times> pystr) option" where
  "bracket_content rest =
     (let m = (if take 1 rest = lit ''!'' then 1 else 0);
          n = (if take 1 (drop m rest) = lit '']'' then Suc m else m);
          body = takeWhile (\<lambda>c. c \<noteq> 93) (drop n rest);
          j = n + length body
      in if j \<ge> length rest then None else Some (take j rest, drop (Suc j) rest))"

definition find_hyphen :: "nat \<Rightarrow> pystr \<Rightarrow> nat option" where
  "find_hyphen k s =
     (let i = k + length (takeWhile (\<lambda>c. c \<noteq> 45) (drop k s))
      in if i < length s then Some i else None)"

function hyphen_chunks :: "nat \<Rightarrow> pystr \<Rightarrow> pystr list" where
  "hyphen_chunks k s =
     (case find_hyphen k s of
        None \<Rightarrow> [s]
      | Some i \<Rightarrow>
          if drop (Suc i) s = [] then [take i s @ [45]]
          else take i s # hyphen_chunks 2 (drop (Suc i) s))"
  by pat_completeness auto
termination
  by (relation "measure (\<lambda>(k, s). length s)")
    (auto simp: find_hyphen_def Let_def split: if_splits)

declare hyphen_chunks.simps [simp del]

fun merge_empty_ranges :: "pystr list \<Rightarrow> pystr list" where
  "merge_empty_ranges [] = []"
| "merge_empty_ranges (c # cs) =
     (case merge_empty_ranges cs of
        [] \<Rightarrow> [c]
      | d # ds \<Rightarrow> if last c > hd d then (butlast c @ tl d) # ds else c # d # ds)"

fun join_chunks :: "pystr list \<Rightarrow> class_token list" where
  "join_chunks [] = []"
| "join_chunks [c] = map Member c"
| "join_chunks (c # d # ds) = map Member c @ Dash # join_chunks (d # ds)"

definition class_tokens :: "pystr \<Rightarrow> class_token list" where
  "class_tokens stuff =
     (if 45 \<notin> set stuff then map Member stuff
      else join_chunks (merge_empty_ranges
             (hyphen_chunks (if take 1 stuff = lit ''!'' then 2 else 1) stuff)))"

definition class_part :: "pystr \<Rightarrow> glob_part" where
  "class_part stuff =
     (case class_tokens stuff of
        [] \<Rightarrow> NoOne
      | t # ts \<Rightarrow> if t = Member 33 then (if ts = [] then AnyOne else OneOf True ts) else OneOf False (t # ts))"

function glob_parts :: "pystr \<Rightarrow> glob_part list" where
  "glob_parts [] = []"
| "glob_parts (c # rest) =
     (if c = 42 then Star # glob_parts rest
      else if c = 63 then AnyOne # glob_parts rest
      else if c = 91 then
        (case bracket_content rest of
           None \<Rightarrow> Exactly 91 # glob_parts rest
         | Some (stuff, tail) \<Rightarrow> class_part stuff # glob_parts tail)
      else Exactly c # glob_parts rest)"
  by pat_completeness auto
termination
  by (relation "measure length") (auto simp: bracket_content_def Let_def split: if_splits)

text \<open>A class of a regular expression: single characters and ranges, read from the left.\<close>

fun token_char :: "class_token \<Rightarrow> nat" where
  "token_char (Member c) = c"
| "token_char Dash = 45"

fun in_class :: "nat \<Rightarrow> class_token list \<Rightarrow> bool" where
  "in_class c [] = False"
| "in_class c [a] = (c = token_char a)"
| "in_class c [a, b] = (c = token_char a \<or> c = token_char b)"
| "in_class c (a # b # d # ts) =
     (if b = Dash then token_char a \<le> c \<and> c \<le> token_char d \<or> in_class c ts
      else c = token_char a \<or> in_class c (b # d # ts))"

fun one_matches :: "glob_part \<Rightarrow> nat \<Rightarrow> bool" where
  "one_matches Star c = False"
| "one_matches AnyOne c = True"
| "one_matches NoOne c = False"
| "one_matches (Exactly d) c = (c = d)"
| "one_matches (OneOf negated ts) c = (in_class c ts \<noteq> negated)"

fun glob_match :: "glob_part list \<Rightarrow> pystr \<Rightarrow> bool" where
  "glob_match [] s = (s = [])"
| "glob_match (p # ps) [] = (p = Star \<and> glob_match ps [])"
| "glob_match (p # ps) (c # s) =
     (if p = Star then glob_match ps (c # s) \<or> glob_match (p # ps) s
      else one_matches p c \<and> glob_match ps s)"

definition fnmatchcase :: "pystr \<Rightarrow> pystr \<Rightarrow> bool" where
  "fnmatchcase name pattern = glob_match (glob_parts pattern) name"

section \<open>Matching segment by segment\<close>

definition RECURSIVE_SEGMENT :: pystr where "RECURSIVE_SEGMENT = lit ''**''"

fun match_from :: "pystr list \<Rightarrow> nat set \<Rightarrow> pystr list \<Rightarrow> bool" where
  "match_from segments reachable [] = (length segments \<in> reachable)"
| "match_from segments reachable (pattern_segment # pattern_segments) =
     (if pattern_segment = RECURSIVE_SEGMENT then
        match_from segments {Min reachable..<length segments + 1} pattern_segments
      else
        let advanced = Suc ` Set.filter (\<lambda>i. i < length segments
                               \<and> fnmatchcase (segments ! i) pattern_segment) reachable
        in if advanced = {} then False else match_from segments advanced pattern_segments)"

definition match_segments :: "pystr list \<Rightarrow> pystr list \<Rightarrow> bool" where
  "match_segments segments pattern_segments = match_from segments {0} pattern_segments"

fun any_pattern :: "pyenv \<Rightarrow> pystr list \<Rightarrow> pystr list \<Rightarrow> bool option" where
  "any_pattern E segments [] = Some False"
| "any_pattern E segments (p # ps) =
     Option.bind (normalize_repository_path E p) (\<lambda>pattern.
       if match_segments segments (split_on 47 pattern) then Some True
       else any_pattern E segments ps)"

definition path_matches :: "pyenv \<Rightarrow> pystr \<Rightarrow> pystr list \<Rightarrow> bool option" where
  "path_matches E path patterns =
     Option.bind (normalize_repository_path E path) (\<lambda>p. any_pattern E (split_on 47 p) patterns)"

section \<open>What the loop computes\<close>

text \<open>
  The declarative reading: the path is cut into consecutive groups of segments, one per segment of
  the pattern; a recursive segment takes any group, every other one exactly one segment.
\<close>

definition takes :: "pystr \<Rightarrow> pystr list \<Rightarrow> bool" where
  "takes pattern_segment part \<longleftrightarrow>
     pattern_segment = RECURSIVE_SEGMENT \<or> (\<exists>s. part = [s] \<and> fnmatchcase s pattern_segment)"

definition cut_matches :: "pystr list \<Rightarrow> pystr list \<Rightarrow> bool" where
  "cut_matches pattern_segments segments \<longleftrightarrow>
     (\<exists>groups. concat groups = segments \<and> list_all2 takes pattern_segments groups)"

lemma cut_matches_Nil [simp]: "cut_matches [] path \<longleftrightarrow> path = []"
  by (auto simp: cut_matches_def)

lemma cut_matches_recursive:
  "cut_matches (RECURSIVE_SEGMENT # ps) path \<longleftrightarrow> (\<exists>n \<le> length path. cut_matches ps (drop n path))"
proof
  assume "cut_matches (RECURSIVE_SEGMENT # ps) path"
  then obtain g gs where "path = g @ concat gs" "list_all2 takes ps gs"
    by (auto simp: cut_matches_def list_all2_Cons1)
  then have "length g \<le> length path" and "cut_matches ps (drop (length g) path)"
    by (auto simp: cut_matches_def)
  then show "\<exists>n \<le> length path. cut_matches ps (drop n path)" by blast
next
  assume "\<exists>n \<le> length path. cut_matches ps (drop n path)"
  then obtain n gs where "concat gs = drop n path" "list_all2 takes ps gs" by (auto simp: cut_matches_def)
  then have "concat (take n path # gs) = path" "list_all2 takes (RECURSIVE_SEGMENT # ps) (take n path # gs)"
    by (auto simp: takes_def)
  then show "cut_matches (RECURSIVE_SEGMENT # ps) path" unfolding cut_matches_def by blast
qed

lemma cut_matches_single:
  assumes "p \<noteq> RECURSIVE_SEGMENT"
  shows "cut_matches (p # ps) path \<longleftrightarrow> (\<exists>s rest. path = s # rest \<and> fnmatchcase s p \<and> cut_matches ps rest)"
proof
  assume "cut_matches (p # ps) path"
  then show "\<exists>s rest. path = s # rest \<and> fnmatchcase s p \<and> cut_matches ps rest"
    using assms by (force simp: cut_matches_def list_all2_Cons1 takes_def)
next
  assume "\<exists>s rest. path = s # rest \<and> fnmatchcase s p \<and> cut_matches ps rest"
  then obtain s gs where "path = s # concat gs" "fnmatchcase s p" "list_all2 takes ps gs"
    by (auto simp: cut_matches_def)
  then have "concat ([s] # gs) = path" "list_all2 takes (p # ps) ([s] # gs)" by (auto simp: takes_def)
  then show "cut_matches (p # ps) path" unfolding cut_matches_def by blast
qed

lemma drop_hd: "i < length xs \<Longrightarrow> drop i xs = xs ! i # drop (Suc i) xs"
  by (rule Cons_nth_drop_Suc[symmetric])

lemma match_from_cut:
  "R \<noteq> {} \<Longrightarrow> R \<subseteq> {..length path} \<Longrightarrow>
     match_from path R ps \<longleftrightarrow> (\<exists>i \<in> R. cut_matches ps (drop i path))"
proof (induction ps arbitrary: R)
  case Nil
  then show ?case by (auto dest: subsetD)
next
  case (Cons p ps)
  have fin: "finite R" using Cons.prems(2) by (rule finite_subset) simp
  show ?case
  proof (cases "p = RECURSIVE_SEGMENT")
    case True
    let ?m = "Min R"
    have m: "?m \<in> R" "\<And>i. i \<in> R \<Longrightarrow> ?m \<le> i" using fin Cons.prems(1) by auto
    then have "?m \<le> length path" using Cons.prems(2) by auto
    then have "match_from path R (p # ps) \<longleftrightarrow> (\<exists>i \<in> {?m..<length path + 1}. cut_matches ps (drop i path))"
      using True by (simp add: Cons.IH subset_eq)
    also have "\<dots> \<longleftrightarrow> (\<exists>i \<in> R. \<exists>n \<le> length (drop i path). cut_matches ps (drop n (drop i path)))"
    proof
      assume "\<exists>i \<in> {?m..<length path + 1}. cut_matches ps (drop i path)"
      then obtain i where "?m \<le> i" "i \<le> length path" "cut_matches ps (drop i path)" by auto
      then have "i - ?m \<le> length (drop ?m path)" "cut_matches ps (drop (i - ?m) (drop ?m path))" by auto
      with m(1) show "\<exists>i \<in> R. \<exists>n \<le> length (drop i path). cut_matches ps (drop n (drop i path))" by blast
    next
      assume "\<exists>i \<in> R. \<exists>n \<le> length (drop i path). cut_matches ps (drop n (drop i path))"
      then obtain i n where i: "i \<in> R" "n \<le> length path - i" "cut_matches ps (drop (n + i) path)" by auto
      with m(2) Cons.prems(2) have "n + i \<in> {?m..<length path + 1}" by (fastforce dest: subsetD)
      with i(3) show "\<exists>i \<in> {?m..<length path + 1}. cut_matches ps (drop i path)" by blast
    qed
    finally show ?thesis using True by (simp add: cut_matches_recursive)
  next
    case False
    let ?A = "Suc ` Set.filter (\<lambda>i. i < length path \<and> fnmatchcase (path ! i) p) R"
    have "match_from path R (p # ps) \<longleftrightarrow> ?A \<noteq> {} \<and> match_from path ?A ps"
      using False by (simp add: Let_def)
    also have "\<dots> \<longleftrightarrow> (\<exists>i \<in> ?A. cut_matches ps (drop i path))"
    proof (cases "?A = {}")
      case False
      moreover have "?A \<subseteq> {..length path}" by auto
      ultimately show ?thesis using Cons.IH[of ?A] by simp
    qed auto
    also have "\<dots> \<longleftrightarrow> (\<exists>i \<in> R. i < length path \<and> fnmatchcase (path ! i) p \<and> cut_matches ps (drop (Suc i) path))"
      by auto
    also have "\<dots> \<longleftrightarrow> (\<exists>i \<in> R. cut_matches (p # ps) (drop i path))"
    proof (rule bex_cong[OF refl])
      fix i
      assume "i \<in> R"
      show "i < length path \<and> fnmatchcase (path ! i) p \<and> cut_matches ps (drop (Suc i) path)
        \<longleftrightarrow> cut_matches (p # ps) (drop i path)"
        using False by (cases "i < length path") (auto simp: cut_matches_single drop_hd)
    qed
    finally show ?thesis .
  qed
qed

lemma match_segments_cut: "match_segments path ps \<longleftrightarrow> cut_matches ps path"
  unfolding match_segments_def by (subst match_from_cut) auto

text \<open>Without a recursive segment the pattern names paths of its own length, segment for segment.\<close>

lemma cut_matches_plain:
  "RECURSIVE_SEGMENT \<notin> set ps \<Longrightarrow>
     cut_matches ps path \<longleftrightarrow> list_all2 (\<lambda>p s. fnmatchcase s p) ps path"
proof (induction ps arbitrary: path)
  case (Cons p ps)
  then have p: "p \<noteq> RECURSIVE_SEGMENT" and IH: "\<And>path. cut_matches ps path \<longleftrightarrow> list_all2 (\<lambda>p s. fnmatchcase s p) ps path"
    by auto
  show ?case unfolding cut_matches_single[OF p] by (cases path) (simp_all add: IH)
qed auto

end
