(* ===== verification/Scope_Guard.thy ===== *)
theory Scope_Guard
  imports Path_Patterns Runner_Config
begin

text \<open>
  \<open>MilestoneSpec\<close> of \<open>milestone_runner/models.py\<close> and the scope guard of \<open>milestone_runner/scope.py\<close>: the
  three checks of a changed-path set, forbidden first, then the cumulative allowlist, then the active
  milestone's own files. \<open>None\<close> is the \<open>ValueError\<close> of a path or pattern that does not normalise.
\<close>

section \<open>Milestones\<close>

definition PLAN_SCHEMA_VERSION :: int where "PLAN_SCHEMA_VERSION = 1"

record focused_verification =
  fv_command :: "pystr list"
  fv_purpose :: "pystr option"

definition validate_focused :: "pyenv \<Rightarrow> focused_verification \<Rightarrow> bool" where
  "validate_focused E f \<longleftrightarrow>
     fv_command f \<noteq> [] \<and> list_all (scalar_field E MAX_ARGUMENT_CHARS) (fv_command f)
     \<and> pred_option (text_field E MAX_TEXT_CHARS) (fv_purpose f)"

record milestone_spec =
  ms_schema_version :: int
  ms_milestone_id :: pystr
  ms_title :: pystr
  ms_objective :: pystr
  ms_depends_on :: "pystr list"
  ms_contract_sections :: "pystr list"
  ms_allowed_files :: "pystr list"
  ms_forbidden_files :: "pystr list"
  ms_required_symbols :: "pystr list"
  ms_explicit_exclusions :: "pystr list"
  ms_acceptance_criteria :: "pystr list"
  ms_focused_verification :: "focused_verification list"
  ms_completion_evidence :: "pystr list"
  ms_additive_reuse_justification :: "pystr option"
  ms_human_owner_scope_ruling :: "pystr option"

definition validate_milestone :: "pyenv \<Rightarrow> milestone_spec \<Rightarrow> milestone_spec option" where
  "validate_milestone E m =
     refuse_if (ms_schema_version m \<noteq> PLAN_SCHEMA_VERSION)
     (refuse_if (\<not> identifier_field E milestone_id_grammar (ms_milestone_id m))
     (refuse_if (\<not> list_all (identifier_field E milestone_id_grammar) (ms_depends_on m))
     (refuse_if (\<not> unique (ms_depends_on m))
     (refuse_if (\<not> scalar_field E MAX_TITLE_CHARS (ms_title m))
     (refuse_if (\<not> text_field E MAX_TEXT_CHARS (ms_objective m))
     (refuse_if (\<not> list_all (list_all (text_field E MAX_TEXT_CHARS))
                   [ms_contract_sections m, ms_explicit_exclusions m, ms_acceptance_criteria m,
                    ms_completion_evidence m, ms_forbidden_files m, ms_required_symbols m])
     (refuse_if (\<not> list_all (scalar_field E MAX_PATH_CHARS) (ms_allowed_files m))
     (refuse_if (\<not> unique (ms_allowed_files m))
     (refuse_if (\<not> list_all (validate_focused E) (ms_focused_verification m))
     (refuse_if (\<not> pred_option (text_field E MAX_TEXT_CHARS) (ms_additive_reuse_justification m))
     (refuse_if (\<not> pred_option (text_field E MAX_TEXT_CHARS) (ms_human_owner_scope_ruling m))
     (refuse_if (ms_milestone_id m \<in> set (ms_depends_on m))
     (Some m)))))))))))))"

lemma validate_milestone_facts:
  assumes "validate_milestone E m = Some n"
  shows "n = m" and "distinct (ms_depends_on m)" and "ms_milestone_id m \<notin> set (ms_depends_on m)"
    and "distinct (ms_allowed_files m)"
  using assms by (auto simp: validate_milestone_def)

section \<open>Decisions\<close>

datatype scope_check = FORBIDDEN_PATH | CUMULATIVE_ALLOWLIST | MILESTONE_SCOPE

record scope_violation =
  sv_path :: pystr
  sv_check :: scope_check
  sv_stop_reason :: "stop_reason option"
  sv_detail :: pystr

definition validate_violation :: "pyenv \<Rightarrow> scope_violation \<Rightarrow> scope_violation option" where
  "validate_violation E v = map_option (\<lambda>p. v\<lparr>sv_path := p\<rparr>) (normalize_repository_path E (sv_path v))"

record scope_decision =
  sd_changed_paths :: "pystr list"
  sd_violations :: "scope_violation list"

definition permitted :: "scope_decision \<Rightarrow> bool" where
  "permitted d \<longleftrightarrow> sd_violations d = []"

fun collect_stop_reasons :: "stop_reason list \<Rightarrow> scope_violation list \<Rightarrow> stop_reason list" where
  "collect_stop_reasons seen [] = seen"
| "collect_stop_reasons seen (v # vs) =
     (case sv_stop_reason v of
        Some r \<Rightarrow> if r \<notin> set seen then collect_stop_reasons (seen @ [r]) vs else collect_stop_reasons seen vs
      | None \<Rightarrow> collect_stop_reasons seen vs)"

definition stop_reasons :: "scope_decision \<Rightarrow> stop_reason list" where
  "stop_reasons d = collect_stop_reasons [] (sd_violations d)"

record scope_guard =
  sc_allowed_paths :: "pystr list"
  sc_forbidden_paths :: "pystr list"

definition from_config :: "runner_config \<Rightarrow> scope_guard" where
  "from_config config =
     \<lparr>sc_allowed_paths = al_allowed_paths (cfg_allowlist config),
      sc_forbidden_paths = al_forbidden_paths (cfg_allowlist config)\<rparr>"

definition is_forbidden :: "pyenv \<Rightarrow> scope_guard \<Rightarrow> pystr \<Rightarrow> bool option" where
  "is_forbidden E g path = path_matches E path (sc_forbidden_paths g)"

definition is_allowed :: "pyenv \<Rightarrow> scope_guard \<Rightarrow> pystr \<Rightarrow> bool option" where
  "is_allowed E g path = path_matches E path (sc_allowed_paths g)"

definition forbidden_detail :: pystr where
  "forbidden_detail = lit (''the path matches allowlist.forbidden_paths, which is decided before ''
     @ ''and independently of any allowlist entry'')"

definition allowlist_detail :: pystr where
  "allowlist_detail = lit (''the path is outside allowlist.allowed_paths, the authorized stage ''
     @ ''contract's implementation surface'')"

definition milestone_detail :: "pystr \<Rightarrow> pystr" where
  "milestone_detail milestone_id = lit ''the path is inside the cumulative allowlist but outside ''
     @ milestone_id @ 39 # lit ''s own allowed_files''"

text \<open>One turn of the loop of \<open>evaluate\<close>: the violations that a changed path adds, at most one.\<close>

definition evaluate_path ::
  "pyenv \<Rightarrow> scope_guard \<Rightarrow> milestone_spec option \<Rightarrow> pystr set option \<Rightarrow> pystr \<Rightarrow> scope_violation list option" where
  "evaluate_path E g milestone owned path =
     Option.bind (is_forbidden E g path) (\<lambda>forbidden.
     if forbidden then
       map_option (\<lambda>v. [v]) (validate_violation E
         \<lparr>sv_path = path, sv_check = FORBIDDEN_PATH, sv_stop_reason = None, sv_detail = forbidden_detail\<rparr>)
     else
       Option.bind (is_allowed E g path) (\<lambda>allowed.
       if \<not> allowed then
         map_option (\<lambda>v. [v]) (validate_violation E
           \<lparr>sv_path = path, sv_check = CUMULATIVE_ALLOWLIST, sv_stop_reason = None,
            sv_detail = allowlist_detail\<rparr>)
       else
         (case milestone of
            None \<Rightarrow> Some []
          | Some m \<Rightarrow>
              if (case owned of None \<Rightarrow> False | Some paths \<Rightarrow> path \<notin> paths) then Some []
              else
                Option.bind (path_matches E path (ms_allowed_files m)) (\<lambda>inside.
                if inside then Some []
                else map_option (\<lambda>v. [v]) (validate_violation E
                       \<lparr>sv_path = path, sv_check = MILESTONE_SCOPE,
                        sv_stop_reason = Some OUT_OF_MILESTONE_SCOPE,
                        sv_detail = milestone_detail (ms_milestone_id m)\<rparr>)))))"

definition evaluate ::
  "pyenv \<Rightarrow> scope_guard \<Rightarrow> pystr list \<Rightarrow> milestone_spec option \<Rightarrow> pystr list option \<Rightarrow> scope_decision option" where
  "evaluate E g changed_paths milestone milestone_owned_paths =
     Option.bind (map_opt (normalize_repository_path E) changed_paths) (\<lambda>normalized.
     Option.bind (case milestone_owned_paths of
                    None \<Rightarrow> Some None
                  | Some paths \<Rightarrow> map_option (\<lambda>ps. Some (set ps)) (map_opt (normalize_repository_path E) paths))
       (\<lambda>owned.
     Option.bind (map_opt (evaluate_path E g milestone owned) normalized) (\<lambda>violations.
     Some \<lparr>sd_changed_paths = normalized, sd_violations = concat violations\<rparr>)))"

section \<open>What a decision says\<close>

text \<open>The check a path fails, as a function of what the three pattern sets answer.\<close>

definition failed_check ::
  "pyenv \<Rightarrow> scope_guard \<Rightarrow> milestone_spec option \<Rightarrow> pystr set option \<Rightarrow> pystr \<Rightarrow> scope_check option" where
  "failed_check E g milestone owned path =
     (if is_forbidden E g path = Some True then Some FORBIDDEN_PATH
      else if is_allowed E g path = Some False then Some CUMULATIVE_ALLOWLIST
      else (case milestone of
              None \<Rightarrow> None
            | Some m \<Rightarrow>
                if pred_option (\<lambda>paths. path \<in> paths) owned \<and> path_matches E path (ms_allowed_files m) = Some False
                then Some MILESTONE_SCOPE else None))"

lemma validate_violation_check:
  "validate_violation E v = Some w \<Longrightarrow> sv_check w = sv_check v \<and> sv_stop_reason w = sv_stop_reason v"
  by (auto simp: validate_violation_def)

lemma evaluate_path_check:
  assumes "evaluate_path E g milestone owned path = Some vs"
  shows "map sv_check vs = (case failed_check E g milestone owned path of None \<Rightarrow> [] | Some c \<Rightarrow> [c])"
    and "\<forall>v \<in> set vs. sv_stop_reason v = (if sv_check v = MILESTONE_SCOPE then Some OUT_OF_MILESTONE_SCOPE else None)"
  using assms
  by (auto simp: evaluate_path_def failed_check_def validate_violation_def
      split: if_splits option.splits)

lemma map_opt_concat_map:
  "map_opt f xs = Some ys \<Longrightarrow> (\<And>x y. x \<in> set xs \<Longrightarrow> f x = Some y \<Longrightarrow> map h y = k x) \<Longrightarrow>
     map h (concat ys) = concat (map k xs)"
proof (induction xs arbitrary: ys)
  case (Cons x xs)
  from Cons.prems(1) obtain y zs where y: "f x = Some y" "map_opt f xs = Some zs" "ys = y # zs"
    by (auto split: option.splits)
  have "map h y = k x" using Cons.prems(2) y(1) by simp
  moreover have "map h (concat zs) = concat (map k xs)" using Cons.IH[OF y(2)] Cons.prems(2) by simp
  ultimately show ?case using y(3) by simp
qed simp

definition owned_set :: "pyenv \<Rightarrow> pystr list option \<Rightarrow> pystr set option" where
  "owned_set E paths = map_option (\<lambda>ps. set (the (map_opt (normalize_repository_path E) ps))) paths"

lemma evaluate_parts:
  assumes "evaluate E g changed milestone owned = Some d"
  obtains violations where "map_opt (normalize_repository_path E) changed = Some (sd_changed_paths d)"
    and "map_opt (evaluate_path E g milestone (owned_set E owned)) (sd_changed_paths d) = Some violations"
    and "sd_violations d = concat violations"
  using assms by (auto simp: evaluate_def owned_set_def split: option.splits)

lemma evaluate_checks:
  assumes "evaluate E g changed milestone owned = Some d"
  shows "map sv_check (sd_violations d)
    = concat (map (\<lambda>p. case failed_check E g milestone (owned_set E owned) p of None \<Rightarrow> [] | Some c \<Rightarrow> [c])
        (sd_changed_paths d))"
proof (rule evaluate_parts[OF assms])
  fix violations
  assume v: "map_opt (evaluate_path E g milestone (owned_set E owned)) (sd_changed_paths d) = Some violations"
    and d: "sd_violations d = concat violations"
  show ?thesis
    unfolding d by (rule map_opt_concat_map[OF v]) (rule evaluate_path_check(1))
qed

lemma evaluate_stop_reasons:
  assumes "evaluate E g changed milestone owned = Some d" and "v \<in> set (sd_violations d)"
  shows "sv_stop_reason v = (if sv_check v = MILESTONE_SCOPE then Some OUT_OF_MILESTONE_SCOPE else None)"
proof (rule evaluate_parts[OF assms(1)])
  fix violations
  assume m: "map_opt (evaluate_path E g milestone (owned_set E owned)) (sd_changed_paths d) = Some violations"
    and "sd_violations d = concat violations"
  then obtain vs where "vs \<in> set violations" "v \<in> set vs" using assms(2) by auto
  moreover from map_opt_set[OF m this(1)] obtain p where "evaluate_path E g milestone (owned_set E owned) p = Some vs"
    by blast
  ultimately show ?thesis using evaluate_path_check(2) by blast
qed

lemma permitted_iff:
  assumes "evaluate E g changed milestone owned = Some d"
  shows "permitted d \<longleftrightarrow> (\<forall>p \<in> set (sd_changed_paths d). failed_check E g milestone (owned_set E owned) p = None)"
proof -
  have "permitted d \<longleftrightarrow> map sv_check (sd_violations d) = []" by (simp add: permitted_def)
  also have "\<dots> \<longleftrightarrow> (\<forall>p \<in> set (sd_changed_paths d). failed_check E g milestone (owned_set E owned) p = None)"
    unfolding evaluate_checks[OF assms] by (auto split: option.splits)
  finally show ?thesis .
qed

text \<open>A decision that exists has an answer for every pattern set it consulted.\<close>

lemma evaluate_path_answers:
  assumes "evaluate_path E g milestone owned path = Some vs"
  shows "failed_check E g milestone owned path = None \<longleftrightarrow>
    is_forbidden E g path = Some False \<and> is_allowed E g path = Some True
    \<and> pred_option (\<lambda>m. pred_option (\<lambda>paths. path \<in> paths) owned \<longrightarrow> path_matches E path (ms_allowed_files m) = Some True)
        milestone"
  using assms
  by (auto simp: evaluate_path_def failed_check_def split: if_splits option.splits)

lemma permitted_answers:
  assumes "evaluate E g changed milestone owned = Some d"
  shows "permitted d \<longleftrightarrow> (\<forall>p \<in> set (sd_changed_paths d).
    is_forbidden E g p = Some False \<and> is_allowed E g p = Some True
    \<and> pred_option (\<lambda>m. pred_option (\<lambda>paths. p \<in> paths) (owned_set E owned)
          \<longrightarrow> path_matches E p (ms_allowed_files m) = Some True) milestone)"
proof (rule evaluate_parts[OF assms])
  fix violations
  assume v: "map_opt (evaluate_path E g milestone (owned_set E owned)) (sd_changed_paths d) = Some violations"
  have "\<exists>vs. evaluate_path E g milestone (owned_set E owned) p = Some vs" if "p \<in> set (sd_changed_paths d)" for p
    using v that unfolding map_opt_Some by (metis image_eqI image_iff list.set_map)
  then show ?thesis unfolding permitted_iff[OF assms] using evaluate_path_answers by blast
qed

text \<open>The stop reasons of a decision.\<close>

lemma collect_stop_reasons_uniform:
  "\<forall>v \<in> set vs. sv_stop_reason v = None \<or> sv_stop_reason v = Some r \<Longrightarrow> set seen \<subseteq> {r} \<Longrightarrow> length seen \<le> 1 \<Longrightarrow>
     collect_stop_reasons seen vs = (if seen \<noteq> [] \<or> (\<exists>v \<in> set vs. sv_stop_reason v = Some r) then [r] else [])"
  by (induction vs arbitrary: seen) (auto split: option.splits simp: le_Suc_eq length_Suc_conv)

lemma evaluate_stops:
  assumes "evaluate E g changed milestone owned = Some d"
  shows "stop_reasons d = (if MILESTONE_SCOPE \<in> set (map sv_check (sd_violations d)) then [OUT_OF_MILESTONE_SCOPE] else [])"
proof -
  note s = evaluate_stop_reasons[OF assms]
  have "\<forall>v \<in> set (sd_violations d). sv_stop_reason v = None \<or> sv_stop_reason v = Some OUT_OF_MILESTONE_SCOPE"
    using s by auto
  from collect_stop_reasons_uniform[OF this, of "[]"]
  have "collect_stop_reasons [] (sd_violations d) =
      (if \<exists>v \<in> set (sd_violations d). sv_stop_reason v = Some OUT_OF_MILESTONE_SCOPE then [OUT_OF_MILESTONE_SCOPE] else [])"
    by simp
  moreover have "(\<exists>v \<in> set (sd_violations d). sv_stop_reason v = Some OUT_OF_MILESTONE_SCOPE)
      \<longleftrightarrow> MILESTONE_SCOPE \<in> set (map sv_check (sd_violations d))"
    using s by (force split: if_splits)
  ultimately show ?thesis by (simp add: stop_reasons_def)
qed

end
