(* ===== verification/Milestone_Plan.thy ===== *)
theory Milestone_Plan
  imports Scope_Guard
begin

text \<open>
  Plan loading of \<open>milestone_runner/plan.py\<close>: where a plan may come from, reading one milestone file, the
  dependency order with the cycle it names, and the coverage reconciliation. \<open>plan_fs\<close> holds what the
  operating system answers (\<open>realpath\<close>, \<open>is_symlink\<close>, \<open>is_file\<close>, \<open>listdir\<close>, file contents, the home
  directory) and the reading of a YAML document into a typed milestone (\<open>Inr None\<close> for a document that is
  none); a path is its text.
\<close>

record plan_fs =
  pl_home :: pystr
  pl_realpath :: "pystr \<Rightarrow> pystr"
  pl_relpath :: "pystr \<Rightarrow> pystr \<Rightarrow> pystr"
  pl_symlink :: "pystr \<Rightarrow> bool"
  pl_file :: "pystr \<Rightarrow> bool"
  pl_listdir :: "pystr \<Rightarrow> pystr list option"
  pl_bytes :: "pystr \<Rightarrow> bytes option"
  pl_document :: "bytes \<Rightarrow> yaml_error + milestone_spec option"

definition ARTIFACT_ROOT_DIRECTORY :: pystr where "ARTIFACT_ROOT_DIRECTORY = lit ''.ai-workflow-engine''"
definition MILESTONE_RUNS_DIRECTORY :: pystr where "MILESTONE_RUNS_DIRECTORY = lit ''milestone-runs''"
definition PLANS_DIRECTORY :: pystr where "PLANS_DIRECTORY = lit ''plans''"
definition MAX_PLAN_BYTES :: nat where "MAX_PLAN_BYTES = 2 ^ 20"
definition MAX_PLAN_FILES :: nat where "MAX_PLAN_FILES = 64"

text \<open>
  The exceptions. \<open>PlanValueError\<close> is the \<open>ValueError\<close> of \<open>normalize_repository_path\<close> and \<open>PlanLoaderException\<close>
  an exception of the YAML loader that is no \<open>yaml.YAMLError\<close>, which no clause of the loader turns into a
  \<open>PlanError\<close>.
\<close>

datatype plan_error =
    PlanValidationError
  | PlanStageMismatch
  | PlanDependencyCycle "pystr list"
  | PlanCoverageMismatch "pystr list" "pystr list"
  | PlanPathNotAllowlisted
  | PlanValueError
  | PlanLoaderException

fun plan_stop_reason :: "plan_error \<Rightarrow> stop_reason option" where
  "plan_stop_reason PlanStageMismatch = Some INVALID_CONFIGURATION"
| "plan_stop_reason (PlanCoverageMismatch missing unexpected) = Some PLAN_COVERAGE_MISMATCH"
| "plan_stop_reason PlanPathNotAllowlisted = Some PLAN_PATH_NOT_ALLOWLISTED"
| "plan_stop_reason PlanValidationError = None"
| "plan_stop_reason (PlanDependencyCycle cycle) = None"
| "plan_stop_reason PlanValueError = None"
| "plan_stop_reason PlanLoaderException = None"

record plan_root =
  pt_path :: pystr
  pt_is_repository_local :: bool

record milestone_plan =
  mp_milestones :: "milestone_spec list"
  mp_source_paths :: "pystr list"

definition milestone_ids :: "milestone_plan \<Rightarrow> pystr list" where
  "milestone_ids plan = map ms_milestone_id (mp_milestones plan)"

definition covered_paths :: "pyenv \<Rightarrow> milestone_plan \<Rightarrow> plan_error + pystr list" where
  "covered_paths E plan =
     (case map_opt (normalize_repository_path E) (concat (map ms_allowed_files (mp_milestones plan))) of
        None \<Rightarrow> Inl PlanValueError
      | Some paths \<Rightarrow> Inr (sort (remdups paths)))"

section \<open>Where a plan may come from\<close>

text \<open>\<open>pathlib\<close>: the text of a path, and \<open>/\<close>.\<close>

definition path_anchor :: "pystr \<Rightarrow> pystr" where
  "path_anchor v =
     (if take 2 v = lit ''//'' \<and> take 3 v \<noteq> lit ''///'' then lit ''//''
      else if take 1 v = lit ''/'' then lit ''/'' else [])"

definition path_text :: "pystr \<Rightarrow> pystr" where
  "path_text v =
     (let t = path_anchor v @ join_on 47 (path_segments v) in if t = [] then lit ''.'' else t)"

definition slash :: "pystr \<Rightarrow> pystr \<Rightarrow> pystr" where
  "slash a b =
     (if take 1 b = lit ''/'' then path_text b
      else path_text (if a \<noteq> [] \<and> last a = 47 then a @ b else a @ 47 # b))"

definition repository_scoped_root :: "plan_fs \<Rightarrow> pystr \<Rightarrow> plan_error + pystr" where
  "repository_scoped_root fs repository_identity =
     raise_if (repository_identity = [] \<or> 47 \<in> set repository_identity \<or> take 1 repository_identity = lit ''.'')
       PlanValidationError
     (Inr (slash (slash (slash (pl_home fs) ARTIFACT_ROOT_DIRECTORY) MILESTONE_RUNS_DIRECTORY) repository_identity))"

definition default_plan_root :: "plan_fs \<Rightarrow> pystr \<Rightarrow> plan_error + pystr" where
  "default_plan_root fs repository_identity =
     rbind (repository_scoped_root fs repository_identity) (\<lambda>root. Inr (slash root PLANS_DIRECTORY))"

definition within :: "pystr \<Rightarrow> pystr \<Rightarrow> bool" where
  "within directory p \<longleftrightarrow> p = directory \<or> take (length directory + 1) p = directory @ [47]"

definition reject_repository_containment :: "plan_fs \<Rightarrow> pystr \<Rightarrow> pystr \<Rightarrow> plan_error + unit" where
  "reject_repository_containment fs root repository_root =
     raise_if (within (pl_realpath fs repository_root) (pl_realpath fs root)) PlanValidationError (Inr ())"

text \<open>
  The walk from the root down; \<open>current\<close> is the path reached so far. The configured repository root and
  the home directory are absolute, so every path that gets here is.
\<close>

fun linked_component :: "plan_fs \<Rightarrow> pystr \<Rightarrow> pystr list \<Rightarrow> bool" where
  "linked_component fs current [] = False"
| "linked_component fs current (part # parts) =
     (pl_symlink fs (slash current part) \<or> linked_component fs (slash current part) parts)"

definition reject_symlink_components :: "plan_fs \<Rightarrow> pystr \<Rightarrow> plan_error + unit" where
  "reject_symlink_components fs path =
     raise_if (linked_component fs (path_anchor path) (path_segments path)) PlanValidationError (Inr ())"

definition is_verbatim_path :: "pystr \<Rightarrow> bool" where
  "is_verbatim_path entry \<longleftrightarrow> set (lit ''*?[]'') \<inter> set entry = {}"

definition resolve_plan_root :: "plan_fs \<Rightarrow> runner_config \<Rightarrow> pystr \<Rightarrow> plan_error + plan_root" where
  "resolve_plan_root fs config repository_root =
     (let identity = rg_identity (cfg_repository config) in
      rbind (repository_scoped_root fs identity) (\<lambda>scoped_root.
      case sg_plan_directory (cfg_stage config) of
        None \<Rightarrow>
          rbind (default_plan_root fs identity) (\<lambda>root.
          rbind (reject_repository_containment fs root repository_root) (\<lambda>_.
          rbind (reject_symlink_components fs root) (\<lambda>_.
          Inr \<lparr>pt_path = root, pt_is_repository_local = False\<rparr>)))
      | Some configured \<Rightarrow>
          (let real_repository = pl_realpath fs repository_root;
               candidate = slash repository_root configured;
               real_candidate = pl_realpath fs candidate in
           if within real_repository real_candidate then
             rbind (reject_symlink_components fs candidate) (\<lambda>_.
             Inr \<lparr>pt_path = candidate, pt_is_repository_local = True\<rparr>)
           else
             raise_if (\<not> within (pl_realpath fs scoped_root) real_candidate) PlanValidationError
             (rbind (reject_repository_containment fs candidate repository_root) (\<lambda>_.
              rbind (reject_symlink_components fs candidate) (\<lambda>_.
              Inr \<lparr>pt_path = candidate, pt_is_repository_local = False\<rparr>))))))"

section \<open>The plan files\<close>

definition legacy_milestone_id :: "pystr \<Rightarrow> bool" where
  "legacy_milestone_id v \<longleftrightarrow> has_shape (lit ''AUTO-000-M00'') v"

text \<open>The milestone that a plan file's name names, \<open>None\<close> when the name is no plan file's.\<close>

definition plan_file_milestone :: "int \<Rightarrow> pystr \<Rightarrow> pystr option" where
  "plan_file_milestone version name =
     (let stem = take (length name - 5) name in
      if 5 \<le> length name \<and> drop (length name - 5) name = lit ''.yaml''
         \<and> (if version = 1 then legacy_milestone_id stem else milestone_id_grammar stem)
      then Some stem else None)"

definition external_plan_paths :: "plan_fs \<Rightarrow> int \<Rightarrow> pystr \<Rightarrow> plan_error + pystr list" where
  "external_plan_paths fs version root =
     rbind (from_option PlanValidationError (pl_listdir fs root)) (\<lambda>entries.
     (let selected = map (slash root) (filter (\<lambda>name. plan_file_milestone version name \<noteq> None) (sort entries)) in
      raise_if (list_ex (\<lambda>c. pl_symlink fs c \<or> \<not> pl_file fs c) selected) PlanValidationError
      (raise_if (selected = []) PlanValidationError
      (raise_if (length selected > MAX_PLAN_FILES) PlanValidationError
      (Inr selected)))))"

text \<open>\<open>entry.rpartition("/")\<close>: the part before the last separator and the part after it.\<close>

definition rpartition_slash :: "pystr \<Rightarrow> pystr \<times> pystr" where
  "rpartition_slash entry = (join_on 47 (butlast (split_on 47 entry)), last (split_on 47 entry))"

definition repository_relative_directory :: "pyenv \<Rightarrow> plan_fs \<Rightarrow> pystr \<Rightarrow> pystr \<Rightarrow> plan_error + pystr" where
  "repository_relative_directory E fs root repository_root =
     (let relative = pl_relpath fs root repository_root in
      if relative = lit ''.'' then Inr []
      else from_option PlanValueError (normalize_repository_path E relative))"

fun each_regular :: "plan_fs \<Rightarrow> pystr list \<Rightarrow> plan_error + unit" where
  "each_regular fs [] = Inr ()"
| "each_regular fs (c # cs) =
     rbind (reject_symlink_components fs c) (\<lambda>_.
     raise_if (\<not> pl_file fs c) PlanValidationError (each_regular fs cs))"

definition allowlisted_entries :: "int \<Rightarrow> pystr \<Rightarrow> pystr list \<Rightarrow> pystr list" where
  "allowlisted_entries version directory entries =
     filter (\<lambda>entry. is_verbatim_path entry \<and> fst (rpartition_slash entry) = directory
                      \<and> plan_file_milestone version (snd (rpartition_slash entry)) \<noteq> None) entries"

definition allowlisted_plan_paths ::
  "pyenv \<Rightarrow> plan_fs \<Rightarrow> runner_config \<Rightarrow> pystr \<Rightarrow> pystr \<Rightarrow> plan_error + pystr list" where
  "allowlisted_plan_paths E fs config repository_root root =
     rbind (repository_relative_directory E fs root repository_root) (\<lambda>directory.
     let selected = map (slash repository_root)
           (allowlisted_entries (cfg_schema_version config) directory (al_allowed_paths (cfg_allowlist config))) in
     raise_if (selected = []) PlanPathNotAllowlisted
     (rbind (each_regular fs selected) (\<lambda>_. Inr (sort selected))))"

definition plan_paths :: "pyenv \<Rightarrow> plan_fs \<Rightarrow> runner_config \<Rightarrow> pystr \<Rightarrow> plan_error + pystr list" where
  "plan_paths E fs config repository_root =
     rbind (resolve_plan_root fs config repository_root) (\<lambda>root.
     if pt_is_repository_local root then allowlisted_plan_paths E fs config repository_root (pt_path root)
     else external_plan_paths fs (cfg_schema_version config) (pt_path root))"

text \<open>\<open>path.name\<close> is the last segment; \<open>re.escape(stage_id) + r"-M[0-9]{2}"\<close> is the stage id and a suffix.\<close>

definition stage_milestone_id :: "pystr \<Rightarrow> pystr \<Rightarrow> bool" where
  "stage_milestone_id stage_id v \<longleftrightarrow>
     take (length stage_id) v = stage_id \<and> has_shape (lit ''-M00'') (drop (length stage_id) v)"

definition read_milestone :: "pyenv \<Rightarrow> plan_fs \<Rightarrow> runner_config \<Rightarrow> pystr \<Rightarrow> plan_error + milestone_spec" where
  "read_milestone E fs config path =
     rbind (from_option PlanValidationError (pl_bytes fs path)) (\<lambda>payload.
     raise_if (length payload > MAX_PLAN_BYTES) PlanValidationError
     (rbind (yaml_read PlanValidationError PlanLoaderException (pl_document fs payload)) (\<lambda>document.
      rbind (from_option PlanValidationError (Option.bind document (validate_milestone E))) (\<lambda>milestone.
      raise_if (list_ex (\<lambda>i. \<not> (if cfg_schema_version config = 1 then legacy_milestone_id i
                                 else stage_milestone_id (sg_stage_id (cfg_stage config)) i))
                  (ms_milestone_id milestone # ms_depends_on milestone))
        (if cfg_schema_version config = 2 then PlanStageMismatch else PlanValidationError)
      (raise_if (case plan_file_milestone (cfg_schema_version config) (last (split_on 47 path)) of
                   None \<Rightarrow> False | Some expected \<Rightarrow> expected \<noteq> ms_milestone_id milestone)
         PlanValidationError
      (Inr milestone))))))"

section \<open>The dependency order\<close>

type_synonym pending = "(pystr \<times> pystr set) list"

text \<open>
  The walk of \<open>_describe_cycle\<close>: \<open>path\<close> is what was passed so far (its elements are \<open>seen\<close>); the result is
  the path and where the walk stands. Every step adds a key to the path, so it ends.
\<close>

function cycle_walk :: "pending \<Rightarrow> pystr list \<Rightarrow> pystr \<Rightarrow> pystr list \<times> pystr" where
  "cycle_walk remaining path current =
     (if current \<in> set (map fst remaining) \<and> current \<notin> set path then
        (case sort (filter (\<lambda>k. k \<in> the (map_of remaining current)) (remdups (map fst remaining))) of
           [] \<Rightarrow> (path @ [current], current)
         | next_one # _ \<Rightarrow> cycle_walk remaining (path @ [current]) next_one)
      else (path, current))"
  by pat_completeness auto
termination
proof (relation "measure (\<lambda>(remaining, path, current). card (set (map fst remaining) - set path))")
  fix remaining :: pending and path :: "pystr list" and current c cs
  assume "current \<in> set (map fst remaining) \<and> current \<notin> set path"
  then have "set (map fst remaining) - set (path @ [current]) \<subset> set (map fst remaining) - set path" by auto
  then show "((remaining, path @ [current], c), remaining, path, current)
      \<in> measure (\<lambda>(remaining, path, current). card (set (map fst remaining) - set path))"
    by (simp add: psubset_card_mono)
qed simp

declare cycle_walk.simps [simp del]

fun first_cycle :: "pending \<Rightarrow> pystr list \<Rightarrow> pystr list option" where
  "first_cycle remaining [] = None"
| "first_cycle remaining (start # starts) =
     (case cycle_walk remaining [] start of
        (path, current) \<Rightarrow>
          if current \<in> set path then Some (dropWhile (\<lambda>k. k \<noteq> current) path @ [current])
          else first_cycle remaining starts)"

definition describe_cycle :: "pending \<Rightarrow> pystr list" where
  "describe_cycle remaining =
     (let starts = sort (map fst remaining) in
      case first_cycle remaining starts of Some cycle \<Rightarrow> cycle | None \<Rightarrow> starts)"

definition ready_ids :: "pending \<Rightarrow> pystr list" where
  "ready_ids remaining = sort (map fst (filter (\<lambda>(_, pending). pending = {}) remaining))"

definition without_ready :: "pystr list \<Rightarrow> pending \<Rightarrow> pending" where
  "without_ready ready remaining =
     map (\<lambda>(k, pending). (k, pending - set ready)) (filter (\<lambda>(k, _). k \<notin> set ready) remaining)"

lemma without_ready_shorter:
  assumes "ready_ids remaining \<noteq> []"
  shows "length (without_ready (ready_ids remaining) remaining) < length remaining"
proof -
  from assms have "hd (ready_ids remaining) \<in> set (ready_ids remaining)" by (rule hd_in_set)
  moreover have "set (ready_ids remaining) \<subseteq> set (map fst remaining)" by (auto simp: ready_ids_def)
  ultimately obtain k p where "(k, p) \<in> set remaining" "k \<in> set (ready_ids remaining)" by fastforce
  then have "\<exists>x \<in> set remaining. \<not> (case x of (k, _) \<Rightarrow> k \<notin> set (ready_ids remaining))" by auto
  then have "length (filter (\<lambda>(k, _). k \<notin> set (ready_ids remaining)) remaining) < length remaining"
    using length_filter_less by (metis (no_types, lifting))
  then show ?thesis by (simp add: without_ready_def)
qed

function order_rounds :: "pending \<Rightarrow> pystr list \<Rightarrow> plan_error + pystr list" where
  "order_rounds remaining ordered =
     (if remaining = [] then Inr ordered
      else let ready = ready_ids remaining in
        if ready = [] then Inl (PlanDependencyCycle (describe_cycle remaining))
        else order_rounds (without_ready ready remaining) (ordered @ ready))"
  by pat_completeness auto
termination
  by (relation "measure (\<lambda>(remaining, ordered). length remaining)") (auto simp: without_ready_shorter)

declare order_rounds.simps [simp del]

definition pending_of :: "milestone_spec list \<Rightarrow> pending" where
  "pending_of milestones = map (\<lambda>m. (ms_milestone_id m, set (ms_depends_on m))) milestones"

text \<open>\<open>by_id\<close> holds one milestone per id; the order is computed on the ids and read back through it.\<close>

definition dependency_order :: "milestone_spec list \<Rightarrow> plan_error + milestone_spec list" where
  "dependency_order milestones =
     rbind (order_rounds (pending_of milestones) []) (\<lambda>ids.
     Inr (map (\<lambda>i. the (map_of (map (\<lambda>m. (ms_milestone_id m, m)) milestones) i)) ids))"

section \<open>Loading\<close>

fun read_milestones :: "pyenv \<Rightarrow> plan_fs \<Rightarrow> runner_config \<Rightarrow> pystr list \<Rightarrow> plan_error + milestone_spec list" where
  "read_milestones E fs config [] = Inr []"
| "read_milestones E fs config (p # ps) =
     rbind (read_milestone E fs config p) (\<lambda>m.
     rbind (read_milestones E fs config ps) (\<lambda>ms. Inr (m # ms)))"

definition reconcile_coverage :: "pyenv \<Rightarrow> runner_config \<Rightarrow> milestone_plan \<Rightarrow> plan_error + unit" where
  "reconcile_coverage E config plan =
     rbind (covered_paths E plan) (\<lambda>covered.
     let required = remdups (al_required_coverage (cfg_allowlist config));
         missing = sort (filter (\<lambda>p. p \<notin> set covered) required);
         unexpected = sort (filter (\<lambda>p. p \<notin> set required) covered) in
     raise_if (missing \<noteq> [] \<or> unexpected \<noteq> []) (PlanCoverageMismatch missing unexpected) (Inr ()))"

definition load_plan :: "pyenv \<Rightarrow> plan_fs \<Rightarrow> runner_config \<Rightarrow> pystr \<Rightarrow> plan_error + milestone_plan" where
  "load_plan E fs config repository_root =
     rbind (plan_paths E fs config repository_root) (\<lambda>paths.
     rbind (read_milestones E fs config paths) (\<lambda>milestones.
     let ids = map ms_milestone_id milestones in
     raise_if (\<not> distinct ids) PlanValidationError
     (raise_if (list_ex (\<lambda>m. list_ex (\<lambda>d. d \<notin> set ids) (ms_depends_on m)) milestones) PlanValidationError
     (rbind (dependency_order milestones) (\<lambda>ordered.
      let plan = \<lparr>mp_milestones = ordered, mp_source_paths = paths\<rparr> in
      rbind (reconcile_coverage E config plan) (\<lambda>_. Inr plan))))))"

end
