(* ===== verification/Plan_Facts.thy ===== *)
theory Plan_Facts
  imports Milestone_Plan
begin

text \<open>
  What the dependency order of a plan is: a permutation of the milestones in which every dependency
  comes first, the same for every order of the plan files; or, when there is none, a cycle of the
  dependency graph, named in full. A loaded plan is ordered this way and covers what is required.
\<close>

section \<open>Rounds\<close>

definition edge :: "pending \<Rightarrow> pystr \<Rightarrow> pystr \<Rightarrow> bool" where
  "edge remaining a b \<longleftrightarrow> (\<exists>p. (a, p) \<in> set remaining \<and> b \<in> p)"

definition closed_graph :: "pending \<Rightarrow> bool" where
  "closed_graph remaining \<longleftrightarrow>
     distinct (map fst remaining) \<and> (\<forall>(k, p) \<in> set remaining. p \<subseteq> set (map fst remaining))"

text \<open>What stands before the first occurrence of an element.\<close>

definition ahead_of :: "pystr \<Rightarrow> pystr list \<Rightarrow> pystr set" where
  "ahead_of k xs = set (takeWhile (\<lambda>x. x \<noteq> k) xs)"

lemma ahead_of_skip: "k \<notin> set xs \<Longrightarrow> ahead_of k (xs @ ys) = set xs \<union> ahead_of k ys"
  by (induction xs) (auto simp: ahead_of_def)

lemma ready_ids_set: "set (ready_ids remaining) = {k. (k, {}) \<in> set remaining}"
  by (force simp: ready_ids_def)

lemma without_ready_set:
  "set (without_ready ready remaining) = {(k, p - set ready) | k p. (k, p) \<in> set remaining \<and> k \<notin> set ready}"
  by (auto simp: without_ready_def)

lemma without_ready_keys:
  "map fst (without_ready ready remaining) = filter (\<lambda>k. k \<notin> set ready) (map fst remaining)"
  by (induction remaining) (auto simp: without_ready_def)

lemma distinct_ready: "distinct (map fst remaining) \<Longrightarrow> distinct (ready_ids remaining)"
  by (simp add: ready_ids_def distinct_map_filter)

lemma ready_key: "k \<in> set (ready_ids remaining) \<Longrightarrow> k \<in> set (map fst remaining)"
  by (force simp: ready_ids_set)

lemma pending_unique: "distinct (map fst remaining) \<Longrightarrow> (k, p) \<in> set remaining \<Longrightarrow> (k, q) \<in> set remaining \<Longrightarrow> p = q"
  by (rule eq_key_imp_eq_value)

lemma closed_without_ready:
  assumes "closed_graph remaining"
  shows "closed_graph (without_ready (ready_ids remaining) remaining)"
  using assms
  by (fastforce simp: closed_graph_def without_ready_keys without_ready_set)

lemma order_rounds_step:
  "remaining \<noteq> [] \<Longrightarrow> ready_ids remaining \<noteq> [] \<Longrightarrow>
     order_rounds remaining ordered
       = order_rounds (without_ready (ready_ids remaining) remaining) (ordered @ ready_ids remaining)"
  by (subst order_rounds.simps) (simp add: Let_def)

lemma order_rounds_stuck:
  "remaining \<noteq> [] \<Longrightarrow> ready_ids remaining = [] \<Longrightarrow>
     order_rounds remaining ordered = Inl (PlanDependencyCycle (describe_cycle remaining))"
  by (subst order_rounds.simps) simp

lemma order_rounds_done [simp]: "order_rounds [] ordered = Inr ordered"
  by (subst order_rounds.simps) simp

text \<open>The rounds: every state of the loop satisfies what the induction needs.\<close>

lemma rounds_induct [consumes 1, case_names finished stuck round]:
  assumes "distinct (map fst remaining)"
    and "\<And>ordered. P [] ordered"
    and "\<And>remaining ordered. distinct (map fst remaining) \<Longrightarrow> remaining \<noteq> [] \<Longrightarrow> ready_ids remaining = []
           \<Longrightarrow> P remaining ordered"
    and "\<And>remaining ordered. distinct (map fst remaining) \<Longrightarrow> remaining \<noteq> [] \<Longrightarrow> ready_ids remaining \<noteq> []
           \<Longrightarrow> P (without_ready (ready_ids remaining) remaining) (ordered @ ready_ids remaining)
           \<Longrightarrow> P remaining ordered"
  shows "P remaining ordered"
  using assms(1)
proof (induction remaining ordered rule: order_rounds.induct)
  case (1 remaining ordered)
  consider "remaining = []" | "remaining \<noteq> []" "ready_ids remaining = []"
    | "remaining \<noteq> []" "ready_ids remaining \<noteq> []" by blast
  then show ?case
  proof cases
    case 3
    have "distinct (map fst (without_ready (ready_ids remaining) remaining))"
      using 1(2) by (simp add: without_ready_keys)
    with 1(1)[OF 3(1) refl 3(2)] have "P (without_ready (ready_ids remaining) remaining) (ordered @ ready_ids remaining)"
      by simp
    with assms(4)[OF 1(2) 3] show ?thesis .
  qed (use assms(2,3) 1(2) in auto)
qed

lemma order_rounds_topological:
  assumes "distinct (map fst remaining)" and "order_rounds remaining ordered = Inr ids"
  shows "\<exists>new. ids = ordered @ new \<and> set new = set (map fst remaining) \<and> distinct new
           \<and> (\<forall>(k, p) \<in> set remaining. p \<subseteq> ahead_of k new)"
  using assms
proof (induction remaining ordered rule: rounds_induct)
  case (finished ordered)
  then show ?case by simp
next
  case (stuck remaining ordered)
  then show ?case by (simp add: order_rounds_stuck)
next
  case (round remaining ordered)
  let ?r = "ready_ids remaining" and ?w = "without_ready (ready_ids remaining) remaining"
  from round.prems have "order_rounds ?w (ordered @ ?r) = Inr ids"
    using order_rounds_step[OF round.hyps(2,3)] by simp
  with round.IH obtain new where new: "ids = (ordered @ ?r) @ new" "set new = set (map fst ?w)" "distinct new"
      "\<forall>(k, p) \<in> set ?w. p \<subseteq> ahead_of k new" by blast
  have "set (?r @ new) = set (map fst remaining)"
    unfolding set_append new(2) without_ready_keys set_filter using ready_key[of _ remaining] by blast
  moreover have "set ?r \<inter> set new = {}" unfolding new(2) without_ready_keys by auto
  then have "distinct (?r @ new)" using new(3) distinct_ready[OF round.hyps(1)] by simp
  moreover have "\<forall>(k, p) \<in> set remaining. p \<subseteq> ahead_of k (?r @ new)"
  proof safe
    fix k p d
    assume kp: "(k, p) \<in> set remaining" and d: "d \<in> p"
    have k: "k \<notin> set ?r"
    proof
      assume "k \<in> set ?r"
      then have "p = {}" using pending_unique[OF round.hyps(1) kp] by (simp add: ready_ids_set)
      with d show False by simp
    qed
    then have "(k, p - set ?r) \<in> set ?w" using kp by (auto simp: without_ready_set)
    then have "p - set ?r \<subseteq> ahead_of k new" using new(4) by auto
    then show "d \<in> ahead_of k (?r @ new)" using d by (auto simp: ahead_of_skip[OF k])
  qed
  ultimately show ?case using new(1) by (intro exI[of _ "?r @ new"]) simp
qed

section \<open>Cycles\<close>

definition names_cycle :: "(pystr \<Rightarrow> pystr \<Rightarrow> bool) \<Rightarrow> pystr list \<Rightarrow> bool" where
  "names_cycle R c \<longleftrightarrow> 2 \<le> length c \<and> hd c = last c \<and> successively R c"

lemma names_cycle_mono: "names_cycle R c \<Longrightarrow> (\<And>a b. R a b \<Longrightarrow> S a b) \<Longrightarrow> names_cycle S c"
  by (auto simp: names_cycle_def intro: successively_mono)

lemma cycle_walk_chain:
  assumes "distinct (map fst remaining)"
    and "\<forall>(k, p) \<in> set remaining. p \<noteq> {} \<and> p \<subseteq> set (map fst remaining)"
    and "current \<in> set (map fst remaining)" and "successively (edge remaining) (path @ [current])"
    and "cycle_walk remaining path current = (path', current')"
  shows "current' \<in> set path' \<and> successively (edge remaining) (path' @ [current'])"
  using assms
proof (induction remaining path current rule: cycle_walk.induct)
  case (1 remaining path current)
  show ?case
  proof (cases "current \<in> set path")
    case True
    with 1(6) have "path' = path" "current' = current" by (simp_all add: cycle_walk.simps)
    with True 1(5) show ?thesis by simp
  next
    case False
    let ?next = "sort (filter (\<lambda>k. k \<in> the (map_of remaining current)) (remdups (map fst remaining)))"
    from 1(4) obtain p where cp: "(current, p) \<in> set remaining" by auto
    have p: "map_of remaining current = Some p" using 1(2) cp by simp
    have "p \<noteq> {}" "p \<subseteq> set (map fst remaining)" using 1(3) cp by auto
    then have ne: "set ?next \<noteq> {}" using p by auto
    then obtain n ns where n: "?next = n # ns" by (cases ?next) auto
    then have "n \<in> set ?next" by simp
    then have np: "n \<in> p" and nk: "n \<in> set (map fst remaining)" using p by auto
    have "successively (edge remaining) ((path @ [current]) @ [n])"
      using 1(5) cp np by (auto simp: successively_append_iff edge_def)
    moreover have "cycle_walk remaining (path @ [current]) n = (path', current')"
      using 1(6) False 1(4) n by (subst (asm) cycle_walk.simps) simp
    ultimately show ?thesis using 1(1)[OF _ n] False 1(2-4) nk by blast
  qed
qed

lemma suffix_of_chain: "successively R (xs @ ys) \<Longrightarrow> successively R ys"
  by (simp add: successively_append_iff)

lemma describe_cycle_names:
  assumes "closed_graph remaining" and "remaining \<noteq> []" and "ready_ids remaining = []"
  shows "names_cycle (edge remaining) (describe_cycle remaining)"
proof -
  have full: "\<forall>(k, p) \<in> set remaining. p \<noteq> {} \<and> p \<subseteq> set (map fst remaining)"
    using assms(1,3) ready_ids_set[of remaining] by (auto simp: closed_graph_def)
  obtain s ss where s: "sort (map fst remaining) = s # ss"
    using assms(2) by (metis Nil_is_map_conv list.exhaust set_empty set_sort)
  then have sk: "s \<in> set (map fst remaining)" by (metis list.set_intros(1) set_sort)
  obtain path current where w: "cycle_walk remaining [] s = (path, current)" by fastforce
  with cycle_walk_chain[OF _ full sk, of "[]"] assms(1)
  have c: "current \<in> set path" "successively (edge remaining) (path @ [current])"
    by (simp_all add: closed_graph_def)
  let ?c = "dropWhile (\<lambda>k. k \<noteq> current) path"
  have ne: "?c \<noteq> []" using c(1) by (simp add: dropWhile_eq_Nil_conv)
  have "describe_cycle remaining = ?c @ [current]"
    using s w c(1) by (simp add: describe_cycle_def)
  moreover have "successively (edge remaining) (?c @ [current])"
    using c(2) suffix_of_chain[of "edge remaining" "takeWhile (\<lambda>k. k \<noteq> current) path" "?c @ [current]"]
    by (simp only: append_assoc[symmetric] takeWhile_dropWhile_id)
  moreover have "hd ?c = current" using hd_dropWhile[OF ne] by simp
  ultimately show ?thesis using ne by (simp add: names_cycle_def Suc_le_eq)
qed

lemma order_rounds_cycle:
  assumes "distinct (map fst remaining)" and "closed_graph remaining" and "order_rounds remaining ordered = Inl e"
  shows "\<exists>c. e = PlanDependencyCycle c \<and> names_cycle (edge remaining) c"
  using assms
proof (induction remaining ordered rule: rounds_induct)
  case (finished ordered)
  then show ?case by simp
next
  case (stuck remaining ordered)
  then show ?case using describe_cycle_names by (auto simp: order_rounds_stuck)
next
  case (round remaining ordered)
  let ?w = "without_ready (ready_ids remaining) remaining"
  have "\<exists>c. e = PlanDependencyCycle c \<and> names_cycle (edge ?w) c"
    using round order_rounds_step closed_without_ready by metis
  moreover have "edge ?w a b \<Longrightarrow> edge remaining a b" for a b
    by (auto simp: edge_def without_ready_set)
  ultimately show ?case using names_cycle_mono by blast
qed

section \<open>The order does not depend on the order of the files\<close>

text \<open>Two listings of the same pending sets, one entry per key.\<close>

definition same_pending :: "pending \<Rightarrow> pending \<Rightarrow> bool" where
  "same_pending r q \<longleftrightarrow> distinct (map fst r) \<and> distinct (map fst q) \<and> set r = set q"

lemma same_pending_keys: "same_pending r q \<Longrightarrow> set (map fst r) = set (map fst q)"
  by (simp add: same_pending_def)

lemma same_pending_map_of: "same_pending r q \<Longrightarrow> map_of r = map_of q"
  by (simp add: same_pending_def map_of_inject_set)

lemma sort_set_eq: "distinct xs \<Longrightarrow> distinct ys \<Longrightarrow> set xs = set ys \<Longrightarrow> sort xs = sort (ys :: pystr list)"
  by (metis sorted_list_of_set_sort_remdups distinct_remdups_id)

lemma same_pending_ready: "same_pending r q \<Longrightarrow> ready_ids r = ready_ids q"
  unfolding ready_ids_def
  by (rule sort_set_eq) (auto simp: same_pending_def distinct_map_filter)

lemma same_pending_without: "same_pending r q \<Longrightarrow> same_pending (without_ready ids r) (without_ready ids q)"
  by (auto simp: same_pending_def without_ready_keys without_ready_set)

lemma same_pending_next:
  assumes "same_pending r q"
  shows "sort (filter P (remdups (map fst r))) = sort (filter P (remdups (map fst q)))"
  using same_pending_keys[OF assms] by (intro sort_set_eq) auto

lemma same_pending_walk: "same_pending r q \<Longrightarrow> cycle_walk r path current = cycle_walk q path current"
proof (induction r path current rule: cycle_walk.induct)
  case (1 r path current)
  let ?next = "sort (filter (\<lambda>k. k \<in> the (map_of r current)) (remdups (map fst r)))"
  have eqs: "set (map fst r) = set (map fst q)" "map_of r = map_of q"
    "?next = sort (filter (\<lambda>k. k \<in> the (map_of r current)) (remdups (map fst q)))"
    using same_pending_keys[OF 1(2)] same_pending_map_of[OF 1(2)] same_pending_next[OF 1(2)] by auto
  show ?case
    using 1(1)[OF _ _ 1(2)] eqs
    by (subst (1 2) cycle_walk.simps) (auto split: list.split)
qed

lemma same_pending_cycle:
  assumes "same_pending r q"
  shows "describe_cycle r = describe_cycle q"
proof -
  have starts: "sort (map fst r) = sort (map fst q)"
    using assms same_pending_keys[OF assms] by (intro sort_set_eq) (auto simp: same_pending_def)
  have "first_cycle r xs = first_cycle q xs" for xs
    by (induction xs) (simp_all add: same_pending_walk[OF assms] split: prod.split)
  with starts show ?thesis by (simp add: describe_cycle_def)
qed

lemma same_pending_order: "same_pending r q \<Longrightarrow> order_rounds r ordered = order_rounds q ordered"
proof (induction r ordered arbitrary: q rule: order_rounds.induct)
  case (1 r ordered)
  have ready: "ready_ids r = ready_ids q" by (rule same_pending_ready[OF 1(2)])
  have nil: "r = [] \<longleftrightarrow> q = []" using 1(2) by (auto simp: same_pending_def)
  consider "r = []" | "r \<noteq> []" "ready_ids r = []" | "r \<noteq> []" "ready_ids r \<noteq> []" by blast
  then show ?case
  proof cases
    case 2
    then show ?thesis using nil ready same_pending_cycle[OF 1(2)] by (simp add: order_rounds_stuck)
  next
    case 3
    with 1(1)[OF 3(1) refl 3(2) same_pending_without[OF 1(2)]] nil ready show ?thesis
      by (simp add: order_rounds_step)
  qed (use nil in simp)
qed

section \<open>The order of milestones\<close>

abbreviation depends :: "milestone_spec list \<Rightarrow> pystr \<Rightarrow> pystr \<Rightarrow> bool" where
  "depends milestones a b \<equiv> \<exists>m \<in> set milestones. ms_milestone_id m = a \<and> b \<in> set (ms_depends_on m)"

text \<open>Ids are unique and every dependency is a milestone: what \<open>load\<close> checks before it orders.\<close>

definition well_defined :: "milestone_spec list \<Rightarrow> bool" where
  "well_defined milestones \<longleftrightarrow>
     distinct (map ms_milestone_id milestones)
     \<and> (\<forall>m \<in> set milestones. set (ms_depends_on m) \<subseteq> ms_milestone_id ` set milestones)"

text \<open>Every milestone once, its dependencies before it.\<close>

definition topological :: "milestone_spec list \<Rightarrow> milestone_spec list \<Rightarrow> bool" where
  "topological milestones ordered \<longleftrightarrow>
     set ordered = set milestones \<and> distinct (map ms_milestone_id ordered)
     \<and> (\<forall>m \<in> set ordered. set (ms_depends_on m) \<subseteq> ahead_of (ms_milestone_id m) (map ms_milestone_id ordered))"

lemma pending_of_keys: "map fst (pending_of milestones) = map ms_milestone_id milestones"
  by (simp add: pending_of_def)

lemma edge_pending_of: "edge (pending_of milestones) a b \<longleftrightarrow> depends milestones a b"
  by (auto simp: edge_def pending_of_def)

lemma closed_pending_of: "well_defined milestones \<Longrightarrow> closed_graph (pending_of milestones)"
  unfolding closed_graph_def well_defined_def pending_of_keys by (auto simp: pending_of_def)

abbreviation by_id :: "milestone_spec list \<Rightarrow> pystr \<Rightarrow> milestone_spec" where
  "by_id milestones i \<equiv> the (map_of (map (\<lambda>m. (ms_milestone_id m, m)) milestones) i)"

lemma by_id_of:
  assumes "distinct (map ms_milestone_id milestones)" and "m \<in> set milestones"
  shows "by_id milestones (ms_milestone_id m) = m"
proof -
  have "map_of (map (\<lambda>m. (ms_milestone_id m, m)) milestones) (ms_milestone_id m) = Some m"
    by (rule map_of_is_SomeI) (use assms in \<open>auto simp: comp_def\<close>)
  then show ?thesis by simp
qed

lemma by_id_ids:
  assumes "distinct (map ms_milestone_id milestones)" and "set ids \<subseteq> ms_milestone_id ` set milestones"
  shows "map ms_milestone_id (map (by_id milestones) ids) = ids"
    and "set (map (by_id milestones) ids) \<subseteq> set milestones"
  using assms by (induction ids) (auto simp: by_id_of)

lemma dependency_order_topological:
  assumes "well_defined milestones" and "dependency_order milestones = Inr ordered"
  shows "topological milestones ordered"
proof -
  from assms(1) have d: "distinct (map ms_milestone_id milestones)" by (simp add: well_defined_def)
  from assms(2) obtain ids where ids: "order_rounds (pending_of milestones) [] = Inr ids"
    and o: "ordered = map (by_id milestones) ids"
    by (auto simp: dependency_order_def)
  obtain new where new: "ids = [] @ new" "set new = set (map fst (pending_of milestones))" "distinct new"
      "\<forall>(k, p) \<in> set (pending_of milestones). p \<subseteq> ahead_of k new"
    using order_rounds_topological[OF _ ids] d by (auto simp: pending_of_keys)
  have sub: "set ids = ms_milestone_id ` set milestones" using new(1,2) by (simp add: pending_of_keys)
  have idso: "map ms_milestone_id ordered = ids" using by_id_ids(1)[OF d] sub o by simp
  have "set ordered = set milestones"
  proof
    show "set ordered \<subseteq> set milestones" unfolding o by (rule by_id_ids(2)[OF d]) (simp add: sub)
    show "set milestones \<subseteq> set ordered"
    proof
      fix m
      assume m: "m \<in> set milestones"
      then have "ms_milestone_id m \<in> set ids" using sub by simp
      then have "by_id milestones (ms_milestone_id m) \<in> set ordered" unfolding o set_map by (rule imageI)
      then show "m \<in> set ordered" by (simp only: by_id_of[OF d m])
    qed
  qed
  moreover have "\<forall>m \<in> set milestones. set (ms_depends_on m) \<subseteq> ahead_of (ms_milestone_id m) ids"
    using new(1,4) by (auto simp: pending_of_def)
  ultimately show ?thesis
    using new(1,3) unfolding topological_def idso by simp
qed

text \<open>A topological order excludes a cycle: along the dependencies the positions go down.\<close>

lemma ahead_of_earlier: "b \<in> ahead_of a xs \<Longrightarrow> length (takeWhile (\<lambda>x. x \<noteq> b) xs) < length (takeWhile (\<lambda>x. x \<noteq> a) xs)"
  by (induction xs) (auto simp: ahead_of_def split: if_splits)

lemma descending_chain:
  "successively (\<lambda>a b. (f b :: nat) < f a) c \<Longrightarrow> 2 \<le> length c \<Longrightarrow> f (last c) < f (hd c)"
proof (induction c rule: induct_list012)
  case (3 a b c)
  then show ?case by (cases c) auto
qed simp_all

lemma topological_acyclic:
  assumes "topological milestones ordered"
  shows "\<not> names_cycle (depends milestones) c"
proof
  let ?pos = "\<lambda>k. length (takeWhile (\<lambda>x. x \<noteq> k) (map ms_milestone_id ordered))"
  assume c: "names_cycle (depends milestones) c"
  have "?pos b < ?pos a" if "depends milestones a b" for a b
  proof -
    from that obtain m where "m \<in> set ordered" "ms_milestone_id m = a" "b \<in> set (ms_depends_on m)"
      using assms by (auto simp: topological_def)
    then have "b \<in> ahead_of a (map ms_milestone_id ordered)" using assms by (auto simp: topological_def)
    then show ?thesis by (rule ahead_of_earlier)
  qed
  then have "successively (\<lambda>a b. ?pos b < ?pos a) c"
    using c unfolding names_cycle_def by (blast intro: successively_mono)
  from descending_chain[OF this] c show False by (simp add: names_cycle_def)
qed

lemma dependency_order_refused:
  assumes "well_defined milestones" and "dependency_order milestones = Inl e"
  shows "\<exists>c. e = PlanDependencyCycle c \<and> names_cycle (depends milestones) c"
proof -
  have d: "distinct (map fst (pending_of milestones))"
    using assms(1) by (simp add: well_defined_def pending_of_keys)
  from assms(2) have "order_rounds (pending_of milestones) [] = Inl e"
    by (cases "order_rounds (pending_of milestones) []") (auto simp: dependency_order_def)
  from order_rounds_cycle[OF d closed_pending_of[OF assms(1)] this]
  obtain c where e: "e = PlanDependencyCycle c" and c: "names_cycle (edge (pending_of milestones)) c" by blast
  have "names_cycle (depends milestones) c" by (rule names_cycle_mono[OF c]) (simp only: edge_pending_of)
  with e show ?thesis by simp
qed

lemma dependency_order_files:
  assumes "distinct (map ms_milestone_id xs)" and "distinct (map ms_milestone_id ys)" and "set xs = set ys"
  shows "dependency_order xs = dependency_order ys"
proof -
  have "same_pending (pending_of xs) (pending_of ys)"
    using assms unfolding same_pending_def pending_of_keys by (simp add: pending_of_def)
  then have "order_rounds (pending_of xs) [] = order_rounds (pending_of ys) []" by (rule same_pending_order)
  moreover have "map_of (map (\<lambda>m. (ms_milestone_id m, m)) xs) = map_of (map (\<lambda>m. (ms_milestone_id m, m)) ys)"
    using assms by (simp add: map_of_inject_set comp_def)
  ultimately show ?thesis by (simp add: dependency_order_def)
qed

section \<open>A loaded plan\<close>

lemma read_milestones_facts:
  "read_milestones E fs config paths = Inr ms \<Longrightarrow>
     list_all2 (\<lambda>p m. read_milestone E fs config p = Inr m) paths ms"
  by (induction paths arbitrary: ms) auto

lemma covered_paths_set:
  assumes "covered_paths E plan = Inr covered"
  shows "Some ` set covered = normalize_repository_path E ` (\<Union>m \<in> set (mp_milestones plan). set (ms_allowed_files m))"
proof -
  from assms obtain paths where p: "map_opt (normalize_repository_path E)
      (concat (map ms_allowed_files (mp_milestones plan))) = Some paths" and c: "covered = sort (remdups paths)"
    by (auto simp: covered_paths_def split: option.splits)
  have "Some ` set paths = set (map Some paths)" by simp
  also have "\<dots> = normalize_repository_path E ` set (concat (map ms_allowed_files (mp_milestones plan)))"
    using p[unfolded map_opt_Some] by (metis set_map)
  finally show ?thesis using c by simp
qed

lemma reconcile_coverage_exact:
  assumes "reconcile_coverage E config plan = Inr u"
  shows "\<exists>covered. covered_paths E plan = Inr covered \<and> set covered = set (al_required_coverage (cfg_allowlist config))"
proof -
  from assms obtain covered where c: "covered_paths E plan = Inr covered"
    and m: "sort (filter (\<lambda>p. p \<notin> set covered) (remdups (al_required_coverage (cfg_allowlist config)))) = []"
    and u: "sort (filter (\<lambda>p. p \<notin> set (remdups (al_required_coverage (cfg_allowlist config)))) covered) = []"
    by (auto simp: reconcile_coverage_def Let_def)
  from m have "set (al_required_coverage (cfg_allowlist config)) \<subseteq> set covered"
    by (metis (mono_tags, lifting) empty_filter_conv set_empty set_remdups set_sort subsetI)
  moreover from u have "set covered \<subseteq> set (al_required_coverage (cfg_allowlist config))"
    by (metis (mono_tags, lifting) empty_filter_conv set_empty set_remdups set_sort subsetI)
  ultimately show ?thesis using c by blast
qed

lemma load_plan_parts:
  assumes "load_plan E fs config root = Inr plan"
  obtains milestones where "plan_paths E fs config root = Inr (mp_source_paths plan)"
    and "read_milestones E fs config (mp_source_paths plan) = Inr milestones"
    and "well_defined milestones" and "dependency_order milestones = Inr (mp_milestones plan)"
    and "reconcile_coverage E config plan = Inr ()"
proof -
  from assms obtain paths milestones ordered where a: "plan_paths E fs config root = Inr paths"
      "read_milestones E fs config paths = Inr milestones"
      "distinct (map ms_milestone_id milestones)"
      "\<not> list_ex (\<lambda>m. list_ex (\<lambda>d. d \<notin> set (map ms_milestone_id milestones)) (ms_depends_on m)) milestones"
      "dependency_order milestones = Inr ordered"
      "reconcile_coverage E config \<lparr>mp_milestones = ordered, mp_source_paths = paths\<rparr> = Inr ()"
      "plan = \<lparr>mp_milestones = ordered, mp_source_paths = paths\<rparr>"
    unfolding load_plan_def Let_def rbind_Inr raise_if_Inr not_not by auto
  moreover have "well_defined milestones" using a(3,4) by (auto simp: well_defined_def list_ex_iff)
  ultimately show thesis using that by simp
qed

section \<open>Where the files come from\<close>

lemma resolve_plan_root_place:
  assumes "resolve_plan_root fs config repository_root = Inr root"
  shows "within (pl_realpath fs repository_root) (pl_realpath fs (pt_path root)) = pt_is_repository_local root"
    and "\<not> linked_component fs (path_anchor (pt_path root)) (path_segments (pt_path root))"
  using assms
  by (auto simp: resolve_plan_root_def Let_def reject_repository_containment_def reject_symlink_components_def
      split: option.splits if_splits)

lemma each_regular_files: "each_regular fs paths = Inr u \<Longrightarrow> p \<in> set paths \<Longrightarrow> pl_file fs p"
  by (induction paths) auto

lemma plan_paths_place:
  assumes "plan_paths E fs config repository_root = Inr paths" and "p \<in> set paths"
  shows "\<exists>root. resolve_plan_root fs config repository_root = Inr root \<and> pl_file fs p
    \<and> (if pt_is_repository_local root
        then \<exists>entry \<in> set (al_allowed_paths (cfg_allowlist config)). p = slash repository_root entry \<and> is_verbatim_path entry
        else \<exists>name. p = slash (pt_path root) name \<and> \<not> pl_symlink fs p
               \<and> plan_file_milestone (cfg_schema_version config) name \<noteq> None)"
proof -
  from assms(1) obtain root where r: "resolve_plan_root fs config repository_root = Inr root"
    and q: "(if pt_is_repository_local root then allowlisted_plan_paths E fs config repository_root (pt_path root)
             else external_plan_paths fs (cfg_schema_version config) (pt_path root)) = Inr paths"
    by (auto simp: plan_paths_def)
  show ?thesis
  proof (cases "pt_is_repository_local root")
    case True
    with q obtain directory where p: "each_regular fs (map (slash repository_root) (allowlisted_entries
        (cfg_schema_version config) directory (al_allowed_paths (cfg_allowlist config)))) = Inr ()"
      "paths = sort (map (slash repository_root) (allowlisted_entries
        (cfg_schema_version config) directory (al_allowed_paths (cfg_allowlist config))))"
      by (auto simp: allowlisted_plan_paths_def Let_def)
    with assms(2) have "p \<in> set (map (slash repository_root) (allowlisted_entries
        (cfg_schema_version config) directory (al_allowed_paths (cfg_allowlist config))))" by simp
    then have "\<exists>entry \<in> set (al_allowed_paths (cfg_allowlist config)). p = slash repository_root entry \<and> is_verbatim_path entry"
      and "pl_file fs p" using each_regular_files[OF p(1)] by (auto simp: allowlisted_entries_def)
    with r True show ?thesis by auto
  next
    case False
    with q obtain entries where e: "\<not> list_ex (\<lambda>c. pl_symlink fs c \<or> \<not> pl_file fs c) paths"
      "paths = map (slash (pt_path root))
         (filter (\<lambda>name. plan_file_milestone (cfg_schema_version config) name \<noteq> None) (sort entries))"
      unfolding external_plan_paths_def Let_def rbind_Inr raise_if_Inr by auto
    then obtain name where "p = slash (pt_path root) name"
        "plan_file_milestone (cfg_schema_version config) name \<noteq> None"
      using assms(2) by auto
    moreover have "pl_file fs p" "\<not> pl_symlink fs p" using e(1) assms(2) by (auto simp: list_ex_iff)
    ultimately show ?thesis using False r by auto
  qed
qed

end
