(* ===== verification/Concrete_Plan.thy ===== *)
theory Concrete_Plan
  imports Plan_Facts Concrete_Append
begin

text \<open>
  A concrete plan of two milestones in the default plan root, the second depending on the first, and the
  configuration that requires exactly their files; and a plan of two milestones that depend on each other.
\<close>

definition plan_milestone :: "pystr \<Rightarrow> pystr list \<Rightarrow> pystr list \<Rightarrow> milestone_spec" where
  "plan_milestone i deps files =
     \<lparr>ms_schema_version = 1, ms_milestone_id = i, ms_title = lit ''title'', ms_objective = lit ''objective'',
      ms_depends_on = deps, ms_contract_sections = [], ms_allowed_files = files, ms_forbidden_files = [],
      ms_required_symbols = [], ms_explicit_exclusions = [], ms_acceptance_criteria = [],
      ms_focused_verification = [], ms_completion_evidence = [], ms_additive_reuse_justification = None,
      ms_human_owner_scope_ruling = None\<rparr>"

definition plan_first :: milestone_spec where
  "plan_first = plan_milestone (lit ''AUTO-001-M02'') [] [lit ''src/b.py'']"

definition plan_second :: milestone_spec where
  "plan_second = plan_milestone (lit ''AUTO-001-M01'') [lit ''AUTO-001-M02''] [lit ''src/a.py'']"

definition plan_directory_text :: pystr where
  "plan_directory_text = lit ''/home/.ai-workflow-engine/milestone-runs/demo--0123456789ab/plans''"

definition plan_files :: "(pystr \<times> milestone_spec) list" where
  "plan_files =
     [(plan_directory_text @ lit ''/AUTO-001-M01.yaml'', plan_second),
      (plan_directory_text @ lit ''/AUTO-001-M02.yaml'', plan_first)]"

text \<open>The file of a milestone holds its path, and the reader finds the milestone by it.\<close>

definition plan_disk :: plan_fs where
  "plan_disk =
     \<lparr>pl_home = lit ''/home'', pl_realpath = (\<lambda>p. p), pl_relpath = (\<lambda>p start. p), pl_symlink = (\<lambda>p. False),
      pl_file = (\<lambda>p. map_of plan_files p \<noteq> None),
      pl_listdir = (\<lambda>d. if d = plan_directory_text
        then Some [lit ''AUTO-001-M02.yaml'', lit ''notes.txt'', lit ''AUTO-001-M01.yaml''] else None),
      pl_bytes = (\<lambda>p. if map_of plan_files p = None then None else Some p),
      pl_document = (\<lambda>b. Inr (map_of plan_files b))\<rparr>"

definition plan_provider :: provider_settings where
  "plan_provider = \<lparr>ps_executable = lit ''reviewer'', ps_arguments = [], ps_timeout_seconds = 60\<rparr>"

definition plan_config :: runner_config where
  "plan_config =
     \<lparr>cfg_schema_version = 1,
      cfg_repository = \<lparr>rg_root = lit ''/repo'', rg_identity = lit ''demo--0123456789ab'',
        rg_expected_branch = lit ''main'', rg_baseline_sha = zeros, rg_conda_environment = lit ''engine''\<rparr>,
      cfg_stage = \<lparr>sg_stage_id = lit ''AUTO-001'', sg_contract_path = lit ''docs/contract.md'',
        sg_contract_sha256 = zeros, sg_plan_directory = None, sg_v2 = None\<rparr>,
      cfg_allowlist = \<lparr>al_allowed_paths = [lit ''src/**''], al_forbidden_paths = [lit ''src/secret/**''],
        al_required_coverage = [lit ''src/a.py'', lit ''src/b.py'']\<rparr>,
      cfg_review_policy = Some (Some \<lparr>rs_max_full_reviews = 1, rs_max_correction_rounds = 1,
        rs_max_closure_reviews = 1, rs_max_blockers = 3, rs_blocking_severities = [CRITICAL, HIGH],
        rs_defer_severities = [MEDIUM, LOW]\<rparr>),
      cfg_providers = \<lparr>pv_claude = plan_provider, pv_permission_mode = CPM_ACCEPT_EDITS, pv_codex = plan_provider,
        pv_sandbox_mode = CSM_READ_ONLY, pv_allowed_environment_variables = []\<rparr>,
      cfg_verification = \<lparr>vs_focused = [], vs_final = [\<lparr>vc_command = [lit ''pytest''], vc_timeout_seconds = 60, vc_purpose = None\<rparr>]\<rparr>,
      cfg_git = \<lparr>gs_execute_commit = False, gs_execute_push = False\<rparr>\<rparr>"

lemma pred_option_code [code]: "pred_option P None = True" "pred_option P (Some x) = P x"
  by simp_all

lemma plan_config_valid: "validate_runner_config demo_env plan_config = Some plan_config"
  by code_simp

lemma plan_resolved: "resolve_plan_root plan_disk plan_config (lit ''/repo'')
    = Inr \<lparr>pt_path = plan_directory_text, pt_is_repository_local = False\<rparr>"
  by code_simp

lemma plan_listed: "plan_paths demo_env plan_disk plan_config (lit ''/repo'') = Inr (map fst plan_files)"
  by code_simp

lemma plan_read: "read_milestones demo_env plan_disk plan_config (map fst plan_files) = Inr [plan_second, plan_first]"
  by code_simp

lemma plan_ordered: "dependency_order [plan_second, plan_first] = Inr [plan_first, plan_second]"
  by code_simp

end
