(* ===== verification/Concrete_Stage.thy ===== *)
theory Concrete_Stage
  imports Policy_Facts Review_Facts Workflow_Facts Concrete_Plan Concrete_Results
begin

text \<open>
  Concrete inputs of the stage: a policy resolved from overrides that select every role, its
  authorization with binding and witness; one review round under the default policy; the first outcome
  recorded for a task.
\<close>

section \<open>Policy\<close>

definition stage_selection :: "capability_mode \<Rightarrow> role_selection" where
  "stage_selection mode =
     \<lparr>sel_provider_id = lit ''claude'', sel_model_id = lit ''model-1'', sel_capability_mode = mode,
      sel_timeout_seconds = 60\<rparr>"

definition stage_overrides :: execution_defaults where
  "stage_overrides =
     \<lparr>pd_schema_version = 2, pd_max_remediation_cycles = Some 1, pd_max_blockers = None,
      pd_on_retry_exhausted = None,
      pd_roles = [(IMPLEMENTATION, stage_selection WORKSPACE_WRITE), (REVIEW, stage_selection READ_ONLY),
                  (CORRECTION, stage_selection WORKSPACE_WRITE), (CLOSURE, stage_selection READ_ONLY)]\<rparr>"

definition stage_contract :: contract_binding where
  "stage_contract =
     \<lparr>cb_fields = \<lparr>bf_repository_identity = lit ''demo--0123456789ab'', bf_stage_id = lit ''AUTO-001'',
        bf_contract_path = lit ''docs/contract.md'', bf_contract_sha256 = zeros,
        bf_registry_context = \<lparr>rx_kind = NO_GOVERNED_REGISTRY, rx_path = None\<rparr>\<rparr>,
      cb_ceilings = \<lparr>cc_max_remediation_cycles = 2, cc_max_blockers = 2\<rparr>\<rparr>"

definition stage_effective :: effective_policy where
  "stage_effective =
     (case resolve_policy demo_env None stage_overrides stage_contract None of Inr p \<Rightarrow> p)"

lemma stage_contract_valid: "validate_contract_binding demo_env stage_contract = Some stage_contract"
  by code_simp

lemma stage_overrides_valid: "validate_defaults stage_overrides" "distinct (map fst (pd_roles stage_overrides))"
  by code_simp+

lemma stage_resolvable: "resolvable None stage_overrides stage_contract"
proof -
  have "(\<forall>r. P r) \<longleftrightarrow> P IMPLEMENTATION \<and> P REVIEW \<and> P CORRECTION \<and> P CLOSURE" for P :: "provider_role \<Rightarrow> bool"
    by (metis provider_role.exhaust)
  then show ?thesis
    by (simp add: resolvable_def stage_overrides_def stage_contract_def default_roles_def stage_selection_def)
qed

lemma demo_nfc_ascii: "nfc_keeps_ascii demo_env"
  by (simp add: nfc_keeps_ascii_def)

lemma stage_resolved: "resolve_policy demo_env None stage_overrides stage_contract None = Inr stage_effective"
proof -
  have none: "pred_option P None" for P :: "'x \<Rightarrow> bool" by simp
  obtain p where "resolve_policy demo_env None stage_overrides stage_contract None = Inr p"
    using resolve_policy_total[OF stage_contract_valid stage_overrides_valid none none demo_env_hash demo_nfc_ascii
        stage_resolvable] by blast
  then show ?thesis by (simp add: stage_effective_def)
qed

lemma stage_digests:
  "policy_digest demo_env stage_effective = Some zeros"
  "stage_start_key demo_env (bf_repository_identity (ep_fields stage_effective)) (bf_stage_id (ep_fields stage_effective))
     (bf_contract_sha256 (ep_fields stage_effective)) = Some zeros"
  by code_simp+

lemma stage_created: "calendar_timestamp demo_time"
  by code_simp

section \<open>A workflow task\<close>

definition task_event :: workflow_event where
  "task_event =
     \<lparr>we_schema_version = lit ''1.0'', we_project_id = lit ''demo'', we_task_id = lit ''T-1'', we_sequence = 1,
      we_parent_digest = None, we_stage = PLAN_REVIEW, we_action = VERDICT_ACTION, we_verdict = Some V_APPROVED,
      we_prompt_id = None, we_agent_run_id = None, we_head = replicate 40 48, we_note = []\<rparr>"

definition task_wire :: workflow_wire where
  "task_wire =
     \<lparr>ww_decode = Some, ww_loads = (\<lambda>_. Some (event_dump task_event)),
      ww_event = (\<lambda>_. Some task_event)\<rparr>"

definition task_place :: placement where
  "task_place = \<lparr>at_state_root = (\<lambda>_ _. True), at_repository = (\<lambda>_ _. False)\<rparr>"

definition task_bytes :: bytes where
  "task_bytes = (case event_bytes demo_env task_event of Some b \<Rightarrow> b)"

lemma task_recorded:
  "record_outcome demo_env task_wire task_place None (lit ''demo'') (lit '' T-1'') PLAN_REVIEW (Some V_APPROVED)
     None None [] (replicate 40 48) = Inr (task_event, [(event_file 1, task_bytes)])"
  by code_simp

lemma task_empty: "load_history demo_env task_wire task_place None (lit ''demo'') (lit '' T-1'') = Inr []"
  by code_simp

lemma task_loads_back: "loads_back demo_env task_wire task_event"
proof -
  have "no_duplicate_keys (event_dump task_event)" by code_simp
  then show ?thesis by (simp add: loads_back_def task_wire_def)
qed

lemma task_loaded:
  "load_history demo_env task_wire task_place (Some [(event_file 1, task_bytes)]) (lit ''demo'') (lit '' T-1'')
     = Inr [task_event]"
  by code_simp

section \<open>A review round\<close>

definition round_result :: review_result where
  "round_result = \<lparr>rw_verdict = BLOCKED, rw_blockers = [demo_finding], rw_deferred = []\<rparr>"

definition round_budget :: budget_ledger where
  "round_budget = no_rounds\<lparr>bl_review_attempts := 1, bl_successful_review_rounds := 1\<rparr>"

definition round_findings :: findings_ledger where
  "round_findings = \<lparr>fl_blocking = [demo_finding], fl_deferred = []\<rparr>"

lemma default_policy_valid: "validate_policy DEFAULT_REVIEW_POLICY = Some DEFAULT_REVIEW_POLICY"
  by code_simp

lemma round_steps:
  "(round_step demo_env demo_review_yaml DEFAULT_REVIEW_POLICY)\<^sup>*\<^sup>* (no_rounds, no_findings) (round_budget, round_findings)"
proof -
  have "po_max_blockers DEFAULT_REVIEW_POLICY = 3" by code_simp
  then have p: "parse_review_result demo_env demo_review_yaml (render_block REVIEW [] [lit ''x''])
      (po_max_blockers DEFAULT_REVIEW_POLICY) None = Inr round_result"
    using demo_review by (simp add: round_result_def)
  have a: "accept_review DEFAULT_REVIEW_POLICY (record_review_attempt no_rounds) no_findings round_result
      = Inr \<lparr>dc_kind = RK_REVIEW, dc_outcome = RO_NEEDS_CORRECTION, dc_budget = round_budget, dc_findings = round_findings\<rparr>"
    by code_simp
  have "round_step demo_env demo_review_yaml DEFAULT_REVIEW_POLICY (no_rounds, no_findings)
      (record_review_attempt no_rounds, no_findings)"
    by (rule round_step.attempted)
  moreover have "round_step demo_env demo_review_yaml DEFAULT_REVIEW_POLICY
      (record_review_attempt no_rounds, no_findings) (round_budget, round_findings)"
    using round_step.reviewed[OF p a] by simp
  ultimately show ?thesis by (rule converse_rtranclp_into_rtranclp[OF _ r_into_rtranclp])
qed

lemma round_repeated:
  "(round_step demo_env demo_review_yaml DEFAULT_REVIEW_POLICY)\<^sup>*\<^sup>* (round_budget, round_findings)
     (record_review_attempt round_budget, round_findings)"
  by (rule r_into_rtranclp) (rule round_step.attempted)

end
