(* ===== verification/Recovery.thy ===== *)
theory Recovery
  imports Milestone_Plan Record_Evolution
begin

text \<open>
  \<open>milestone_runner/recovery.py\<close>: the four recovery commands, their append-only ledgers and the closing
  constraint every derived record is checked against, and the coordinator that finds the transcript a
  reconciliation is matched with. Opening a file is a parameter. The summaries of the outcomes are
  operator text and left out.
\<close>

section \<open>The closed tables\<close>

text \<open>\<open>RecoveryValueError\<close> is the \<open>ValueError\<close> of \<open>covered_paths\<close>, which \<open>_corrected_plan\<close> does not catch.\<close>

datatype recovery_error = RecoveryRefused | RecoveryValueError

fun RECOVERY_LEDGER_FIELDS :: "recovery_command \<Rightarrow> recovery_ledger_name" where
  "RECOVERY_LEDGER_FIELDS RECONCILE_MILESTONE = L_RECONCILIATIONS"
| "RECOVERY_LEDGER_FIELDS REOPEN_MILESTONE = L_REOPENINGS"
| "RECOVERY_LEDGER_FIELDS RECOVER_FAILED_REVIEW = L_REVIEW_RECOVERIES"
| "RECOVERY_LEDGER_FIELDS REVALIDATE_CORRECTION = L_REVALIDATIONS"

definition recovery_ledgers :: "recovery_ledger_name list" where
  "recovery_ledgers =
     map RECOVERY_LEDGER_FIELDS [RECONCILE_MILESTONE, REOPEN_MILESTONE, RECOVER_FAILED_REVIEW, REVALIDATE_CORRECTION]"

fun RECOVERY_POST_STATES :: "recovery_command \<Rightarrow> run_status" where
  "RECOVERY_POST_STATES RECONCILE_MILESTONE = FOCUSED_VERIFYING"
| "RECOVERY_POST_STATES REOPEN_MILESTONE = IMPLEMENTING"
| "RECOVERY_POST_STATES RECOVER_FAILED_REVIEW = REVIEWING"
| "RECOVERY_POST_STATES REVALIDATE_CORRECTION = CLOSURE_VERIFYING"

fun RECOVERY_ENTRY_STATES :: "recovery_command \<Rightarrow> run_status list" where
  "RECOVERY_ENTRY_STATES RECONCILE_MILESTONE = [HUMAN_INTERVENTION_REQUIRED]"
| "RECOVERY_ENTRY_STATES REOPEN_MILESTONE = [HUMAN_INTERVENTION_REQUIRED, MILESTONE_FAILED]"
| "RECOVERY_ENTRY_STATES RECOVER_FAILED_REVIEW = [HUMAN_INTERVENTION_REQUIRED]"
| "RECOVERY_ENTRY_STATES REVALIDATE_CORRECTION = [HUMAN_INTERVENTION_REQUIRED]"

definition FORBIDDEN_RECOVERY_POST_STATES :: "run_status list" where
  "FORBIDDEN_RECOVERY_POST_STATES = [READY_FOR_COMMIT_APPROVAL, READY_FOR_PUSH_APPROVAL, DONE]"

definition RECONSTRUCTED_FROM_VERIFIED_EVIDENCE :: pystr where
  "RECONSTRUCTED_FROM_VERIFIED_EVIDENCE = lit ''reconstructed_from_verified_evidence''"

definition MAX_RECONCILED_RESULT_BYTES :: nat where "MAX_RECONCILED_RESULT_BYTES = 64 * 2 ^ 20"

text \<open>\<open>_IMMOVABLE_RECORD_FIELDS\<close>: whether all of them are equal in two records.\<close>

definition immovable_equal :: "run_record \<Rightarrow> run_record \<Rightarrow> bool" where
  "immovable_equal p u \<longleftrightarrow>
     rr_schema_version u = rr_schema_version p \<and> rr_run_id u = rr_run_id p
     \<and> rr_repository_root u = rr_repository_root p \<and> rr_repository_identity u = rr_repository_identity p
     \<and> rr_expected_branch u = rr_expected_branch p \<and> rr_baseline_sha u = rr_baseline_sha p
     \<and> rr_contract_sha256 u = rr_contract_sha256 p \<and> rr_created_at u = rr_created_at p
     \<and> rr_completed_milestones u = rr_completed_milestones p \<and> rr_changed_paths u = rr_changed_paths p
     \<and> rr_provider_runs u = rr_provider_runs p \<and> rr_blocking_findings u = rr_blocking_findings p
     \<and> rr_deferred_findings u = rr_deferred_findings p \<and> rr_approvals u = rr_approvals p"

section \<open>Context and outcome\<close>

record recovery_context =
  rq_branch :: pystr
  rq_head_sha :: pystr
  rq_recorded_at :: pystr

text \<open>\<open>offset\<close> is \<open>moment.utcoffset()\<close> in seconds, absent for a naive moment, \<open>stamp\<close> what \<open>strftime\<close> writes.\<close>

definition observed :: "pystr \<Rightarrow> pystr \<Rightarrow> int option \<Rightarrow> pystr \<Rightarrow> recovery_error + recovery_context" where
  "observed branch head_sha offset stamp =
     raise_if (offset \<noteq> Some 0) RecoveryRefused
     (Inr \<lparr>rq_branch = branch, rq_head_sha = head_sha, rq_recorded_at = stamp\<rparr>)"

record recovery_outcome =
  oc_command :: recovery_command
  oc_record :: run_record
  oc_entry :: recovery_ledger_entry
  oc_reconstructed :: bool
  oc_evidence_digest :: "pystr option"
  oc_corrected_plan :: "milestone_plan option"

definition ledger_field :: "recovery_outcome \<Rightarrow> recovery_ledger_name" where
  "ledger_field outcome = RECOVERY_LEDGER_FIELDS (oc_command outcome)"

section \<open>The ledgers\<close>

fun ledger_growth ::
  "run_record \<Rightarrow> run_record \<Rightarrow> recovery_ledger_name list \<Rightarrow> nat \<Rightarrow> recovery_error + nat" where
  "ledger_growth previous updated [] appended = Inr appended"
| "ledger_growth previous updated (field # rest) appended =
     (let before = ledger_of field previous; after = ledger_of field updated in
      raise_if (length after < length before) RecoveryRefused
      (raise_if (take (length before) after \<noteq> before) RecoveryRefused
      (ledger_growth previous updated rest (appended + (length after - length before)))))"

definition reject_ledger_rewrite :: "run_record \<Rightarrow> run_record \<Rightarrow> recovery_error + unit" where
  "reject_ledger_rewrite previous updated =
     rbind (ledger_growth previous updated recovery_ledgers 0) (\<lambda>appended.
     raise_if (appended > 1) RecoveryRefused (Inr ()))"

definition validated :: "pyenv \<Rightarrow> run_record \<Rightarrow> recovery_error + run_record" where
  "validated E r = from_option RecoveryRefused (validate_run_record E r)"

definition append_recovery_ledger_entry ::
  "pyenv \<Rightarrow> run_record \<Rightarrow> recovery_ledger_entry \<Rightarrow> recovery_error + run_record" where
  "append_recovery_ledger_entry E r entry =
     (let field = RECOVERY_LEDGER_FIELDS (rl_command entry) in
      raise_if (entry \<in> set (ledger_of field r)) RecoveryRefused
      (rbind (validated E (set_ledger field (ledger_of field r @ [entry]) r)) (\<lambda>updated.
       rbind (reject_ledger_rewrite r updated) (\<lambda>_. Inr updated))))"

section \<open>The closing constraint\<close>

definition reject_forbidden_recovery_effect :: "run_record \<Rightarrow> run_record \<Rightarrow> recovery_error + unit" where
  "reject_forbidden_recovery_effect previous updated =
     raise_if (rr_workflow_state updated \<in> set FORBIDDEN_RECOVERY_POST_STATES) RecoveryRefused
     (raise_if (list_ex (\<lambda>c. counter_value updated c > counter_value previous c) COUNTER_FIELDS) RecoveryRefused
     (raise_if (\<not> immovable_equal previous updated) RecoveryRefused
     (reject_ledger_rewrite previous updated)))"

definition require_entry_state :: "run_record \<Rightarrow> recovery_command \<Rightarrow> recovery_error + unit" where
  "require_entry_state r command =
     raise_if (rr_workflow_state r \<notin> set (RECOVERY_ENTRY_STATES command)) RecoveryRefused (Inr ())"

definition require_reason :: "pystr \<Rightarrow> recovery_error + pystr" where
  "require_reason reason = raise_if (strip reason = []) RecoveryRefused (Inr reason)"

text \<open>\<open>_derive\<close>; the one counter that any command passes is the review budget.\<close>

definition derive_record ::
  "pyenv \<Rightarrow> run_record \<Rightarrow> recovery_command \<Rightarrow> recovery_context \<Rightarrow> pystr option \<Rightarrow> int option \<Rightarrow>
     recovery_error + run_record" where
  "derive_record E r command context current_milestone review_rounds =
     validated E
       (r\<lparr>rr_workflow_state := RECOVERY_POST_STATES command, rr_stop_reason := None,
          rr_current_milestone := current_milestone, rr_updated_at := rq_recorded_at context,
          rr_successful_review_rounds :=
            (case review_rounds of Some n \<Rightarrow> n | None \<Rightarrow> rr_successful_review_rounds r)\<rparr>)"

definition ledger_entry ::
  "pyenv \<Rightarrow> run_record \<Rightarrow> recovery_command \<Rightarrow> pystr \<Rightarrow> recovery_context \<Rightarrow> pystr option \<Rightarrow> (pystr \<times> int) list \<Rightarrow>
     provider_failure_class option \<Rightarrow> pystr option \<Rightarrow> recovery_error + recovery_ledger_entry" where
  "ledger_entry E r command reason context milestone_id budgets_touched classification ruling =
     from_option RecoveryRefused (validate_ledger_entry E
       \<lparr>rl_command = command, rl_reason = reason, rl_recorded_at = rq_recorded_at context,
        rl_pre_state = rr_workflow_state r, rl_post_state = RECOVERY_POST_STATES command,
        rl_branch = rq_branch context, rl_head_sha = rq_head_sha context, rl_milestone_id = milestone_id,
        rl_budgets_touched = budgets_touched, rl_classification = classification,
        rl_human_owner_ruling = ruling\<rparr>)"

definition finish_recovery ::
  "pyenv \<Rightarrow> run_record \<Rightarrow> run_record \<Rightarrow> recovery_ledger_entry \<Rightarrow> recovery_error + run_record" where
  "finish_recovery E previous derived entry =
     rbind (append_recovery_ledger_entry E derived entry) (\<lambda>updated.
     rbind (reject_forbidden_recovery_effect previous updated) (\<lambda>_. Inr updated))"

definition require_untouched_budgets :: "run_record \<Rightarrow> run_record \<Rightarrow> recovery_error + unit" where
  "require_untouched_budgets previous updated =
     raise_if (list_ex (\<lambda>c. counter_value previous c \<noteq> counter_value updated c) COUNTER_FIELDS) RecoveryRefused
     (Inr ())"

section \<open>\<open>reconcile-milestone\<close>\<close>

text \<open>What opening a path without following links yields: whether it is regular, its size and its bytes.\<close>

record opened_file =
  of_regular :: bool
  of_size :: nat
  of_bytes :: bytes

definition digest_of_file :: "pyenv \<Rightarrow> (pystr \<Rightarrow> opened_file option) \<Rightarrow> pystr \<Rightarrow> recovery_error + pystr" where
  "digest_of_file E files path =
     rbind (from_option RecoveryRefused (files path)) (\<lambda>f.
     raise_if (\<not> of_regular f) RecoveryRefused
     (raise_if (of_size f > MAX_RECONCILED_RESULT_BYTES) RecoveryRefused
     (Inr (sha256 E (of_bytes f)))))"

definition reconciled_reason :: "pystr \<Rightarrow> pystr \<Rightarrow> pystr \<Rightarrow> pystr" where
  "reconciled_reason reason milestone_id transcript_digest =
     strip reason @ [10, 10] @ RECONSTRUCTED_FROM_VERIFIED_EVIDENCE @ lit '': the '' @ milestone_id
     @ lit ('' result was reconstructed from the transcript this run persisted, whose SHA-256 is '')
     @ transcript_digest
     @ lit (''. No verification was re-run and no milestone is claimed to have passed; the run returns to ''
            @ ''FOCUSED_VERIFYING, where the deterministic commands decide that.'')"

definition reconcile_milestone ::
  "pyenv \<Rightarrow> run_record \<Rightarrow> pystr \<Rightarrow> pystr \<Rightarrow> pystr \<Rightarrow> pystr \<Rightarrow> recovery_context \<Rightarrow> recovery_error + recovery_outcome" where
  "reconcile_milestone E r milestone_id reason result_digest transcript_digest context =
     rbind (require_entry_state r RECONCILE_MILESTONE) (\<lambda>_.
     rbind (require_reason reason) (\<lambda>_.
     raise_if (rr_current_milestone r \<noteq> Some milestone_id) RecoveryRefused
     (raise_if (milestone_id \<in> set (rr_completed_milestones r)) RecoveryRefused
     (raise_if (result_digest \<noteq> transcript_digest) RecoveryRefused
     (rbind (ledger_entry E r RECONCILE_MILESTONE (reconciled_reason reason milestone_id transcript_digest) context
              (Some milestone_id) [] None None) (\<lambda>entry.
      rbind (derive_record E r RECONCILE_MILESTONE context (Some milestone_id) None) (\<lambda>derived.
      rbind (finish_recovery E r derived entry) (\<lambda>updated.
      rbind (require_untouched_budgets r updated) (\<lambda>_.
      Inr \<lparr>oc_command = RECONCILE_MILESTONE, oc_record = updated, oc_entry = entry, oc_reconstructed = True,
           oc_evidence_digest = Some transcript_digest, oc_corrected_plan = None\<rparr>)))))))))"

section \<open>\<open>reopen-milestone\<close>\<close>

definition corrected_plan_of ::
  "pyenv \<Rightarrow> milestone_plan \<Rightarrow> pystr \<Rightarrow> pystr \<Rightarrow> pystr list \<Rightarrow> recovery_error + milestone_plan" where
  "corrected_plan_of E plan milestone_id ruling required_coverage =
     raise_if (milestone_id \<notin> set (milestone_ids plan)) RecoveryRefused
     (let corrected = plan\<lparr>mp_milestones := map (\<lambda>m.
            if ms_milestone_id m = milestone_id then m\<lparr>ms_human_owner_scope_ruling := Some ruling\<rparr> else m)
            (mp_milestones plan)\<rparr> in
      rbind (map_sum (\<lambda>_. RecoveryValueError) id (covered_paths E corrected)) (\<lambda>covered.
      raise_if (set required_coverage \<noteq> set covered) RecoveryRefused (Inr corrected)))"

definition reopen_milestone ::
  "pyenv \<Rightarrow> run_record \<Rightarrow> pystr \<Rightarrow> pystr \<Rightarrow> pystr \<Rightarrow> recovery_context \<Rightarrow> milestone_plan option \<Rightarrow> pystr list option \<Rightarrow>
     recovery_error + recovery_outcome" where
  "reopen_milestone E r milestone_id reason ruling context corrected_plan required_coverage =
     rbind (require_entry_state r REOPEN_MILESTONE) (\<lambda>_.
     rbind (require_reason reason) (\<lambda>_.
     rbind (require_reason ruling) (\<lambda>_.
     raise_if (milestone_id \<in> set (rr_completed_milestones r)) RecoveryRefused
     (rbind (case (corrected_plan, required_coverage) of
               (Some plan, None) \<Rightarrow> Inl RecoveryRefused
             | (Some plan, Some coverage) \<Rightarrow>
                 map_sum id Some (corrected_plan_of E plan milestone_id ruling coverage)
             | (None, Some coverage) \<Rightarrow> Inl RecoveryRefused
             | (None, None) \<Rightarrow> Inr None) (\<lambda>corrected.
      rbind (ledger_entry E r REOPEN_MILESTONE (strip reason) context (Some milestone_id) [] None (Some (strip ruling)))
        (\<lambda>entry.
      rbind (derive_record E r REOPEN_MILESTONE context (Some milestone_id) None) (\<lambda>derived.
      rbind (finish_recovery E r derived entry) (\<lambda>updated.
      rbind (require_untouched_budgets r updated) (\<lambda>_.
      Inr \<lparr>oc_command = REOPEN_MILESTONE, oc_record = updated, oc_entry = entry, oc_reconstructed = False,
           oc_evidence_digest = None, oc_corrected_plan = corrected\<rparr>)))))))))"

section \<open>\<open>recover-failed-review\<close>\<close>

definition latest_review_invocation :: "run_record \<Rightarrow> recovery_error + provider_run_record" where
  "latest_review_invocation r =
     (let reviews = filter (\<lambda>run. pr_role run = REVIEW) (rr_provider_runs r) in
      raise_if (reviews = []) RecoveryRefused (Inr (last reviews)))"

definition recover_failed_review ::
  "pyenv \<Rightarrow> run_record \<Rightarrow> provider_failure_class \<Rightarrow> pystr \<Rightarrow> pystr \<Rightarrow> recovery_context \<Rightarrow>
     recovery_error + recovery_outcome" where
  "recover_failed_review E r classification ruling reason context =
     rbind (require_entry_state r RECOVER_FAILED_REVIEW) (\<lambda>_.
     rbind (require_reason reason) (\<lambda>_.
     rbind (require_reason ruling) (\<lambda>_.
     raise_if (rr_successful_review_rounds r < 1) RecoveryRefused
     (rbind (latest_review_invocation r) (\<lambda>invocation.
      raise_if (pr_failure_class invocation = None) RecoveryRefused
      (raise_if (pr_failure_class invocation \<noteq> Some classification) RecoveryRefused
      (let restored = rr_successful_review_rounds r - 1 in
       rbind (ledger_entry E r RECOVER_FAILED_REVIEW (strip reason) context (pr_milestone_id invocation)
                [(lit ''successful_review_rounds'', -1)] (Some classification) (Some (strip ruling))) (\<lambda>entry.
       rbind (derive_record E r RECOVER_FAILED_REVIEW context (rr_current_milestone r) (Some restored)) (\<lambda>derived.
       rbind (finish_recovery E r derived entry) (\<lambda>updated.
       raise_if (rr_successful_review_rounds updated \<noteq> restored) RecoveryRefused
       (raise_if (list_ex (\<lambda>c. c \<noteq> F_SUCCESSFUL_REVIEW_ROUNDS \<and> counter_value updated c \<noteq> counter_value r c)
                    COUNTER_FIELDS) RecoveryRefused
       (Inr \<lparr>oc_command = RECOVER_FAILED_REVIEW, oc_record = updated, oc_entry = entry, oc_reconstructed = False,
             oc_evidence_digest = None, oc_corrected_plan = None\<rparr>))))))))))))"

section \<open>\<open>revalidate-correction\<close>\<close>

definition open_finding_ids :: "run_record \<Rightarrow> pystr set" where
  "open_finding_ids r = fd_finding_id ` set (filter (\<lambda>f. fd_status f \<noteq> FS_CLOSED) (rr_blocking_findings r))"

definition revalidate_correction ::
  "pyenv \<Rightarrow> run_record \<Rightarrow> pystr \<Rightarrow> recovery_context \<Rightarrow> pystr list \<Rightarrow> recovery_error + recovery_outcome" where
  "revalidate_correction E r reason context blocker_ids =
     rbind (require_entry_state r REVALIDATE_CORRECTION) (\<lambda>_.
     rbind (require_reason reason) (\<lambda>_.
     raise_if (rr_correction_round r < 1) RecoveryRefused
     (raise_if (\<not> set blocker_ids \<subseteq> open_finding_ids r) RecoveryRefused
     (rbind (ledger_entry E r REVALIDATE_CORRECTION (strip reason) context (rr_current_milestone r) [] None None)
        (\<lambda>entry.
      rbind (derive_record E r REVALIDATE_CORRECTION context (rr_current_milestone r) None) (\<lambda>derived.
      rbind (finish_recovery E r derived entry) (\<lambda>updated.
      rbind (require_untouched_budgets r updated) (\<lambda>_.
      Inr \<lparr>oc_command = REVALIDATE_CORRECTION, oc_record = updated, oc_entry = entry, oc_reconstructed = False,
           oc_evidence_digest = None, oc_corrected_plan = None\<rparr>))))))))"

section \<open>The coordinator\<close>

definition recorded_result_transcript :: "pystr \<Rightarrow> run_record \<Rightarrow> pystr \<Rightarrow> recovery_error + pystr" where
  "recorded_result_transcript run_directory r milestone_id =
     (let attempts = filter (\<lambda>run. pr_milestone_id run = Some milestone_id \<and> pr_role run = IMPLEMENTATION)
            (rr_provider_runs r) in
      raise_if (attempts = []) RecoveryRefused (Inr (slash run_directory (pr_stdout_path (last attempts)))))"

definition reconcile_against_transcript ::
  "pyenv \<Rightarrow> (pystr \<Rightarrow> opened_file option) \<Rightarrow> pystr \<Rightarrow> run_record \<Rightarrow> pystr \<Rightarrow> pystr \<Rightarrow> pystr \<Rightarrow> recovery_context \<Rightarrow>
     recovery_error + recovery_outcome" where
  "reconcile_against_transcript E files run_directory r milestone_id reason result_path context =
     rbind (recorded_result_transcript run_directory r milestone_id) (\<lambda>transcript.
     rbind (digest_of_file E files result_path) (\<lambda>result_digest.
     rbind (digest_of_file E files transcript) (\<lambda>transcript_digest.
     reconcile_milestone E r milestone_id reason result_digest transcript_digest context)))"

text \<open>The four commands of the application's recovery surface, as one step relation.\<close>

inductive recovery_step ::
  "pyenv \<Rightarrow> (pystr \<Rightarrow> opened_file option) \<Rightarrow> pystr \<Rightarrow> run_record \<Rightarrow> recovery_outcome \<Rightarrow> bool"
  for E files run_directory where
  reconciled: "reconcile_against_transcript E files run_directory r milestone_id reason result_path context = Inr outcome
     \<Longrightarrow> recovery_step E files run_directory r outcome"
| reopened: "reopen_milestone E r milestone_id reason ruling context plan coverage = Inr outcome
     \<Longrightarrow> recovery_step E files run_directory r outcome"
| recovered: "recover_failed_review E r classification ruling reason context = Inr outcome
     \<Longrightarrow> recovery_step E files run_directory r outcome"
| revalidated: "revalidate_correction E r reason context blocker_ids = Inr outcome
     \<Longrightarrow> recovery_step E files run_directory r outcome"

end
