(* ===== verification/Recovery_Facts.thy ===== *)
theory Recovery_Facts
  imports Recovery
begin

text \<open>
  What a recovery command does to a record that satisfies the schema: exactly the four declared fields and
  one ledger entry change, so every check of the closing constraint passes whenever the guards do; and what
  follows for the budgets, the findings and repeated recoveries.
\<close>

section \<open>Records that are their own normal form\<close>

abbreviation canonical_record :: "pyenv \<Rightarrow> run_record \<Rightarrow> bool" where
  "canonical_record E r \<equiv> validate_run_record E r = Some r"

text \<open>The parts of a record that a validation may rewrite are those of another record.\<close>

definition same_parts :: "run_record \<Rightarrow> run_record \<Rightarrow> bool" where
  "same_parts r s \<longleftrightarrow>
     rr_milestone_checkpoints s = rr_milestone_checkpoints r \<and> rr_changed_paths s = rr_changed_paths r
     \<and> rr_provider_runs s = rr_provider_runs r \<and> rr_verification_results s = rr_verification_results r
     \<and> rr_approvals s = rr_approvals r \<and> rr_blocking_findings s = rr_blocking_findings r
     \<and> rr_deferred_findings s = rr_deferred_findings r"

lemma validate_same_parts:
  assumes "canonical_record E r" and "same_parts r s" and "validate_run_record E s = Some t"
  shows "t = s"
proof -
  note p = validate_run_record_parts [OF assms(1)] validate_run_record_parts [OF assms(3)]
    validate_run_record_frame [OF assms(3)] validate_run_record_ledgers [OF assms(3)]
  show ?thesis
    by (rule run_record.equality) (use p assms(2) in \<open>simp_all add: same_parts_def\<close>)
qed

lemma ledger_entries_kept:
  "list_all (\<lambda>l. validate_ledger_entry E l = Some l) ls \<Longrightarrow> map_opt (validate_ledger_entry E) ls = Some ls"
  by (induction ls) auto

lemma map_opt_ledgers: "map_opt (validate_ledger_entry E) ls = Some ks \<Longrightarrow> list_all (\<lambda>l. validate_ledger_entry E l = Some l) ls"
  by (induction ls arbitrary: ks) (auto split: option.splits dest: validate_ledger_entry_id)

lemma validate_kept:
  assumes "canonical_record E r" and "same_parts r s" and "scalar_fields_ok E s" and "record_consistent s"
    and ledgers: "\<forall>n. list_all (\<lambda>l. validate_ledger_entry E l = Some l) (ledger_of n s)"
  shows "canonical_record E s"
proof -
  note p = validate_run_record_parts [OF assms(1)]
  have l: "map_opt (validate_ledger_entry E) (rr_reconciliations s) = Some (rr_reconciliations s)"
    "map_opt (validate_ledger_entry E) (rr_reopenings s) = Some (rr_reopenings s)"
    "map_opt (validate_ledger_entry E) (rr_review_recoveries s) = Some (rr_review_recoveries s)"
    "map_opt (validate_ledger_entry E) (rr_revalidations s) = Some (rr_revalidations s)"
    using ledgers [rule_format, of L_RECONCILIATIONS] ledgers [rule_format, of L_REOPENINGS]
      ledgers [rule_format, of L_REVIEW_RECOVERIES] ledgers [rule_format, of L_REVALIDATIONS]
    by (simp_all add: ledger_entries_kept)
  have "validate_run_record E s \<noteq> None"
    using p l assms(2-4) by (simp add: validate_run_record_def same_parts_def Let_def record_consistent_def)
  then obtain t where t: "validate_run_record E s = Some t" by blast
  then show ?thesis using validate_same_parts [OF assms(1,2) t] by simp
qed

lemma canonical_ledgers:
  "canonical_record E r \<Longrightarrow> list_all (\<lambda>l. validate_ledger_entry E l = Some l) (ledger_of n r)"
  using validate_run_record_parts [of E r r] by (cases n) (auto dest: map_opt_ledgers)

lemma set_ledger_each [simp]:
  "ledger_of m (set_ledger n es r) = (if n = m then es else ledger_of m r)"
  by (cases n; cases m) simp_all

lemma set_ledger_parts [simp]:
  "rr_workflow_state (set_ledger n es r) = rr_workflow_state r"
  "rr_stop_reason (set_ledger n es r) = rr_stop_reason r"
  "rr_current_milestone (set_ledger n es r) = rr_current_milestone r"
  "rr_updated_at (set_ledger n es r) = rr_updated_at r"
  "scalar_fields_ok E (set_ledger n es r) = scalar_fields_ok E r"
  "immovable_equal p (set_ledger n es r) = immovable_equal p r"
  "same_parts p (set_ledger n es r) = same_parts p r"
  by (cases n; simp add: scalar_fields_ok_def immovable_equal_def same_parts_def)+

lemma set_ledger_counters [simp]: "counter_value (set_ledger n es r) = counter_value r"
  by (rule ext, rename_tac f, case_tac f; cases n; simp add: counter_value_def)

section \<open>One recovery\<close>

definition recovered ::
  "run_record \<Rightarrow> recovery_ledger_entry \<Rightarrow> pystr option \<Rightarrow> int option \<Rightarrow> run_record" where
  "recovered r entry milestone rounds =
     (let field = RECOVERY_LEDGER_FIELDS (rl_command entry) in
      set_ledger field (ledger_of field r @ [entry])
        (r\<lparr>rr_workflow_state := rl_post_state entry, rr_stop_reason := None, rr_current_milestone := milestone,
           rr_updated_at := rl_recorded_at entry,
           rr_successful_review_rounds := (case rounds of Some n \<Rightarrow> n | None \<Rightarrow> rr_successful_review_rounds r)\<rparr>))"

text \<open>The record a command derives before its entry is appended.\<close>

abbreviation stepped ::
  "run_record \<Rightarrow> recovery_ledger_entry \<Rightarrow> pystr option \<Rightarrow> int option \<Rightarrow> run_record" where
  "stepped r entry milestone rounds \<equiv>
     r\<lparr>rr_workflow_state := rl_post_state entry, rr_stop_reason := None, rr_current_milestone := milestone,
       rr_updated_at := rl_recorded_at entry,
       rr_successful_review_rounds := (case rounds of Some n \<Rightarrow> n | None \<Rightarrow> rr_successful_review_rounds r)\<rparr>"

lemma ledger_entry_Inr:
  assumes "ledger_entry E r command reason context milestone budgets classification ruling = Inr e"
  shows "e = \<lparr>rl_command = command, rl_reason = reason, rl_recorded_at = rq_recorded_at context,
        rl_pre_state = rr_workflow_state r, rl_post_state = RECOVERY_POST_STATES command,
        rl_branch = rq_branch context, rl_head_sha = rq_head_sha context, rl_milestone_id = milestone,
        rl_budgets_touched = budgets, rl_classification = classification, rl_human_owner_ruling = ruling\<rparr>"
    and "validate_ledger_entry E e = Some e"
  using assms validate_ledger_entry_id unfolding ledger_entry_def from_option_Inr by metis+

lemma post_state_plain:
  "RECOVERY_POST_STATES command \<notin> {HUMAN_INTERVENTION_REQUIRED, MILESTONE_FAILED, DONE}"
  "RECOVERY_POST_STATES command \<notin> set FORBIDDEN_RECOVERY_POST_STATES"
  by (cases command; simp add: FORBIDDEN_RECOVERY_POST_STATES_def)+

lemma stepped_canonical:
  assumes r: "canonical_record E r" and e: "validate_ledger_entry E e = Some e"
    and m: "milestone \<in> {rr_current_milestone r, rl_milestone_id e}" and n: "pred_option (\<lambda>n. 0 \<le> n) rounds"
    and post: "rl_post_state e \<notin> {HUMAN_INTERVENTION_REQUIRED, DONE}"
  shows "canonical_record E (stepped r e milestone rounds)"
proof -
  let ?s = "stepped r e milestone rounds"
  note p = validate_run_record_parts [OF r]
  have e': "utc_timestamp (rl_recorded_at e)" "pred_option (identifier_field E milestone_id_grammar) (rl_milestone_id e)"
    using e by (auto simp: validate_ledger_entry_def)
  have sc: "scalar_fields_ok E r" and co: "record_consistent r" using p by blast+
  have cur: "pred_option (identifier_field E milestone_id_grammar) milestone"
    using m e'(2) sc by (auto simp: scalar_fields_ok_def)
  show ?thesis
  proof (rule validate_kept [OF r])
    show "same_parts r ?s" by (simp add: same_parts_def)
    show "scalar_fields_ok E ?s" using sc cur e'(1) n unfolding scalar_fields_ok_def by (cases rounds) simp_all
    show "record_consistent ?s" using co post unfolding record_consistent_def by simp
    show "\<forall>n. list_all (\<lambda>l. validate_ledger_entry E l = Some l) (ledger_of n ?s)"
    proof
      fix n
      show "list_all (\<lambda>l. validate_ledger_entry E l = Some l) (ledger_of n ?s)"
        using canonical_ledgers [OF r, of n] by (cases n) simp_all
    qed
  qed
qed

lemma appended_canonical:
  assumes r: "canonical_record E r" and e: "validate_ledger_entry E e = Some e"
  shows "canonical_record E (set_ledger (RECOVERY_LEDGER_FIELDS (rl_command e))
    (ledger_of (RECOVERY_LEDGER_FIELDS (rl_command e)) r @ [e]) r)" (is "canonical_record E ?s")
proof (rule validate_kept [OF r])
  note p = validate_run_record_parts [OF r]
  show "same_parts r ?s" by simp (simp add: same_parts_def)
  show "scalar_fields_ok E ?s" using p by simp
  show "record_consistent ?s"
    using p unfolding record_consistent_def by (cases "rl_command e") simp_all
  show "\<forall>n. list_all (\<lambda>l. validate_ledger_entry E l = Some l) (ledger_of n ?s)"
    using canonical_ledgers [OF r] e by simp
qed

lemma ledger_growth_append:
  "distinct fs \<Longrightarrow> ledger_growth r (set_ledger f (ledger_of f r @ [e]) s) fs n
     = (if \<forall>g \<in> set fs. g \<noteq> f \<longrightarrow> ledger_of g s = ledger_of g r then Inr (n + (if f \<in> set fs then 1 else 0))
        else ledger_growth r (set_ledger f (ledger_of f r @ [e]) s) fs n)"
  by (induction fs arbitrary: n) (auto simp: Let_def)

lemma recovery_ledgers_all: "distinct recovery_ledgers" "f \<in> set recovery_ledgers"
  by (cases f; simp add: recovery_ledgers_def)+

lemma append_not_rewrite:
  assumes "\<forall>g. g \<noteq> f \<longrightarrow> ledger_of g s = ledger_of g r"
  shows "reject_ledger_rewrite r (set_ledger f (ledger_of f r @ [e]) s) = Inr ()"
  using ledger_growth_append [OF recovery_ledgers_all(1), of r f e s 0] recovery_ledgers_all(2) [of f] assms
  by (simp add: reject_ledger_rewrite_def)

text \<open>The closing constraint never refuses what a command derived: nothing it forbids has a way in.\<close>

lemma recovery_core:
  assumes r: "canonical_record E r"
    and e: "ledger_entry E r command reason context mid budgets classification ruling = Inr e"
    and m: "milestone \<in> {rr_current_milestone r, mid}"
    and n: "pred_option (\<lambda>n. 0 \<le> n \<and> n \<le> rr_successful_review_rounds r) rounds"
  shows "derive_record E r command context milestone rounds = Inr (stepped r e milestone rounds)"
    and "finish_recovery E r (stepped r e milestone rounds) e =
      (if e \<in> set (ledger_of (RECOVERY_LEDGER_FIELDS command) r) then Inl RecoveryRefused
       else Inr (recovered r e milestone rounds))"
    and "canonical_record E (recovered r e milestone rounds)"
proof -
  define s f where "s = stepped r e milestone rounds" and "f = RECOVERY_LEDGER_FIELDS command"
  note ee = ledger_entry_Inr [OF e]
  have fields: "rl_command e = command" "rl_post_state e = RECOVERY_POST_STATES command"
    "rl_recorded_at e = rq_recorded_at context" "rl_milestone_id e = mid"
    unfolding ee(1) by simp_all
  have s: "canonical_record E s"
    unfolding s_def by (rule stepped_canonical [OF r ee(2)])
      (use m n post_state_plain(1) [of command] fields in \<open>auto elim: option.pred_mono_strong\<close>)
  have "derive_record E r command context milestone rounds = from_option RecoveryRefused (validate_run_record E s)"
    by (simp add: derive_record_def validated_def s_def fields)
  then show "derive_record E r command context milestone rounds = Inr (stepped r e milestone rounds)"
    using s by (simp add: s_def)
  have same: "ledger_of g s = ledger_of g r" for g by (cases g) (simp_all add: s_def)
  define u where "u = set_ledger f (ledger_of f r @ [e]) s"
  have u: "recovered r e milestone rounds = u"
    by (simp add: recovered_def fields Let_def u_def s_def f_def)
  have a: "canonical_record E u"
    using appended_canonical [OF s ee(2), unfolded fields(1) same, folded f_def] by (simp add: u_def)
  then show "canonical_record E (recovered r e milestone rounds)" unfolding u .
  have w: "reject_ledger_rewrite s u = Inr ()" "reject_ledger_rewrite r u = Inr ()"
    using append_not_rewrite [of f s s e] append_not_rewrite [of f s r e] by (simp_all add: same u_def)
  have "counter_value u c \<le> counter_value r c" for c
    using n by (cases c; cases rounds) (simp_all add: u_def s_def counter_value_def)
  then have "\<not> list_ex (\<lambda>c. counter_value u c > counter_value r c) COUNTER_FIELDS"
    by (simp add: list_ex_iff not_less)
  moreover have "immovable_equal r u" by (simp add: u_def s_def) (simp add: immovable_equal_def)
  moreover have "rr_workflow_state u \<notin> set FORBIDDEN_RECOVERY_POST_STATES"
    using post_state_plain(2) [of command] by (simp add: u_def s_def fields)
  ultimately have "reject_forbidden_recovery_effect r u = Inr ()"
    using w(2) by (simp add: reject_forbidden_recovery_effect_def)
  then have "finish_recovery E r s e = (if e \<in> set (ledger_of f r) then Inl RecoveryRefused else Inr u)"
    using a w(1)
    by (simp add: finish_recovery_def append_recovery_ledger_entry_def validated_def fields(1) same Let_def f_def u_def)
  then show "finish_recovery E r (stepped r e milestone rounds) e =
      (if e \<in> set (ledger_of (RECOVERY_LEDGER_FIELDS command) r) then Inl RecoveryRefused
       else Inr (recovered r e milestone rounds))"
    unfolding u s_def f_def .
qed

section \<open>The four commands\<close>

lemma require_entry_state_Inr [simp]:
  "require_entry_state r command = Inr u \<longleftrightarrow> rr_workflow_state r \<in> set (RECOVERY_ENTRY_STATES command)"
  by (simp add: require_entry_state_def)

lemma require_reason_Inr: "require_reason reason = Inr u \<longleftrightarrow> strip reason \<noteq> [] \<and> u = reason"
  by (auto simp: require_reason_def)

text \<open>The restored budget of a command, as \<open>derive_record\<close> takes it.\<close>

definition restored_rounds :: "recovery_command \<Rightarrow> run_record \<Rightarrow> int option" where
  "restored_rounds command r =
     (if command = RECOVER_FAILED_REVIEW then Some (rr_successful_review_rounds r - 1) else None)"

definition recovers :: "pyenv \<Rightarrow> run_record \<Rightarrow> recovery_outcome \<Rightarrow> bool" where
  "recovers E r outcome \<longleftrightarrow>
     (let e = oc_entry outcome; command = oc_command outcome in
      rr_workflow_state r \<in> set (RECOVERY_ENTRY_STATES command)
      \<and> rl_command e = command \<and> rl_pre_state e = rr_workflow_state r
      \<and> rl_post_state e = RECOVERY_POST_STATES command \<and> validate_ledger_entry E e = Some e
      \<and> e \<notin> set (ledger_of (RECOVERY_LEDGER_FIELDS command) r)
      \<and> rl_budgets_touched e
          = (if command = RECOVER_FAILED_REVIEW then [(lit ''successful_review_rounds'', -1)] else [])
      \<and> (command = RECOVER_FAILED_REVIEW \<longrightarrow> 0 < rr_successful_review_rounds r)
      \<and> (\<exists>milestone \<in> {rr_current_milestone r, rl_milestone_id e}.
           oc_record outcome = recovered r e milestone (restored_rounds command r))
      \<and> canonical_record E (oc_record outcome))"

text \<open>What every command does once its own guards have passed.\<close>

lemma command_recovers:
  assumes r: "canonical_record E r" and state: "rr_workflow_state r \<in> set (RECOVERY_ENTRY_STATES command)"
    and e: "ledger_entry E r command reason context mid
      (if command = RECOVER_FAILED_REVIEW then [(lit ''successful_review_rounds'', -1)] else []) classification ruling = Inr e"
    and m: "milestone \<in> {rr_current_milestone r, mid}"
    and n: "command = RECOVER_FAILED_REVIEW \<longrightarrow> 0 < rr_successful_review_rounds r"
    and d: "derive_record E r command context milestone (restored_rounds command r) = Inr derived"
    and f: "finish_recovery E r derived e = Inr updated"
    and outs: "oc_command out = command" "oc_record out = updated" "oc_entry out = e"
  shows "recovers E r out" and "updated = recovered r e milestone (restored_rounds command r)"
    and "e \<notin> set (ledger_of (RECOVERY_LEDGER_FIELDS command) r)"
proof -
  have n': "pred_option (\<lambda>k. 0 \<le> k \<and> k \<le> rr_successful_review_rounds r) (restored_rounds command r)"
    using n by (simp add: restored_rounds_def)
  note core = recovery_core [OF r e m n']
  note ee = ledger_entry_Inr [OF e]
  have u: "e \<notin> set (ledger_of (RECOVERY_LEDGER_FIELDS command) r)"
    "updated = recovered r e milestone (restored_rounds command r)"
    using d f core(1,2) by (auto split: if_splits)
  show "updated = recovered r e milestone (restored_rounds command r)" by (rule u(2))
  show "e \<notin> set (ledger_of (RECOVERY_LEDGER_FIELDS command) r)" by (rule u(1))
  have mm: "milestone \<in> {rr_current_milestone r, rl_milestone_id e}" using m unfolding ee(1) by simp
  have parts: "rl_command e = command" "rl_pre_state e = rr_workflow_state r"
    "rl_post_state e = RECOVERY_POST_STATES command" "rl_budgets_touched e
        = (if command = RECOVER_FAILED_REVIEW then [(lit ''successful_review_rounds'', -1)] else [])"
    unfolding ee(1) by simp_all
  show "recovers E r out"
    unfolding recovers_def Let_def outs parts(1-4)
    using state ee(2) u(1) n core(3) u(2) mm by auto
qed

lemma reconcile_milestone_recovers:
  assumes "canonical_record E r" and "reconcile_milestone E r mid reason rd td context = Inr out"
  shows "recovers E r out" and "rd = td" and "rr_current_milestone r = Some mid"
proof -
  from assms(2) obtain e derived updated where a:
    "rr_workflow_state r \<in> set (RECOVERY_ENTRY_STATES RECONCILE_MILESTONE)"
    "rr_current_milestone r = Some mid" "rd = td"
    "ledger_entry E r RECONCILE_MILESTONE (reconciled_reason reason mid td) context (Some mid) [] None None = Inr e"
    "derive_record E r RECONCILE_MILESTONE context (Some mid) None = Inr derived"
    "finish_recovery E r derived e = Inr updated"
    "\<lparr>oc_command = RECONCILE_MILESTONE, oc_record = updated, oc_entry = e, oc_reconstructed = True,
      oc_evidence_digest = Some td, oc_corrected_plan = None\<rparr> = out"
    unfolding reconcile_milestone_def raise_if_Inr rbind_Inr require_entry_state_Inr sum.inject
    by (elim exE conjE) (rule that, (assumption | simp)+)
  show "rd = td" "rr_current_milestone r = Some mid" by (rule a)+
  show "recovers E r out"
    by (rule command_recovers(1) [OF assms(1) a(1), where derived = derived and updated = updated and e = e])
      (use a in \<open>auto simp: restored_rounds_def\<close>)
qed

lemma reopen_milestone_recovers:
  assumes "canonical_record E r" and "reopen_milestone E r mid reason ruling context plan coverage = Inr out"
  shows "recovers E r out" and "mid \<notin> set (rr_completed_milestones r)"
proof -
  from assms(2) obtain e derived updated corrected where a:
    "rr_workflow_state r \<in> set (RECOVERY_ENTRY_STATES REOPEN_MILESTONE)" "mid \<notin> set (rr_completed_milestones r)"
    "ledger_entry E r REOPEN_MILESTONE (strip reason) context (Some mid) [] None (Some (strip ruling)) = Inr e"
    "derive_record E r REOPEN_MILESTONE context (Some mid) None = Inr derived"
    "finish_recovery E r derived e = Inr updated"
    "\<lparr>oc_command = REOPEN_MILESTONE, oc_record = updated, oc_entry = e, oc_reconstructed = False,
      oc_evidence_digest = None, oc_corrected_plan = corrected\<rparr> = out"
    unfolding reopen_milestone_def raise_if_Inr rbind_Inr require_entry_state_Inr sum.inject
    by (elim exE conjE) (rule that, (assumption | simp)+)
  show "mid \<notin> set (rr_completed_milestones r)" by (rule a)
  show "recovers E r out"
    by (rule command_recovers(1) [OF assms(1) a(1), where derived = derived and updated = updated and e = e])
      (use a in \<open>auto simp: restored_rounds_def\<close>)
qed

lemma revalidate_correction_recovers:
  assumes "canonical_record E r" and "revalidate_correction E r reason context ids = Inr out"
  shows "recovers E r out" and "set ids \<subseteq> open_finding_ids r" and "1 \<le> rr_correction_round r"
proof -
  from assms(2) obtain e derived updated where a:
    "rr_workflow_state r \<in> set (RECOVERY_ENTRY_STATES REVALIDATE_CORRECTION)"
    "\<not> rr_correction_round r < 1" "set ids \<subseteq> open_finding_ids r"
    "ledger_entry E r REVALIDATE_CORRECTION (strip reason) context (rr_current_milestone r) [] None None = Inr e"
    "derive_record E r REVALIDATE_CORRECTION context (rr_current_milestone r) None = Inr derived"
    "finish_recovery E r derived e = Inr updated"
    "\<lparr>oc_command = REVALIDATE_CORRECTION, oc_record = updated, oc_entry = e, oc_reconstructed = False,
      oc_evidence_digest = None, oc_corrected_plan = None\<rparr> = out"
    unfolding revalidate_correction_def raise_if_Inr rbind_Inr require_entry_state_Inr not_not sum.inject
    by (elim exE conjE) (rule that, (assumption | simp)+)
  show "set ids \<subseteq> open_finding_ids r" "1 \<le> rr_correction_round r" using a(2,3) by simp_all
  show "recovers E r out"
    by (rule command_recovers(1) [OF assms(1) a(1), where derived = derived and updated = updated and e = e])
      (use a in \<open>auto simp: restored_rounds_def\<close>)
qed

text \<open>\<open>recover-failed-review\<close> is exact: it succeeds when its guards hold, the other checks never refuse.\<close>

lemma recovered_counters:
  "counter_value (recovered r e milestone rounds) c =
     (if c = F_SUCCESSFUL_REVIEW_ROUNDS then (case rounds of Some n \<Rightarrow> n | None \<Rightarrow> rr_successful_review_rounds r)
      else counter_value r c)"
  by (cases c) (simp_all add: recovered_def Let_def counter_value_def)

lemma recover_failed_review_Inr:
  assumes r: "canonical_record E r"
  shows "recover_failed_review E r classification ruling reason context = Inr out \<longleftrightarrow>
    rr_workflow_state r = HUMAN_INTERVENTION_REQUIRED \<and> strip reason \<noteq> [] \<and> strip ruling \<noteq> []
    \<and> 1 \<le> rr_successful_review_rounds r
    \<and> (\<exists>invocation e. latest_review_invocation r = Inr invocation \<and> pr_failure_class invocation = Some classification
         \<and> ledger_entry E r RECOVER_FAILED_REVIEW (strip reason) context (pr_milestone_id invocation)
              [(lit ''successful_review_rounds'', -1)] (Some classification) (Some (strip ruling)) = Inr e
         \<and> e \<notin> set (rr_review_recoveries r)
         \<and> out = \<lparr>oc_command = RECOVER_FAILED_REVIEW,
                  oc_record = recovered r e (rr_current_milestone r) (Some (rr_successful_review_rounds r - 1)),
                  oc_entry = e, oc_reconstructed = False, oc_evidence_digest = None, oc_corrected_plan = None\<rparr>)"
    (is "?L \<longleftrightarrow> ?R")
proof -
  let ?n = "Some (rr_successful_review_rounds r - 1)"
  have counters: "\<not> list_ex (\<lambda>c. c \<noteq> F_SUCCESSFUL_REVIEW_ROUNDS
      \<and> counter_value (recovered r e m rounds) c \<noteq> counter_value r c) COUNTER_FIELDS" for e m rounds
    by (simp add: list_ex_iff recovered_counters)
  have rounds: "rr_successful_review_rounds (recovered r e m ?n) = rr_successful_review_rounds r - 1" for e m
    using recovered_counters [of r e m ?n F_SUCCESSFUL_REVIEW_ROUNDS] by (simp add: counter_value_def)
  have core: "derive_record E r RECOVER_FAILED_REVIEW context (rr_current_milestone r) ?n
        = Inr (stepped r e (rr_current_milestone r) ?n)"
    "finish_recovery E r (stepped r e (rr_current_milestone r) ?n) e =
      (if e \<in> set (rr_review_recoveries r) then Inl RecoveryRefused else Inr (recovered r e (rr_current_milestone r) ?n))"
    if "ledger_entry E r RECOVER_FAILED_REVIEW (strip reason) context mid [(lit ''successful_review_rounds'', -1)]
       (Some classification) (Some (strip ruling)) = Inr e" "1 \<le> rr_successful_review_rounds r" for e mid
    using recovery_core(1,2) [OF r that(1), of "rr_current_milestone r" ?n] that(2) by simp_all
  show ?thesis
  proof
    assume ?L
    then obtain invocation e derived updated where a:
      "rr_workflow_state r \<in> set (RECOVERY_ENTRY_STATES RECOVER_FAILED_REVIEW)" "strip reason \<noteq> []" "strip ruling \<noteq> []"
      "1 \<le> rr_successful_review_rounds r" "latest_review_invocation r = Inr invocation"
      "pr_failure_class invocation = Some classification"
      "ledger_entry E r RECOVER_FAILED_REVIEW (strip reason) context (pr_milestone_id invocation)
         [(lit ''successful_review_rounds'', -1)] (Some classification) (Some (strip ruling)) = Inr e"
      "derive_record E r RECOVER_FAILED_REVIEW context (rr_current_milestone r) ?n = Inr derived"
      "finish_recovery E r derived e = Inr updated"
      "out = \<lparr>oc_command = RECOVER_FAILED_REVIEW, oc_record = updated, oc_entry = e, oc_reconstructed = False,
         oc_evidence_digest = None, oc_corrected_plan = None\<rparr>"
      unfolding recover_failed_review_def raise_if_Inr rbind_Inr require_entry_state_Inr require_reason_Inr Let_def
        sum.inject
      by (elim exE conjE) (rule that, (assumption | simp)+)
    then show ?R using core [OF a(7) a(4)] by (auto split: if_splits)
  next
    assume ?R
    then obtain invocation e where a: "rr_workflow_state r = HUMAN_INTERVENTION_REQUIRED" "strip reason \<noteq> []"
      "strip ruling \<noteq> []" "1 \<le> rr_successful_review_rounds r" "latest_review_invocation r = Inr invocation"
      "pr_failure_class invocation = Some classification"
      "ledger_entry E r RECOVER_FAILED_REVIEW (strip reason) context (pr_milestone_id invocation)
         [(lit ''successful_review_rounds'', -1)] (Some classification) (Some (strip ruling)) = Inr e"
      "e \<notin> set (rr_review_recoveries r)"
      and out: "out = \<lparr>oc_command = RECOVER_FAILED_REVIEW, oc_record = recovered r e (rr_current_milestone r) ?n,
         oc_entry = e, oc_reconstructed = False, oc_evidence_digest = None, oc_corrected_plan = None\<rparr>"
      by blast
    show ?L
      unfolding recover_failed_review_def Let_def
      using a core [OF a(7) a(4)] counters rounds
      by (simp add: require_entry_state_def require_reason_def out)
  qed
qed

lemma recover_failed_review_recovers:
  assumes "canonical_record E r" and "recover_failed_review E r classification ruling reason context = Inr out"
  shows "recovers E r out"
proof -
  from assms(2)[unfolded recover_failed_review_Inr [OF assms(1)]] obtain invocation e where a:
    "rr_workflow_state r = HUMAN_INTERVENTION_REQUIRED" "1 \<le> rr_successful_review_rounds r"
    "latest_review_invocation r = Inr invocation"
    "ledger_entry E r RECOVER_FAILED_REVIEW (strip reason) context (pr_milestone_id invocation)
       [(lit ''successful_review_rounds'', -1)] (Some classification) (Some (strip ruling)) = Inr e"
    "e \<notin> set (rr_review_recoveries r)"
    and out: "out = \<lparr>oc_command = RECOVER_FAILED_REVIEW,
      oc_record = recovered r e (rr_current_milestone r) (Some (rr_successful_review_rounds r - 1)),
      oc_entry = e, oc_reconstructed = False, oc_evidence_digest = None, oc_corrected_plan = None\<rparr>"
    by (elim exE conjE) (rule that, assumption+)
  show ?thesis
    by (rule command_recovers(1) [OF assms(1), where command = RECOVER_FAILED_REVIEW and e = e
          and milestone = "rr_current_milestone r" and mid = "pr_milestone_id invocation"])
      (use a out recovery_core(1,2) [OF assms(1) a(4), of "rr_current_milestone r" "Some (rr_successful_review_rounds r - 1)"]
        in \<open>auto simp: restored_rounds_def\<close>)
qed

lemma recovery_step_recovers:
  assumes "canonical_record E r" and "recovery_step E files directory r out"
  shows "recovers E r out"
  using assms(2)
proof cases
  case (reconciled milestone_id reason result_path ctx)
  then obtain rd td where "reconcile_milestone E r milestone_id reason rd td ctx = Inr out"
    by (auto simp: reconcile_against_transcript_def)
  then show ?thesis by (rule reconcile_milestone_recovers(1) [OF assms(1)])
next
  case (reopened milestone_id reason ruling ctx plan coverage)
  then show ?thesis using reopen_milestone_recovers(1) [OF assms(1)] by blast
next
  case (recovered classification ruling reason ctx)
  then show ?thesis using recover_failed_review_recovers [OF assms(1)] by blast
next
  case (revalidated reason ctx blocker_ids)
  then show ?thesis using revalidate_correction_recovers(1) [OF assms(1)] by blast
qed

section \<open>Consequences\<close>

lemma recovers_record:
  assumes "recovers E r out"
  shows "rr_workflow_state (oc_record out) = RECOVERY_POST_STATES (oc_command out)"
    and "rr_stop_reason (oc_record out) = None"
    and "ledger_of g (oc_record out)
      = ledger_of g r @ (if g = RECOVERY_LEDGER_FIELDS (oc_command out) then [oc_entry out] else [])"
    and "counter_value (oc_record out) c
      = counter_value r c - (if oc_command out = RECOVER_FAILED_REVIEW \<and> c = F_SUCCESSFUL_REVIEW_ROUNDS then 1 else 0)"
    and "immovable_equal r (oc_record out)"
    and "rr_verification_results (oc_record out) = rr_verification_results r"
    and "rr_milestone_checkpoints (oc_record out) = rr_milestone_checkpoints r"
    and "rr_policy_digest (oc_record out) = rr_policy_digest r"
    and "rr_stage_start_id (oc_record out) = rr_stage_start_id r"
proof -
  from assms obtain milestone where u: "oc_record out = recovered r (oc_entry out) milestone (restored_rounds (oc_command out) r)"
    and e: "rl_command (oc_entry out) = oc_command out"
      "rl_post_state (oc_entry out) = RECOVERY_POST_STATES (oc_command out)"
    by (auto simp: recovers_def Let_def)
  let ?f = "RECOVERY_LEDGER_FIELDS (oc_command out)"
  have s: "oc_record out = set_ledger ?f (ledger_of ?f r @ [oc_entry out])
      (stepped r (oc_entry out) milestone (restored_rounds (oc_command out) r))" (is "_ = set_ledger ?f ?es ?s")
    unfolding u by (simp add: recovered_def e Let_def)
  have same: "ledger_of g ?s = ledger_of g r" for g by (cases g) simp_all
  show "rr_workflow_state (oc_record out) = RECOVERY_POST_STATES (oc_command out)" "rr_stop_reason (oc_record out) = None"
    unfolding s by (simp_all add: e)
  show "ledger_of g (oc_record out) = ledger_of g r @ (if g = ?f then [oc_entry out] else [])"
    unfolding s by (simp add: same)
  show "counter_value (oc_record out) c
      = counter_value r c - (if oc_command out = RECOVER_FAILED_REVIEW \<and> c = F_SUCCESSFUL_REVIEW_ROUNDS then 1 else 0)"
    unfolding u recovered_counters by (simp add: restored_rounds_def counter_value_def)
  show "immovable_equal r (oc_record out)" unfolding s by simp (simp add: immovable_equal_def)
  show "rr_verification_results (oc_record out) = rr_verification_results r"
    "rr_milestone_checkpoints (oc_record out) = rr_milestone_checkpoints r"
    "rr_policy_digest (oc_record out) = rr_policy_digest r" "rr_stage_start_id (oc_record out) = rr_stage_start_id r"
    unfolding s by (cases "oc_command out"; simp)+
qed

text \<open>No command accepts what a command produced: between two recoveries the run has to stop again.\<close>

lemma no_second_recovery:
  assumes "recovers E r out"
  shows "\<not> recovery_step E files directory (oc_record out) again"
proof
  assume s: "recovery_step E files directory (oc_record out) again"
  have "canonical_record E (oc_record out)" using assms by (simp add: recovers_def Let_def)
  from recovery_step_recovers [OF this s]
  have "rr_workflow_state (oc_record out) \<in> set (RECOVERY_ENTRY_STATES (oc_command again))"
    by (simp add: recovers_def Let_def)
  then show False
    using recovers_record(1) [OF assms] post_state_plain(1) [of "oc_command out"]
    by (cases "oc_command again") auto
qed

end
