(* ===== verification/Record_Decoding.thy ===== *)
theory Record_Decoding
  imports Run_Record_Json
begin

text \<open>
  \<open>model_validate_json\<close> of the run record and of its nested models: closed objects whose fields are read
  strictly, with the defaults of the source. The field and model validators run afterwards, so that a
  document is read as \<open>decode\<close> followed by \<open>validate\<close>. Reading gives back what was dumped.
\<close>

section \<open>Reading JSON values strictly\<close>

fun as_str :: "json \<Rightarrow> pystr option" where
  "as_str (JStr v) = Some v"
| "as_str _ = None"

fun as_int :: "json \<Rightarrow> int option" where
  "as_int (JInt i) = Some i"
| "as_int _ = None"

fun as_bool :: "json \<Rightarrow> bool option" where
  "as_bool (JBool b) = Some b"
| "as_bool _ = None"

fun as_optional :: "(json \<Rightarrow> 'a option) \<Rightarrow> json \<Rightarrow> 'a option option" where
  "as_optional reader JNull = Some None"
| "as_optional reader v = map_option Some (reader v)"

fun as_list :: "(json \<Rightarrow> 'a option) \<Rightarrow> json \<Rightarrow> 'a list option" where
  "as_list reader (JList vs) = map_opt reader vs"
| "as_list reader _ = None"

fun as_dict :: "(json \<Rightarrow> 'a option) \<Rightarrow> json \<Rightarrow> (pystr \<times> 'a) list option" where
  "as_dict reader (JObj kvs) = map_opt (\<lambda>(k, v). map_option (Pair k) (reader v)) kvs"
| "as_dict reader _ = None"

definition as_enum :: "('a \<Rightarrow> pystr) \<Rightarrow> 'a list \<Rightarrow> json \<Rightarrow> 'a option" where
  "as_enum value members v = Option.bind (as_str v) (\<lambda>s. find (\<lambda>m. value m = s) members)"

definition json_field :: "(pystr \<times> json) list \<Rightarrow> string \<Rightarrow> (json \<Rightarrow> 'a option) \<Rightarrow> 'a option" where
  "json_field kvs name reader = Option.bind (map_of kvs (lit name)) reader"

definition json_field_or :: "'a \<Rightarrow> (pystr \<times> json) list \<Rightarrow> string \<Rightarrow> (json \<Rightarrow> 'a option) \<Rightarrow> 'a option" where
  "json_field_or value kvs name reader = (case map_of kvs (lit name) of None \<Rightarrow> Some value | Some v \<Rightarrow> reader v)"

text \<open>\<open>extra="forbid"\<close>.\<close>

definition closed_object :: "string list \<Rightarrow> ((pystr \<times> json) list \<Rightarrow> 'a option) \<Rightarrow> json \<Rightarrow> 'a option" where
  "closed_object names reader v =
     (case v of
        JObj kvs \<Rightarrow> refuse_if (\<not> list_all (\<lambda>(k, _). k \<in> set (map lit names)) kvs) (reader kvs)
      | _ \<Rightarrow> None)"

section \<open>The models\<close>

definition decode_provider_run :: "json \<Rightarrow> provider_run_record option" where
  "decode_provider_run =
     closed_object
     [''sequence'', ''role'', ''provider'', ''milestone_id'', ''started_at'', ''completed_at'',
      ''duration_ms'', ''exit_code'', ''timed_out'', ''failure_class'', ''prompt_path'', ''stdout_path'',
      ''stderr_path'']
     (\<lambda>kvs.
      Option.bind (json_field kvs ''sequence'' as_int) (\<lambda>sequence.
      Option.bind (json_field kvs ''role'' (as_enum provider_role_value all_provider_role)) (\<lambda>role.
      Option.bind (json_field kvs ''provider'' as_str) (\<lambda>provider.
      Option.bind (json_field_or None kvs ''milestone_id'' (as_optional as_str)) (\<lambda>milestone_id.
      Option.bind (json_field kvs ''started_at'' as_str) (\<lambda>started_at.
      Option.bind (json_field_or None kvs ''completed_at'' (as_optional as_str)) (\<lambda>completed_at.
      Option.bind (json_field kvs ''duration_ms'' as_int) (\<lambda>duration_ms.
      Option.bind (json_field_or None kvs ''exit_code'' (as_optional as_int)) (\<lambda>exit_code.
      Option.bind (json_field_or False kvs ''timed_out'' as_bool) (\<lambda>timed_out.
      Option.bind (json_field_or None kvs ''failure_class'' (as_optional (as_enum failure_class_value all_failure_class))) (\<lambda>failure_class.
      Option.bind (json_field kvs ''prompt_path'' as_str) (\<lambda>prompt_path.
      Option.bind (json_field kvs ''stdout_path'' as_str) (\<lambda>stdout_path.
      Option.bind (json_field kvs ''stderr_path'' as_str) (\<lambda>stderr_path.
      Some \<lparr>pr_sequence = sequence, pr_role = role, pr_provider = provider, pr_milestone_id = milestone_id,
        pr_started_at = started_at, pr_completed_at = completed_at, pr_duration_ms = duration_ms,
        pr_exit_code = exit_code, pr_timed_out = timed_out, pr_failure_class = failure_class, pr_prompt_path
        = prompt_path, pr_stdout_path = stdout_path, pr_stderr_path = stderr_path\<rparr>))))))))))))))"

definition decode_verification_result :: "json \<Rightarrow> verification_result option" where
  "decode_verification_result =
     closed_object
     [''command'', ''exit_code'', ''timed_out'', ''passed'', ''duration_ms'', ''stdout_path'',
      ''stderr_path'']
     (\<lambda>kvs.
      Option.bind (json_field kvs ''command'' (as_list as_str)) (\<lambda>command.
      Option.bind (json_field_or None kvs ''exit_code'' (as_optional as_int)) (\<lambda>exit_code.
      Option.bind (json_field_or False kvs ''timed_out'' as_bool) (\<lambda>timed_out.
      Option.bind (json_field kvs ''passed'' as_bool) (\<lambda>passed.
      Option.bind (json_field kvs ''duration_ms'' as_int) (\<lambda>duration_ms.
      Option.bind (json_field kvs ''stdout_path'' as_str) (\<lambda>stdout_path.
      Option.bind (json_field kvs ''stderr_path'' as_str) (\<lambda>stderr_path.
      Some \<lparr>vr_command = command, vr_exit_code = exit_code, vr_timed_out = timed_out, vr_passed = passed,
        vr_duration_ms = duration_ms, vr_stdout_path = stdout_path, vr_stderr_path = stderr_path\<rparr>))))))))"

definition decode_finding :: "json \<Rightarrow> finding option" where
  "decode_finding =
     closed_object
     [''finding_id'', ''severity'', ''title'', ''summary'', ''status'']
     (\<lambda>kvs.
      Option.bind (json_field kvs ''finding_id'' as_str) (\<lambda>finding_id.
      Option.bind (json_field kvs ''severity'' (as_enum severity_value all_severity)) (\<lambda>severity.
      Option.bind (json_field kvs ''title'' as_str) (\<lambda>title.
      Option.bind (json_field kvs ''summary'' as_str) (\<lambda>summary.
      Option.bind (json_field_or FS_OPEN kvs ''status'' (as_enum finding_status_value all_finding_status)) (\<lambda>status.
      Some \<lparr>fd_finding_id = finding_id, fd_severity = severity, fd_title = title, fd_summary = summary,
        fd_status = status\<rparr>))))))"

definition decode_approval :: "json \<Rightarrow> approval_record option" where
  "decode_approval =
     closed_object
     [''operation'', ''granted_at'', ''repository_identity'', ''branch'', ''baseline_sha'', ''head_sha'',
      ''changed_paths'', ''changed_path_digests'', ''verification_digest'', ''review_verdict'',
      ''finding_ids'', ''human_confirmation_supplied'', ''execution_started_at'', ''consumed'',
      ''consumed_at'', ''resulting_head_sha'']
     (\<lambda>kvs.
      Option.bind (json_field kvs ''operation'' (as_enum approval_operation_value all_approval_operation)) (\<lambda>operation.
      Option.bind (json_field kvs ''granted_at'' as_str) (\<lambda>granted_at.
      Option.bind (json_field kvs ''repository_identity'' as_str) (\<lambda>repository_identity.
      Option.bind (json_field kvs ''branch'' as_str) (\<lambda>branch.
      Option.bind (json_field kvs ''baseline_sha'' as_str) (\<lambda>baseline_sha.
      Option.bind (json_field kvs ''head_sha'' as_str) (\<lambda>head_sha.
      Option.bind (json_field kvs ''changed_paths'' (as_list as_str)) (\<lambda>changed_paths.
      Option.bind (json_field kvs ''changed_path_digests'' (as_dict as_str)) (\<lambda>changed_path_digests.
      Option.bind (json_field kvs ''verification_digest'' as_str) (\<lambda>verification_digest.
      Option.bind (json_field kvs ''review_verdict'' (as_enum review_verdict_value all_review_verdict)) (\<lambda>review_verdict.
      Option.bind (json_field kvs ''finding_ids'' (as_list as_str)) (\<lambda>finding_ids.
      Option.bind (json_field kvs ''human_confirmation_supplied'' as_bool) (\<lambda>human_confirmation_supplied.
      Option.bind (json_field_or None kvs ''execution_started_at'' (as_optional as_str)) (\<lambda>execution_started_at.
      Option.bind (json_field_or False kvs ''consumed'' as_bool) (\<lambda>consumed.
      Option.bind (json_field_or None kvs ''consumed_at'' (as_optional as_str)) (\<lambda>consumed_at.
      Option.bind (json_field_or None kvs ''resulting_head_sha'' (as_optional as_str)) (\<lambda>resulting_head_sha.
      Some \<lparr>ap_operation = operation, ap_granted_at = granted_at, ap_repository_identity = repository_identity,
        ap_branch = branch, ap_baseline_sha = baseline_sha, ap_head_sha = head_sha, ap_changed_paths =
        changed_paths, ap_changed_path_digests = changed_path_digests, ap_verification_digest =
        verification_digest, ap_review_verdict = review_verdict, ap_finding_ids = finding_ids,
        ap_human_confirmation_supplied = human_confirmation_supplied, ap_execution_started_at =
        execution_started_at, ap_consumed = consumed, ap_consumed_at = consumed_at, ap_resulting_head_sha =
        resulting_head_sha\<rparr>)))))))))))))))))"

definition decode_ledger_entry :: "json \<Rightarrow> recovery_ledger_entry option" where
  "decode_ledger_entry =
     closed_object
     [''command'', ''reason'', ''recorded_at'', ''pre_state'', ''post_state'', ''branch'', ''head_sha'',
      ''milestone_id'', ''budgets_touched'', ''classification'', ''human_owner_ruling'']
     (\<lambda>kvs.
      Option.bind (json_field kvs ''command'' (as_enum recovery_command_value all_recovery_command)) (\<lambda>command.
      Option.bind (json_field kvs ''reason'' as_str) (\<lambda>reason.
      Option.bind (json_field kvs ''recorded_at'' as_str) (\<lambda>recorded_at.
      Option.bind (json_field kvs ''pre_state'' (as_enum run_status_value all_run_status)) (\<lambda>pre_state.
      Option.bind (json_field kvs ''post_state'' (as_enum run_status_value all_run_status)) (\<lambda>post_state.
      Option.bind (json_field kvs ''branch'' as_str) (\<lambda>branch.
      Option.bind (json_field kvs ''head_sha'' as_str) (\<lambda>head_sha.
      Option.bind (json_field_or None kvs ''milestone_id'' (as_optional as_str)) (\<lambda>milestone_id.
      Option.bind (json_field_or [] kvs ''budgets_touched'' (as_dict as_int)) (\<lambda>budgets_touched.
      Option.bind (json_field_or None kvs ''classification'' (as_optional (as_enum failure_class_value all_failure_class))) (\<lambda>classification.
      Option.bind (json_field_or None kvs ''human_owner_ruling'' (as_optional as_str)) (\<lambda>human_owner_ruling.
      Some \<lparr>rl_command = command, rl_reason = reason, rl_recorded_at = recorded_at, rl_pre_state = pre_state,
        rl_post_state = post_state, rl_branch = branch, rl_head_sha = head_sha, rl_milestone_id =
        milestone_id, rl_budgets_touched = budgets_touched, rl_classification = classification,
        rl_human_owner_ruling = human_owner_ruling\<rparr>))))))))))))"

definition decode_checkpoint :: "json \<Rightarrow> milestone_checkpoint option" where
  "decode_checkpoint =
     closed_object
     [''milestone_id'', ''recorded_at'', ''path_digests'']
     (\<lambda>kvs.
      Option.bind (json_field kvs ''milestone_id'' as_str) (\<lambda>milestone_id.
      Option.bind (json_field kvs ''recorded_at'' as_str) (\<lambda>recorded_at.
      Option.bind (json_field_or [] kvs ''path_digests'' (as_dict as_str)) (\<lambda>path_digests.
      Some \<lparr>cp_milestone_id = milestone_id, cp_recorded_at = recorded_at, cp_path_digests = path_digests\<rparr>))))"

definition decode_run_record :: "json \<Rightarrow> run_record option" where
  "decode_run_record =
     closed_object
     [''schema_version'', ''run_id'', ''repository_root'', ''repository_identity'', ''expected_branch'',
      ''baseline_sha'', ''contract_sha256'', ''workflow_state'', ''stop_reason'', ''created_at'',
      ''updated_at'', ''policy_digest'', ''stage_start_id'', ''current_milestone'',
      ''completed_milestones'', ''milestone_checkpoints'', ''changed_paths'', ''provider_runs'',
      ''verification_results'', ''blocking_findings'', ''deferred_findings'', ''approvals'',
      ''review_attempts'', ''successful_review_rounds'', ''provider_failure_count'', ''correction_round'',
      ''closure_round'', ''reconciliations'', ''reopenings'', ''review_recoveries'', ''revalidations'']
     (\<lambda>kvs.
      Option.bind (json_field kvs ''schema_version'' as_int) (\<lambda>schema_version.
      Option.bind (json_field kvs ''run_id'' as_str) (\<lambda>run_id.
      Option.bind (json_field kvs ''repository_root'' as_str) (\<lambda>repository_root.
      Option.bind (json_field kvs ''repository_identity'' as_str) (\<lambda>repository_identity.
      Option.bind (json_field kvs ''expected_branch'' as_str) (\<lambda>expected_branch.
      Option.bind (json_field kvs ''baseline_sha'' as_str) (\<lambda>baseline_sha.
      Option.bind (json_field kvs ''contract_sha256'' as_str) (\<lambda>contract_sha256.
      Option.bind (json_field kvs ''workflow_state'' (as_enum run_status_value all_run_status)) (\<lambda>workflow_state.
      Option.bind (json_field_or None kvs ''stop_reason'' (as_optional (as_enum stop_reason_value all_stop_reason))) (\<lambda>stop_reason.
      Option.bind (json_field kvs ''created_at'' as_str) (\<lambda>created_at.
      Option.bind (json_field kvs ''updated_at'' as_str) (\<lambda>updated_at.
      Option.bind (json_field_or None kvs ''policy_digest'' (as_optional as_str)) (\<lambda>policy_digest.
      Option.bind (json_field_or None kvs ''stage_start_id'' (as_optional as_str)) (\<lambda>stage_start_id.
      Option.bind (json_field_or None kvs ''current_milestone'' (as_optional as_str)) (\<lambda>current_milestone.
      Option.bind (json_field_or [] kvs ''completed_milestones'' (as_list as_str)) (\<lambda>completed_milestones.
      Option.bind (json_field_or [] kvs ''milestone_checkpoints'' (as_list decode_checkpoint)) (\<lambda>milestone_checkpoints.
      Option.bind (json_field_or [] kvs ''changed_paths'' (as_list as_str)) (\<lambda>changed_paths.
      Option.bind (json_field_or [] kvs ''provider_runs'' (as_list decode_provider_run)) (\<lambda>provider_runs.
      Option.bind (json_field_or [] kvs ''verification_results'' (as_list decode_verification_result)) (\<lambda>verification_results.
      Option.bind (json_field_or [] kvs ''blocking_findings'' (as_list decode_finding)) (\<lambda>blocking_findings.
      Option.bind (json_field_or [] kvs ''deferred_findings'' (as_list decode_finding)) (\<lambda>deferred_findings.
      Option.bind (json_field_or [] kvs ''approvals'' (as_list decode_approval)) (\<lambda>approvals.
      Option.bind (json_field_or 0 kvs ''review_attempts'' as_int) (\<lambda>review_attempts.
      Option.bind (json_field_or 0 kvs ''successful_review_rounds'' as_int) (\<lambda>successful_review_rounds.
      Option.bind (json_field_or 0 kvs ''provider_failure_count'' as_int) (\<lambda>provider_failure_count.
      Option.bind (json_field_or 0 kvs ''correction_round'' as_int) (\<lambda>correction_round.
      Option.bind (json_field_or 0 kvs ''closure_round'' as_int) (\<lambda>closure_round.
      Option.bind (json_field_or [] kvs ''reconciliations'' (as_list decode_ledger_entry)) (\<lambda>reconciliations.
      Option.bind (json_field_or [] kvs ''reopenings'' (as_list decode_ledger_entry)) (\<lambda>reopenings.
      Option.bind (json_field_or [] kvs ''review_recoveries'' (as_list decode_ledger_entry)) (\<lambda>review_recoveries.
      Option.bind (json_field_or [] kvs ''revalidations'' (as_list decode_ledger_entry)) (\<lambda>revalidations.
      Some \<lparr>rr_schema_version = schema_version, rr_run_id = run_id, rr_repository_root = repository_root,
        rr_repository_identity = repository_identity, rr_expected_branch = expected_branch, rr_baseline_sha
        = baseline_sha, rr_contract_sha256 = contract_sha256, rr_workflow_state = workflow_state,
        rr_stop_reason = stop_reason, rr_created_at = created_at, rr_updated_at = updated_at,
        rr_policy_digest = policy_digest, rr_stage_start_id = stage_start_id, rr_current_milestone =
        current_milestone, rr_completed_milestones = completed_milestones, rr_milestone_checkpoints =
        milestone_checkpoints, rr_changed_paths = changed_paths, rr_provider_runs = provider_runs,
        rr_verification_results = verification_results, rr_blocking_findings = blocking_findings,
        rr_deferred_findings = deferred_findings, rr_approvals = approvals, rr_review_attempts =
        review_attempts, rr_successful_review_rounds = successful_review_rounds, rr_provider_failure_count =
        provider_failure_count, rr_correction_round = correction_round, rr_closure_round = closure_round,
        rr_reconciliations = reconciliations, rr_reopenings = reopenings, rr_review_recoveries =
        review_recoveries, rr_revalidations = revalidations\<rparr>))))))))))))))))))))))))))))))))"

section \<open>Reading back\<close>

lemma as_enum_found:
  assumes "\<And>a b. value a = value b \<longleftrightarrow> a = b" and "x \<in> set members"
  shows "as_enum value members (JStr (value x)) = Some x"
proof -
  have "find (\<lambda>m. value m = value x) members = Some x"
    using assms(2) by (induction members) (auto simp: assms(1))
  then show ?thesis by (simp add: as_enum_def)
qed

lemmas enum_read =
  as_enum_found [OF run_status_value_inj all_run_status_complete]
  as_enum_found [OF stop_reason_value_inj all_stop_reason_complete]
  as_enum_found [OF failure_class_value_inj all_failure_class_complete]
  as_enum_found [OF provider_role_value_inj all_provider_role_complete]
  as_enum_found [OF severity_value_inj all_severity_complete]
  as_enum_found [OF finding_status_value_inj all_finding_status_complete]
  as_enum_found [OF review_verdict_value_inj all_review_verdict_complete]
  as_enum_found [OF approval_operation_value_inj all_approval_operation_complete]
  as_enum_found [OF recovery_command_value_inj all_recovery_command_complete]

lemma as_optional_read:
  "as_optional as_str (jopt JStr x) = Some x" "as_optional as_int (jopt JInt y) = Some y"
  by (cases x; simp) (cases y; simp)

lemma as_optional_enum:
  "(\<And>x. as_enum value members (JStr (value x)) = Some x)
     \<Longrightarrow> as_optional (as_enum value members) (jopt (\<lambda>c. JStr (value c)) x) = Some x"
  by (cases x) simp_all

lemmas optional_read = as_optional_read
  as_optional_enum [of stop_reason_value all_stop_reason, OF enum_read(2)]
  as_optional_enum [of failure_class_value all_failure_class, OF enum_read(3)]

lemma map_opt_read: "(\<And>x. f (g x) = Some x) \<Longrightarrow> map_opt f (map g xs) = Some xs"
  by (induction xs) simp_all

lemma as_list_read: "(\<And>x. f (g x) = Some x) \<Longrightarrow> as_list f (JList (map g xs)) = Some xs"
  by (simp add: map_opt_read)

lemma as_dict_read:
  "as_dict as_str (JObj (map (\<lambda>(k, v). (k, JStr v)) ps)) = Some ps"
  "as_dict as_int (JObj (map (\<lambda>(k, v). (k, JInt v)) qs)) = Some qs"
proof -
  show "as_dict as_str (JObj (map (\<lambda>(k, v). (k, JStr v)) ps)) = Some ps" by (induction ps) auto
  show "as_dict as_int (JObj (map (\<lambda>(k, v). (k, JInt v)) qs)) = Some qs" by (induction qs) auto
qed

lemma json_field_here [simp]:
  "json_field ((lit a, v) # kvs) b reader = (if a = b then reader v else json_field kvs b reader)"
  "json_field_or d ((lit a, v) # kvs) b reader = (if a = b then reader v else json_field_or d kvs b reader)"
  by (simp_all add: json_field_def json_field_or_def)

lemma closed_object_here:
  "closed_object names reader (JObj kvs)
     = refuse_if (\<not> list_all (\<lambda>(k, _). k \<in> set (map lit names)) kvs) (reader kvs)"
  by (simp add: closed_object_def)

lemmas reading = closed_object_here enum_read optional_read as_dict_read

lemma reads_provider_run: "decode_provider_run (dump_provider_run x) = Some x"
  by (cases x) (simp add: decode_provider_run_def dump_provider_run_def reading)

lemma reads_verification_result: "decode_verification_result (dump_verification_result x) = Some x"
  by (cases x) (simp add: decode_verification_result_def dump_verification_result_def reading map_opt_read)

lemma reads_finding: "decode_finding (dump_finding x) = Some x"
  by (cases x) (simp add: decode_finding_def dump_finding_def reading)

lemma reads_approval: "decode_approval (dump_approval x) = Some x"
  by (cases x) (simp add: decode_approval_def dump_approval_def reading map_opt_read del: as_dict.simps)

lemma reads_ledger_entry: "decode_ledger_entry (dump_ledger_entry x) = Some x"
  by (cases x) (simp add: decode_ledger_entry_def dump_ledger_entry_def reading del: as_dict.simps)

lemma reads_checkpoint: "decode_checkpoint (dump_checkpoint x) = Some x"
  by (cases x) (simp add: decode_checkpoint_def dump_checkpoint_def reading del: as_dict.simps)

lemma reads_run_record: "decode_run_record (dump_run_record x) = Some x"
  by (cases x)
    (simp add: decode_run_record_def dump_run_record_def reading map_opt_read reads_provider_run
      reads_verification_result reads_finding reads_approval reads_ledger_entry reads_checkpoint)

end
