(* ===== verification/Recovery_Publication.thy ===== *)
theory Recovery_Publication
  imports Recovery_Facts Redaction_Facts Record_Decoding
begin

text \<open>
  How the application publishes a recovery (\<open>_publish_recovery\<close> of \<open>milestone_runner/application.py\<close>): the
  ledger entry and the outcome's record are redacted first (\<open>redact_value\<close> and \<open>redact_record\<close> of
  \<open>events.py\<close>), and the record the command was given is taken to the redacted outcome by the budget
  update, the ledger append and the transition. Redaction can make an entry invalid; when it does not, the
  decomposition always reaches the redacted outcome.
\<close>

section \<open>Redacting documents\<close>

fun redact_value :: "pyenv \<Rightarrow> json \<Rightarrow> json \<times> redaction_finding list" where
  "redact_value E (JStr v) = (let (redacted, fired) = redact_text E v in (JStr redacted, fired))"
| "redact_value E (JList vs) =
     (let visited = map (redact_value E) vs in (JList (map fst visited), concat (map snd visited)))"
| "redact_value E (JObj kvs) =
     (let visited = map (\<lambda>(k, v). (k, redact_value E v)) kvs
      in (JObj (map (\<lambda>(k, w). (k, fst w)) visited), concat (map (\<lambda>(k, w). snd w) visited)))"
| "redact_value E v = (v, [])"

text \<open>
  \<open>EntryInvalid\<close> is the \<open>ValidationError\<close> of \<open>_redacted_entry\<close>, \<open>RedactionConflict\<close> the \<open>EventConflict\<close> of
  \<open>redact_record\<close>, \<open>RebuildRefused\<close> the \<open>ApplicationError\<close> of \<open>_rebuild\<close>.
\<close>

datatype publication_error = EntryInvalid | RedactionConflict | RebuildRefused | TransitionRefused | ApplicationError

definition redacted_entry :: "pyenv \<Rightarrow> recovery_ledger_entry \<Rightarrow> recovery_ledger_entry option" where
  "redacted_entry E entry =
     Option.bind (decode_ledger_entry (fst (redact_value E (dump_ledger_entry entry)))) (validate_ledger_entry E)"

definition redact_record ::
  "pyenv \<Rightarrow> run_record \<Rightarrow> publication_error + run_record \<times> redaction_finding list" where
  "redact_record E r =
     (let (document, findings) = redact_value E (dump_run_record r) in
      if findings = [] then Inr (r, [])
      else rbind (from_option RedactionConflict
                    (Option.bind (decode_run_record document) (validate_run_record E)))
             (\<lambda>clean. Inr (clean, findings)))"

section \<open>The published decomposition\<close>

definition rebuild :: "pyenv \<Rightarrow> run_record \<Rightarrow> publication_error + run_record" where
  "rebuild E r = from_option RebuildRefused (validate_run_record E r)"

fun with_counters :: "(pystr \<times> int) list \<Rightarrow> run_record \<Rightarrow> run_record" where
  "with_counters [] r = r"
| "with_counters ((name, delta) # rest) r = with_counters rest
     (if name = lit ''review_attempts'' then r\<lparr>rr_review_attempts := rr_review_attempts r + delta\<rparr>
      else if name = lit ''successful_review_rounds''
        then r\<lparr>rr_successful_review_rounds := rr_successful_review_rounds r + delta\<rparr>
      else if name = lit ''provider_failure_count''
        then r\<lparr>rr_provider_failure_count := rr_provider_failure_count r + delta\<rparr>
      else if name = lit ''correction_round'' then r\<lparr>rr_correction_round := rr_correction_round r + delta\<rparr>
      else r\<lparr>rr_closure_round := rr_closure_round r + delta\<rparr>)"

text \<open>The steps handed to \<open>emit\<close>, and the entry that is filed with the ledger append.\<close>

definition recovery_constituents ::
  "pyenv \<Rightarrow> run_record \<Rightarrow> recovery_outcome \<Rightarrow>
     publication_error + recovery_ledger_entry \<times> (lifecycle_event_type \<times> run_record \<times> run_record) list" where
  "recovery_constituents E base outcome =
     rbind (from_option EntryInvalid (redacted_entry E (oc_entry outcome))) (\<lambda>entry.
     rbind (if rl_budgets_touched entry = [] then Inr (base, [])
            else rbind (rebuild E (with_counters (rl_budgets_touched entry) base)) (\<lambda>after.
                 Inr (after, [(RUN_RECORD_UPDATED, base, after)]))) (\<lambda>(current, steps).
     let ledger = ledger_by_command (rl_command entry) in
     rbind (rebuild E (set_ledger ledger (ledger_of ledger current @ [entry]) current)) (\<lambda>appended.
     rbind (rebuild E (appended\<lparr>rr_workflow_state := rr_workflow_state (oc_record outcome), rr_stop_reason := None,
                        rr_current_milestone := rr_current_milestone (oc_record outcome),
                        rr_updated_at := rr_updated_at (oc_record outcome)\<rparr>)) (\<lambda>final.
     raise_if (\<not> allowed (rr_workflow_state appended) (rr_workflow_state final)) TransitionRefused
     (rbind (redact_record E (oc_record outcome)) (\<lambda>(expected, _).
      raise_if (body_digest E final \<noteq> body_digest E expected) ApplicationError
      (Inr (entry, steps @ [(RECOVERY_LEDGER_APPENDED, current, appended), (STATE_TRANSITIONED, appended, final)]))))))))"

section \<open>What redaction leaves alone\<close>

abbreviation redacted :: "pyenv \<Rightarrow> pystr \<Rightarrow> pystr" where
  "redacted E v \<equiv> fst (redact_text E v)"

abbreviation redact_json :: "pyenv \<Rightarrow> json \<Rightarrow> json" where
  "redact_json E v \<equiv> fst (redact_value E v)"

lemma redact_json_simps:
  "redact_json E (JStr v) = JStr (redacted E v)"
  "redact_json E (JList vs) = JList (map (redact_json E) vs)"
  "redact_json E (JObj kvs) = JObj (map (\<lambda>(k, v). (k, redact_json E v)) kvs)"
  "redact_json E JNull = JNull" "redact_json E (JInt i) = JInt i" "redact_json E (JBool b) = JBool b"
  by (auto simp: Let_def comp_def split: prod.splits)

lemma nothing_found: "snd (redact_value E v) = [] \<Longrightarrow> redact_json E v = v"
proof (induction E v rule: redact_value.induct)
  case (1 E v)
  then show ?case using redact_clean [of E v] by (simp split: prod.splits)
next
  case (2 E vs)
  then show ?case by (auto simp: Let_def map_idI)
next
  case (3 E kvs)
  have "redact_json E v = v" if "(k, v) \<in> set kvs" for k v
    using 3 that by (fastforce simp: Let_def)
  then show ?case unfolding redact_json_simps by (auto intro!: map_idI)
qed auto

declare redact_value.simps [simp del] redact_json_simps [simp]

text \<open>A replaced span leaves an opening bracket behind, which no strict field accepts.\<close>

lemma replaced_bracket: "spans \<noteq> [] \<Longrightarrow> 91 \<in> set (replace_spans v position spans)"
  by (cases spans) (auto simp: marker_def lit_def)

lemma redacted_bracket: "91 \<notin> set (redacted E v) \<Longrightarrow> redact_text E v = (v, [])"
  using replaced_bracket [of "resolve 0 (collected_spans E v)" v 0] resolve_Nil [of "collected_spans E v"]
  by (auto simp: redact_text_def Let_def split: if_splits)

lemma enum_brackets:
  "91 \<notin> set (run_status_value s)" "91 \<notin> set (recovery_command_value c)" "91 \<notin> set (failure_class_value f)"
proof -
  show "91 \<notin> set (run_status_value s)" by (cases s) (simp_all add: lit_def)
  show "91 \<notin> set (recovery_command_value c)" by (cases c) (simp_all add: lit_def)
  show "91 \<notin> set (failure_class_value f)" by (cases f) (simp_all add: lit_def)
qed

lemma timestamp_bracket: "utc_timestamp v \<Longrightarrow> 91 \<notin> set v"
  by (auto simp: utc_timestamp_def utc_shape_def lit_def list_all2_Cons1 is_digit_def)

lemma object_id_bracket: "git_object_id v \<Longrightarrow> 91 \<notin> set v"
  by (auto simp: git_object_id_def list_all_iff is_hex_def is_digit_def)

lemma milestone_bracket:
  assumes "milestone_id_grammar v"
  shows "91 \<notin> set v"
proof
  let ?ps = "split_on 45 v"
  have g: "milestone_suffix (last ?ps)" "stage_segments (butlast ?ps)"
    using assms by (simp_all add: milestone_id_grammar_def Let_def)
  assume "91 \<in> set v"
  then obtain p where p: "p \<in> set ?ps" "91 \<in> set p" using split_covers [of 91 v 45] by auto
  have "set ?ps = insert (last ?ps) (set (butlast ?ps))"
    by (metis append_butlast_last_id list.simps(15) rotate1.simps(2) set_rotate1 split_on_nonempty empty_set set_append Un_insert_right sup_bot_right)
  then consider "p = last ?ps" | "p \<in> set (butlast ?ps)" using p(1) by auto
  then show False
  proof cases
    case 1
    then show False using g(1) p(2) by (auto simp: milestone_suffix_def is_digit_def split: list.splits)
  next
    case 2
    then have "list_all is_upnum p" using g(2) by (auto simp: stage_segments_def list_all_iff split: list.splits)
    then have "is_upnum 91" using p(2) by (simp add: list_all_iff)
    then show False by (simp add: is_upnum_def is_upper_def is_digit_def)
  qed
qed

lemma enum_kept:
  assumes "as_enum val members (JStr (redacted E (val x))) = Some y"
    and "\<And>a b. val a = val b \<longleftrightarrow> a = b" and "\<And>a. 91 \<notin> set (val a)"
  shows "redacted E (val x) = val x" and "y = x"
proof -
  have v: "val y = redacted E (val x)" using assms(1) by (auto simp: as_enum_def find_Some_iff)
  then have "redact_text E (val x) = (val x, [])" using redacted_bracket assms(3) by metis
  then show "redacted E (val x) = val x" "y = x" using v assms(2) by simp_all
qed

lemma redacted_option:
  "redact_json E (jopt JStr x) = jopt JStr (map_option (redacted E) x)"
  "redact_json E (jopt (\<lambda>c. JStr (val c)) y) = jopt JStr (map_option (\<lambda>c. redacted E (val c)) y)"
  "redact_json E (jopt JInt i) = jopt JInt i"
proof -
  show "redact_json E (jopt JStr x) = jopt JStr (map_option (redacted E) x)" by (cases x) simp_all
  show "redact_json E (jopt (\<lambda>c. JStr (val c)) y) = jopt JStr (map_option (\<lambda>c. redacted E (val c)) y)"
    by (cases y) simp_all
  show "redact_json E (jopt JInt i) = jopt JInt i" by (cases i) simp_all
qed

lemma redacted_numbers:
  "map ((\<lambda>(k, v). (k, redact_json E v)) \<circ> (\<lambda>(k, v). (k, JInt v))) ps = map (\<lambda>(k, v). (k, JInt v)) ps"
  by (induction ps) auto

lemma optional_kept:
  assumes "as_optional (as_enum val members) (jopt JStr (map_option (\<lambda>c. redacted E (val c)) x)) = Some y"
    and "\<And>a b. val a = val b \<longleftrightarrow> a = b" and "\<And>a. 91 \<notin> set (val a)"
  shows "map_option (\<lambda>c. redacted E (val c)) x = map_option val x" and "y = x"
  using assms(1) enum_kept [of val members E _ _, OF _ assms(2,3)] by (cases x; auto)+

section \<open>A redacted entry\<close>

text \<open>An entry that survives redaction differs from the original in its three free texts at most.\<close>

definition entry_redacted :: "pyenv \<Rightarrow> recovery_ledger_entry \<Rightarrow> recovery_ledger_entry" where
  "entry_redacted E e =
     e\<lparr>rl_reason := redacted E (rl_reason e), rl_branch := redacted E (rl_branch e),
       rl_human_owner_ruling := map_option (redacted E) (rl_human_owner_ruling e)\<rparr>"

lemma redacted_entry_Some:
  assumes "redacted_entry E e = Some e'"
  shows "e' = entry_redacted E e" and "validate_ledger_entry E e' = Some e'"
    and "redact_json E (dump_ledger_entry e) = dump_ledger_entry e'"
    and "redacted E (run_status_value (rl_post_state e)) = run_status_value (rl_post_state e)"
    and "redacted E (rl_recorded_at e) = rl_recorded_at e"
    and "map_option (redacted E) (rl_milestone_id e) = rl_milestone_id e"
proof -
  let ?d = "redact_json E (dump_ledger_entry e)"
  obtain d where d: "decode_ledger_entry ?d = Some d" and v: "validate_ledger_entry E d = Some e'"
    using assms by (auto simp: redacted_entry_def)
  have e': "e' = d" using v validate_ledger_entry_id by metis
  then show "validate_ledger_entry E e' = Some e'" using v by simp
  have "as_enum recovery_command_value all_recovery_command (JStr (redacted E (recovery_command_value (rl_command e)))) = Some (rl_command d)
      \<and> rl_reason d = redacted E (rl_reason e)
      \<and> rl_recorded_at d = redacted E (rl_recorded_at e)
      \<and> as_enum run_status_value all_run_status (JStr (redacted E (run_status_value (rl_pre_state e)))) = Some (rl_pre_state d)
      \<and> as_enum run_status_value all_run_status (JStr (redacted E (run_status_value (rl_post_state e)))) = Some (rl_post_state d)
      \<and> rl_branch d = redacted E (rl_branch e)
      \<and> rl_head_sha d = redacted E (rl_head_sha e)
      \<and> rl_milestone_id d = map_option (redacted E) (rl_milestone_id e)
      \<and> rl_budgets_touched d = rl_budgets_touched e
      \<and> as_optional (as_enum failure_class_value all_failure_class)
       (jopt JStr (map_option (\<lambda>c. redacted E (failure_class_value c)) (rl_classification e))) = Some (rl_classification d)
      \<and> rl_human_owner_ruling d = map_option (redacted E) (rl_human_owner_ruling e)"
    using d
    by (auto simp: decode_ledger_entry_def dump_ledger_entry_def redacted_option redacted_numbers
        closed_object_here as_dict_read as_optional_read bind_eq_Some_conv simp del: as_dict.simps)
  then have r: "as_enum recovery_command_value all_recovery_command (JStr (redacted E (recovery_command_value (rl_command e)))) = Some (rl_command d)"
    "rl_reason d = redacted E (rl_reason e)"
    "rl_recorded_at d = redacted E (rl_recorded_at e)"
    "as_enum run_status_value all_run_status (JStr (redacted E (run_status_value (rl_pre_state e)))) = Some (rl_pre_state d)"
    "as_enum run_status_value all_run_status (JStr (redacted E (run_status_value (rl_post_state e)))) = Some (rl_post_state d)"
    "rl_branch d = redacted E (rl_branch e)"
    "rl_head_sha d = redacted E (rl_head_sha e)"
    "rl_milestone_id d = map_option (redacted E) (rl_milestone_id e)"
    "rl_budgets_touched d = rl_budgets_touched e"
    "as_optional (as_enum failure_class_value all_failure_class)
       (jopt JStr (map_option (\<lambda>c. redacted E (failure_class_value c)) (rl_classification e))) = Some (rl_classification d)"
    "rl_human_owner_ruling d = map_option (redacted E) (rl_human_owner_ruling e)"
    by blast+
  note cmd = enum_kept [OF r(1) recovery_command_value_inj enum_brackets(2)]
  note pre = enum_kept [OF r(4) run_status_value_inj enum_brackets(1)]
  note post = enum_kept [OF r(5) run_status_value_inj enum_brackets(1)]
  note cls = optional_kept [OF r(10) failure_class_value_inj enum_brackets(3)]
  have ok: "utc_timestamp (rl_recorded_at d)" "git_object_id (rl_head_sha d)"
    "pred_option (identifier_field E milestone_id_grammar) (rl_milestone_id d)"
    using v by (auto simp: validate_ledger_entry_def)
  have at: "redacted E (rl_recorded_at e) = rl_recorded_at e"
    using redacted_bracket timestamp_bracket [OF ok(1)] r(3) by (metis fst_conv)
  have sha: "redacted E (rl_head_sha e) = rl_head_sha e"
    using redacted_bracket object_id_bracket [OF ok(2)] r(7) by (metis fst_conv)
  have mid: "map_option (redacted E) (rl_milestone_id e) = rl_milestone_id e"
  proof (cases "rl_milestone_id e")
    case (Some m)
    then have "91 \<notin> set (redacted E m)" using ok(3) r(8) milestone_bracket by (auto simp: identifier_field_def)
    then show ?thesis using Some redacted_bracket [of E m] by simp
  qed simp
  show "redacted E (run_status_value (rl_post_state e)) = run_status_value (rl_post_state e)" by (rule post(1))
  show "redacted E (rl_recorded_at e) = rl_recorded_at e" by (rule at)
  show "map_option (redacted E) (rl_milestone_id e) = rl_milestone_id e" by (rule mid)
  show shape: "e' = entry_redacted E e"
    unfolding e' entry_redacted_def
    by (rule recovery_ledger_entry.equality) (simp_all add: r(2,3,6-9,11) cmd(2) pre(2) post(2) cls(2) at sha mid)
  show "redact_json E (dump_ledger_entry e) = dump_ledger_entry e'"
    unfolding shape
    by (simp add: entry_redacted_def dump_ledger_entry_def redacted_option redacted_numbers
        cmd(1) pre(1) post(1) at sha mid cls(1) option.map_comp comp_def)
      (cases "rl_classification e"; auto)
qed

section \<open>The redacted outcome\<close>

text \<open>A record in which redaction finds nothing: what a publication leaves behind.\<close>

definition clean_record :: "pyenv \<Rightarrow> run_record \<Rightarrow> bool" where
  "clean_record E r \<longleftrightarrow> snd (redact_value E (dump_run_record r)) = []"

lemma recovered_redacted:
  assumes clean: "redact_json E (dump_run_record r) = dump_run_record r"
    and entry: "redact_json E (dump_ledger_entry e) = dump_ledger_entry e'"
    and same: "rl_command e' = rl_command e" "rl_post_state e' = rl_post_state e" "rl_recorded_at e' = rl_recorded_at e"
    and post: "redacted E (run_status_value (rl_post_state e)) = run_status_value (rl_post_state e)"
    and at: "redacted E (rl_recorded_at e) = rl_recorded_at e"
    and m: "map_option (redacted E) milestone = milestone"
  shows "redact_json E (dump_run_record (recovered r e milestone rounds)) = dump_run_record (recovered r e' milestone rounds)"
proof -
  note kept = clean [unfolded dump_run_record_def redact_json_simps list.map prod.case json.inject list.inject prod.inject]
  show ?thesis
    using kept entry post at m
    by (cases "rl_command e") (simp_all add: recovered_def Let_def dump_run_record_def same redacted_option)
qed

lemma redact_record_of:
  assumes "redact_json E (dump_run_record r) = dump_run_record s" and "canonical_record E s"
  shows "\<exists>findings. redact_record E r = Inr (s, findings)"
proof (cases "snd (redact_value E (dump_run_record r)) = []")
  case True
  then have "dump_run_record s = dump_run_record r" using nothing_found assms(1) by metis
  then have "s = r" using reads_run_record by (metis option.inject)
  then show ?thesis using True by (auto simp: redact_record_def Let_def split: prod.splits)
next
  case False
  then show ?thesis
    using assms by (auto simp: redact_record_def Let_def reads_run_record split: prod.splits)
qed

lemma recovered_canonical:
  assumes "canonical_record E r" and "validate_ledger_entry E e = Some e"
    and "milestone \<in> {rr_current_milestone r, rl_milestone_id e}" and "pred_option (\<lambda>n. 0 \<le> n) rounds"
    and "rl_post_state e = RECOVERY_POST_STATES command"
  shows "canonical_record E (recovered r e milestone rounds)"
proof -
  have "rl_post_state e \<notin> {HUMAN_INTERVENTION_REQUIRED, DONE}" using post_state_plain(1) [of command] assms(5) by auto
  note s = stepped_canonical [OF assms(1-4) this]
  have "ledger_of f (stepped r e milestone rounds) = ledger_of f r" for f by (cases f) simp_all
  then show ?thesis using appended_canonical [OF s assms(2)] by (simp add: recovered_def Let_def)
qed

lemma clean_parts:
  assumes "redact_json E (dump_run_record r) = dump_run_record r"
  shows "map_option (redacted E) (rr_current_milestone r) = rr_current_milestone r"
proof -
  have "redact_json E (jopt JStr (rr_current_milestone r)) = jopt JStr (rr_current_milestone r)"
    using assms unfolding dump_run_record_def redact_json_simps list.map prod.case json.inject list.inject prod.inject
    by (elim conjE)
  then show ?thesis by (cases "rr_current_milestone r") simp_all
qed

section \<open>The decomposition reaches it\<close>

lemma ledger_by_command_fields: "ledger_by_command c = RECOVERY_LEDGER_FIELDS c"
  by (cases c) simp_all

text \<open>The outcome with its entry replaced by the redacted one.\<close>

definition redacted_outcome :: "run_record \<Rightarrow> recovery_outcome \<Rightarrow> recovery_ledger_entry \<Rightarrow> run_record" where
  "redacted_outcome r out e =
     (let field = RECOVERY_LEDGER_FIELDS (oc_command out) in set_ledger field (ledger_of field r @ [e]) (oc_record out))"

lemma recovery_publishes:
  assumes r: "canonical_record E r" and out: "recovers E r out" and clean: "clean_record E r"
    and red: "redacted_entry E (oc_entry out) = Some e"
  shows "\<exists>steps. recovery_constituents E r out = Inr (e, steps)
    \<and> map fst steps = (if oc_command out = RECOVER_FAILED_REVIEW then [RUN_RECORD_UPDATED] else [])
        @ [RECOVERY_LEDGER_APPENDED, STATE_TRANSITIONED]
    \<and> map (fst \<circ> snd) steps @ [redacted_outcome r out e] = r # map (snd \<circ> snd) steps
    \<and> (\<forall>s \<in> set steps. canonical_record E (snd (snd s)))"
proof -
  define e0 f where "e0 = oc_entry out" and "f = RECOVERY_LEDGER_FIELDS (oc_command out)"
  let ?n = "restored_rounds (oc_command out) r"
  from out obtain m where
    u: "oc_record out = recovered r e0 m ?n" and m: "m \<in> {rr_current_milestone r, rl_milestone_id e0}"
    and e0: "rl_command e0 = oc_command out" "rl_pre_state e0 = rr_workflow_state r"
      "rl_post_state e0 = RECOVERY_POST_STATES (oc_command out)" "validate_ledger_entry E e0 = Some e0"
    and b0: "rl_budgets_touched e0
        = (if oc_command out = RECOVER_FAILED_REVIEW then [(lit ''successful_review_rounds'', -1)] else [])"
    and pos: "oc_command out = RECOVER_FAILED_REVIEW \<longrightarrow> 0 < rr_successful_review_rounds r"
    unfolding recovers_def Let_def e0_def by blast
  note red = redacted_entry_Some [OF red [folded e0_def]]
  have same: "rl_command e = rl_command e0" "rl_post_state e = rl_post_state e0" "rl_recorded_at e = rl_recorded_at e0"
    "rl_pre_state e = rl_pre_state e0" "rl_milestone_id e = rl_milestone_id e0"
    "rl_budgets_touched e = rl_budgets_touched e0"
    by (simp_all add: red(1) entry_redacted_def)
  have jr: "redact_json E (dump_run_record r) = dump_run_record r"
    by (rule nothing_found) (rule clean [unfolded clean_record_def])
  have mm: "map_option (redacted E) m = m" using m clean_parts [OF jr] red(6) by auto
  define s where "s = recovered r e m ?n"
  have s: "s = redacted_outcome r out e"
    unfolding s_def redacted_outcome_def u recovered_def Let_def e0(1) same
    by (cases "oc_command out") (simp_all add: run_record.splits)
  have s_ok: "canonical_record E s"
    unfolding s_def
    by (rule recovered_canonical [OF r red(2), of _ _ "oc_command out"])
      (use m pos e0(3) in \<open>auto simp: same restored_rounds_def\<close>)
  have "redact_json E (dump_run_record (oc_record out)) = dump_run_record s"
    unfolding u s_def by (rule recovered_redacted [OF jr red(3) same(1-3) red(4,5) mm])
  then obtain fired where expected: "redact_record E (oc_record out) = Inr (s, fired)"
    using redact_record_of s_ok by blast
  define base where "base = with_counters (rl_budgets_touched e) r"
  have base: "base = r\<lparr>rr_successful_review_rounds :=
      (case ?n of Some n \<Rightarrow> n | None \<Rightarrow> rr_successful_review_rounds r)\<rparr>"
    by (simp add: base_def b0 same restored_rounds_def lit_def)
  have base_ok: "canonical_record E base"
  proof (rule validate_kept [OF r])
    note p = validate_run_record_parts [OF r]
    show "same_parts r base" by (simp add: base same_parts_def)
    show "scalar_fields_ok E base" using p pos by (simp add: base scalar_fields_ok_def restored_rounds_def)
    show "record_consistent base" using p by (simp add: base record_consistent_def)
    show "\<forall>n. list_all (\<lambda>l. validate_ledger_entry E l = Some l) (ledger_of n base)"
    proof
      fix n
      show "list_all (\<lambda>l. validate_ledger_entry E l = Some l) (ledger_of n base)"
        using canonical_ledgers [OF r, of n] by (cases n) (simp_all add: base)
    qed
  qed
  define appended where "appended = set_ledger f (ledger_of f base @ [e]) base"
  have appended_ok: "canonical_record E appended"
    using appended_canonical [OF base_ok red(2), unfolded same e0(1)] by (simp add: appended_def f_def)
  define final where "final = appended\<lparr>rr_workflow_state := rr_workflow_state (oc_record out), rr_stop_reason := None,
                        rr_current_milestone := rr_current_milestone (oc_record out),
                        rr_updated_at := rr_updated_at (oc_record out)\<rparr>"
  have final: "final = s"
    unfolding final_def appended_def u base s_def recovered_def f_def Let_def same e0(1)
    by (cases "oc_command out") (simp_all add: run_record.splits)
  have "rr_workflow_state appended = rr_workflow_state r" by (simp add: appended_def base)
  moreover have "rr_workflow_state s = rl_post_state e0"
    unfolding s_def recovered_def Let_def same by simp
  moreover have "allowed (rl_pre_state e0) (rl_post_state e0)" using e0(4) by (auto simp: validate_ledger_entry_def)
  ultimately have ok: "allowed (rr_workflow_state appended) (rr_workflow_state final)"
    unfolding final using e0(2) by simp
  have rb: "rebuild E base = Inr base" "rebuild E appended = Inr appended" "rebuild E final = Inr final"
    using base_ok appended_ok s_ok by (simp_all add: rebuild_def final)
  have eqs: "with_counters (rl_budgets_touched e) r = base"
    "set_ledger (ledger_by_command (rl_command e)) (ledger_of (ledger_by_command (rl_command e)) base @ [e]) base = appended"
    "appended\<lparr>rr_workflow_state := rr_workflow_state (oc_record out), rr_stop_reason := None,
       rr_current_milestone := rr_current_milestone (oc_record out), rr_updated_at := rr_updated_at (oc_record out)\<rparr> = s"
    by (simp_all add: base_def appended_def final [symmetric] final_def ledger_by_command_fields same e0(1) f_def)
  show ?thesis
  proof (cases "oc_command out = RECOVER_FAILED_REVIEW")
    case True
    then have "rl_budgets_touched e \<noteq> []" using b0 same by simp
    then have "recovery_constituents E r out = Inr (e,
        [(RUN_RECORD_UPDATED, r, base), (RECOVERY_LEDGER_APPENDED, base, appended), (STATE_TRANSITIONED, appended, s)])"
      using rb ok by (simp add: recovery_constituents_def assms(4) Let_def eqs expected final)
    then show ?thesis using True base_ok appended_ok s_ok unfolding s [symmetric]
      by (intro exI conjI) (assumption, simp_all)
  next
    case False
    then have br: "base = r" and "rl_budgets_touched e = []" using b0 same by (simp_all add: base restored_rounds_def)
    then have "recovery_constituents E r out = Inr (e,
        [(RECOVERY_LEDGER_APPENDED, r, appended), (STATE_TRANSITIONED, appended, s)])"
      using rb ok by (simp add: recovery_constituents_def assms(4) Let_def eqs [unfolded br] expected final)
    then show ?thesis using False appended_ok s_ok unfolding s [symmetric]
      by (intro exI conjI) (assumption, simp_all)
  qed
qed

lemma recovery_refused:
  "redacted_entry E (oc_entry out) = None \<Longrightarrow> recovery_constituents E r out = Inl EntryInvalid"
  by (simp add: recovery_constituents_def)

end
