(* ===== verification/Concrete_Recovery.thy ===== *)
theory Concrete_Recovery
  imports Recovery_Publication Concrete_Plan Concrete_Redaction Clean_Text
begin

text \<open>
  A run that stopped after its only review timed out, with the review budget consumed, and the recovery that
  gives the budget back; once with an operator's reason that holds a credential.
\<close>

definition timed_out_review :: provider_run_record where
  "timed_out_review =
     \<lparr>pr_sequence = 1, pr_role = REVIEW, pr_provider = lit ''codex'', pr_milestone_id = None,
      pr_started_at = demo_time, pr_completed_at = Some demo_time, pr_duration_ms = 1, pr_exit_code = None,
      pr_timed_out = True, pr_failure_class = Some TIMEOUT, pr_prompt_path = lit ''prompts/1.txt'',
      pr_stdout_path = lit ''transcripts/1.out'', pr_stderr_path = lit ''transcripts/1.err''\<rparr>"

definition stopped_record :: run_record where
  "stopped_record = demo_record\<lparr>rr_workflow_state := HUMAN_INTERVENTION_REQUIRED,
     rr_stop_reason := Some STAGE_START_NOT_CONFIRMED, rr_provider_runs := [timed_out_review],
     rr_review_attempts := 1, rr_successful_review_rounds := 1\<rparr>"

definition recovery_moment :: recovery_context where
  "recovery_moment = \<lparr>rq_branch = lit ''main'', rq_head_sha = zeros, rq_recorded_at = demo_time\<rparr>"

definition review_entry :: recovery_ledger_entry where
  "review_entry =
     \<lparr>rl_command = RECOVER_FAILED_REVIEW, rl_reason = lit ''timed out'', rl_recorded_at = demo_time,
      rl_pre_state = HUMAN_INTERVENTION_REQUIRED, rl_post_state = REVIEWING, rl_branch = lit ''main'',
      rl_head_sha = zeros, rl_milestone_id = None,
      rl_budgets_touched = [(lit ''successful_review_rounds'', -1)], rl_classification = Some TIMEOUT,
      rl_human_owner_ruling = Some (lit ''review again'')\<rparr>"

definition review_recovered :: recovery_outcome where
  "review_recovered =
     \<lparr>oc_command = RECOVER_FAILED_REVIEW,
      oc_record = stopped_record\<lparr>rr_workflow_state := REVIEWING, rr_stop_reason := None,
        rr_successful_review_rounds := 0, rr_review_recoveries := [review_entry]\<rparr>,
      oc_entry = review_entry, oc_reconstructed = False, oc_evidence_digest = None, oc_corrected_plan = None\<rparr>"

lemma stopped_canonical: "canonical_record demo_env stopped_record"
  by code_simp

lemma review_is_recovered:
  "recover_failed_review demo_env stopped_record TIMEOUT (lit ''review again'') (lit ''timed out'') recovery_moment
     = Inr review_recovered"
  by code_simp

lemma review_recovery_step: "recovery_step demo_env files directory stopped_record review_recovered"
  by (rule recovery_step.recovered [OF review_is_recovered])

section \<open>A reason that holds a credential\<close>

definition secret_entry :: recovery_ledger_entry where
  "secret_entry = review_entry\<lparr>rl_reason := overlapping\<rparr>"

definition published_entry :: recovery_ledger_entry where
  "published_entry = review_entry\<lparr>rl_reason := lit ''token=[REDACTED:credential_assignment] 0123456789abcdef''\<rparr>"

definition secret_recovered :: recovery_outcome where
  "secret_recovered = review_recovered\<lparr>oc_record := (oc_record review_recovered)\<lparr>rr_review_recoveries := [secret_entry]\<rparr>,
     oc_entry := secret_entry\<rparr>"

lemma secret_is_recovered:
  "recover_failed_review demo_env stopped_record TIMEOUT (lit ''review again'') overlapping recovery_moment
     = Inr secret_recovered"
  by code_simp

lemma secret_recovery_step: "recovery_step demo_env files directory stopped_record secret_recovered"
  by (rule recovery_step.recovered [OF secret_is_recovered])

lemma clean_text_redacted: "clean_text v \<Longrightarrow> redacted E v = v"
  by (simp add: clean_text_kept)

lemma clean_json_unchanged: "clean_json v \<Longrightarrow> redact_value E v = (v, [])"
proof (induction E v rule: redact_value.induct)
  case (1 E v)
  then show ?case by (simp add: redact_value.simps clean_string_def clean_text_kept)
next
  case (2 E vs)
  then show ?case by (auto simp: redact_value.simps Let_def comp_def list_all_iff intro!: map_idI)
next
  case (3 E kvs)
  then show ?case
    by (auto simp: redact_value.simps Let_def comp_def split_def list_all_iff intro!: map_idI)
qed (simp_all add: redact_value.simps)

lemma stopped_clean: "clean_record E stopped_record"
proof -
  have "clean_json (dump_run_record stopped_record)" by code_simp
  then show ?thesis by (simp add: clean_record_def clean_json_unchanged)
qed

lemma secret_is_redacted: "redacted_entry demo_env secret_entry = Some published_entry"
proof -
  have clean: "clean_text (lit ''RECOVER_FAILED_REVIEW'')" "clean_text demo_time"
    "clean_text (lit ''HUMAN_INTERVENTION_REQUIRED'')" "clean_text (lit ''REVIEWING'')" "clean_text (lit ''main'')"
    "clean_text zeros" "clean_text (lit ''TIMEOUT'')" "clean_text (lit ''review again'')"
    by code_simp+
  have "redact_json demo_env (dump_ledger_entry secret_entry) = dump_ledger_entry published_entry"
    by (simp add: secret_entry_def published_entry_def review_entry_def dump_ledger_entry_def overlapping_redacted
        clean [THEN clean_text_redacted])
  moreover have "validate_ledger_entry demo_env published_entry = Some published_entry" by code_simp
  ultimately show ?thesis by (simp add: redacted_entry_def reads_ledger_entry)
qed

end
