(* ===== verification/Text_Decoding.thy ===== *)
theory Text_Decoding
  imports Json
begin

text \<open>
  \<open>bytes.decode("utf-8")\<close>, strict and with \<open>errors="replace"\<close>: the longest prefix of the bytes that can still
  be continued is read as one unit, and a unit that is not a code point is one replacement character.
\<close>

text \<open>The ranges of the bytes that may follow a lead byte, or none for a byte that cannot lead.\<close>

definition tail_ranges :: "nat \<Rightarrow> (nat \<times> nat) list option" where
  "tail_ranges b =
     (let any = (0x80, 0xBF) in
      if b < 0x80 then Some []
      else if b < 0xC2 then None
      else if b < 0xE0 then Some [any]
      else if b = 0xE0 then Some [(0xA0, 0xBF), any]
      else if b = 0xED then Some [(0x80, 0x9F), any]
      else if b < 0xF0 then Some [any, any]
      else if b = 0xF0 then Some [(0x90, 0xBF), any, any]
      else if b < 0xF4 then Some [any, any, any]
      else if b = 0xF4 then Some [(0x80, 0x8F), any, any]
      else None)"

fun matched_tail :: "(nat \<times> nat) list \<Rightarrow> bytes \<Rightarrow> nat" where
  "matched_tail ((lo, hi) # ranges) (b # bs) = (if lo \<le> b \<and> b \<le> hi then Suc (matched_tail ranges bs) else 0)"
| "matched_tail _ _ = 0"

definition code_point :: "nat \<Rightarrow> bytes \<Rightarrow> nat" where
  "code_point b bs =
     foldl (\<lambda>acc t. acc * 64 + t mod 64)
       (case length bs of 0 \<Rightarrow> b | Suc 0 \<Rightarrow> b mod 32 | Suc (Suc 0) \<Rightarrow> b mod 16 | _ \<Rightarrow> b mod 8) bs"

function decode_units :: "bytes \<Rightarrow> nat option list" where
  "decode_units [] = []"
| "decode_units (b # bs) =
     (case tail_ranges b of
        None \<Rightarrow> None # decode_units bs
      | Some ranges \<Rightarrow>
          (let k = matched_tail ranges bs in
           (if k = length ranges then Some (code_point b (take k bs)) else None) # decode_units (drop k bs)))"
  by pat_completeness auto
termination
  by (relation "measure length") auto

definition decode_strict :: "bytes \<Rightarrow> pystr option" where
  "decode_strict bs = map_opt id (decode_units bs)"

definition decode_replace :: "bytes \<Rightarrow> pystr" where
  "decode_replace bs = map (\<lambda>u. case u of None \<Rightarrow> 0xFFFD | Some c \<Rightarrow> c) (decode_units bs)"

section \<open>Reading back what was encoded\<close>

definition scalar_value :: "nat \<Rightarrow> bool" where
  "scalar_value c \<longleftrightarrow> c < 0x110000 \<and> \<not> is_surrogate c"

lemma decode_lead:
  assumes "tail_ranges b = Some ranges" and "matched_tail ranges (ts @ rest) = length ranges"
    and "length ts = length ranges" and "code_point b ts = c"
  shows "decode_units (b # ts @ rest) = Some c # decode_units rest"
  using assms by simp

lemma digits64:
  "c = c div 4096 * 4096 + c div 64 mod 64 * 64 + c mod (64 :: nat)"
  "c = c div 262144 * 262144 + c div 4096 mod 64 * 4096 + c div 64 mod 64 * 64 + c mod (64 :: nat)"
proof -
  have d: "c div 64 div 64 = c div 4096" "c div 4096 div 64 = c div 262144"
    by (simp_all add: div_mult2_eq [symmetric])
  show two: "c = c div 4096 * 4096 + c div 64 mod 64 * 64 + c mod (64 :: nat)"
    using div_mult_mod_eq [of c 64] div_mult_mod_eq [of "c div 64" 64] d(1) by linarith
  show "c = c div 262144 * 262144 + c div 4096 mod 64 * 4096 + c div 64 mod 64 * 64 + c mod (64 :: nat)"
    using two div_mult_mod_eq [of "c div 4096" 64] d(2) by linarith
qed

lemma decode_char:
  assumes "scalar_value c"
  shows "decode_units (utf8_char c @ rest) = Some c # decode_units rest"
proof -
  have c: "c < 0x110000" "\<not> (0xD800 \<le> c \<and> c \<le> 0xDFFF)"
    using assms by (auto simp: scalar_value_def is_surrogate_def)
  consider "c < 0x80" | "0x80 \<le> c" "c < 0x800" | "0x800 \<le> c" "c < 0x10000" | "0x10000 \<le> c" by linarith
  then show ?thesis
  proof cases
    case 1
    then show ?thesis by (simp add: tail_ranges_def code_point_def)
  next
    case 2
    define h where "h = c div 64"
    have h: "2 \<le> h" "h < 32" "c = h * 64 + c mod 64"
      using 2 by (simp_all only: h_def div_mult_mod_eq)
    have e: "(192 + h) mod 32 = h" "(128 + c mod 64) mod 64 = c mod 64"
      using h(2) mod_add_eq [of 192 32 h] mod_add_eq [of 128 64 "c mod 64"] by simp_all
    have "code_point (192 + h) [128 + c mod 64] = (192 + h) mod 32 * 64 + (128 + c mod 64) mod 64"
      by (simp add: code_point_def)
    also have "\<dots> = c" unfolding e by (rule h(3) [symmetric])
    finally have "decode_units ((192 + h) # [128 + c mod 64] @ rest) = Some c # decode_units rest"
      using h(1,2) mod_less_divisor [of 64 c]
      by (intro decode_lead [where ranges = "[(0x80, 0xBF)]"]) (simp_all add: tail_ranges_def)
    then show ?thesis using 2 by (simp add: h_def)
  next
    case 3
    define h m where "h = c div 4096" and "m = c div 64 mod 64"
    have h: "h < 16" using 3 by (simp add: h_def less_mult_imp_div_less)
    have hm: "c = h * 4096 + m * 64 + c mod 64" unfolding h_def m_def by (rule digits64)
    have low: "h = 0 \<Longrightarrow> 32 \<le> m" using hm 3 mod_less_divisor [of 64 c] by linarith
    have m: "m < 64" by (simp add: m_def)
    have r: "c mod 64 < 64" by simp
    have high: "m < 32" if h13: "h = 13"
    proof (rule ccontr)
      assume "\<not> m < 32"
      then have "0xD800 \<le> c" "c \<le> 0xDFFF" using hm m r h13 by linarith+
      with c(2) show False by simp
    qed
    have e: "(0xE0 + h) mod 16 = h" "(0x80 + m) mod 64 = m" "(0x80 + c mod 64) mod 64 = c mod 64"
      using h m mod_add_eq [of 224 16 h] mod_add_eq [of 128 64 m] mod_add_eq [of 128 64 "c mod 64"] by simp_all
    have "code_point (0xE0 + h) [0x80 + m, 0x80 + c mod 64]
        = ((0xE0 + h) mod 16 * 64 + (0x80 + m) mod 64) * 64 + (0x80 + c mod 64) mod 64"
      by (simp add: code_point_def)
    also have "\<dots> = c" unfolding e using hm by (simp add: algebra_simps)
    finally have cp: "code_point (0xE0 + h) [0x80 + m, 0x80 + c mod 64] = c" .
    have "decode_units ((0xE0 + h) # [0x80 + m, 0x80 + c mod 64] @ rest) = Some c # decode_units rest"
      by (rule decode_lead [where ranges = "if h = 0 then [(0xA0, 0xBF), (0x80, 0xBF)]
            else if h = 13 then [(0x80, 0x9F), (0x80, 0xBF)] else [(0x80, 0xBF), (0x80, 0xBF)]"])
        (use h m r low high cp in \<open>auto simp: tail_ranges_def Let_def\<close>)
    then show ?thesis using 3 by (simp add: h_def m_def)
  next
    case 4
    define h m n where "h = c div 262144" and "m = c div 4096 mod 64" and "n = c div 64 mod 64"
    have hm: "c = h * 262144 + m * 4096 + n * 64 + c mod 64" unfolding h_def m_def n_def by (rule digits64)
    have m: "m < 64" "n < 64" by (simp_all add: m_def n_def)
    have h: "h < 5" using c(1) by (simp add: h_def less_mult_imp_div_less)
    have low: "h = 0 \<Longrightarrow> 16 \<le> m" using hm 4 m mod_less_divisor [of 64 c] by linarith
    have high: "h = 4 \<Longrightarrow> m < 16" using hm c(1) by linarith
    have r: "c mod 64 < 64" by simp
    have e: "(0xF0 + h) mod 8 = h" "(0x80 + m) mod 64 = m" "(0x80 + n) mod 64 = n"
        "(0x80 + c mod 64) mod 64 = c mod 64"
      using h m mod_add_eq [of 240 8 h] mod_add_eq [of 128 64 m] mod_add_eq [of 128 64 n]
        mod_add_eq [of 128 64 "c mod 64"]
      by simp_all
    have "code_point (0xF0 + h) [0x80 + m, 0x80 + n, 0x80 + c mod 64]
        = (((0xF0 + h) mod 8 * 64 + (0x80 + m) mod 64) * 64 + (0x80 + n) mod 64) * 64 + (0x80 + c mod 64) mod 64"
      by (simp add: code_point_def numeral_3_eq_3)
    also have "\<dots> = c" unfolding e using hm by (simp add: algebra_simps)
    finally have cp: "code_point (0xF0 + h) [0x80 + m, 0x80 + n, 0x80 + c mod 64] = c" .
    have "decode_units ((0xF0 + h) # [0x80 + m, 0x80 + n, 0x80 + c mod 64] @ rest) = Some c # decode_units rest"
      by (rule decode_lead [where ranges = "if h = 0 then [(0x90, 0xBF), (0x80, 0xBF), (0x80, 0xBF)]
            else if h = 4 then [(0x80, 0x8F), (0x80, 0xBF), (0x80, 0xBF)]
            else [(0x80, 0xBF), (0x80, 0xBF), (0x80, 0xBF)]"])
        (use h m r low high cp in \<open>auto simp: tail_ranges_def Let_def\<close>)
    then show ?thesis using 4 by (simp add: h_def m_def n_def)
  qed
qed

lemma decode_units_utf8: "list_all scalar_value v \<Longrightarrow> decode_units (utf8 v) = map Some v"
  by (induction v) (simp_all del: utf8_char.simps add: utf8_def decode_char)

lemma decode_replace_utf8: "list_all scalar_value v \<Longrightarrow> decode_replace (utf8 v) = v"
  by (simp add: decode_replace_def decode_units_utf8 comp_def)

lemma decode_strict_utf8: "list_all scalar_value v \<Longrightarrow> decode_strict (utf8 v) = Some v"
  by (simp add: decode_strict_def decode_units_utf8) (induction v, simp_all)

text \<open>What is decoded with replacement holds no surrogate, so it can be encoded again.\<close>

lemma matched_tail_bytes:
  "i < matched_tail ranges bs \<Longrightarrow> i < length bs \<and> i < length ranges \<and> fst (ranges ! i) \<le> bs ! i \<and> bs ! i \<le> snd (ranges ! i)"
  by (induction ranges bs arbitrary: i rule: matched_tail.induct) (auto simp: nth_Cons split: nat.splits if_splits)

lemma complete_unit:
  assumes r: "tail_ranges b = Some ranges"
    and t: "\<And>i. i < length ranges \<Longrightarrow> i < length bs \<and> fst (ranges ! i) \<le> bs ! i \<and> bs ! i \<le> snd (ranges ! i)"
    and k: "k = length ranges"
  shows "scalar_value (code_point b (take k bs))"
proof -
  have "ranges = [] \<or> length ranges = 1 \<or> length ranges = 2 \<or> length ranges = 3"
    using r by (auto simp: tail_ranges_def Let_def split: if_splits)
  then consider "ranges = []" | "length ranges = 1" | "length ranges = 2" | "length ranges = 3" by blast
  then show ?thesis
  proof cases
    case 1
    then show ?thesis using r k
      by (auto simp: tail_ranges_def Let_def code_point_def scalar_value_def is_surrogate_def split: if_splits)
  next
    case 2
    then obtain x xs where bs: "bs = x # xs" using t [of 0] by (cases bs) auto
    have "b mod 32 * 64 + x mod 64 < 0x800"
      using mod_less_divisor [of 32 b] mod_less_divisor [of 64 x] by linarith
    with 2 show ?thesis by (simp add: k bs code_point_def scalar_value_def is_surrogate_def)
  next
    case 3
    then obtain x y xs where bs: "bs = x # y # xs" using t [of 1] by (cases bs; cases "tl bs") auto
    define B X Y where "B = b mod 16" and "X = x mod 64" and "Y = y mod 64"
    have v: "code_point b (take k bs) = B * 4096 + X * 64 + Y"
      by (simp add: k 3 bs code_point_def B_def X_def Y_def algebra_simps)
    have m: "B < 16" "X < 64" "Y < 64" by (simp_all add: B_def X_def Y_def)
    have "0xE0 \<le> b" "b < 0xF0" using r 3 by (auto simp: tail_ranges_def Let_def split: if_splits)
    then have "B = 13 \<Longrightarrow> b = 0xED" unfolding B_def by presburger
    moreover have "b = 0xED \<Longrightarrow> x \<le> 0x9F \<and> 0x80 \<le> x" using r t [of 0] 3 bs by (auto simp: tail_ranges_def Let_def)
    moreover have "x \<le> 0x9F \<and> 0x80 \<le> x \<Longrightarrow> X < 32" unfolding X_def by presburger
    ultimately have "B = 13 \<Longrightarrow> X < 32" by blast
    then have "B * 4096 + X * 64 + Y < 0xD800" if "B = 13" using m that by simp
    moreover have "B * 4096 + X * 64 + Y < 0xD800" if "B < 13" using m that by linarith
    moreover have "0xDFFF < B * 4096 + X * 64 + Y" if "13 < B" using m that by linarith
    ultimately have "B * 4096 + X * 64 + Y < 0xD800 \<or> 0xDFFF < B * 4096 + X * 64 + Y"
      using linorder_less_linear [of B 13] by blast
    then show ?thesis using m by (auto simp: v scalar_value_def is_surrogate_def)
  next
    case 4
    then obtain x y z xs where bs: "bs = x # y # z # xs"
      using t [of 2] by (cases bs; cases "tl bs"; cases "tl (tl bs)") auto
    define B X Y Z where "B = b mod 8" and "X = x mod 64" and "Y = y mod 64" and "Z = z mod 64"
    have v: "code_point b (take k bs) = B * 262144 + X * 4096 + Y * 64 + Z"
      by (simp add: k 4 bs code_point_def B_def X_def Y_def Z_def numeral_3_eq_3 algebra_simps)
    have m: "X < 64" "Y < 64" "Z < 64" by (simp_all add: X_def Y_def Z_def)
    have lead: "0xF0 \<le> b" "b \<le> 0xF4" using r 4 by (auto simp: tail_ranges_def Let_def split: if_splits)
    then have B: "B = b - 0xF0" unfolding B_def by presburger
    have "b = 0xF0 \<Longrightarrow> 0x90 \<le> x \<and> x \<le> 0xBF" "b = 0xF4 \<Longrightarrow> 0x80 \<le> x \<and> x \<le> 0x8F"
      using r t [of 0] 4 bs by (auto simp: tail_ranges_def Let_def)
    moreover have "0x90 \<le> x \<and> x \<le> 0xBF \<Longrightarrow> 16 \<le> X" "0x80 \<le> x \<and> x \<le> 0x8F \<Longrightarrow> X < 16"
      unfolding X_def by presburger+
    ultimately have "B = 0 \<Longrightarrow> 16 \<le> X" "B = 4 \<Longrightarrow> X < 16" using B lead by auto
    moreover have "B \<le> 4" using B lead by simp
    ultimately have "0x10000 \<le> B * 262144 + X * 4096 + Y * 64 + Z" "B * 262144 + X * 4096 + Y * 64 + Z < 0x110000"
      using m by (cases "B = 0"; linarith) (cases "B = 4"; use \<open>B \<le> 4\<close> \<open>B = 4 \<Longrightarrow> X < 16\<close> m in linarith)
    then show ?thesis by (simp add: v scalar_value_def is_surrogate_def)
  qed
qed

lemma decoded_scalar: "Some c \<in> set (decode_units bs) \<Longrightarrow> scalar_value c"
proof (induction bs rule: decode_units.induct)
  case (2 b bs)
  show ?case
  proof (cases "tail_ranges b")
    case None
    then show ?thesis using 2 by simp
  next
    case (Some ranges)
    let ?k = "matched_tail ranges bs"
    have "Some c \<in> set (decode_units (drop ?k bs)) \<Longrightarrow> scalar_value c" using 2(2) [OF Some refl] .
    moreover have "scalar_value (code_point b (take ?k bs))" if k: "?k = length ranges"
    proof -
      have t: "i < length ranges \<Longrightarrow> i < length bs \<and> fst (ranges ! i) \<le> bs ! i \<and> bs ! i \<le> snd (ranges ! i)" for i
        using matched_tail_bytes [of i ranges bs] k by simp
      show ?thesis using Some t k by (rule complete_unit)
    qed
    ultimately show ?thesis using 2(3) Some by (auto simp: Let_def split: if_splits)
  qed
qed simp

lemma decode_replace_scalar: "list_all scalar_value (decode_replace bs)"
  using decoded_scalar [of _ bs]
  by (auto simp: decode_replace_def list_all_iff scalar_value_def is_surrogate_def split: option.split)

lemma decode_replace_encodes: "encode_strict (decode_replace bs) = Some (utf8 (decode_replace bs))"
  using decode_replace_scalar [of bs] by (auto simp: encode_strict_def list_all_iff list_ex_iff scalar_value_def)

end
