(* ===== verification/Transcripts.thy ===== *)
theory Transcripts
  imports Event_Storage Text_Decoding
begin

text \<open>
  The transcripts of one run, from \<open>milestone_runner/state.py\<close>: the durable sequence counter, the names and
  the writes through the redaction boundary. They live in the run directory of the event store.
\<close>

section \<open>Names\<close>

datatype transcript_kind = KIND_PROMPT | KIND_STDOUT | KIND_STDERR | KIND_LAST_MESSAGE

fun transcript_kind_value :: "transcript_kind \<Rightarrow> pystr" where
  "transcript_kind_value KIND_PROMPT = lit ''prompt.md''"
| "transcript_kind_value KIND_STDOUT = lit ''stdout.txt''"
| "transcript_kind_value KIND_STDERR = lit ''stderr.txt''"
| "transcript_kind_value KIND_LAST_MESSAGE = lit ''last-message.md''"

definition TRANSCRIPTS_DIRECTORY :: pystr where "TRANSCRIPTS_DIRECTORY = lit ''transcripts''"
definition TRANSCRIPT_SEQUENCE_FILE_NAME :: pystr where "TRANSCRIPT_SEQUENCE_FILE_NAME = lit ''.sequence''"
definition MAX_SEQUENCE_FILE_BYTES :: nat where "MAX_SEQUENCE_FILE_BYTES = 64"
definition MAX_TRANSCRIPT_SEQUENCE :: nat where "MAX_TRANSCRIPT_SEQUENCE = 99999999"

text \<open>A moment: its \<open>utcoffset()\<close> in seconds, absent when naive, and what \<open>strftime\<close> writes.\<close>

record moment =
  mm_offset :: "int option"
  mm_stamp :: pystr

text \<open>\<open>[a-z0-9]+(?:-[a-z0-9]+)*\<close>.\<close>

definition slug_grammar :: "pystr \<Rightarrow> bool" where
  "slug_grammar v \<longleftrightarrow> list_all (\<lambda>p. p \<noteq> [] \<and> list_all (\<lambda>c. is_lower c \<or> is_digit c) p) (split_on 45 v)"

text \<open>\<open>_TRANSCRIPT_NAME_RE\<close>; each part ends at a character the next one cannot start with.\<close>

definition transcript_stamp_grammar :: "pystr \<Rightarrow> bool" where
  "transcript_stamp_grammar s \<longleftrightarrow>
     length s = 16 \<and> list_all is_digit (take 8 s) \<and> s ! 8 = 84 \<and> list_all is_digit (take 6 (drop 9 s)) \<and> s ! 15 = 90"

definition transcript_name_grammar :: "pystr \<Rightarrow> bool" where
  "transcript_name_grammar name \<longleftrightarrow>
     (let (sequence, hyphen, rest) = partition_at 45 name; stamp = take 16 rest;
          (label, dot, suffix) = partition_at 46 (drop 17 rest) in
      hyphen \<and> 4 \<le> length sequence \<and> length sequence \<le> 8 \<and> list_all is_digit sequence
      \<and> transcript_stamp_grammar stamp \<and> take 1 (drop 16 rest) = [45]
      \<and> label \<noteq> [] \<and> list_all (\<lambda>c. is_lower c \<or> is_digit c \<or> c = 45) label
      \<and> dot \<and> suffix \<in> transcript_kind_value ` {KIND_PROMPT, KIND_STDOUT, KIND_STDERR, KIND_LAST_MESSAGE})"

definition pad4 :: "nat \<Rightarrow> pystr" where
  "pad4 n = (let d = nat_digits n in replicate (4 - length d) 48 @ d)"

definition transcript_name :: "nat \<Rightarrow> moment \<Rightarrow> pystr \<Rightarrow> transcript_kind \<Rightarrow> store_error + pystr" where
  "transcript_name sequence moment label kind =
     raise_if (\<not> (1 \<le> sequence \<and> sequence \<le> MAX_TRANSCRIPT_SEQUENCE)) StatePublicationFailure
     (raise_if (\<not> slug_grammar label) StatePublicationFailure
     (raise_if (mm_offset moment \<noteq> Some 0) StatePublicationFailure
     (let name = pad4 sequence @ 45 # mm_stamp moment @ 45 # label @ 46 # transcript_kind_value kind in
      raise_if (\<not> transcript_name_grammar name) StatePublicationFailure (Inr name))))"

definition transcript_path :: "pystr \<Rightarrow> pystr" where
  "transcript_path name = TRANSCRIPTS_DIRECTORY @ 47 # name"

definition transcript_reference :: "nat \<Rightarrow> moment \<Rightarrow> pystr \<Rightarrow> transcript_kind \<Rightarrow> store_error + pystr" where
  "transcript_reference sequence moment label kind =
     map_sum id transcript_path (transcript_name sequence moment label kind)"

section \<open>The counter\<close>

text \<open>
  \<open>int\<close> of a text: an optional sign and digits that single underscores may separate. \<open>foreign\<close> is what it
  yields on a text with characters beyond ASCII, where decimal digits of other scripts count.
\<close>

definition int_of_text :: "(pystr \<Rightarrow> int option) \<Rightarrow> pystr \<Rightarrow> int option" where
  "int_of_text foreign v =
     (if list_ex (\<lambda>c. 128 \<le> c) v then foreign v
      else
        let body = strip v; negative = (take 1 body = [45]);
            digits = (if take 1 body \<in> {[45], [43]} then drop 1 body else body);
            groups = split_on 95 digits in
        if list_all (\<lambda>g. g \<noteq> [] \<and> list_all is_digit g) groups
        then Some ((if negative then -1 else 1) * int (digits_value (concat groups)))
        else None)"

definition counter_path :: pystr where "counter_path = transcript_path TRANSCRIPT_SEQUENCE_FILE_NAME"

datatype transcript_error = StoreRefused store_error | StateCorrupted

text \<open>
  A link at the counter is refused: here if its target is a regular file, by the write that follows otherwise.
  The tree does not say which, so the model refuses here.
\<close>

definition read_transcript_sequence :: "(pystr \<Rightarrow> int option) \<Rightarrow> tree \<Rightarrow> transcript_error + nat" where
  "read_transcript_sequence foreign files =
     (case files counter_path of
        Some (RegularFile payload) \<Rightarrow>
          raise_if (length payload > MAX_SEQUENCE_FILE_BYTES) StateCorrupted
          (rbind (from_option StateCorrupted (Option.bind (decode_strict payload) (\<lambda>v. int_of_text foreign (strip v))))
            (\<lambda>value. raise_if (\<not> (0 \<le> value \<and> value \<le> int MAX_TRANSCRIPT_SEQUENCE)) StateCorrupted (Inr (nat value))))
      | Some (UnsafeNode SymbolicLink) \<Rightarrow> Inl StateCorrupted
      | _ \<Rightarrow> Inr 0)"

text \<open>An action of the store inside an operation with exceptions of its own.\<close>

definition a_within :: "('e \<Rightarrow> 'f) \<Rightarrow> ('s, 'e, 'a) action \<Rightarrow> ('s, 'f, 'a) action" where
  "a_within h m = (\<lambda>s. case m s of (t, Inl e) \<Rightarrow> (t, Inl (h e)) | (t, Inr x) \<Rightarrow> (t, Inr x))"

type_synonym 'a transcript_action = "(event_store, transcript_error, 'a) action"

definition next_transcript_sequence ::
  "pyenv \<Rightarrow> (pystr \<Rightarrow> int option) \<Rightarrow> disk_answers \<Rightarrow> nat transcript_action" where
  "next_transcript_sequence E foreign disk =
     a_bind (a_get (\<lambda>s. rd_run (es_disk s))) (\<lambda>files.
     a_bind (a_pure (read_transcript_sequence foreign files)) (\<lambda>last.
     let allocated = last + 1 in
     a_raise_if (allocated > MAX_TRANSCRIPT_SEQUENCE) (StoreRefused StatePublicationFailure)
     (a_bind (a_within StoreRefused
               (write_redacted_artifact E disk counter_path (nat_digits allocated @ [10]) False False)) (\<lambda>_.
      a_return allocated))))"

definition write_transcript ::
  "pyenv \<Rightarrow> disk_answers \<Rightarrow> nat \<Rightarrow> pystr \<Rightarrow> transcript_kind \<Rightarrow> pystr \<Rightarrow> moment \<Rightarrow> (pystr \<times> redacted_write) transcript_action" where
  "write_transcript E disk sequence label kind content moment =
     a_within StoreRefused
       (a_bind (a_pure (transcript_reference sequence moment label kind)) (\<lambda>reference.
        a_bind (write_redacted_artifact E disk reference content False False) (\<lambda>w. a_return (reference, w))))"

end
