(* ===== verification/Verification.thy ===== *)
theory Verification
  imports Transcripts Runner_Config
begin

text \<open>
  \<open>milestone_runner/verification.py\<close>: the environment and the bounded execution of verification commands, the
  executor that persists their complete output, and the governance gate with the documents it reads. What
  the operating system does with a command is the parameter \<open>spawn\<close>, the wall clock the parameter \<open>clock\<close>,
  both indexed by the number of answers the disk has given, and \<open>json.loads\<close> the parameter \<open>read_json\<close>.
\<close>

section \<open>Constants\<close>

definition MAX_CAPTURED_STDOUT_BYTES :: nat where "MAX_CAPTURED_STDOUT_BYTES = 8 * 2 ^ 20"
definition MAX_CAPTURED_STDERR_BYTES :: nat where "MAX_CAPTURED_STDERR_BYTES = 8 * 2 ^ 20"
definition VERIFICATION_TRANSCRIPT_LABEL :: pystr where "VERIFICATION_TRANSCRIPT_LABEL = lit ''verification''"
definition MAX_CHECK_DOCUMENT_BYTES :: nat where "MAX_CHECK_DOCUMENT_BYTES = 2 ^ 20"
definition GOVERNANCE_GIT_CHECK :: pystr where "GOVERNANCE_GIT_CHECK = lit ''git''"

definition UNCONDITIONAL_GOVERNANCE_CHECKS :: "pystr list" where
  "UNCONDITIONAL_GOVERNANCE_CHECKS = map lit [''task-state'', ''governance'', ''registries'', ''handover'']"

definition REQUIRED_GOVERNANCE_CHECKS :: "pystr list" where
  "REQUIRED_GOVERNANCE_CHECKS = GOVERNANCE_GIT_CHECK # UNCONDITIONAL_GOVERNANCE_CHECKS"

definition TOLERATED_GIT_FINDING_CODES :: "pystr list" where
  "TOLERATED_GIT_FINDING_CODES = [lit ''upstream_missing'']"

section \<open>Outcomes and refusals\<close>

record command_outcome =
  co_exit_code :: "int option"
  co_timed_out :: bool
  co_spawn_error :: "pystr option"
  co_stdout :: pystr
  co_stderr :: pystr
  co_stdout_truncated :: bool
  co_stderr_truncated :: bool
  co_duration_ms :: nat

definition command_passed :: "command_outcome \<Rightarrow> bool" where
  "command_passed o' \<longleftrightarrow> co_exit_code o' = Some 0 \<and> \<not> co_timed_out o' \<and> co_spawn_error o' = None"

record verification_outcome =
  vo_result :: verification_result
  vo_stdout :: pystr
  vo_stderr :: pystr
  vo_stdout_truncated :: bool
  vo_stderr_truncated :: bool
  vo_spawn_error :: "pystr option"
  vo_purpose :: "pystr option"
  vo_writes :: "redacted_write list"

text \<open>
  \<open>ResultRefused\<close> is pydantic's refusal of a \<open>VerificationResult\<close>, \<open>PyUnicodeEncodeError\<close> that of a text
  with a surrogate no process can be given and no file can hold; neither is a \<open>VerificationError\<close>.
\<close>

datatype verification_error =
    VerificationError
  | GovernanceContradiction "pystr list" "verification_outcome list"
  | Transcript transcript_error
  | ResultRefused
  | PyUnicodeEncodeError

section \<open>One bounded command\<close>

definition build_verification_environment ::
  "(pystr \<rightharpoonup> pystr) \<Rightarrow> pystr option \<Rightarrow> (pystr \<rightharpoonup> pystr)" where
  "build_verification_environment source conda_bin =
     (case conda_bin of
        None \<Rightarrow> source
      | Some bin \<Rightarrow>
          (let existing = (case source (lit ''PATH'') of None \<Rightarrow> [] | Some path \<Rightarrow> path) in
           source(lit ''PATH'' \<mapsto> (if existing \<noteq> [] then bin @ 58 # existing else bin))))"

text \<open>What a captured stream is: nothing, bytes, or text.\<close>

datatype captured = NotCaptured | CapturedBytes bytes | CapturedText pystr

definition encode_replace :: "pystr \<Rightarrow> bytes" where
  "encode_replace v = utf8 (map (\<lambda>c. if is_surrogate c then 63 else c) v)"

definition decode_captured :: "captured \<Rightarrow> nat \<Rightarrow> pystr \<times> bool" where
  "decode_captured payload ceiling =
     (let cut = (\<lambda>raw. if length raw \<le> ceiling then (decode_replace raw, False)
                      else (decode_replace (take ceiling raw), True)) in
      case payload of
        NotCaptured \<Rightarrow> ([], False)
      | CapturedText v \<Rightarrow> cut (encode_replace v)
      | CapturedBytes raw \<Rightarrow> cut raw)"

definition recordable_argument :: "pyenv \<Rightarrow> pystr \<Rightarrow> bool" where
  "recordable_argument E argument \<longleftrightarrow>
     argument \<noteq> [] \<and> length argument \<le> MAX_ARGUMENT_CHARS
     \<and> \<not> list_ex (\<lambda>c. c < 0x20 \<or> c = 0x7F) argument
     \<and> strip argument = argument \<and> nfc E argument = argument"

definition validate_recordable_argv :: "pyenv \<Rightarrow> pystr list \<Rightarrow> verification_error + pystr list" where
  "validate_recordable_argv E argv =
     raise_if (argv = []) VerificationError
     (raise_if (\<not> list_all (recordable_argument E) argv) VerificationError (Inr argv))"

text \<open>How \<open>subprocess.run\<close> ends; the message is that of the operating system.\<close>

datatype process_answer =
    Completed int captured captured
  | TimeoutExpired captured captured
  | SpawnRefused pystr
  | ArgumentUnencodable

definition run_bounded_command ::
  "pyenv \<Rightarrow> pystr list \<Rightarrow> int \<Rightarrow> nat \<Rightarrow> nat \<Rightarrow> process_answer \<Rightarrow> nat \<Rightarrow> verification_error + command_outcome" where
  "run_bounded_command E argv timeout_seconds stdout_ceiling stderr_ceiling answer elapsed_ns =
     rbind (validate_recordable_argv E argv) (\<lambda>vector.
     raise_if (timeout_seconds < 1) VerificationError
     (let duration = elapsed_ns div 1000000 in
      case answer of
        TimeoutExpired out err \<Rightarrow>
          (let (stdout, stdout_truncated) = decode_captured out stdout_ceiling;
               (stderr, stderr_truncated) = decode_captured err stderr_ceiling in
           Inr \<lparr>co_exit_code = None, co_timed_out = True, co_spawn_error = None, co_stdout = stdout, co_stderr = stderr,
            co_stdout_truncated = stdout_truncated, co_stderr_truncated = stderr_truncated, co_duration_ms = duration\<rparr>)
      | SpawnRefused message \<Rightarrow>
          Inr \<lparr>co_exit_code = None, co_timed_out = False, co_spawn_error = Some (hd vector @ lit '': '' @ message),
           co_stdout = [], co_stderr = [], co_stdout_truncated = False, co_stderr_truncated = False,
           co_duration_ms = duration\<rparr>
      | Completed code out err \<Rightarrow>
          (let (stdout, stdout_truncated) = decode_captured out stdout_ceiling;
               (stderr, stderr_truncated) = decode_captured err stderr_ceiling in
           Inr \<lparr>co_exit_code = Some code, co_timed_out = False, co_spawn_error = None, co_stdout = stdout,
            co_stderr = stderr, co_stdout_truncated = stdout_truncated, co_stderr_truncated = stderr_truncated,
            co_duration_ms = duration\<rparr>)
      | ArgumentUnencodable \<Rightarrow> Inl PyUnicodeEncodeError))"

section \<open>The executor\<close>

text \<open>The world of an executor; what a process does and how long it takes may depend on the moment.\<close>

record executor =
  xe_env :: pyenv
  xe_foreign :: "pystr \<Rightarrow> int option"
  xe_disk :: disk_answers
  xe_spawn :: "nat \<Rightarrow> pystr list \<Rightarrow> int \<Rightarrow> process_answer \<times> nat"
  xe_clock :: "nat \<Rightarrow> moment"

type_synonym 'a verification_action = "(event_store, verification_error, 'a) action"

definition write_stream ::
  "executor \<Rightarrow> nat \<Rightarrow> moment \<Rightarrow> transcript_kind \<Rightarrow> pystr \<Rightarrow> (pystr \<times> redacted_write) verification_action" where
  "write_stream X sequence moment kind content =
     a_within Transcript (write_transcript (xe_env X) (xe_disk X) sequence VERIFICATION_TRANSCRIPT_LABEL kind content moment)"

definition stderr_text :: "command_outcome \<Rightarrow> pystr" where
  "stderr_text outcome = (case co_spawn_error outcome of None \<Rightarrow> co_stderr outcome | Some refusal \<Rightarrow> refusal)"

definition run_verification ::
  "executor \<Rightarrow> pystr list \<Rightarrow> int \<Rightarrow> pystr option \<Rightarrow> verification_outcome verification_action" where
  "run_verification X argv timeout_seconds purpose =
     a_bind (a_get es_barriers) (\<lambda>now.
     let moment = xe_clock X now; (answer, elapsed) = xe_spawn X now argv timeout_seconds in
     a_bind (a_pure (run_bounded_command (xe_env X) argv timeout_seconds MAX_CAPTURED_STDOUT_BYTES
               MAX_CAPTURED_STDERR_BYTES answer elapsed)) (\<lambda>outcome.
     a_bind (a_within Transcript (next_transcript_sequence (xe_env X) (xe_foreign X) (xe_disk X))) (\<lambda>sequence.
     a_bind (write_stream X sequence moment KIND_STDOUT (co_stdout outcome)) (\<lambda>(stdout_reference, stdout_write).
     a_bind (write_stream X sequence moment KIND_STDERR (stderr_text outcome)) (\<lambda>(stderr_reference, stderr_write).
     a_bind (a_pure (from_option ResultRefused (validate_verification_result (xe_env X)
               \<lparr>vr_command = argv, vr_exit_code = co_exit_code outcome, vr_timed_out = co_timed_out outcome,
                vr_passed = command_passed outcome, vr_duration_ms = int (co_duration_ms outcome),
                vr_stdout_path = stdout_reference, vr_stderr_path = stderr_reference\<rparr>))) (\<lambda>result.
     a_return
       \<lparr>vo_result = result, vo_stdout = co_stdout outcome, vo_stderr = stderr_text outcome,
        vo_stdout_truncated = co_stdout_truncated outcome, vo_stderr_truncated = co_stderr_truncated outcome,
        vo_spawn_error = co_spawn_error outcome, vo_purpose = purpose,
        vo_writes = [stdout_write, stderr_write]\<rparr>))))))"

definition run_configured :: "executor \<Rightarrow> verification_command \<Rightarrow> verification_outcome verification_action" where
  "run_configured X settings =
     run_verification X (vc_command settings) (vc_timeout_seconds settings) (vc_purpose settings)"

fun run_set :: "executor \<Rightarrow> verification_command list \<Rightarrow> verification_outcome list verification_action" where
  "run_set X [] = a_return []"
| "run_set X (settings # rest) =
     a_bind (run_configured X settings) (\<lambda>outcome.
     a_bind (run_set X rest) (\<lambda>outcomes. a_return (outcome # outcomes)))"

section \<open>The documents of the governance checks\<close>

datatype check_status = CHECK_PASS | CHECK_FAIL | CHECK_ERROR

fun check_status_value :: "check_status \<Rightarrow> pystr" where
  "check_status_value CHECK_PASS = lit ''PASS''"
| "check_status_value CHECK_FAIL = lit ''FAIL''"
| "check_status_value CHECK_ERROR = lit ''ERROR''"

record check_result =
  cr_check_name :: pystr
  cr_status :: check_status
  cr_finding_codes :: "pystr list"

record gate_decision =
  gd_checks :: "check_result list"
  gd_tolerated :: "pystr list"
  gd_outcomes :: "verification_outcome list"

text \<open>
  What \<open>json.loads\<close> reads, with the pairs of an object as they stand in the text. The gate tells neither
  numbers nor constants apart, so they are one constructor.
\<close>

datatype document =
    DocString pystr
  | DocArray "document list"
  | DocObject "(pystr \<times> document) list"
  | DocScalar

text \<open>\<open>_rejecting_duplicate_keys\<close> at every object of the document.\<close>

fun unambiguous :: "document \<Rightarrow> bool" where
  "unambiguous (DocArray ds) = list_all unambiguous ds"
| "unambiguous (DocObject kvs) = (distinct (map fst kvs) \<and> list_all (\<lambda>(_, d). unambiguous d) kvs)"
| "unambiguous _ = True"

definition finding_code_grammar :: "pystr \<Rightarrow> bool" where
  "finding_code_grammar v \<longleftrightarrow> slug_grammar (map (\<lambda>c. if c = 95 then 45 else c) v)"

fun finding_code :: "document \<Rightarrow> pystr option" where
  "finding_code (DocObject entry) =
     (case map_of entry (lit ''code'') of
        Some (DocString code) \<Rightarrow> if finding_code_grammar code then Some code else None
      | _ \<Rightarrow> None)"
| "finding_code _ = None"

definition read_status :: "document option \<Rightarrow> check_status option" where
  "read_status found =
     (case found of
        Some (DocString v) \<Rightarrow> find (\<lambda>s. check_status_value s = v) [CHECK_PASS, CHECK_FAIL, CHECK_ERROR]
      | _ \<Rightarrow> None)"

definition parse_governance_check_document ::
  "(pystr \<Rightarrow> document option) \<Rightarrow> pystr \<Rightarrow> pystr \<Rightarrow> verification_outcome list \<Rightarrow> verification_error + check_result" where
  "parse_governance_check_document read_json content check_name outcomes =
     (let refuse = GovernanceContradiction [] outcomes in
      raise_if (\<not> slug_grammar check_name) refuse
      (rbind (from_option PyUnicodeEncodeError (encode_strict content)) (\<lambda>payload.
       raise_if (length payload > MAX_CHECK_DOCUMENT_BYTES) refuse
       (rbind (from_option refuse (read_json content)) (\<lambda>document.
        raise_if (\<not> unambiguous document) refuse
        (case document of
           DocObject mapping \<Rightarrow>
             raise_if (map_of mapping (lit ''check_name'') \<noteq> Some (DocString check_name)) refuse
             (rbind (from_option refuse (read_status (map_of mapping (lit ''status'')))) (\<lambda>status.
              rbind (case map_of mapping (lit ''findings'') of
                       None \<Rightarrow> Inr []
                     | Some (DocArray raw_findings) \<Rightarrow> from_option refuse (map_opt finding_code raw_findings)
                     | Some _ \<Rightarrow> Inl refuse) (\<lambda>codes.
              Inr \<lparr>cr_check_name = check_name, cr_status = status, cr_finding_codes = codes\<rparr>)))
         | _ \<Rightarrow> Inl refuse))))))"

section \<open>The gate\<close>

definition check_code :: "pystr \<Rightarrow> pystr \<Rightarrow> pystr" where
  "check_code name code = name @ 58 # code"

definition tolerated_codes :: "pystr \<Rightarrow> pystr list" where
  "tolerated_codes name = (if name = GOVERNANCE_GIT_CHECK then TOLERATED_GIT_FINDING_CODES else [])"

definition check_contradictions :: "pystr \<Rightarrow> check_result \<Rightarrow> pystr list" where
  "check_contradictions name result =
     map (check_code name) (filter (\<lambda>code. code \<notin> set (tolerated_codes name)) (cr_finding_codes result))
     @ (if cr_status result = CHECK_ERROR then [check_code name (lit ''CHECK_ERROR'')]
        else if cr_status result = CHECK_FAIL \<and> cr_finding_codes result = []
          then [check_code name (lit ''CHECK_FAIL_WITHOUT_FINDING'')]
        else [])"

definition check_tolerated :: "pystr \<Rightarrow> check_result \<Rightarrow> pystr list" where
  "check_tolerated name result =
     map (check_code name) (filter (\<lambda>code. code \<in> set (tolerated_codes name)) (cr_finding_codes result))"

definition evaluate_governance_gate ::
  "check_result list \<Rightarrow> pystr list \<Rightarrow> verification_error + gate_decision" where
  "evaluate_governance_gate results required_checks =
     (let by_name = map (\<lambda>r. (cr_check_name r, r)) results in
      raise_if (\<not> distinct (map fst by_name)) (GovernanceContradiction [] [])
      (raise_if (list_ex (\<lambda>name. map_of by_name name = None) required_checks) (GovernanceContradiction [] [])
      (raise_if (list_ex (\<lambda>name. name \<notin> set required_checks) (map fst by_name)) (GovernanceContradiction [] [])
      (let checks = map (\<lambda>name. the (map_of by_name name)) required_checks;
           contradictions = concat (map2 check_contradictions required_checks checks) in
       raise_if (contradictions \<noteq> []) (GovernanceContradiction contradictions [])
       (Inr \<lparr>gd_checks = checks, gd_tolerated = concat (map2 check_tolerated required_checks checks),
             gd_outcomes = []\<rparr>)))))"

text \<open>The loop of \<open>run_governance_gate\<close> over the required checks, with the outcomes and results so far.\<close>

fun run_checks ::
  "executor \<Rightarrow> (pystr \<Rightarrow> document option) \<Rightarrow> (pystr \<rightharpoonup> verification_command) \<Rightarrow> pystr list \<Rightarrow>
     verification_outcome list \<Rightarrow> check_result list \<Rightarrow> (verification_outcome list \<times> check_result list) verification_action" where
  "run_checks X read_json checks [] outcomes results = a_return (outcomes, results)"
| "run_checks X read_json checks (name # rest) outcomes results =
     a_bind (run_configured X (the (checks name))) (\<lambda>outcome.
     let outcomes' = outcomes @ [outcome] in
     a_raise_if (vr_timed_out (vo_result outcome) \<or> vo_spawn_error outcome \<noteq> None)
       (GovernanceContradiction [] outcomes')
     (a_bind (a_pure (parse_governance_check_document read_json (vo_stdout outcome) name outcomes')) (\<lambda>result.
      run_checks X read_json checks rest outcomes' (results @ [result]))))"

text \<open>The refusal of the evaluation is raised again with the outcomes.\<close>

fun with_outcomes :: "verification_outcome list \<Rightarrow> verification_error + gate_decision \<Rightarrow> verification_error + gate_decision" where
  "with_outcomes outcomes (Inl (GovernanceContradiction findings _)) = Inl (GovernanceContradiction findings outcomes)"
| "with_outcomes outcomes (Inl e) = Inl e"
| "with_outcomes outcomes (Inr decision) = Inr (decision\<lparr>gd_outcomes := outcomes\<rparr>)"

definition run_governance_gate ::
  "executor \<Rightarrow> (pystr \<Rightarrow> document option) \<Rightarrow> (pystr \<times> verification_command) list \<Rightarrow> pystr list \<Rightarrow>
     gate_decision verification_action" where
  "run_governance_gate X read_json checks required_checks =
     a_raise_if (list_ex (\<lambda>name. map_of checks name = None) required_checks) (GovernanceContradiction [] [])
     (a_raise_if (list_ex (\<lambda>name. name \<notin> set required_checks) (map fst checks)) (GovernanceContradiction [] [])
     (a_bind (run_checks X read_json (map_of checks) required_checks [] []) (\<lambda>(outcomes, results).
      a_pure (with_outcomes outcomes (evaluate_governance_gate results required_checks)))))"

end
