(* ===== verification/Verification_Facts.thy ===== *)
theory Verification_Facts
  imports Verification Clean_Text Storage_Facts Operation_Paths
begin

text \<open>
  The transcripts of a run are numbered by a counter that is written first, so no transcript is ever
  overwritten, whatever the disk answers; what the outcome of a command says and where its output is; and
  when the governance gate opens.
\<close>

section \<open>The counter\<close>

abbreviation run_files :: "event_store \<Rightarrow> tree" where
  "run_files s \<equiv> rd_run (es_disk s)"

definition counter_bytes :: "nat \<Rightarrow> bytes" where
  "counter_bytes n = utf8 (nat_digits n @ [10])"

definition digit_line :: "nat \<Rightarrow> bool" where
  "digit_line c \<longleftrightarrow> c = 10 \<or> 48 \<le> c \<and> c \<le> 57"

lemma digit_line_clean: "digit_line a \<Longrightarrow> clean_pair a b" "digit_line a \<Longrightarrow> clean_triple a b c"
  by (auto simp: digit_line_def clean_pair_def clean_triple_def fold_case_def is_upper_def)

lemma digit_lines: "list_all digit_line t \<Longrightarrow> clean_text t"
  by (induction t rule: clean_text.induct) (simp_all add: digit_line_clean)

lemma counter_text:
  "list_all digit_line (nat_digits n @ [10])"
  using digits_digits [of n] by (auto simp: list_all_iff digit_line_def)

lemma counter_redacted: "redact_text E (nat_digits n @ [10]) = (nat_digits n @ [10], [])"
  by (rule clean_text_kept [OF digit_lines [OF counter_text]])

lemma counter_scalars: "list_all scalar_value (nat_digits n @ [10])"
  using counter_text [of n] by (auto simp: list_all_iff digit_line_def scalar_value_def is_surrogate_def)

lemma counter_encodes: "encode_strict (nat_digits n @ [10]) = Some (counter_bytes n)"
  using counter_scalars [of n]
  by (auto simp: encode_strict_def counter_bytes_def list_all_iff list_ex_iff scalar_value_def)

lemma nat_digits_nonempty: "nat_digits n \<noteq> []"
  by (subst nat_digits.simps) simp

lemma strip_digits: "list_all is_digit v \<Longrightarrow> v \<noteq> [] \<Longrightarrow> strip (v @ [10]) = v" "list_all is_digit v \<Longrightarrow> strip v = v"
proof -
  have no: "is_digit c \<Longrightarrow> \<not> is_space c" for c by (auto simp: is_digit_def is_space_def)
  assume v: "list_all is_digit v"
  then have rv: "dropWhile is_space (rev v) = rev v"
    using no by (cases v rule: rev_cases) auto
  have lv: "dropWhile is_space (v @ w) = v @ w" if "v \<noteq> []" for w
    using v no that by (cases v) auto
  have "is_space 10" by (simp add: is_space_def)
  then show "v \<noteq> [] \<Longrightarrow> strip (v @ [10]) = v" using rv lv [of "[10]"] by (simp add: strip_def)
  show "strip v = v" using rv lv [of "[]"] by (cases "v = []") (simp_all add: strip_def)
qed

lemma digits_are_digits: "list_all is_digit (nat_digits n)"
  using digits_digits [of n] by (simp add: list_all_iff is_digit_def)

lemma int_of_digits:
  assumes "list_all is_digit v" and "v \<noteq> []"
  shows "int_of_text foreign v = Some (int (digits_value v))"
proof -
  have d: "\<forall>c \<in> set v. 48 \<le> c \<and> c \<le> 57" using assms(1) by (simp add: list_all_iff is_digit_def)
  then have small: "\<not> list_ex (\<lambda>c. 128 \<le> c) v" by (auto simp: list_ex_iff)
  have "take 1 v \<noteq> [45]" "take 1 v \<noteq> [43]" using d assms(2) by (cases v; force)+
  moreover have "split_on 95 v = [v]" using d by (intro split_on_plain) auto
  ultimately show ?thesis
    using small assms strip_digits(2) [OF assms(1)] by (simp add: int_of_text_def Let_def)
qed

lemma counter_length: "n \<le> MAX_TRANSCRIPT_SEQUENCE \<Longrightarrow> length (counter_bytes n) \<le> MAX_SEQUENCE_FILE_BYTES"
proof -
  assume "n \<le> MAX_TRANSCRIPT_SEQUENCE"
  then have "n < 10 ^ 8" by (simp add: MAX_TRANSCRIPT_SEQUENCE_def)
  then have "length (nat_digits n) \<le> 8" using nat_digits_length [of n 8] by simp
  moreover have "length (utf8 v) \<le> 4 * length v" for v
  proof (induction v)
    case (Cons c v)
    have "length (utf8_char c) \<le> 4" by simp
    with Cons show ?case by (simp add: utf8_def del: utf8_char.simps)
  qed (simp add: utf8_def)
  from this [of "nat_digits n @ [10]"] calculation
  show ?thesis by (simp add: counter_bytes_def MAX_SEQUENCE_FILE_BYTES_def)
qed

lemma counter_read:
  assumes "fs counter_path = Some (RegularFile (counter_bytes n))" and "n \<le> MAX_TRANSCRIPT_SEQUENCE"
  shows "read_transcript_sequence foreign fs = Inr n"
proof -
  have "decode_strict (counter_bytes n) = Some (nat_digits n @ [10])"
    unfolding counter_bytes_def by (rule decode_strict_utf8 [OF counter_scalars])
  moreover have "int_of_text foreign (strip (nat_digits n @ [10])) = Some (int n)"
    using int_of_digits [OF digits_are_digits nat_digits_nonempty]
    by (simp add: strip_digits(1) [OF digits_are_digits nat_digits_nonempty] nat_digits_value)
  ultimately show ?thesis
    using counter_length [OF assms(2)] assms by (simp add: read_transcript_sequence_def)
qed

section \<open>Names\<close>

definition transcript_number :: "pystr \<Rightarrow> nat" where
  "transcript_number name = digits_value (fst (partition_at 45 name))"

lemma pad4_facts: "list_all is_digit (pad4 n)" "digits_value (pad4 n) = n"
  using digits_are_digits [of n]
  by (auto simp: pad4_def Let_def digits_value_zeros nat_digits_value list_all_iff is_digit_def)

lemma transcript_name_Inr:
  assumes "transcript_name k moment label kind = Inr name"
  shows "transcript_name_grammar name" and "transcript_number name = k" and "name \<noteq> TRANSCRIPT_SEQUENCE_FILE_NAME"
    and "name = pad4 k @ 45 # mm_stamp moment @ 45 # label @ 46 # transcript_kind_value kind"
    and "1 \<le> k" and "k \<le> MAX_TRANSCRIPT_SEQUENCE" and "mm_offset moment = Some 0"
proof -
  show n: "name = pad4 k @ 45 # mm_stamp moment @ 45 # label @ 46 # transcript_kind_value kind"
    and g: "transcript_name_grammar name"
    and "1 \<le> k" "k \<le> MAX_TRANSCRIPT_SEQUENCE" "mm_offset moment = Some 0"
    using assms by (auto simp: transcript_name_def Let_def split: if_splits)
  have "45 \<notin> set (pad4 k)" using pad4_facts(1) [of k] by (auto simp: list_all_iff is_digit_def)
  then have "takeWhile (\<lambda>d. d \<noteq> 45) name = pad4 k" unfolding n by (subst takeWhile_append2) auto
  then show "transcript_number name = k" by (simp add: transcript_number_def partition_at_def pad4_facts(2))
  have "45 \<notin> set TRANSCRIPT_SEQUENCE_FILE_NAME" by (simp add: TRANSCRIPT_SEQUENCE_FILE_NAME_def lit_def)
  moreover have "45 \<in> set name" by (simp add: n)
  ultimately show "name \<noteq> TRANSCRIPT_SEQUENCE_FILE_NAME" by blast
qed

lemma kind_value_inj: "transcript_kind_value k = transcript_kind_value l \<longleftrightarrow> k = l"
  by (cases k; cases l) (simp_all add: lit_def)

lemma transcript_path_inj [simp]: "transcript_path m = transcript_path n \<longleftrightarrow> m = n"
  by (simp add: transcript_path_def)

section \<open>Nothing is overwritten\<close>

definition transcripts_numbered :: "(pystr \<Rightarrow> int option) \<Rightarrow> tree \<Rightarrow> bool" where
  "transcripts_numbered foreign fs \<longleftrightarrow>
     (\<forall>n name. read_transcript_sequence foreign fs = Inr n \<and> transcript_name_grammar name
        \<and> fs (transcript_path name) \<noteq> None \<longrightarrow> transcript_number name \<le> n)"

definition keeps :: "(pystr \<Rightarrow> int option) \<Rightarrow> tree \<Rightarrow> tree \<Rightarrow> bool" where
  "keeps foreign fs gs \<longleftrightarrow>
     (transcripts_numbered foreign fs \<longrightarrow>
        transcripts_numbered foreign gs \<and> (\<forall>p. p \<noteq> counter_path \<and> fs p \<noteq> None \<longrightarrow> gs p = fs p))"

lemma keeps_refl [simp]: "keeps foreign fs fs" by (simp add: keeps_def)

lemma keeps_trans: "keeps foreign fs gs \<Longrightarrow> keeps foreign gs hs \<Longrightarrow> keeps foreign fs hs"
  by (auto simp: keeps_def)

definition keeping :: "(pystr \<Rightarrow> int option) \<Rightarrow> (event_store, 'e, 'a) action \<Rightarrow> bool" where
  "keeping foreign m \<longleftrightarrow> (\<forall>s. keeps foreign (run_files s) (run_files (fst (m s))))"

lemma keeping_basic [intro, simp]:
  "keeping foreign (a_return x)" "keeping foreign (a_raise e)" "keeping foreign (a_pure r)" "keeping foreign (a_get f)"
  by (simp_all add: keeping_def)

lemma keeping_raise_if [intro]: "keeping foreign m \<Longrightarrow> keeping foreign (a_raise_if c e m)"
  by (simp add: keeping_def a_raise_if_def)

lemma keeping_bind [intro]:
  assumes "keeping foreign m" and "\<And>x. keeping foreign (f x)"
  shows "keeping foreign (a_bind m f)"
  unfolding keeping_def
proof
  fix s
  obtain t r where m: "m s = (t, r)" by (cases "m s")
  have "keeps foreign (run_files s) (run_files t)" using assms(1) m by (metis fst_conv keeping_def)
  moreover have "keeps foreign (run_files t) (run_files (fst (f x t)))" for x using assms(2) by (simp add: keeping_def)
  ultimately show "keeps foreign (run_files s) (run_files (fst (a_bind m f s)))"
    using keeps_trans by (cases r) (auto simp: a_bind_def m)
qed

lemma write_artifact_cases:
  assumes "write_redacted_artifact E disk path content False False s = (t, r)"
  obtains (refused) e where "r = Inl e" and "run_files t = run_files s"
    | (written) payload where "encode_strict (fst (redact_text E content)) = Some payload"
        and "run_files t = (run_files s)(path \<mapsto> RegularFile payload)" and "r = Inl PublicationUncertain \<or> (\<exists>w. r = Inr w)"
proof -
  have "(\<exists>e. r = Inl e \<and> run_files t = run_files s)
    \<or> (\<exists>payload. encode_strict (fst (redact_text E content)) = Some payload
         \<and> run_files t = (run_files s)(path \<mapsto> RegularFile payload) \<and> (r = Inl PublicationUncertain \<or> (\<exists>w. r = Inr w)))"
    using assms
    unfolding write_redacted_artifact_def publish_atomically_def ask_disk_def settle_def put_action_def put_file_def
    by (cases "encode_strict (fst (redact_text E content))")
      (auto simp: a_bind_def a_raise_if_def action_defs split: prod.splits if_splits)
  then show ?thesis using refused written by blast
qed

lemma next_sequence_cases:
  assumes "next_transcript_sequence E foreign disk s = (t, r)"
  obtains (refused) e where "r = Inl e" and "run_files t = run_files s"
    | (allocated) n where "read_transcript_sequence foreign (run_files s) = Inr n" and "n + 1 \<le> MAX_TRANSCRIPT_SEQUENCE"
        and "run_files t = (run_files s)(counter_path \<mapsto> RegularFile (counter_bytes (n + 1)))"
        and "r = Inr (n + 1) \<or> (\<exists>e. r = Inl e)"
proof (cases "read_transcript_sequence foreign (run_files s)")
  case (Inl e)
  then show ?thesis using assms by (intro refused [of e]) (auto simp: next_transcript_sequence_def)
next
  case (Inr n)
  show ?thesis
  proof (cases "n + 1 > MAX_TRANSCRIPT_SEQUENCE")
    case True
    then show ?thesis using assms Inr refused by (auto simp: next_transcript_sequence_def)
  next
    case False
    obtain u q where w: "write_redacted_artifact E disk counter_path (nat_digits (n + 1) @ [10]) False False s = (u, q)"
      by fastforce
    have tr: "t = u" "r = (case q of Inl e \<Rightarrow> Inl (StoreRefused e) | Inr _ \<Rightarrow> Inr (n + 1))"
      using assms Inr False w
      by (auto simp: next_transcript_sequence_def a_bind_def a_within_def split: sum.splits)
    from w show ?thesis
    proof (cases rule: write_artifact_cases)
      case (refused e)
      with that(1) tr show ?thesis by simp
    next
      case (written payload)
      have "payload = counter_bytes (n + 1)"
        using written(1) counter_encodes [of "n + 1"] by (simp add: counter_redacted)
      then show ?thesis using that(2) [OF Inr] tr written(2,3) False by (auto split: sum.splits)
    qed
  qed
qed

lemma write_transcript_cases:
  assumes "write_transcript E disk k label kind content moment s = (t, r)"
  obtains (refused) e where "r = Inl e" and "run_files t = run_files s"
    | (written) name payload where "transcript_name k moment label kind = Inr name"
        and "encode_strict (fst (redact_text E content)) = Some payload"
        and "run_files t = (run_files s)(transcript_path name \<mapsto> RegularFile payload)"
        and "(\<exists>e. r = Inl e) \<or> (\<exists>w. r = Inr (transcript_path name, w))"
proof (cases "transcript_name k moment label kind")
  case (Inl e)
  then show ?thesis using assms
    by (intro refused [of "StoreRefused e"]) (auto simp: write_transcript_def transcript_reference_def a_within_def)
next
  case (Inr name)
  obtain u q where w: "write_redacted_artifact E disk (transcript_path name) content False False s = (u, q)" by fastforce
  have tr: "t = u" "r = (case q of Inl e \<Rightarrow> Inl (StoreRefused e) | Inr v \<Rightarrow> Inr (transcript_path name, v))"
    using assms Inr w
    by (auto simp: write_transcript_def transcript_reference_def a_bind_def a_within_def split: sum.splits)
  from w show ?thesis
  proof (cases rule: write_artifact_cases)
    case (refused e)
    with that(1) tr show ?thesis by simp
  next
    case (written payload)
    then show ?thesis using that(2) [OF Inr] tr by (auto split: sum.splits)
  qed
qed

lemma grammar_not_counter: "transcript_name_grammar name \<Longrightarrow> transcript_path name \<noteq> counter_path"
  by (auto simp: transcript_name_grammar_def counter_path_def partition_at_def TRANSCRIPT_SEQUENCE_FILE_NAME_def lit_def)

lemma keep_counter:
  assumes "transcripts_numbered foreign fs" and "read_transcript_sequence foreign fs = Inr n" and "n + 1 \<le> MAX_TRANSCRIPT_SEQUENCE"
    and gs: "gs = fs(counter_path \<mapsto> RegularFile (counter_bytes (n + 1)))"
  shows "read_transcript_sequence foreign gs = Inr (n + 1)" and "transcripts_numbered foreign gs"
    and "transcript_name_grammar name \<Longrightarrow> transcript_number name = n + 1 \<Longrightarrow> fs (transcript_path name) = None"
proof -
  show r: "read_transcript_sequence foreign gs = Inr (n + 1)"
    by (rule counter_read [OF _ assms(3)]) (simp add: gs)
  have small: "transcript_number name \<le> n" if "transcript_name_grammar name" "fs (transcript_path name) \<noteq> None" for name
    using assms(1,2) that unfolding transcripts_numbered_def by blast
  show "transcripts_numbered foreign gs"
    unfolding transcripts_numbered_def r using small grammar_not_counter by (force simp: gs)
  show "transcript_name_grammar name \<Longrightarrow> transcript_number name = n + 1 \<Longrightarrow> fs (transcript_path name) = None"
    using small [of name] by fastforce
qed

lemma keep_write:
  assumes "transcripts_numbered foreign gs" and "read_transcript_sequence foreign gs = Inr k"
    and "transcript_name_grammar name" and "transcript_number name \<le> k"
    and hs: "hs = gs(transcript_path name \<mapsto> x)"
  shows "read_transcript_sequence foreign hs = Inr k" and "transcripts_numbered foreign hs"
proof -
  show r: "read_transcript_sequence foreign hs = Inr k"
    using assms(2) grammar_not_counter [OF assms(3)] by (simp add: read_transcript_sequence_def hs)
  show "transcripts_numbered foreign hs"
    unfolding transcripts_numbered_def r
  proof (intro allI impI, elim conjE)
    fix n m
    assume a: "Inr k = Inr n" "transcript_name_grammar m" "hs (transcript_path m) \<noteq> None"
    show "transcript_number m \<le> n"
    proof (cases "m = name")
      case True
      then show ?thesis using assms(4) a by simp
    next
      case False
      then have "gs (transcript_path m) \<noteq> None" using a(3) by (simp add: hs)
      then show ?thesis using assms(1,2) a by (simp add: transcripts_numbered_def)
    qed
  qed
qed

section \<open>One command\<close>

lemma within_cases:
  "a_within h m s = (t, r) \<longleftrightarrow>
     (\<exists>q. m s = (t, q) \<and> r = (case q of Inl e \<Rightarrow> Inl (h e) | Inr x \<Rightarrow> Inr x))"
  by (auto simp: a_within_def split: prod.splits sum.splits)

text \<open>Every way a command can end: how far it came, and what is then in the run directory.\<close>

lemma run_verification_cases:
  assumes "run_verification X argv timeout purpose s = (t, r)"
  obtains (before) e where "r = Inl e" and "run_files t = run_files s"
    | (counted) n e where "read_transcript_sequence (xe_foreign X) (run_files s) = Inr n" and "n + 1 \<le> MAX_TRANSCRIPT_SEQUENCE"
        and "run_files t = (run_files s)(counter_path \<mapsto> RegularFile (counter_bytes (n + 1)))" and "r = Inl e"
    | (half) n e m1 p1 where "read_transcript_sequence (xe_foreign X) (run_files s) = Inr n" and "n + 1 \<le> MAX_TRANSCRIPT_SEQUENCE"
        and "transcript_name (n + 1) (xe_clock X (es_barriers s)) VERIFICATION_TRANSCRIPT_LABEL KIND_STDOUT = Inr m1"
        and "run_files t = (run_files s)(counter_path \<mapsto> RegularFile (counter_bytes (n + 1)), transcript_path m1 \<mapsto> p1)"
        and "r = Inl e"
    | (whole) n outcome m1 m2 p1 p2 where "read_transcript_sequence (xe_foreign X) (run_files s) = Inr n"
        and "n + 1 \<le> MAX_TRANSCRIPT_SEQUENCE"
        and "transcript_name (n + 1) (xe_clock X (es_barriers s)) VERIFICATION_TRANSCRIPT_LABEL KIND_STDOUT = Inr m1"
        and "transcript_name (n + 1) (xe_clock X (es_barriers s)) VERIFICATION_TRANSCRIPT_LABEL KIND_STDERR = Inr m2"
        and "run_files t = (run_files s)(counter_path \<mapsto> RegularFile (counter_bytes (n + 1)),
               transcript_path m1 \<mapsto> RegularFile p1, transcript_path m2 \<mapsto> RegularFile p2)"
        and "run_bounded_command (xe_env X) argv timeout MAX_CAPTURED_STDOUT_BYTES MAX_CAPTURED_STDERR_BYTES
               (fst (xe_spawn X (es_barriers s) argv timeout)) (snd (xe_spawn X (es_barriers s) argv timeout)) = Inr outcome"
        and "encode_strict (fst (redact_text (xe_env X) (co_stdout outcome))) = Some p1"
        and "encode_strict (fst (redact_text (xe_env X) (stderr_text outcome))) = Some p2"
        and "\<And>out. r = Inr out \<Longrightarrow>
               validate_verification_result (xe_env X)
                 \<lparr>vr_command = argv, vr_exit_code = co_exit_code outcome, vr_timed_out = co_timed_out outcome,
                  vr_passed = command_passed outcome, vr_duration_ms = int (co_duration_ms outcome),
                  vr_stdout_path = transcript_path m1, vr_stderr_path = transcript_path m2\<rparr> = Some (vo_result out)
               \<and> vo_stdout out = co_stdout outcome \<and> vo_stderr out = stderr_text outcome
               \<and> vo_spawn_error out = co_spawn_error outcome"
proof -
  let ?now = "es_barriers s"
  obtain answer elapsed where sp: "xe_spawn X ?now argv timeout = (answer, elapsed)" by fastforce
  let ?run = "run_bounded_command (xe_env X) argv timeout MAX_CAPTURED_STDOUT_BYTES MAX_CAPTURED_STDERR_BYTES answer elapsed"
  note def = assms[unfolded run_verification_def Let_def, simplified, unfolded sp, simplified]
  show ?thesis
  proof (cases ?run)
    case (Inl e)
    show ?thesis using def Inl by (intro before [of e]) (auto simp: a_bind_def)
  next
    case (Inr outcome)
    obtain s1 r1 where n1: "next_transcript_sequence (xe_env X) (xe_foreign X) (xe_disk X) s = (s1, r1)" by fastforce
    from n1 show ?thesis
    proof (cases rule: next_sequence_cases)
      case (refused e)
      then show ?thesis using def Inr n1
        by (intro before [of "Transcript e"]) (auto simp: a_bind_def a_within_def)
    next
      case (allocated n)
      show ?thesis
      proof (cases r1)
        case (Inl e)
        then show ?thesis using def Inr n1 allocated
          by (intro counted [of n "Transcript e"]) (auto simp: a_bind_def a_within_def)
      next
        case r1: (Inr k)
        with allocated(4) have k: "r1 = Inr (n + 1)" by auto
        obtain s2 r2 where w1: "write_transcript (xe_env X) (xe_disk X) (n + 1) VERIFICATION_TRANSCRIPT_LABEL KIND_STDOUT
            (co_stdout outcome) (xe_clock X ?now) s1 = (s2, r2)" by fastforce
        from w1 show ?thesis
        proof (cases rule: write_transcript_cases)
          case (refused e)
          then show ?thesis using def Inr n1 allocated k w1
            by (intro counted [of n "Transcript e"]) (auto simp: a_bind_def a_within_def write_stream_def)
        next
          case o1: (written m1 p1)
          show ?thesis
          proof (cases r2)
            case (Inl e)
            then show ?thesis using def \<open>?run = Inr outcome\<close> n1 allocated k w1 o1
              by (intro half [of n m1 "RegularFile p1" "Transcript e"]) (auto simp: a_bind_def a_within_def write_stream_def)
          next
            case r2: (Inr x)
            then obtain wr1 where x: "r2 = Inr (transcript_path m1, wr1)" using o1(4) by auto
            obtain s3 r3 where w2: "write_transcript (xe_env X) (xe_disk X) (n + 1) VERIFICATION_TRANSCRIPT_LABEL KIND_STDERR
                (stderr_text outcome) (xe_clock X ?now) s2 = (s3, r3)" by fastforce
            from w2 show ?thesis
            proof (cases rule: write_transcript_cases)
              case (refused e)
              then show ?thesis using def \<open>?run = Inr outcome\<close> n1 allocated k w1 o1 x w2
                by (intro half [of n m1 "RegularFile p1" "Transcript e"]) (auto simp: a_bind_def a_within_def write_stream_def)
            next
              case o2: (written m2 p2)
              have t: "t = s3" using def \<open>?run = Inr outcome\<close> n1 k w1 x w2
                by (auto simp: a_bind_def a_within_def write_stream_def split: sum.splits prod.splits)
              show ?thesis
              proof (rule whole [of n m1 m2 p1 p2 outcome])
                show "run_files t = (run_files s)(counter_path \<mapsto> RegularFile (counter_bytes (n + 1)),
                   transcript_path m1 \<mapsto> RegularFile p1, transcript_path m2 \<mapsto> RegularFile p2)"
                  using t allocated(3) o1(3) o2(3) by simp
                show "run_bounded_command (xe_env X) argv timeout MAX_CAPTURED_STDOUT_BYTES MAX_CAPTURED_STDERR_BYTES
                   (fst (xe_spawn X ?now argv timeout)) (snd (xe_spawn X ?now argv timeout)) = Inr outcome"
                  using Inr sp by simp
              next
                fix out
                assume "r = Inr out"
                then show "validate_verification_result (xe_env X)
                     \<lparr>vr_command = argv, vr_exit_code = co_exit_code outcome, vr_timed_out = co_timed_out outcome,
                      vr_passed = command_passed outcome, vr_duration_ms = int (co_duration_ms outcome),
                      vr_stdout_path = transcript_path m1, vr_stderr_path = transcript_path m2\<rparr> = Some (vo_result out)
                   \<and> vo_stdout out = co_stdout outcome \<and> vo_stderr out = stderr_text outcome
                   \<and> vo_spawn_error out = co_spawn_error outcome"
                  using def \<open>?run = Inr outcome\<close> n1 k w1 x w2 o2(4)
                  by (auto simp: a_bind_def a_within_def write_stream_def split: sum.splits prod.splits)
              qed (use allocated(1,2) o1(1,2) o2(1,2) in simp_all)
            qed
          qed
        qed
      qed
    qed
  qed
qed

lemma stream_names_differ:
  assumes "transcript_name k m l KIND_STDOUT = Inr m1" and "transcript_name k m l KIND_STDERR = Inr m2"
  shows "m1 \<noteq> m2"
  using transcript_name_Inr(4) [OF assms(1)] transcript_name_Inr(4) [OF assms(2)] by (simp add: lit_def)

lemma run_verification_keeps: "keeping (xe_foreign X) (run_verification X argv timeout purpose)"
  unfolding keeping_def keeps_def
proof (intro allI impI)
  fix s
  assume num: "transcripts_numbered (xe_foreign X) (run_files s)"
  obtain t r where run: "run_verification X argv timeout purpose s = (t, r)" by fastforce
  from run have "transcripts_numbered (xe_foreign X) (run_files t)
    \<and> (\<forall>p. p \<noteq> counter_path \<and> run_files s p \<noteq> None \<longrightarrow> run_files t p = run_files s p)"
  proof (cases rule: run_verification_cases)
    case (before e)
    then show ?thesis using num by simp
  next
    case (counted n e)
    then show ?thesis using keep_counter(2) [OF num counted(1-3)] by simp
  next
    case (half n e m1 p1)
    let ?g = "(run_files s)(counter_path \<mapsto> RegularFile (counter_bytes (n + 1)))"
    note c = keep_counter [OF num half(1,2) refl]
    note f = transcript_name_Inr [OF half(3)]
    have "transcripts_numbered (xe_foreign X) (run_files t)"
      by (rule keep_write(2) [OF c(2) c(1) f(1) _ half(4)]) (simp add: f(2))
    then show ?thesis using half(4) c(3) [OF f(1,2)] by auto
  next
    case (whole n outcome m1 m2 p1 p2)
    let ?g = "(run_files s)(counter_path \<mapsto> RegularFile (counter_bytes (n + 1)))"
    note c = keep_counter [OF num whole(1,2) refl]
    note f = transcript_name_Inr [OF whole(3)] and g = transcript_name_Inr [OF whole(4)]
    have w: "read_transcript_sequence (xe_foreign X) (?g(transcript_path m1 \<mapsto> RegularFile p1)) = Inr (n + 1)"
      "transcripts_numbered (xe_foreign X) (?g(transcript_path m1 \<mapsto> RegularFile p1))"
      using keep_write [OF c(2) c(1) f(1) _ refl] f(2) by simp_all
    have "transcripts_numbered (xe_foreign X) (run_files t)"
      by (rule keep_write(2) [OF w(2) w(1) g(1) _ whole(5)]) (simp add: g(2))
    then show ?thesis using whole(5) c(3) [OF f(1,2)] c(3) [OF g(1,2)] by auto
  qed
  then show "transcripts_numbered (xe_foreign X) (run_files (fst (run_verification X argv timeout purpose s)))
    \<and> (\<forall>p. p \<noteq> counter_path \<and> run_files s p \<noteq> None \<longrightarrow> run_files (fst (run_verification X argv timeout purpose s)) p = run_files s p)"
    by (simp add: run)
qed

lemma keeping_run:
  assumes "keeping foreign m" and "transcripts_numbered foreign (run_files s)" and "m s = (t, r)"
  shows "transcripts_numbered foreign (run_files t)" and "\<forall>p. p \<noteq> counter_path \<and> run_files s p \<noteq> None \<longrightarrow> run_files t p = run_files s p"
  using assms by (force simp: keeping_def keeps_def)+

lemma keeping_configured [intro]: "keeping (xe_foreign X) (run_configured X settings)"
  by (simp add: run_configured_def run_verification_keeps)

lemma keeping_set: "keeping (xe_foreign X) (run_set X commands)"
proof (induction commands)
  case Nil
  then show ?case unfolding run_set.simps by (rule keeping_basic)
next
  case (Cons c cs)
  then show ?case unfolding run_set.simps by (intro keeping_bind keeping_configured keeping_basic)
qed

lemma keeping_checks: "keeping (xe_foreign X) (run_checks X read_json checks names outcomes results)"
proof (induction names arbitrary: outcomes results)
  case Nil
  then show ?case unfolding run_checks.simps by (rule keeping_basic)
next
  case (Cons name names)
  then show ?case unfolding run_checks.simps Let_def
    by (intro keeping_bind keeping_raise_if keeping_configured keeping_basic)
qed

lemma keeping_gate: "keeping (xe_foreign X) (run_governance_gate X read_json checks needed)"
  unfolding run_governance_gate_def using keeping_checks
  by (intro keeping_raise_if keeping_bind) (auto split: prod.splits)

text \<open>What the outcome of a command says, and where its output is.\<close>

lemma command_passed_iff:
  assumes "run_bounded_command E argv timeout c1 c2 answer elapsed = Inr outcome"
  shows "command_passed outcome \<longleftrightarrow> (\<exists>out err. answer = Completed 0 out err)"
  using assms
  by (cases answer) (auto simp: run_bounded_command_def command_passed_def Let_def split: prod.splits)

definition persisted :: "pyenv \<Rightarrow> tree \<Rightarrow> pystr \<Rightarrow> pystr \<Rightarrow> bool" where
  "persisted E fs content reference \<longleftrightarrow>
     (\<exists>name payload. transcript_name_grammar name
        \<and> normalize_relative_posix_path E (transcript_path name) = Some reference
        \<and> encode_strict (fst (redact_text E content)) = Some payload
        \<and> fs (transcript_path name) = Some (RegularFile payload))"

definition output_kept :: "pyenv \<Rightarrow> tree \<Rightarrow> verification_outcome \<Rightarrow> bool" where
  "output_kept E fs out \<longleftrightarrow>
     persisted E fs (vo_stdout out) (vr_stdout_path (vo_result out))
     \<and> persisted E fs (vo_stderr out) (vr_stderr_path (vo_result out))"

lemma validate_verification_result_fields:
  assumes "validate_verification_result E v = Some w"
  shows "vr_passed w = vr_passed v" and "vr_command w = vr_command v" and "vr_timed_out w = vr_timed_out v"
    and "normalize_relative_posix_path E (vr_stdout_path v) = Some (vr_stdout_path w)"
    and "normalize_relative_posix_path E (vr_stderr_path v) = Some (vr_stderr_path w)"
  using assms by (auto simp: validate_verification_result_def Let_def split: if_splits bind_splits option.splits)

lemma run_verification_returns:
  assumes "run_verification X argv timeout purpose s = (t, Inr out)"
  shows "vr_passed (vo_result out) \<longleftrightarrow> (\<exists>o' e d. xe_spawn X (es_barriers s) argv timeout = (Completed 0 o' e, d))"
    and "vr_command (vo_result out) = argv"
    and "output_kept (xe_env X) (run_files t) out"
    and "\<exists>n. read_transcript_sequence (xe_foreign X) (run_files s) = Inr n
           \<and> read_transcript_sequence (xe_foreign X) (run_files t) = Inr (n + 1)"
proof -
  from assms have "(vr_passed (vo_result out) \<longleftrightarrow> (\<exists>o' e d. xe_spawn X (es_barriers s) argv timeout = (Completed 0 o' e, d)))
    \<and> vr_command (vo_result out) = argv \<and> output_kept (xe_env X) (run_files t) out
    \<and> (\<exists>n. read_transcript_sequence (xe_foreign X) (run_files s) = Inr n
           \<and> read_transcript_sequence (xe_foreign X) (run_files t) = Inr (n + 1))"
  proof (cases rule: run_verification_cases)
    case (whole n outcome m1 m2 p1 p2)
    note v = whole(9) [OF refl]
    note f = validate_verification_result_fields [OF conjunct1 [OF v], simplified]
    note g1 = transcript_name_Inr [OF whole(3)] and g2 = transcript_name_Inr [OF whole(4)]
    have d: "m1 \<noteq> m2" by (rule stream_names_differ [OF whole(3,4)])
    have "read_transcript_sequence (xe_foreign X) (run_files t) = Inr (n + 1)"
      using grammar_not_counter [OF g1(1)] grammar_not_counter [OF g2(1)] whole(2,5)
      by (intro counter_read) auto
    moreover have "output_kept (xe_env X) (run_files t) out"
    proof -
      have "run_files t (transcript_path m1) = Some (RegularFile p1)" "run_files t (transcript_path m2) = Some (RegularFile p2)"
        unfolding whole(5) using d by simp_all
      then have "persisted (xe_env X) (run_files t) (co_stdout outcome) (vr_stdout_path (vo_result out))"
        "persisted (xe_env X) (run_files t) (stderr_text outcome) (vr_stderr_path (vo_result out))"
        unfolding persisted_def using f(4,5) whole(7,8) g1(1) g2(1) by blast+
      then show ?thesis using v by (simp add: output_kept_def)
    qed
    moreover have "vr_passed (vo_result out) \<longleftrightarrow> (\<exists>o' e d. xe_spawn X (es_barriers s) argv timeout = (Completed 0 o' e, d))"
      using f(1) command_passed_iff [OF whole(6)] by (cases "xe_spawn X (es_barriers s) argv timeout") auto
    ultimately show ?thesis using f whole(1) by auto
  qed auto
  then show "vr_passed (vo_result out) \<longleftrightarrow> (\<exists>o' e d. xe_spawn X (es_barriers s) argv timeout = (Completed 0 o' e, d))"
    "vr_command (vo_result out) = argv" "output_kept (xe_env X) (run_files t) out"
    "\<exists>n. read_transcript_sequence (xe_foreign X) (run_files s) = Inr n
           \<and> read_transcript_sequence (xe_foreign X) (run_files t) = Inr (n + 1)"
    by blast+
qed

lemma evidence_stays:
  assumes "output_kept E fs out" and "\<forall>p. p \<noteq> counter_path \<and> fs p \<noteq> None \<longrightarrow> gs p = fs p"
  shows "output_kept E gs out"
  using assms grammar_not_counter unfolding output_kept_def persisted_def by (metis option.distinct(1))

section \<open>The gate\<close>

lemma map2_concat_Nil:
  "length xs = length ys \<Longrightarrow> concat (map2 f xs ys) = [] \<longleftrightarrow> (\<forall>(x, y) \<in> set (zip xs ys). f x y = [])"
  by auto

definition check_satisfied :: "pystr \<Rightarrow> check_result \<Rightarrow> bool" where
  "check_satisfied name result \<longleftrightarrow>
     cr_status result \<noteq> CHECK_ERROR
     \<and> (if name = GOVERNANCE_GIT_CHECK
        then set (cr_finding_codes result) \<subseteq> {lit ''upstream_missing''}
          \<and> (cr_status result = CHECK_FAIL \<longrightarrow> cr_finding_codes result \<noteq> [])
        else cr_status result = CHECK_PASS \<and> cr_finding_codes result = [])"

lemma no_contradictions: "check_contradictions name result = [] \<longleftrightarrow> check_satisfied name result"
  by (cases "cr_status result")
    (auto simp: check_contradictions_def check_satisfied_def tolerated_codes_def TOLERATED_GIT_FINDING_CODES_def
      filter_empty_conv)

lemma evaluate_governance_gate_Inr:
  "evaluate_governance_gate results needed = Inr d \<longleftrightarrow>
     distinct (map cr_check_name results) \<and> set (map cr_check_name results) = set needed
     \<and> (\<forall>result \<in> set results. check_satisfied (cr_check_name result) result)
     \<and> d = \<lparr>gd_checks = map (\<lambda>name. the (map_of (map (\<lambda>r. (cr_check_name r, r)) results) name)) needed,
            gd_tolerated = concat (map2 check_tolerated needed
              (map (\<lambda>name. the (map_of (map (\<lambda>r. (cr_check_name r, r)) results) name)) needed)),
            gd_outcomes = []\<rparr>"
    (is "?L \<longleftrightarrow> ?R")
proof -
  let ?m = "map_of (map (\<lambda>r. (cr_check_name r, r)) results)"
  let ?checks = "map (\<lambda>name. the (?m name)) needed"
  have fst: "map fst (map (\<lambda>r. (cr_check_name r, r)) results) = map cr_check_name results" by (simp add: comp_def)
  have dom: "?m name = None \<longleftrightarrow> name \<notin> set (map cr_check_name results)" for name
    by (simp add: map_of_eq_None_iff image_image)
  have hit: "distinct (map cr_check_name results) \<Longrightarrow> r \<in> set results \<Longrightarrow> ?m (cr_check_name r) = Some r" for r
    by (rule map_of_is_SomeI) (auto simp: comp_def)
  have zip: "set (zip needed ?checks) = (\<lambda>name. (name, the (?m name))) ` set needed"
    by (simp add: zip_map2 zip_same_conv_map)
  have sat: "concat (map2 check_contradictions needed ?checks) = []
      \<longleftrightarrow> (\<forall>result \<in> set results. check_satisfied (cr_check_name result) result)"
    if d: "distinct (map cr_check_name results)" and s: "set (map cr_check_name results) = set needed"
  proof -
    have "concat (map2 check_contradictions needed ?checks) = []
        \<longleftrightarrow> (\<forall>name \<in> set needed. check_satisfied name (the (?m name)))"
      by (subst map2_concat_Nil) (simp_all only: length_map zip, auto simp: no_contradictions)
    then show ?thesis using hit [OF d] unfolding s [symmetric] by auto
  qed
  have e: "\<not> list_ex (\<lambda>name. ?m name = None) needed \<longleftrightarrow> set needed \<subseteq> set (map cr_check_name results)"
    "\<not> list_ex (\<lambda>name. name \<notin> set needed) (map cr_check_name results) \<longleftrightarrow> set (map cr_check_name results) \<subseteq> set needed"
    unfolding dom by (auto simp: list_ex_iff)
  show ?thesis
    unfolding evaluate_governance_gate_def Let_def raise_if_Inr fst e sum.inject using sat by auto
qed

lemma parsed_name:
  "parse_governance_check_document read_json content name outcomes = Inr result \<Longrightarrow> cr_check_name result = name"
proof -
  assume "parse_governance_check_document read_json content name outcomes = Inr result"
  then obtain document where "(case document of DocObject mapping \<Rightarrow>
             raise_if (map_of mapping (lit ''check_name'') \<noteq> Some (DocString name)) (GovernanceContradiction [] outcomes)
             (rbind (from_option (GovernanceContradiction [] outcomes) (read_status (map_of mapping (lit ''status'')))) (\<lambda>status.
              rbind (case map_of mapping (lit ''findings'') of
                       None \<Rightarrow> Inr []
                     | Some (DocArray raw_findings) \<Rightarrow>
                         from_option (GovernanceContradiction [] outcomes) (map_opt finding_code raw_findings)
                     | Some _ \<Rightarrow> Inl (GovernanceContradiction [] outcomes)) (\<lambda>codes.
              Inr \<lparr>cr_check_name = name, cr_status = status, cr_finding_codes = codes\<rparr>)))
         | _ \<Rightarrow> Inl (GovernanceContradiction [] outcomes)) = Inr result"
    unfolding parse_governance_check_document_def Let_def raise_if_Inr rbind_Inr by blast
  then show "cr_check_name result = name" by (cases document) (auto simp: raise_if_Inr rbind_Inr)
qed

text \<open>What the loop over the needed checks has established when it returns.\<close>

definition check_evidence ::
  "executor \<Rightarrow> (pystr \<Rightarrow> document option) \<Rightarrow> (pystr \<rightharpoonup> verification_command) \<Rightarrow> tree \<Rightarrow> pystr \<Rightarrow>
     verification_outcome \<Rightarrow> check_result \<Rightarrow> bool" where
  "check_evidence X read_json checks fs name out result \<longleftrightarrow>
     (\<exists>settings. checks name = Some settings \<and> vr_command (vo_result out) = vc_command settings)
     \<and> \<not> vr_timed_out (vo_result out) \<and> vo_spawn_error out = None
     \<and> (\<exists>seen. parse_governance_check_document read_json (vo_stdout out) name seen = Inr result)
     \<and> output_kept (xe_env X) fs out"

lemma run_checks_returns:
  assumes "run_checks X read_json checks names outcomes results s = (t, Inr (all_outcomes, all_results))"
    and "transcripts_numbered (xe_foreign X) (run_files s)" and "\<forall>name \<in> set names. checks name \<noteq> None"
  shows "\<exists>os rs. all_outcomes = outcomes @ os \<and> all_results = results @ rs \<and> length os = length names \<and> length rs = length names
    \<and> (\<forall>i < length names. check_evidence X read_json checks (run_files t) (names ! i) (os ! i) (rs ! i))"
  using assms
proof (induction names arbitrary: outcomes results s)
  case Nil
  then show ?case by simp
next
  case (Cons name names)
  obtain settings where st: "checks name = Some settings" using Cons.prems(3) by auto
  obtain s1 r1 where run: "run_configured X settings s = (s1, r1)" by fastforce
  from Cons.prems(1) st run obtain out result where o1: "r1 = Inr out"
    "\<not> vr_timed_out (vo_result out)" "vo_spawn_error out = None"
    "parse_governance_check_document read_json (vo_stdout out) name (outcomes @ [out]) = Inr result"
    "run_checks X read_json checks names (outcomes @ [out]) (results @ [result]) s1 = (t, Inr (all_outcomes, all_results))"
    by (auto simp: a_bind_def Let_def split: sum.splits prod.splits if_splits)
  note k = keeping_run [OF keeping_configured Cons.prems(2) run]
  from Cons.IH [OF o1(5) k(1)] Cons.prems(3) obtain os rs where ih:
    "all_outcomes = (outcomes @ [out]) @ os" "all_results = (results @ [result]) @ rs"
    "length os = length names" "length rs = length names"
    "\<forall>i < length names. check_evidence X read_json checks (run_files t) (names ! i) (os ! i) (rs ! i)"
    by auto
  note kt = keeping_run(2) [OF keeping_checks k(1) o1(5)]
  note ret = run_verification_returns [OF run[unfolded run_configured_def o1(1)]]
  have "check_evidence X read_json checks (run_files t) name out result"
    using st o1 ret(2) evidence_stays [OF ret(3) kt] by (auto simp: check_evidence_def)
  then have "\<forall>i < length (name # names). check_evidence X read_json checks (run_files t) ((name # names) ! i) ((out # os) ! i)
      ((result # rs) ! i)"
    using ih(5) by (auto simp: nth_Cons split: nat.splits)
  then show ?case using ih by (intro exI [of _ "out # os"] exI [of _ "result # rs"]) simp
qed

lemma gate_returns:
  assumes "run_governance_gate X read_json checks needed s = (t, Inr d)" and "transcripts_numbered (xe_foreign X) (run_files s)"
  shows "distinct needed" and "set (map fst checks) = set needed" and "length (gd_outcomes d) = length needed"
    and "\<exists>results. length results = length needed
      \<and> (\<forall>i < length needed.
           check_evidence X read_json (map_of checks) (run_files t) (needed ! i) (gd_outcomes d ! i) (results ! i)
           \<and> check_satisfied (needed ! i) (results ! i))
      \<and> gd_checks d = results"
proof -
  from assms(1) obtain outcomes results where a: "\<forall>name \<in> set needed. map_of checks name \<noteq> None"
    "set (map fst checks) \<subseteq> set needed"
    "run_checks X read_json (map_of checks) needed [] [] s = (t, Inr (outcomes, results))"
    "with_outcomes outcomes (evaluate_governance_gate results needed) = Inr d"
    unfolding run_governance_gate_def
    by (auto simp: a_bind_def list_ex_iff split: sum.splits prod.splits if_splits)
  from run_checks_returns [OF a(3) assms(2) a(1)] have l: "length outcomes = length needed" "length results = length needed"
    and e: "\<And>i. i < length needed \<Longrightarrow>
      check_evidence X read_json (map_of checks) (run_files t) (needed ! i) (outcomes ! i) (results ! i)"
    by auto
  from a(4) obtain d' where d': "evaluate_governance_gate results needed = Inr d'" "d = d'\<lparr>gd_outcomes := outcomes\<rparr>"
    by (cases "evaluate_governance_gate results needed"; cases "projl (evaluate_governance_gate results needed)") auto
  note g = d'(1)[unfolded evaluate_governance_gate_Inr]
  have names: "map cr_check_name results = needed"
  proof (rule nth_equalityI)
    show "length (map cr_check_name results) = length needed" using l by simp
    fix i
    assume "i < length (map cr_check_name results)"
    then show "map cr_check_name results ! i = needed ! i"
      using e [of i] l by (auto simp: check_evidence_def dest: parsed_name)
  qed
  show "distinct needed" using g names by simp
  show "set (map fst checks) = set needed"
    using a(1,2) by (force simp: map_of_eq_None_iff)
  show "length (gd_outcomes d) = length needed" unfolding d'(2) using l by simp
  have hit: "map_of (map (\<lambda>r. (cr_check_name r, r)) results) (needed ! i) = Some (results ! i)" if "i < length needed" for i
  proof (rule map_of_is_SomeI)
    show "distinct (map fst (map (\<lambda>r. (cr_check_name r, r)) results))" using conjunct1 [OF g] by (simp add: comp_def)
    have "i < length results" "needed ! i = cr_check_name (results ! i)"
      using that l names nth_map [of i results cr_check_name] by simp_all
    then show "(needed ! i, results ! i) \<in> set (map (\<lambda>r. (cr_check_name r, r)) results)" by simp
  qed
  have checks: "gd_checks d = results"
  proof (rule nth_equalityI)
    have c: "gd_checks d = map (\<lambda>name. the (map_of (map (\<lambda>r. (cr_check_name r, r)) results) name)) needed"
    proof -
      have "gd_checks d = gd_checks d'" unfolding d'(2) by simp
      then show ?thesis
        using arg_cong [OF conjunct2 [OF conjunct2 [OF conjunct2 [OF g]]], where f = gd_checks]
        by (simp only: gate_decision.select_convs)
    qed
    show "length (gd_checks d) = length results" unfolding c using l by simp
    show "gd_checks d ! i = results ! i" if "i < length (gd_checks d)" for i
    proof -
      have i: "i < length needed" using that unfolding c by simp
      then show ?thesis unfolding c nth_map [OF i] hit [OF i] by simp
    qed
  qed
  moreover have "check_satisfied (needed ! i) (results ! i)" if "i < length needed" for i
    using g names l that by (metis nth_map nth_mem)
  ultimately show "\<exists>results. length results = length needed
      \<and> (\<forall>i < length needed.
           check_evidence X read_json (map_of checks) (run_files t) (needed ! i) (gd_outcomes d ! i) (results ! i)
           \<and> check_satisfied (needed ! i) (results ! i))
      \<and> gd_checks d = results"
    using l(2) e checks unfolding d'(2) by (intro exI [of _ results]) simp
qed

section \<open>What may be run and what may be recorded\<close>

text \<open>
  The check before a command accepts more than the record of its result: a bidirectional control, a surrogate
  or a C1 control passes it, the command runs, and only then the result is refused.
\<close>

lemma recordable_argument_iff:
  "scalar_field E MAX_ARGUMENT_CHARS a \<longleftrightarrow>
     recordable_argument E a
     \<and> list_all (\<lambda>c. \<not> is_surrogate c \<and> c \<notin> set bidirectional_controls \<and> \<not> (0x80 \<le> c \<and> c \<le> 0x9F)) a"
  by (auto simp: scalar_field_def recordable_argument_def no_forbidden_codepoints_def list_all_iff list_ex_iff)

lemma recordable_may_be_refused:
  assumes "nfc E [0x202E] = [0x202E]"
  shows "validate_recordable_argv E [[0x202E]] = Inr [[0x202E]]"
    and "vr_command v = [[0x202E]] \<Longrightarrow> validate_verification_result E v = None"
proof -
  have "strip [0x202E] = [0x202E]" by (simp add: strip_def is_space_def)
  then show "validate_recordable_argv E [[0x202E]] = Inr [[0x202E]]"
    using assms by (simp add: validate_recordable_argv_def recordable_argument_def MAX_ARGUMENT_CHARS_def)
  have "\<not> scalar_field E MAX_ARGUMENT_CHARS [0x202E]"
    by (simp add: scalar_field_def no_forbidden_codepoints_def bidirectional_controls_def)
  then show "vr_command v = [[0x202E]] \<Longrightarrow> validate_verification_result E v = None"
    by (simp add: validate_verification_result_def refuse_if_def)
qed

end
