(* ===== verification/Concrete_Verification.thy ===== *)
theory Concrete_Verification
  imports Verification_Facts Concrete_Plan
begin

text \<open>
  A gate with the git check and one content check on an empty run directory; the git check fails with the one
  tolerated finding.
\<close>

definition check_document :: "pystr \<Rightarrow> document option" where
  "check_document content =
     (if content = lit ''g'' then Some (DocObject
        [(lit ''check_name'', DocString (lit ''git'')), (lit ''status'', DocString (lit ''FAIL'')),
         (lit ''findings'', DocArray [DocObject [(lit ''code'', DocString (lit ''upstream_missing''))]])])
      else if content = lit ''h'' then Some (DocObject
        [(lit ''check_name'', DocString (lit ''handover'')), (lit ''status'', DocString (lit ''PASS''))])
      else None)"

definition check_commands :: "(pystr \<times> verification_command) list" where
  "check_commands =
     [(lit ''git'', \<lparr>vc_command = [lit ''g''], vc_timeout_seconds = 60, vc_purpose = None\<rparr>),
      (lit ''handover'', \<lparr>vc_command = [lit ''h''], vc_timeout_seconds = 60, vc_purpose = None\<rparr>)]"

definition check_executor :: executor where
  "check_executor =
     \<lparr>xe_env = demo_env, xe_foreign = (\<lambda>_. None), xe_disk = (\<lambda>_. DURABLE),
      xe_spawn = (\<lambda>_ argv _. (Completed (if hd argv = lit ''g'' then 1 else 0) (CapturedBytes (hd argv)) NotCaptured, 0)),
      xe_clock = (\<lambda>_. \<lparr>mm_offset = Some 0, mm_stamp = lit ''20260101T000000Z''\<rparr>)\<rparr>"

definition check_store :: event_store where
  "check_store =
     \<lparr>es_pins = demo_pins, es_state = None, es_entries = [], es_names = [], es_witness = None,
      es_disk = \<lparr>rd_event_names = None, rd_run = (\<lambda>_. None), rd_root = (\<lambda>_. None)\<rparr>, es_barriers = 0\<rparr>"

definition check_needed :: "pystr list" where "check_needed = [lit ''git'', lit ''handover'']"

lemma store_numbered: "transcripts_numbered foreign (run_files check_store)"
  by (simp add: transcripts_numbered_def check_store_def)

lemma check_run: "map_sum (\<lambda>_. ()) (vr_passed \<circ> vo_result)
    (snd (run_verification check_executor [lit ''h''] 60 None check_store)) = Inr True"
  by code_simp

lemma check_gate: "map_sum (\<lambda>_. ()) (\<lambda>d. (gd_tolerated d, map cr_status (gd_checks d)))
    (snd (run_governance_gate check_executor check_document check_commands check_needed check_store))
    = Inr ([lit ''git:upstream_missing''], [CHECK_FAIL, CHECK_PASS])"
  by code_simp

end
