(* ===== verification/Spec2Isabelle.thy ===== *)
theory Spec2Isabelle
  imports Concrete_Facts Concrete_Results Typed_Refusals Concrete_Declaration Concrete_Redaction Concrete_Stage Concrete_Recovery Concrete_Verification
begin

text \<open>
  Verification of ai-workflow-engine: the milestone runner's event-backed run lifecycle.

  The program. \<open>ai_workflow_engine\<close> drives a coding stage through milestones: a run executes provider
  processes (implementation, review, correction, closure), verifies the work, asks a human for
  approval and publishes. The package \<open>milestone_runner\<close> keeps the durable state of such a run. A run
  directory holds one file per lifecycle event, named by sequence number and event type; each event
  carries the digest of its predecessor, a digest of its payload and a content address. The state of
  the run is what the pure fold of these events yields; \<open>state.json\<close> is a disposable projection of
  it, \<open>event-publication.json\<close> a witness of the last published event, and \<open>operations/\<close> holds the
  artifacts that provider operations leave behind. Other packages of the repository (the governance
  documents, the successor planner, the dashboard, the second orchestrator \<open>agentos_workflow\<close>) read
  or produce documents around it.

  Theories and code (paths below \<open>src/src/ai_workflow_engine/milestone_runner/\<close>).
  Prelude: functions that may raise (\<open>'e + 'a\<close>), loops of raising steps and the two interfaces
  \<open>step_invariant\<close> and \<open>step_progress\<close> through which invariants of a replay are proved.
  PyText: strings as code point lists, the scalar grammars and the path normaliser of \<open>models.py\<close>.
  Json: the canonical JSON writers of \<open>events.py\<close> and \<open>models.py\<close> and the canonical digest.
  Run_Vocabulary: the enumerations and the transition table of \<open>models.py\<close>.
  Run_Record, Run_Record_Json, Run_Record_Facts: \<open>RunRecord\<close> and its parts with every validator, the
  dumps and what every validated record satisfies.
  Operations, Operation_Paths, Operation_Artifacts: \<open>operations.py\<close>: step tuples, operation identity,
  artifact addresses, the closed artifacts and their validators.
  Lifecycle_Vocabulary, Lifecycle_Events: the vocabulary, payloads, declarations, the event envelope,
  \<open>build_event\<close> and \<open>parse_event_bytes\<close> of \<open>events.py\<close>.
  Lifecycle_Fold, Lifecycle_Replay: the pure fold \<open>fold_step\<close> / \<open>fold\<close> with every helper, the witness
  check and the projection status.
  Record_Evolution, Lifecycle_Invariants, Operation_Ladder, Mutation_Protocol: one invariant each with
  its preservation by \<open>fold_step\<close>: append-only record histories, whole
  rows of them (\<open>row_kept\<close>, \<open>approval_kept\<close> say what may still change in the last one; the deferred findings are
  a set that changes and not a history), and legal transitions; the current body
  digest and agreement with the pins; the evidence ladder of operations; declared mutations.
  Chain_Load, Chain_Facts: \<open>state.py\<close>: \<open>RunStateStore._stream_verified\<close> with its readers and
  reference checks, and what a load establishes. The interfaces are interpreted on its step.
  Replay_Facts, Typed_Refusals: consequences for whole replays, and the absence of untyped exceptions.
  Machine_Results, Machine_Result_Facts: \<open>results.py\<close>: the block grammar and the four parsers.
  Redaction, Redaction_Facts, Clean_Text: \<open>successor_planning/redaction.py\<close>: the pattern table, the
  backtracking matcher of the regular expressions it uses and \<open>redact_text\<close>; the matcher agrees with the
  declarative meaning of the patterns, every occurrence of a pattern and of each of the eight shapes described
  without the pattern language is replaced, and texts without the trigger characters are left alone.
  Actions, Event_Storage: programs over the operating system as data (\<open>Actions\<close>), and the durable
  publications of \<open>RunLifecycleStorage\<close> in \<open>state.py\<close> written in it: every primitive may fail, and every
  write is not published, published and durable, or published and uncertain.
  Event_Payloads, Event_Store: the payload builders of \<open>events.py\<close> and the appending \<open>EventStore\<close>.
  Storage_Facts, Directory_Facts, Publication_Stages, Append_Facts, Append_Success, Declaration_Facts: what
  a directory can look like at every point of an append, that a load then gives the old or the new
  state or refuses, that an append with nothing in its way returns, and that a declared mutation completes.
  Runner_Config: \<open>config.py\<close>. Path_Patterns, Scope_Guard: \<open>scope.py\<close> with \<open>fnmatch.fnmatchcase\<close>.
  Milestone_Plan, Plan_Facts: \<open>plan.py\<close>. Review_Rounds, Review_Facts: \<open>review.py\<close>.
  Stage_Policy, Stage_Start, Policy_Facts: \<open>policy.py\<close> and the Stage Start records of
  \<open>application.py\<close>. Workflow_Store, Workflow_Facts: \<open>workflow/event_store.py\<close>,
  \<open>workflow/events.py\<close> and \<open>workflow/transitions.py\<close>, the older event-sourced workflow.
  Recovery, Recovery_Facts: \<open>recovery.py\<close>; every command is one canonical change of the record
  (\<open>recovers\<close>). Record_Decoding: the strict reading of a dumped record or ledger entry, which reads back what
  Run_Record_Json writes. Recovery_Publication: \<open>redact_value\<close> and \<open>redact_record\<close> of \<open>events.py\<close>, and
  \<open>_redacted_entry\<close> and the decomposition \<open>_publish_recovery\<close> of \<open>application.py\<close>.
  Text_Decoding: UTF-8 decoding, strict and with replacement. Transcripts, Verification,
  Verification_Facts: the transcripts of \<open>state.py\<close> and \<open>verification.py\<close>: the executor over the run
  directory, and the governance gate with the documents it reads.
  Concrete_Chain, Concrete_Mutation, Concrete_Directory, Concrete_Facts, Concrete_Results,
  Concrete_Redaction, Concrete_Append, Concrete_Declaration, Concrete_Plan, Concrete_Stage,
  Concrete_Recovery, Concrete_Verification: concrete runs, directories, provider answers, plans, Stage Starts and a stopped run;
  they instantiate the hypotheses of the properties.

  Conventions. A Python exception is the left summand; its class is a constructor
  (\<open>lifecycle_error\<close>, \<open>load_error\<close>, \<open>result_error\<close>), the message is not modelled. Constructing a
  pydantic model is a function into \<open>option\<close> (\<open>validate_...\<close>) that returns the normalised model. Python
  integers are \<open>int\<close>; nothing in these modules wraps. Everything is executable except
  \<open>run_path\<close>, \<open>recovery_step\<close> and the step relation of the review rounds, inductive relations used in
  statements only. No fuel is used: loops are structural or end by a measure (\<open>order_rounds\<close>,
  \<open>cycle_walk\<close>).

  Parameters. \<open>pyenv\<close> holds SHA-256, NFC normalisation and the Unicode character tables. Where a property
  assumes something about them its hypotheses say so: that a digest is 64 hexadecimal digits and that NFC
  keeps ASCII. \<open>wire\<close> holds \<open>json.loads\<close> and pydantic's reading of a document into a typed model
  before its validators run; the code compares the canonical bytes of what was read with the file, and so
  does the model. \<open>workflow_wire\<close> and \<open>placement\<close> do the same for the older workflow, \<open>plan_fs\<close> is what the
  plan loader asks of the filesystem and of YAML, \<open>opened_file\<close> what opening a transcript yields. The YAML
  loader is an argument of the parsers, of \<open>load_runner_config\<close> and of the plan loader, and may fail in two ways
  (\<open>yaml_error\<close>): with the \<open>yaml.YAMLError\<close> these functions catch, or with another exception, which leaves them; the answers of the operating system to an append
  are an argument of the storage. \<open>executor\<close> holds what a child process does and what the clock says.

  Not modelled. Directory walks, file descriptors and locks (a run directory is the map of what a no-follow
  walk finds), provider processes, Git, command lines, prompts and the other packages listed with their
  reasons in the manifest. Messages of exceptions.
\<close>

section \<open>The verified load\<close>

text \<open>C2: a load that succeeds has established the whole invariant: the record is well formed,
its digest is the one the chain carries, the pins name the run and repository that were asked for,
every operation's ladder is consistent, an open mutation stands where its declaration says, and the
retained entries are numbered from 1 and end in the tip.\<close>

theorem load_sound:
  assumes "stream_verified E W dir va owner = Inr v"
  shows "sound_record E (lv_state v) \<and> operations_ok (lv_state v) \<and> mutation_ok E (lv_state v)
    \<and> entries_match (lv_state v) (lv_chain v) \<and> lv_record v = fs_record (lv_state v)
    \<and> pn_run_id (fs_pins (lv_state v)) = fst owner
    \<and> pn_repository_identity (fs_pins (lv_state v)) = snd owner"
  using loaded_ok [OF assms] by (simp add: fold_ok_def)

theorem load_sound_witness: "sound_record demo_env demo_state \<and> mutation_ok demo_env demo_state"
  using load_sound [OF demo_load [of True]] by (simp add: demo_view_def)



text \<open>C4: two directories that load with the same publication witness hold the same
event bytes, file by file, unless two different event files have one SHA-256 digest.\<close>

theorem load_tamper_evident:
  assumes "stream_verified E W dir va owner = Inr v" and "stream_verified E W dir' va' owner' = Inr v'"
    and "witness_of W dir' = witness_of W dir"
  shows "map (stored_bytes dir) (listed_names dir) = map (stored_bytes dir') (listed_names dir')
    \<or> collision E (dir, listed_names dir) (dir', listed_names dir')"
  by (rule same_witness_same_bytes [OF assms])

theorem load_tamper_evident_witness:
  "map (stored_bytes demo_directory) (listed_names demo_directory)
     = map (stored_bytes demo_directory) (listed_names demo_directory)
   \<or> collision demo_env (demo_directory, listed_names demo_directory) (demo_directory, listed_names demo_directory)"
  by (rule load_tamper_evident [OF demo_load [of True] demo_load [of False] refl])

text \<open>C26: events cannot be dropped from (or added to) a directory behind the
publication witness: with the same witness and another number of event files the load is refused.\<close>

theorem load_detects_lost_tail:
  assumes "stream_verified E W dir va owner = Inr v" and "witness_of W dir' = witness_of W dir"
    and "length (listed_names dir') \<noteq> length (listed_names dir)"
  shows "\<exists>e. stream_verified E W dir' va' owner' = Inl e"
  by (rule lost_tail_refused [OF assms])

theorem load_detects_lost_tail_witness:
  "\<exists>e. stream_verified demo_env demo_wire (demo_directory\<lparr>rd_event_names := Some []\<rparr>) True demo_owner = Inl e"
proof (rule load_detects_lost_tail [OF demo_load [of True]])
  show "length (listed_names (demo_directory\<lparr>rd_event_names := Some []\<rparr>)) \<noteq> length (listed_names demo_directory)"
    by (simp add: demo_listed demo_empty_listing)
qed (simp add: witness_of_def)

section \<open>The fold\<close>

text \<open>C27: folding a chain of valid events leaves a state whose record is well formed and
digest-checked, whose operations and open mutation are consistent, and whose sequence number is the
number of events.\<close>

theorem fold_establishes:
  assumes "fold_chain E expected items = Inr s" and "list_all (valid_item E) items"
  shows "sound_record E s \<and> operations_ok s \<and> mutation_ok E s \<and> fs_sequence s = int (length items)"
  using fold_chain_ok [OF assms] fold_chain_length [OF assms(1)] by (simp add: fold_ok_def)

theorem fold_establishes_witness:
  "sound_record demo_env demo_state11 \<and> operations_ok demo_state11 \<and> fs_sequence demo_state11 = 11"
  using fold_establishes [OF demo_whole_chain demo_whole_valid]
  by (simp add: demo_items_def demo_items2_def demo_payloads_def)

text \<open>C5: once a declaration is accepted, a run of as many events as it has constituents
leaves exactly the record body the declaration fixed, and closes the mutation; the events carried
the declared indices in order.\<close>

theorem mutation_is_whole:
  assumes "fold_step E None (Some s) (event, sha) = Inr s1" and "le_payload event = ApplicationMutationDeclared d"
    and "fold_from E s1 items = Inr s2" and "list_all (valid_item E) ((event, sha) # items)"
    and "fold_ok E s" and "length items = length (md_constituents d)"
  shows "fs_open_mutation s2 = None \<and> body_digest E (fs_record s2) = md_final_body_digest d
    \<and> map (\<lambda>i. le_mutation_index (fst i)) items = map (\<lambda>c. Some (mc_index c)) (md_constituents d)"
  by (rule declared_mutation_whole [OF assms])

theorem mutation_is_whole_witness:
  "fs_open_mutation demo_state11 = None \<and> body_digest demo_env (fs_record demo_state11) = zeros"
proof -
  have "fold_ok demo_env demo_state8" by (rule demo_state8_ok)
  moreover have "fold_from demo_env demo_state9 (tl demo_items2) = Inr demo_state11"
    using demo_step10 demo_step11 by (simp add: demo_items2_def)
  ultimately show ?thesis
    using mutation_is_whole [OF demo_step9, of demo_declaration "tl demo_items2" demo_state11] demo_items2_valid
    by (simp add: demo_event_def demo_declaration_def demo_items2_def)
qed

text \<open>C6: while a declared mutation is open, an accepted event is its next constituent:
it carries the mutation's id and the next index, and its payload changes the body to the declared
digest.\<close>

theorem mutation_excludes:
  assumes "fold_step E None (Some s) (event, sha) = Inr t" and "valid_item E (event, sha)"
    and "fold_ok E s" and "fs_open_mutation s = Some m"
  shows "(\<exists>c. le_payload event = Constituent c)
    \<and> le_mutation_id event = Some (md_mutation_id (om_declaration m))
    \<and> le_mutation_index event = Some (int (om_applied m) + 1)
    \<and> fs_body_digest t = mc_after_body_digest (md_constituents (om_declaration m) ! om_applied m)"
  by (rule open_mutation_step [OF assms])

theorem mutation_excludes_witness:
  "le_mutation_index (demo_event 10 (Some (zeros, 1)) (Constituent demo_accepted)) = Some 1"
proof -
  have "valid_item demo_env (demo_event 10 (Some (zeros, 1)) (Constituent demo_accepted), zeros)"
    using demo_items2_valid by (simp add: demo_items2_def)
  moreover have "fs_open_mutation demo_state9 = Some \<lparr>om_declaration = demo_declaration, om_declaration_sequence = 9, om_applied = 0\<rparr>"
    by (simp add: demo_state9_def)
  ultimately show ?thesis using mutation_excludes [OF demo_step10 _ demo_state9_ok] by fastforce
qed

text \<open>C40: a run in a terminal state never leaves it, whatever events follow.\<close>

theorem terminal_is_final:
  assumes "fold_from E s items = Inr t" and "list_all (valid_item E) items" and "fold_ok E s"
    and "rr_workflow_state (fs_record s) \<in> set TERMINAL_RUN_STATES"
  shows "rr_workflow_state (fs_record t) = rr_workflow_state (fs_record s)"
  by (rule terminal_stays [OF assms])

theorem terminal_is_final_witness: "rr_workflow_state (fs_record demo_done_next) = DONE"
  using terminal_is_final [OF demo_done_step demo_done_valid demo_done_ok] by (simp add: demo_done_def TERMINAL_RUN_STATES_def)

text \<open>C7: in a folded chain an operation whose result was accepted has a last attempt
with the verdict VALID, and what was accepted is the digest of exactly that validated result.\<close>

theorem accepted_means_valid:
  assumes "fold_chain E expected items = Inr s" and "list_all (valid_item E) items"
    and "fs_operations s i = Some v" and "op_persisted v = Some ACCEPTED"
  shows "op_attempts v \<noteq> [] \<and> at_verdict (last (op_attempts v)) = Some VALID
    \<and> at_receipt_sha256 (last (op_attempts v)) \<noteq> None
    \<and> at_validated_sha256 (last (op_attempts v)) = op_persisted_verdict_sha256 v"
  by (rule accepted_operation [OF assms])

theorem accepted_means_valid_witness: "at_verdict demo_attempt = Some VALID"
  using accepted_means_valid [OF demo_whole_chain demo_whole_valid, of zeros
      "the (fs_operations demo_state11 zeros)"]
  by (simp add: demo_state11_def demo_operation_def)

text \<open>C28: operation evidence is never withdrawn or rewritten by later events: attempts are
append-only, recorded digests and verdicts keep their values, a persisted result freezes its attempts
and its disposition, and the phase never goes down.\<close>

theorem evidence_kept:
  assumes "fold_from E s items = Inr t" and "list_all (valid_item E) items" and "fold_ok E s"
    and "fs_operations s i = Some v"
  shows "\<exists>w. fs_operations t i = Some w \<and> attempts_le (op_attempts v) (op_attempts w)
    \<and> (op_persisted v \<noteq> None \<longrightarrow> op_persisted w = op_persisted v \<and> op_attempts w = op_attempts v)
    \<and> phase_rank (op_highest_phase v) \<le> phase_rank (op_highest_phase w)"
  by (rule operation_evidence_kept [OF assms])

theorem evidence_kept_witness: "\<exists>w. fs_operations demo_state11 zeros = Some w \<and> attempts_le [demo_attempt] (op_attempts w)"
  using evidence_kept [OF demo_mutation_steps demo_items2_valid demo_state8_ok, of zeros demo_operation]
  by (auto simp: demo_state8_def demo_operation_def)

text \<open>C39: the reported phase of an operation is a function of its evidence.\<close>

theorem phase_is_evidence:
  assumes "fold_chain E expected items = Inr s" and "list_all (valid_item E) items"
    and "fs_operations s i = Some v"
  shows "op_highest_phase v = operation_phase_of v \<and> attempts_ok (op_attempts v)"
  using fold_chain_ok [OF assms(1,2)] assms(3) by (simp add: fold_ok_def operations_ok_def ladder_ok_def)

theorem phase_is_evidence_witness: "attempts_ok [demo_attempt]"
  using phase_is_evidence [OF demo_whole_chain demo_whole_valid, of zeros "the (fs_operations demo_state11 zeros)"]
  by (simp add: demo_state11_def demo_operation_def)

text \<open>The state projection is CURRENT exactly when its bytes are the ones the
fold prescribes, MISSING exactly when there is no file, and STALE only for a parsed document with an
older state version.\<close>

theorem projection_is_classified:
  assumes "projection_status ld s payload = Inr p"
  shows "(p = MISSING \<longleftrightarrow> payload = None)
    \<and> (p = CURRENT \<longleftrightarrow> payload \<noteq> None \<and> payload = projection_bytes (fs_record s) (fs_sequence s) (fs_event_id s))
    \<and> (p = STALE \<longrightarrow> (\<exists>b kvs n. payload = Some b \<and> ld b = Some (JObj kvs)
           \<and> obj_get (JObj kvs) (lit ''state_version'') = Some (JInt n) \<and> n < fs_sequence s))"
  using projection_status_cases [OF assms] by (simp add: expected_projection_def)

theorem projection_is_classified_witness: "(MISSING = MISSING) = (None = (None :: bytes option))"
  using projection_is_classified [OF demo_projection] by simp

text \<open>C10: folding valid events never ends in an untyped exception (an index out of
range, a failed assertion, a \<open>ValueError\<close> of a helper): every refusal is a lifecycle error with a
declared stop reason. The only thing asked of the digest function is that it returns 64 lowercase
hexadecimal characters.\<close>

theorem refusals_are_typed:
  assumes "\<forall>b. sha256_hex (sha256 E b)" and "list_all (valid_item E) items"
    and "fold_chain E expected items = Inl e"
  shows "refusal_stop_reason e \<noteq> None"
  using fold_chain_typed [OF assms(1,2)] assms(3) by (simp add: typed_def)

theorem refusals_are_typed_witness: "refusal_stop_reason EventChainBroken \<noteq> None"
proof -
  have "fold_chain demo_env None [(demo_genesis, zeros), (demo_genesis, zeros)] = Inl EventChainBroken"
  proof -
    have "genesis_step demo_env demo_genesis zeros None = Inr demo_state"
      using demo_genesis_step by (simp add: fold_step_def)
    moreover have "fold_step demo_env None (Some demo_state) (demo_genesis, zeros) = Inl EventChainBroken"
      by (simp add: fold_step_def admit_event_def demo_state_def demo_genesis_def demo_event_def)
    ultimately show ?thesis by (simp add: fold_chain_Cons)
  qed
  then show ?thesis
    using demo_genesis_valid by (intro refusals_are_typed [OF demo_env_hash, of "[(demo_genesis, zeros), (demo_genesis, zeros)]" None]) simp_all
qed

text \<open>Accepting a result moves every counter it assigns by exactly one.\<close>

theorem acceptance_counts:
  assumes "apply_accepted E s p d = Inr (after, ops)"
  shows "\<forall>m \<in> set (assigned_counters (ra_updates p)). counter_value after m = counter_value (fs_record s) m + 1"
  by (rule persistence_counters [OF assms])

theorem acceptance_counts_witness:
  "counter_value (fs_record demo_state10) F_SUCCESSFUL_REVIEW_ROUNDS = 1"
  using acceptance_counts [OF demo_accepted_step]
  by (simp add: assigned_counters_def COUNTER_FIELDS_def all_record_field_def demo_state9_def demo_state8_def
      demo_state_def demo_record_def counter_value_def)

section \<open>Addresses and documents\<close>

text \<open>The address of an operation artifact determines the operation, the
attempt and the artifact name, and exactly the derived addresses are recognised.\<close>

theorem artifact_paths_round_trip:
  "match_operation_path path = Some (i, attempt, name) \<longleftrightarrow> operation_artifact_path i name attempt = Inr path"
  using match_operation_artifact match_operation_path_Some by blast

text \<open>The file name of an event gives back its sequence number and type.\<close>

theorem event_names_round_trip:
  assumes "event_file_name sequence event_type = Inr name"
  shows "parse_event_file_name name = Some (sequence, event_type)"
  by (rule parse_event_file_name_name [OF assms])

theorem event_names_round_trip_witness: "parse_event_file_name demo_name = Some (1, RUN_INITIALIZED)"
  by (rule event_names_round_trip) (simp add: event_file_name_def demo_name_def MAX_EVENT_SEQUENCE_def MAX_STATE_VERSION_def)

text \<open>C34: an event that was built is accepted back from its canonical bytes under its
own file name, for every JSON reader that reads back what the canonical writer wrote.\<close>

theorem built_events_parse:
  assumes "build_event E pins n ty at payload prev mid mi = Inr e" and "event_file_name n ty = Inr name"
    and "ld (canonical_bytes e) = Some (dump_event e)" and "dec (dump_event e) = Some e"
    and "no_duplicate_keys (dump_event e)"
  shows "parse_event_bytes E ld dec name (canonical_bytes e) = Inr (e, sha256 E (canonical_bytes e))"
  using assms by (rule built_event_parses)

theorem built_events_parse_witness:
  "parse_event_bytes demo_env (\<lambda>_. Some (dump_event demo_genesis)) (\<lambda>_. Some demo_genesis) demo_name
     (canonical_bytes demo_genesis) = Inr (demo_genesis, zeros)"
proof -
  have "event_file_name 1 RUN_INITIALIZED = Inr demo_name"
    by (simp add: event_file_name_def demo_name_def MAX_EVENT_SEQUENCE_def MAX_STATE_VERSION_def)
  from built_events_parse [OF demo_built this, of "\<lambda>_. Some (dump_event demo_genesis)" "\<lambda>_. Some demo_genesis"]
  show ?thesis using demo_genesis_keys by simp
qed

text \<open>A path that the normaliser returns is relative, has no backslash, and
none of its segments is empty, \<open>.\<close>, \<open>..\<close> or padded with white space.\<close>

theorem normalised_paths_are_safe:
  assumes "normalize_relative_posix_path E value = Some p"
  shows "safe_relative_path p"
  by (rule normalized_path_safe [OF assms])

theorem normalised_paths_are_safe_witness: "safe_relative_path (lit ''a'')"
proof (rule normalised_paths_are_safe)
  have "path_segments (lit ''./a'') = [lit ''a'']" "strip (lit ''a'') = lit ''a''"
    by (simp_all add: path_segments_def text_defs)
  then show "normalize_relative_posix_path demo_env (lit ''./a'') = Some (lit ''a'')"
    by (simp add: normalize_relative_posix_path_def MAX_PATH_CHARS_def drive_letter_def
        no_forbidden_codepoints_def is_surrogate_def bidirectional_controls_def) (simp add: lit_def)
qed

text \<open>The canonical digest of a mapping is not changed by removing its wall-clock
entries, and the serialized text does not depend on the order of the keys.\<close>

theorem digest_ignores_clocks:
  assumes "distinct (map fst kvs)" and "distinct (map fst kvs')" and "set kvs = set kvs'"
  shows "canonical_digest E (PDict entries) = canonical_digest E (PDict (filter (\<lambda>kv. \<not> excluded_entry kv) entries))
    \<and> dumps (JObj kvs) = dumps (JObj kvs')"
  using dumps_obj_order [OF assms] canonicalize_items_filter [of E "[]" entries]
  by (simp add: canonical_digest_def canonical_json_bytes_def)

theorem digest_ignores_clocks_witness: "dumps (JObj [([97], JNull), ([98], JNull)]) = dumps (JObj [([98], JNull), ([97], JNull)])"
  using digest_ignores_clocks [of "[([97], JNull), ([98], JNull)]" "[([98], JNull), ([97], JNull)]" demo_env "[]"] by auto

text \<open>A path is unchanged against a checkpoint only when the checkpoint
recorded a readable digest and the observed digest is that very digest.\<close>

theorem unreadable_counts_as_changed:
  "\<not> differs_from c path digest \<longleftrightarrow> map_of (cp_path_digests c) path = Some digest \<and> digest \<noteq> UNREADABLE_DIGEST"
  by (rule not_differs_from)

section \<open>Machine results\<close>

text \<open>C29: an accepted text has exactly one opening and one closing sentinel line of
the role, no sentinel of any role elsewhere, after the block nothing but blank lines and at most one
fence, and the answer is the text between the two lines.\<close>

theorem extracted_block_is_unique:
  assumes "extract_result_block text (for_role role) t = Inr body"
  shows "\<exists>pre open_line block close_line post.
      splitlines text = pre @ [open_line] @ block @ [close_line] @ post
      \<and> strip open_line = fst (RESULT_SENTINELS role) \<and> strip close_line = snd (RESULT_SENTINELS role)
      \<and> body = join_on 10 block \<and> length body \<le> MAX_RESULT_BLOCK_CHARS
      \<and> (\<forall>l \<in> set (pre @ block @ post). strip l \<notin> set ALL_SENTINELS)
      \<and> (\<forall>l \<in> set post. strip l = [] \<or> is_fence l)
      \<and> length (filter (\<lambda>l. strip l \<noteq> []) post) \<le> 1"
  by (rule extracted_block [OF assms])

theorem extracted_block_is_unique_witness: "\<exists>block. lit ''x'' = join_on 10 block"
  using extracted_block_is_unique [OF demo_block [of REVIEW None]] by blast

text \<open>C32: a block written between the role's sentinels inside one fence, after
any prose without sentinels and fences, is extracted unchanged.\<close>

theorem rendered_block_is_extracted:
  assumes "\<forall>l \<in> set (pre @ block). quiet_line l" and "length (join_on 10 block) \<le> MAX_RESULT_BLOCK_CHARS"
  shows "extract_result_block (render_block role pre block) (for_role role) t = Inr (join_on 10 block)"
  by (rule extract_render [OF assms])

theorem rendered_block_is_extracted_witness:
  "extract_result_block (render_block CLOSURE [lit ''x''] [lit ''x'']) (for_role CLOSURE) None = Inr (join_on 10 [lit ''x''])"
proof (rule rendered_block_is_extracted)
  show "length (join_on 10 [lit ''x'']) \<le> MAX_RESULT_BLOCK_CHARS" by (simp add: MAX_RESULT_BLOCK_CHARS_def lit_def)
qed (simp add: quiet_x)

text \<open>C30: an accepted review is BLOCKED exactly when it has blockers, has no more of
them than allowed, names no finding twice, and gives blockers a blocking severity and the status
OPEN, deferred findings a deferrable severity and the status DEFERRED.\<close>

theorem review_is_accountable:
  assumes "parse_review_result E safe_load text n t = Inr r"
  shows "(rw_verdict r = BLOCKED \<longleftrightarrow> rw_blockers r \<noteq> []) \<and> int (length (rw_blockers r)) \<le> n
    \<and> distinct (map fd_finding_id (rw_blockers r @ rw_deferred r))
    \<and> (\<forall>f \<in> set (rw_blockers r). fd_severity f \<in> set BLOCKING_SEVERITIES \<and> fd_status f = FS_OPEN)
    \<and> (\<forall>f \<in> set (rw_deferred r). fd_severity f \<in> set DEFERRED_SEVERITIES \<and> fd_status f = FS_DEFERRED)"
  using review_accounting [OF assms] by blast

theorem review_is_accountable_witness: "fd_severity demo_finding \<in> set BLOCKING_SEVERITIES"
  using review_is_accountable [OF demo_review] by simp

text \<open>C31: an accepted closure rules only on findings that were open, on each at most
once, and only with OPEN or CLOSED.\<close>

theorem closure_is_accountable:
  assumes "parse_closure_result safe_load text ids t = Inr c"
  shows "set (closed_ids c) \<union> set (open_ids c) \<subseteq> set ids \<and> distinct (closed_ids c @ open_ids c)
    \<and> set (map cl_id (co_findings c)) = set (closed_ids c) \<union> set (open_ids c)"
  using closure_accounting [OF assms] by blast

theorem closure_is_accountable_witness: "set (map cl_id [\<lparr>cl_id = lit ''F1'', cl_status = FS_CLOSED, cl_reason = lit ''r''\<rparr>]) \<subseteq> {lit ''F1''}"
  using closure_is_accountable [OF demo_closure] by auto

text \<open>C33: whatever the text and whatever the YAML loader does, the four parsers refuse
only with \<open>MalformedResult\<close>, carrying the role and the transcripts they were given, with one exception that
is stated exactly: when a block is extracted and the loader raises on it something else than
\<open>yaml.YAMLError\<close> (a \<open>ValueError\<close> of a scalar that looks like a date, a \<open>RecursionError\<close>), that exception leaves the
parser as it is, and nothing else does.\<close>

theorem parsers_fail_closed:
  assumes "1 \<le> n"
  shows "rejects_with IMPLEMENTATION t (loader_escapes safe_load text IMPLEMENTATION t)
      (parse_milestone_result E safe_load text expected t)
    \<and> rejects_with CORRECTION t (loader_escapes safe_load text CORRECTION t) (parse_correction_result E safe_load text t)
    \<and> rejects_with REVIEW t (loader_escapes safe_load text REVIEW t) (parse_review_result E safe_load text n t)
    \<and> rejects_with CLOSURE t (loader_escapes safe_load text CLOSURE t) (parse_closure_result safe_load text ids t)"
  using parsers_reject assms by blast

theorem parsers_fail_closed_witness:
  "rejects_with REVIEW None False (parse_review_result demo_env (\<lambda>_. Inl YAMLError) (render_block REVIEW [] [lit ''x'']) 1 None)
   \<and> parse_closure_result (\<lambda>_. Inl LoaderException) (render_block CLOSURE [] [lit ''x'']) [] None = Inl ResultLoaderException"
proof
  show "rejects_with REVIEW None False
      (parse_review_result demo_env (\<lambda>_. Inl YAMLError) (render_block REVIEW [] [lit ''x'']) 1 None)"
    using parsers_fail_closed [of 1 None "\<lambda>_. Inl YAMLError" "render_block REVIEW [] [lit ''x'']"]
    by (simp add: loader_escapes_def demo_block)
  show "parse_closure_result (\<lambda>_. Inl LoaderException) (render_block CLOSURE [] [lit ''x'']) [] None
      = Inl ResultLoaderException"
    using parsers_fail_closed [of 1 None "\<lambda>_. Inl LoaderException" "render_block CLOSURE [] [lit ''x'']"]
    by (simp add: loader_escapes_def demo_block rejects_with_def)
qed
section \<open>The append protocol\<close>

text \<open>C1: appending an event to a store that agrees with its directory has four outcomes,
whatever the operating system answers to each write: it is refused and the directory is what it was;
or it fails with the publication witness ahead of the events, and then a load refuses the directory as a
broken chain; or it fails with the event published, and then a load gives the folded state; or it
returns, and then a load gives the folded state, which the store holds. So an event is never half
visible: what a load returns is the state before, or the state after.\<close>

theorem append_crash_safe:
  assumes "ready E W va owner s" and "build_event E pins n ty at payload prev mid mi = Inr envelope"
    and "tip_sequence (es_state s) < le_sequence envelope"
    and "reads_back W (es_state s) envelope (sha256 E (canonical_bytes envelope))"
    and "length (listing_of (es_disk s)) < MAX_EVENT_FILES"
    and "\<And>folded. fold_step E (Some (es_pins s)) (es_state s) (envelope, sha256 E (canonical_bytes envelope)) = Inr folded
      \<Longrightarrow> side_files_free (es_disk s) (es_state s) folded"
    and "publish_envelope E W disk authority envelope s = (t, r)"
  shows "(\<exists>e. r = Inl e) \<and> es_disk t = es_disk s
    \<or> (\<exists>e. r = Inl e) \<and> stream_verified E W (es_disk t) va owner = Inl (Lifecycle EventChainBroken)
    \<or> (\<exists>e v'. r = Inl e \<and> appended_outcome E W va owner envelope s (es_disk t) v')
    \<or> (\<exists>a v'. r = Inr a \<and> appended_outcome E W va owner envelope s (es_disk t) v' \<and> held E W va owner t v')"
  by (rule publish_envelope_outcomes [OF assms]) blast+

theorem append_crash_safe_witness:
  "case publish_envelope demo_env append_wire (\<lambda>n. if n = 2 then NOT_PUBLISHED else DURABLE) False demo_genesis append_store of (t, r) \<Rightarrow>
     (\<exists>e. r = Inl e) \<and> es_disk t = es_disk append_store
     \<or> (\<exists>e. r = Inl e) \<and> stream_verified demo_env append_wire (es_disk t) True demo_owner = Inl (Lifecycle EventChainBroken)
     \<or> (\<exists>e v'. r = Inl e \<and> appended_outcome demo_env append_wire True demo_owner demo_genesis append_store (es_disk t) v')
     \<or> (\<exists>a v'. r = Inr a \<and> appended_outcome demo_env append_wire True demo_owner demo_genesis append_store (es_disk t) v'
          \<and> held demo_env append_wire True demo_owner t v')"
proof -
  obtain t r where run: "publish_envelope demo_env append_wire (\<lambda>n. if n = 2 then NOT_PUBLISHED else DURABLE) False
      demo_genesis append_store = (t, r)" by fastforce
  have new: "tip_sequence (es_state append_store) < le_sequence demo_genesis"
    and room: "length (listing_of (es_disk append_store)) < MAX_EVENT_FILES"
    and side: "\<And>folded. fold_step demo_env (Some (es_pins append_store)) (es_state append_store)
        (demo_genesis, sha256 demo_env (canonical_bytes demo_genesis)) = Inr folded
      \<Longrightarrow> side_files_free (es_disk append_store) (es_state append_store) folded"
    using append_step append_side
    by (simp_all add: append_store_def tip_sequence_def demo_genesis_def demo_event_def listing_of_def MAX_EVENT_FILES_def)
  show ?thesis
    unfolding run prod.case
    by (rule append_crash_safe [OF append_ready demo_built new append_reads room _ run]) (rule side)
qed

text \<open>C9: the append of the next event returns when the operating system makes every write
durable, the fold accepts the event, its references verify, the three documents hold nothing the
redactor would change, and nothing but regular files stands at their paths. A later load then reads
the event's state back.\<close>

theorem append_completes:
  assumes "ready E W va owner s" and "next_event_clear E W s envelope folded w name document"
    and "le_sequence envelope = tip_sequence (es_state s) + 1"
    and "le_event_type envelope = STATE_TRANSITIONED \<Longrightarrow> authority"
  shows "\<exists>t. publish_envelope E W durable authority envelope s
    = (t, Inr \<lparr>ev_event = envelope, ev_sha256 = sha256 E (canonical_bytes envelope), ev_duplicate = False\<rparr>)"
  by (rule publish_envelope_durable [OF assms])

theorem append_completes_witness:
  "\<exists>t. publish_envelope demo_env append_wire durable False demo_genesis append_store
    = (t, Inr \<lparr>ev_event = demo_genesis, ev_sha256 = zeros, ev_duplicate = False\<rparr>)"
  using append_completes [OF append_ready append_clear, of False]
  by (simp add: append_store_def tip_sequence_def demo_genesis_def demo_event_def)

text \<open>C35: appending an event at a sequence number the chain already has changes neither
the directory nor the store's state, and it succeeds only for an event with the digest of the one
that is there, which it then reports as a duplicate.\<close>

theorem append_again_is_inert:
  assumes "publish_envelope E W disk authority envelope s = (t, r)" and "le_sequence envelope \<le> tip_sequence (es_state s)"
  shows "same_store s t
    \<and> (\<forall>a. r = Inr a \<longrightarrow> ev_duplicate a \<and> ev_event a = envelope
      \<and> (\<exists>entry. py_nth (es_entries s) (le_sequence envelope - 1) = Some entry
           \<and> ce_sha256 entry = sha256 E (canonical_bytes envelope)))"
  using duplicate_append_run [OF assms] by blast

theorem append_again_is_inert_witness:
  "same_store (append_store\<lparr>es_state := Some demo_state\<rparr>)
     (fst (publish_envelope demo_env append_wire durable False demo_genesis (append_store\<lparr>es_state := Some demo_state\<rparr>)))"
proof -
  let ?s = "append_store\<lparr>es_state := Some demo_state\<rparr>"
  obtain t r where run: "publish_envelope demo_env append_wire durable False demo_genesis ?s = (t, r)" by fastforce
  have "le_sequence demo_genesis \<le> tip_sequence (es_state ?s)"
    by (simp add: tip_sequence_def demo_genesis_def demo_event_def demo_state_def)
  then show ?thesis using append_again_is_inert [OF run] run by simp
qed

section \<open>Payloads\<close>

text \<open>C36: the updates computed between two records, applied to the first, give the second:
as they are when the workflow state is the same, and with the new state and stop reason for a
transition.\<close>

theorem difference_is_applied:
  assumes "record_updates_of E before after = Inr u" and "validate_run_record E after = Some after"
  shows "(rr_workflow_state before = rr_workflow_state after \<longrightarrow> apply_updates E before u None = Inr after)
    \<and> apply_updates E before (without_stop_reason u) (Some (rr_workflow_state after, rr_stop_reason after)) = Inr after"
  using updates_round_trip [OF assms] transition_round_trip [OF assms] by blast

theorem difference_is_applied_witness:
  "apply_updates demo_env demo_record (without_stop_reason round_updates) (Some (PREFLIGHT, None))
     = Inr (demo_record\<lparr>rr_successful_review_rounds := 1, rr_workflow_state := PREFLIGHT\<rparr>)"
  using difference_is_applied [OF round_difference demo_record10_valid(2)] by (simp add: demo_record_def)

text \<open>C8: a declaration that \<open>declare\<close> returned can be carried out: onto the state the
store then holds, events that carry its constituents one by one, under its id and their indices,
fold without refusal, close the mutation and leave the record body of the last planned change.\<close>

theorem declared_mutation_completes:
  assumes "declare_mutation E W disk action command initiated_at evidence changes s = (t, Inr d)"
    and "es_state s = Some st" and "fold_ok E st"
  shows "\<exists>declared items final. es_state t = Some declared \<and> fold_from E declared items = Inr final
    \<and> list_all2 (constituent_event E (md_mutation_id d)) items (md_constituents d)
    \<and> fs_open_mutation final = None \<and> body_digest E (fs_record final) = body_digest E (pc_after (last changes))"
  by (rule declaration_completes [OF assms])

theorem declared_mutation_completes_witness:
  "\<exists>declared items final. fold_from demo_env declared items = Inr final
    \<and> list_all2 (constituent_event demo_env zeros) items boot_constituents \<and> fs_open_mutation final = None"
proof -
  obtain t where "declare_mutation demo_env append_wire durable APPLICATION_STEP MC_START demo_time
      (ApplicationStepEvidence (lit ''start'')) boot_changes boot_store = (t, Inr boot_declaration)"
    using boot_declares by blast
  from declared_mutation_completes [OF this boot_event_fields(6) boot_state_ok] show ?thesis
    by (auto simp: boot_declaration_shape)
qed

section \<open>Redaction\<close>




section \<open>Scope and plan\<close>

text \<open>C19: a path matches a pattern, by the loop over reachable positions, exactly
when the path can be cut into consecutive groups of segments, one for each segment of the pattern, where
\<open>**\<close> takes any group and every other segment takes one path segment that \<open>fnmatchcase\<close> accepts. So a
pattern without \<open>**\<close> only names paths of its own depth, segment by segment: no wildcard crosses a
separator.\<close>

theorem scope_matching_is_declarative:
  "(match_segments path pattern \<longleftrightarrow> (\<exists>groups. concat groups = path \<and> list_all2 takes pattern groups))
   \<and> (RECURSIVE_SEGMENT \<notin> set pattern \<longrightarrow>
        match_segments path pattern = list_all2 (\<lambda>p s. fnmatchcase s p) pattern path)"
  using match_segments_cut [of path pattern] cut_matches_plain [of pattern path] by (simp add: cut_matches_def)

theorem scope_matching_is_declarative_witness:
  "\<not> match_segments (split_on 47 (lit ''tests/test_pkg/inner.py'')) (split_on 47 (lit ''tests/test_*.py''))
   \<and> match_segments (split_on 47 (lit ''tests/test_pkg/inner.py'')) (split_on 47 (lit ''tests/**''))"
proof -
  have plain: "RECURSIVE_SEGMENT \<notin> set (split_on 47 (lit ''tests/test_*.py''))" by code_simp
  have "length (split_on 47 (lit ''tests/test_*.py'')) \<noteq> length (split_on 47 (lit ''tests/test_pkg/inner.py''))"
    by code_simp
  then have "\<not> list_all2 (\<lambda>p s. fnmatchcase s p) (split_on 47 (lit ''tests/test_*.py''))
      (split_on 47 (lit ''tests/test_pkg/inner.py''))"
    by (meson list_all2_lengthD)
  moreover have "match_segments (split_on 47 (lit ''tests/test_pkg/inner.py'')) (split_on 47 (lit ''tests/**''))"
    by code_simp
  ultimately show ?thesis
    using scope_matching_is_declarative [of "split_on 47 (lit ''tests/test_pkg/inner.py'')"
        "split_on 47 (lit ''tests/test_*.py'')"] plain
    by blast
qed

text \<open>C13: a scope decision permits a change exactly when every changed path matches no
forbidden pattern, matches the cumulative allowlist and - with an active milestone that owns the path -
matches that milestone's files. Otherwise it lists, in the order of the changed paths, the first check each
path fails, forbidden before allowlist before milestone; and the only stop reason, given exactly when a
milestone check failed, is \<open>OUT_OF_MILESTONE_SCOPE\<close>.\<close>

theorem scope_decision_is_exact:
  assumes "evaluate E g changed milestone owned = Some d"
  shows "map Some (sd_changed_paths d) = map (normalize_repository_path E) changed
    \<and> (permitted d \<longleftrightarrow> (\<forall>p \<in> set (sd_changed_paths d).
         is_forbidden E g p = Some False \<and> is_allowed E g p = Some True
         \<and> pred_option (\<lambda>m. pred_option (\<lambda>paths. p \<in> paths) (owned_set E owned)
               \<longrightarrow> path_matches E p (ms_allowed_files m) = Some True) milestone))
    \<and> map sv_check (sd_violations d)
        = concat (map (\<lambda>p. case failed_check E g milestone (owned_set E owned) p of None \<Rightarrow> [] | Some c \<Rightarrow> [c])
            (sd_changed_paths d))
    \<and> stop_reasons d = (if MILESTONE_SCOPE \<in> set (map sv_check (sd_violations d)) then [OUT_OF_MILESTONE_SCOPE] else [])"
proof -
  have "map Some (sd_changed_paths d) = map (normalize_repository_path E) changed"
    by (rule evaluate_parts [OF assms]) (metis map_opt_Some)
  with permitted_answers [OF assms] evaluate_checks [OF assms] evaluate_stops [OF assms] show ?thesis by blast
qed

theorem scope_decision_is_exact_witness:
  "\<exists>d. evaluate demo_env (from_config plan_config) [lit ''src/secret/k'', lit ''README.md'', lit ''src/b.py'', lit ''src/a.py'']
         (Some plan_second) None = Some d
     \<and> \<not> permitted d \<and> map sv_check (sd_violations d) = [FORBIDDEN_PATH, CUMULATIVE_ALLOWLIST, MILESTONE_SCOPE]
     \<and> stop_reasons d = [OUT_OF_MILESTONE_SCOPE]"
proof -
  let ?e = "evaluate demo_env (from_config plan_config) [lit ''src/secret/k'', lit ''README.md'', lit ''src/b.py'', lit ''src/a.py'']
         (Some plan_second) None"
  have c: "map_option (\<lambda>d. map sv_check (sd_violations d)) ?e
      = Some [FORBIDDEN_PATH, CUMULATIVE_ALLOWLIST, MILESTONE_SCOPE]"
    by code_simp
  then obtain d where d: "?e = Some d" "map sv_check (sd_violations d) = [FORBIDDEN_PATH, CUMULATIVE_ALLOWLIST, MILESTONE_SCOPE]"
    by (auto simp del: list.map_disc_iff)
  then have "\<not> permitted d" by (auto simp: permitted_def)
  moreover have "stop_reasons d = (if MILESTONE_SCOPE \<in> set (map sv_check (sd_violations d)) then [OUT_OF_MILESTONE_SCOPE] else [])"
    using scope_decision_is_exact [OF d(1)] by blast
  ultimately show ?thesis using d by simp
qed

text \<open>C12: the dependency order of a plan whose ids are unique and whose dependencies are
all defined always comes out: every milestone once, each after all it depends on, and then no chain of
dependencies closes; or the refusal that names a chain of dependencies that does close. The result does
not depend on the order in which the plan files were read.\<close>

theorem plan_order_or_cycle:
  assumes "well_defined milestones"
  shows "(case dependency_order milestones of
      Inr ordered \<Rightarrow> topological milestones ordered \<and> (\<nexists>c. names_cycle (depends milestones) c)
    | Inl e \<Rightarrow> \<exists>c. e = PlanDependencyCycle c \<and> names_cycle (depends milestones) c)
    \<and> (\<forall>others. distinct (map ms_milestone_id others) \<and> set others = set milestones \<longrightarrow>
         dependency_order others = dependency_order milestones)"
proof (intro conjI allI impI)
  show "case dependency_order milestones of
      Inr ordered \<Rightarrow> topological milestones ordered \<and> (\<nexists>c. names_cycle (depends milestones) c)
    | Inl e \<Rightarrow> \<exists>c. e = PlanDependencyCycle c \<and> names_cycle (depends milestones) c"
    using dependency_order_topological [OF assms] dependency_order_refused [OF assms] topological_acyclic
    by (auto split: sum.split)
  show "dependency_order others = dependency_order milestones"
    if "distinct (map ms_milestone_id others) \<and> set others = set milestones" for others
    using that assms by (intro dependency_order_files) (simp_all add: well_defined_def)
qed

theorem plan_order_or_cycle_witness:
  "topological [plan_second, plan_first] [plan_first, plan_second]
   \<and> dependency_order [plan_first, plan_second] = Inr [plan_first, plan_second]
   \<and> (\<exists>c. dependency_order [plan_second, plan_first\<lparr>ms_depends_on := [ms_milestone_id plan_second]\<rparr>]
          = Inl (PlanDependencyCycle c))"
proof -
  let ?bad = "[plan_second, plan_first\<lparr>ms_depends_on := [ms_milestone_id plan_second]\<rparr>]"
  have w: "well_defined [plan_second, plan_first]" "well_defined ?bad"
    by (simp_all add: well_defined_def plan_second_def plan_first_def plan_milestone_def lit_def)
  have again: "distinct (map ms_milestone_id [plan_first, plan_second])" "set [plan_first, plan_second] = set [plan_second, plan_first]"
    by (auto simp: plan_second_def plan_first_def plan_milestone_def lit_def)
  have "isl (dependency_order ?bad)" by code_simp
  then obtain e where e: "dependency_order ?bad = Inl e" by (metis isl_def)
  then have "\<exists>c. e = PlanDependencyCycle c" using plan_order_or_cycle [OF w(2)] unfolding e sum.case by blast
  moreover have "topological [plan_second, plan_first] [plan_first, plan_second]"
    using plan_order_or_cycle [OF w(1)] unfolding plan_ordered sum.case by blast
  moreover have "dependency_order [plan_first, plan_second] = Inr [plan_first, plan_second]"
    using conjunct2 [OF plan_order_or_cycle [OF w(1)], rule_format, of "[plan_first, plan_second]"] again
    unfolding plan_ordered by blast
  ultimately show ?thesis using e by blast
qed

text \<open>C15: a plan that loads was read from files that all lie where the rules admit them -
verbatim allowlist entries of a plan root inside the repository, or unlinked plan files of a root outside
it - with no symbolic link on the way to the root; every milestone is the valid content of one of the
files; their order is a dependency order; and the files they claim are, normalised, exactly the required
coverage.\<close>

theorem loaded_plan_is_sound:
  assumes "load_plan E fs config repository_root = Inr plan"
  shows "(\<exists>place. resolve_plan_root fs config repository_root = Inr place
      \<and> within (pl_realpath fs repository_root) (pl_realpath fs (pt_path place)) = pt_is_repository_local place
      \<and> \<not> linked_component fs (path_anchor (pt_path place)) (path_segments (pt_path place))
      \<and> (\<forall>p \<in> set (mp_source_paths plan). pl_file fs p
          \<and> (if pt_is_repository_local place
             then \<exists>entry \<in> set (al_allowed_paths (cfg_allowlist config)). p = slash repository_root entry \<and> is_verbatim_path entry
             else \<exists>name. p = slash (pt_path place) name \<and> \<not> pl_symlink fs p
                    \<and> plan_file_milestone (cfg_schema_version config) name \<noteq> None)))
    \<and> (\<exists>read. list_all2 (\<lambda>p m. read_milestone E fs config p = Inr m) (mp_source_paths plan) read
         \<and> topological read (mp_milestones plan))
    \<and> Some ` set (al_required_coverage (cfg_allowlist config))
        = normalize_repository_path E ` (\<Union>m \<in> set (mp_milestones plan). set (ms_allowed_files m))"
proof -
  obtain read where paths: "plan_paths E fs config repository_root = Inr (mp_source_paths plan)"
    and read: "read_milestones E fs config (mp_source_paths plan) = Inr read" "well_defined read"
    and order: "dependency_order read = Inr (mp_milestones plan)" and cov: "reconcile_coverage E config plan = Inr ()"
    using load_plan_parts [OF assms] by blast
  from paths obtain place where place: "resolve_plan_root fs config repository_root = Inr place"
    by (auto simp: plan_paths_def)
  from reconcile_coverage_exact [OF cov] covered_paths_set
  have "Some ` set (al_required_coverage (cfg_allowlist config))
      = normalize_repository_path E ` (\<Union>m \<in> set (mp_milestones plan). set (ms_allowed_files m))" by metis
  moreover have "list_all2 (\<lambda>p m. read_milestone E fs config p = Inr m) (mp_source_paths plan) read"
    by (rule read_milestones_facts [OF read(1)])
  moreover have "topological read (mp_milestones plan)" by (rule dependency_order_topological [OF read(2) order])
  ultimately show ?thesis
    using place resolve_plan_root_place [OF place] plan_paths_place [OF paths] by (auto 0 3 simp: place)
qed

theorem loaded_plan_is_sound_witness:
  "\<exists>plan. load_plan demo_env plan_disk plan_config (lit ''/repo'') = Inr plan
     \<and> mp_milestones plan = [plan_first, plan_second]
     \<and> Some ` {lit ''src/a.py'', lit ''src/b.py''}
        = normalize_repository_path demo_env ` (\<Union>m \<in> set (mp_milestones plan). set (ms_allowed_files m))"
proof -
  let ?plan = "\<lparr>mp_milestones = [plan_first, plan_second], mp_source_paths = map fst plan_files\<rparr>"
  have "load_plan demo_env plan_disk plan_config (lit ''/repo'') = Inr ?plan"
    unfolding load_plan_def plan_listed rbind.simps plan_read Let_def plan_ordered by code_simp
  moreover have "set (al_required_coverage (cfg_allowlist plan_config)) = {lit ''src/a.py'', lit ''src/b.py''}"
    by (simp add: plan_config_def)
  ultimately show ?thesis using loaded_plan_is_sound [of demo_env plan_disk plan_config "lit ''/repo''" ?plan] by auto
qed

section \<open>Review rounds and the stage policy\<close>



text \<open>C16: with valid inputs, and a hash that yields 64 hexadecimal digits, the execution policy
resolves exactly when no override exceeds the contract's ceilings, every role has a selection and the
selections of the reviewing roles are read-only. A resolved policy stays within the ceilings, takes an
override as given and otherwise the smaller of the default and the ceiling, and selects for each role the
override before the project default.\<close>

theorem policy_resolution:
  assumes "validate_contract_binding E contract = Some c"
    and "validate_defaults overrides" and "distinct (map fst (pd_roles overrides))"
    and "pred_option validate_defaults defaults" and "pred_option sha256_hex digest"
    and "\<forall>b. sha256_hex (sha256 E b)" and "nfc_keeps_ascii E"
  shows "((\<exists>p. resolve_policy E defaults overrides contract digest = Inr p) \<longleftrightarrow> resolvable defaults overrides contract)
    \<and> (\<forall>p. resolve_policy E defaults overrides contract digest = Inr p \<longrightarrow>
        ep_max_remediation_cycles p = (case pd_max_remediation_cycles overrides of Some n \<Rightarrow> n
          | None \<Rightarrow> min (case Option.bind defaults pd_max_remediation_cycles of Some n \<Rightarrow> n | None \<Rightarrow> 1)
                     (cc_max_remediation_cycles (cb_ceilings contract)))
      \<and> ep_max_remediation_cycles p \<le> cc_max_remediation_cycles (cb_ceilings contract)
      \<and> ep_max_blockers p \<le> cc_max_blockers (cb_ceilings contract)
      \<and> (\<forall>r. map_of (ep_roles p) r = (case map_of (pd_roles overrides) r of Some s \<Rightarrow> Some s
              | None \<Rightarrow> map_of (default_roles defaults) r))
      \<and> (\<forall>r \<in> {REVIEW, CLOSURE}. role_read_only (ep_roles p) r))"
proof (intro conjI allI impI)
  show "(\<exists>p. resolve_policy E defaults overrides contract digest = Inr p) \<longleftrightarrow> resolvable defaults overrides contract"
    using resolve_policy_total [OF assms(1-7)] resolve_policy_resolvable by blast
  fix p
  assume p: "resolve_policy E defaults overrides contract digest = Inr p"
  note r = resolve_policy_Inr [OF p]
  show "ep_max_remediation_cycles p = (case pd_max_remediation_cycles overrides of Some n \<Rightarrow> n
      | None \<Rightarrow> min (case Option.bind defaults pd_max_remediation_cycles of Some n \<Rightarrow> n | None \<Rightarrow> 1)
                 (cc_max_remediation_cycles (cb_ceilings contract)))"
    using r(4) unfolding resolve_scalar_Inr BUILTIN_MAX_REMEDIATION_CYCLES_def by (auto split: option.splits)
  show "ep_max_remediation_cycles p \<le> cc_max_remediation_cycles (cb_ceilings contract)"
    by (rule resolve_scalar_le [OF r(4)])
  show "ep_max_blockers p \<le> cc_max_blockers (cb_ceilings contract)" by (rule resolve_scalar_le [OF r(5)])
  show "map_of (ep_roles p) q = (case map_of (pd_roles overrides) q of Some s \<Rightarrow> Some s
      | None \<Rightarrow> map_of (default_roles defaults) q)" for q
    by (rule choose_roles_lookup(2) [OF r(6) all_provider_role_complete])
  show "\<forall>r \<in> {REVIEW, CLOSURE}. role_read_only (ep_roles p) r"
    using r(1) by (simp add: validate_effective_def READ_ONLY_PROVIDER_ROLES_def)
qed

theorem policy_resolution_witness:
  "ep_max_remediation_cycles stage_effective = 1 \<and> ep_max_blockers stage_effective \<le> 2
   \<and> role_read_only (ep_roles stage_effective) REVIEW"
proof -
  have none: "pred_option P None" for P :: "'x \<Rightarrow> bool" by simp
  show ?thesis
    using policy_resolution [OF stage_contract_valid stage_overrides_valid none none demo_env_hash demo_nfc_ascii]
      stage_resolved
    by (auto simp: stage_overrides_def stage_contract_def)
qed

text \<open>C18: where the digests of a resolved policy exist, the authorization assembled from
it passes its own validators, which recompute every digest from the record's dump; the binding and the
consumption witness made from that authorization for a run pass theirs; and reading them back accepts
exactly that run and refuses any other.\<close>

theorem stage_start_records_agree:
  assumes "resolve_policy E defaults overrides contract digest = Inr policy"
    and "validate_defaults overrides" and "\<forall>b. sha256_hex (sha256 E b)"
    and "policy_digest E policy = Some d"
    and "stage_start_key E (bf_repository_identity (ep_fields policy)) (bf_stage_id (ep_fields policy))
           (bf_contract_sha256 (ep_fields policy)) = Some key"
    and "calendar_timestamp created_at" and "run_id_grammar run_id"
  shows "\<exists>a s w. build_authorization E policy overrides (bf_stage_id (ep_fields policy)) created_at = Inr a
    \<and> validate_authorization E a = Some a \<and> sa_effective_policy a = policy
    \<and> binding_for E a run_id = Some s \<and> consumption_for E a s = Some w
    \<and> read_start_consumption E a (Some run_id) (Some (Some s)) (Some (Some w)) = Inr (Some w)
    \<and> (\<forall>other. other \<noteq> run_id \<longrightarrow>
         isl (read_start_consumption E a (Some other) (Some (Some s)) (Some (Some w))))"
proof -
  obtain a where a: "build_authorization E policy overrides (bf_stage_id (ep_fields policy)) created_at = Inr a"
      "validate_authorization E a = Some a" "sa_effective_policy a = policy"
    using build_authorization_validates [OF assms(1-6)] by blast
  obtain s w where sw: "binding_for E a run_id = Some s" "consumption_for E a s = Some w"
      "read_start_consumption E a (Some run_id) (Some (Some s)) (Some (Some w)) = Inr (Some w)"
    using binding_and_witness_validate [OF a(2) assms(7,3)] by blast
  have "isl (read_start_consumption E a (Some other) (Some (Some s)) (Some (Some w)))" if "other \<noteq> run_id" for other
  proof (rule ccontr)
    assume "\<not> isl (read_start_consumption E a (Some other) (Some (Some s)) (Some (Some w)))"
    then obtain v where v: "read_start_consumption E a (Some other) (Some (Some s)) (Some (Some w)) = Inr v"
      by (cases "read_start_consumption E a (Some other) (Some (Some s)) (Some (Some w))") simp_all
    then have "read_start_consumption E a (Some other) (Some (Some s)) (Some (Some w)) = Inr (Some w)"
      using read_start_consumption_result [OF v] by simp
    from read_start_consumption_one_run(3) [OF this] read_start_consumption_one_run(3) [OF sw(3)] that
    show False by simp
  qed
  with a sw show ?thesis by blast
qed

theorem stage_start_records_agree_witness:
  "\<exists>a s w. build_authorization demo_env stage_effective stage_overrides (bf_stage_id (ep_fields stage_effective)) demo_time = Inr a
    \<and> binding_for demo_env a (lit ''run-1'') = Some s \<and> consumption_for demo_env a s = Some w
    \<and> isl (read_start_consumption demo_env a (Some (lit ''run-2'')) (Some (Some s)) (Some (Some w)))"
proof -
  have "run_id_grammar (lit ''run-1'')" by code_simp
  from stage_start_records_agree [OF stage_resolved stage_overrides_valid(1) demo_env_hash stage_digests stage_created this]
  show ?thesis by (force simp: lit_def)
qed

section \<open>The workflow store\<close>

text \<open>C11: an outcome is recorded only for the stage the history expects, and the
history loaded next is the history before followed by that event, provided the reader of JSON reads the
written document back. Whatever moment the process dies while the event file is published, a load sees
the history before or the extended one.\<close>

theorem recorded_outcome_is_loaded:
  assumes "record_outcome E W P stored project task_id stage verdict prompt run note head = Inr (event, d)"
    and "we_sequence event < 10 ^ 8" and "loads_back E W event"
  shows "\<exists>h. load_history E W P stored project task_id = Inr h
    \<and> expected_stage h = Some stage \<and> we_stage event = stage \<and> we_sequence event = int (length h) + 1
    \<and> load_history E W P (Some d) project task_id = Inr (h @ [event])
    \<and> (\<forall>temp raw e. is_temp temp \<and> event_bytes E event = Some raw
         \<and> append_point temp (event_file (length h + 1)) raw (dir_of stored) e \<longrightarrow>
           load_history E W P (Some e) project task_id \<in> {Inr h, Inr (h @ [event])})"
proof -
  from normalized_task [OF assms(1)] obtain task where t: "normalize_text E task_id = Some task"
      "normalize_text E task = Some task" by blast
  obtain h where h: "load_history E W P stored project task = Inr h"
    using assms(1) t(1) unfolding record_outcome_def by auto
  then have l: "load_history E W P stored project task_id = Inr h" using t by (simp add: load_history_Inr)
  obtain task' raw where f: "normalize_text E task_id = Some task'"
    "fits E project task' (length h + 1) (if h = [] then None else Some (last (contents (dir_of stored)))) h raw event"
    "link_file (event_file (length h + 1)) raw (dir_of stored) = Inr d" "expected_stage h = Some stage"
    using recorded_fits [OF assms(1) l] by blast
  from f(2) have raw: "event_bytes E event = Some raw" "we_sequence event = int (length h + 1)"
      "Some (we_stage event) = expected_stage h" by (simp_all add: fits_def)
  have n: "length h + 1 < 10 ^ 8" using assms(2) raw(2) by simp
  note ext = load_history_extended [OF l f(1) n f(2) assms(3)]
  have "d = add_file (event_file (length h + 1)) raw (dir_of stored)" by (rule link_file_free [OF ext(2) f(3)])
  with ext(1) have "load_history E W P (Some d) project task_id = Inr (h @ [event])" by simp
  moreover have "load_history E W P (Some e) project task_id \<in> {Inr h, Inr (h @ [event])}"
    if "is_temp temp" "append_point temp (event_file (length h + 1)) raw (dir_of stored) e" for temp e
    using append_point_loads [OF l f(1) n f(2) assms(3) that(2,1)] by simp
  ultimately show ?thesis using l f(4) raw by auto
qed

theorem recorded_outcome_is_loaded_witness:
  "load_history demo_env task_wire task_place (Some [(event_file 1, task_bytes)]) (lit ''demo'') (lit '' T-1'') = Inr [task_event]"
proof -
  have "we_sequence task_event < 10 ^ 8" by (simp add: task_event_def)
  from recorded_outcome_is_loaded [OF task_recorded this task_loads_back] task_empty show ?thesis by auto
qed

text \<open>C17: the history a load returns is a path of the transition table from the initial
stage: the events are numbered from 1, each is of the stage that the events before it expect, all are
valid and of the requested project, and each carries the digest of the bytes of the one before, the first
none.\<close>

theorem loaded_history_is_a_path:
  assumes "load_history E W P stored project task_id = Inr h" and "i < length h"
  shows "we_sequence (h ! i) = int i + 1 \<and> expected_stage (take i h) = Some (we_stage (h ! i))
    \<and> we_project_id (h ! i) = project \<and> validate_workflow_event E (h ! i) = Some (h ! i)
    \<and> (if i = 0 then we_stage (h ! i) = PLAN_REVIEW \<and> we_parent_digest (h ! i) = None
       else next_stage_after (h ! (i - 1)) = Some (we_stage (h ! i))
            \<and> (\<exists>b. event_bytes E (h ! (i - 1)) = Some b \<and> we_parent_digest (h ! i) = Some (sha256 E b)))"
proof -
  note f = load_history_path [OF assms]
  have "take i h \<noteq> []" "last (take i h) = h ! (i - 1)" if "0 < i"
    using that assms(2) by (cases i; auto simp: take_Suc_conv_app_nth)+
  then show ?thesis using f by (auto simp: expected_stage_def INITIAL_STAGE_def)
qed

theorem loaded_history_is_a_path_witness:
  "we_sequence ([task_event] ! 0) = 1 \<and> we_stage ([task_event] ! 0) = PLAN_REVIEW"
  using loaded_history_is_a_path [OF task_loaded, of 0] by simp
section \<open>Recovery\<close>

text \<open>C20: a recovery command, whichever of the four and whatever its arguments, leaves a record
of the schema with one new entry at the end of that command's ledger, every other ledger as it was, the state
the table of post-states names - never an approval state and never DONE -, the cleared stop
reason, and at most one review round given back: no counter rises, and only \<open>recover-failed-review\<close> lowers
one, that one by one. (The current milestone and the time of the update are set as well.) Completed milestones, findings, approvals, provider runs, verification results and every
identity are untouched. And no recovery command accepts the record a recovery left.\<close>

theorem recovery_is_confined:
  assumes "validate_run_record E r = Some r" and "recovery_step E files directory r out"
  shows "validate_run_record E (oc_record out) = Some (oc_record out)
    \<and> rr_workflow_state r \<in> set (RECOVERY_ENTRY_STATES (oc_command out))
    \<and> rr_workflow_state (oc_record out) = RECOVERY_POST_STATES (oc_command out)
    \<and> rr_workflow_state (oc_record out) \<notin> set FORBIDDEN_RECOVERY_POST_STATES
    \<and> rr_stop_reason (oc_record out) = None
    \<and> (\<forall>g. ledger_of g (oc_record out)
          = ledger_of g r @ (if g = RECOVERY_LEDGER_FIELDS (oc_command out) then [oc_entry out] else []))
    \<and> (\<forall>c. counter_value (oc_record out) c
          = counter_value r c - (if oc_command out = RECOVER_FAILED_REVIEW \<and> c = F_SUCCESSFUL_REVIEW_ROUNDS then 1 else 0))
    \<and> immovable_equal r (oc_record out)
    \<and> rr_verification_results (oc_record out) = rr_verification_results r
    \<and> rr_milestone_checkpoints (oc_record out) = rr_milestone_checkpoints r
    \<and> (\<forall>again. \<not> recovery_step E files directory (oc_record out) again)"
proof -
  have r: "recovers E r out" by (rule recovery_step_recovers [OF assms])
  show ?thesis
    using r recovers_record [OF r] no_second_recovery [OF r] post_state_plain(2) [of "oc_command out"]
    by (simp add: recovers_def Let_def)
qed

theorem recovery_is_confined_witness:
  "immovable_equal stopped_record (oc_record review_recovered)
   \<and> ledger_of L_REVIEW_RECOVERIES (oc_record review_recovered) = [review_entry]
   \<and> \<not> recovery_step demo_env (\<lambda>_. None) [] (oc_record review_recovered) review_recovered"
  using recovery_is_confined [OF stopped_canonical review_recovery_step [of "\<lambda>_. None" "[]"]]
  by (simp add: review_recovered_def stopped_record_def demo_record_def)

text \<open>C@failed_review_recovery_is_exact: \<open>recover-failed-review\<close> succeeds exactly when the run stopped for a
human, reason and ruling are not blank, a review round was consumed, the latest review invocation failed with
exactly the class the caller names, and the ledger entry is valid and not yet recorded; every later check of
the command - the ledger comparison, the counters, the immovable fields - never refuses. What it then leaves is
the record with that entry appended, one review round fewer and the run back in REVIEWING.\<close>

theorem failed_review_recovery_is_exact:
  assumes "validate_run_record E r = Some r"
  shows "recover_failed_review E r classification ruling reason context = Inr out \<longleftrightarrow>
    rr_workflow_state r = HUMAN_INTERVENTION_REQUIRED \<and> strip reason \<noteq> [] \<and> strip ruling \<noteq> []
    \<and> 1 \<le> rr_successful_review_rounds r
    \<and> (\<exists>invocation entry. latest_review_invocation r = Inr invocation
         \<and> pr_failure_class invocation = Some classification
         \<and> ledger_entry E r RECOVER_FAILED_REVIEW (strip reason) context (pr_milestone_id invocation)
              [(lit ''successful_review_rounds'', -1)] (Some classification) (Some (strip ruling)) = Inr entry
         \<and> entry \<notin> set (rr_review_recoveries r)
         \<and> out = \<lparr>oc_command = RECOVER_FAILED_REVIEW,
                  oc_record = recovered r entry (rr_current_milestone r) (Some (rr_successful_review_rounds r - 1)),
                  oc_entry = entry, oc_reconstructed = False, oc_evidence_digest = None,
                  oc_corrected_plan = None\<rparr>)"
  by (rule recover_failed_review_Inr [OF assms])

theorem failed_review_recovery_is_exact_witness:
  "rr_workflow_state stopped_record = HUMAN_INTERVENTION_REQUIRED
   \<and> (\<exists>entry. entry \<notin> set (rr_review_recoveries stopped_record)
        \<and> oc_record review_recovered
            = recovered stopped_record entry None (Some (rr_successful_review_rounds stopped_record - 1)))"
proof -
  have milestone: "rr_current_milestone stopped_record = None"
    by (simp add: stopped_record_def demo_record_def)
  show ?thesis
    using failed_review_recovery_is_exact [OF stopped_canonical, of TIMEOUT "lit ''review again''" "lit ''timed out''"
        recovery_moment review_recovered, THEN iffD1, OF review_is_recovered, unfolded milestone]
    by (metis recovery_outcome.select_convs(2))
qed

text \<open>C21: before a recovery is published its ledger entry and its record are redacted.
Redaction can only change the reason, the branch and the ruling of an entry; where the result is no longer a
valid entry the publication fails with that validation error. Otherwise, from a record of the schema in which
redaction finds nothing, the mutation - the counter update if the entry touches a budget, the ledger append, the
transition - can always be planned: every intermediate record satisfies the schema, the transition is one the
table allows, the steps chain, and they end in the record the command returned with the redacted entry in the
place of its entry, which is the redacted outcome, so the refusals for a redacted record that is invalid, for an
undeclared transition and for a body that differs never occur.\<close>

theorem recovery_is_published_whole:
  assumes "validate_run_record E r = Some r" and "recovery_step E files directory r out" and "clean_record E r"
  shows "case redacted_entry E (oc_entry out) of
      None \<Rightarrow> recovery_constituents E r out = Inl EntryInvalid
    | Some e \<Rightarrow> e = entry_redacted E (oc_entry out)
        \<and> (\<exists>steps. recovery_constituents E r out = Inr (e, steps)
             \<and> map fst steps = (if oc_command out = RECOVER_FAILED_REVIEW then [RUN_RECORD_UPDATED] else [])
                 @ [RECOVERY_LEDGER_APPENDED, STATE_TRANSITIONED]
             \<and> map (fst \<circ> snd) steps @ [redacted_outcome r out e] = r # map (snd \<circ> snd) steps
             \<and> (\<forall>s \<in> set steps. validate_run_record E (snd (snd s)) = Some (snd (snd s))))"
proof (cases "redacted_entry E (oc_entry out)")
  case None
  then show ?thesis using recovery_refused by simp
next
  case (Some e)
  then show ?thesis
    using recovery_publishes [OF assms(1) recovery_step_recovers [OF assms(1,2)] assms(3) Some]
      redacted_entry_Some(1) [OF Some]
    by (simp only: option.case simp_thms)
qed

theorem recovery_is_published_whole_witness:
  "\<exists>steps. recovery_constituents demo_env stopped_record secret_recovered = Inr (published_entry, steps)
    \<and> map fst steps = [RUN_RECORD_UPDATED, RECOVERY_LEDGER_APPENDED, STATE_TRANSITIONED]
    \<and> snd (snd (last steps)) = (oc_record secret_recovered)\<lparr>rr_review_recoveries := [published_entry]\<rparr>"
proof -
  have entry: "oc_entry secret_recovered = secret_entry" "oc_command secret_recovered = RECOVER_FAILED_REVIEW"
    by (simp_all add: secret_recovered_def review_recovered_def)
  obtain steps where s: "recovery_constituents demo_env stopped_record secret_recovered = Inr (published_entry, steps)"
    "map fst steps = [RUN_RECORD_UPDATED, RECOVERY_LEDGER_APPENDED, STATE_TRANSITIONED]"
    "map (fst \<circ> snd) steps @ [redacted_outcome stopped_record secret_recovered published_entry]
       = stopped_record # map (snd \<circ> snd) steps"
    using recovery_is_published_whole [OF stopped_canonical secret_recovery_step [of "\<lambda>_. None" "[]"] stopped_clean]
    by (auto simp: entry secret_is_redacted)
  have "redacted_outcome stopped_record secret_recovered published_entry
      = (oc_record secret_recovered)\<lparr>rr_review_recoveries := [published_entry]\<rparr>"
    by (simp add: redacted_outcome_def Let_def entry stopped_record_def demo_record_def)
  moreover have "last (stopped_record # map (snd \<circ> snd) steps) = snd (snd (last steps))"
    using s(2) by (auto simp: last_map)
  ultimately have "snd (snd (last steps)) = (oc_record secret_recovered)\<lparr>rr_review_recoveries := [published_entry]\<rparr>"
    using arg_cong [OF s(3), of last] by (simp only: last_snoc)
  then show ?thesis using s(1,2) by (intro exI [of _ steps] conjI)
qed

section \<open>Verification and the governance gate\<close>

text \<open>C23: whatever the disk answers and however the command and the executor end, running
a verification command overwrites nothing but the sequence counter, because the counter is written before
the transcripts it numbers and stays above them. When the executor returns, the record says PASS exactly
when the process existed and exited with 0, both references name files that hold the complete captured
output after redaction, and exactly one number was used.\<close>

theorem verification_keeps_evidence:
  assumes "transcripts_numbered (xe_foreign X) (rd_run (es_disk s))" and "run_verification X argv timeout_seconds purpose s = (t, r)"
  shows "transcripts_numbered (xe_foreign X) (rd_run (es_disk t))
    \<and> (\<forall>p. p \<noteq> counter_path \<and> rd_run (es_disk s) p \<noteq> None \<longrightarrow> rd_run (es_disk t) p = rd_run (es_disk s) p)
    \<and> (\<forall>out. r = Inr out \<longrightarrow>
         vr_passed (vo_result out)
           = (\<exists>stdout stderr elapsed. xe_spawn X (es_barriers s) argv timeout_seconds = (Completed 0 stdout stderr, elapsed))
         \<and> output_kept (xe_env X) (rd_run (es_disk t)) out
         \<and> (\<exists>n. read_transcript_sequence (xe_foreign X) (rd_run (es_disk s)) = Inr n
              \<and> read_transcript_sequence (xe_foreign X) (rd_run (es_disk t)) = Inr (n + 1)))"
proof (intro conjI allI impI)
  note k = keeping_run [OF run_verification_keeps assms]
  show "transcripts_numbered (xe_foreign X) (rd_run (es_disk t))" by (rule k(1))
  show "rd_run (es_disk t) p = rd_run (es_disk s) p" if "p \<noteq> counter_path \<and> rd_run (es_disk s) p \<noteq> None" for p
    using k(2) that by blast
next
  fix out
  assume "r = Inr out"
  note f = run_verification_returns [OF assms(2)[unfolded this]]
  show "vr_passed (vo_result out)
      = (\<exists>stdout stderr elapsed. xe_spawn X (es_barriers s) argv timeout_seconds = (Completed 0 stdout stderr, elapsed))"
    by (rule f(1))
  show "output_kept (xe_env X) (rd_run (es_disk t)) out" by (rule f(3))
  show "\<exists>n. read_transcript_sequence (xe_foreign X) (rd_run (es_disk s)) = Inr n
      \<and> read_transcript_sequence (xe_foreign X) (rd_run (es_disk t)) = Inr (n + 1)"
    by (rule f(4))
qed

theorem verification_keeps_evidence_witness:
  "\<exists>t out. run_verification check_executor [lit ''h''] 60 None check_store = (t, Inr out)
     \<and> vr_passed (vo_result out) \<and> output_kept demo_env (rd_run (es_disk t)) out"
proof -
  obtain t r where run: "run_verification check_executor [lit ''h''] 60 None check_store = (t, r)" by fastforce
  with check_run obtain out where out: "r = Inr out" "vr_passed (vo_result out)" by (cases r) auto
  have "xe_env check_executor = demo_env" by (simp add: check_executor_def)
  then show ?thesis using verification_keeps_evidence [OF store_numbered run] run out by auto
qed

text \<open>C24: the gate opens exactly when every required check has reported exactly once and no
other has, no check reported ERROR, every check but git reported PASS without a finding, and git reported PASS
or FAIL with no finding other than \<open>upstream_missing\<close>, a FAIL with at least that one.\<close>

theorem governance_gate_is_exact:
  "(\<exists>d. evaluate_governance_gate results checks = Inr d) \<longleftrightarrow>
     distinct (map cr_check_name results) \<and> set (map cr_check_name results) = set checks
     \<and> (\<forall>result \<in> set results. cr_status result \<noteq> CHECK_ERROR
          \<and> (if cr_check_name result = lit ''git''
             then set (cr_finding_codes result) \<subseteq> {lit ''upstream_missing''}
               \<and> (cr_status result = CHECK_FAIL \<longrightarrow> cr_finding_codes result \<noteq> [])
             else cr_status result = CHECK_PASS \<and> cr_finding_codes result = []))"
  unfolding evaluate_governance_gate_Inr check_satisfied_def GOVERNANCE_GIT_CHECK_def by auto

theorem governance_gate_is_exact_witness:
  "\<exists>d. evaluate_governance_gate
     [\<lparr>cr_check_name = lit ''git'', cr_status = CHECK_FAIL, cr_finding_codes = [lit ''upstream_missing'']\<rparr>] [lit ''git''] = Inr d"
  unfolding governance_gate_is_exact by simp

text \<open>C25: when the executor's gate opens, the configured commands are exactly the required checks,
each was run, neither timed out nor failed to spawn, and printed a document that names that very check and
passes the rule for it - and the complete output of all of them, those run first included, is in the run
directory at the end, where no earlier file has been touched.\<close>

theorem gate_rests_on_evidence:
  assumes "transcripts_numbered (xe_foreign X) (rd_run (es_disk s))"
    and "run_governance_gate X read_json commands checks s = (t, Inr d)"
  shows "distinct checks \<and> set (map fst commands) = set checks \<and> length (gd_outcomes d) = length checks
    \<and> length (gd_checks d) = length checks
    \<and> (\<forall>i < length checks.
         check_evidence X read_json (map_of commands) (rd_run (es_disk t)) (checks ! i) (gd_outcomes d ! i) (gd_checks d ! i)
         \<and> check_satisfied (checks ! i) (gd_checks d ! i))
    \<and> (\<forall>p. p \<noteq> counter_path \<and> rd_run (es_disk s) p \<noteq> None \<longrightarrow> rd_run (es_disk t) p = rd_run (es_disk s) p)"
  using gate_returns [OF assms(2,1)] keeping_run(2) [OF keeping_gate assms] by auto

theorem gate_rests_on_evidence_witness:
  "\<exists>t d. run_governance_gate check_executor check_document check_commands check_needed check_store = (t, Inr d)
     \<and> check_satisfied (lit ''git'') (gd_checks d ! 0)"
proof -
  obtain t r where run: "run_governance_gate check_executor check_document check_commands check_needed check_store = (t, r)"
    by fastforce
  with check_gate obtain d where d: "r = Inr d" by (cases r) auto
  have "0 < length check_needed" "check_needed ! 0 = lit ''git''" by (simp_all add: check_needed_def)
  then show ?thesis using gate_rests_on_evidence [OF store_numbered run[unfolded d]] run d by auto
qed

end
